(* ===== verification/Prelude.thy ===== *)
theory Prelude
  imports Main "HOL-Library.Sublist"
begin

text \<open>
  Shared vocabulary of the development: the \<open>arrow::Status\<close> / \<open>arrow::Result\<close> values every
  server operation returns, and the byte-string operations of the C++ standard library and
  of Boost that the modelled code calls (\<open>toupper\<close>, \<open>isspace\<close>, \<open>find\<close>, \<open>trim\<close>, \<open>getline\<close>,
  \<open>stoi\<close>, \<open>to_string\<close>). Strings are lists of bytes; the classification functions are those
  of the C locale, in which the programs run. The generic lemmas are collected in
  \<open>str_simps\<close> so that the component proofs can name them as one bundle.
\<close>

named_theorems str_simps \<open>facts about the string operations of the C++ library\<close>
named_theorems gate_simps \<open>facts that open the early returns of a status computation\<close>

section \<open>Status and Result\<close>

datatype status_code =
    Invalid | KeyError | ExecutionError | IOError | Unauthenticated | IndexError | TypeError
  | UnknownError | Cancelled | NotImplemented

datatype status = Status (code: status_code) (message: string)

type_synonym 'a result = "status + 'a"

abbreviation ok :: "'a \<Rightarrow> 'a result" where
  "ok \<equiv> Inr"

abbreviation fail :: "status_code \<Rightarrow> string \<Rightarrow> 'a result" where
  "fail c m \<equiv> Inl (Status c m)"

definition is_ok :: "'a result \<Rightarrow> bool" where
  "is_ok r = (case r of Inl _ \<Rightarrow> False | Inr _ \<Rightarrow> True)"

text \<open>The macros \<open>ARROW_ASSIGN_OR_RAISE\<close> and \<open>ARROW_RETURN_NOT_OK\<close>: return the error early.\<close>

definition rbind :: "'a result \<Rightarrow> ('a \<Rightarrow> 'b result) \<Rightarrow> 'b result" where
  "rbind r f = (case r of Inl e \<Rightarrow> Inl e | Inr x \<Rightarrow> f x)"

lemma rbind_simps [simp, gate_simps]:
  "rbind (Inl e) f = Inl e"
  "rbind (Inr x) f = f x"
  by (simp_all add: rbind_def)

lemma rbind_ok_iff [gate_simps]: "rbind r f = Inr y \<longleftrightarrow> (\<exists>x. r = Inr x \<and> f x = Inr y)"
  by (cases r) simp_all

lemma is_ok_simps [simp, gate_simps]: "is_ok (Inr x)" "\<not> is_ok (Inl e)"
  by (simp_all add: is_ok_def)

lemma is_ok_iff: "is_ok r \<longleftrightarrow> (\<exists>x. r = Inr x)"
  by (cases r) simp_all

section \<open>Characters of the C locale\<close>

definition is_space :: "char \<Rightarrow> bool" where
  "is_space c \<longleftrightarrow>
     c = CHR '' '' \<or> c = CHR 0x09 \<or> c = CHR 0x0A \<or> c = CHR 0x0B \<or> c = CHR 0x0C \<or> c = CHR 0x0D"

definition is_lower :: "char \<Rightarrow> bool" where
  "is_lower c \<longleftrightarrow> (97::nat) \<le> of_char c \<and> of_char c \<le> (122::nat)"

definition is_upper :: "char \<Rightarrow> bool" where
  "is_upper c \<longleftrightarrow> (65::nat) \<le> of_char c \<and> of_char c \<le> (90::nat)"

definition is_digit :: "char \<Rightarrow> bool" where
  "is_digit c \<longleftrightarrow> (48::nat) \<le> of_char c \<and> of_char c \<le> (57::nat)"

definition is_alpha :: "char \<Rightarrow> bool" where
  "is_alpha c \<longleftrightarrow> is_lower c \<or> is_upper c"

definition toupper :: "char \<Rightarrow> char" where
  "toupper c = (if is_lower c then char_of (of_char c - (32::nat)) else c)"

definition tolower :: "char \<Rightarrow> char" where
  "tolower c = (if is_upper c then char_of (of_char c + (32::nat)) else c)"

definition to_upper :: "string \<Rightarrow> string" where
  "to_upper s = map toupper s"

definition to_lower :: "string \<Rightarrow> string" where
  "to_lower s = map tolower s"

lemma of_char_toupper [str_simps]:
  "of_char (toupper c) = (if is_lower c then of_char c - (32::nat) else of_char c)"
proof -
  have "of_char c - (32::nat) < 256"
    by (metis diff_le_self le_less_trans mod_less_divisor of_char_mod_256 zero_less_numeral)
  then show ?thesis by (simp add: toupper_def)
qed

lemma toupper_not_lower_iff:
  "\<not> is_alpha d \<Longrightarrow> toupper c = d \<longleftrightarrow> c = d"
proof -
  assume d: "\<not> is_alpha d"
  have "is_upper (toupper c)" if "is_lower c"
    using that by (auto simp: is_upper_def is_lower_def of_char_toupper)
  then show ?thesis
    using d by (auto simp: is_alpha_def toupper_def)
qed

lemma length_to_upper [simp, str_simps]: "length (to_upper s) = length s"
  by (simp add: to_upper_def)

lemma length_to_lower [simp, str_simps]: "length (to_lower s) = length s"
  by (simp add: to_lower_def)

lemma to_upper_append [str_simps]: "to_upper (s @ t) = to_upper s @ to_upper t"
  by (simp add: to_upper_def)

lemma to_upper_take [str_simps]: "to_upper (take n s) = take n (to_upper s)"
  by (simp add: to_upper_def take_map)

lemma to_upper_drop [str_simps]: "to_upper (drop n s) = drop n (to_upper s)"
  by (simp add: to_upper_def drop_map)

abbreviation squote :: char where "squote \<equiv> CHR 0x27"
abbreviation dquote :: char where "dquote \<equiv> CHR 0x22"
abbreviation bslash :: char where "bslash \<equiv> CHR 0x5C"
abbreviation newline :: char where "newline \<equiv> CHR 0x0A"
abbreviation creturn :: char where "creturn \<equiv> CHR 0x0D"
abbreviation tabchar :: char where "tabchar \<equiv> CHR 0x09"

section \<open>Searching and cutting\<close>

text \<open>\<open>s.find(c)\<close> and \<open>s.rfind(c)\<close> for one byte, \<open>s.find(p)\<close> for a string; \<open>npos\<close> is \<open>None\<close>.\<close>

fun find_char :: "char \<Rightarrow> string \<Rightarrow> nat option" where
  "find_char c [] = None"
| "find_char c (x # xs) = (if x = c then Some 0 else map_option Suc (find_char c xs))"

definition rfind_char :: "char \<Rightarrow> string \<Rightarrow> nat option" where
  "rfind_char c s = map_option (\<lambda>i. length s - Suc i) (find_char c (rev s))"

fun find_sub :: "string \<Rightarrow> string \<Rightarrow> nat option" where
  "find_sub p [] = (if p = [] then Some 0 else None)"
| "find_sub p (x # xs) =
     (if prefix p (x # xs) then Some 0 else map_option Suc (find_sub p xs))"

definition contains :: "string \<Rightarrow> string \<Rightarrow> bool" where
  "contains s p \<longleftrightarrow> find_sub p s \<noteq> None"

text \<open>\<open>boost::algorithm::trim_left\<close>, \<open>trim_right\<close> and \<open>trim\<close>.\<close>

definition trim_left :: "string \<Rightarrow> string" where
  "trim_left s = dropWhile is_space s"

definition trim_right :: "string \<Rightarrow> string" where
  "trim_right s = rev (dropWhile is_space (rev s))"

definition trim :: "string \<Rightarrow> string" where
  "trim s = trim_right (trim_left s)"

text \<open>
  The loop \<open>while (std::getline(stream, token, d))\<close>: the tokens between delimiters; the text
  after the last delimiter is a token only when it is not empty.
\<close>

function getlines :: "char \<Rightarrow> string \<Rightarrow> string list" where
  "getlines d [] = []"
| "getlines d (c # cs) =
     takeWhile (\<lambda>x. x \<noteq> d) (c # cs)
       # getlines d (drop 1 (dropWhile (\<lambda>x. x \<noteq> d) (c # cs)))"
  by pat_completeness auto
termination
proof (relation "measure (\<lambda>(d, s). length s)", goal_cases)
  case (2 d c cs)
  have "length (dropWhile (\<lambda>x. x \<noteq> d) (c # cs)) \<le> length (c # cs)"
    by (rule length_dropWhile_le)
  then show ?case by simp
qed simp

lemma find_char_None [str_simps]: "find_char c s = None \<longleftrightarrow> c \<notin> set s"
  by (induction s) auto

lemma find_char_append [str_simps]: "c \<notin> set s \<Longrightarrow> find_char c (s @ c # t) = Some (length s)"
  by (induction s) auto

lemma find_char_append_notin [str_simps]:
  "c \<notin> set s \<Longrightarrow> find_char c (s @ t) = map_option (\<lambda>i. length s + i) (find_char c t)"
  by (cases "find_char c t"; induction s) auto

lemma find_char_Some:
  "find_char c s = Some i \<Longrightarrow> i < length s \<and> s ! i = c \<and> c \<notin> set (take i s)"
proof (induction s arbitrary: i)
  case Nil
  then show ?case by simp
next
  case (Cons x xs)
  then show ?case by (cases i) (auto split: if_splits)
qed

lemma rfind_char_append [str_simps]:
  "c \<notin> set t \<Longrightarrow> rfind_char c (s @ c # t) = Some (length s)"
  by (simp add: rfind_char_def find_char_append)

lemma rfind_char_None [str_simps]: "rfind_char c s = None \<longleftrightarrow> c \<notin> set s"
  by (simp add: rfind_char_def find_char_None)

lemma contains_iff: "contains s p \<longleftrightarrow> sublist p s"
  by (induction s) (auto simp: contains_def sublist_Cons_right)

lemma contains_Nil [str_simps]: "contains [] p \<longleftrightarrow> p = []"
  by (simp add: contains_def)

lemma find_sub_prefix [str_simps]: "prefix p s \<Longrightarrow> find_sub p s = Some 0"
  by (cases s) auto

lemma find_sub_head: "find_sub p s = Some 0 \<longleftrightarrow> prefix p s"
  by (cases s) auto

text \<open>The first occurrence of a pattern whose first byte does not occur before it.\<close>

lemma find_sub_append [str_simps]:
  assumes "p = c # p'" and "c \<notin> set s"
  shows "find_sub p (s @ p @ t) = Some (length s)"
  using assms(2)
proof (induction s)
  case Nil
  then show ?case by (simp add: find_sub_prefix)
next
  case (Cons x xs)
  then show ?case using assms(1) by auto
qed

lemma find_sub_bound: "find_sub p s = Some i \<Longrightarrow> i + length p \<le> length s"
  by (induction s arbitrary: i) (auto dest: prefix_length_le split: if_splits)

lemma find_sub_None_char: "p = c # p' \<Longrightarrow> c \<notin> set s \<Longrightarrow> find_sub p s = None"
  by (induction s) auto

lemma trim_right_no_space: "s = [] \<or> \<not> is_space (last s) \<Longrightarrow> trim_right s = s"
  by (cases s rule: rev_cases) (auto simp: trim_right_def)

lemma trim_left_no_space: "s = [] \<or> \<not> is_space (hd s) \<Longrightarrow> trim_left s = s"
  by (cases s) (auto simp: trim_left_def)

lemma getlines_no_delim [str_simps]: "d \<notin> set s \<Longrightarrow> s \<noteq> [] \<Longrightarrow> getlines d s = [s]"
proof (cases s)
  case (Cons c cs)
  assume "d \<notin> set s"
  then have all: "\<And>x. x \<in> set (c # cs) \<Longrightarrow> x \<noteq> d" using Cons by auto
  then have "takeWhile (\<lambda>x. x \<noteq> d) (c # cs) = c # cs"
    by (intro takeWhile_eq_all_conv [THEN iffD2]) auto
  moreover have "dropWhile (\<lambda>x. x \<noteq> d) (c # cs) = []"
    using all by (simp add: dropWhile_eq_Nil_conv)
  ultimately show ?thesis using Cons by simp
qed simp

lemma getlines_cons [str_simps]:
  assumes "d \<notin> set s"
  shows "getlines d (s @ d # t) = s # getlines d t"
proof -
  obtain c cs where cs: "s @ d # t = c # cs" by (cases "s @ d # t") auto
  have tw: "takeWhile (\<lambda>x. x \<noteq> d) (s @ d # t) = s"
    using assms by (subst takeWhile_append2) auto
  have dw: "dropWhile (\<lambda>x. x \<noteq> d) (s @ d # t) = d # t"
    using assms by (subst dropWhile_append2) auto
  show ?thesis
    using tw dw unfolding cs getlines.simps by simp
qed

section \<open>Numbers as text\<close>

definition digit_char :: "nat \<Rightarrow> char" where
  "digit_char n = char_of (48 + n)"

definition digit_val :: "char \<Rightarrow> nat" where
  "digit_val c = of_char c - 48"

fun show_nat :: "nat \<Rightarrow> string" where
  "show_nat n = (if n < 10 then [digit_char n] else show_nat (n div 10) @ [digit_char (n mod 10)])"

declare show_nat.simps [simp del]

text \<open>\<open>std::to_string\<close> and \<open>operator<<\<close> on an integer.\<close>

definition show_int :: "int \<Rightarrow> string" where
  "show_int i = (if i < 0 then ''-'' @ show_nat (nat (- i)) else show_nat (nat i))"

definition read_digits :: "string \<Rightarrow> nat" where
  "read_digits ds = foldl (\<lambda>n c. 10 * n + digit_val c) 0 ds"

text \<open>
  \<open>std::stoi\<close>: skips white space, takes a sign and the longest run of digits; no digit is
  \<open>invalid_argument\<close>, a value outside \<open>int\<close> is \<open>out_of_range\<close>, both \<open>None\<close> here. What
  follows the digits is ignored.
\<close>

definition stoi_range :: "int \<Rightarrow> int option" where
  "stoi_range v = (if - 2147483648 \<le> v \<and> v \<le> 2147483647 then Some v else None)"

definition stoi_digits :: "string \<Rightarrow> nat option" where
  "stoi_digits s =
     (let ds = takeWhile is_digit s in if ds = [] then None else Some (read_digits ds))"

definition stoi :: "string \<Rightarrow> int option" where
  "stoi s =
     (case dropWhile is_space s of
        [] \<Rightarrow> None
      | c # cs \<Rightarrow>
          (if c = CHR ''-'' then Option.bind (stoi_digits cs) (\<lambda>n. stoi_range (- int n))
           else if c = CHR ''+'' then Option.bind (stoi_digits cs) (\<lambda>n. stoi_range (int n))
           else Option.bind (stoi_digits (c # cs)) (\<lambda>n. stoi_range (int n))))"

lemma of_char_digit_char: "n < 10 \<Longrightarrow> of_char (digit_char n) = 48 + n"
  by (simp add: digit_char_def)

lemma digit_val_digit_char [simp, str_simps]: "n < 10 \<Longrightarrow> digit_val (digit_char n) = n"
  by (simp add: digit_val_def of_char_digit_char)

lemma is_digit_digit_char [simp, str_simps]: "n < 10 \<Longrightarrow> is_digit (digit_char n)"
  by (simp add: is_digit_def of_char_digit_char)

lemma show_nat_digits [str_simps]: "\<forall>c \<in> set (show_nat n). is_digit c"
proof (induction n rule: show_nat.induct)
  case (1 n)
  then show ?case by (subst show_nat.simps) auto
qed

lemma show_nat_nonempty [simp, str_simps]: "show_nat n \<noteq> []"
  by (subst show_nat.simps) simp

lemma read_digits_show_nat [simp, str_simps]: "read_digits (show_nat n) = n"
proof (induction n rule: show_nat.induct)
  case (1 n)
  show ?case
  proof (cases "n < 10")
    case True
    then show ?thesis by (subst show_nat.simps) (simp add: read_digits_def)
  next
    case False
    with 1 have "read_digits (show_nat (n div 10)) = n div 10" by simp
    with False show ?thesis
      by (subst show_nat.simps) (simp add: read_digits_def)
  qed
qed

lemma stoi_digits_show_nat [str_simps]: "stoi_digits (show_nat n) = Some n"
proof -
  have "takeWhile is_digit (show_nat n) = show_nat n"
    using show_nat_digits by (simp add: takeWhile_eq_all_conv)
  then show ?thesis by (simp add: stoi_digits_def Let_def del: takeWhile_eq_all_conv)
qed

lemma digit_not_space: "is_digit c \<Longrightarrow> \<not> is_space c"
  by (auto simp: is_digit_def is_space_def)

lemma digit_not_sign: "is_digit c \<Longrightarrow> c \<noteq> CHR ''-'' \<and> c \<noteq> CHR ''+''"
  by (auto simp: is_digit_def)

text \<open>Every \<open>int\<close> survives printing and \<open>stoi\<close>.\<close>

lemma stoi_show_int [str_simps]:
  assumes "- 2147483648 \<le> i" and "i \<le> 2147483647"
  shows "stoi (show_int i) = Some i"
proof (cases "i < 0")
  case True
  then show ?thesis
    using assms
    by (simp add: show_int_def stoi_def is_space_def stoi_digits_show_nat stoi_range_def)
next
  case False
  obtain c cs where c: "show_nat (nat i) = c # cs"
    by (cases "show_nat (nat i)") auto
  have "is_digit c" using show_nat_digits [of "nat i"] c by simp
  then have "\<not> is_space c" "c \<noteq> CHR ''-''" "c \<noteq> CHR ''+''"
    using digit_not_space digit_not_sign by auto
  moreover have "stoi_digits (c # cs) = Some (nat i)"
    using stoi_digits_show_nat [of "nat i"] c by simp
  ultimately show ?thesis
    using assms False c by (simp add: show_int_def stoi_def stoi_range_def)
qed

section \<open>Integer division of C++\<close>

text \<open>\<open>/\<close> and \<open>%\<close> on signed integers truncate towards zero.\<close>

definition cdiv :: "int \<Rightarrow> int \<Rightarrow> int" where
  "cdiv a b = sgn a * sgn b * (\<bar>a\<bar> div \<bar>b\<bar>)"

definition cmod :: "int \<Rightarrow> int \<Rightarrow> int" where
  "cmod a b = a - cdiv a b * b"

lemma cdiv_nonneg [simp]: "0 \<le> a \<Longrightarrow> 0 < b \<Longrightarrow> cdiv a b = a div b"
  by (simp add: cdiv_def sgn_if)

lemma cmod_nonneg [simp]: "0 \<le> a \<Longrightarrow> 0 < b \<Longrightarrow> cmod a b = a mod b"
  by (simp add: cmod_def minus_div_mult_eq_mod)

end
