(* ===== verification/Quoting.thy ===== *)
theory Quoting
  imports Prelude
begin

text \<open>
  Quoting by doubling the quote character, used for SQL identifiers
  (\<open>QuoteIdent\<close> of \<open>duckdb_server.cpp\<close>) and for SQL string literals (\<open>SqlEscape\<close> of the client's
  \<open>output_renderer.cpp\<close>). The interface \<open>quoting\<close> states what such a function promises; its
  lemmas say that a reader of quoted text gets the original bytes back, whatever they are and
  whatever follows. Both functions are interpreted below.
\<close>

section \<open>The reader of quoted text\<close>

text \<open>
  What a SQL lexer does after an opening quote: two quotes are one quote of the content, one quote
  ends the token. The result is the content and the text after the token.
\<close>

fun read_quoted :: "char \<Rightarrow> string \<Rightarrow> (string \<times> string) option" where
  "read_quoted q [] = None"
| "read_quoted q [c] = (if c = q then Some ([], []) else None)"
| "read_quoted q (c # d # cs) =
     (if c = q
      then (if d = q then map_option (\<lambda>(s, r). (q # s, r)) (read_quoted q cs)
            else Some ([], d # cs))
      else map_option (\<lambda>(s, r). (c # s, r)) (read_quoted q (d # cs)))"

definition read_token :: "char \<Rightarrow> string \<Rightarrow> (string \<times> string) option" where
  "read_token q s = (case s of [] \<Rightarrow> None | c # cs \<Rightarrow> if c = q then read_quoted q cs else None)"

fun double_char :: "char \<Rightarrow> string \<Rightarrow> string" where
  "double_char q [] = []"
| "double_char q (c # cs) = (if c = q then q # q # double_char q cs else c # double_char q cs)"

lemma read_quoted_double:
  assumes "rest = [] \<or> hd rest \<noteq> q"
  shows "read_quoted q (double_char q s @ q # rest) = Some (s, rest)"
proof (induction s)
  case Nil
  then show ?case using assms by (cases rest) auto
next
  case (Cons c cs)
  obtain d ds where d: "double_char q cs @ q # rest = d # ds"
    by (cases "double_char q cs @ q # rest") auto
  show ?case using Cons d by (cases "c = q") auto
qed

lemma read_quoted_plain:
  "q \<notin> set s \<Longrightarrow> rest = [] \<or> hd rest \<noteq> q \<Longrightarrow> read_quoted q (s @ q # rest) = Some (s, rest)"
proof (induction s)
  case Nil
  then show ?case by (cases rest) auto
next
  case (Cons c cs)
  obtain d ds where d: "cs @ q # rest = d # ds"
    by (cases "cs @ q # rest") auto
  show ?case using Cons d by auto
qed

section \<open>The interface\<close>

locale quoting =
  fixes quote :: "string \<Rightarrow> string"
    and q :: char
  assumes quote_eq: "quote s = q # double_char q s @ [q]"
begin

lemma read_quote: "rest = [] \<or> hd rest \<noteq> q \<Longrightarrow> read_token q (quote s @ rest) = Some (s, rest)"
  by (simp add: quote_eq read_token_def read_quoted_double)

lemma quote_inj: "quote s = quote t \<Longrightarrow> s = t"
  using read_quote [of "[]" s] read_quote [of "[]" t] by simp

lemma quote_length: "length (quote s) = length s + length (filter (\<lambda>c. c = q) s) + 2"
proof -
  have "length (double_char q s) = length s + length (filter (\<lambda>c. c = q) s)" for s
    by (induction s) auto
  then show ?thesis by (simp add: quote_eq)
qed

end

section \<open>The two quoting functions\<close>

text \<open>\<open>QuoteIdent\<close>: double quotes around an identifier.\<close>

fun quote_ident_loop :: "string \<Rightarrow> string \<Rightarrow> string" where
  "quote_ident_loop q [] = q"
| "quote_ident_loop q (c # cs) =
     quote_ident_loop (if c = dquote then q @ [dquote, dquote] else q @ [c]) cs"

definition QuoteIdent :: "string \<Rightarrow> string" where
  "QuoteIdent name = quote_ident_loop [dquote] name @ [dquote]"

text \<open>\<open>SqlEscape\<close>: single quotes around a literal.\<close>

fun sql_escape_loop :: "string \<Rightarrow> string \<Rightarrow> string" where
  "sql_escape_loop result [] = result"
| "sql_escape_loop result (c # cs) =
     sql_escape_loop (if c = squote then result @ [squote, squote] else result @ [c]) cs"

definition SqlEscape :: "string \<Rightarrow> string" where
  "SqlEscape val = sql_escape_loop [squote] val @ [squote]"

lemma quote_ident_loop_eq: "quote_ident_loop r s = r @ double_char dquote s"
  by (induction s arbitrary: r) auto

lemma sql_escape_loop_eq: "sql_escape_loop r s = r @ double_char squote s"
  by (induction s arbitrary: r) auto

interpretation ident: quoting QuoteIdent dquote
  by unfold_locales (simp add: QuoteIdent_def quote_ident_loop_eq)

interpretation literal: quoting SqlEscape squote
  by unfold_locales (simp add: SqlEscape_def sql_escape_loop_eq)

section \<open>Properties\<close>

text \<open>
  A quoted identifier cannot be broken out of: whatever bytes the name has (quotes included), and
  whatever SQL text follows it, a SQL lexer reads back exactly the name and continues exactly at that
  text; and different names have different quoted forms.
\<close>

theorem quoted_identifier_reads_back:
  assumes "rest = [] \<or> hd rest \<noteq> dquote"
  shows "read_token dquote (QuoteIdent name @ rest) = Some (name, rest)
    \<and> (QuoteIdent name = QuoteIdent name' \<longleftrightarrow> name = name')"
  using ident.read_quote [OF assms] ident.quote_inj by blast

theorem quoted_identifier_reads_back_witness:
  "read_token dquote (QuoteIdent (''a'' @ [dquote] @ ''; DROP TABLE t; --'') @ '' (x INT)'')
     = Some (''a'' @ [dquote] @ ''; DROP TABLE t; --'', '' (x INT)'')
   \<and> (QuoteIdent (''a'' @ [dquote] @ ''; DROP TABLE t; --'') = QuoteIdent ''a''
      \<longleftrightarrow> ''a'' @ [dquote] @ ''; DROP TABLE t; --'' = ''a'')"
  by (rule quoted_identifier_reads_back) simp

text \<open>
  A literal of the client's INSERT output cannot be broken out of: whatever bytes the cell has, a
  SQL lexer reads back exactly the cell's text and continues exactly at the text that follows; and
  different cells have different literals.
\<close>

theorem sql_literal_reads_back:
  assumes "rest = [] \<or> hd rest \<noteq> squote"
  shows "read_token squote (SqlEscape val @ rest) = Some (val, rest)
    \<and> (SqlEscape val = SqlEscape val' \<longleftrightarrow> val = val')"
  using literal.read_quote [OF assms] literal.quote_inj by blast

theorem sql_literal_reads_back_witness:
  "read_token squote (SqlEscape (''o'' @ [squote] @ ''neill'') @ '', 3);'')
     = Some (''o'' @ [squote] @ ''neill'', '', 3);'')
   \<and> (SqlEscape (''o'' @ [squote] @ ''neill'') = SqlEscape ''x''
      \<longleftrightarrow> ''o'' @ [squote] @ ''neill'' = ''x'')"
  by (rule sql_literal_reads_back) simp

end
