(* ===== verification/SqlText.thy ===== *)
theory SqlText
  imports Quoting
begin

text \<open>
  The text analysis that \<open>DuckDBStatement::Create\<close> runs on a statement before DuckDB sees it
  (anonymous namespace of \<open>src/src/duckdb/duckdb_statement.cpp\<close>), the recogniser of
  \<open>KILL SESSION\<close> (\<open>src/src/enterprise/kill_session/kill_session_handler.cpp\<close>) and the secret
  redaction of the logging header. The two regular expressions of the source are written as
  recursive-descent matchers: in both, adjacent parts accept disjoint characters, so the match is
  deterministic.
\<close>

section \<open>Administrative SET, metrics label, DETACH guard\<close>

definition IsLikelyGizmoSQLSet :: "string \<Rightarrow> bool" where
  "IsLikelyGizmoSQLSet sql =
     (let trimmed = trim sql; upper = to_upper trimmed
      in if trimmed = [] then False
         else if \<not> prefix ''SET '' upper \<and> \<not> prefix (''SET'' @ [tabchar]) upper
                 \<and> \<not> prefix (''SET'' @ [newline]) upper
         then False
         else contains upper ''GIZMOSQL.'')"

definition op_end :: "char \<Rightarrow> bool" where
  "op_end c \<longleftrightarrow> c \<in> {CHR '' '', tabchar, creturn, newline, CHR ''('', CHR '';'', CHR '')''}"

definition GetSqlOperationForMetrics :: "string \<Rightarrow> string" where
  "GetSqlOperationForMetrics sql =
     (let trimmed = trim_left sql
      in if trimmed = [] then ''UNKNOWN''
         else let operation = dropWhile (\<lambda>c. \<not> is_alpha c) (takeWhile (\<lambda>c. \<not> op_end c) trimmed)
              in if operation = [] then ''UNKNOWN'' else to_upper operation)"

definition IsDetachInstrumentationDb :: "string \<Rightarrow> string \<Rightarrow> bool" where
  "IsDetachInstrumentationDb sql instr_catalog =
     (let trimmed = trim sql; upper = to_upper trimmed
      in if trimmed = [] then False
         else if \<not> contains upper ''DETACH'' then False
         else if contains upper ''_GIZMOSQL_INSTR''
                 \<or> contains upper ''GIZMOSQL_INSTRUMENTATION'' then True
         else if instr_catalog \<noteq> [] then contains upper (to_upper instr_catalog)
         else False)"

section \<open>KILL SESSION\<close>

text \<open>\<open>^\s*KILL\s+SESSION\s+['"]?([0-9a-fA-F-]+)['"]?\s*;?\s*$\<close>, ignoring case.\<close>

definition is_hexdash :: "char \<Rightarrow> bool" where
  "is_hexdash c \<longleftrightarrow>
     is_digit c \<or> (65::nat) \<le> of_char c \<and> of_char c \<le> (70::nat)
     \<or> (97::nat) \<le> of_char c \<and> of_char c \<le> (102::nat) \<or> c = CHR ''-''"

definition opt_quote :: "string \<Rightarrow> string" where
  "opt_quote s =
     (case s of [] \<Rightarrow> [] | c # cs \<Rightarrow> if c = squote \<or> c = dquote then cs else c # cs)"

definition opt_semi :: "string \<Rightarrow> string" where
  "opt_semi s = (case s of [] \<Rightarrow> [] | c # cs \<Rightarrow> if c = CHR '';'' then cs else c # cs)"

text \<open>A keyword (any case) followed by at least one blank; the rest after the blanks.\<close>

definition keyword_blank :: "string \<Rightarrow> string \<Rightarrow> string option" where
  "keyword_blank kw s =
     (let rest = drop (length kw) s
      in if to_upper (take (length kw) s) = kw \<and> rest \<noteq> [] \<and> is_space (hd rest)
         then Some (dropWhile is_space rest) else None)"

definition kill_tail :: "string \<Rightarrow> string option" where
  "kill_tail s =
     (let s1 = opt_quote s; sid = takeWhile is_hexdash s1; s2 = dropWhile is_hexdash s1;
          s3 = dropWhile is_space (opt_quote s2);
          s4 = dropWhile is_space (opt_semi s3)
      in if sid \<noteq> [] \<and> s4 = [] then Some sid else None)"

definition IsKillSessionCommand :: "string \<Rightarrow> string option" where
  "IsKillSessionCommand sql =
     (let trimmed = trim sql
      in if trimmed = [] then None
         else Option.bind (keyword_blank ''KILL'' (dropWhile is_space trimmed))
           (\<lambda>s. Option.bind (keyword_blank ''SESSION'' s) kill_tail))"

lemma IsKillSessionCommand_sid:
  assumes "IsKillSessionCommand sql = Some sid"
  shows "sid \<noteq> [] \<and> (\<forall>c \<in> set sid. is_hexdash c)"
  using assms
  by (auto simp: IsKillSessionCommand_def kill_tail_def Let_def bind_eq_Some_conv
      dest: set_takeWhileD split: if_splits)

section \<open>Pseudo-functions\<close>

subsection \<open>The alias heuristic\<close>

fun skip_back :: "string \<Rightarrow> nat \<Rightarrow> nat" where
  "skip_back sql 0 = 0"
| "skip_back sql (Suc p) = (if is_space (sql ! Suc p) then skip_back sql p else Suc p)"

definition kw_blank :: "string \<Rightarrow> string \<Rightarrow> bool" where
  "kw_blank kw s \<longleftrightarrow>
     prefix (kw @ '' '') s \<or> prefix (kw @ [tabchar]) s \<or> prefix (kw @ [newline]) s
     \<or> prefix (kw @ [creturn]) s"

definition select_terminators :: "string list" where
  "select_terminators =
     [''FROM'', ''WHERE'', ''ORDER'', ''GROUP'', ''HAVING'', ''LIMIT'', ''UNION'', ''EXCEPT'',
      ''INTERSECT'']"

definition condition_indicators :: "string list" where
  "condition_indicators = [''AND'', ''OR'', ''IN'', ''LIKE'', ''BETWEEN'', ''IS'']"

definition comparison_char :: "char \<Rightarrow> bool" where
  "comparison_char c \<longleftrightarrow> c = CHR ''='' \<or> c = CHR ''<'' \<or> c = CHR ''>'' \<or> c = CHR ''!''"

definition condition_before :: "string \<Rightarrow> nat \<Rightarrow> bool" where
  "condition_before sql func_start =
     (if func_start = 0 then False
      else let prev_pos = skip_back sql (func_start - 1)
           in if prev_pos < length sql
              then comparison_char (sql ! prev_pos)
                   \<or> (0 < prev_pos
                      \<and> take 2 (drop (prev_pos - 1) sql) \<in> {''!='', ''<>'', ''<='', ''>=''})
              else False)"

definition ShouldAddAlias :: "string \<Rightarrow> nat \<Rightarrow> nat \<Rightarrow> bool" where
  "ShouldAddAlias sql func_start func_end =
     (if condition_before sql func_start then False
      else case dropWhile is_space (drop func_end sql) of
        [] \<Rightarrow> True
      | next_char # cs \<Rightarrow>
          let upper_rest = to_upper (next_char # cs)
          in if next_char = CHR '','' \<or> next_char = CHR '';'' then True
             else if next_char = CHR '')'' then True
             else if kw_blank ''AS'' upper_rest then False
             else if list_ex (\<lambda>k. kw_blank k upper_rest) select_terminators then True
             else if list_ex (\<lambda>k. kw_blank k upper_rest) condition_indicators
                     \<or> prefix ''IN('' upper_rest then False
             else if comparison_char next_char then False
             else False)"

subsection \<open>The replacement loop\<close>

text \<open>
  The values that stand for the functions: the arguments of \<open>ReplaceGizmoSQLFunctions\<close> and the
  generated \<open>PROJECT_VERSION\<close>.
\<close>

record gizmo_values =
  gv_session_id :: string
  gv_instance_id :: string
  gv_version :: string
  gv_username :: string
  gv_role :: string
  gv_edition :: string
  gv_instr_enabled :: bool
  gv_instr_catalog :: string
  gv_instr_schema :: string

definition sql_quoted :: "string \<Rightarrow> string" where
  "sql_quoted v = [squote] @ v @ [squote]"

text \<open>The functions in the order in which the loop tests them.\<close>

definition gizmo_functions :: "gizmo_values \<Rightarrow> (string \<times> string) list" where
  "gizmo_functions gv =
     [(''GIZMOSQL_CURRENT_SESSION()'', sql_quoted (gv_session_id gv)),
      (''GIZMOSQL_CURRENT_INSTANCE()'',
        if gv_instance_id gv = [] then ''NULL'' else sql_quoted (gv_instance_id gv)),
      (''GIZMOSQL_VERSION()'', sql_quoted (gv_version gv)),
      (''GIZMOSQL_USER()'', sql_quoted (gv_username gv)),
      (''GIZMOSQL_ROLE()'', sql_quoted (gv_role gv)),
      (''GIZMOSQL_EDITION()'', sql_quoted (gv_edition gv)),
      (''GIZMOSQL_INSTRUMENTATION_ENABLED()'', if gv_instr_enabled gv then ''true'' else ''false''),
      (''GIZMOSQL_INSTRUMENTATION_CATALOG()'', sql_quoted (gv_instr_catalog gv)),
      (''GIZMOSQL_INSTRUMENTATION_SCHEMA()'', sql_quoted (gv_instr_schema gv))]"

fun match_function :: "(string \<times> string) list \<Rightarrow> string \<Rightarrow> (string \<times> string) option" where
  "match_function [] rest = None"
| "match_function ((name, v) # fs) rest =
     (if length name \<le> length rest \<and> to_upper (take (length name) rest) = name
      then Some (name, v) else match_function fs rest)"

text \<open>
  The inner loops over a quoted string, after its opening quote: a backslash takes the next byte
  with it, the first quote ends it. The result is the copied text and the rest.
\<close>

function copy_quoted :: "char \<Rightarrow> string \<Rightarrow> string \<times> string" where
  "copy_quoted q [] = ([], [])"
| "copy_quoted q (c # cs) =
     (if c = q then ([c], cs)
      else if c = bslash \<and> cs \<noteq> []
      then (let (a, r) = copy_quoted q (tl cs) in (c # hd cs # a, r))
      else (let (a, r) = copy_quoted q cs in (c # a, r)))"
  by pat_completeness auto
termination
  by (relation "measure (\<lambda>(q, s). length s)") auto

lemma copy_quoted_append: "copy_quoted q s = (a, r) \<Longrightarrow> a @ r = s"
proof (induction q s arbitrary: a r rule: copy_quoted.induct)
  case (1 q)
  then show ?case by simp
next
  case (2 q c cs)
  then show ?case
    by (cases cs) (auto split: if_splits prod.splits)
qed

lemma copy_quoted_length: "copy_quoted q s = (a, r) \<Longrightarrow> length a + length r = length s"
  by (drule copy_quoted_append) auto

lemma copy_quoted_plain:
  "q \<notin> set s \<Longrightarrow> bslash \<notin> set s \<Longrightarrow> copy_quoted q (s @ q # rest) = (s @ [q], rest)"
  by (induction s) auto

definition alias_text :: "string \<Rightarrow> string" where
  "alias_text name = '' AS '' @ [dquote] @ name @ [dquote]"

lemma match_function_length:
  "match_function fs rest = Some (name, v) \<Longrightarrow> length name \<le> length rest \<and> (name, v) \<in> set fs
     \<and> to_upper (take (length name) rest) = name"
  by (induction fs) (auto split: if_splits)

lemma gizmo_functions_prefix:
  "(name, v) \<in> set (gizmo_functions gv) \<Longrightarrow> prefix ''GIZMOSQL_'' name"
  by (auto simp: gizmo_functions_def)

lemma gizmo_match:
  assumes "match_function (gizmo_functions gv) rest = Some (name, v)"
  shows "(\<exists>n. length name = Suc n) \<and> length name \<le> length rest \<and> prefix ''GIZMOSQL_'' (to_upper rest)"
proof -
  have m: "length name \<le> length rest" "(name, v) \<in> set (gizmo_functions gv)"
    "to_upper (take (length name) rest) = name"
    using match_function_length [OF assms] by auto
  have p: "prefix ''GIZMOSQL_'' name" by (rule gizmo_functions_prefix [OF m(2)])
  have "prefix name (to_upper rest)"
    using m(3) by (metis to_upper_take take_is_prefix)
  with p have "prefix ''GIZMOSQL_'' (to_upper rest)" by (rule prefix_order.trans)
  with p m(1) show ?thesis by (auto simp: prefix_def)
qed

function replace_from :: "gizmo_values \<Rightarrow> string \<Rightarrow> nat \<Rightarrow> string" where
  "replace_from gv sql i =
     (if length sql \<le> i then []
      else let c = sql ! i in
        if c = squote \<or> c = dquote
        then (let a = fst (copy_quoted c (drop (Suc i) sql))
              in c # a @ replace_from gv sql (Suc i + length a))
        else case match_function (gizmo_functions gv) (drop i sql) of
          Some (name, v) \<Rightarrow>
            v @ (if ShouldAddAlias sql i (i + length name) then alias_text name else [])
              @ replace_from gv sql (i + length name)
        | None \<Rightarrow> c # replace_from gv sql (Suc i))"
  by pat_completeness auto
termination
  by (relation "measure (\<lambda>(gv, sql, i). length sql - i)")
    (auto dest!: gizmo_match)

declare replace_from.simps [simp del]

definition ReplaceGizmoSQLFunctions :: "gizmo_values \<Rightarrow> string \<Rightarrow> string" where
  "ReplaceGizmoSQLFunctions gv sql = replace_from gv sql 0"

section \<open>What the replacement does\<close>

lemma gizmo_match_None:
  "\<not> prefix ''GIZMOSQL_'' (to_upper rest) \<Longrightarrow> match_function (gizmo_functions gv) rest = None"
  using gizmo_match by (cases "match_function (gizmo_functions gv) rest") auto

lemma contains_drop: "contains (drop i s) p \<Longrightarrow> contains s p"
  unfolding contains_iff
  by (metis append_take_drop_id suffixI suffix_imp_sublist sublist_order.order_trans)

lemma prefix_contains: "prefix p s \<Longrightarrow> contains s p"
  by (simp add: contains_iff prefix_imp_sublist)

lemma replace_from_other:
  assumes "i < length sql" "sql ! i \<noteq> squote" "sql ! i \<noteq> dquote"
    and "\<not> prefix ''GIZMOSQL_'' (to_upper (drop i sql))"
  shows "replace_from gv sql i = sql ! i # replace_from gv sql (Suc i)"
  using assms by (subst replace_from.simps) (simp add: Let_def gizmo_match_None)

text \<open>A suffix that never spells the common prefix of the functions is copied as it is.\<close>

lemma replace_from_id:
  "\<not> contains (to_upper (drop i sql)) ''GIZMOSQL_'' \<Longrightarrow> replace_from gv sql i = drop i sql"
proof (induction gv sql i rule: replace_from.induct)
  case (1 gv sql i)
  have mono: "\<not> contains (to_upper (drop j sql)) ''GIZMOSQL_''" if "i \<le> j" for j
    using "1.prems" contains_drop [of "j - i" "to_upper (drop i sql)"] that
    by (auto simp: to_upper_drop)
  show ?case
  proof (cases "length sql \<le> i")
    case True
    then show ?thesis by (subst replace_from.simps) simp
  next
    case len: False
    then have split: "drop i sql = sql ! i # drop (Suc i) sql"
      by (simp add: Cons_nth_drop_Suc)
    show ?thesis
    proof (cases "sql ! i = squote \<or> sql ! i = dquote")
      case True
      obtain a r where ar: "copy_quoted (sql ! i) (drop (Suc i) sql) = (a, r)"
        by (cases "copy_quoted (sql ! i) (drop (Suc i) sql)") auto
      then have "a @ r = drop (Suc i) sql" by (rule copy_quoted_append)
      then have cut: "a @ drop (Suc i + length a) sql = drop (Suc i) sql"
        by (metis append_eq_conv_conj drop_drop add.commute)
      have "replace_from gv sql (Suc i + length a) = drop (Suc i + length a) sql"
        using "1.IH"(1) [OF len refl True] ar mono [of "Suc i + length a"] by simp
      then show ?thesis
        using len True ar cut split by (subst replace_from.simps) (simp add: Let_def)
    next
      case False
      have "\<not> prefix ''GIZMOSQL_'' (to_upper (drop i sql))"
        using "1.prems" prefix_contains by blast
      then have n: "match_function (gizmo_functions gv) (drop i sql) = None"
        by (rule gizmo_match_None)
      have "replace_from gv sql (Suc i) = drop (Suc i) sql"
        using "1.IH"(2) [OF len refl False n] mono [of "Suc i"] by simp
      then show ?thesis
        using len False n split by (subst replace_from.simps) (simp add: Let_def)
    qed
  qed
qed

text \<open>Text before the first call: no quotes and no underscore, so no function can start in it.\<close>

definition plain_text :: "string \<Rightarrow> bool" where
  "plain_text s \<longleftrightarrow> squote \<notin> set s \<and> dquote \<notin> set s \<and> CHR ''_'' \<notin> set s"

lemma underscore_not_alpha: "\<not> is_alpha (CHR ''_'')"
  by (simp add: is_alpha_def is_lower_def is_upper_def)

text \<open>
  What may follow plain text without completing a function name that began inside it: an
  underscore among its first eight bytes only behind a byte that is not a letter.
\<close>

definition breaks_name :: "string \<Rightarrow> bool" where
  "breaks_name tail \<longleftrightarrow>
     (\<forall>k < 8. k < length tail \<longrightarrow> tail ! k = CHR ''_'' \<longrightarrow> (\<exists>j < k. \<not> is_alpha (tail ! j)))"

lemma breaks_name_quote: "breaks_name (squote # s)"
  unfolding breaks_name_def
proof (intro allI impI)
  fix k
  assume "(squote # s) ! k = CHR ''_''"
  then have "0 < k" by (cases k) auto
  moreover have "\<not> is_alpha ((squote # s) ! 0)"
    by (simp add: is_alpha_def is_lower_def is_upper_def)
  ultimately show "\<exists>j < k. \<not> is_alpha ((squote # s) ! j)" by blast
qed

lemma gizmo_prefix_letters: "k < 8 \<Longrightarrow> is_alpha (''GIZMOSQL_'' ! k)"
proof -
  assume "k < 8"
  then have "k = 0 \<or> k = 1 \<or> k = 2 \<or> k = 3 \<or> k = 4 \<or> k = 5 \<or> k = 6 \<or> k = 7" by auto
  then show ?thesis by (auto simp: is_alpha_def is_upper_def is_lower_def)
qed

lemma toupper_not_alpha: "\<not> is_alpha c \<Longrightarrow> toupper c = c"
  by (simp add: toupper_def is_alpha_def)

lemma no_function_in_plain:
  assumes "plain_text pre" and "i < length pre" and "breaks_name tail"
  shows "\<not> prefix ''GIZMOSQL_'' (to_upper (drop i (pre @ tail)))"
proof
  assume "prefix ''GIZMOSQL_'' (to_upper (drop i (pre @ tail)))"
  then obtain zs where zs: "to_upper (drop i (pre @ tail)) = ''GIZMOSQL_'' @ zs"
    by (auto simp: prefix_def)
  have len: "8 < length (drop i (pre @ tail))"
    using arg_cong [OF zs, of length] by simp
  have ch: "toupper ((pre @ tail) ! (i + k)) = ''GIZMOSQL_'' ! k" if "k < 9" for k
  proof -
    have "to_upper (drop i (pre @ tail)) ! k = ''GIZMOSQL_'' ! k"
      unfolding zs by (subst nth_append) (use that in simp)
    moreover have "k < length (drop i (pre @ tail))" using that len by linarith
    ultimately have "toupper (drop i (pre @ tail) ! k) = ''GIZMOSQL_'' ! k"
      by (simp add: to_upper_def del: drop_append)
    moreover have "drop i (pre @ tail) ! k = (pre @ tail) ! (i + k)"
      using assms(2) by (subst nth_drop) auto
    ultimately show ?thesis by simp
  qed
  have u: "(pre @ tail) ! (i + 8) = CHR ''_''"
    using ch [of 8] toupper_not_lower_iff [OF underscore_not_alpha] by simp
  show False
  proof (cases "i + 8 < length pre")
    case True
    with u assms(1) show False
      by (metis nth_append nth_mem plain_text_def)
  next
    case False
    define k where "k = i + 8 - length pre"
    have k: "tail ! k = CHR ''_''" "k < 8" using u False assms(2) by (simp_all add: nth_append k_def)
    have "8 < length pre + length tail - i" using len by simp
    then have "k < length tail" using assms(2) False unfolding k_def by linarith
    with k assms(3) obtain j where j: "j < k" "\<not> is_alpha (tail ! j)"
      by (auto simp: breaks_name_def)
    define m where "m = length pre + j - i"
    have m: "m < 8" "i + m = length pre + j"
      using j(1) assms(2) False by (simp_all add: m_def k_def)
    have "toupper (tail ! j) = ''GIZMOSQL_'' ! m"
      using ch [of m] m by (simp add: nth_append)
    then have "tail ! j = ''GIZMOSQL_'' ! m" using toupper_not_alpha [OF j(2)] by simp
    with j(2) gizmo_prefix_letters [OF m(1)] show False by simp
  qed
qed

lemma replace_from_plain:
  assumes "plain_text pre"
    and tail: "breaks_name tail"
    and "i \<le> length pre"
  shows "replace_from gv (pre @ tail) i = drop i pre @ replace_from gv (pre @ tail) (length pre)"
  using assms(3)
proof (induction "length pre - i" arbitrary: i)
  case 0
  then show ?case by simp
next
  case (Suc n)
  then have i: "i < length pre" by simp
  have "pre ! i \<in> set pre" using i by simp
  moreover have "(pre @ tail) ! i = pre ! i" using i by (simp add: nth_append)
  ultimately have "(pre @ tail) ! i \<noteq> squote" "(pre @ tail) ! i \<noteq> dquote"
    using assms(1) unfolding plain_text_def by metis+
  then have "replace_from gv (pre @ tail) i
      = (pre @ tail) ! i # replace_from gv (pre @ tail) (Suc i)"
    using replace_from_other no_function_in_plain [OF assms(1) i tail] i by simp
  moreover have "replace_from gv (pre @ tail) (Suc i)
      = drop (Suc i) pre @ replace_from gv (pre @ tail) (length pre)"
    using Suc.hyps(1) [of "Suc i"] Suc.hyps(2) i by simp
  ultimately show ?case
    using i by (simp add: nth_append Cons_nth_drop_Suc [symmetric])
qed

text \<open>At a call, in any case, its value is emitted; no name is a prefix of another.\<close>

definition call_shape :: "string \<Rightarrow> bool" where
  "call_shape n \<longleftrightarrow> n \<noteq> [] \<and> last n = CHR '')'' \<and> CHR '')'' \<notin> set (butlast n)"

lemma gizmo_functions_shape: "(name, v) \<in> set (gizmo_functions gv) \<Longrightarrow> call_shape name"
  by (auto simp: gizmo_functions_def call_shape_def)

lemma gizmo_functions_distinct: "distinct (map fst (gizmo_functions gv))"
  by (simp add: gizmo_functions_def)

lemma call_shape_prefix:
  assumes "call_shape n" and "call_shape m" and "prefix n (m @ x)"
  shows "n = m"
proof -
  have n: "n = butlast n @ [CHR '')'']" and m: "m = butlast m @ [CHR '')'']"
    using assms(1,2) append_butlast_last_id [of n] append_butlast_last_id [of m]
    by (simp_all add: call_shape_def)
  obtain y where "m @ x = n @ y" using assms(3) by (auto simp: prefix_def)
  then have "butlast m @ CHR '')'' # x = butlast n @ CHR '')'' # y"
    by (subst (asm) n, subst (asm) m) simp
  then have "takeWhile (\<lambda>c. c \<noteq> CHR '')'') (butlast m @ CHR '')'' # x)
      = takeWhile (\<lambda>c. c \<noteq> CHR '')'') (butlast n @ CHR '')'' # y)"
    by simp
  moreover have "takeWhile (\<lambda>c. c \<noteq> CHR '')'') (butlast k @ CHR '')'' # z) = butlast k"
    if "call_shape k" for k z
    using that by (subst takeWhile_append2) (auto simp: call_shape_def)
  ultimately have "butlast m = butlast n"
    using assms(1,2) by metis
  with n m show ?thesis by simp
qed

lemma match_function_first:
  assumes "(name, v) \<in> set fs" and "distinct (map fst fs)" and "prefix name (to_upper rest)"
    and "\<And>n w. (n, w) \<in> set fs \<Longrightarrow> prefix n (to_upper rest) \<Longrightarrow> n = name"
  shows "match_function fs rest = Some (name, v)"
  using assms
proof (induction fs)
  case Nil
  then show ?case by simp
next
  case (Cons f fs)
  obtain n w where f: "f = (n, w)" by (cases f)
  have pre: "(length n \<le> length rest \<and> to_upper (take (length n) rest) = n)
      \<longleftrightarrow> prefix n (to_upper rest)"
  proof
    assume a: "length n \<le> length rest \<and> to_upper (take (length n) rest) = n"
    then show "prefix n (to_upper rest)" by (metis to_upper_take take_is_prefix)
  next
    assume a: "prefix n (to_upper rest)"
    then have "length n \<le> length rest" using prefix_length_le by fastforce
    with a show "length n \<le> length rest \<and> to_upper (take (length n) rest) = n"
      by (auto simp: to_upper_take prefix_def)
  qed
  show ?case
  proof (cases "n = name")
    case True
    with Cons.prems(1,2) f have "w = v" by (auto simp: image_iff)
    then show ?thesis using f True Cons.prems(3) pre by simp
  next
    case False
    then have "\<not> prefix n (to_upper rest)" using Cons.prems(4) f by auto
    moreover have "match_function fs rest = Some (name, v)"
    proof (rule Cons.IH)
      show "(name, v) \<in> set fs" using Cons.prems(1) f False by simp
      show "distinct (map fst fs)" using Cons.prems(2) by simp
      show "m = name" if "(m, u) \<in> set fs" "prefix m (to_upper rest)" for m u
        using Cons.prems(4) [of m u] that by simp
    qed (rule Cons.prems(3))
    ultimately show ?thesis using f pre by auto
  qed
qed

lemma match_function_call:
  assumes "(name, v) \<in> set (gizmo_functions gv)" and "to_upper call = name"
  shows "match_function (gizmo_functions gv) (call @ post) = Some (name, v)"
proof (rule match_function_first [OF assms(1) gizmo_functions_distinct])
  show "prefix name (to_upper (call @ post))" by (simp add: to_upper_append assms(2))
  show "n = name" if "(n, w) \<in> set (gizmo_functions gv)" "prefix n (to_upper (call @ post))" for n w
    using that assms by (auto simp: to_upper_append
        intro: call_shape_prefix gizmo_functions_shape)
qed

lemma call_first_char:
  assumes "(name, v) \<in> set (gizmo_functions gv)" and "to_upper call = name"
  shows "\<exists>c cs. call = c # cs \<and> c \<noteq> squote \<and> c \<noteq> dquote
     \<and> breaks_name (call @ post)"
proof -
  obtain zs where zs: "to_upper call = ''GIZMOSQL_'' @ zs"
    using gizmo_functions_prefix [OF assms(1)] assms(2) by (auto simp: prefix_def)
  have len: "8 < length call" using arg_cong [OF zs, of length] by simp
  have up: "toupper (call ! k) = (''GIZMOSQL_'' @ zs) ! k" if "k < length call" for k
    using zs that by (metis nth_map to_upper_def)
  have small: "toupper ((call @ post) ! k) = ''GIZMOSQL_'' ! k" if "k < 8" for k
  proof -
    have "(''GIZMOSQL_'' @ zs) ! k = ''GIZMOSQL_'' ! k"
      by (subst nth_append) (use that in simp)
    moreover have "(call @ post) ! k = call ! k"
      using that len by (simp add: nth_append)
    ultimately show ?thesis using up [of k] that len by simp
  qed
  have "(call @ post) ! k \<noteq> CHR ''_''" if "k < 8" for k
  proof
    assume "(call @ post) ! k = CHR ''_''"
    then have "toupper ((call @ post) ! k) = CHR ''_''"
      using toupper_not_lower_iff [OF underscore_not_alpha] by blast
    with small [OF that] have "''GIZMOSQL_'' ! k = CHR ''_''" by simp
    moreover have "k \<in> {0, 1, 2, 3, 4, 5, 6, 7}" using that by auto
    ultimately show False by auto
  qed
  then have "breaks_name (call @ post)" by (auto simp: breaks_name_def)
  moreover obtain c cs where c: "call = c # cs" using len by (cases call) auto
  moreover have "toupper c = CHR ''G''" using small [of 0] c by simp
  then have "c \<noteq> squote \<and> c \<noteq> dquote"
    by (auto simp: toupper_def is_lower_def)
  ultimately show ?thesis by blast
qed

lemma replace_from_call:
  assumes "(name, v) \<in> set (gizmo_functions gv)" and "to_upper call = name"
    and "drop i sql = call @ post"
  shows "replace_from gv sql i =
    v @ (if ShouldAddAlias sql i (i + length name) then alias_text name else [])
      @ replace_from gv sql (i + length name)"
proof -
  obtain c cs where c: "call = c # cs" "c \<noteq> squote" "c \<noteq> dquote"
    using call_first_char [OF assms(1,2)] by blast
  have i: "\<not> length sql \<le> i" using assms(3) c(1) by (metis append_Cons drop_all list.distinct(1))
  have "sql ! i = c"
    using assms(3) c(1) i by (metis append_Cons hd_drop_conv_nth leI list.sel(1))
  moreover have "match_function (gizmo_functions gv) (drop i sql) = Some (name, v)"
    unfolding assms(3) by (rule match_function_call [OF assms(1,2)])
  ultimately show ?thesis
    using i c by (subst replace_from.simps) (simp add: Let_def)
qed

lemma replace_from_literal:
  assumes "drop i sql = squote # body @ squote # post"
    and "squote \<notin> set body" and "bslash \<notin> set body"
  shows "replace_from gv sql i
    = squote # body @ squote # replace_from gv sql (i + length body + 2)"
proof -
  have i: "\<not> length sql \<le> i" using assms(1) by (metis drop_all list.distinct(1))
  have "sql ! i = squote"
    using assms(1) i by (metis hd_drop_conv_nth leI list.sel(1))
  moreover have "drop (Suc i) sql = body @ squote # post"
    using assms(1) by (metis drop_Suc drop_tl list.sel(3) tl_drop)
  ultimately show ?thesis
    using i copy_quoted_plain [OF assms(2,3)]
    by (subst replace_from.simps) (simp add: Let_def add.commute add.left_commute)
qed

text \<open>
  A statement that holds one pseudo-function call outside quotes, spelled in any case, reaches
  DuckDB with the call replaced by its value, followed by the column alias when the context test
  says so, and with every other byte unchanged.
\<close>

theorem replace_one_call:
  assumes "plain_text pre" and "(name, v) \<in> set (gizmo_functions gv)"
    and "to_upper call = name" and "\<not> contains (to_upper post) ''GIZMOSQL_''"
  shows "ReplaceGizmoSQLFunctions gv (pre @ call @ post) =
    pre @ v
      @ (if ShouldAddAlias (pre @ call @ post) (length pre) (length pre + length call)
         then alias_text name else [])
      @ post"
proof -
  have len: "length name = length call" using assms(3) by auto
  have "breaks_name (call @ post)" using call_first_char [OF assms(2,3)] by blast
  note head = replace_from_plain [OF assms(1) this, of 0 gv]
  note call = replace_from_call [OF assms(2,3), of "length pre" "pre @ call @ post" post]
  have "replace_from gv (pre @ call @ post) (length pre + length call)
      = drop (length pre + length call) (pre @ call @ post)"
    by (rule replace_from_id) (simp add: assms(4))
  with head call len show ?thesis by (simp add: ReplaceGizmoSQLFunctions_def)
qed

theorem replace_one_call_witness:
  "ReplaceGizmoSQLFunctions
     \<lparr>gv_session_id = ''s-1'', gv_instance_id = ''i-1'', gv_version = ''v1'', gv_username = ''ann'',
      gv_role = ''admin'', gv_edition = ''Core'', gv_instr_enabled = False, gv_instr_catalog = [],
      gv_instr_schema = []\<rparr> ''SELECT gizmosql_role() FROM t''
   = ''SELECT '' @ sql_quoted ''admin'' @ alias_text ''GIZMOSQL_ROLE()'' @ '' FROM t''"
proof -
  let ?gv = "\<lparr>gv_session_id = ''s-1'', gv_instance_id = ''i-1'', gv_version = ''v1'',
      gv_username = ''ann'', gv_role = ''admin'', gv_edition = ''Core'', gv_instr_enabled = False,
      gv_instr_catalog = [], gv_instr_schema = []\<rparr>"
  have "plain_text ''SELECT ''" by (simp add: plain_text_def)
  moreover have "(''GIZMOSQL_ROLE()'', sql_quoted ''admin'') \<in> set (gizmo_functions ?gv)"
    by (simp add: gizmo_functions_def)
  moreover have "to_upper ''gizmosql_role()'' = ''GIZMOSQL_ROLE()''" by code_simp
  moreover have "\<not> contains (to_upper '' FROM t'') ''GIZMOSQL_''" by code_simp
  moreover have "ShouldAddAlias (''SELECT '' @ ''gizmosql_role()'' @ '' FROM t'')
      (length ''SELECT '') (length ''SELECT '' + length ''gizmosql_role()'')" by code_simp
  ultimately show ?thesis
    using replace_one_call [of "''SELECT ''" "''GIZMOSQL_ROLE()''" "sql_quoted ''admin''" ?gv
        "''gizmosql_role()''" "'' FROM t''"]
    by simp
qed

text \<open>
  A string literal is never rewritten: text between single quotes (without backslashes) keeps
  every byte, also when it spells a pseudo-function, and so does the rest of the statement.
\<close>

theorem replace_keeps_literal:
  assumes "plain_text pre" and "squote \<notin> set body" and "bslash \<notin> set body"
    and "\<not> contains (to_upper post) ''GIZMOSQL_''"
  shows "ReplaceGizmoSQLFunctions gv (pre @ squote # body @ squote # post)
    = pre @ squote # body @ squote # post"
proof -
  let ?sql = "pre @ squote # body @ squote # post"
  have "breaks_name (squote # body @ squote # post)"
    by (rule breaks_name_quote)
  note head = replace_from_plain [OF assms(1) this, of 0 gv]
  note lit = replace_from_literal [of "length pre" ?sql body post gv]
  have "replace_from gv ?sql (length pre + length body + 2)
      = drop (length pre + length body + 2) ?sql"
    by (rule replace_from_id) (simp add: assms(4))
  with head lit assms(2,3) show ?thesis by (simp add: ReplaceGizmoSQLFunctions_def)
qed

theorem replace_keeps_literal_witness:
  "ReplaceGizmoSQLFunctions
     \<lparr>gv_session_id = [], gv_instance_id = [], gv_version = [], gv_username = ''ann'',
      gv_role = [], gv_edition = [], gv_instr_enabled = False, gv_instr_catalog = [],
      gv_instr_schema = []\<rparr> (''SELECT '' @ squote # ''GIZMOSQL_USER()'' @ squote # [])
   = ''SELECT '' @ squote # ''GIZMOSQL_USER()'' @ squote # []"
  by (rule replace_keeps_literal) (simp_all add: plain_text_def, code_simp)

text \<open>
  The value of \<open>GIZMOSQL_USER()\<close> is pasted between single quotes without doubling the quotes
  inside it. A user name that holds a quote ends the literal early: a SQL lexer reads only the
  part before the quote, and the part behind it becomes SQL text.
\<close>

theorem replace_user_escapes_literal:
  assumes "gv_username gv = u1 @ squote # u2" and "squote \<notin> set u1"
    and "u2 \<noteq> []" and "hd u2 \<noteq> squote"
  shows "read_token squote (ReplaceGizmoSQLFunctions gv ''GIZMOSQL_USER()'')
    = Some (u1, u2 @ squote # alias_text ''GIZMOSQL_USER()'')"
proof -
  have c: "to_upper ''GIZMOSQL_USER()'' = ''GIZMOSQL_USER()''" by code_simp
  have m: "(''GIZMOSQL_USER()'', sql_quoted (gv_username gv)) \<in> set (gizmo_functions gv)"
    by (simp add: gizmo_functions_def)
  have a: "ShouldAddAlias ''GIZMOSQL_USER()'' 0 15" by code_simp
  have l: "length ''GIZMOSQL_USER()'' = 15" by simp
  have e: "replace_from gv ''GIZMOSQL_USER()'' 15 = []" by (subst replace_from.simps) simp
  note s = replace_from_call [OF m c, of 0 "''GIZMOSQL_USER()''" "[]", unfolded l add_0 a e]
  have "ReplaceGizmoSQLFunctions gv ''GIZMOSQL_USER()''
      = sql_quoted (gv_username gv) @ alias_text ''GIZMOSQL_USER()''"
    using s a by (simp add: ReplaceGizmoSQLFunctions_def)
  also have "\<dots> = squote # u1 @ squote # (u2 @ squote # alias_text ''GIZMOSQL_USER()'')"
    by (simp add: sql_quoted_def assms(1))
  finally show ?thesis
    using assms read_quoted_plain [of squote u1 "u2 @ squote # alias_text ''GIZMOSQL_USER()''"]
    by (simp add: read_token_def)
qed

theorem replace_user_escapes_literal_witness:
  "read_token squote
     (ReplaceGizmoSQLFunctions
       \<lparr>gv_session_id = [], gv_instance_id = [], gv_version = [],
        gv_username = ''o'' @ squote # ''neill'', gv_role = [], gv_edition = [],
        gv_instr_enabled = False, gv_instr_catalog = [], gv_instr_schema = []\<rparr>
       ''GIZMOSQL_USER()'')
   = Some (''o'', ''neill'' @ squote # alias_text ''GIZMOSQL_USER()'')"
  by (rule replace_user_escapes_literal) simp_all

section \<open>The recogniser of KILL SESSION accepts the documented forms\<close>

definition blanks :: "string \<Rightarrow> bool" where
  "blanks s \<longleftrightarrow> (\<forall>c \<in> set s. is_space c)"

lemma dropWhile_blanks: "blanks b \<Longrightarrow> s = [] \<or> \<not> is_space (hd s) \<Longrightarrow> dropWhile is_space (b @ s) = s"
  by (induction b) (auto simp: blanks_def dropWhile_eq_self_iff)

lemma blanks_rev [simp]: "blanks (rev s) = blanks s"
  by (simp add: blanks_def)

lemma trim_blanks:
  assumes "blanks a" and "blanks b" and "s \<noteq> []" and "\<not> is_space (hd s)" and "\<not> is_space (last s)"
  shows "trim (a @ s @ b) = s"
proof -
  have "trim_left (a @ s @ b) = s @ b"
    unfolding trim_left_def using assms by (intro dropWhile_blanks) auto
  moreover have "dropWhile is_space (rev b @ rev s) = rev s"
    using assms by (intro dropWhile_blanks) (auto simp: hd_rev)
  ultimately show ?thesis by (simp add: trim_def trim_right_def)
qed

lemma keyword_blank_accepts:
  assumes "to_upper k = kw" and "blanks b" and "b \<noteq> []" and "s = [] \<or> \<not> is_space (hd s)"
  shows "keyword_blank kw (k @ b @ s) = Some s"
proof -
  have len: "length k = length kw" using assms(1) by auto
  have "is_space (hd (b @ s))" using assms(2,3) by (cases b) (auto simp: blanks_def)
  then show ?thesis
    using assms len by (simp add: keyword_blank_def Let_def dropWhile_blanks)
qed

lemma hexdash_char:
  "is_hexdash c \<Longrightarrow> \<not> is_space c \<and> c \<noteq> squote \<and> c \<noteq> dquote \<and> c \<noteq> CHR '';''"
  by (auto simp: is_hexdash_def is_digit_def is_space_def)

definition quote_mark :: "string \<Rightarrow> bool" where
  "quote_mark q \<longleftrightarrow> q = [] \<or> q = [squote] \<or> q = [dquote]"

lemma takeWhile_run: "\<forall>c \<in> set s. P c \<Longrightarrow> r = [] \<or> \<not> P (hd r) \<Longrightarrow> takeWhile P (s @ r) = s"
  by (cases r) (auto simp: takeWhile_append2)

lemma dropWhile_run: "\<forall>c \<in> set s. P c \<Longrightarrow> r = [] \<or> \<not> P (hd r) \<Longrightarrow> dropWhile P (s @ r) = r"
  by (cases r) (auto simp: dropWhile_append2)

lemma blanks_semi_head:
  assumes "blanks b" and "semi = [] \<or> semi = '';''"
  shows "b @ semi = [] \<or> (\<exists>y ys. b @ semi = y # ys \<and> (is_space y \<or> y = CHR '';''))"
  using assms by (cases b) (auto simp: blanks_def)

lemma opt_quote_other: "s = [] \<or> (hd s \<noteq> squote \<and> hd s \<noteq> dquote) \<Longrightarrow> opt_quote s = s"
  by (cases s) (auto simp: opt_quote_def)

lemma opt_quote_mark:
  assumes "quote_mark q" and "s = [] \<or> (hd s \<noteq> squote \<and> hd s \<noteq> dquote)"
  shows "opt_quote (q @ s) = s"
proof (cases "q = []")
  case True
  then show ?thesis using opt_quote_other [OF assms(2)] by simp
next
  case False
  with assms(1) have "q = [squote] \<or> q = [dquote]" by (simp add: quote_mark_def)
  then show ?thesis by (auto simp: opt_quote_def)
qed

lemma kill_tail_accepts:
  assumes q: "quote_mark q1" "quote_mark q2" and sid: "sid \<noteq> []" "\<forall>c \<in> set sid. is_hexdash c"
    and semi: "semi = [] \<or> semi = '';''" and b: "blanks b"
  shows "kill_tail (q1 @ sid @ q2 @ b @ semi) = Some sid"
proof -
  obtain c cs where c: "sid = c # cs" "is_hexdash c" using sid by (cases sid) auto
  have 1: "opt_quote (q1 @ sid @ x) = sid @ x" for x
    using q(1) c(1) hexdash_char [OF c(2)] by (intro opt_quote_mark) auto
  have nospace: "\<not> is_hexdash y \<and> y \<noteq> squote \<and> y \<noteq> dquote" if "is_space y \<or> y = CHR '';''" for y
    using that hexdash_char [of y] by (auto simp: is_space_def)
  have bs: "b @ semi = [] \<or> (\<not> is_hexdash (hd (b @ semi))
      \<and> hd (b @ semi) \<noteq> squote \<and> hd (b @ semi) \<noteq> dquote)"
    using blanks_semi_head [OF b semi] nospace by (metis list.sel(1))
  have oq: "opt_quote (q2 @ b @ semi) = b @ semi"
    using q(2) bs by (intro opt_quote_mark) auto
  have stop: "q2 @ b @ semi = [] \<or> \<not> is_hexdash (hd (q2 @ b @ semi))"
  proof (cases "q2 = []")
    case True
    then show ?thesis using bs by auto
  next
    case False
    with q(2) have "hd (q2 @ b @ semi) = squote \<or> hd (q2 @ b @ semi) = dquote"
      by (auto simp: quote_mark_def)
    then show ?thesis using hexdash_char by metis
  qed
  have tw: "takeWhile is_hexdash (sid @ q2 @ b @ semi) = sid"
    and dw: "dropWhile is_hexdash (sid @ q2 @ b @ semi) = q2 @ b @ semi"
    using sid(2) stop takeWhile_run dropWhile_run by metis+
  have "dropWhile is_space (b @ semi) = semi"
    using b semi by (intro dropWhile_blanks) (auto simp: is_space_def)
  moreover have "dropWhile is_space (opt_semi semi) = []"
    using semi by (auto simp: opt_semi_def)
  ultimately show ?thesis
    using sid(1) by (simp add: kill_tail_def Let_def 1 tw dw oq)
qed

text \<open>
  The recogniser of \<open>KILL SESSION\<close> accepts every documented form: any case of the keywords, any
  blanks around and between them, the session id bare or in single or double quotes, an optional
  semicolon; and it returns exactly the session id.
\<close>

theorem kill_session_recognised:
  assumes "blanks lead" and "to_upper k1 = ''KILL''" and "blanks b1" and "b1 \<noteq> []"
    and "to_upper k2 = ''SESSION''" and "blanks b2" and "b2 \<noteq> []"
    and "quote_mark q1" and "sid \<noteq> []" and "\<forall>c \<in> set sid. is_hexdash c" and "quote_mark q2"
    and "blanks b3" and "semi = [] \<or> semi = '';''" and "blanks trail"
    and "semi = [] \<Longrightarrow> b3 = []"
  shows "IsKillSessionCommand
    (lead @ (k1 @ b1 @ k2 @ b2 @ q1 @ sid @ q2 @ b3 @ semi) @ trail) = Some sid"
proof -
  let ?cmd = "k1 @ b1 @ k2 @ b2 @ q1 @ sid @ q2 @ b3 @ semi"
  obtain c cs where sid: "sid = c # cs" "is_hexdash c" using assms(9,10) by (cases sid) auto
  have head: "s \<noteq> [] \<and> \<not> is_space (hd s)" if "to_upper s = kw" "is_alpha (hd kw)" "kw \<noteq> []" for s kw
  proof (cases s)
    case Nil
    with that show ?thesis by (simp add: to_upper_def)
  next
    case (Cons x xs)
    with that have "is_alpha (toupper x)" by (auto simp: to_upper_def)
    moreover have "\<not> is_alpha x \<Longrightarrow> toupper x = x" by (rule toupper_not_alpha)
    ultimately have "is_alpha x" by metis
    then show ?thesis
      using Cons by (auto simp: is_alpha_def is_lower_def is_upper_def is_space_def)
  qed
  have k1: "k1 \<noteq> [] \<and> \<not> is_space (hd k1)" and k2: "k2 \<noteq> [] \<and> \<not> is_space (hd k2)"
    using head [OF assms(2)] head [OF assms(5)] by (simp_all add: is_alpha_def is_upper_def)
  have lst: "\<not> is_space (last ?cmd)"
  proof (cases "semi = []")
    case True
    then have "last ?cmd = last (sid @ q2)" using assms(9,15) by simp
    moreover have "is_hexdash (last sid)" using assms(9,10) by simp
    ultimately show ?thesis
      using assms(9,11) hexdash_char by (auto simp: quote_mark_def is_space_def)
  next
    case False
    then have "semi = '';''" using assms(13) by simp
    then show ?thesis by (simp add: is_space_def)
  qed
  have "trim (lead @ ?cmd @ trail) = ?cmd"
    using k1 lst assms(1,14) by (intro trim_blanks) auto
  moreover have "dropWhile is_space ?cmd = ?cmd"
    using k1 by (cases k1) auto
  moreover have "keyword_blank ''KILL'' ?cmd = Some (k2 @ b2 @ q1 @ sid @ q2 @ b3 @ semi)"
    using assms(2-4) k2 by (intro keyword_blank_accepts) auto
  moreover have "keyword_blank ''SESSION'' (k2 @ b2 @ q1 @ sid @ q2 @ b3 @ semi)
      = Some (q1 @ sid @ q2 @ b3 @ semi)"
    using assms(5-8) sid hexdash_char [OF sid(2)]
    by (intro keyword_blank_accepts) (auto simp: quote_mark_def is_space_def)
  moreover have "kill_tail (q1 @ sid @ q2 @ b3 @ semi) = Some sid"
    using assms by (intro kill_tail_accepts) auto
  ultimately show ?thesis
    using k1 by (simp add: IsKillSessionCommand_def)
qed

theorem kill_session_recognised_witness:
  "IsKillSessionCommand ('' '' @ (''kill'' @ '' '' @ ''Session'' @ '' '' @ [squote] @ ''ab-12'' @ [squote]
     @ '' '' @ '';'') @ [newline]) = Some ''ab-12''"
  by (rule kill_session_recognised)
    (simp_all add: blanks_def quote_mark_def is_space_def, code_simp+)

section \<open>Redaction of secrets in logs\<close>

definition log_blank :: "char \<Rightarrow> bool" where
  "log_blank c \<longleftrightarrow> c = CHR '' '' \<or> c = tabchar \<or> c = creturn \<or> c = newline"

definition lstrip_ws :: "string \<Rightarrow> string" where
  "lstrip_ws s = dropWhile log_blank s"

lemma lstrip_drop_less: "s \<noteq> [] \<Longrightarrow> 0 < m \<Longrightarrow> length (lstrip_ws (drop m s)) < length s"
proof -
  assume "s \<noteq> []" and "0 < m"
  moreover have "length (lstrip_ws (drop m s)) \<le> length (drop m s)"
    unfolding lstrip_ws_def by (rule length_dropWhile_le)
  ultimately show ?thesis by (cases s) auto
qed

function strip_comments :: "string \<Rightarrow> string" where
  "strip_comments s =
     (if take 2 s = ''--''
      then (case find_char newline s of
              None \<Rightarrow> []
            | Some nl \<Rightarrow> strip_comments (lstrip_ws (drop (nl + 1) s)))
      else if take 2 s = ''/*''
      then (case find_sub ''*/'' s of
              None \<Rightarrow> []
            | Some e \<Rightarrow> strip_comments (lstrip_ws (drop (e + 2) s)))
      else s)"
  by pat_completeness auto
termination
proof (relation "measure length", goal_cases)
  case 1
  show ?case by simp
next
  case (2 s n)
  then have "s \<noteq> []" by auto
  then show ?case using lstrip_drop_less [of s "n + 1"] by simp
next
  case (3 s n)
  then have "s \<noteq> []" by auto
  then show ?case using lstrip_drop_less [of s "n + 2"] by simp
qed

declare strip_comments.simps [simp del]

definition strip_leading_comments :: "string \<Rightarrow> string" where
  "strip_leading_comments s = strip_comments (lstrip_ws s)"

definition is_word_char :: "char \<Rightarrow> bool" where
  "is_word_char c \<longleftrightarrow> is_alpha c \<or> is_digit c \<or> c = CHR ''_''"

text \<open>An optional group of the expression: the input itself where the group does not match.\<close>

definition opt_group :: "(string \<Rightarrow> string option) \<Rightarrow> string \<Rightarrow> string" where
  "opt_group p s = (case p s of None \<Rightarrow> s | Some r \<Rightarrow> r)"

text \<open>\<open>^\s*CREATE\s+(?:OR\s+REPLACE\s+)?(?:PERSISTENT\s+)?SECRET\b\<close>, ignoring case.\<close>

definition matches_secret_ddl :: "string \<Rightarrow> bool" where
  "matches_secret_ddl s =
     (case keyword_blank ''CREATE'' (dropWhile is_space s) of
        None \<Rightarrow> False
      | Some s1 \<Rightarrow>
          let s2 = opt_group (\<lambda>x. Option.bind (keyword_blank ''OR'' x) (keyword_blank ''REPLACE'')) s1;
              s3 = opt_group (keyword_blank ''PERSISTENT'') s2;
              rest = drop 6 s3
          in to_upper (take 6 s3) = ''SECRET'' \<and> (rest = [] \<or> \<not> is_word_char (hd rest)))"

definition should_redact_secret_sql :: "string \<Rightarrow> bool" where
  "should_redact_secret_sql sql = matches_secret_ddl (strip_leading_comments sql)"

definition redact_sql_for_logs :: "string \<Rightarrow> string" where
  "redact_sql_for_logs sql =
     (if should_redact_secret_sql sql then ''[REDACTED: secret DDL]'' else sql)"

text \<open>
  The end of a block comment is searched from the opening slash, so \<open>/*/\<close> counts as a whole comment:
  the text behind it is then not recognised as secret DDL and is logged in clear.
\<close>

lemma redact_misses_slash_star_slash:
  "redact_sql_for_logs ''/*/ c */ CREATE SECRET s (KEY x)'' = ''/*/ c */ CREATE SECRET s (KEY x)''"
  by code_simp

text \<open>The word TEMPORARY, which DuckDB allows in the place of PERSISTENT, hides a secret from the expression.\<close>

lemma temporary_secret_is_logged:
  "redact_sql_for_logs ''CREATE TEMPORARY SECRET s (KEY x)'' = ''CREATE TEMPORARY SECRET s (KEY x)''"
  by code_simp

lemma redact_block_comment:
  "redact_sql_for_logs ''/* c */ CREATE SECRET s (KEY x)'' = ''[REDACTED: secret DDL]''"
  by code_simp

lemma strip_comments_other: "take 2 s \<noteq> ''--'' \<Longrightarrow> take 2 s \<noteq> ''/*'' \<Longrightarrow> strip_comments s = s"
  by (subst strip_comments.simps) simp

lemma strip_comments_line:
  assumes "newline \<notin> set c"
  shows "strip_comments (''--'' @ c @ newline # s) = strip_comments (lstrip_ws s)"
proof -
  have "find_char newline ((''--'' @ c) @ newline # s) = Some (length (''--'' @ c))"
    using assms by (intro find_char_append) simp
  then show ?thesis by (subst strip_comments.simps) simp
qed

end
