(* ===== verification/Instrumentation.thy ===== *)
theory Instrumentation
  imports Prelude
begin

text \<open>
  Session instrumentation (\<open>src/src/enterprise/instrumentation/\<close>): the manager's write queue
  and the record classes that append to it. A queued closure is represented by the data of the
  SQL statement it runs (\<open>instr_write\<close>); the writer thread applies the writes in queue order.
\<close>

section \<open>Queued writes and the manager\<close>

text \<open>The description of a server instance.\<close>

record instance_config =
  ic_instance_id :: string
  ic_gizmosql_version :: string
  ic_gizmosql_edition :: string
  ic_duckdb_version :: string
  ic_arrow_version :: string
  ic_hostname :: string
  ic_hostname_arg :: string
  ic_server_ip :: string
  ic_port :: int
  ic_database_path :: string
  ic_tls_enabled :: bool
  ic_tls_cert_path :: string
  ic_tls_key_path :: string
  ic_mtls_required :: bool
  ic_mtls_ca_cert_path :: string
  ic_readonly :: bool
  ic_os_platform :: string
  ic_os_name :: string
  ic_os_version :: string
  ic_cpu_arch :: string
  ic_cpu_model :: string
  ic_cpu_count :: int
  ic_memory_total_bytes :: int

text \<open>A bound value of the instance row.\<close>

datatype row_value = RText string | RNull | RInt int | RBool bool

datatype instr_write =
    InsertInstance "row_value list"
  | InsertSession string string string string string string string "string option" "string option"
  | UpdateSession string string string
  | InsertStatement string string string "string option" bool bool "string option"
  | InsertExecution string string "string option"
  | UpdateExecution string int string "string option" int
  | UpdateInstance string string

text \<open>\<open>s.empty() ? duckdb::Value() : duckdb::Value(s)\<close>: the empty string is stored as NULL.\<close>

definition null_if_empty :: "string \<Rightarrow> string option" where
  "null_if_empty s = (if s = [] then None else Some s)"

record instr_manager =
  mgr_catalog :: string
  mgr_schema :: string
  mgr_enabled :: bool
  mgr_shutdown :: bool
  mgr_queue :: "instr_write list"

text \<open>\<open>InstrumentationManager::QueueWrite\<close>.\<close>

definition QueueWrite :: "instr_write \<Rightarrow> instr_manager \<Rightarrow> instr_manager" where
  "QueueWrite w m =
     (if \<not> mgr_enabled m \<or> mgr_shutdown m then m else m\<lparr>mgr_queue := mgr_queue m @ [w]\<rparr>)"

text \<open>A \<open>shared_ptr\<close> to the manager may be null; the record classes test it and \<open>IsEnabled\<close>.\<close>

definition queue_if_set :: "instr_write \<Rightarrow> instr_manager option \<Rightarrow> instr_manager option" where
  "queue_if_set w mo =
     (case mo of
        None \<Rightarrow> None
      | Some m \<Rightarrow> (if mgr_enabled m then Some (QueueWrite w m) else Some m))"

lemma queue_if_set_None [simp]: "queue_if_set w None = None"
  by (simp add: queue_if_set_def)

lemma queue_if_set_catalog [simp]:
  "map_option mgr_catalog (queue_if_set w mo) = map_option mgr_catalog mo"
  by (simp add: queue_if_set_def QueueWrite_def split: option.splits)

section \<open>Instance records\<close>

record instance_instr =
  ii_instance_id :: string
  ii_stop_reason :: string

definition text_or_null :: "string \<Rightarrow> row_value" where
  "text_or_null s = (if s = [] then RNull else RText s)"

definition instance_values :: "instance_config \<Rightarrow> row_value list" where
  "instance_values c =
     [RText (ic_instance_id c), RText (ic_gizmosql_version c), RText (ic_gizmosql_edition c),
      RText (ic_duckdb_version c), RText (ic_arrow_version c), text_or_null (ic_hostname c),
      text_or_null (ic_hostname_arg c), text_or_null (ic_server_ip c), RInt (ic_port c),
      RText (ic_database_path c), RBool (ic_tls_enabled c), text_or_null (ic_tls_cert_path c),
      text_or_null (ic_tls_key_path c), RBool (ic_mtls_required c), text_or_null (ic_mtls_ca_cert_path c),
      RBool (ic_readonly c), text_or_null (ic_os_platform c), text_or_null (ic_os_name c),
      text_or_null (ic_os_version c), text_or_null (ic_cpu_arch c), text_or_null (ic_cpu_model c),
      RInt (ic_cpu_count c), RInt (ic_memory_total_bytes c)]"

definition InstanceInstrumentation ::
    "instr_manager option \<Rightarrow> instance_config \<Rightarrow> instance_instr \<times> instr_manager option" where
  "InstanceInstrumentation mo c =
     (\<lparr>ii_instance_id = ic_instance_id c, ii_stop_reason = ''graceful''\<rparr>,
      queue_if_set (InsertInstance (instance_values c)) mo)"

definition SetInstanceStopReason :: "string \<Rightarrow> instance_instr \<Rightarrow> instance_instr" where
  "SetInstanceStopReason reason i = i\<lparr>ii_stop_reason := reason\<rparr>"

definition destroy_instance_instr ::
    "instance_instr \<Rightarrow> instr_manager option \<Rightarrow> instr_manager option" where
  "destroy_instance_instr i mo = queue_if_set (UpdateInstance (ii_instance_id i) (ii_stop_reason i)) mo"

section \<open>Statement records\<close>

definition StatementInstrumentation ::
    "instr_manager option \<Rightarrow> string \<Rightarrow> string \<Rightarrow> string \<Rightarrow> string \<Rightarrow> bool \<Rightarrow> string
     \<Rightarrow> instr_manager option" where
  "StatementInstrumentation mo statement_id sid sql_text flight_method is_internal prepare_error =
     queue_if_set
       (InsertStatement statement_id sid sql_text (null_if_empty flight_method) is_internal
          (prepare_error = []) (null_if_empty prepare_error)) mo"

lemma StatementInstrumentation_None [simp]:
  "StatementInstrumentation None st sid sql fm i e = None"
  by (simp add: StatementInstrumentation_def)

lemma StatementInstrumentation_catalog [simp]:
  "map_option mgr_catalog (StatementInstrumentation mo st sid sql fm i e)
     = map_option mgr_catalog mo"
  by (simp add: StatementInstrumentation_def)

section \<open>Session records\<close>

record session_instr =
  si_session_id :: string
  si_stop_reason :: string

text \<open>The identity of a client as the session table keeps it.\<close>

type_synonym uuid_text = string
type_synonym user_text = string
type_synonym peer_text = string

definition SessionInstrumentation ::
    "instr_manager option \<Rightarrow> uuid_text \<Rightarrow> uuid_text \<Rightarrow> user_text \<Rightarrow> user_text \<Rightarrow> string
     \<Rightarrow> peer_text \<Rightarrow> peer_text \<Rightarrow> string \<Rightarrow> string \<Rightarrow> session_instr \<times> instr_manager option" where
  "SessionInstrumentation mo inst sid user rl auth pr ident agent protocol =
     (\<lparr>si_session_id = sid, si_stop_reason = ''closed''\<rparr>,
      queue_if_set
        (InsertSession sid inst user rl auth pr protocol (null_if_empty ident)
           (null_if_empty agent)) mo)"

definition SetSessionStopReason :: "string \<Rightarrow> session_instr \<Rightarrow> session_instr" where
  "SetSessionStopReason reason s = s\<lparr>si_stop_reason := reason\<rparr>"

text \<open>The destructor maps the reason to the status enumeration of the table.\<close>

definition session_status :: "string \<Rightarrow> string" where
  "session_status reason =
     (if reason \<noteq> ''closed'' \<and> reason \<noteq> ''killed'' \<and> reason \<noteq> ''timeout'' \<and> reason \<noteq> ''error''
      then ''closed'' else reason)"

definition destroy_session_instr ::
    "session_instr \<Rightarrow> instr_manager option \<Rightarrow> instr_manager option" where
  "destroy_session_instr s mo =
     queue_if_set
       (UpdateSession (si_session_id s) (session_status (si_stop_reason s)) (si_stop_reason s)) mo"

section \<open>Execution records\<close>

text \<open>
  \<open>ExecutionInstrumentation\<close>: wall-clock times are milliseconds (\<open>None\<close> is the epoch value of a
  time point that was never set); \<open>now\<close> is the clock at the call.
\<close>

record exec_instr =
  ei_execution_id :: string
  ei_rows :: int
  ei_status :: string
  ei_error :: string
  ei_duration :: int
  ei_start :: int
  ei_end :: "int option"
  ei_finalized :: bool

definition ExecutionInstrumentation ::
    "instr_manager option \<Rightarrow> string \<Rightarrow> string \<Rightarrow> string \<Rightarrow> int
     \<Rightarrow> exec_instr \<times> instr_manager option" where
  "ExecutionInstrumentation mo execution_id statement_id bind_params now =
     (\<lparr>ei_execution_id = execution_id, ei_rows = 0, ei_status = ''executing'', ei_error = [],
       ei_duration = 0, ei_start = now, ei_end = None, ei_finalized = False\<rparr>,
      queue_if_set (InsertExecution execution_id statement_id (null_if_empty bind_params)) mo)"

definition Finalize ::
    "int \<Rightarrow> exec_instr \<Rightarrow> instr_manager option \<Rightarrow> exec_instr \<times> instr_manager option" where
  "Finalize now e mo =
     (if ei_finalized e then (e, mo)
      else let e1 = e\<lparr>ei_finalized := True\<rparr> in
        (case mo of
           None \<Rightarrow> (e1, None)
         | Some m \<Rightarrow>
             if \<not> mgr_enabled m then (e1, Some m)
             else
               let t_end = (case ei_end e1 of None \<Rightarrow> now | Some t \<Rightarrow> t);
                   e2 = e1\<lparr>ei_end := Some t_end\<rparr>;
                   dur = (if ei_duration e2 = 0 then t_end - ei_start e2 else ei_duration e2)
               in (e2, Some (QueueWrite
                         (UpdateExecution (ei_execution_id e2) (ei_rows e2) (ei_status e2)
                            (null_if_empty (ei_error e2)) dur) m))))"

definition SetCompleted :: "int \<Rightarrow> int \<Rightarrow> exec_instr \<Rightarrow> exec_instr" where
  "SetCompleted now duration e =
     e\<lparr>ei_end := Some now, ei_duration := duration, ei_status := ''success''\<rparr>"

definition SetError ::
    "int \<Rightarrow> string \<Rightarrow> exec_instr \<Rightarrow> instr_manager option \<Rightarrow> exec_instr \<times> instr_manager option" where
  "SetError now err e mo =
     Finalize now (e\<lparr>ei_end := Some now, ei_error := err, ei_status := ''error''\<rparr>) mo"

definition SetTimeout ::
    "int \<Rightarrow> exec_instr \<Rightarrow> instr_manager option \<Rightarrow> exec_instr \<times> instr_manager option" where
  "SetTimeout now e mo = Finalize now (e\<lparr>ei_end := Some now, ei_status := ''timeout''\<rparr>) mo"

definition SetCancelled ::
    "int \<Rightarrow> exec_instr \<Rightarrow> instr_manager option \<Rightarrow> exec_instr \<times> instr_manager option" where
  "SetCancelled now e mo = Finalize now (e\<lparr>ei_end := Some now, ei_status := ''cancelled''\<rparr>) mo"

definition IncrementRowsFetched :: "int \<Rightarrow> exec_instr \<Rightarrow> exec_instr" where
  "IncrementRowsFetched n e = e\<lparr>ei_rows := ei_rows e + n\<rparr>"

definition destroy_exec_instr ::
    "int \<Rightarrow> exec_instr \<Rightarrow> instr_manager option \<Rightarrow> instr_manager option" where
  "destroy_exec_instr now e mo = (if ei_finalized e then mo else snd (Finalize now e mo))"

text \<open>The calls the server makes on one execution record between its construction and its end.\<close>

datatype exec_call = Completed int int | Failed int string | TimedOut int | Cancelled int | Rows int

fun exec_event :: "exec_call \<Rightarrow> exec_instr \<times> instr_manager option
    \<Rightarrow> exec_instr \<times> instr_manager option" where
  "exec_event (Completed now d) (e, mo) = (SetCompleted now d e, mo)"
| "exec_event (Failed now err) (e, mo) = SetError now err e mo"
| "exec_event (TimedOut now) (e, mo) = SetTimeout now e mo"
| "exec_event (Cancelled now) (e, mo) = SetCancelled now e mo"
| "exec_event (Rows n) (e, mo) = (IncrementRowsFetched n e, mo)"

definition exec_lifecycle ::
    "instr_manager option \<Rightarrow> string \<Rightarrow> string \<Rightarrow> string \<Rightarrow> int \<Rightarrow> exec_call list \<Rightarrow> int
     \<Rightarrow> instr_manager option" where
  "exec_lifecycle mo xid stid params t0 evs t1 =
     (let (e, mo') = fold exec_event evs (ExecutionInstrumentation mo xid stid params t0)
      in destroy_exec_instr t1 e mo')"

section \<open>One insert and one update per execution\<close>

fun is_update_of :: "string \<Rightarrow> instr_write \<Rightarrow> bool" where
  "is_update_of xid (UpdateExecution x r s e d) \<longleftrightarrow> x = xid"
| "is_update_of xid w \<longleftrightarrow> False"

definition exec_updates :: "string \<Rightarrow> instr_manager \<Rightarrow> nat" where
  "exec_updates xid m = length (filter (is_update_of xid) (mgr_queue m))"

definition accepting :: "instr_manager \<Rightarrow> bool" where
  "accepting m \<longleftrightarrow> mgr_enabled m \<and> \<not> mgr_shutdown m"

text \<open>
  The invariant of the life cycle: the record's update has been queued exactly when the record is
  marked finalized.
\<close>

definition exec_inv :: "string \<Rightarrow> nat \<Rightarrow> exec_instr \<times> instr_manager option \<Rightarrow> bool" where
  "exec_inv xid n st \<longleftrightarrow>
     (case st of (e, mo) \<Rightarrow> ei_execution_id e = xid \<and>
        (\<exists>m. mo = Some m \<and> accepting m \<and>
           exec_updates xid m = n + (if ei_finalized e then 1 else 0)))"

lemma exec_invE:
  assumes "exec_inv xid n (e, mo)"
  obtains m where "mo = Some m" "accepting m" "ei_execution_id e = xid"
    "exec_updates xid m = n + (if ei_finalized e then 1 else 0)"
  using assms by (auto simp: exec_inv_def)

lemma Finalize_inv:
  assumes "exec_inv xid n (e, mo)"
  shows "exec_inv xid n (Finalize now e mo) \<and> ei_finalized (fst (Finalize now e mo))"
  using assms
  by (auto elim!: exec_invE simp: Finalize_def exec_inv_def Let_def QueueWrite_def accepting_def
        exec_updates_def)

lemma exec_event_inv:
  assumes "exec_inv xid n st"
  shows "exec_inv xid n (exec_event ev st)"
proof -
  obtain e mo where st: "st = (e, mo)" by (cases st)
  have upd: "exec_inv xid n (e', mo)"
    if "ei_finalized e' = ei_finalized e" "ei_execution_id e' = ei_execution_id e" for e'
    using assms that by (simp add: st exec_inv_def)
  show ?thesis
  proof (cases ev)
    case (Completed now d)
    then show ?thesis by (simp add: st SetCompleted_def upd)
  next
    case (Failed now err)
    then show ?thesis
      using Finalize_inv [OF upd] by (simp add: st SetError_def)
  next
    case (TimedOut now)
    then show ?thesis
      using Finalize_inv [OF upd] by (simp add: st SetTimeout_def)
  next
    case (Cancelled now)
    then show ?thesis
      using Finalize_inv [OF upd] by (simp add: st SetCancelled_def)
  next
    case (Rows k)
    then show ?thesis by (simp add: st IncrementRowsFetched_def upd)
  qed
qed

lemma exec_events_inv: "exec_inv xid n st \<Longrightarrow> exec_inv xid n (fold exec_event evs st)"
  by (induction evs arbitrary: st) (simp_all add: exec_event_inv)

lemma destroy_exec_updates:
  assumes "exec_inv xid n (e, mo)"
  shows "\<exists>m. destroy_exec_instr now e mo = Some m \<and> exec_updates xid m = n + 1"
proof (cases "ei_finalized e")
  case True
  then show ?thesis
    using assms by (auto elim!: exec_invE simp: destroy_exec_instr_def)
next
  case False
  have inv: "exec_inv xid n (Finalize now e mo)" and fin: "ei_finalized (fst (Finalize now e mo))"
    using Finalize_inv [OF assms] by simp_all
  obtain e' mo' where F: "Finalize now e mo = (e', mo')" by (cases "Finalize now e mo")
  with inv fin show ?thesis
    using False by (auto elim!: exec_invE simp: destroy_exec_instr_def)
qed

lemma new_exec_inv:
  assumes "accepting m"
  shows "exec_inv xid (exec_updates xid m)
           (ExecutionInstrumentation (Some m) xid stid params t0)"
  using assms
  by (simp add: exec_inv_def ExecutionInstrumentation_def queue_if_set_def QueueWrite_def
        accepting_def exec_updates_def)

section \<open>Property\<close>

text \<open>
  C36: Every execution is recorded as finished exactly once: whatever calls are made on its record, in
  whatever order (completion, error, timeout, cancellation, fetched rows), and however often, by the
  time the record is destroyed exactly one UPDATE of that execution has been queued.
\<close>

theorem one_update_per_execution:
  assumes "mgr_enabled m" and "\<not> mgr_shutdown m"
  shows "\<exists>m'. exec_lifecycle (Some m) xid stid params t0 evs t1 = Some m' \<and>
    exec_updates xid m' = exec_updates xid m + 1"
proof -
  have acc: "accepting m" using assms by (simp add: accepting_def)
  obtain e mo where st: "fold exec_event evs (ExecutionInstrumentation (Some m) xid stid params t0) = (e, mo)"
    by (cases "fold exec_event evs (ExecutionInstrumentation (Some m) xid stid params t0)")
  have "exec_inv xid (exec_updates xid m) (e, mo)"
    using exec_events_inv [OF new_exec_inv [OF acc]] st by metis
  from destroy_exec_updates [OF this] show ?thesis
    by (simp add: exec_lifecycle_def st)
qed

theorem one_update_per_execution_witness:
  "\<exists>m'. exec_lifecycle
      (Some \<lparr>mgr_catalog = ''c'', mgr_schema = ''main'', mgr_enabled = True, mgr_shutdown = False,
             mgr_queue = []\<rparr>)
      ''x1'' ''s1'' [] 100 [Rows 5, Failed 130 ''boom'', Completed 140 40] 150 = Some m'
    \<and> exec_updates ''x1'' m' = exec_updates ''x1''
        \<lparr>mgr_catalog = ''c'', mgr_schema = ''main'', mgr_enabled = True, mgr_shutdown = False,
         mgr_queue = []\<rparr> + 1"
  by (rule one_update_per_execution) simp_all

end
