(* ===== verification/SessionContext.thy ===== *)
theory SessionContext
  imports Instrumentation
begin

text \<open>
  The data that the authentication layer leaves for a request and that the server copies into
  a session: \<open>src/src/common/include/detail/request_ctx.h\<close> and \<open>session_context.h\<close>. The access
  levels form a linear order (write implies read), which the access checks compare with.
\<close>

section \<open>Catalog access rules\<close>

datatype catalog_access_level = kNone | kRead | kWrite

fun access_rank :: "catalog_access_level \<Rightarrow> nat" where
  "access_rank kNone = 0"
| "access_rank kRead = 1"
| "access_rank kWrite = 2"

instantiation catalog_access_level :: linorder
begin

definition less_eq_catalog_access_level :: "catalog_access_level \<Rightarrow> catalog_access_level \<Rightarrow> bool"
  where "less_eq_catalog_access_level a b \<longleftrightarrow> access_rank a \<le> access_rank b"

definition less_catalog_access_level :: "catalog_access_level \<Rightarrow> catalog_access_level \<Rightarrow> bool"
  where "less_catalog_access_level a b \<longleftrightarrow> access_rank a < access_rank b"

instance
proof
  fix x y :: catalog_access_level
  assume "x \<le> y" and "y \<le> x"
  then show "x = y"
    by (cases x; cases y) (simp_all add: less_eq_catalog_access_level_def)
qed (auto simp: less_eq_catalog_access_level_def less_catalog_access_level_def)

end

lemma access_le_iff [simp]:
  "kRead \<le> a \<longleftrightarrow> a \<noteq> kNone"
  "kWrite \<le> a \<longleftrightarrow> a = kWrite"
  "kNone \<le> a"
  by (cases a; simp add: less_eq_catalog_access_level_def)+

record catalog_access_rule =
  rule_catalog :: string
  rule_access :: catalog_access_level

section \<open>Request context and client session\<close>

text \<open>The thread-local scratchpad of one call; every field is optional.\<close>

record request_ctx =
  ctx_username :: "string option"
  ctx_role :: "string option"
  ctx_peer :: "string option"
  ctx_peer_identity :: "string option"
  ctx_session_id :: "string option"
  ctx_auth_method :: "string option"
  ctx_user_agent :: "string option"
  ctx_connection_protocol :: "string option"
  ctx_catalog_access :: "catalog_access_rule list option"

definition empty_ctx :: request_ctx where
  "empty_ctx =
     \<lparr>ctx_username = None, ctx_role = None, ctx_peer = None, ctx_peer_identity = None,
      ctx_session_id = None, ctx_auth_method = None, ctx_user_agent = None,
      ctx_connection_protocol = None, ctx_catalog_access = None\<rparr>"

datatype log_level = ARROW_TRACE | ARROW_DEBUG | ARROW_INFO | ARROW_WARNING | ARROW_ERROR | ARROW_FATAL

text \<open>
  \<open>ClientSession\<close>. The connection is an abstract handle. The weak server pointer is not a
  field: an operation that locks it takes the server as an optional argument.
\<close>

record 'conn client_session =
  connection :: 'conn
  instance_id :: string
  session_id :: string
  username :: string
  role :: string
  peer :: string
  peer_identity :: string
  auth_method :: string
  user_agent :: string
  connection_protocol :: string
  active_sql_handle :: "string option"
  query_timeout :: "int option"
  query_log_level :: "log_level option"
  catalog_access :: "catalog_access_rule list"
  instrumentation :: "session_instr option"
  kill_requested :: bool

end
