(* ===== verification/License.thy ===== *)
theory License
  imports Prelude
begin

text \<open>
  License validation and the enterprise feature switches
  (\<open>src/src/enterprise/license_mgr/\<close>, \<open>src/src/enterprise/enterprise_features.cpp\<close>). Decoding and
  signature verification belong to jwt-cpp: they are the parameters \<open>decode\<close> and \<open>verify\<close>.
  The clock is the parameter \<open>now\<close>.
\<close>

section \<open>Licenses\<close>

record license_info =
  license_id :: string
  issuer :: string
  subject :: string
  audience :: string
  issued_at :: int
  expires_at :: int
  features :: "string set"

definition HasFeature :: "license_info \<Rightarrow> string \<Rightarrow> bool" where
  "HasFeature li f \<longleftrightarrow> f \<in> features li"

definition IsExpired :: "int \<Rightarrow> license_info \<Rightarrow> bool" where
  "IsExpired now li \<longleftrightarrow> now > expires_at li"

text \<open>
  The claims of a decoded license token; \<open>None\<close> is a missing claim, \<open>Inl\<close> the exception that reading one of
  another type throws.
\<close>

record license_claims =
  lc_jti :: "(string + string) option"
  lc_iss :: "(string + string) option"
  lc_sub :: "(string + string) option"
  lc_aud :: "(string + string list) option"
  lc_iat :: "(string + int) option"
  lc_exp :: "(string + int) option"
  lc_features :: "(string + string list) option"

datatype verify_error = SignatureError string | TokenError string | OtherError string

definition verify_message :: "verify_error \<Rightarrow> string" where
  "verify_message e =
     (case e of
        SignatureError m \<Rightarrow> ''License signature verification failed: '' @ m
      | TokenError m \<Rightarrow> ''License verification failed: '' @ m
      | OtherError m \<Rightarrow> ''Failed to parse license: '' @ m)"

definition missing_claim :: "string \<Rightarrow> 'a result" where
  "missing_claim c = fail Invalid (''License missing required claim: '' @ c)"

text \<open>Reading a claim that is there; an exception is caught at the end of \<open>ValidateLicense\<close>.\<close>

definition read_claim :: "string + 'a \<Rightarrow> 'a result" where
  "read_claim x = (case x of Inl e \<Rightarrow> fail Invalid (verify_message (OtherError e)) | Inr v \<Rightarrow> Inr v)"

definition require :: "(string + 'a) option \<Rightarrow> string \<Rightarrow> 'a result" where
  "require x c = (case x of None \<Rightarrow> missing_claim c | Some v \<Rightarrow> read_claim v)"

text \<open>The part of \<open>ValidateLicense\<close> after the signature check: the required claims in order.\<close>

definition license_of_claims :: "int \<Rightarrow> license_claims \<Rightarrow> license_info result" where
  "license_of_claims now c =
     rbind (require (lc_jti c) ''jti (license ID)'') (\<lambda>jti.
     rbind (require (lc_iss c) ''iss (issuer)'') (\<lambda>iss.
     rbind (require (lc_sub c) ''sub (subject/email)'') (\<lambda>sub.
     rbind (require (lc_aud c) ''aud (audience/company)'') (\<lambda>auds.
     rbind (require (lc_iat c) ''iat (issued at)'') (\<lambda>iat.
     rbind (require (lc_exp c) ''exp (expires at)'') (\<lambda>exp.
       let info = \<lparr>license_id = jti, issuer = iss, subject = sub,
                   audience = (case auds of [] \<Rightarrow> [] | a # _ \<Rightarrow> a),
                   issued_at = iat, expires_at = exp, features = {}\<rparr>
       in if IsExpired now info
          then fail Invalid ''License has expired. Please contact sales@gizmodata.com to renew.''
          else case lc_features c of
                 None \<Rightarrow> Inr info
               | Some claim \<Rightarrow> rbind (read_claim claim) (\<lambda>fs. Inr (info\<lparr>features := set fs\<rparr>))))))))"

text \<open>\<open>ValidateLicense\<close>: the result and the manager's \<open>current_license_\<close> afterwards.\<close>

definition ValidateLicense ::
    "(string \<Rightarrow> verify_error + 'tok) \<Rightarrow> ('tok \<Rightarrow> verify_error option) \<Rightarrow> ('tok \<Rightarrow> license_claims)
     \<Rightarrow> int \<Rightarrow> string \<Rightarrow> license_info option \<Rightarrow> license_info result \<times> license_info option" where
  "ValidateLicense decode verify claims now license_jwt cur =
     (case decode license_jwt of
        Inl e \<Rightarrow> (fail Invalid (verify_message e), cur)
      | Inr tok \<Rightarrow>
          (case verify tok of
             Some e \<Rightarrow> (fail Invalid (verify_message e), cur)
           | None \<Rightarrow>
               (case license_of_claims now (claims tok) of
                  Inl e \<Rightarrow> (Inl e, cur)
                | Inr info \<Rightarrow> (Inr info, Some info))))"

definition license_blank :: "char \<Rightarrow> bool" where
  "license_blank c \<longleftrightarrow> c = CHR '' '' \<or> c = CHR 0x09 \<or> c = CHR 0x0A \<or> c = CHR 0x0D"

text \<open>The trimming of the file's text: leading and trailing blanks are erased.\<close>

definition license_token :: "string \<Rightarrow> string" where
  "license_token text = rev (dropWhile license_blank (rev (dropWhile license_blank text)))"

text \<open>\<open>LoadLicenseFromFile\<close>: \<open>contents\<close> is what the file holds, \<open>None\<close> when it cannot be opened.\<close>

definition LoadLicenseFromFile ::
    "(string \<Rightarrow> verify_error + 'tok) \<Rightarrow> ('tok \<Rightarrow> verify_error option) \<Rightarrow> ('tok \<Rightarrow> license_claims)
     \<Rightarrow> int \<Rightarrow> string \<Rightarrow> string option \<Rightarrow> license_info option
     \<Rightarrow> license_info result \<times> license_info option" where
  "LoadLicenseFromFile decode verify claims now path contents cur =
     (case contents of
        None \<Rightarrow> (fail Invalid (''Cannot open license file: '' @ path), cur)
      | Some text \<Rightarrow>
          let jwt = license_token text
          in if jwt = [] then (fail Invalid (''License file is empty: '' @ path), cur)
             else ValidateLicense decode verify claims now jwt cur)"

section \<open>Feature switches\<close>

definition HasValidLicense :: "int \<Rightarrow> license_info option \<Rightarrow> bool" where
  "HasValidLicense now cur = (case cur of None \<Rightarrow> False | Some li \<Rightarrow> \<not> IsExpired now li)"

definition IsFeatureLicensed :: "license_info option \<Rightarrow> string \<Rightarrow> bool" where
  "IsFeatureLicensed cur f = (case cur of None \<Rightarrow> False | Some li \<Rightarrow> HasFeature li f)"

definition IsEnterpriseEdition :: "int \<Rightarrow> license_info option \<Rightarrow> bool" where
  "IsEnterpriseEdition now cur = HasValidLicense now cur"

definition IsFeatureAvailable :: "int \<Rightarrow> license_info option \<Rightarrow> string \<Rightarrow> bool" where
  "IsFeatureAvailable now cur f =
     (if \<not> IsEnterpriseEdition now cur then False else IsFeatureLicensed cur f)"

definition IsKillSessionAvailable :: "int \<Rightarrow> license_info option \<Rightarrow> bool" where
  "IsKillSessionAvailable now cur = IsFeatureAvailable now cur ''kill_session''"

definition IsCatalogPermissionsAvailable :: "int \<Rightarrow> license_info option \<Rightarrow> bool" where
  "IsCatalogPermissionsAvailable now cur = IsFeatureAvailable now cur ''catalog_permissions''"

definition IsExternalAuthAvailable :: "int \<Rightarrow> license_info option \<Rightarrow> bool" where
  "IsExternalAuthAvailable now cur = IsFeatureAvailable now cur ''external_auth''"

definition GetEditionName :: "int \<Rightarrow> license_info option \<Rightarrow> string" where
  "GetEditionName now cur = (if IsEnterpriseEdition now cur then ''Enterprise'' else ''Core'')"

definition GetLicenseRequiredError :: "string \<Rightarrow> string" where
  "GetLicenseRequiredError f =
     ''Error: '' @ f @ '' is a commercially licensed enterprise feature.'' @ [CHR 0x0A] @
     ''       Please provide a valid license key file via --license-key-file'' @ [CHR 0x0A] @
     ''       or contact GizmoData sales at sales@gizmodata.com to obtain a license.''"

lemma IsFeatureAvailable_iff:
  "IsFeatureAvailable now cur f \<longleftrightarrow>
     (\<exists>li. cur = Some li \<and> now \<le> expires_at li \<and> f \<in> features li)"
  by (cases cur)
    (auto simp: IsFeatureAvailable_def IsEnterpriseEdition_def HasValidLicense_def IsExpired_def
      IsFeatureLicensed_def HasFeature_def)

lemma read_claim_ok [simp]: "read_claim x = Inr v \<longleftrightarrow> x = Inr v"
  by (cases x) (auto simp: read_claim_def)

lemma require_ok [simp]: "require x c = Inr v \<longleftrightarrow> x = Some (Inr v)"
  by (cases x) (auto simp: require_def missing_claim_def)

text \<open>A features claim that is no array of strings is an error like any other malformed token.\<close>

lemma malformed_features_refused:
  assumes "lc_features c = Some (Inl e)"
  shows "\<not> is_ok (license_of_claims now c)"
  using assms by (auto simp: license_of_claims_def rbind_def read_claim_def is_ok_iff Let_def split: sum.splits)

lemma ValidateLicense_ok:
  assumes "ValidateLicense decode verify claims now jwt cur = (Inr info, cur')"
  shows "cur' = Some info \<and>
    (\<exists>tok. decode jwt = Inr tok \<and> verify tok = None \<and>
       license_of_claims now (claims tok) = Inr info)"
  using assms by (auto simp: ValidateLicense_def split: sum.splits option.splits)

lemma ValidateLicense_error:
  assumes "ValidateLicense decode verify claims now jwt cur = (Inl e, cur')"
  shows "cur' = cur"
  using assms by (auto simp: ValidateLicense_def split: sum.splits option.splits)

section \<open>Property\<close>

lemma license_of_claims_ok:
  assumes "license_of_claims now c = Inr info"
  shows "lc_exp c = Some (Inr (expires_at info)) \<and> now \<le> expires_at info
    \<and> (f \<in> features info \<longrightarrow> (\<exists>fs. lc_features c = Some (Inr fs) \<and> f \<in> set fs))"
  using assms by (auto simp: license_of_claims_def rbind_ok_iff Let_def IsExpired_def split: if_splits option.splits)

lemma LoadLicense_cases:
  assumes "LoadLicenseFromFile decode verify claims now path contents cur = (r, cur')"
  shows "cur' = cur \<and> \<not> is_ok r \<or>
    (\<exists>text tok info. contents = Some text \<and> decode (license_token text) = Inr tok
       \<and> verify tok = None \<and> license_of_claims now (claims tok) = Inr info
       \<and> cur' = Some info \<and> r = Inr info)"
  using assms
  by (auto simp: LoadLicenseFromFile_def ValidateLicense_def Let_def is_ok_iff
      split: option.splits if_splits sum.splits)

text \<open>
  No enterprise feature without a valid license that grants it. When a feature is available at
  some time after a license file was loaded, then either the load failed and the feature was available
  under the license in force before, or the file's token decoded, passed the signature check, lists the
  feature among its claims, and was and is not past its expiry date.
\<close>

theorem feature_needs_verified_license:
  assumes "LoadLicenseFromFile decode verify claims now path contents cur = (r, cur')"
    and "IsFeatureAvailable now' cur' f"
  shows "IsFeatureAvailable now' cur f \<and> \<not> is_ok r \<or>
    (\<exists>text tok fs t. contents = Some text \<and> decode (license_token text) = Inr tok
       \<and> verify tok = None \<and> lc_features (claims tok) = Some (Inr fs) \<and> f \<in> set fs
       \<and> lc_exp (claims tok) = Some (Inr t) \<and> now \<le> t \<and> now' \<le> t)"
  using LoadLicense_cases [OF assms(1)]
proof (elim disjE exE conjE)
  fix tx tok info
  assume "contents = Some tx" "decode (license_token tx) = Inr tok" "verify tok = None"
    and info: "license_of_claims now (claims tok) = Inr info" "cur' = Some info"
  moreover from assms(2) info(2) have "now' \<le> expires_at info" "f \<in> features info"
    by (simp_all add: IsFeatureAvailable_iff)
  ultimately show ?thesis
    using license_of_claims_ok [OF info(1)] by blast
qed (use assms(2) in simp)

definition sample_claims :: license_claims where
  "sample_claims =
     \<lparr>lc_jti = Some (Inr ''id''), lc_iss = Some (Inr ''gizmodata''), lc_sub = Some (Inr ''a@b.c''),
      lc_aud = Some (Inr [''ACME'']), lc_iat = Some (Inr 10), lc_exp = Some (Inr 100),
      lc_features = Some (Inr [''kill_session''])\<rparr>"

theorem feature_needs_verified_license_witness:
  "IsFeatureAvailable 50 None ''kill_session'' \<and>
     \<not> is_ok (fst (LoadLicenseFromFile (\<lambda>s. Inr s) (\<lambda>_. None) (\<lambda>_. sample_claims) 20 ''f''
                  (Some ''tok'') None)) \<or>
   (\<exists>text tok fs t. Some ''tok'' = Some text
       \<and> (\<lambda>s. Inr s :: verify_error + string) (license_token text) = Inr tok
       \<and> (\<lambda>_ :: string. None :: verify_error option) tok = None
       \<and> lc_features ((\<lambda>_. sample_claims) tok) = Some (Inr fs) \<and> ''kill_session'' \<in> set fs
       \<and> lc_exp ((\<lambda>_. sample_claims) tok) = Some (Inr t) \<and> 20 \<le> t \<and> 50 \<le> t)"
  by (rule feature_needs_verified_license [where path = "''f''" and cur' = "snd (LoadLicenseFromFile (\<lambda>s. Inr s)
        (\<lambda>_. None) (\<lambda>_. sample_claims) 20 ''f'' (Some ''tok'') None)"])
    (simp, code_simp)

end
