(* ===== verification/CatalogPermissions.thy ===== *)
theory CatalogPermissions
  imports SessionContext Instrumentation License
begin

text \<open>
  Per-catalog access control (\<open>src/src/enterprise/catalog_permissions/\<close>): the access level of a
  session on a catalog, and the two checks that \<open>DuckDBStatement::Create\<close> runs over the catalogs
  a prepared statement modifies and reads. \<open>perms\<close> stands for
  \<open>EnterpriseFeatures::Instance().IsCatalogPermissionsAvailable()\<close> at the call. The catalogs come
  from an \<open>unordered_map\<close>: the list gives them in its iteration order.
\<close>

section \<open>Access level of a catalog\<close>

fun first_rule :: "string \<Rightarrow> catalog_access_rule list \<Rightarrow> catalog_access_level" where
  "first_rule c [] = kNone"
| "first_rule c (r # rs) =
     (if rule_catalog r = c \<or> rule_catalog r = ''*'' then rule_access r else first_rule c rs)"

definition GetCatalogAccess ::
    "bool \<Rightarrow> string \<Rightarrow> string \<Rightarrow> catalog_access_rule list \<Rightarrow> instr_manager option
     \<Rightarrow> catalog_access_level" where
  "GetCatalogAccess perms catalog_name rl rules mgr =
     (if map_option mgr_catalog mgr = Some catalog_name
      then (if rl = ''admin'' then kRead else kNone)
      else if \<not> perms then kWrite
      else if rules = [] then kWrite
      else first_rule catalog_name rules)"

definition HasReadAccess ::
    "bool \<Rightarrow> 'c client_session \<Rightarrow> string \<Rightarrow> instr_manager option \<Rightarrow> bool" where
  "HasReadAccess perms cs c mgr \<longleftrightarrow>
     GetCatalogAccess perms c (role cs) (catalog_access cs) mgr \<ge> kRead"

definition HasWriteAccess ::
    "bool \<Rightarrow> 'c client_session \<Rightarrow> string \<Rightarrow> instr_manager option \<Rightarrow> bool" where
  "HasWriteAccess perms cs c mgr \<longleftrightarrow>
     GetCatalogAccess perms c (role cs) (catalog_access cs) mgr \<ge> kWrite"

section \<open>The checks of a statement\<close>

text \<open>The identity of the statement that a rejection is recorded under.\<close>

record stmt_ident =
  st_id :: string
  st_sql :: string
  st_method :: string
  st_internal :: bool

definition audit ::
    "'c client_session \<Rightarrow> stmt_ident \<Rightarrow> string \<Rightarrow> instr_manager option \<Rightarrow> instr_manager option" where
  "audit cs si err mgr =
     StatementInstrumentation mgr (st_id si) (session_id cs) (st_sql si) (st_method si)
       (st_internal si) err"

definition instr_readonly_msg :: "string \<Rightarrow> string" where
  "instr_readonly_msg c =
     ''Access denied: The instrumentation catalog '' @ [CHR 0x27] @ c @ [CHR 0x27] @ '' is read-only.''"

definition no_write_msg :: "string \<Rightarrow> string" where
  "no_write_msg c =
     ''Access denied: You do not have write access to catalog '' @ [CHR 0x27] @ c @ [CHR 0x27] @ ''.''"

definition admin_only_msg :: "string \<Rightarrow> string" where
  "admin_only_msg c =
     ''Access denied: Only administrators can read the instrumentation catalog '' @ [CHR 0x27] @ c
       @ [CHR 0x27] @ ''.''"

definition no_read_msg :: "string \<Rightarrow> string" where
  "no_read_msg c =
     ''Access denied: You do not have read access to catalog '' @ [CHR 0x27] @ c @ [CHR 0x27] @ ''.''"

fun CheckCatalogWriteAccess ::
    "bool \<Rightarrow> 'c client_session \<Rightarrow> string list \<Rightarrow> instr_manager option \<Rightarrow> stmt_ident
     \<Rightarrow> unit result \<times> instr_manager option" where
  "CheckCatalogWriteAccess perms cs [] mgr si = (Inr (), mgr)"
| "CheckCatalogWriteAccess perms cs (c # cats) mgr si =
     (if map_option mgr_catalog mgr = Some c
      then (fail Invalid (instr_readonly_msg c), audit cs si (instr_readonly_msg c) mgr)
      else if \<not> HasWriteAccess perms cs c mgr
      then (fail Invalid (no_write_msg c), audit cs si (no_write_msg c) mgr)
      else CheckCatalogWriteAccess perms cs cats mgr si)"

fun CheckCatalogReadAccess ::
    "bool \<Rightarrow> 'c client_session \<Rightarrow> string list \<Rightarrow> instr_manager option \<Rightarrow> stmt_ident
     \<Rightarrow> unit result \<times> instr_manager option" where
  "CheckCatalogReadAccess perms cs [] mgr si = (Inr (), mgr)"
| "CheckCatalogReadAccess perms cs (c # cats) mgr si =
     (if map_option mgr_catalog mgr = Some c
      then (if role cs \<noteq> ''admin''
            then (fail Invalid (admin_only_msg c), audit cs si (admin_only_msg c) mgr)
            else CheckCatalogReadAccess perms cs cats mgr si)
      else if \<not> HasReadAccess perms cs c mgr
      then (fail Invalid (no_read_msg c), audit cs si (no_read_msg c) mgr)
      else CheckCatalogReadAccess perms cs cats mgr si)"

section \<open>What the checks decide\<close>

lemma audit_catalog [simp]: "map_option mgr_catalog (audit cs si e mgr) = map_option mgr_catalog mgr"
  by (simp add: audit_def)

lemma HasWriteAccess_instr [simp]:
  "map_option mgr_catalog mgr = Some c \<Longrightarrow> \<not> HasWriteAccess perms cs c mgr"
  by (auto simp: HasWriteAccess_def GetCatalogAccess_def)

lemma HasReadAccess_instr:
  "map_option mgr_catalog mgr = Some c \<Longrightarrow>
     HasReadAccess perms cs c mgr \<longleftrightarrow> role cs = ''admin''"
  by (auto simp: HasReadAccess_def GetCatalogAccess_def)

lemma write_implies_read: "HasWriteAccess perms cs c mgr \<Longrightarrow> HasReadAccess perms cs c mgr"
  by (auto simp: HasWriteAccess_def HasReadAccess_def)

text \<open>A check passes exactly when the session has the access on every catalog of the list.\<close>

lemma write_check_iff:
  "is_ok (fst (CheckCatalogWriteAccess perms cs cats mgr si)) \<longleftrightarrow>
     (\<forall>c \<in> set cats. HasWriteAccess perms cs c mgr)"
  by (induction cats) auto

lemma read_check_iff:
  "is_ok (fst (CheckCatalogReadAccess perms cs cats mgr si)) \<longleftrightarrow>
     (\<forall>c \<in> set cats. HasReadAccess perms cs c mgr)"
  by (induction cats) (auto simp: HasReadAccess_instr)

text \<open>A passed check leaves the audit queue alone; a failed one appends its error message.\<close>

lemma write_check_ok_mgr:
  "CheckCatalogWriteAccess perms cs cats mgr si = (Inr u, mgr') \<Longrightarrow> mgr' = mgr"
  by (induction cats) (auto split: if_splits)

lemma read_check_ok_mgr:
  "CheckCatalogReadAccess perms cs cats mgr si = (Inr u, mgr') \<Longrightarrow> mgr' = mgr"
  by (induction cats) (auto split: if_splits)

lemma write_check_fail_mgr:
  "CheckCatalogWriteAccess perms cs cats mgr si = (Inl e, mgr') \<Longrightarrow>
     code e = Invalid \<and> mgr' = audit cs si (message e) mgr"
  by (induction cats) (auto split: if_splits)

lemma read_check_fail_mgr:
  "CheckCatalogReadAccess perms cs cats mgr si = (Inl e, mgr') \<Longrightarrow>
     code e = Invalid \<and> mgr' = audit cs si (message e) mgr"
  by (induction cats) (auto split: if_splits)

lemma first_rule_append:
  "first_rule c (rs @ ts) =
     (if \<exists>r \<in> set rs. rule_catalog r = c \<or> rule_catalog r = ''*'' then first_rule c rs
      else first_rule c ts)"
  by (induction rs) auto

section \<open>Properties\<close>

text \<open>
  C6: The two access checks of a statement are complete and precise: they pass exactly when the
  session has the access on every catalog of the list, leaving the audit trail alone; otherwise the
  first offending catalog decides the error, which names that catalog, and exactly that error is
  recorded once as a rejected statement of the session.
\<close>

theorem access_checks_decide:
  "CheckCatalogWriteAccess perms cs cats mgr si =
     (case find (\<lambda>c. \<not> HasWriteAccess perms cs c mgr) cats of
        None \<Rightarrow> (Inr (), mgr)
      | Some c \<Rightarrow>
          let e = (if map_option mgr_catalog mgr = Some c then instr_readonly_msg c else no_write_msg c)
          in (fail Invalid e, audit cs si e mgr))
   \<and> CheckCatalogReadAccess perms cs cats mgr si =
     (case find (\<lambda>c. \<not> HasReadAccess perms cs c mgr) cats of
        None \<Rightarrow> (Inr (), mgr)
      | Some c \<Rightarrow>
          let e = (if map_option mgr_catalog mgr = Some c then admin_only_msg c else no_read_msg c)
          in (fail Invalid e, audit cs si e mgr))"
proof
  show "CheckCatalogWriteAccess perms cs cats mgr si =
     (case find (\<lambda>c. \<not> HasWriteAccess perms cs c mgr) cats of
        None \<Rightarrow> (Inr (), mgr)
      | Some c \<Rightarrow>
          let e = (if map_option mgr_catalog mgr = Some c then instr_readonly_msg c else no_write_msg c)
          in (fail Invalid e, audit cs si e mgr))"
    by (induction cats) (auto simp: Let_def)
next
  show "CheckCatalogReadAccess perms cs cats mgr si =
     (case find (\<lambda>c. \<not> HasReadAccess perms cs c mgr) cats of
        None \<Rightarrow> (Inr (), mgr)
      | Some c \<Rightarrow>
          let e = (if map_option mgr_catalog mgr = Some c then admin_only_msg c else no_read_msg c)
          in (fail Invalid e, audit cs si e mgr))"
    by (induction cats) (auto simp: Let_def HasReadAccess_instr)
qed

text \<open>
  The instrumentation catalog is protected whatever the license, the role's rules or the token
  say: no statement that modifies it passes the write check, and a statement that reads it passes the
  read check only for the role \<open>admin\<close> (which still needs the access on the other catalogs).
\<close>

theorem instrumentation_catalog_protected:
  assumes "map_option mgr_catalog mgr = Some c" and "c \<in> set cats"
  shows "\<not> is_ok (fst (CheckCatalogWriteAccess perms cs cats mgr si))
    \<and> (is_ok (fst (CheckCatalogReadAccess perms cs cats mgr si)) \<longleftrightarrow>
         role cs = ''admin'' \<and> list_all (\<lambda>x. HasReadAccess perms cs x mgr) cats)"
proof -
  have "\<not> HasWriteAccess perms cs c mgr" using assms(1) by simp
  moreover have "HasReadAccess perms cs c mgr \<longleftrightarrow> role cs = ''admin''"
    using assms(1) by (rule HasReadAccess_instr)
  ultimately show ?thesis
    using assms(2) unfolding write_check_iff read_check_iff list_all_iff by blast
qed

definition sample_session :: "string \<Rightarrow> catalog_access_rule list \<Rightarrow> unit client_session" where
  "sample_session rl rules =
     \<lparr>connection = (), instance_id = ''i'', session_id = ''s'', username = ''u'', role = rl,
      peer = ''p'', peer_identity = [], auth_method = ''Basic'', user_agent = [],
      connection_protocol = ''tls'', active_sql_handle = None, query_timeout = None,
      query_log_level = None, catalog_access = rules,
      instrumentation = None, kill_requested = False\<rparr>"

definition sample_manager :: instr_manager where
  "sample_manager =
     \<lparr>mgr_catalog = ''_gizmosql_instr'', mgr_schema = ''main'', mgr_enabled = True,
      mgr_shutdown = False, mgr_queue = []\<rparr>"

theorem instrumentation_catalog_protected_witness:
  "\<not> is_ok (fst (CheckCatalogWriteAccess False (sample_session ''user'' []) [''memory'', ''_gizmosql_instr'']
       (Some sample_manager) \<lparr>st_id = ''1'', st_sql = ''x'', st_method = [], st_internal = False\<rparr>))
   \<and> (is_ok (fst (CheckCatalogReadAccess False (sample_session ''user'' [])
            [''memory'', ''_gizmosql_instr''] (Some sample_manager)
            \<lparr>st_id = ''1'', st_sql = ''x'', st_method = [], st_internal = False\<rparr>)) \<longleftrightarrow>
         role (sample_session ''user'' []) = ''admin''
         \<and> list_all (\<lambda>x. HasReadAccess False (sample_session ''user'' []) x (Some sample_manager))
              [''memory'', ''_gizmosql_instr''])"
  by (rule instrumentation_catalog_protected [where c = "''_gizmosql_instr''"])
    (simp_all add: sample_manager_def)

text \<open>
  With a license for catalog permissions and a non-empty rule list, the first rule that names the
  catalog or is the wildcard decides, whatever stands behind it, and a catalog no rule matches is
  closed. Without the license, or with an empty rule list, every catalog but the instrumentation
  catalog is open for writing.
\<close>

theorem first_matching_rule_decides:
  assumes "map_option mgr_catalog mgr \<noteq> Some c"
    and "list_all (\<lambda>r. rule_catalog r \<noteq> c \<and> rule_catalog r \<noteq> ''*'') before"
    and "after = [] \<or> rule_catalog (hd after) = c \<or> rule_catalog (hd after) = ''*''"
  shows "GetCatalogAccess perms c rl (before @ after) mgr =
    (if \<not> perms \<or> before = [] \<and> after = [] then kWrite
     else case after of [] \<Rightarrow> kNone | r # rest \<Rightarrow> rule_access r)"
proof -
  have "first_rule c (before @ after) = first_rule c after"
    using assms(2) by (induction before) auto
  then show ?thesis
    using assms(1,3) by (cases after) (auto simp: GetCatalogAccess_def)
qed

theorem first_matching_rule_decides_witness:
  "GetCatalogAccess True ''sales'' ''user''
     ([\<lparr>rule_catalog = ''hr'', rule_access = kWrite\<rparr>]
       @ [\<lparr>rule_catalog = ''*'', rule_access = kRead\<rparr>, \<lparr>rule_catalog = ''sales'', rule_access = kWrite\<rparr>])
     None = kRead"
  by (subst first_matching_rule_decides) simp_all

end
