(* ===== verification/Sessions.thy ===== *)
theory Sessions
  imports SessionContext License
begin

text \<open>
  The session registry of \<open>DuckDBFlightSqlServer::Impl\<close> (\<open>src/src/duckdb/duckdb_server.cpp\<close>) and the
  KILL SESSION handler (\<open>src/src/enterprise/kill_session/kill_session_handler.cpp\<close>). A
  \<open>shared_ptr<ClientSession>\<close> is an index into the list of all session objects ever made, so that a
  holder and the registry share one object. The operations are first written as the critical sections
  the source has, then composed as the source composes them; the last part runs the critical sections
  of any number of request threads in any interleaving.
\<close>

section \<open>State\<close>

text \<open>
  \<open>active_connections\<close> is the gauge of \<open>RecordActiveConnections\<close>; \<open>interrupts\<close> records the
  connections \<open>Interrupt\<close> was called on.
\<close>

record 'c registry =
  objs :: "'c client_session list"
  client_sessions :: "string \<Rightarrow> nat option"
  killed_session_ids :: "string set"
  active_connections :: int
  interrupts :: "nat list"
  srv_instance_id :: string
  srv_query_timeout :: int
  srv_query_log_level :: log_level
  srv_print_queries :: bool
  srv_instr :: "instr_manager option"

definition killed_msg :: string where
  "killed_msg = ''Your session has been killed. Please re-connect.''"

definition not_found_msg :: "string \<Rightarrow> string" where
  "not_found_msg sid = ''Session not found: '' @ sid"

section \<open>The critical sections\<close>

definition GetSessionID :: "request_ctx \<Rightarrow> string result" where
  "GetSessionID ctx =
     (case ctx_session_id ctx of
        None \<Rightarrow> fail Invalid ''No session ID in request context''
      | Some sid \<Rightarrow> ok sid)"

text \<open>What the read lock sees on the fast path.\<close>

datatype fast_result = FastKilled | FastErase | FastFound nat | FastMiss

definition session_fast :: "string \<Rightarrow> 'c registry \<Rightarrow> fast_result" where
  "session_fast sid s =
     (if sid \<in> killed_session_ids s then FastKilled
      else case client_sessions s sid of
             None \<Rightarrow> FastMiss
           | Some p \<Rightarrow> if kill_requested (objs s ! p) then FastErase else FastFound p)"

text \<open>Dropping a killed session from the map under the write lock.\<close>

definition session_erase :: "string \<Rightarrow> 'c registry \<Rightarrow> 'c registry" where
  "session_erase sid s =
     s\<lparr>client_sessions := (client_sessions s)(sid := None),
       killed_session_ids := insert sid (killed_session_ids s),
       active_connections := active_connections s - (if client_sessions s sid = None then 0 else 1)\<rparr>"

text \<open>Building the session object; no lock is held. The manager may queue the session's record.\<close>

definition session_fields ::
    "request_ctx \<Rightarrow> string \<Rightarrow> 'c \<Rightarrow> string \<Rightarrow> 'c registry \<Rightarrow> 'c client_session" where
  "session_fields ctx ctx_peer_addr conn sid s =
     (let opt = (\<lambda>f d. case f ctx of None \<Rightarrow> d | Some v \<Rightarrow> v)
      in \<lparr>connection = conn, instance_id = srv_instance_id s, session_id = sid,
          username = opt ctx_username [], role = opt ctx_role [],
          peer = opt ctx_peer ctx_peer_addr, peer_identity = opt ctx_peer_identity [],
          auth_method = opt ctx_auth_method [], user_agent = opt ctx_user_agent [],
          connection_protocol = opt ctx_connection_protocol ''plaintext'',
          active_sql_handle = None, query_timeout = Some (srv_query_timeout s),
          query_log_level = Some (srv_query_log_level s),
          catalog_access = (case ctx_catalog_access ctx of None \<Rightarrow> [] | Some r \<Rightarrow> r),
          instrumentation = None, kill_requested = False\<rparr>)"

definition session_build ::
    "request_ctx \<Rightarrow> string \<Rightarrow> 'c \<Rightarrow> string \<Rightarrow> 'c registry \<Rightarrow> 'c client_session \<times> 'c registry" where
  "session_build ctx ctx_peer_addr conn sid s =
     (let new = session_fields ctx ctx_peer_addr conn sid s
      in case srv_instr s of
           Some m \<Rightarrow>
             (if mgr_enabled m \<and> srv_instance_id s \<noteq> []
              then let (si, mo) = SessionInstrumentation (Some m) (srv_instance_id s) sid
                     (username new) (role new) (auth_method new) (peer new) (peer_identity new)
                     (user_agent new) (connection_protocol new)
                   in (new\<lparr>instrumentation := Some si\<rparr>, s\<lparr>srv_instr := mo\<rparr>)
              else (new, s))
         | None \<Rightarrow> (new, s))"

text \<open>The destructor of a session object: its instrumentation record is closed.\<close>

definition session_destroy :: "'c client_session \<Rightarrow> 'c registry \<Rightarrow> 'c registry" where
  "session_destroy cs s =
     (case instrumentation cs of
        None \<Rightarrow> s
      | Some si \<Rightarrow> s\<lparr>srv_instr := destroy_session_instr si (srv_instr s)\<rparr>)"

text \<open>The slow path under the write lock. A new session that is not used is destroyed.\<close>

definition session_slow ::
    "string \<Rightarrow> 'c client_session \<Rightarrow> 'c registry \<Rightarrow> nat result \<times> 'c registry" where
  "session_slow sid new s =
     (if sid \<in> killed_session_ids s then (fail Invalid killed_msg, session_destroy new s)
      else case client_sessions s sid of
             Some p \<Rightarrow>
               if kill_requested (objs s ! p)
               then (fail Invalid killed_msg, session_destroy new (session_erase sid s))
               else (ok p, session_destroy new s)
           | None \<Rightarrow>
               (ok (length (objs s)),
                s\<lparr>objs := objs s @ [new],
                  client_sessions := (client_sessions s)(sid \<mapsto> length (objs s)),
                  active_connections := active_connections s + 1\<rparr>))"

definition FindSession :: "string \<Rightarrow> 'c registry \<Rightarrow> nat option" where
  "FindSession sid s = client_sessions s sid"

definition RemoveSession :: "string \<Rightarrow> bool \<Rightarrow> 'c registry \<Rightarrow> unit result \<times> 'c registry" where
  "RemoveSession sid was_killed s =
     (case client_sessions s sid of
        Some p \<Rightarrow>
          (ok (),
           s\<lparr>client_sessions := (client_sessions s)(sid := None),
             active_connections := active_connections s - 1,
             killed_session_ids :=
               (if was_killed then insert sid (killed_session_ids s) else killed_session_ids s)\<rparr>)
      | None \<Rightarrow> (fail KeyError (not_found_msg sid), s))"

text \<open>The two writes of the kill handler on the target object before the removal.\<close>

definition session_mark_killed :: "nat \<Rightarrow> 'c registry \<Rightarrow> 'c registry" where
  "session_mark_killed p s =
     s\<lparr>objs := (objs s)[p := (objs s ! p)
         \<lparr>kill_requested := True,
          instrumentation := map_option (SetSessionStopReason ''killed'') (instrumentation (objs s ! p))\<rparr>],
       interrupts := interrupts s @ [p]\<rparr>"

definition session_close :: "nat \<Rightarrow> 'c registry \<Rightarrow> unit result \<times> 'c registry" where
  "session_close p s =
     (let sid = session_id (objs s ! p)
      in case client_sessions s sid of
           Some _ \<Rightarrow>
             (ok (), s\<lparr>client_sessions := (client_sessions s)(sid := None),
                       active_connections := active_connections s - 1\<rparr>)
         | None \<Rightarrow> (fail KeyError (''Session: '' @ [squote] @ sid @ [squote] @ '' not found''), s))"

definition ReleaseAllSessions :: "'c registry \<Rightarrow> 'c registry" where
  "ReleaseAllSessions s =
     (let session_count = int (card (dom (client_sessions s)))
      in s\<lparr>client_sessions := (\<lambda>_. None),
           active_connections :=
             (if session_count > 0 then active_connections s - session_count
              else active_connections s)\<rparr>)"

section \<open>The operations of one request\<close>

definition GetClientSession ::
    "request_ctx \<Rightarrow> string \<Rightarrow> 'c \<Rightarrow> 'c registry \<Rightarrow> nat result \<times> 'c registry" where
  "GetClientSession ctx addr conn s =
     (case GetSessionID ctx of
        Inl e \<Rightarrow> (Inl e, s)
      | Inr sid \<Rightarrow>
          (case session_fast sid s of
             FastKilled \<Rightarrow> (fail Invalid killed_msg, s)
           | FastErase \<Rightarrow> (fail Invalid killed_msg, session_erase sid s)
           | FastFound p \<Rightarrow> (ok p, s)
           | FastMiss \<Rightarrow>
               let (new, s1) = session_build ctx addr conn sid s in session_slow sid new s1))"

definition CloseSession ::
    "request_ctx \<Rightarrow> string \<Rightarrow> 'c \<Rightarrow> 'c registry \<Rightarrow> unit result \<times> 'c registry" where
  "CloseSession ctx addr conn s =
     (case GetClientSession ctx addr conn s of
        (Inl e, s1) \<Rightarrow> (Inl e, s1)
      | (Inr p, s1) \<Rightarrow> session_close p s1)"

text \<open>The statement a kill is recorded under, as \<open>record_kill_session\<close> captures it.\<close>

record kill_request =
  kr_session :: nat
  kr_target :: string
  kr_statement_id :: string
  kr_logged_sql :: string
  kr_flight_method :: string
  kr_internal :: bool

definition record_kill_session :: "kill_request \<Rightarrow> string \<Rightarrow> 'c registry \<Rightarrow> 'c registry" where
  "record_kill_session k err s =
     s\<lparr>srv_instr := StatementInstrumentation (srv_instr s) (kr_statement_id k)
         (session_id (objs s ! kr_session k)) (kr_logged_sql k) (kr_flight_method k)
         (kr_internal k) err\<rparr>"

text \<open>The guards of the handler, in its order: the error of the first that fails.\<close>

definition kill_guard :: "bool \<Rightarrow> bool \<Rightarrow> kill_request \<Rightarrow> 'c registry \<Rightarrow> status option" where
  "kill_guard licensed have_server k s =
     (let me = objs s ! kr_session k
      in if \<not> licensed then Some (Status Invalid (GetLicenseRequiredError ''KILL SESSION''))
         else if role me \<noteq> ''admin''
         then Some (Status Invalid ''Only admin users can execute KILL SESSION'')
         else if kr_target k = session_id me
         then Some (Status Invalid ''Cannot kill your own session'')
         else if \<not> have_server
         then Some (Status Invalid ''Unable to get server instance for KILL SESSION'')
         else None)"

definition HandleKillSession ::
    "bool \<Rightarrow> bool \<Rightarrow> kill_request \<Rightarrow> 'c registry \<Rightarrow> unit result \<times> 'c registry" where
  "HandleKillSession licensed have_server k s =
     (case kill_guard licensed have_server k s of
        Some e \<Rightarrow> (Inl e, record_kill_session k (message e) s)
      | None \<Rightarrow>
          (case FindSession (kr_target k) s of
             None \<Rightarrow> (fail KeyError (not_found_msg (kr_target k)),
                      record_kill_session k (not_found_msg (kr_target k)) s)
           | Some p \<Rightarrow>
               (case RemoveSession (kr_target k) True (session_mark_killed p s) of
                  (Inl e, s2) \<Rightarrow> (Inl e, s2)
                | (Inr _, s2) \<Rightarrow> (ok (), record_kill_session k [] s2))))"

section \<open>The invariant of the registry\<close>

definition registry_ok :: "'c registry \<Rightarrow> bool" where
  "registry_ok s \<longleftrightarrow>
     finite (dom (client_sessions s))
     \<and> active_connections s = int (card (dom (client_sessions s)))
     \<and> (\<forall>sid p. client_sessions s sid = Some p \<longrightarrow> p < length (objs s) \<and> session_id (objs s ! p) = sid)
     \<and> killed_session_ids s \<inter> dom (client_sessions s) = {}"

lemma registry_okD:
  assumes "registry_ok s"
  shows "finite (dom (client_sessions s))"
    and "active_connections s = int (card (dom (client_sessions s)))"
    and "client_sessions s sid = Some p \<Longrightarrow> p < length (objs s) \<and> session_id (objs s ! p) = sid"
    and "sid \<in> killed_session_ids s \<Longrightarrow> client_sessions s sid = None"
  using assms by (auto simp: registry_ok_def)

lemma card_dom_remove:
  "finite (dom f) \<Longrightarrow> f x = Some y \<Longrightarrow> int (card (dom f - {x})) = int (card (dom f)) - 1"
proof -
  assume "finite (dom f)" and "f x = Some y"
  then have "card (dom f) = Suc (card (dom f - {x}))"
    by (intro card_Suc_Diff1 [symmetric]) auto
  then show ?thesis by simp
qed

lemma session_erase_ok:
  assumes "registry_ok s"
  shows "registry_ok (session_erase sid s)"
proof (cases "client_sessions s sid")
  case None
  then have "sid \<notin> dom (client_sessions s)" by auto
  then show ?thesis
    using assms None by (auto simp: registry_ok_def session_erase_def)
next
  case (Some p)
  then show ?thesis
    using assms card_dom_remove [of "client_sessions s" sid p]
    by (auto simp: registry_ok_def session_erase_def)
qed

lemma RemoveSession_ok:
  assumes "registry_ok s"
  shows "registry_ok (snd (RemoveSession sid k s))"
proof (cases "client_sessions s sid")
  case None
  then show ?thesis using assms by (simp add: RemoveSession_def)
next
  case (Some p)
  then show ?thesis
    using assms card_dom_remove [of "client_sessions s" sid p]
    by (auto simp: registry_ok_def RemoveSession_def)
qed

lemma session_close_ok:
  assumes "registry_ok s"
  shows "registry_ok (snd (session_close p s))"
proof (cases "client_sessions s (session_id (objs s ! p))")
  case None
  then show ?thesis using assms by (simp add: session_close_def)
next
  case (Some q)
  then show ?thesis
    using assms card_dom_remove [of "client_sessions s" "session_id (objs s ! p)" q]
    by (auto simp: registry_ok_def session_close_def Let_def)
qed

lemma session_mark_killed_same [simp]:
  "client_sessions (session_mark_killed p s) = client_sessions s"
  "killed_session_ids (session_mark_killed p s) = killed_session_ids s"
  "length (objs (session_mark_killed p s)) = length (objs s)"
  "active_connections (session_mark_killed p s) = active_connections s"
  by (simp_all add: session_mark_killed_def)

lemma session_mark_killed_id [simp]:
  "session_id (objs (session_mark_killed p s) ! q) = session_id (objs s ! q)"
  by (cases "q = p"; cases "p < length (objs s)") (auto simp: session_mark_killed_def list_update_beyond)

lemma session_mark_killed_ok: "registry_ok s \<Longrightarrow> registry_ok (session_mark_killed p s)"
  by (auto simp: registry_ok_def)

text \<open>The operations that only touch the instrumentation queue.\<close>

definition same_registry :: "'c registry \<Rightarrow> 'c registry \<Rightarrow> bool" where
  "same_registry s s' \<longleftrightarrow>
     objs s' = objs s \<and> client_sessions s' = client_sessions s
     \<and> killed_session_ids s' = killed_session_ids s \<and> active_connections s' = active_connections s"

lemma same_registry_ok: "same_registry s s' \<Longrightarrow> registry_ok s' \<longleftrightarrow> registry_ok s"
  by (simp add: same_registry_def registry_ok_def)

lemma same_registry_refl [simp]: "same_registry s s"
  by (simp add: same_registry_def)

lemma session_destroy_same [simp]: "same_registry s (session_destroy cs s)"
  by (simp add: same_registry_def session_destroy_def split: option.split)

lemma record_kill_same [simp]: "same_registry s (record_kill_session k e s)"
  by (simp add: same_registry_def record_kill_session_def)

lemma session_fields_id [simp]:
  "session_id (session_fields ctx addr conn sid s) = sid"
  "\<not> kill_requested (session_fields ctx addr conn sid s)"
  by (simp_all add: session_fields_def)

lemma session_build_same:
  assumes "session_build ctx addr conn sid s = (new, s')"
  shows "same_registry s s' \<and> session_id new = sid \<and> \<not> kill_requested new"
proof -
  have "same_registry s (snd (session_build ctx addr conn sid s))
    \<and> session_id (fst (session_build ctx addr conn sid s)) = sid
    \<and> \<not> kill_requested (fst (session_build ctx addr conn sid s))"
    by (simp add: session_build_def Let_def SessionInstrumentation_def same_registry_def
        split: option.split)
  then show ?thesis using assms by simp
qed

lemma session_insert_ok:
  assumes "registry_ok s" and "client_sessions s sid = None" and "sid \<notin> killed_session_ids s"
    and "session_id new = sid"
  shows "registry_ok (s\<lparr>objs := objs s @ [new],
           client_sessions := (client_sessions s)(sid \<mapsto> length (objs s)),
           active_connections := active_connections s + 1\<rparr>)"
proof -
  have "sid \<notin> dom (client_sessions s)" using assms(2) by auto
  moreover have "p < Suc (length (objs s)) \<and> session_id ((objs s @ [new]) ! p) = x"
    if "client_sessions s x = Some p" for x p
    using registry_okD(3) [OF assms(1) that] by (simp add: nth_append)
  ultimately show ?thesis
    using assms registry_okD(1,2) [OF assms(1)] registry_okD(4) [OF assms(1)]
    by (auto simp: registry_ok_def nth_append)
qed

lemma session_slow_ok:
  assumes "registry_ok s" and "session_id new = sid"
  shows "registry_ok (snd (session_slow sid new s))"
proof (cases "sid \<in> killed_session_ids s \<or> client_sessions s sid \<noteq> None")
  case True
  then show ?thesis
    using assms(1) session_erase_ok [OF assms(1)] same_registry_ok [OF session_destroy_same]
    by (auto simp: session_slow_def)
next
  case False
  then show ?thesis
    using session_insert_ok [OF assms(1) _ _ assms(2)] by (simp add: session_slow_def)
qed

lemma session_slow_cases:
  assumes "session_slow sid new s = (ok p, s')"
  obtains (reused) "sid \<notin> killed_session_ids s" "client_sessions s sid = Some p" "s' = session_destroy new s"
  | (created) "sid \<notin> killed_session_ids s" "client_sessions s sid = None" "p = length (objs s)"
      "objs s' = objs s @ [new]" "client_sessions s' = (client_sessions s)(sid \<mapsto> p)"
      "killed_session_ids s' = killed_session_ids s"
  using assms by (auto simp: session_slow_def split: if_splits option.splits)

lemma session_slow_handed:
  assumes "registry_ok s" and "session_id new = sid" and "session_slow sid new s = (ok p, s')"
  shows "sid \<notin> killed_session_ids s \<and> killed_session_ids s' = killed_session_ids s
    \<and> p < length (objs s') \<and> session_id (objs s' ! p) = sid \<and> client_sessions s' sid = Some p"
  using assms(3)
proof (cases rule: session_slow_cases)
  case reused
  have "same_registry s (session_destroy new s)" by simp
  with reused registry_okD(3) [OF assms(1) reused(2)] show ?thesis
    by (simp add: same_registry_def)
next
  case created
  with assms(2) show ?thesis by simp
qed

lemma session_fast_found:
  assumes "registry_ok s" and "session_fast sid s = FastFound p"
  shows "sid \<notin> killed_session_ids s \<and> p < length (objs s) \<and> session_id (objs s ! p) = sid
    \<and> client_sessions s sid = Some p \<and> \<not> kill_requested (objs s ! p)"
  using assms registry_okD(3) [OF assms(1), of sid]
  by (auto simp: session_fast_def split: if_splits option.splits)

section \<open>The session store as the kill handler uses it\<close>

text \<open>
  The interface between the kill handler and the server: \<open>find\<close> and \<open>remove\<close>, with what the handler
  relies on. Its lemmas say what a kill leaves behind and when it reports an error.
\<close>

locale session_store =
  fixes find :: "string \<Rightarrow> 's \<Rightarrow> nat option"
    and remove :: "string \<Rightarrow> bool \<Rightarrow> 's \<Rightarrow> unit result \<times> 's"
    and banned :: "'s \<Rightarrow> string set"
  assumes remove_result: "fst (remove sid k s) =
      (if find sid s = None then fail KeyError (not_found_msg sid) else ok ())"
    and remove_find: "find sid' (snd (remove sid k s)) = (if sid' = sid then None else find sid' s)"
    and remove_banned: "banned (snd (remove sid k s)) =
      (if k \<and> find sid s \<noteq> None then insert sid (banned s) else banned s)"
begin

lemma removed_is_gone: "find sid (snd (remove sid k s)) = None"
  by (simp add: remove_find)

lemma remove_twice: "fst (remove sid k' (snd (remove sid k s))) = fail KeyError (not_found_msg sid)"
  by (simp add: remove_result remove_find)

lemma killed_is_banned: "fst (remove sid True s) = ok () \<Longrightarrow> sid \<in> banned (snd (remove sid True s))"
  by (auto simp: remove_result remove_banned split: if_splits)

lemma banned_mono: "banned s \<subseteq> banned (snd (remove sid k s))"
  by (simp add: remove_banned subset_insertI)

end

interpretation store: session_store FindSession RemoveSession killed_session_ids
  by unfold_locales
    (simp_all add: FindSession_def RemoveSession_def split: option.split)

section \<open>Requests in parallel\<close>

text \<open>
  Where a request thread stands: outside, between the two locks of \<open>GetClientSession\<close>, holding a
  session, or at one of the steps of the kill handler.
\<close>

datatype 'c pc =
    Idle
  | AtErase string
  | AtSlow string "'c client_session"
  | Holds nat
  | AtFind kill_request
  | AtMark kill_request nat
  | AtRemove kill_request

datatype label = Tau | Handed string nat | Refused string | KillDone string "unit result"

type_synonym 'c config = "'c registry \<times> (nat \<Rightarrow> 'c pc)"

inductive rstep :: "'c config \<Rightarrow> label \<Rightarrow> 'c config \<Rightarrow> bool" where
  get_killed:
    "pcs t = Idle \<Longrightarrow> GetSessionID ctx = ok sid \<Longrightarrow> session_fast sid s = FastKilled \<Longrightarrow>
     rstep (s, pcs) (Refused sid) (s, pcs)"
| get_found:
    "pcs t = Idle \<Longrightarrow> GetSessionID ctx = ok sid \<Longrightarrow> session_fast sid s = FastFound p \<Longrightarrow>
     rstep (s, pcs) (Handed sid p) (s, pcs(t := Holds p))"
| get_flagged:
    "pcs t = Idle \<Longrightarrow> GetSessionID ctx = ok sid \<Longrightarrow> session_fast sid s = FastErase \<Longrightarrow>
     rstep (s, pcs) Tau (s, pcs(t := AtErase sid))"
| get_erase:
    "pcs t = AtErase sid \<Longrightarrow>
     rstep (s, pcs) (Refused sid) (session_erase sid s, pcs(t := Idle))"
| get_build:
    "pcs t = Idle \<Longrightarrow> GetSessionID ctx = ok sid \<Longrightarrow> session_fast sid s = FastMiss \<Longrightarrow>
     session_build ctx addr conn sid s = (new, s') \<Longrightarrow>
     rstep (s, pcs) Tau (s', pcs(t := AtSlow sid new))"
| get_slow:
    "pcs t = AtSlow sid new \<Longrightarrow> session_slow sid new s = (ok p, s') \<Longrightarrow>
     rstep (s, pcs) (Handed sid p) (s', pcs(t := Holds p))"
| get_slow_refused:
    "pcs t = AtSlow sid new \<Longrightarrow> session_slow sid new s = (Inl e, s') \<Longrightarrow>
     rstep (s, pcs) (Refused sid) (s', pcs(t := Idle))"
| request_ends:
    "pcs t = Holds p \<Longrightarrow> rstep (s, pcs) Tau (s, pcs(t := Idle))"
| request_closes:
    "pcs t = Holds p \<Longrightarrow> session_close p s = (r, s') \<Longrightarrow> rstep (s, pcs) Tau (s', pcs(t := Idle))"
| kill_refused:
    "pcs t = Holds (kr_session k) \<Longrightarrow> kill_guard licensed have_server k s = Some e \<Longrightarrow>
     rstep (s, pcs) (KillDone (kr_target k) (Inl e))
       (record_kill_session k (message e) s, pcs(t := Idle))"
| kill_allowed:
    "pcs t = Holds (kr_session k) \<Longrightarrow> kill_guard licensed have_server k s = None \<Longrightarrow>
     rstep (s, pcs) Tau (s, pcs(t := AtFind k))"
| kill_no_target:
    "pcs t = AtFind k \<Longrightarrow> FindSession (kr_target k) s = None \<Longrightarrow>
     rstep (s, pcs) (KillDone (kr_target k) (fail KeyError (not_found_msg (kr_target k))))
       (record_kill_session k (not_found_msg (kr_target k)) s, pcs(t := Idle))"
| kill_target:
    "pcs t = AtFind k \<Longrightarrow> FindSession (kr_target k) s = Some p \<Longrightarrow>
     rstep (s, pcs) Tau (s, pcs(t := AtMark k p))"
| kill_mark:
    "pcs t = AtMark k p \<Longrightarrow> rstep (s, pcs) Tau (session_mark_killed p s, pcs(t := AtRemove k))"
| kill_removed:
    "pcs t = AtRemove k \<Longrightarrow> RemoveSession (kr_target k) True s = (Inr u, s') \<Longrightarrow>
     rstep (s, pcs) (KillDone (kr_target k) (ok ())) (record_kill_session k [] s', pcs(t := Idle))"
| kill_lost:
    "pcs t = AtRemove k \<Longrightarrow> RemoveSession (kr_target k) True s = (Inl e, s') \<Longrightarrow>
     rstep (s, pcs) (KillDone (kr_target k) (Inl e)) (s', pcs(t := Idle))"
| shutdown:
    "rstep (s, pcs) Tau (ReleaseAllSessions s, pcs)"

inductive rsteps :: "'c config \<Rightarrow> label list \<Rightarrow> 'c config \<Rightarrow> bool" where
  rsteps_none: "rsteps c [] c"
| rsteps_more: "rstep c l c1 \<Longrightarrow> rsteps c1 ls c2 \<Longrightarrow> rsteps c (l # ls) c2"

inductive_cases rsteps_NilE [elim!]: "rsteps c [] c'"
inductive_cases rsteps_ConsE [elim!]: "rsteps c (l # ls) c'"

text \<open>What holds between the steps: the registry's invariant and what each thread carries.\<close>

fun pc_ok :: "'c registry \<Rightarrow> 'c pc \<Rightarrow> bool" where
  "pc_ok s (AtSlow sid new) \<longleftrightarrow> session_id new = sid"
| "pc_ok s (Holds p) \<longleftrightarrow> p < length (objs s)"
| "pc_ok s (AtMark k p) \<longleftrightarrow> p < length (objs s) \<and> session_id (objs s ! p) = kr_target k"
| "pc_ok s _ \<longleftrightarrow> True"

definition config_ok :: "'c config \<Rightarrow> bool" where
  "config_ok c \<longleftrightarrow> registry_ok (fst c) \<and> (\<forall>t. pc_ok (fst c) (snd c t))"

text \<open>Objects are only added, and an object keeps its session id.\<close>

definition objs_grow :: "'c registry \<Rightarrow> 'c registry \<Rightarrow> bool" where
  "objs_grow s s' \<longleftrightarrow>
     length (objs s) \<le> length (objs s')
     \<and> (\<forall>p < length (objs s). session_id (objs s' ! p) = session_id (objs s ! p))"

lemma pc_ok_grow: "objs_grow s s' \<Longrightarrow> pc_ok s x \<Longrightarrow> pc_ok s' x"
  by (cases x) (auto simp: objs_grow_def)

lemma same_registry_grow: "same_registry s s' \<Longrightarrow> objs_grow s s'"
  by (simp add: same_registry_def objs_grow_def)

lemma session_slow_grow: "objs_grow s (snd (session_slow sid new s))"
proof -
  have "objs (session_destroy new x) = objs x" for x :: "'a registry"
    by (simp add: session_destroy_def split: option.split)
  then show ?thesis
    by (auto simp: session_slow_def objs_grow_def session_erase_def nth_append split: option.split)
qed

lemma config_ok_update:
  assumes "config_ok (s, pcs)" and "registry_ok s'" and "objs_grow s s'" and "pc_ok s' x"
  shows "config_ok (s', pcs(t := x))"
  using assms pc_ok_grow [OF assms(3)] by (auto simp: config_ok_def)

lemma config_ok_thread:
  assumes "config_ok (s, pcs)" and "pc_ok s x"
  shows "config_ok (s, pcs(t := x))"
  using assms by (auto simp: config_ok_def)

lemma objs_grow_simps [simp]:
  "objs_grow s s"
  "objs_grow s (session_erase sid s)"
  "objs_grow s (session_mark_killed p s)"
  "objs_grow s (ReleaseAllSessions s)"
  "objs_grow s (snd (RemoveSession sid k s))"
  "objs_grow s (snd (session_close p s))"
  by (simp_all add: objs_grow_def session_erase_def ReleaseAllSessions_def RemoveSession_def
      session_close_def Let_def split: option.split)

lemma ReleaseAllSessions_ok: "registry_ok s \<Longrightarrow> registry_ok (ReleaseAllSessions s)"
  by (auto simp: registry_ok_def ReleaseAllSessions_def Let_def)

lemma removed_same:
  assumes "RemoveSession sid k s = (r, s')"
  shows "objs_grow s s' \<and> (registry_ok s \<longrightarrow> registry_ok s')"
  using RemoveSession_ok [of s sid k] objs_grow_simps(5) [of s sid k] assms by simp

lemma recorded_ok:
  assumes "registry_ok s'" and "objs_grow s s'"
  shows "registry_ok (record_kill_session k e s') \<and> objs_grow s (record_kill_session k e s')"
  using assms same_registry_ok [OF record_kill_same [of s' k e]]
  by (simp add: objs_grow_def record_kill_session_def)

lemma rstep_ok:
  assumes "rstep c l c'" and "config_ok c"
  shows "config_ok c'"
  using assms
proof (cases rule: rstep.cases)
  case (get_found pcs t ctx sid s p)
  then show ?thesis
    using assms(2) session_fast_found [of s sid p]
    by (auto simp: config_ok_def intro!: config_ok_thread)
next
  case (get_flagged pcs t ctx sid s)
  then show ?thesis using assms(2) by (auto intro: config_ok_thread)
next
  case (get_erase pcs t sid s)
  then show ?thesis
    using assms(2) session_erase_ok [of s sid] config_ok_update [of s pcs "session_erase sid s" Idle t]
    by (simp add: config_ok_def [of "(s, pcs)"])
next
  case (get_build pcs t ctx sid s addr conn new s')
  have new: "same_registry s s'" "session_id new = sid"
    using session_build_same [OF get_build(7)] by simp_all
  then have "registry_ok s'"
    using get_build assms(2) same_registry_ok [OF new(1)] by (simp add: config_ok_def)
  then show ?thesis
    using get_build assms(2) new same_registry_grow [OF new(1)]
    by (auto intro: config_ok_update)
next
  case (get_slow pcs t sid new s p s')
  have ok: "registry_ok s" "session_id new = sid"
    using get_slow assms(2) by (auto simp: config_ok_def dest: spec [of _ t])
  have "registry_ok s'" "objs_grow s s'"
    using session_slow_ok [OF ok] session_slow_grow [of s sid new] get_slow(5) by simp_all
  moreover have "p < length (objs s')"
    using session_slow_handed [OF ok get_slow(5)] by simp
  ultimately show ?thesis
    using get_slow assms(2) by (auto intro: config_ok_update)
next
  case (get_slow_refused pcs t sid new s e s')
  have ok: "registry_ok s" "session_id new = sid"
    using get_slow_refused assms(2) by (auto simp: config_ok_def dest: spec [of _ t])
  have "registry_ok s'" "objs_grow s s'"
    using session_slow_ok [OF ok] session_slow_grow [of s sid new] get_slow_refused(5) by simp_all
  then show ?thesis
    using get_slow_refused assms(2) by (auto intro: config_ok_update)
next
  case (request_closes pcs t p s r s')
  have "registry_ok s" using request_closes assms(2) by (simp add: config_ok_def)
  then have "registry_ok s'" "objs_grow s s'"
    using session_close_ok [of s p] objs_grow_simps(6) [of s p] request_closes(5) by simp_all
  then show ?thesis
    using request_closes assms(2) by (auto intro: config_ok_update)
next
  case (kill_refused pcs t k licensed have_server s e)
  then have "registry_ok s" using assms(2) by (simp add: config_ok_def)
  then show ?thesis
    using kill_refused assms(2) recorded_ok [of s s] by (auto intro: config_ok_update)
next
  case (kill_no_target pcs t k s)
  then have "registry_ok s" using assms(2) by (simp add: config_ok_def)
  then show ?thesis
    using kill_no_target assms(2) recorded_ok [of s s] by (auto intro: config_ok_update)
next
  case (kill_target pcs t k s p)
  then have "p < length (objs s) \<and> session_id (objs s ! p) = kr_target k"
    using assms(2) registry_okD(3) [of s "kr_target k" p] by (simp add: config_ok_def FindSession_def)
  then show ?thesis
    using kill_target assms(2) by (auto intro: config_ok_thread)
next
  case (kill_mark pcs t k p s)
  then have "registry_ok s" using assms(2) by (simp add: config_ok_def)
  then show ?thesis
    using kill_mark assms(2) session_mark_killed_ok [of s p] by (auto intro: config_ok_update)
next
  case (kill_removed pcs t k s u s')
  then have "registry_ok s" using assms(2) by (simp add: config_ok_def)
  then have "registry_ok (record_kill_session k [] s') \<and> objs_grow s (record_kill_session k [] s')"
    using removed_same [OF kill_removed(5)] recorded_ok by blast
  then show ?thesis
    using kill_removed assms(2) by (auto intro: config_ok_update)
next
  case (kill_lost pcs t k s e s')
  then have "registry_ok s" using assms(2) by (simp add: config_ok_def)
  then show ?thesis
    using kill_lost assms(2) removed_same [OF kill_lost(5)] by (auto intro: config_ok_update)
next
  case (shutdown s pcs)
  then show ?thesis
    using assms(2) ReleaseAllSessions_ok pc_ok_grow [OF objs_grow_simps(4) [of s]]
    by (auto simp: config_ok_def)
qed (auto intro: config_ok_thread)

lemma rsteps_ok: "rsteps c ls c' \<Longrightarrow> config_ok c \<Longrightarrow> config_ok c'"
  by (induction rule: rsteps.induct) (auto dest: rstep_ok)

section \<open>Properties\<close>

lemma session_slow_killed_mono: "killed_session_ids s \<subseteq> killed_session_ids (snd (session_slow sid new s))"
proof -
  have "killed_session_ids (session_destroy new x) = killed_session_ids x" for x :: "'a registry"
    by (simp add: session_destroy_def split: option.split)
  then show ?thesis
    by (auto simp: session_slow_def session_erase_def split: option.split)
qed

lemma rstep_killed_mono:
  assumes "rstep c l c'"
  shows "killed_session_ids (fst c) \<subseteq> killed_session_ids (fst c')"
  using assms
proof (cases rule: rstep.cases)
  case (get_build pcs t ctx sid s addr conn new s')
  then show ?thesis
    using session_build_same [OF get_build(7)] by (simp add: same_registry_def)
next
  case (get_slow pcs t sid new s p s')
  then show ?thesis using session_slow_killed_mono [of s sid new] by simp
next
  case (get_slow_refused pcs t sid new s e s')
  then show ?thesis using session_slow_killed_mono [of s sid new] by simp
next
  case (request_closes pcs t p s r s')
  then show ?thesis
    by (auto simp: session_close_def Let_def split: option.splits)
next
  case (kill_removed pcs t k s u s')
  then show ?thesis
    using store.banned_mono [of s "kr_target k" True] by (simp add: record_kill_session_def)
next
  case (kill_lost pcs t k s e s')
  then show ?thesis
    using store.banned_mono [of s "kr_target k" True] by simp
qed (auto simp: session_erase_def record_kill_session_def ReleaseAllSessions_def)

lemma rsteps_killed_mono: "rsteps c ls c' \<Longrightarrow> killed_session_ids (fst c) \<subseteq> killed_session_ids (fst c')"
  by (induction rule: rsteps.induct) (auto dest: rstep_killed_mono)

lemma rstep_handed_not_killed:
  assumes "rstep c (Handed sid p) c'"
  shows "sid \<notin> killed_session_ids (fst c)"
  using assms
  by (cases rule: rstep.cases) (auto simp: session_fast_def session_slow_def split: if_splits)

lemma rstep_kill_done:
  assumes "rstep c (KillDone sid (ok u)) c'"
  shows "sid \<in> killed_session_ids (fst c')"
  using assms
proof (cases rule: rstep.cases)
  case (kill_removed pcs t k s u s')
  then show ?thesis
    using store.killed_is_banned [of "kr_target k" s] by (simp add: record_kill_session_def)
qed

lemma rsteps_append:
  "rsteps c (xs @ ys) c' \<longleftrightarrow> (\<exists>c1. rsteps c xs c1 \<and> rsteps c1 ys c')"
proof (induction xs arbitrary: c)
  case Nil
  show ?case unfolding append_Nil by (blast intro: rsteps_none)
next
  case (Cons x xs)
  show ?case unfolding append_Cons using Cons.IH by (blast intro: rsteps_more)
qed

lemma killed_never_handed:
  "rsteps c ls c' \<Longrightarrow> sid \<in> killed_session_ids (fst c) \<Longrightarrow> Handed sid p \<notin> set ls"
proof (induction rule: rsteps.induct)
  case (rsteps_more c l c1 ls c2)
  then show ?case
    using rstep_handed_not_killed [of c sid p c1] rstep_killed_mono [OF rsteps_more(1)] by auto
qed simp

text \<open>
  C1: A successful KILL SESSION is final: in every run of any number of request threads, however their
  critical sections interleave, once a kill of a session id has reported success, no later request is
  handed a session for that id, whether or not it presents the same token again.
\<close>

theorem successful_kill_is_final:
  assumes "rsteps c (before @ KillDone sid (ok u) # after) c'"
  shows "Handed sid p \<notin> set after \<and> sid \<in> killed_session_ids (fst c')"
proof -
  obtain c1 c2 where run: "rstep c1 (KillDone sid (ok u)) c2" "rsteps c2 after c'"
    using assms by (auto simp: rsteps_append)
  then have "sid \<in> killed_session_ids (fst c2)" by (blast intro: rstep_kill_done)
  with run(2) show ?thesis
    using killed_never_handed rsteps_killed_mono by blast
qed

definition fresh_registry :: "instr_manager option \<Rightarrow> string \<Rightarrow> 'c registry" where
  "fresh_registry mo inst =
     \<lparr>objs = [], client_sessions = (\<lambda>_. None), killed_session_ids = {}, active_connections = 0,
      interrupts = [], srv_instance_id = inst, srv_query_timeout = 0,
      srv_query_log_level = ARROW_INFO, srv_print_queries = False, srv_instr = mo\<rparr>"

lemma fresh_config_ok: "config_ok (fresh_registry mo inst, \<lambda>_. Idle)"
  by (simp add: config_ok_def registry_ok_def fresh_registry_def)

definition sample_ctx :: "string \<Rightarrow> string \<Rightarrow> request_ctx" where
  "sample_ctx sid rl = empty_ctx\<lparr>ctx_session_id := Some sid, ctx_username := Some ''u'', ctx_role := Some rl\<rparr>"

lemma GetSessionID_sample [simp]: "GetSessionID (sample_ctx sid rl) = ok sid"
  by (simp add: GetSessionID_def sample_ctx_def)

text \<open>The first two steps of a server: a request arrives and gets a new session.\<close>

definition one_session :: "string \<Rightarrow> unit registry" where
  "one_session sid =
     (fresh_registry None ''i'')\<lparr>objs := [session_fields (sample_ctx sid ''user'') ''p'' () sid (fresh_registry None ''i'')],
        client_sessions := (\<lambda>_. None)(sid \<mapsto> 0), active_connections := 1\<rparr>"

lemma first_request_run:
  "rsteps (fresh_registry None ''i'', \<lambda>_. Idle) ([Tau] @ [Handed sid 0])
     (one_session sid, (\<lambda>_. Idle)(0 := Holds 0))"
proof -
  let ?F = "fresh_registry None ''i'' :: unit registry"
  let ?new = "session_fields (sample_ctx sid ''user'') ''p'' () sid ?F"
  have "rstep (?F, \<lambda>_. Idle) Tau (?F, (\<lambda>_. Idle)(0 := AtSlow sid ?new))"
    by (rule get_build [where ctx = "sample_ctx sid ''user''" and addr = "''p''" and conn = "()"])
      (simp_all add: session_fast_def session_build_def fresh_registry_def)
  moreover have "rstep (?F, (\<lambda>_. Idle)(0 := AtSlow sid ?new)) (Handed sid 0)
      (one_session sid, ((\<lambda>_. Idle)(0 := AtSlow sid ?new))(0 := Holds 0))"
    by (rule get_slow [where new = ?new])
      (simp_all add: session_slow_def one_session_def fresh_registry_def)
  ultimately show ?thesis
    by (auto intro!: rsteps.intros)
qed

text \<open>A session is killed and its client comes back.\<close>

definition kill_b :: kill_request where
  "kill_b = \<lparr>kr_session = 0, kr_target = ''b'', kr_statement_id = ''st'', kr_logged_sql = ''KILL'',
             kr_flight_method = [], kr_internal = False\<rparr>"

lemma kill_run:
  "\<exists>c. rsteps (one_session ''b'', (\<lambda>_. Idle)(0 := AtRemove kill_b))
     ([] @ KillDone ''b'' (ok ()) # [Refused ''b'']) c"
proof -
  let ?s = "snd (RemoveSession ''b'' True (one_session ''b''))"
  have "rstep (one_session ''b'', (\<lambda>_. Idle)(0 := AtRemove kill_b)) (KillDone (kr_target kill_b) (ok ()))
      (record_kill_session kill_b [] ?s, ((\<lambda>_. Idle)(0 := AtRemove kill_b))(0 := Idle))"
    by (rule kill_removed [where u = "()"]) (simp_all add: kill_b_def RemoveSession_def one_session_def)
  moreover have "rstep (record_kill_session kill_b [] ?s, \<lambda>_. Idle) (Refused ''b'')
      (record_kill_session kill_b [] ?s, \<lambda>_. Idle)"
    by (rule get_killed [where ctx = "sample_ctx ''b'' ''user''"])
      (simp_all add: session_fast_def record_kill_session_def RemoveSession_def one_session_def)
  moreover have "((\<lambda>_ :: nat. Idle)(0 := AtRemove kill_b))(0 := Idle) = (\<lambda>_. Idle :: unit pc)" by auto
  moreover have "kr_target kill_b = ''b''" by (simp add: kill_b_def)
  ultimately show ?thesis
    by (metis append_Nil rsteps_more rsteps_none)
qed

theorem successful_kill_is_final_witness:
  "\<exists>c. Handed ''b'' 7 \<notin> set [Refused ''b''] \<and> ''b'' \<in> killed_session_ids (fst (c :: unit config))"
  using kill_run successful_kill_is_final by blast

text \<open>
  C3: The session registry is consistent in every reachable state: the gauge of active connections
  equals the number of registered sessions, every registered id belongs to a session object with that
  very id, and no killed id is registered.
\<close>

theorem registry_invariant:
  assumes "rsteps (fresh_registry mo inst, \<lambda>_. Idle) ls (s, pcs)"
  shows "active_connections s = int (card (dom (client_sessions s)))
    \<and> (case client_sessions s sid of None \<Rightarrow> True
         | Some p \<Rightarrow> p < length (objs s) \<and> session_id (objs s ! p) = sid \<and> sid \<notin> killed_session_ids s)"
proof -
  have "config_ok (s, pcs)" using rsteps_ok [OF assms fresh_config_ok] .
  then have "registry_ok s" by (simp add: config_ok_def)
  from registry_okD [OF this] show ?thesis by (auto split: option.split)
qed

text \<open>
  C4: A request is handed the session of the id its token carries, and that session is registered and
  was not killed at that moment, in every run.
\<close>

theorem handed_session_is_the_requested_one:
  assumes "rsteps (fresh_registry mo inst, \<lambda>_. Idle) (ls @ [Handed sid p]) (s, pcs)"
  shows "client_sessions s sid = Some p \<and> session_id (objs s ! p) = sid \<and> sid \<notin> killed_session_ids s"
proof -
  obtain c1 where run: "rsteps (fresh_registry mo inst, \<lambda>_. Idle) ls c1" "rstep c1 (Handed sid p) (s, pcs)"
    using assms by (auto simp: rsteps_append)
  have ok: "config_ok c1" using rsteps_ok [OF run(1) fresh_config_ok] .
  from run(2) show ?thesis
  proof (cases rule: rstep.cases)
    case (get_found pcs0 t ctx)
    then show ?thesis using ok session_fast_found [of s sid p] by (simp add: config_ok_def)
  next
    case (get_slow pcs0 t new s0)
    have "registry_ok s0" "session_id new = sid"
      using get_slow ok by (auto simp: config_ok_def dest: spec [of _ t])
    from session_slow_handed [OF this get_slow(4)] show ?thesis by simp
  qed
qed

theorem registry_invariant_witness:
  "active_connections (one_session ''b'') = int (card (dom (client_sessions (one_session ''b''))))
    \<and> (case client_sessions (one_session ''b'') ''b'' of None \<Rightarrow> True
         | Some p \<Rightarrow> p < length (objs (one_session ''b'')) \<and> session_id (objs (one_session ''b'') ! p) = ''b''
             \<and> ''b'' \<notin> killed_session_ids (one_session ''b''))"
  by (rule registry_invariant [OF first_request_run])

theorem handed_session_is_the_requested_one_witness:
  "client_sessions (one_session ''b'') ''b'' = Some 0 \<and> session_id (objs (one_session ''b'') ! 0) = ''b''
    \<and> ''b'' \<notin> killed_session_ids (one_session ''b'')"
  by (rule handed_session_is_the_requested_one [OF first_request_run])

text \<open>
  A KILL SESSION can be lost: when the target's client closes its session between the handler's
  look-up and its removal, the kill reports that the session was not found, the id is not remembered as
  killed, and the very next request with the same id is handed a fresh, unkilled session. This happens
  from every state in which an administrator may kill the target.
\<close>

theorem kill_lost_to_close:
  assumes ok: "registry_ok s" and guard: "kill_guard licensed have_server k s = None"
    and target: "client_sessions s (kr_target k) = Some q" and noinstr: "srv_instr s = None"
    and holds: "pcs t = Holds (kr_session k)" "pcs u = Holds q" "t \<noteq> u"
  shows "\<exists>c p. rsteps (s, pcs)
      [Tau, Tau, Tau, Tau, KillDone (kr_target k) (fail KeyError (not_found_msg (kr_target k))),
       Tau, Handed (kr_target k) p] c
    \<and> \<not> kill_requested (objs (fst c) ! p)"
proof -
  let ?T = "kr_target k"
  let ?s1 = "session_mark_killed q s"
  let ?s2 = "?s1\<lparr>client_sessions := (client_sessions ?s1)(?T := None),
                 active_connections := active_connections ?s1 - 1\<rparr>"
  let ?ctx = "sample_ctx ?T ''user''"
  let ?new = "session_fields ?ctx [] undefined ?T ?s2"
  let ?s3 = "snd (session_slow ?T ?new ?s2)"
  have q: "q < length (objs s)" "session_id (objs s ! q) = ?T"
    using registry_okD(3) [OF ok target] by simp_all
  have nk: "?T \<notin> killed_session_ids s"
    using registry_okD(4) [OF ok] target by force
  have 1: "rstep (s, pcs) Tau (s, pcs(t := AtFind k))"
    by (rule kill_allowed) (rule holds(1), rule guard)
  have 2: "rstep (s, pcs(t := AtFind k)) Tau (s, (pcs(t := AtFind k))(t := AtMark k q))"
    by (rule kill_target) (simp_all add: FindSession_def target)
  have 3: "rstep (s, pcs(t := AtMark k q)) Tau (?s1, (pcs(t := AtMark k q))(t := AtRemove k))"
    by (rule kill_mark) simp
  have 4: "rstep (?s1, pcs(t := AtRemove k)) Tau (?s2, (pcs(t := AtRemove k))(u := Idle))"
  proof (rule request_closes [where r = "ok ()"])
    show "(pcs(t := AtRemove k)) u = Holds q" using holds by simp
    show "session_close q ?s1 = (ok (), ?s2)"
      unfolding session_close_def Let_def session_mark_killed_id q(2) by (simp add: target)
  qed
  have 5: "rstep (?s2, pcs(t := AtRemove k, u := Idle)) (KillDone ?T (fail KeyError (not_found_msg ?T)))
      (?s2, (pcs(t := AtRemove k, u := Idle))(t := Idle))"
    using holds(3) by (intro kill_lost) (simp_all add: RemoveSession_def)
  have 6: "rstep (?s2, pcs(t := Idle, u := Idle)) Tau
      (?s2, (pcs(t := Idle, u := Idle))(u := AtSlow ?T ?new))"
    by (rule get_build [where ctx = ?ctx and addr = "[]" and conn = undefined])
      (simp_all add: session_fast_def nk session_build_def noinstr session_mark_killed_def)
  have 7: "rstep (?s2, pcs(t := Idle, u := AtSlow ?T ?new)) (Handed ?T (length (objs s)))
      (?s3, (pcs(t := Idle, u := AtSlow ?T ?new))(u := Holds (length (objs s))))"
    by (rule get_slow [where new = ?new]) (simp_all add: session_slow_def nk)
  have "\<not> kill_requested (objs ?s3 ! length (objs s))"
    by (simp add: session_slow_def nk nth_append)
  then show ?thesis
    using 1 2 3 4 5 6 7 holds(3)
    by (intro exI [of _ "(?s3, pcs(t := Idle, u := Holds (length (objs s))))"] exI [of _ "length (objs s)"])
      (auto intro!: rsteps.intros simp: fun_upd_twist)
qed

definition two_sessions :: "unit registry" where
  "two_sessions =
     (fresh_registry None ''i'')\<lparr>
        objs := [session_fields (sample_ctx ''a'' ''admin'') ''p'' () ''a'' (fresh_registry None ''i''),
                 session_fields (sample_ctx ''b'' ''user'') ''p'' () ''b'' (fresh_registry None ''i'')],
        client_sessions := (\<lambda>_. None)(''a'' \<mapsto> 0, ''b'' \<mapsto> 1), active_connections := 2\<rparr>"

lemma two_sessions_ok: "registry_ok two_sessions"
  by (auto simp: registry_ok_def two_sessions_def fresh_registry_def)

lemma two_sessions_guard: "kill_guard True True kill_b two_sessions = None"
  by (simp add: kill_guard_def Let_def kill_b_def two_sessions_def session_fields_def sample_ctx_def
      empty_ctx_def)

theorem kill_lost_to_close_witness:
  "\<exists>c p. rsteps (two_sessions, (\<lambda>_. Idle)(0 := Holds 0, 1 := Holds 1))
      [Tau, Tau, Tau, Tau, KillDone (kr_target kill_b) (fail KeyError (not_found_msg (kr_target kill_b))),
       Tau, Handed (kr_target kill_b) p] c
    \<and> \<not> kill_requested (objs (fst c) ! p)"
  by (rule kill_lost_to_close [OF two_sessions_ok two_sessions_guard, where q = 1 and t = 0 and u = 1])
    (simp_all add: two_sessions_def kill_b_def fresh_registry_def)

lemma kill_session_instr:
  assumes "HandleKillSession licensed have_server k s = (r, s')"
  shows "srv_instr s' = StatementInstrumentation (srv_instr s) (kr_statement_id k)
    (session_id (objs s ! kr_session k)) (kr_logged_sql k) (kr_flight_method k) (kr_internal k)
    (case r of Inl e \<Rightarrow> message e | Inr _ \<Rightarrow> [])"
proof (cases "kill_guard licensed have_server k s")
  case (Some e)
  then show ?thesis using assms by (auto simp: HandleKillSession_def record_kill_session_def)
next
  case None
  show ?thesis
  proof (cases "client_sessions s (kr_target k)")
    case no: None
    then show ?thesis
      using assms None by (auto simp: HandleKillSession_def FindSession_def record_kill_session_def)
  next
    case (Some p)
    let ?s1 = "session_mark_killed p s"
    have "r = ok () \<and> s' = record_kill_session k [] (snd (RemoveSession (kr_target k) True ?s1))"
      using assms None Some by (auto simp: HandleKillSession_def FindSession_def RemoveSession_def)
    moreover have "session_id (objs ?s1 ! kr_session k) = session_id (objs s ! kr_session k)" by simp
    moreover have "srv_instr ?s1 = srv_instr s" by (simp add: session_mark_killed_def)
    ultimately show ?thesis
      using Some by (simp add: record_kill_session_def RemoveSession_def)
  qed
qed

text \<open>
  KILL SESSION run to its end without interference: it succeeds exactly for a licensed server, an
  administrator, a target other than the own session that is registered. The handler itself queues one
  record on every path then, with the error as its message.
\<close>

lemma kill_session_effect:
  assumes "registry_ok s" and "HandleKillSession licensed have_server k s = (r, s')"
    and "kr_session k < length (objs s)"
  shows "(is_ok r \<longleftrightarrow> licensed \<and> role (objs s ! kr_session k) = ''admin'' \<and> have_server
      \<and> kr_target k \<noteq> session_id (objs s ! kr_session k) \<and> client_sessions s (kr_target k) \<noteq> None)
    \<and> (if is_ok r
       then (\<exists>p. client_sessions s (kr_target k) = Some p \<and> kill_requested (objs s' ! p)
              \<and> instrumentation (objs s' ! p)
                  = map_option (SetSessionStopReason ''killed'') (instrumentation (objs s ! p))
              \<and> interrupts s' = interrupts s @ [p]
              \<and> client_sessions s' = (client_sessions s)(kr_target k := None)
              \<and> killed_session_ids s' = insert (kr_target k) (killed_session_ids s)
              \<and> active_connections s' = active_connections s - 1)
       else same_registry s s' \<and> interrupts s' = interrupts s)
    \<and> srv_instr s' = StatementInstrumentation (srv_instr s) (kr_statement_id k)
         (session_id (objs s ! kr_session k)) (kr_logged_sql k) (kr_flight_method k) (kr_internal k)
         (case r of Inl e \<Rightarrow> message e | Inr _ \<Rightarrow> [])"
proof (cases "kill_guard licensed have_server k s")
  case (Some e)
  then have "r = Inl e \<and> s' = record_kill_session k (message e) s"
    using assms(2) by (simp add: HandleKillSession_def)
  moreover have "\<not> (licensed \<and> role (objs s ! kr_session k) = ''admin'' \<and> have_server
      \<and> kr_target k \<noteq> session_id (objs s ! kr_session k))"
    using Some by (auto simp: kill_guard_def Let_def split: if_splits)
  ultimately show ?thesis
    by (simp add: record_kill_session_def same_registry_def)
next
  case None
  then have guard: "licensed \<and> role (objs s ! kr_session k) = ''admin'' \<and> have_server
      \<and> kr_target k \<noteq> session_id (objs s ! kr_session k)"
    by (auto simp: kill_guard_def Let_def split: if_splits)
  show ?thesis
  proof (cases "client_sessions s (kr_target k)")
    case no: None
    then have "r = fail KeyError (not_found_msg (kr_target k))
        \<and> s' = record_kill_session k (not_found_msg (kr_target k)) s"
      using assms(2) None by (simp add: HandleKillSession_def FindSession_def)
    then show ?thesis using no by (simp add: record_kill_session_def same_registry_def)
  next
    case (Some p)
    let ?s1 = "session_mark_killed p s"
    have p: "p < length (objs s)" using registry_okD(3) [OF assms(1) Some] by simp
    have "r = ok () \<and> s' = record_kill_session k [] (snd (RemoveSession (kr_target k) True ?s1))"
      using assms(2) None Some by (auto simp: HandleKillSession_def FindSession_def RemoveSession_def)
    moreover have "session_id (objs ?s1 ! kr_session k) = session_id (objs s ! kr_session k)" by simp
    ultimately show ?thesis
      using Some p guard
      by (simp add: record_kill_session_def RemoveSession_def)
        (simp add: session_mark_killed_def)
  qed
qed

text \<open>The sequential handler is a run of the critical sections below, with its answer as the last event.\<close>

lemma HandleKillSession_is_a_run:
  assumes "HandleKillSession licensed have_server k s = (r, s')" and "pcs t = Holds (kr_session k)"
  shows "\<exists>ls. rsteps (s, pcs) (ls @ [KillDone (kr_target k) r]) (s', pcs(t := Idle))"
proof (cases "kill_guard licensed have_server k s")
  case (Some e)
  then have "r = Inl e" "s' = record_kill_session k (message e) s"
    using assms(1) by (simp_all add: HandleKillSession_def)
  moreover have "rstep (s, pcs) (KillDone (kr_target k) (Inl e))
      (record_kill_session k (message e) s, pcs(t := Idle))"
    by (rule kill_refused) (rule assms(2), rule Some)
  ultimately have "rsteps (s, pcs) ([] @ [KillDone (kr_target k) r]) (s', pcs(t := Idle))"
    by (auto intro: rsteps.intros)
  then show ?thesis by blast
next
  case None
  have 1: "rstep (s, pcs) Tau (s, pcs(t := AtFind k))" by (rule kill_allowed) (rule assms(2), rule None)
  show ?thesis
  proof (cases "FindSession (kr_target k) s")
    case no: None
    then have r: "r = fail KeyError (not_found_msg (kr_target k))"
        "s' = record_kill_session k (not_found_msg (kr_target k)) s"
      using assms(1) None by (simp_all add: HandleKillSession_def)
    have "rstep (s, pcs(t := AtFind k)) (KillDone (kr_target k) r) (s', (pcs(t := AtFind k))(t := Idle))"
      unfolding r by (rule kill_no_target) (simp_all add: no)
    then have "rsteps (s, pcs) ([Tau] @ [KillDone (kr_target k) r]) (s', pcs(t := Idle))"
      using 1 by (auto intro: rsteps.intros)
    then show ?thesis by blast
  next
    case (Some p)
    let ?s1 = "session_mark_killed p s"
    have "fst (RemoveSession (kr_target k) True ?s1) = ok ()"
      using Some by (simp add: RemoveSession_def FindSession_def)
    then obtain s2 where rm: "RemoveSession (kr_target k) True ?s1 = (ok (), s2)"
      by (cases "RemoveSession (kr_target k) True ?s1") simp
    then have r: "r = ok ()" "s' = record_kill_session k [] s2"
      using assms(1) None Some by (simp_all add: HandleKillSession_def)
    have 2: "rstep (s, pcs(t := AtFind k)) Tau (s, (pcs(t := AtFind k))(t := AtMark k p))"
      by (rule kill_target) (simp_all add: Some)
    have 3: "rstep (s, pcs(t := AtMark k p)) Tau (?s1, (pcs(t := AtMark k p))(t := AtRemove k))"
      by (rule kill_mark) simp
    have 4: "rstep (?s1, pcs(t := AtRemove k)) (KillDone (kr_target k) r)
        (s', (pcs(t := AtRemove k))(t := Idle))"
      unfolding r by (rule kill_removed [OF _ rm]) simp
    have "rsteps (s, pcs) ([Tau, Tau, Tau] @ [KillDone (kr_target k) r]) (s', pcs(t := Idle))"
      using 1 2 3 4 by (auto intro!: rsteps.intros)
    then show ?thesis by blast
  qed
qed

text \<open>
  What a kill in progress may rely on while other requests run: an object keeps its id, its role and, once
  set, its flag and the reason its record will be closed with; a connection stays interrupted.
\<close>

definition closes_as_killed :: "'c client_session \<Rightarrow> bool" where
  "closes_as_killed cs \<longleftrightarrow>
     kill_requested cs \<and> (case instrumentation cs of None \<Rightarrow> True | Some si \<Rightarrow> si_stop_reason si = ''killed'')"

definition objs_keep :: "'c registry \<Rightarrow> 'c registry \<Rightarrow> bool" where
  "objs_keep s s' \<longleftrightarrow>
     length (objs s) \<le> length (objs s') \<and> set (interrupts s) \<subseteq> set (interrupts s')
     \<and> (\<forall>p < length (objs s). session_id (objs s' ! p) = session_id (objs s ! p)
          \<and> role (objs s' ! p) = role (objs s ! p)
          \<and> (closes_as_killed (objs s ! p) \<longrightarrow> closes_as_killed (objs s' ! p)))"

definition may_kill :: "kill_request \<Rightarrow> 'c registry \<Rightarrow> bool" where
  "may_kill k s \<longleftrightarrow>
     kr_session k < length (objs s) \<and> role (objs s ! kr_session k) = ''admin''
     \<and> kr_target k \<noteq> session_id (objs s ! kr_session k)"

definition kill_marked :: "string \<Rightarrow> 'c registry \<Rightarrow> bool" where
  "kill_marked sid s \<longleftrightarrow>
     (\<exists>p < length (objs s). session_id (objs s ! p) = sid \<and> closes_as_killed (objs s ! p)
        \<and> p \<in> set (interrupts s))"

fun kill_pc :: "'c registry \<Rightarrow> 'c pc \<Rightarrow> bool" where
  "kill_pc s (AtFind k) \<longleftrightarrow> may_kill k s"
| "kill_pc s (AtMark k p) \<longleftrightarrow> may_kill k s"
| "kill_pc s (AtRemove k) \<longleftrightarrow> may_kill k s \<and> kill_marked (kr_target k) s"
| "kill_pc s _ \<longleftrightarrow> True"

definition kills_ok :: "'c config \<Rightarrow> bool" where
  "kills_ok c \<longleftrightarrow> (\<forall>t. kill_pc (fst c) (snd c t))"

lemma may_kill_keep: "objs_keep s s' \<Longrightarrow> may_kill k s \<Longrightarrow> may_kill k s'"
  by (simp add: objs_keep_def may_kill_def)

lemma kill_marked_keep:
  assumes "objs_keep s s'" and "kill_marked sid s"
  shows "kill_marked sid s'"
proof -
  obtain p where "p < length (objs s)" "session_id (objs s ! p) = sid" "closes_as_killed (objs s ! p)"
      "p \<in> set (interrupts s)"
    using assms(2) by (auto simp: kill_marked_def)
  then have "p < length (objs s') \<and> session_id (objs s' ! p) = sid \<and> closes_as_killed (objs s' ! p)
      \<and> p \<in> set (interrupts s')"
    using assms(1) by (simp add: objs_keep_def subset_iff)
  then show ?thesis unfolding kill_marked_def by blast
qed

lemma kill_pc_keep: "objs_keep s s' \<Longrightarrow> kill_pc s x \<Longrightarrow> kill_pc s' x"
  by (cases x) (simp_all add: may_kill_keep kill_marked_keep)

lemma kills_ok_step:
  assumes "kills_ok (s, pcs)" and "objs_keep s s'" and "kill_pc s' x"
  shows "kills_ok (s', pcs(t := x))"
  using assms kill_pc_keep [OF assms(2)] by (auto simp: kills_ok_def)

lemma objs_keep_same:
  assumes "objs s' = objs s" and "interrupts s' = interrupts s"
  shows "objs_keep s s'"
  using assms by (simp add: objs_keep_def)

lemma session_destroy_objs [simp]:
  "objs (session_destroy cs s) = objs s" "interrupts (session_destroy cs s) = interrupts s"
  by (simp_all add: session_destroy_def split: option.split)

lemma objs_keep_slow: "objs_keep s (snd (session_slow sid new s))"
  by (auto simp: session_slow_def objs_keep_def session_erase_def nth_append split: option.split)

lemma objs_keep_mark: "objs_keep s (session_mark_killed p s)"
  by (cases "p < length (objs s)")
    (auto simp: objs_keep_def session_mark_killed_def nth_list_update closes_as_killed_def
      SetSessionStopReason_def list_update_beyond split: option.splits)

lemma kill_marked_mark:
  assumes "p < length (objs s)" and "session_id (objs s ! p) = sid"
  shows "kill_marked sid (session_mark_killed p s)"
  unfolding kill_marked_def
  using assms
  by (intro exI [of _ p])
    (simp add: session_mark_killed_def closes_as_killed_def SetSessionStopReason_def split: option.split)

lemma kill_guard_may_kill:
  assumes "kill_guard licensed have_server k s = None" and "kr_session k < length (objs s)"
  shows "may_kill k s"
  using assms by (auto simp: kill_guard_def may_kill_def Let_def split: if_splits)

lemma build_keeps_objs:
  assumes "session_build ctx addr conn sid s = (new, s')"
  shows "objs s' = objs s \<and> interrupts s' = interrupts s"
  using assms by (auto simp: session_build_def Let_def split: option.splits if_splits prod.splits)

lemma RemoveSession_objs:
  assumes "RemoveSession sid k s = (r, s')"
  shows "objs s' = objs s \<and> interrupts s' = interrupts s \<and> srv_instr s' = srv_instr s"
  using assms by (auto simp: RemoveSession_def split: option.splits)

lemma rstep_kills_ok:
  assumes "rstep c l c'" and "config_ok c" and "kills_ok c"
  shows "kills_ok c'"
  using assms
proof (cases rule: rstep.cases)
  case (get_build pcs t ctx sid s addr conn new s')
  then show ?thesis
    using assms(3) build_keeps_objs [OF get_build(7)] by (auto intro: kills_ok_step objs_keep_same)
next
  case (get_slow pcs t sid new s p s')
  then show ?thesis
    using assms(3) objs_keep_slow [of s sid new] by (auto intro: kills_ok_step)
next
  case (get_slow_refused pcs t sid new s e s')
  then show ?thesis
    using assms(3) objs_keep_slow [of s sid new] by (auto intro: kills_ok_step)
next
  case (request_closes pcs t p s r s')
  then have "objs s' = objs s \<and> interrupts s' = interrupts s"
    by (auto simp: session_close_def Let_def split: option.splits)
  then show ?thesis
    using request_closes assms(3) by (auto intro: kills_ok_step objs_keep_same)
next
  case (kill_allowed pcs t k licensed have_server s)
  then have "kr_session k < length (objs s)"
    using assms(2) by (auto simp: config_ok_def dest: spec [of _ t])
  then show ?thesis
    using kill_allowed assms(3) kill_guard_may_kill by (auto intro!: kills_ok_step objs_keep_same)
next
  case (kill_target pcs t k s p)
  then have "may_kill k s" using assms(3) by (auto simp: kills_ok_def dest: spec [of _ t])
  then show ?thesis
    using kill_target assms(3) by (auto intro!: kills_ok_step objs_keep_same)
next
  case (kill_mark pcs t k p s)
  have "may_kill k s" "p < length (objs s)" "session_id (objs s ! p) = kr_target k"
    using kill_mark assms(2,3) by (auto simp: kills_ok_def config_ok_def dest: spec [of _ t])
  then have "kill_pc (session_mark_killed p s) (AtRemove k)"
    using kill_pc_keep [OF objs_keep_mark, of s "AtFind k" p] kill_marked_mark by auto
  then have "kills_ok (session_mark_killed p s, pcs(t := AtRemove k))"
    using assms(3) kill_mark(1) by (intro kills_ok_step [OF _ objs_keep_mark]) simp_all
  then show ?thesis using kill_mark by simp
next
  case (kill_removed pcs t k s u s')
  then show ?thesis
    using assms(3) RemoveSession_objs [OF kill_removed(5)]
    by (auto simp: record_kill_session_def intro!: kills_ok_step objs_keep_same)
next
  case (kill_lost pcs t k s e s')
  then show ?thesis
    using assms(3) RemoveSession_objs [OF kill_lost(5)] by (auto intro!: kills_ok_step objs_keep_same)
next
  case (shutdown s pcs)
  then show ?thesis
    using assms(3) kill_pc_keep [OF objs_keep_same, of "ReleaseAllSessions s" s]
    by (auto simp: kills_ok_def ReleaseAllSessions_def Let_def)
qed (auto simp: record_kill_session_def session_erase_def intro!: kills_ok_step objs_keep_same)

lemma rsteps_kills_ok: "rsteps c ls c' \<Longrightarrow> config_ok c \<Longrightarrow> kills_ok c \<Longrightarrow> kills_ok c'"
  by (induction rule: rsteps.induct) (auto dest: rstep_ok rstep_kills_ok)

lemma fresh_kills_ok: "kills_ok (fresh_registry mo inst, \<lambda>_. Idle)"
  by (simp add: kills_ok_def)

text \<open>The record a finished kill leaves, with the error it reports.\<close>

definition kill_recorded :: "kill_request \<Rightarrow> unit result \<Rightarrow> 'c registry \<Rightarrow> instr_manager option" where
  "kill_recorded k r s =
     StatementInstrumentation (srv_instr s) (kr_statement_id k) (session_id (objs s ! kr_session k))
       (kr_logged_sql k) (kr_flight_method k) (kr_internal k)
       (case r of Inl e \<Rightarrow> message e | Inr _ \<Rightarrow> [])"

text \<open>
  C2: What a KILL SESSION has done when it answers, in every run of any number of request threads whose
  critical sections interleave with its own. On success the caller is an administrator and the target not
  its own session, the target was registered, an object of that id is flagged, its connection interrupted
  and its record will be closed as killed; the id leaves the registry and is remembered, the gauge falls
  by one, and one record without an error is queued. On an error the registry is unchanged, and one record
  with the message is queued, with one exception, the code's gap: when the target left the registry
  between the handler's look-up and its removal, its object is flagged and interrupted but nothing is
  recorded.
\<close>

theorem kill_done_effect:
  assumes "rsteps (fresh_registry mo inst, \<lambda>_. Idle) ls (s, pcs)"
    and "rstep (s, pcs) (KillDone sid r) (s', pcs')"
  shows "\<exists>k t. kr_target k = sid \<and> pcs t \<in> {Holds (kr_session k), AtFind k, AtRemove k}
    \<and> pcs' = pcs(t := Idle) \<and> kr_session k < length (objs s)
    \<and> objs s' = objs s \<and> interrupts s' = interrupts s
    \<and> (if r = ok ()
       then role (objs s ! kr_session k) = ''admin'' \<and> sid \<noteq> session_id (objs s ! kr_session k)
         \<and> client_sessions s sid \<noteq> None
         \<and> (\<exists>p < length (objs s). session_id (objs s ! p) = sid \<and> closes_as_killed (objs s ! p)
              \<and> p \<in> set (interrupts s))
         \<and> client_sessions s' = (client_sessions s)(sid := None)
         \<and> killed_session_ids s' = insert sid (killed_session_ids s)
         \<and> active_connections s' = active_connections s - 1
         \<and> srv_instr s' = kill_recorded k r s
       else same_registry s s'
         \<and> (if pcs t = AtRemove k
            then r = fail KeyError (not_found_msg sid) \<and> client_sessions s sid = None
              \<and> (\<exists>p < length (objs s). session_id (objs s ! p) = sid \<and> closes_as_killed (objs s ! p)
                   \<and> p \<in> set (interrupts s))
              \<and> srv_instr s' = srv_instr s
            else srv_instr s' = kill_recorded k r s))"
proof -
  have ok: "config_ok (s, pcs)" by (rule rsteps_ok [OF assms(1) fresh_config_ok])
  have kills: "kills_ok (s, pcs)" by (rule rsteps_kills_ok [OF assms(1) fresh_config_ok fresh_kills_ok])
  from assms(2) show ?thesis
  proof (cases rule: rstep.cases)
    case (kill_refused t k licensed have_server e)
    have "kr_session k < length (objs s)"
      using ok kill_refused(5) by (auto simp: config_ok_def dest: spec [of _ t])
    then show ?thesis
      using kill_refused
      by (intro exI [of _ k] exI [of _ t])
        (simp add: record_kill_session_def same_registry_def kill_recorded_def)
  next
    case (kill_no_target t k)
    have "kr_session k < length (objs s)"
      using kills kill_no_target by (auto simp: kills_ok_def may_kill_def dest: spec [of _ t])
    then show ?thesis
      using kill_no_target
      by (intro exI [of _ k] exI [of _ t])
        (simp add: record_kill_session_def same_registry_def kill_recorded_def)
  next
    case (kill_removed t k u s2)
    have "may_kill k s" "kill_marked sid s"
      using kills kill_removed by (auto simp: kills_ok_def dest: spec [of _ t])
    moreover have "client_sessions s sid \<noteq> None"
      using kill_removed by (auto simp: RemoveSession_def split: option.splits)
    ultimately show ?thesis
      using kill_removed
      by (intro exI [of _ k] exI [of _ t])
        (auto simp: record_kill_session_def kill_recorded_def RemoveSession_def may_kill_def
          kill_marked_def split: option.splits)
  next
    case (kill_lost t k e)
    have "may_kill k s" "kill_marked sid s"
      using kills kill_lost by (auto simp: kills_ok_def dest: spec [of _ t])
    moreover have "client_sessions s sid = None \<and> s' = s \<and> r = fail KeyError (not_found_msg sid)"
      using kill_lost by (auto simp: RemoveSession_def split: option.splits)
    ultimately show ?thesis
      using kill_lost
      by (intro exI [of _ k] exI [of _ t]) (auto simp: may_kill_def kill_marked_def)
  qed
qed

text \<open>Two clients connect to a fresh server, and the administrator among them kills the other one.\<close>

lemma two_requests_run:
  "rsteps (fresh_registry None ''i'', \<lambda>_. Idle) [Tau, Handed ''a'' 0, Tau, Handed ''b'' 1]
     (two_sessions, (\<lambda>_. Idle)(0 := Holds 0, 1 := Holds 1))"
proof -
  let ?F = "fresh_registry None ''i'' :: unit registry"
  let ?a = "session_fields (sample_ctx ''a'' ''admin'') ''p'' () ''a'' ?F"
  let ?b = "session_fields (sample_ctx ''b'' ''user'') ''p'' () ''b'' ?F"
  let ?A = "?F\<lparr>objs := [?a], client_sessions := (\<lambda>_. None)(''a'' \<mapsto> 0), active_connections := 1\<rparr>"
  let ?pcs = "\<lambda>_ :: nat. Idle :: unit pc"
  have 1: "rstep (?F, ?pcs) Tau (?F, ?pcs(0 := AtSlow ''a'' ?a))"
    by (rule get_build [where ctx = "sample_ctx ''a'' ''admin''" and addr = "''p''" and conn = "()"])
      (simp_all add: session_fast_def session_build_def fresh_registry_def)
  have 2: "rstep (?F, ?pcs(0 := AtSlow ''a'' ?a)) (Handed ''a'' 0) (?A, (?pcs(0 := AtSlow ''a'' ?a))(0 := Holds 0))"
    by (rule get_slow [where new = ?a]) (simp_all add: session_slow_def fresh_registry_def)
  have 3: "rstep (?A, ?pcs(0 := Holds 0)) Tau (?A, (?pcs(0 := Holds 0))(1 := AtSlow ''b'' ?b))"
    by (rule get_build [where ctx = "sample_ctx ''b'' ''user''" and addr = "''p''" and conn = "()"])
      (simp_all add: session_fast_def session_build_def fresh_registry_def session_fields_def)
  have 4: "rstep (?A, ?pcs(0 := Holds 0, 1 := AtSlow ''b'' ?b)) (Handed ''b'' 1)
      (two_sessions, (?pcs(0 := Holds 0, 1 := AtSlow ''b'' ?b))(1 := Holds 1))"
    by (rule get_slow [where new = ?b])
      (simp_all add: session_slow_def two_sessions_def fresh_registry_def)
  show ?thesis
    using 1 2 3 4 by (auto intro!: rsteps.intros)
qed

theorem kill_done_effect_witness:
  "\<exists>c c' :: unit config. rsteps (fresh_registry None ''i'', \<lambda>_. Idle)
       ([Tau, Handed ''a'' 0, Tau, Handed ''b'' 1] @ [Tau, Tau, Tau]) c
     \<and> rstep c (KillDone ''b'' (ok ())) c'
     \<and> client_sessions (fst c') ''b'' = None \<and> ''b'' \<in> killed_session_ids (fst c')
     \<and> active_connections (fst c') = active_connections (fst c) - 1"
proof -
  let ?pcs = "(\<lambda>_ :: nat. Idle :: unit pc)(0 := Holds 0, 1 := Holds 1)"
  let ?s1 = "session_mark_killed 1 two_sessions"
  have 1: "rstep (two_sessions, ?pcs) Tau (two_sessions, ?pcs(0 := AtFind kill_b))"
    by (rule kill_allowed [OF _ two_sessions_guard]) (simp add: kill_b_def)
  have 2: "rstep (two_sessions, ?pcs(0 := AtFind kill_b)) Tau
      (two_sessions, (?pcs(0 := AtFind kill_b))(0 := AtMark kill_b 1))"
    by (rule kill_target) (simp_all add: FindSession_def two_sessions_def kill_b_def)
  have 3: "rstep (two_sessions, ?pcs(0 := AtMark kill_b 1)) Tau
      (?s1, (?pcs(0 := AtMark kill_b 1))(0 := AtRemove kill_b))"
    by (rule kill_mark) simp
  have "fst (RemoveSession (kr_target kill_b) True ?s1) = ok ()"
    by (simp add: RemoveSession_def two_sessions_def kill_b_def)
  then obtain s2 where rm: "RemoveSession (kr_target kill_b) True ?s1 = (ok (), s2)"
    by (cases "RemoveSession (kr_target kill_b) True ?s1") simp
  have 4: "rstep (?s1, ?pcs(0 := AtRemove kill_b)) (KillDone ''b'' (ok ()))
      (record_kill_session kill_b [] s2, (?pcs(0 := AtRemove kill_b))(0 := Idle))"
    using kill_removed [OF _ rm, of "?pcs(0 := AtRemove kill_b)" 0] by (simp add: kill_b_def)
  have "rsteps (two_sessions, ?pcs) [Tau, Tau, Tau] (?s1, ?pcs(0 := AtRemove kill_b))"
    using 1 2 3 by (auto intro!: rsteps.intros)
  then have run: "rsteps (fresh_registry None ''i'', \<lambda>_. Idle)
      ([Tau, Handed ''a'' 0, Tau, Handed ''b'' 1] @ [Tau, Tau, Tau]) (?s1, ?pcs(0 := AtRemove kill_b))"
    unfolding rsteps_append by (intro exI conjI) (rule two_requests_run)
  from kill_done_effect [OF run 4]
  have "client_sessions (record_kill_session kill_b [] s2) ''b'' = None
      \<and> ''b'' \<in> killed_session_ids (record_kill_session kill_b [] s2)
      \<and> active_connections (record_kill_session kill_b [] s2) = active_connections ?s1 - 1"
    by auto
  then show ?thesis
    by (intro exI conjI) (rule run, rule 4, simp_all only: fst_conv)
qed

text \<open>
  A session keeps its identity: once a request with some session id has been handed a session, a
  later request with the same session id is handed the same session object, whatever user, role or
  catalog rules the later request's token carries; nothing is created or changed.
\<close>

theorem session_identity_sticks:
  assumes "GetClientSession ctx addr conn s = (ok p, s1)" and "registry_ok s"
    and "ctx_session_id ctx' = ctx_session_id ctx"
  shows "GetClientSession ctx' addr' conn' s1 = (ok p, s1)"
proof -
  obtain sid where sid: "GetSessionID ctx = ok sid" "GetSessionID ctx' = ok sid"
    using assms(1,3) by (auto simp: GetClientSession_def GetSessionID_def split: option.splits)
  have "session_fast sid s1 = FastFound p"
  proof (cases "session_fast sid s")
    case FastMiss
    obtain new s0 where b: "session_build ctx addr conn sid s = (new, s0)" by force
    have new: "same_registry s s0" "session_id new = sid" "\<not> kill_requested new"
      using session_build_same [OF b] by simp_all
    have none: "client_sessions s0 sid = None" "sid \<notin> killed_session_ids s0"
      using FastMiss new(1) by (auto simp: session_fast_def same_registry_def split: if_splits option.splits)
    have "session_slow sid new s0 = (ok p, s1)"
      using assms(1) sid FastMiss b by (simp add: GetClientSession_def)
    then show ?thesis
      using none new by (auto simp: session_slow_def session_fast_def)
  qed (use assms(1) sid in \<open>auto simp: GetClientSession_def\<close>)
  then show ?thesis by (simp add: GetClientSession_def sid)
qed

theorem session_identity_sticks_witness:
  "GetClientSession (sample_ctx ''b'' ''admin'') ''q'' () (one_session ''b'') = (ok 0, one_session ''b'')"
proof -
  have "GetClientSession (sample_ctx ''b'' ''user'') ''p'' () (fresh_registry None ''i'')
      = (ok 0, one_session ''b'')"
    by (simp add: GetClientSession_def session_fast_def session_build_def session_slow_def
        one_session_def fresh_registry_def)
  moreover have "registry_ok (fresh_registry None ''i'' :: unit registry)"
    using fresh_config_ok by (simp add: config_ok_def)
  ultimately show ?thesis
    by (rule session_identity_sticks) (simp add: sample_ctx_def)
qed

end
