(* ===== verification/ArrowTypes.thy ===== *)
theory ArrowTypes
  imports Quoting
begin

text \<open>
  The type mapping between Arrow and DuckDB and the conversion of Arrow cells for bulk ingest
  (anonymous namespace of \<open>src/src/duckdb/duckdb_server.cpp\<close> and \<open>GetDataTypeFromDuckDbType\<close> of
  \<open>duckdb_statement.cpp\<close>). An array is seen through its cells: a cell is a value or null, a nested
  cell is the list of its children. What Arrow and DuckDB compute on single values (formatting a
  decimal, \<open>std::stod\<close>, \<open>Date::EpochToDate\<close>, the text of a scalar) is a parameter, and so are the
  constructors of \<open>duckdb::Value\<close> that check or cast what they are given and may throw.
\<close>

section \<open>Types\<close>

datatype time_unit = SECOND | MILLI | MICRO | NANO

datatype arrow_type =
    NA | BOOL | INT8 | INT16 | INT32 | INT64 | UINT8 | UINT16 | UINT32 | UINT64
  | FLOAT | DOUBLE | STRING | LARGE_STRING | BINARY | LARGE_BINARY | DATE32 | DATE64
  | TIME32 time_unit | TIME64 time_unit | TIMESTAMP time_unit string | DURATION time_unit
  | DECIMAL128 int int | DECIMAL256 int int
  | LIST arrow_type | LARGE_LIST arrow_type | FIXED_SIZE_LIST arrow_type int
  | STRUCT "(string \<times> arrow_type) list" | MAP arrow_type arrow_type
  | OTHER_ARROW string

datatype duckdb_type =
    SQLNULL | BOOLEAN | TINYINT | SMALLINT | INTEGER | BIGINT | UTINYINT | USMALLINT | UINTEGER
  | UBIGINT | HUGEINT | DUCK_FLOAT | DUCK_DOUBLE | DUCK_CHAR | VARCHAR | BLOB | DATE | TIME | TIME_TZ
  | TIMESTAMP_S | TIMESTAMP_MS | DUCK_TIMESTAMP | TIMESTAMP_NS | TIMESTAMP_TZ | INTERVAL
  | DECIMAL int int | DUCK_LIST duckdb_type | ARRAY duckdb_type int
  | DUCK_STRUCT "(string \<times> duckdb_type) list" | DUCK_MAP duckdb_type duckdb_type
  | INVALID | UNKNOWN | ANY | USER | OTHER_DUCK string

definition timestamp_type :: "time_unit \<Rightarrow> string \<Rightarrow> duckdb_type" where
  "timestamp_type unit timezone =
     (if timezone \<noteq> [] then TIMESTAMP_TZ
      else case unit of SECOND \<Rightarrow> TIMESTAMP_S | MILLI \<Rightarrow> TIMESTAMP_MS | MICRO \<Rightarrow> DUCK_TIMESTAMP
           | NANO \<Rightarrow> TIMESTAMP_NS)"

fun GetDuckDBTypeFromArrowType :: "arrow_type \<Rightarrow> duckdb_type"
  and duckdb_children :: "(string \<times> arrow_type) list \<Rightarrow> (string \<times> duckdb_type) list" where
  "GetDuckDBTypeFromArrowType INT8 = TINYINT"
| "GetDuckDBTypeFromArrowType INT16 = SMALLINT"
| "GetDuckDBTypeFromArrowType INT32 = INTEGER"
| "GetDuckDBTypeFromArrowType INT64 = BIGINT"
| "GetDuckDBTypeFromArrowType UINT8 = UTINYINT"
| "GetDuckDBTypeFromArrowType UINT16 = USMALLINT"
| "GetDuckDBTypeFromArrowType UINT32 = UINTEGER"
| "GetDuckDBTypeFromArrowType UINT64 = UBIGINT"
| "GetDuckDBTypeFromArrowType FLOAT = DUCK_FLOAT"
| "GetDuckDBTypeFromArrowType DOUBLE = DUCK_DOUBLE"
| "GetDuckDBTypeFromArrowType BOOL = BOOLEAN"
| "GetDuckDBTypeFromArrowType STRING = VARCHAR"
| "GetDuckDBTypeFromArrowType LARGE_STRING = VARCHAR"
| "GetDuckDBTypeFromArrowType BINARY = BLOB"
| "GetDuckDBTypeFromArrowType LARGE_BINARY = BLOB"
| "GetDuckDBTypeFromArrowType DATE32 = DATE"
| "GetDuckDBTypeFromArrowType DATE64 = DATE"
| "GetDuckDBTypeFromArrowType (TIME32 u) = TIME"
| "GetDuckDBTypeFromArrowType (TIME64 u) = TIME"
| "GetDuckDBTypeFromArrowType (TIMESTAMP u tz) = timestamp_type u tz"
| "GetDuckDBTypeFromArrowType (DURATION u) = INTERVAL"
| "GetDuckDBTypeFromArrowType (DECIMAL128 p s) = DECIMAL p s"
| "GetDuckDBTypeFromArrowType (DECIMAL256 p s) = DECIMAL p s"
| "GetDuckDBTypeFromArrowType NA = SQLNULL"
| "GetDuckDBTypeFromArrowType (LIST t) = DUCK_LIST (GetDuckDBTypeFromArrowType t)"
| "GetDuckDBTypeFromArrowType (LARGE_LIST t) = DUCK_LIST (GetDuckDBTypeFromArrowType t)"
| "GetDuckDBTypeFromArrowType (FIXED_SIZE_LIST t n) = ARRAY (GetDuckDBTypeFromArrowType t) n"
| "GetDuckDBTypeFromArrowType (STRUCT fs) = DUCK_STRUCT (duckdb_children fs)"
| "GetDuckDBTypeFromArrowType (MAP k v) =
     DUCK_MAP (GetDuckDBTypeFromArrowType k) (GetDuckDBTypeFromArrowType v)"
| "GetDuckDBTypeFromArrowType (OTHER_ARROW n) = VARCHAR"
| "duckdb_children [] = []"
| "duckdb_children ((n, t) # fs) = (n, GetDuckDBTypeFromArrowType t) # duckdb_children fs"

text \<open>
  \<open>GetDataTypeFromDuckDbType\<close>, used for the parameter schema of a prepared statement. A decimal
  takes the width and scale from two local variables that are zero.
\<close>

fun GetDataTypeFromDuckDbType :: "duckdb_type \<Rightarrow> arrow_type"
  and arrow_children :: "(string \<times> duckdb_type) list \<Rightarrow> (string \<times> arrow_type) list" where
  "GetDataTypeFromDuckDbType INTEGER = INT32"
| "GetDataTypeFromDuckDbType (DECIMAL w s) = DECIMAL128 0 0"
| "GetDataTypeFromDuckDbType DUCK_FLOAT = FLOAT"
| "GetDataTypeFromDuckDbType DUCK_DOUBLE = DOUBLE"
| "GetDataTypeFromDuckDbType DUCK_CHAR = STRING"
| "GetDataTypeFromDuckDbType VARCHAR = STRING"
| "GetDataTypeFromDuckDbType BLOB = BINARY"
| "GetDataTypeFromDuckDbType TINYINT = INT8"
| "GetDataTypeFromDuckDbType SMALLINT = INT16"
| "GetDataTypeFromDuckDbType BIGINT = INT64"
| "GetDataTypeFromDuckDbType BOOLEAN = BOOL"
| "GetDataTypeFromDuckDbType DATE = DATE32"
| "GetDataTypeFromDuckDbType TIME = TIMESTAMP MILLI []"
| "GetDataTypeFromDuckDbType TIMESTAMP_MS = TIMESTAMP MILLI []"
| "GetDataTypeFromDuckDbType DUCK_TIMESTAMP = TIMESTAMP MICRO []"
| "GetDataTypeFromDuckDbType TIMESTAMP_S = TIMESTAMP SECOND []"
| "GetDataTypeFromDuckDbType TIMESTAMP_NS = TIMESTAMP NANO []"
| "GetDataTypeFromDuckDbType INTERVAL = DURATION MICRO"
| "GetDataTypeFromDuckDbType UTINYINT = UINT8"
| "GetDataTypeFromDuckDbType USMALLINT = UINT16"
| "GetDataTypeFromDuckDbType UINTEGER = UINT32"
| "GetDataTypeFromDuckDbType UBIGINT = INT64"
| "GetDataTypeFromDuckDbType TIMESTAMP_TZ = TIMESTAMP MICRO ''UTC''"
| "GetDataTypeFromDuckDbType TIME_TZ = TIME64 MICRO"
| "GetDataTypeFromDuckDbType HUGEINT = DECIMAL128 38 0"
| "GetDataTypeFromDuckDbType INVALID = NA"
| "GetDataTypeFromDuckDbType SQLNULL = NA"
| "GetDataTypeFromDuckDbType UNKNOWN = NA"
| "GetDataTypeFromDuckDbType ANY = NA"
| "GetDataTypeFromDuckDbType USER = NA"
| "GetDataTypeFromDuckDbType (DUCK_LIST t) = LIST (GetDataTypeFromDuckDbType t)"
| "GetDataTypeFromDuckDbType (DUCK_STRUCT fs) = STRUCT (arrow_children fs)"
| "GetDataTypeFromDuckDbType (DUCK_MAP k v) =
     MAP (GetDataTypeFromDuckDbType k) (GetDataTypeFromDuckDbType v)"
| "GetDataTypeFromDuckDbType (ARRAY t n) = FIXED_SIZE_LIST (GetDataTypeFromDuckDbType t) n"
| "GetDataTypeFromDuckDbType (OTHER_DUCK n) = NA"
| "arrow_children [] = []"
| "arrow_children ((n, t) # fs) = (n, GetDataTypeFromDuckDbType t) # arrow_children fs"

section \<open>Cells\<close>

datatype arrow_value =
    VNull | VBool bool | VInt int | VFloat int | VString string | VDecimal int
  | VList "arrow_value list" | VMap "(arrow_value \<times> arrow_value) list" | VOpaque string

text \<open>Floating-point values are carried as their bit patterns.\<close>

datatype duckdb_value =
    DNull | DBool bool | DInt duckdb_type int | DFloat int | DDouble int | DVarchar string
  | DBlob string | DDate int | DTime int int int int | DTimestamp int
  | DList duckdb_type "duckdb_value list" | DStruct "(string \<times> duckdb_value) list"
  | DMap duckdb_type duckdb_type "duckdb_value list" "duckdb_value list"

text \<open>An exception: one of DuckDB's, which the ingest catches, or another.\<close>

datatype thrown = DuckDBException string | OtherException string

text \<open>
  \<open>make_text\<close> is \<open>Value(std::string)\<close>, \<open>make_blob\<close> \<open>Value::BLOB\<close> of bytes and a length, \<open>make_list\<close>
  \<open>Value::LIST\<close> and \<open>make_map\<close> \<open>Value::MAP\<close>; \<open>Inl\<close> is the exception they throw. \<open>append_value\<close> is the
  appender's \<open>Append\<close> behind the cells its row has, \<open>append_end_row\<close> its \<open>EndRow\<close> behind the rows it was given.
\<close>

record value_lib =
  epoch_to_date :: "int \<Rightarrow> int"
  format_decimal :: "int \<Rightarrow> int \<Rightarrow> string"
  stod :: "string \<Rightarrow> thrown + int"
  make_text :: "string \<Rightarrow> thrown + duckdb_value"
  make_blob :: "string \<Rightarrow> int \<Rightarrow> thrown + duckdb_value"
  make_list :: "duckdb_type \<Rightarrow> duckdb_value list \<Rightarrow> thrown + duckdb_value"
  make_map :: "duckdb_type \<Rightarrow> duckdb_type \<Rightarrow> duckdb_value list \<Rightarrow> duckdb_value list \<Rightarrow> thrown + duckdb_value"
  scalar_text :: "arrow_type \<Rightarrow> arrow_value \<Rightarrow> string option"
  append_value :: "duckdb_value list \<Rightarrow> duckdb_value \<Rightarrow> thrown option"
  append_end_row :: "duckdb_value list list \<Rightarrow> duckdb_value list \<Rightarrow> thrown option"

text \<open>Microseconds since midnight to the four arguments of \<open>Value::TIME\<close>.\<close>

definition time_fields :: "int \<Rightarrow> duckdb_value" where
  "time_fields micros =
     (let sec_total = cdiv micros 1000000; usec = cmod micros 1000000
      in DTime (cdiv sec_total 3600) (cmod (cdiv sec_total 60) 60) (cmod sec_total 60) usec)"

definition time32_micros :: "time_unit \<Rightarrow> int \<Rightarrow> thrown + int" where
  "time32_micros u v =
     (case u of SECOND \<Rightarrow> Inr (v * 1000000) | MILLI \<Rightarrow> Inr (v * 1000)
      | _ \<Rightarrow> Inl (OtherException ''Unsupported Time32 unit for Arrow -> DuckDB conversion''))"

definition time64_micros :: "time_unit \<Rightarrow> int \<Rightarrow> thrown + int" where
  "time64_micros u v =
     (case u of MICRO \<Rightarrow> Inr v | NANO \<Rightarrow> Inr (cdiv v 1000)
      | _ \<Rightarrow> Inl (OtherException ''Unsupported Time64 unit for Arrow -> DuckDB conversion''))"

text \<open>Multiplications of \<open>int64_t\<close>; the machines the server runs on wrap around.\<close>

definition wrap64 :: "int \<Rightarrow> int" where
  "wrap64 i = (i + 2 ^ 63) mod 2 ^ 64 - 2 ^ 63"

definition timestamp_micros :: "time_unit \<Rightarrow> int \<Rightarrow> int" where
  "timestamp_micros u v =
     (case u of SECOND \<Rightarrow> wrap64 (v * 1000000) | MILLI \<Rightarrow> wrap64 (v * 1000) | MICRO \<Rightarrow> v
      | NANO \<Rightarrow> cdiv v 1000)"

text \<open>
  \<open>ConvertArrowCellToDuckDBValue\<close>. \<open>Inl\<close> is an exception. A value that does not have the type of
  its array cannot occur in Arrow; it is given the exception \<open>ill_typed\<close>.
\<close>

definition ill_typed :: "thrown + 'a" where
  "ill_typed = Inl (OtherException ''cell does not have the type of its array'')"

definition int_cell :: "duckdb_type \<Rightarrow> arrow_value \<Rightarrow> thrown + duckdb_value" where
  "int_cell t v = (case v of VInt i \<Rightarrow> Inr (DInt t i) | _ \<Rightarrow> ill_typed)"

definition text_cell :: "(string \<Rightarrow> thrown + duckdb_value) \<Rightarrow> arrow_value \<Rightarrow> thrown + duckdb_value" where
  "text_cell f v = (case v of VString s \<Rightarrow> f s | _ \<Rightarrow> ill_typed)"

text \<open>\<open>static_cast<int32_t>\<close> of a length.\<close>

definition wrap32 :: "int \<Rightarrow> int" where
  "wrap32 i = (i + 2 ^ 31) mod 2 ^ 32 - 2 ^ 31"

definition sum_map :: "('a \<Rightarrow> 'b) \<Rightarrow> 'e + 'a \<Rightarrow> 'e + 'b" where
  "sum_map f x = (case x of Inl e \<Rightarrow> Inl e | Inr a \<Rightarrow> Inr (f a))"

definition time_cell :: "(int \<Rightarrow> thrown + int) \<Rightarrow> arrow_value \<Rightarrow> thrown + duckdb_value" where
  "time_cell micros v = (case v of VInt i \<Rightarrow> sum_map time_fields (micros i) | _ \<Rightarrow> ill_typed)"

definition fallback_cell :: "value_lib \<Rightarrow> arrow_type \<Rightarrow> arrow_value \<Rightarrow> thrown + duckdb_value" where
  "fallback_cell lib t v =
     (case scalar_text lib t v of
        None \<Rightarrow> Inl (OtherException ''Failed to get Arrow scalar for unsupported type'')
      | Some s \<Rightarrow> make_text lib s)"

definition scalar_cell :: "value_lib \<Rightarrow> arrow_type \<Rightarrow> arrow_value \<Rightarrow> thrown + duckdb_value" where
  "scalar_cell lib t v =
     (case t of
        BOOL \<Rightarrow> (case v of VBool b \<Rightarrow> Inr (DBool b) | _ \<Rightarrow> ill_typed)
      | INT8 \<Rightarrow> int_cell TINYINT v | INT16 \<Rightarrow> int_cell SMALLINT v | INT32 \<Rightarrow> int_cell INTEGER v
      | INT64 \<Rightarrow> int_cell BIGINT v | UINT8 \<Rightarrow> int_cell UTINYINT v | UINT16 \<Rightarrow> int_cell USMALLINT v
      | UINT32 \<Rightarrow> int_cell UINTEGER v | UINT64 \<Rightarrow> int_cell UBIGINT v
      | FLOAT \<Rightarrow> (case v of VFloat b \<Rightarrow> Inr (DFloat b) | _ \<Rightarrow> ill_typed)
      | DOUBLE \<Rightarrow> (case v of VFloat b \<Rightarrow> Inr (DDouble b) | _ \<Rightarrow> ill_typed)
      | STRING \<Rightarrow> text_cell (make_text lib) v | LARGE_STRING \<Rightarrow> text_cell (make_text lib) v
      | BINARY \<Rightarrow> text_cell (\<lambda>s. make_blob lib s (int (length s))) v
      | LARGE_BINARY \<Rightarrow> text_cell (\<lambda>s. make_blob lib s (wrap32 (int (length s)))) v
      | DATE32 \<Rightarrow> (case v of VInt days \<Rightarrow> Inr (DDate (epoch_to_date lib (days * 86400))) | _ \<Rightarrow> ill_typed)
      | DATE64 \<Rightarrow> (case v of VInt ms \<Rightarrow> Inr (DDate (epoch_to_date lib (cdiv ms 1000))) | _ \<Rightarrow> ill_typed)
      | TIME32 u \<Rightarrow> time_cell (time32_micros u) v
      | TIME64 u \<Rightarrow> time_cell (time64_micros u) v
      | TIMESTAMP u tz \<Rightarrow> (case v of VInt i \<Rightarrow> Inr (DTimestamp (timestamp_micros u i)) | _ \<Rightarrow> ill_typed)
      | DECIMAL128 p s \<Rightarrow>
          (case v of VDecimal d \<Rightarrow> sum_map DDouble (stod lib (format_decimal lib d s)) | _ \<Rightarrow> ill_typed)
      | _ \<Rightarrow> fallback_cell lib t v)"

text \<open>The cases of the switch whose values are nested.\<close>

datatype nested_type = ListOf arrow_type | StructOf "(string \<times> arrow_type) list"
  | MapOf arrow_type arrow_type | NotNested

definition nested :: "arrow_type \<Rightarrow> nested_type" where
  "nested ty =
     (case ty of LIST t \<Rightarrow> ListOf t | LARGE_LIST t \<Rightarrow> ListOf t | STRUCT fs \<Rightarrow> StructOf fs
      | MAP k t \<Rightarrow> MapOf k t | _ \<Rightarrow> NotNested)"

text \<open>The first exception of a loop over children, or all the values.\<close>

fun all_ok :: "(thrown + 'a) list \<Rightarrow> thrown + 'a list" where
  "all_ok [] = Inr []"
| "all_ok (x # xs) = (case x of Inl e \<Rightarrow> Inl e | Inr a \<Rightarrow> sum_map (\<lambda>as. a # as) (all_ok xs))"

definition pair_ok :: "(thrown + 'a) \<times> (thrown + 'b) \<Rightarrow> thrown + 'a \<times> 'b" where
  "pair_ok p =
     (case fst p of Inl e \<Rightarrow> Inl e | Inr a \<Rightarrow> sum_map (\<lambda>b. (a, b)) (snd p))"

type_synonym conversion = "arrow_type \<Rightarrow> thrown + duckdb_value"

definition sum_bind :: "'e + 'a \<Rightarrow> ('a \<Rightarrow> 'e + 'b) \<Rightarrow> 'e + 'b" where
  "sum_bind x f = (case x of Inl e \<Rightarrow> Inl e | Inr a \<Rightarrow> f a)"

definition list_cell :: "value_lib \<Rightarrow> arrow_type \<Rightarrow> conversion list \<Rightarrow> thrown + duckdb_value" where
  "list_cell lib t cs =
     sum_bind (all_ok (map (\<lambda>c. c t) cs)) (make_list lib (GetDuckDBTypeFromArrowType t))"

definition struct_cell :: "(string \<times> arrow_type) list \<Rightarrow> conversion list \<Rightarrow> thrown + duckdb_value" where
  "struct_cell fs cs =
     (if length fs \<noteq> length cs then ill_typed
      else sum_map (\<lambda>ds. DStruct (zip (map fst fs) ds)) (all_ok (map2 (\<lambda>f c. c (snd f)) fs cs)))"

definition map_cell ::
    "value_lib \<Rightarrow> arrow_type \<Rightarrow> arrow_type \<Rightarrow> (conversion \<times> conversion) list \<Rightarrow> thrown + duckdb_value" where
  "map_cell lib k t cs =
     sum_bind (all_ok (map (\<lambda>c. pair_ok (fst c k, snd c t)) cs))
       (\<lambda>kvs. make_map lib (GetDuckDBTypeFromArrowType k) (GetDuckDBTypeFromArrowType t)
                (map fst kvs) (map snd kvs))"

primrec convert_cell :: "arrow_value \<Rightarrow> value_lib \<Rightarrow> conversion" where
  "convert_cell VNull lib = (\<lambda>ty. Inr DNull)"
| "convert_cell (VList vs) lib =
     (\<lambda>ty. case nested ty of
        ListOf t \<Rightarrow> list_cell lib t (map (\<lambda>v. convert_cell v lib) vs)
      | StructOf fs \<Rightarrow> struct_cell fs (map (\<lambda>v. convert_cell v lib) vs)
      | _ \<Rightarrow> scalar_cell lib ty (VList vs))"
| "convert_cell (VMap es) lib =
     (\<lambda>ty. case nested ty of
        MapOf k t \<Rightarrow> map_cell lib k t (map (map_prod (\<lambda>v. convert_cell v lib) (\<lambda>v. convert_cell v lib)) es)
      | _ \<Rightarrow> scalar_cell lib ty (VMap es))"
| "convert_cell (VBool b) lib = (\<lambda>ty. scalar_cell lib ty (VBool b))"
| "convert_cell (VInt i) lib = (\<lambda>ty. scalar_cell lib ty (VInt i))"
| "convert_cell (VFloat i) lib = (\<lambda>ty. scalar_cell lib ty (VFloat i))"
| "convert_cell (VString s) lib = (\<lambda>ty. scalar_cell lib ty (VString s))"
| "convert_cell (VDecimal i) lib = (\<lambda>ty. scalar_cell lib ty (VDecimal i))"
| "convert_cell (VOpaque s) lib = (\<lambda>ty. scalar_cell lib ty (VOpaque s))"

definition ConvertArrowCellToDuckDBValue :: "value_lib \<Rightarrow> arrow_type \<Rightarrow> arrow_value \<Rightarrow> thrown + duckdb_value" where
  "ConvertArrowCellToDuckDBValue lib ty v = convert_cell v lib ty"

text \<open>
  \<open>AppendRecordBatchToDuckDB\<close>: row by row, cell by cell in column order. The appender is what it has
  been given: the rows that were completed. An exception leaves the row it happened in unfinished.
\<close>

type_synonym batch = "(arrow_type \<times> arrow_value list) list"

text \<open>A record batch is its columns; \<open>num_rows\<close> is the length of the first.\<close>

definition num_rows :: "batch \<Rightarrow> nat" where
  "num_rows b = (case b of [] \<Rightarrow> 0 | (t, vs) # _ \<Rightarrow> length vs)"

fun append_row :: "value_lib \<Rightarrow> batch \<Rightarrow> nat \<Rightarrow> duckdb_value list \<Rightarrow> thrown + duckdb_value list" where
  "append_row lib [] row cells = Inr cells"
| "append_row lib ((t, vs) # cols) row cells =
     (case ConvertArrowCellToDuckDBValue lib t (vs ! row) of
        Inl e \<Rightarrow> Inl e
      | Inr d \<Rightarrow>
          (case append_value lib cells d of
             Some e \<Rightarrow> Inl e
           | None \<Rightarrow> append_row lib cols row (cells @ [d])))"

fun append_rows :: "value_lib \<Rightarrow> batch \<Rightarrow> nat list \<Rightarrow> duckdb_value list list
    \<Rightarrow> thrown option \<times> duckdb_value list list" where
  "append_rows lib b [] done_rows = (None, done_rows)"
| "append_rows lib b (row # rows) done_rows =
     (case append_row lib b row [] of
        Inl e \<Rightarrow> (Some e, done_rows)
      | Inr r \<Rightarrow>
          (case append_end_row lib done_rows r of
             Some e \<Rightarrow> (Some e, done_rows)
           | None \<Rightarrow> append_rows lib b rows (done_rows @ [r])))"

definition AppendRecordBatchToDuckDB ::
    "value_lib \<Rightarrow> batch option \<Rightarrow> duckdb_value list list \<Rightarrow> thrown option \<times> duckdb_value list list" where
  "AppendRecordBatchToDuckDB lib batch appender =
     (case batch of
        None \<Rightarrow> (None, appender)
      | Some b \<Rightarrow> append_rows lib b [0..<num_rows b] appender)"

section \<open>Generated DDL\<close>

text \<open>A field of the schema: name, type, nullable. The text of a DuckDB type is DuckDB's.\<close>

type_synonym field = "string \<times> arrow_type \<times> bool"

definition column_sql :: "(duckdb_type \<Rightarrow> string) \<Rightarrow> field \<Rightarrow> string" where
  "column_sql type_text f =
     (case f of (n, t, nullable) \<Rightarrow>
        ''    '' @ QuoteIdent n @ '' '' @ type_text (GetDuckDBTypeFromArrowType t)
          @ (if nullable then [] else '' NOT NULL''))"

fun columns_sql :: "(duckdb_type \<Rightarrow> string) \<Rightarrow> field list \<Rightarrow> string" where
  "columns_sql type_text [] = []"
| "columns_sql type_text [f] = column_sql type_text f"
| "columns_sql type_text (f # g # fs) =
     column_sql type_text f @ '','' @ [newline] @ columns_sql type_text (g # fs)"

definition GenerateCreateTableSQLFromArrowSchema ::
    "(duckdb_type \<Rightarrow> string) \<Rightarrow> string \<Rightarrow> field list \<Rightarrow> bool \<Rightarrow> bool \<Rightarrow> string" where
  "GenerateCreateTableSQLFromArrowSchema type_text full_table_name schema temporary replace =
     ''CREATE '' @ (if replace then ''OR REPLACE '' else []) @ (if temporary then ''TEMPORARY '' else [])
       @ ''TABLE '' @ full_table_name @ '' ('' @ [newline] @ columns_sql type_text schema
       @ [newline] @ '');''"

section \<open>Sizes\<close>

text \<open>\<open>ArrayData\<close>: the sizes of its buffers (absent ones are null), its children, its dictionary.\<close>

datatype array_data = ArrayData "int option list" "array_data option list" "array_data option"

fun GetArrayDataSize :: "array_data option \<Rightarrow> int"
  and child_sizes :: "array_data option list \<Rightarrow> int" where
  "GetArrayDataSize None = 0"
| "GetArrayDataSize (Some (ArrayData buffers children dictionary)) =
     sum_list (map (\<lambda>b. case b of None \<Rightarrow> 0 | Some n \<Rightarrow> n) buffers) + child_sizes children
       + GetArrayDataSize dictionary"
| "child_sizes [] = 0"
| "child_sizes (c # cs) = GetArrayDataSize c + child_sizes cs"

definition GetRecordBatchSizeBytes :: "array_data option list option \<Rightarrow> int" where
  "GetRecordBatchSizeBytes batch =
     (case batch of None \<Rightarrow> 0 | Some cols \<Rightarrow> foldl (\<lambda>n c. n + GetArrayDataSize c) 0 cols)"

section \<open>The values have the column's type\<close>

text \<open>
  Cells that Arrow can produce for a type: texts are valid, map keys are not null. Besides, a large binary
  is below 2 GiB and the keys of a map are different, which Arrow does not promise.
\<close>

definition scalar_ok :: "(string \<Rightarrow> bool) \<Rightarrow> arrow_value \<Rightarrow> arrow_type \<Rightarrow> bool" where
  "scalar_ok valid v ty \<longleftrightarrow>
     (case v of
        VBool b \<Rightarrow> ty = BOOL
      | VInt i \<Rightarrow>
          (case ty of INT8 \<Rightarrow> True | INT16 \<Rightarrow> True | INT32 \<Rightarrow> True | INT64 \<Rightarrow> True | UINT8 \<Rightarrow> True
           | UINT16 \<Rightarrow> True | UINT32 \<Rightarrow> True | UINT64 \<Rightarrow> True | DATE32 \<Rightarrow> True | DATE64 \<Rightarrow> True
           | TIME32 u \<Rightarrow> u = SECOND \<or> u = MILLI | TIME64 u \<Rightarrow> u = MICRO \<or> u = NANO
           | TIMESTAMP u tz \<Rightarrow> True | DURATION u \<Rightarrow> True | _ \<Rightarrow> False)
      | VFloat i \<Rightarrow> ty = FLOAT \<or> ty = DOUBLE
      | VString s \<Rightarrow> (ty = STRING \<or> ty = LARGE_STRING) \<and> valid s \<or> ty = BINARY
          \<or> ty = LARGE_BINARY \<and> int (length s) < 2 ^ 31
      | VDecimal d \<Rightarrow> (case ty of DECIMAL128 p s \<Rightarrow> True | DECIMAL256 p s \<Rightarrow> True | _ \<Rightarrow> False)
      | VOpaque s \<Rightarrow> (case ty of OTHER_ARROW n \<Rightarrow> True | _ \<Rightarrow> False)
      | _ \<Rightarrow> False)"

primrec cell_ok :: "arrow_value \<Rightarrow> (string \<Rightarrow> bool) \<Rightarrow> arrow_type \<Rightarrow> bool" where
  "cell_ok VNull valid = (\<lambda>ty. True)"
| "cell_ok (VList vs) valid =
     (\<lambda>ty. case nested ty of
        ListOf t \<Rightarrow> list_all (\<lambda>c. c t) (map (\<lambda>v. cell_ok v valid) vs)
      | StructOf fs \<Rightarrow> list_all2 (\<lambda>c f. c (snd f)) (map (\<lambda>v. cell_ok v valid) vs) fs
      | _ \<Rightarrow> False)"
| "cell_ok (VMap es) valid =
     (\<lambda>ty. case nested ty of
        MapOf k t \<Rightarrow> VNull \<notin> set (map fst es) \<and> distinct (map fst es)
          \<and> list_all (\<lambda>c. fst c k \<and> snd c t) (map (map_prod (\<lambda>v. cell_ok v valid) (\<lambda>v. cell_ok v valid)) es)
      | _ \<Rightarrow> False)"
| "cell_ok (VBool b) valid = scalar_ok valid (VBool b)"
| "cell_ok (VInt i) valid = scalar_ok valid (VInt i)"
| "cell_ok (VFloat i) valid = scalar_ok valid (VFloat i)"
| "cell_ok (VString s) valid = scalar_ok valid (VString s)"
| "cell_ok (VDecimal d) valid = scalar_ok valid (VDecimal d)"
| "cell_ok (VOpaque s) valid = scalar_ok valid (VOpaque s)"

text \<open>A DuckDB value fits a column type without a cast; NULL fits every type.\<close>

primrec value_fits :: "duckdb_value \<Rightarrow> duckdb_type \<Rightarrow> bool" where
  "value_fits DNull = (\<lambda>ty. True)"
| "value_fits (DBool b) = (\<lambda>ty. ty = BOOLEAN)"
| "value_fits (DInt t i) = (\<lambda>ty. ty = t)"
| "value_fits (DFloat i) = (\<lambda>ty. ty = DUCK_FLOAT)"
| "value_fits (DDouble i) = (\<lambda>ty. ty = DUCK_DOUBLE)"
| "value_fits (DVarchar s) = (\<lambda>ty. ty = VARCHAR)"
| "value_fits (DBlob s) = (\<lambda>ty. ty = BLOB)"
| "value_fits (DDate d) = (\<lambda>ty. ty = DATE)"
| "value_fits (DTime h m s us) = (\<lambda>ty. ty = TIME)"
| "value_fits (DTimestamp t) = (\<lambda>ty. ty = DUCK_TIMESTAMP)"
| "value_fits (DList t vs) = (\<lambda>ty. ty = DUCK_LIST t \<and> list_all (\<lambda>c. c t) (map value_fits vs))"
| "value_fits (DStruct fs) =
     (\<lambda>ty. case ty of
        DUCK_STRUCT ts \<Rightarrow> list_all2 (\<lambda>c t. fst c = fst t \<and> snd c (snd t)) (map (map_prod id value_fits) fs) ts
      | _ \<Rightarrow> False)"
| "value_fits (DMap k t ks vs) =
     (\<lambda>ty. ty = DUCK_MAP k t \<and> list_all (\<lambda>c. c k) (map value_fits ks)
        \<and> list_all (\<lambda>c. c t) (map value_fits vs))"

text \<open>
  What DuckDB documents of its constructors: a valid text is taken as it is, as many bytes as the length says
  make a blob, a list of values of its child type is taken as it is, and so is a map with keys of its key
  type that are different and not null.
\<close>

definition duckdb_values :: "value_lib \<Rightarrow> (string \<Rightarrow> bool) \<Rightarrow> bool" where
  "duckdb_values lib valid \<longleftrightarrow>
     (\<forall>s. valid s \<longrightarrow> make_text lib s = Inr (DVarchar s))
     \<and> (\<forall>s n. 0 \<le> n \<and> n \<le> int (length s) \<longrightarrow> make_blob lib s n = Inr (DBlob (take (nat n) s)))
     \<and> (\<forall>t vs. (\<forall>v \<in> set vs. value_fits v t) \<longrightarrow> make_list lib t vs = Inr (DList t vs))
     \<and> (\<forall>k t ks vs. (\<forall>x \<in> set ks. value_fits x k) \<and> DNull \<notin> set ks \<and> distinct ks
          \<and> (\<forall>v \<in> set vs. value_fits v t) \<and> length ks = length vs \<longrightarrow> make_map lib k t ks vs = Inr (DMap k t ks vs))"

text \<open>
  The types whose cells keep the column's type. Keys of maps are numbers, booleans or texts, whose conversions
  are different when they are. The other types do not keep it: durations, fixed-size lists and
  256-bit decimals are converted to text, 128-bit decimals to doubles, and a timestamp of any unit or
  zone to a microsecond timestamp, so that DuckDB has to cast them.
\<close>

definition key_type :: "arrow_type \<Rightarrow> bool" where
  "key_type ty \<longleftrightarrow>
     ty \<in> {BOOL, INT8, INT16, INT32, INT64, UINT8, UINT16, UINT32, UINT64, STRING, LARGE_STRING}"

fun exact_type :: "arrow_type \<Rightarrow> bool"
  and exact_fields :: "(string \<times> arrow_type) list \<Rightarrow> bool" where
  "exact_type BOOL = True"
| "exact_type INT8 = True" | "exact_type INT16 = True" | "exact_type INT32 = True"
| "exact_type INT64 = True" | "exact_type UINT8 = True" | "exact_type UINT16 = True"
| "exact_type UINT32 = True" | "exact_type UINT64 = True"
| "exact_type FLOAT = True" | "exact_type DOUBLE = True"
| "exact_type STRING = True" | "exact_type LARGE_STRING = True"
| "exact_type BINARY = True" | "exact_type LARGE_BINARY = True"
| "exact_type DATE32 = True" | "exact_type DATE64 = True"
| "exact_type (TIME32 u) = True" | "exact_type (TIME64 u) = True"
| "exact_type (TIMESTAMP u tz) = (u = MICRO \<and> tz = [])"
| "exact_type (LIST t) = exact_type t"
| "exact_type (LARGE_LIST t) = exact_type t"
| "exact_type (STRUCT fs) = exact_fields fs"
| "exact_type (MAP k t) = (key_type k \<and> exact_type t)"
| "exact_type NA = True"
| "exact_type (DURATION u) = False" | "exact_type (DECIMAL128 p s) = False"
| "exact_type (DECIMAL256 p s) = False" | "exact_type (FIXED_SIZE_LIST t n) = False"
| "exact_type (OTHER_ARROW n) = False"
| "exact_fields [] = True"
| "exact_fields ((n, t) # fs) = (exact_type t \<and> exact_fields fs)"

lemma exact_fields_iff: "exact_fields fs \<longleftrightarrow> (\<forall>f \<in> set fs. exact_type (snd f))"
  by (induction fs) auto

lemma duckdb_children_eq: "duckdb_children fs = map (\<lambda>f. (fst f, GetDuckDBTypeFromArrowType (snd f))) fs"
  by (induction fs) auto

definition converts :: "value_lib \<Rightarrow> arrow_type \<Rightarrow> arrow_value \<Rightarrow> bool" where
  "converts lib ty v \<longleftrightarrow>
     (\<exists>d. convert_cell v lib ty = Inr d \<and> value_fits d (GetDuckDBTypeFromArrowType ty))"

lemma sum_map_Inr [simp]: "sum_map f (Inr x) = Inr (f x)" "sum_map f (Inl e) = Inl e"
  by (simp_all add: sum_map_def)

lemma nested_simps [simp]:
  "nested (LIST t) = ListOf t" "nested (LARGE_LIST t) = ListOf t" "nested (STRUCT fs) = StructOf fs"
  "nested (MAP k t) = MapOf k t"
  by (simp_all add: nested_def)

lemma nested_cases:
  "nested ty = ListOf t \<Longrightarrow> ty = LIST t \<or> ty = LARGE_LIST t"
  "nested ty = StructOf fs \<Longrightarrow> ty = STRUCT fs"
  "nested ty = MapOf k t' \<Longrightarrow> ty = MAP k t'"
  by (auto simp: nested_def split: arrow_type.splits)

lemma duckdb_valuesD:
  assumes "duckdb_values lib valid"
  shows "valid s \<Longrightarrow> make_text lib s = Inr (DVarchar s)"
    and "0 \<le> n \<Longrightarrow> n \<le> int (length s) \<Longrightarrow> make_blob lib s n = Inr (DBlob (take (nat n) s))"
    and "(\<And>v. v \<in> set vs \<Longrightarrow> value_fits v t) \<Longrightarrow> make_list lib t vs = Inr (DList t vs)"
    and "(\<And>x. x \<in> set ks \<Longrightarrow> value_fits x k) \<Longrightarrow> DNull \<notin> set ks \<Longrightarrow> distinct ks \<Longrightarrow>
      (\<And>v. v \<in> set vs \<Longrightarrow> value_fits v t) \<Longrightarrow> length ks = length vs \<Longrightarrow>
      make_map lib k t ks vs = Inr (DMap k t ks vs)"
  using assms unfolding duckdb_values_def by blast+

lemma wrap32_id: "0 \<le> i \<Longrightarrow> i < 2 ^ 31 \<Longrightarrow> wrap32 i = i"
  by (simp add: wrap32_def)

lemma scalar_converts:
  assumes "duckdb_values lib valid" and "scalar_ok valid v ty" and "exact_type ty"
    and "convert_cell v lib ty = scalar_cell lib ty v"
  shows "converts lib ty v"
  using assms(2-4)
  by (cases v; cases ty)
    (auto simp: scalar_ok_def converts_def scalar_cell_def int_cell_def text_cell_def time_cell_def
      time32_micros_def time64_micros_def time_fields_def Let_def timestamp_type_def
      duckdb_valuesD(1,2) [OF assms(1)] wrap32_id
      split: time_unit.splits)

text \<open>Different keys are converted to different values, none of them null.\<close>

lemma key_shape:
  assumes "duckdb_values lib valid" and "cell_ok v valid k" and "key_type k" and "v \<noteq> VNull"
  shows "(\<exists>b. v = VBool b \<and> convert_cell v lib k = Inr (DBool b) \<and> GetDuckDBTypeFromArrowType k = BOOLEAN)
    \<or> (\<exists>i. v = VInt i \<and> convert_cell v lib k = Inr (DInt (GetDuckDBTypeFromArrowType k) i))
    \<or> (\<exists>s. v = VString s \<and> convert_cell v lib k = Inr (DVarchar s) \<and> GetDuckDBTypeFromArrowType k = VARCHAR)"
  using assms(2-4)
  by (cases v)
    (auto simp: key_type_def scalar_ok_def nested_def scalar_cell_def text_cell_def int_cell_def
      duckdb_valuesD(1) [OF assms(1)])

lemma key_converts:
  assumes "duckdb_values lib valid" and "cell_ok v valid k" and "key_type k" and "v \<noteq> VNull"
  shows "\<exists>d. convert_cell v lib k = Inr d \<and> d \<noteq> DNull \<and> value_fits d (GetDuckDBTypeFromArrowType k)"
  using key_shape [OF assms] by auto

lemma key_injective:
  assumes "duckdb_values lib valid" and "key_type k" and "cell_ok u valid k" and "cell_ok v valid k"
    and "u \<noteq> VNull" and "v \<noteq> VNull" and "convert_cell u lib k = convert_cell v lib k"
  shows "u = v"
  using key_shape [OF assms(1,3,2,5)] key_shape [OF assms(1,4,2,6)] assms(7) by auto

lemma all_ok_values:
  assumes "\<forall>c \<in> set cs. \<exists>d. c = Inr d \<and> P d"
  shows "\<exists>ds. all_ok cs = Inr ds \<and> (\<forall>d \<in> set ds. P d) \<and> length ds = length cs"
  using assms
proof (induction cs)
  case (Cons c cs)
  then obtain ds where "all_ok cs = Inr ds" "\<forall>d \<in> set ds. P d" "length ds = length cs" by auto
  moreover from Cons.prems obtain d where "c = Inr d" "P d" by auto
  ultimately show ?case by simp
qed simp

lemma list_converts:
  assumes "duckdb_values lib valid" and "\<forall>v \<in> set vs. converts lib t v"
  shows "\<exists>d. list_cell lib t (map (\<lambda>v. convert_cell v lib) vs) = Inr d
    \<and> value_fits d (DUCK_LIST (GetDuckDBTypeFromArrowType t))"
proof -
  have "\<forall>c \<in> set (map (\<lambda>v. convert_cell v lib t) vs). \<exists>d. c = Inr d
      \<and> value_fits d (GetDuckDBTypeFromArrowType t)"
    using assms(2) by (auto simp: converts_def)
  from all_ok_values [OF this] obtain ds where
    ds: "all_ok (map (\<lambda>v. convert_cell v lib t) vs) = Inr ds" "\<forall>d \<in> set ds. value_fits d (GetDuckDBTypeFromArrowType t)"
    by blast
  then have "make_list lib (GetDuckDBTypeFromArrowType t) ds = Inr (DList (GetDuckDBTypeFromArrowType t) ds)"
    by (intro duckdb_valuesD(3) [OF assms(1)]) simp
  with ds show ?thesis by (simp add: list_cell_def sum_bind_def comp_def list_all_iff)
qed

lemma struct_converts:
  assumes "list_all2 (\<lambda>v f. converts lib (snd f) v) vs fs"
  shows "\<exists>ds. all_ok (map2 (\<lambda>f c. c (snd f)) fs (map (\<lambda>v. convert_cell v lib) vs)) = Inr ds
    \<and> list_all2 (\<lambda>d f. value_fits d (GetDuckDBTypeFromArrowType (snd f))) ds fs"
  using assms
proof (induction vs fs rule: list_all2_induct)
  case (Cons v vs f fs)
  then obtain d ds where "convert_cell v lib (snd f) = Inr d"
    "value_fits d (GetDuckDBTypeFromArrowType (snd f))"
    "all_ok (map2 (\<lambda>f c. c (snd f)) fs (map (\<lambda>v. convert_cell v lib) vs)) = Inr ds"
    "list_all2 (\<lambda>d f. value_fits d (GetDuckDBTypeFromArrowType (snd f))) ds fs"
    by (auto simp: converts_def)
  then show ?case by simp
qed simp

lemma struct_fits:
  assumes "list_all2 (\<lambda>d f. value_fits d (GetDuckDBTypeFromArrowType (snd f))) ds fs"
  shows "value_fits (DStruct (zip (map fst fs) ds)) (DUCK_STRUCT (duckdb_children fs))"
  using assms by (induction ds fs rule: list_all2_induct) (auto simp: duckdb_children_eq)

lemma all_ok_map: "(\<And>x. x \<in> set xs \<Longrightarrow> f x = Inr (g x)) \<Longrightarrow> all_ok (map f xs) = Inr (map g xs)"
  by (induction xs) auto

lemma map_converts:
  assumes "duckdb_values lib valid" and "key_type k" and "VNull \<notin> set (map fst es)" and "distinct (map fst es)"
    and "\<forall>e \<in> set es. cell_ok (fst e) valid k \<and> converts lib t (snd e)"
  shows "\<exists>d. map_cell lib k t (map (map_prod (\<lambda>v. convert_cell v lib) (\<lambda>v. convert_cell v lib)) es) = Inr d
    \<and> value_fits d (DUCK_MAP (GetDuckDBTypeFromArrowType k) (GetDuckDBTypeFromArrowType t))"
proof -
  let ?K = "GetDuckDBTypeFromArrowType k" and ?T = "GetDuckDBTypeFromArrowType t"
  define key where "key v = projr (convert_cell v lib k)" for v
  define item where "item v = projr (convert_cell v lib t)" for v
  have key: "convert_cell v lib k = Inr (key v)" "key v \<noteq> DNull" "value_fits (key v) ?K"
    if "v \<in> set (map fst es)" for v
  proof -
    have "cell_ok v valid k" using that assms(5) by auto
    moreover have "v \<noteq> VNull" using that assms(3) by blast
    ultimately have "cell_ok v valid k" "v \<noteq> VNull" by blast+
    from key_converts [OF assms(1) this(1) assms(2) this(2)]
    show "convert_cell v lib k = Inr (key v)" "key v \<noteq> DNull" "value_fits (key v) ?K"
      by (auto simp: key_def)
  qed
  have item: "convert_cell v lib t = Inr (item v)" "value_fits (item v) ?T" if "v \<in> set (map snd es)" for v
    using that assms(5) by (auto simp: item_def converts_def)
  have "inj_on key (set (map fst es))"
  proof (rule inj_onI)
    fix u v
    assume uv: "u \<in> set (map fst es)" "v \<in> set (map fst es)" "key u = key v"
    then have ok: "cell_ok u valid k" "cell_ok v valid k" "u \<noteq> VNull" "v \<noteq> VNull"
      using assms(5) by (auto, (use uv(1,2) assms(3) in blast)+)
    have "convert_cell u lib k = convert_cell v lib k" using key(1) uv by simp
    then show "u = v" by (rule key_injective [OF assms(1,2) ok])
  qed
  then have "distinct (map key (map fst es))" using assms(4) distinct_map by blast
  then have keys: "distinct (map (\<lambda>e. key (fst e)) es)" by (simp add: comp_def)
  have "all_ok (map (\<lambda>e. pair_ok (convert_cell (fst e) lib k, convert_cell (snd e) lib t)) es)
      = Inr (map (\<lambda>e. (key (fst e), item (snd e))) es)"
    using key(1) item(1) by (intro all_ok_map) (simp add: pair_ok_def)
  moreover have "make_map lib ?K ?T (map (\<lambda>e. key (fst e)) es) (map (\<lambda>e. item (snd e)) es)
      = Inr (DMap ?K ?T (map (\<lambda>e. key (fst e)) es) (map (\<lambda>e. item (snd e)) es))"
  proof (rule duckdb_valuesD(4) [OF assms(1)])
    show "DNull \<notin> set (map (\<lambda>e. key (fst e)) es)" using key(2) by force
  qed (use key(3) item(2) keys in auto)
  ultimately show ?thesis
    using key(3) item(2) by (auto simp: map_cell_def sum_bind_def comp_def list_all_iff)
qed

lemma cell_converts:
  assumes lib: "duckdb_values lib valid"
  shows "cell_ok v valid ty \<Longrightarrow> exact_type ty \<Longrightarrow> converts lib ty v"
proof (induction v arbitrary: ty)
  case VNull
  then show ?case by (simp add: converts_def)
next
  case (VList vs)
  show ?case
  proof (cases "nested ty")
    case (ListOf t)
    then have ty: "ty = LIST t \<or> ty = LARGE_LIST t" by (rule nested_cases)
    then have "\<forall>v \<in> set vs. converts lib t v"
      using VList ListOf by (auto simp: list_all_iff)
    from list_converts [OF lib this] ty show ?thesis by (auto simp: converts_def)
  next
    case (StructOf fs)
    then have ty: "ty = STRUCT fs" by (rule nested_cases)
    have "list_all2 (\<lambda>v f. cell_ok v valid (snd f)) vs fs"
      using VList.prems(1) StructOf by (simp add: list_all2_map1)
    then have "list_all2 (\<lambda>v f. converts lib (snd f) v) vs fs"
    proof (rule list.rel_mono_strong)
      fix v f
      assume "v \<in> set vs" "f \<in> set fs" "cell_ok v valid (snd f)"
      then show "converts lib (snd f) v"
        using VList.IH VList.prems(2) ty by (auto simp: exact_fields_iff)
    qed
    from struct_converts [OF this] obtain ds where
      ds: "all_ok (map2 (\<lambda>f c. c (snd f)) fs (map (\<lambda>v. convert_cell v lib) vs)) = Inr ds"
      "list_all2 (\<lambda>d f. value_fits d (GetDuckDBTypeFromArrowType (snd f))) ds fs" by blast
    have "length vs = length fs" using \<open>list_all2 (\<lambda>v f. cell_ok v valid (snd f)) vs fs\<close> by (rule list_all2_lengthD)
    then have "convert_cell (VList vs) lib ty = Inr (DStruct (zip (map fst fs) ds))"
      using ds(1) StructOf by (simp add: struct_cell_def)
    with struct_fits [OF ds(2)] ty show ?thesis by (simp add: converts_def del: value_fits.simps)
  qed (use VList.prems in auto)
next
  case (VMap es)
  show ?case
  proof (cases "nested ty")
    case (MapOf k t)
    then have ty: "ty = MAP k t" by (rule nested_cases)
    have key: "key_type k" "VNull \<notin> set (map fst es)" "distinct (map fst es)"
      using VMap.prems MapOf ty by auto
    have "\<forall>e \<in> set es. cell_ok (fst e) valid k \<and> converts lib t (snd e)"
      using VMap MapOf ty by (fastforce simp: list_all_iff)
    from map_converts [OF lib key this] ty show ?thesis by (auto simp: converts_def)
  qed (use VMap.prems in auto)
qed (auto intro: scalar_converts [OF lib])

text \<open>The length of a large binary is cut to 32 bits: one of 2 GiB is given a negative length.\<close>

lemma large_binary_length_wraps:
  assumes "int (length s) = 2 ^ 31"
  shows "ConvertArrowCellToDuckDBValue lib LARGE_BINARY (VString s) = make_blob lib s (- (2 ^ 31))"
  using assms by (simp add: ConvertArrowCellToDuckDBValue_def scalar_cell_def text_cell_def wrap32_def)

section \<open>Properties\<close>


text \<open>Constructors that refuse what DuckDB refuses, for texts of seven-bit characters.\<close>

definition ascii_text :: "string \<Rightarrow> bool" where
  "ascii_text s \<longleftrightarrow> list_all (\<lambda>c. of_char c < (128 :: nat)) s"

definition sample_lib :: value_lib where
  "sample_lib =
     \<lparr>epoch_to_date = (\<lambda>s. s div 86400), format_decimal = (\<lambda>d s. show_int d), stod = (\<lambda>s. Inr 0),
      make_text = (\<lambda>s. if ascii_text s then Inr (DVarchar s) else Inl (DuckDBException ''Invalid unicode'')),
      make_blob = (\<lambda>s n. if 0 \<le> n \<and> n \<le> int (length s) then Inr (DBlob (take (nat n) s)) else Inl (OtherException ''length_error'')),
      make_list = (\<lambda>t vs. if list_all (\<lambda>v. value_fits v t) vs then Inr (DList t vs) else Inl (DuckDBException ''cast'')),
      make_map = (\<lambda>k t ks vs. if list_all (\<lambda>v. value_fits v k) ks \<and> \<not> List.member ks DNull \<and> distinct ks
                     \<and> list_all (\<lambda>v. value_fits v t) vs then Inr (DMap k t ks vs) else Inl (DuckDBException ''Map keys must be unique'')),
      scalar_text = (\<lambda>t v. Some ''x''), append_value = (\<lambda>cells v. None), append_end_row = (\<lambda>rows row. None)\<rparr>"

lemma sample_appender [simp]: "append_value sample_lib cells v = None" "append_end_row sample_lib rows r = None"
  by (simp_all add: sample_lib_def)

lemma sample_values: "duckdb_values sample_lib ascii_text"
  by (simp add: duckdb_values_def sample_lib_def list_all_iff)


definition day_units :: "arrow_type \<Rightarrow> int" where
  "day_units ty =
     (case ty of TIME32 SECOND \<Rightarrow> 86400 | TIME32 MILLI \<Rightarrow> 86400000 | TIME64 MICRO \<Rightarrow> 86400000000
      | TIME64 NANO \<Rightarrow> 86400000000000 | _ \<Rightarrow> 0)"

lemma int_div_less: "0 < (c :: int) \<Longrightarrow> a < c * k \<Longrightarrow> a div c < k"
proof (rule ccontr)
  assume "0 < c" "a < c * k" "\<not> a div c < k"
  then have "c * k \<le> c * (a div c)" by simp
  moreover have "c * (a div c) \<le> a"
    using \<open>0 < c\<close> mult_div_mod_eq [of c a] pos_mod_sign [of c a] by linarith
  ultimately show False using \<open>a < c * k\<close> by simp
qed

lemma recompose_time:
  "(t :: int) = 60 * a + b \<Longrightarrow> a = 60 * c + d \<Longrightarrow> m = 1000000 * t + u \<Longrightarrow>
     3600000000 * c + 60000000 * d + 1000000 * b + u = m"
  by simp

lemma time_fields_day:
  assumes "0 \<le> m" and "m < 86400000000"
  shows "\<exists>h mi s us. time_fields m = DTime h mi s us
    \<and> 0 \<le> h \<and> h < 24 \<and> 0 \<le> mi \<and> mi < 60 \<and> 0 \<le> s \<and> s < 60 \<and> 0 \<le> us \<and> us < 1000000
    \<and> 3600000000 * h + 60000000 * mi + 1000000 * s + us = m"
proof -
  define t where "t = m div 1000000"
  have t: "m = 1000000 * t + m mod 1000000" "0 \<le> t"
    unfolding t_def using assms by (simp_all add: pos_imp_zdiv_nonneg_iff)
  have "t < 86400" unfolding t_def using assms by (intro int_div_less) simp_all
  then have h: "t div 3600 < 24" "0 \<le> t div 3600" "0 \<le> t div 60"
    using t(2) by (auto intro: int_div_less simp: pos_imp_zdiv_nonneg_iff)
  have q1: "t = 60 * (t div 60) + t mod 60" by simp
  have q2: "t div 60 = 60 * (t div 60 div 60) + t div 60 mod 60" by simp
  have hh: "t div 60 div 60 = t div 3600"
    using zdiv_zmult2_eq [of 60 t 60] by simp
  have q3: "t div 60 = 60 * (t div 3600) + t div 60 mod 60" using q2 hh by argo
  have "time_fields m = DTime (t div 3600) (t div 60 mod 60) (t mod 60) (m mod 1000000)"
    using assms t(2) h(3) by (simp add: time_fields_def Let_def t_def)
  moreover have "3600000000 * (t div 3600) + 60000000 * (t div 60 mod 60) + 1000000 * (t mod 60)
      + m mod 1000000 = m"
    by (rule recompose_time [OF q1 q3 t(1)])
  moreover have "0 \<le> t div 60 mod 60 \<and> t div 60 mod 60 < 60 \<and> 0 \<le> t mod 60 \<and> t mod 60 < 60
      \<and> 0 \<le> m mod 1000000 \<and> m mod 1000000 < 1000000" by simp
  ultimately show ?thesis using h by blast
qed

text \<open>
  A time of day survives ingest: whatever the unit of the Arrow column, a value within one day
  becomes an hour below 24, a minute and a second below 60 and microseconds that together are exactly
  that time (nanoseconds are cut to microseconds).
\<close>

theorem time_of_day_ingested:
  assumes "0 \<le> v" and "v < day_units ty"
  shows "\<exists>h m s us. ConvertArrowCellToDuckDBValue lib ty (VInt v) = Inr (DTime h m s us)
    \<and> 0 \<le> h \<and> h < 24 \<and> 0 \<le> m \<and> m < 60 \<and> 0 \<le> s \<and> s < 60 \<and> 0 \<le> us \<and> us < 1000000
    \<and> 3600000000 * h + 60000000 * m + 1000000 * s + us = v * 86400000000 div day_units ty"
proof -
  have cell: "\<exists>h m s us. ConvertArrowCellToDuckDBValue lib ty (VInt v) = Inr (DTime h m s us)
      \<and> 0 \<le> h \<and> h < 24 \<and> 0 \<le> m \<and> m < 60 \<and> 0 \<le> s \<and> s < 60 \<and> 0 \<le> us \<and> us < 1000000
      \<and> 3600000000 * h + 60000000 * m + 1000000 * s + us = t"
    if "ConvertArrowCellToDuckDBValue lib ty (VInt v) = Inr (time_fields t)"
      and "0 \<le> t" and "t < 86400000000" for t
    using time_fields_day [OF that(2,3)] that(1) by auto
  show ?thesis
  proof (rule cell)
    show "ConvertArrowCellToDuckDBValue lib ty (VInt v) = Inr (time_fields (v * 86400000000 div day_units ty))"
      using assms
      by (auto simp: day_units_def ConvertArrowCellToDuckDBValue_def scalar_cell_def time_cell_def
          time32_micros_def time64_micros_def mult.commute split: arrow_type.splits time_unit.splits)
    show "0 \<le> v * 86400000000 div day_units ty" using assms by (simp add: pos_imp_zdiv_nonneg_iff)
    show "v * 86400000000 div day_units ty < 86400000000"
      using assms by (intro int_div_less) simp_all
  qed
qed

theorem time_of_day_ingested_witness:
  "\<exists>h m s us. ConvertArrowCellToDuckDBValue sample_lib (TIME64 NANO) (VInt 3723004005006) = Inr (DTime h m s us)
    \<and> 0 \<le> h \<and> h < 24 \<and> 0 \<le> m \<and> m < 60 \<and> 0 \<le> s \<and> s < 60 \<and> 0 \<le> us \<and> us < 1000000
    \<and> 3600000000 * h + 60000000 * m + 1000000 * s + us
        = 3723004005006 * 86400000000 div day_units (TIME64 NANO)"
  by (rule time_of_day_ingested) (simp_all add: day_units_def)

lemma append_rows_ok:
  assumes "\<forall>r \<in> set rows. append_row lib b r [] = Inr (f r)" and "\<forall>rs r. append_end_row lib rs r = None"
  shows "append_rows lib b rows acc = (None, acc @ map f rows)"
  using assms by (induction rows arbitrary: acc) auto

lemma append_row_ok:
  assumes "\<forall>c \<in> set b. ConvertArrowCellToDuckDBValue lib (fst c) (snd c ! r) = Inr (g c r)"
    and "\<forall>cells v. append_value lib cells v = None"
  shows "append_row lib b r cells = Inr (cells @ map (\<lambda>c. g c r) b)"
  using assms by (induction b arbitrary: cells) auto

text \<open>
  A record batch is appended completely and in order: when every cell converts and the appender refuses nothing, the appender gains
  exactly the batch's rows, row \<open>i\<close> holding the conversions of the columns' cells \<open>i\<close> in column order.
\<close>

theorem batch_appended_in_order:
  assumes "duckdb_values lib valid"
    and "list_all (\<lambda>c. list_all (cell_ok' (fst c)) (snd c) \<and> length (snd c) = num_rows b) b"
    and "cell_ok' = (\<lambda>ty v. cell_ok v valid ty \<and> exact_type ty)"
    and "\<forall>cells v. append_value lib cells v = None" and "\<forall>rs r. append_end_row lib rs r = None"
  shows "\<exists>rows. AppendRecordBatchToDuckDB lib (Some b) acc = (None, acc @ rows)
    \<and> length rows = num_rows b
    \<and> list_all2 (\<lambda>i row. list_all2 (\<lambda>c d. ConvertArrowCellToDuckDBValue lib (fst c) (snd c ! i) = Inr d) b row)
        [0..<num_rows b] rows"
proof -
  define g where "g c i = (case ConvertArrowCellToDuckDBValue lib (fst c) (snd c ! i) of Inr d \<Rightarrow> d | Inl e \<Rightarrow> DNull)"
    for c :: "arrow_type \<times> arrow_value list" and i
  have cell: "ConvertArrowCellToDuckDBValue lib (fst c) (snd c ! i) = Inr (g c i)"
    if "c \<in> set b" "i < num_rows b" for c i
  proof -
    have "length (snd c) = num_rows b" "\<forall>v \<in> set (snd c). cell_ok v valid (fst c) \<and> exact_type (fst c)"
      using that(1) assms(2,3) by (auto simp: list_all_iff)
    then have "cell_ok (snd c ! i) valid (fst c) \<and> exact_type (fst c)"
      using that(2) nth_mem [of i "snd c"] by metis
    then obtain d where "ConvertArrowCellToDuckDBValue lib (fst c) (snd c ! i) = Inr d"
      using cell_converts [OF assms(1), of "snd c ! i" "fst c"]
      by (auto simp: converts_def ConvertArrowCellToDuckDBValue_def)
    then show ?thesis by (simp add: g_def)
  qed
  have "append_row lib b i [] = Inr (map (\<lambda>c. g c i) b)" if "i < num_rows b" for i
    using cell that append_row_ok [of b lib i g "[]"] assms(4) by simp
  then have "AppendRecordBatchToDuckDB lib (Some b) acc
      = (None, acc @ map (\<lambda>i. map (\<lambda>c. g c i) b) [0..<num_rows b])"
    using assms(5) by (simp add: AppendRecordBatchToDuckDB_def append_rows_ok)
  then show ?thesis
    using cell by (auto simp: list_all2_conv_all_nth)
qed

theorem batch_appended_in_order_witness:
  "\<exists>rows. AppendRecordBatchToDuckDB sample_lib (Some [(INT32, [VInt 1, VNull]), (STRING, [VString ''a'', VString ''b''])]) []
      = (None, [] @ rows)
    \<and> length rows = num_rows [(INT32, [VInt 1, VNull]), (STRING, [VString ''a'', VString ''b''])]
    \<and> list_all2 (\<lambda>i row. list_all2 (\<lambda>c d. ConvertArrowCellToDuckDBValue sample_lib (fst c) (snd c ! i) = Inr d)
          [(INT32, [VInt 1, VNull]), (STRING, [VString ''a'', VString ''b''])] row)
        [0..<num_rows [(INT32, [VInt 1, VNull]), (STRING, [VString ''a'', VString ''b''])]] rows"
  by (rule batch_appended_in_order [OF sample_values _ refl])
    (simp_all add: num_rows_def scalar_ok_def ascii_text_def sample_lib_def)

end
