(* ===== verification/Statement.thy ===== *)
theory Statement
  imports SqlText CatalogPermissions Sessions ArrowTypes
begin

text \<open>
  \<open>DuckDBStatement\<close> (\<open>src/src/duckdb/duckdb_statement.cpp\<close>) and its batch reader: the authorisation
  pipeline of \<open>Create\<close>, execution with its timeout and instrumentation, fetching, schemas and the
  administrative SET command, as the Enterprise build compiles them. DuckDB is the parameter
  \<open>engine\<close>; a statement that is executed on it may change the engine state. Log lines and telemetry
  spans are left out, the query metric is kept.
\<close>

section \<open>DuckDB as seen by a statement\<close>

record result_batch =
  rb_schema :: "field list"
  rb_rows :: "arrow_value list list"

datatype set_scope = SCOPE_AUTOMATIC | SCOPE_LOCAL | SCOPE_SESSION | SCOPE_GLOBAL | SCOPE_VARIABLE

text \<open>A parsed statement: a SET with its name, scope and constant value, or another statement.\<close>

datatype parsed = SetStatement string set_scope "string option" | OtherStatement

record ('c, 'db, 'p, 'r) engine =
  db_prepare :: "'c \<Rightarrow> string \<Rightarrow> 'db \<Rightarrow> string + 'p"
  p_modified :: "'p \<Rightarrow> string list"
  p_reads :: "'p \<Rightarrow> string list"
  p_read_only :: "'p \<Rightarrow> bool"
  p_query :: "'p \<Rightarrow> string"
  p_schema :: "'p \<Rightarrow> field list"
  db_start_execute :: "'c \<Rightarrow> 'p \<Rightarrow> duckdb_value list \<Rightarrow> 'db \<Rightarrow> 'db"
  db_start_query :: "'c \<Rightarrow> string \<Rightarrow> 'db \<Rightarrow> 'db"
  db_finish :: "'c \<Rightarrow> 'db \<Rightarrow> (string + 'r) \<times> 'db"
  db_interrupt :: "'c \<Rightarrow> 'db \<Rightarrow> 'db"
  r_schema :: "'r \<Rightarrow> field list"
  r_fetch :: "'r \<Rightarrow> string + (arrow_value list list option \<times> 'r)"
  fetch_failed :: "string \<Rightarrow> string"
  parse_query :: "string \<Rightarrow> string + parsed list"
  value_text :: "duckdb_value \<Rightarrow> string"
  status_text :: "status \<Rightarrow> string"

text \<open>
  A call of the engine has a beginning and an end, so that another thread can interrupt the connection in
  between; a call that nobody interrupts is both at once.
\<close>

definition db_execute ::
    "('c, 'db, 'p, 'r) engine \<Rightarrow> 'c \<Rightarrow> 'p \<Rightarrow> duckdb_value list \<Rightarrow> 'db \<Rightarrow> (string + 'r) \<times> 'db" where
  "db_execute E c p vs d = db_finish E c (db_start_execute E c p vs d)"

definition db_query :: "('c, 'db, 'p, 'r) engine \<Rightarrow> 'c \<Rightarrow> string \<Rightarrow> 'db \<Rightarrow> (string + 'r) \<times> 'db" where
  "db_query E c sql d = db_finish E c (db_start_query E c sql d)"

datatype metric_label = MetricOk | MetricTimeout | MetricCode status_code

text \<open>
  What a request can reach: the registry, whether the weak server pointer of the sessions still locks,
  the license in force and the clock that checks it, the version the build was given, the engine state,
  and the query metrics recorded so far.
\<close>

record ('c, 'db) world =
  w_reg :: "'c registry"
  w_server :: bool
  w_license :: "license_info option"
  w_now :: int
  w_version :: string
  w_db :: 'db
  w_metrics :: "(string \<times> metric_label) list"

definition session_of :: "nat \<Rightarrow> ('c, 'db) world \<Rightarrow> 'c client_session" where
  "session_of p w = objs (w_reg w) ! p"

definition update_session ::
    "nat \<Rightarrow> ('c client_session \<Rightarrow> 'c client_session) \<Rightarrow> ('c, 'db) world \<Rightarrow> ('c, 'db) world" where
  "update_session p f w =
     w\<lparr>w_reg := (w_reg w)\<lparr>objs := (objs (w_reg w))[p := f (objs (w_reg w) ! p)]\<rparr>\<rparr>"

definition set_active :: "nat \<Rightarrow> string \<Rightarrow> ('c, 'db) world \<Rightarrow> ('c, 'db) world" where
  "set_active p h = update_session p (\<lambda>cs. cs\<lparr>active_sql_handle := Some h\<rparr>)"

text \<open>\<open>GetServer(session)\<close> followed by \<open>GetInstrumentationManager()\<close>.\<close>

definition instr_mgr :: "('c, 'db) world \<Rightarrow> instr_manager option" where
  "instr_mgr w = (if w_server w then srv_instr (w_reg w) else None)"

definition set_instr :: "instr_manager option \<Rightarrow> ('c, 'db) world \<Rightarrow> ('c, 'db) world" where
  "set_instr mo w = (if w_server w then w\<lparr>w_reg := (w_reg w)\<lparr>srv_instr := mo\<rparr>\<rparr> else w)"

section \<open>Statements\<close>

record ('p, 'r) statement =
  ds_session :: nat
  ds_id :: string
  ds_stmt :: "'p option"
  ds_sql :: string
  ds_direct :: bool
  ds_admin :: bool
  ds_log_level :: "log_level option"
  ds_log_queries :: bool
  ds_logged_sql :: string
  ds_override :: "field list option"
  ds_result :: "(string + 'r) option"
  ds_synthetic :: "result_batch option"
  ds_cached_schema :: "field list result option"
  ds_instrumented :: bool
  ds_exec :: "exec_instr option"
  bind_parameters :: "duckdb_value list"

record create_args =
  ca_session :: nat
  ca_handle :: string
  ca_sql :: string
  ca_log_level :: "log_level option"
  ca_log_queries :: bool
  ca_override :: "field list option"
  ca_method :: string
  ca_internal :: bool

text \<open>The two constructors: for a prepared statement and for direct execution.\<close>

definition prepared_statement ::
    "('c, 'db, 'p, 'r) engine \<Rightarrow> create_args \<Rightarrow> 'p \<Rightarrow> ('p, 'r) statement" where
  "prepared_statement E a p =
     \<lparr>ds_session = ca_session a, ds_id = ca_handle a, ds_stmt = Some p, ds_sql = [],
      ds_direct = False, ds_admin = False, ds_log_level = ca_log_level a,
      ds_log_queries = ca_log_queries a, ds_logged_sql = redact_sql_for_logs (p_query E p),
      ds_override = ca_override a, ds_result = None, ds_synthetic = None, ds_cached_schema = None,
      ds_instrumented = False, ds_exec = None, bind_parameters = []\<rparr>"

definition direct_statement :: "create_args \<Rightarrow> log_level option \<Rightarrow> ('p, 'r) statement" where
  "direct_statement a level =
     \<lparr>ds_session = ca_session a, ds_id = ca_handle a, ds_stmt = None, ds_sql = ca_sql a,
      ds_direct = True, ds_admin = False, ds_log_level = level,
      ds_log_queries = ca_log_queries a, ds_logged_sql = redact_sql_for_logs (ca_sql a),
      ds_override = ca_override a, ds_result = None, ds_synthetic = None, ds_cached_schema = None,
      ds_instrumented = False, ds_exec = None, bind_parameters = []\<rparr>"

definition log_level_string_to_arrow_log_level :: "string \<Rightarrow> log_level" where
  "log_level_string_to_arrow_log_level lvl =
     (let v = to_lower lvl
      in if v = ''debug'' then ARROW_DEBUG
         else if v = ''info'' then ARROW_INFO
         else if v = ''warn'' \<or> v = ''warning'' then ARROW_WARNING
         else if v = ''error'' then ARROW_ERROR
         else if v = ''fatal'' then ARROW_FATAL
         else ARROW_INFO)"

definition log_level_arrow_log_level_to_string :: "log_level \<Rightarrow> string" where
  "log_level_arrow_log_level_to_string l =
     (case l of ARROW_DEBUG \<Rightarrow> ''DEBUG'' | ARROW_INFO \<Rightarrow> ''INFO'' | ARROW_WARNING \<Rightarrow> ''WARN''
      | ARROW_ERROR \<Rightarrow> ''ERROR'' | ARROW_FATAL \<Rightarrow> ''FATAL'' | _ \<Rightarrow> ''INFO'')"

definition no_server :: "'a result" where
  "no_server = fail Invalid ''Unable to get server instance''"

definition GetSessionOrServerLogLevel :: "nat \<Rightarrow> ('c, 'db) world \<Rightarrow> log_level result" where
  "GetSessionOrServerLogLevel p w =
     (case query_log_level (session_of p w) of
        Some l \<Rightarrow> ok l
      | None \<Rightarrow> if w_server w then ok (srv_query_log_level (w_reg w)) else no_server)"

definition GetQueryTimeout :: "('p, 'r) statement \<Rightarrow> ('c, 'db) world \<Rightarrow> int result" where
  "GetQueryTimeout st w =
     (case query_timeout (session_of (ds_session st) w) of
        Some t \<Rightarrow> ok t
      | None \<Rightarrow> if w_server w then ok (srv_query_timeout (w_reg w)) else no_server)"

definition GetLogLevel :: "('p, 'r) statement \<Rightarrow> ('c, 'db) world \<Rightarrow> log_level result" where
  "GetLogLevel st w =
     (case ds_log_level st of Some l \<Rightarrow> ok l | None \<Rightarrow> GetSessionOrServerLogLevel (ds_session st) w)"

section \<open>Create\<close>

text \<open>A statement record for the call: the identity it is recorded under and its error text.\<close>

definition ident_of :: "create_args \<Rightarrow> stmt_ident" where
  "ident_of a = \<lparr>st_id = ca_handle a, st_sql = redact_sql_for_logs (ca_sql a), st_method = ca_method a,
                 st_internal = ca_internal a\<rparr>"

definition record_statement :: "create_args \<Rightarrow> string \<Rightarrow> ('c, 'db) world \<Rightarrow> ('c, 'db) world" where
  "record_statement a err w =
     set_instr (audit (session_of (ca_session a) w) (ident_of a) err (instr_mgr w)) w"

text \<open>Attaching the statement's own record; without a manager the pointer stays null.\<close>

definition attach_instrumentation ::
    "create_args \<Rightarrow> ('p, 'r) statement \<Rightarrow> ('c, 'db) world \<Rightarrow> ('p, 'r) statement result \<times> ('c, 'db) world" where
  "attach_instrumentation a st w =
     (if instr_mgr w = None then (ok st, w)
      else (ok (st\<lparr>ds_instrumented := True\<rparr>), record_statement a [] w))"

definition values_of :: "('c, 'db) world \<Rightarrow> nat \<Rightarrow> gizmo_values" where
  "values_of w p =
     (let cs = session_of p w
      in \<lparr>gv_session_id = session_id cs,
          gv_instance_id = (if w_server w then srv_instance_id (w_reg w) else []),
          gv_version = w_version w, gv_username = username cs, gv_role = role cs,
          gv_edition = GetEditionName (w_now w) (w_license w),
          gv_instr_enabled = (instr_mgr w \<noteq> None),
          gv_instr_catalog = (case instr_mgr w of None \<Rightarrow> [] | Some m \<Rightarrow> mgr_catalog m),
          gv_instr_schema = (case instr_mgr w of None \<Rightarrow> [] | Some m \<Rightarrow> mgr_schema m)\<rparr>)"

definition one_text_row :: "string \<Rightarrow> result_batch" where
  "one_text_row msg = \<lparr>rb_schema = [(''result'', STRING, True)], rb_rows = [[VString msg]]\<rparr>"

definition kill_of :: "create_args \<Rightarrow> string \<Rightarrow> kill_request" where
  "kill_of a target =
     \<lparr>kr_session = ca_session a, kr_target = target, kr_statement_id = ca_handle a,
      kr_logged_sql = redact_sql_for_logs (ca_sql a), kr_flight_method = ca_method a,
      kr_internal = ca_internal a\<rparr>"

definition run_kill :: "create_args \<Rightarrow> string \<Rightarrow> ('c, 'db) world \<Rightarrow> unit result \<times> ('c, 'db) world" where
  "run_kill a target w =
     (let (r, reg) = HandleKillSession (IsKillSessionAvailable (w_now w) (w_license w)) (w_server w)
                       (kill_of a target) ((w_reg w)\<lparr>srv_instr := instr_mgr w\<rparr>)
      in (r, w\<lparr>w_reg := reg\<lparr>srv_instr := if w_server w then srv_instr reg else srv_instr (w_reg w)\<rparr>\<rparr>))"

definition create_kill ::
    "create_args \<Rightarrow> log_level \<Rightarrow> string \<Rightarrow> ('c, 'db) world \<Rightarrow> ('p, 'r) statement result \<times> ('c, 'db) world" where
  "create_kill a level target w =
     (case run_kill a target w of
        (Inl e, w1) \<Rightarrow> (Inl e, w1)
      | (Inr _, w1) \<Rightarrow>
          let st = (direct_statement a (Some level))\<lparr>ds_admin := True,
                ds_synthetic := Some (one_text_row (''Session '' @ target @ '' killed successfully''))\<rparr>
          in attach_instrumentation a st w1)"

definition readonly_msg :: "string \<Rightarrow> string" where
  "readonly_msg user =
     ''User '' @ [squote] @ user @ [squote]
       @ '' has a readonly session and cannot run statements that modify state.''"

text \<open>The three checks on a successfully prepared statement.\<close>

definition check_prepared ::
    "('c, 'db, 'p, 'r) engine \<Rightarrow> create_args \<Rightarrow> 'p \<Rightarrow> ('c, 'db) world \<Rightarrow> unit result \<times> ('c, 'db) world" where
  "check_prepared E a p w =
     (let cs = session_of (ca_session a) w;
          perms = IsCatalogPermissionsAvailable (w_now w) (w_license w)
      in case CheckCatalogWriteAccess perms cs (p_modified E p) (instr_mgr w) (ident_of a) of
           (Inl e, mo) \<Rightarrow> (Inl e, set_instr mo w)
         | (Inr _, mo) \<Rightarrow>
             (case CheckCatalogReadAccess perms cs (p_reads E p) mo (ident_of a) of
                (Inl e, mo') \<Rightarrow> (Inl e, set_instr mo' w)
              | (Inr _, mo') \<Rightarrow>
                  if \<not> p_read_only E p \<and> role cs = ''readonly''
                  then (fail ExecutionError (readonly_msg (username cs)),
                        record_statement a (readonly_msg (username cs)) w)
                  else (ok (), w)))"

definition multi_statement_error :: string where
  "multi_statement_error = ''Cannot prepare multiple statements at once''"

definition create_sql ::
    "('c, 'db, 'p, 'r) engine \<Rightarrow> create_args \<Rightarrow> ('c, 'db) world
     \<Rightarrow> ('p, 'r) statement result \<times> ('c, 'db) world" where
  "create_sql E a w =
     (case db_prepare E (connection (session_of (ca_session a) w))
             (ReplaceGizmoSQLFunctions (values_of w (ca_session a)) (ca_sql a)) (w_db w) of
        Inr p \<Rightarrow>
          (case check_prepared E a p w of
             (Inl e, w1) \<Rightarrow> (Inl e, w1)
           | (Inr _, w1) \<Rightarrow> attach_instrumentation a (prepared_statement E a p) w1)
      | Inl err \<Rightarrow>
          (if contains err multi_statement_error
           then attach_instrumentation a (direct_statement a (ca_log_level a)) w
           else (fail Invalid (''Can'' @ [squote] @ ''t prepare statement: '' @ [squote]
                    @ redact_sql_for_logs (ca_sql a) @ [squote] @ '' - Error: '' @ err),
                 record_statement a err w)))"

definition detach_msg :: string where
  "detach_msg = ''Cannot DETACH the instrumentation database''"

definition Create ::
    "('c, 'db, 'p, 'r) engine \<Rightarrow> create_args \<Rightarrow> ('c, 'db) world
     \<Rightarrow> ('p, 'r) statement result \<times> ('c, 'db) world" where
  "Create E a w =
     (case (case ca_log_level a of Some l \<Rightarrow> ok l | None \<Rightarrow> GetSessionOrServerLogLevel (ca_session a) w) of
        Inl e \<Rightarrow> (Inl e, w)
      | Inr level \<Rightarrow>
          let w1 = set_active (ca_session a) (ca_handle a) w
          in if IsDetachInstrumentationDb (ca_sql a)
                  (case instr_mgr w1 of None \<Rightarrow> [] | Some m \<Rightarrow> mgr_catalog m)
             then (fail Invalid detach_msg, record_statement a detach_msg w1)
             else case IsKillSessionCommand (ca_sql a) of
                    Some target \<Rightarrow> create_kill a level target w1
                  | None \<Rightarrow>
                      if IsLikelyGizmoSQLSet (ca_sql a)
                      then attach_instrumentation a
                             ((direct_statement a (Some level))\<lparr>ds_admin := True\<rparr>) w1
                      else create_sql E a w1)"

section \<open>Execute\<close>

text \<open>
  What the outside decides about one execution: the execution's UUID, the clock when it starts and
  when it ends (milliseconds), whether the worker was still running when the timeout expired, and how far
  the worker, which was started before, had then come with its call of the engine.
\<close>

datatype worker_point = Not_started | Running | Returned

record exec_env =
  ev_xid :: string
  ev_start :: int
  ev_end :: int
  ev_slow :: bool
  ev_point :: worker_point

definition quoted_list :: "('a \<Rightarrow> string) \<Rightarrow> 'a list \<Rightarrow> string" where
  "quoted_list txt xs =
     ''['' @ concat (case xs of [] \<Rightarrow> []
        | y # ys \<Rightarrow> ([dquote] @ txt y @ [dquote]) # map (\<lambda>v. '', '' @ [dquote] @ txt v @ [dquote]) ys)
       @ '']''"

definition bind_params_text :: "('c, 'db, 'p, 'r) engine \<Rightarrow> duckdb_value list \<Rightarrow> string" where
  "bind_params_text E ps = (if ps = [] then [] else quoted_list (value_text E) ps)"

text \<open>
  A new execution record replaces the previous one, whose destructor then runs. Times that the record
  takes are those of the environment.
\<close>

definition begin_exec ::
    "('c, 'db, 'p, 'r) engine \<Rightarrow> exec_env \<Rightarrow> ('p, 'r) statement \<Rightarrow> ('c, 'db) world
     \<Rightarrow> ('p, 'r) statement \<times> ('c, 'db) world" where
  "begin_exec E ev st w =
     (if ds_instrumented st \<and> instr_mgr w \<noteq> None
      then let (x, mo) = ExecutionInstrumentation (instr_mgr w) (ev_xid ev) (ds_id st)
                           (bind_params_text E (bind_parameters st)) (ev_start ev);
               mo' = (case ds_exec st of None \<Rightarrow> mo | Some old \<Rightarrow> destroy_exec_instr (ev_start ev) old mo)
           in (st\<lparr>ds_exec := Some x\<rparr>, set_instr mo' w)
      else (st, w))"

text \<open>A call on the execution record, when there is one.\<close>

definition exec_record ::
    "(exec_instr \<Rightarrow> instr_manager option \<Rightarrow> exec_instr \<times> instr_manager option)
     \<Rightarrow> ('p, 'r) statement \<Rightarrow> ('c, 'db) world \<Rightarrow> ('p, 'r) statement \<times> ('c, 'db) world" where
  "exec_record f st w =
     (case ds_exec st of
        None \<Rightarrow> (st, w)
      | Some x \<Rightarrow> let (x', mo) = f x (srv_instr (w_reg w))
                  in (st\<lparr>ds_exec := Some x'\<rparr>, w\<lparr>w_reg := (w_reg w)\<lparr>srv_instr := mo\<rparr>\<rparr>))"

definition exec_outcome ::
    "('c, 'db, 'p, 'r) engine \<Rightarrow> exec_env \<Rightarrow> int \<Rightarrow> int result \<Rightarrow> ('p, 'r) statement \<Rightarrow> ('c, 'db) world
     \<Rightarrow> ('p, 'r) statement \<times> ('c, 'db) world" where
  "exec_outcome E ev duration r =
     exec_record (\<lambda>x mo. case r of
        Inr _ \<Rightarrow> (SetCompleted (ev_end ev) duration x, mo)
      | Inl e \<Rightarrow> SetError (ev_end ev) (status_text E e) x mo)"

definition record_metric :: "string \<Rightarrow> metric_label \<Rightarrow> ('c, 'db) world \<Rightarrow> ('c, 'db) world" where
  "record_metric operation label w = w\<lparr>w_metrics := w_metrics w @ [(operation, label)]\<rparr>"

definition outcome_label :: "'a result \<Rightarrow> metric_label" where
  "outcome_label r = (case r of Inr _ \<Rightarrow> MetricOk | Inl e \<Rightarrow> MetricCode (code e))"

definition metric_operation :: "('c, 'db, 'p, 'r) engine \<Rightarrow> ('p, 'r) statement \<Rightarrow> string" where
  "metric_operation E st =
     (if ds_admin st then ''ADMIN''
      else GetSqlOperationForMetrics
        (if ds_direct st then ds_sql st
         else case ds_stmt st of Some p \<Rightarrow> p_query E p | None \<Rightarrow> ds_sql st))"

subsection \<open>The administrative SET\<close>

definition SetServerQueryTimeout :: "nat \<Rightarrow> int \<Rightarrow> ('c, 'db) world \<Rightarrow> unit result \<times> ('c, 'db) world" where
  "SetServerQueryTimeout p secs w =
     (if role (session_of p w) \<noteq> ''admin''
      then (fail Invalid ''Only admin users can change the server query_timeout setting.'', w)
      else (ok (), w\<lparr>w_reg := (w_reg w)\<lparr>srv_query_timeout := secs\<rparr>\<rparr>))"

definition SetServerQueryLogLevel :: "nat \<Rightarrow> log_level \<Rightarrow> ('c, 'db) world \<Rightarrow> unit result \<times> ('c, 'db) world" where
  "SetServerQueryLogLevel p l w =
     (if role (session_of p w) \<noteq> ''admin''
      then (fail Invalid ''Only admin users can set the server Query Log Level.'', w)
      else (ok (), w\<lparr>w_reg := (w_reg w)\<lparr>srv_query_log_level := l\<rparr>\<rparr>))"

definition SetServerPrintQueries :: "nat \<Rightarrow> bool \<Rightarrow> ('c, 'db) world \<Rightarrow> unit result \<times> ('c, 'db) world" where
  "SetServerPrintQueries p b w =
     (if role (session_of p w) \<noteq> ''admin''
      then (fail Invalid ''Only admin users can enable/disable server query logging.'', w)
      else (ok (), w\<lparr>w_reg := (w_reg w)\<lparr>srv_print_queries := b\<rparr>\<rparr>))"

text \<open>The scope switch both parameters share: session, global, or (other scopes) no effect.\<close>

definition by_scope ::
    "set_scope \<Rightarrow> (('c, 'db) world \<Rightarrow> ('c, 'db) world) \<Rightarrow> (('c, 'db) world \<Rightarrow> unit result \<times> ('c, 'db) world)
     \<Rightarrow> ('c, 'db) world \<Rightarrow> unit result \<times> ('c, 'db) world" where
  "by_scope scope on_session on_server w =
     (if scope = SCOPE_SESSION \<or> scope = SCOPE_AUTOMATIC then (ok (), on_session w)
      else if scope = SCOPE_GLOBAL then (if w_server w then on_server w else (ok (), w))
      else (ok (), w))"

definition apply_gizmosql_set ::
    "nat \<Rightarrow> string \<Rightarrow> set_scope \<Rightarrow> string \<Rightarrow> ('c, 'db) world \<Rightarrow> unit result \<times> ('c, 'db) world" where
  "apply_gizmosql_set p name scope val w =
     (if to_lower (take 9 name) \<noteq> ''gizmosql.''
      then (fail Invalid (''Unsupported GizmoSQL parameter: '' @ name), w)
      else if name = ''gizmosql.query_timeout''
      then (case stoi val of
              None \<Rightarrow> (fail Invalid (''Invalid value for query_timeout: '' @ val), w)
            | Some secs \<Rightarrow>
                by_scope scope (update_session p (\<lambda>cs. cs\<lparr>query_timeout := Some secs\<rparr>))
                  (SetServerQueryTimeout p secs) w)
      else if name = ''gizmosql.query_log_level''
      then (let l = log_level_string_to_arrow_log_level val
            in by_scope scope (update_session p (\<lambda>cs. cs\<lparr>query_log_level := Some l\<rparr>))
                 (SetServerQueryLogLevel p l) w)
      else (fail Invalid (''Unknown GizmoSQL configuration parameter: '' @ name), w))"

definition set_done_msg :: "set_scope \<Rightarrow> string \<Rightarrow> string \<Rightarrow> string" where
  "set_done_msg scope name val =
     ''GizmoSQL '' @ (if scope = SCOPE_GLOBAL then ''global'' else ''session'') @ '' parameter ''
       @ [squote] @ name @ [squote] @ '' successfully set to: '' @ val"

definition HandleGizmoSQLSet ::
    "('c, 'db, 'p, 'r) engine \<Rightarrow> ('p, 'r) statement \<Rightarrow> ('c, 'db) world
     \<Rightarrow> unit result \<times> ('p, 'r) statement \<times> ('c, 'db) world" where
  "HandleGizmoSQLSet E st w =
     (case parse_query E (ds_sql st) of
        Inl ex \<Rightarrow> (fail Invalid (''Failed to parse GizmoSQL SET command: '' @ ds_sql st @ '' - '' @ ex), st, w)
      | Inr (SetStatement name scope value # others) \<Rightarrow>
          (case value of
             None \<Rightarrow> (fail Invalid ''SET value is not a constant'', st, w)
           | Some val \<Rightarrow>
               (case apply_gizmosql_set (ds_session st) name scope val w of
                  (Inl e, w1) \<Rightarrow> (Inl e, st, w1)
                | (Inr _, w1) \<Rightarrow>
                    (ok (), st\<lparr>ds_synthetic := Some (one_text_row (set_done_msg scope name val))\<rparr>, w1)))
      | Inr _ \<Rightarrow> (fail Invalid (''Expected SET statement: '' @ ds_sql st), st, w))"

subsection \<open>The worker and the timeout\<close>

definition with_db :: "'db \<Rightarrow> ('c, 'db) world \<Rightarrow> ('c, 'db) world" where
  "with_db d w = w\<lparr>w_db := d\<rparr>"

definition conn_of :: "('p, 'r) statement \<Rightarrow> ('c, 'db) world \<Rightarrow> 'c" where
  "conn_of st w = connection (session_of (ds_session st) w)"

text \<open>
  The worker's call of the engine, with the interrupt that the waiting thread sends: none, or before the
  call has begun, while it runs, or after it has returned.
\<close>

definition engine_call ::
    "('c, 'db, 'p, 'r) engine \<Rightarrow> worker_point option \<Rightarrow> 'c \<Rightarrow> ('db \<Rightarrow> 'db) \<Rightarrow> 'db \<Rightarrow> (string + 'r) \<times> 'db" where
  "engine_call E interrupt c start d =
     (case interrupt of
        None \<Rightarrow> db_finish E c (start d)
      | Some Not_started \<Rightarrow> db_finish E c (start (db_interrupt E c d))
      | Some Running \<Rightarrow> db_finish E c (db_interrupt E c (start d))
      | Some Returned \<Rightarrow> (case db_finish E c (start d) of (q, d1) \<Rightarrow> (q, db_interrupt E c d1)))"

text \<open>The interrupt when the worker calls nothing.\<close>

definition idle_interrupt ::
    "('c, 'db, 'p, 'r) engine \<Rightarrow> worker_point option \<Rightarrow> ('p, 'r) statement \<Rightarrow> ('c, 'db) world \<Rightarrow> ('c, 'db) world" where
  "idle_interrupt E interrupt st w =
     (case interrupt of None \<Rightarrow> w | Some _ \<Rightarrow> with_db (db_interrupt E (conn_of st w) (w_db w)) w)"

text \<open>The body of the asynchronous task. \<open>ds_result\<close> is the query result, \<open>Inl\<close> one with an error.\<close>

definition run_worker ::
    "('c, 'db, 'p, 'r) engine \<Rightarrow> worker_point option \<Rightarrow> ('p, 'r) statement \<Rightarrow> ('c, 'db) world
     \<Rightarrow> int result \<times> ('p, 'r) statement \<times> ('c, 'db) world" where
  "run_worker E interrupt st w =
     (if ds_direct st
      then if ds_result st \<noteq> None then (ok 0, st, idle_interrupt E interrupt st w)
           else if bind_parameters st \<noteq> []
           then (fail Invalid ''Direct query execution does not support bind parameters'', st,
                 set_active (ds_session st) [] (idle_interrupt E interrupt st w))
           else (case engine_call E interrupt (conn_of st w) (db_start_query E (conn_of st w) (ds_sql st)) (w_db w) of
                   (Inl err, d) \<Rightarrow>
                     (fail ExecutionError (''Direct query execution error: '' @ err), st,
                      set_active (ds_session st) [] (with_db d w))
                 | (Inr res, d) \<Rightarrow>
                     (ok 0, st\<lparr>ds_result := Some (Inr res)\<rparr>,
                      set_active (ds_session st) [] (with_db d w)))
      else (case ds_stmt st of
              None \<Rightarrow> (ok 0, st, idle_interrupt E interrupt st w)
            | Some p \<Rightarrow>
                (case engine_call E interrupt (conn_of st w)
                        (db_start_execute E (conn_of st w) p (bind_parameters st)) (w_db w) of
                   (Inl err, d) \<Rightarrow>
                     (fail ExecutionError (''An execution error has occurred: '' @ err),
                      st\<lparr>ds_result := Some (Inl err)\<rparr>, set_active (ds_session st) [] (with_db d w))
                 | (Inr res, d) \<Rightarrow>
                     (ok 0, st\<lparr>ds_result := Some (Inr res)\<rparr>,
                      set_active (ds_session st) [] (with_db d w)))))"

definition timeout_msg :: "int \<Rightarrow> string" where
  "timeout_msg secs = ''Query execution timed out after '' @ show_int secs @ '' seconds''"

text \<open>
  The worker is started, then waited for. When the timeout passes before it has ended, the thread that
  waits interrupts the connection, wherever the worker is with its call, and waits for it to end.
\<close>

definition execute_query ::
    "('c, 'db, 'p, 'r) engine \<Rightarrow> exec_env \<Rightarrow> int \<Rightarrow> ('p, 'r) statement \<Rightarrow> ('c, 'db) world
     \<Rightarrow> int result \<times> ('p, 'r) statement \<times> ('c, 'db) world" where
  "execute_query E ev timeout st w =
     (if timeout \<noteq> 0 \<and> ev_slow ev
      then let (r, st1, w1) = run_worker E (Some (ev_point ev)) st w;
               (st2, w2) = exec_record (\<lambda>x mo. SetTimeout (ev_end ev) x mo) st1
                             (set_active (ds_session st) [] w1)
           in (fail ExecutionError (timeout_msg timeout), st2,
               record_metric (metric_operation E st) MetricTimeout w2)
      else let (r, st1, w1) = run_worker E None st w;
               (st2, w2) = exec_outcome E ev (ev_end ev - ev_start ev) r st1 w1
           in (r, st2, record_metric (metric_operation E st) (outcome_label r) w2))"

text \<open>\<open>Execute\<close> of an administrative statement: a finished KILL, or the SET that is still to be done.\<close>

definition execute_admin ::
    "('c, 'db, 'p, 'r) engine \<Rightarrow> exec_env \<Rightarrow> ('p, 'r) statement \<Rightarrow> ('c, 'db) world
     \<Rightarrow> int result \<times> ('p, 'r) statement \<times> ('c, 'db) world" where
  "execute_admin E ev st w =
     (let (r, st1, w1) = (if ds_synthetic st \<noteq> None then (ok (), st, w) else HandleGizmoSQLSet E st w);
          r' = (case r of Inl e \<Rightarrow> Inl e | Inr _ \<Rightarrow> ok 0);
          (st2, w2) = exec_outcome E ev 0 r' st1 w1
      in (r', st2, record_metric (metric_operation E st) (outcome_label r') w2))"

definition Execute ::
    "('c, 'db, 'p, 'r) engine \<Rightarrow> exec_env \<Rightarrow> ('p, 'r) statement \<Rightarrow> ('c, 'db) world
     \<Rightarrow> int result \<times> ('p, 'r) statement \<times> ('c, 'db) world" where
  "Execute E ev st w =
     (case GetQueryTimeout st w of
        Inl e \<Rightarrow> (Inl e, st, w)
      | Inr timeout \<Rightarrow>
          (case GetLogLevel st w of
             Inl e \<Rightarrow> (Inl e, st, w)
           | Inr _ \<Rightarrow>
               let (st1, w1) = begin_exec E ev st w
               in if ds_admin st then execute_admin E ev st1 w1
                  else execute_query E ev timeout st1 w1))"

section \<open>Schemas, fetching, updates\<close>

definition ComputeSchema ::
    "('c, 'db, 'p, 'r) engine \<Rightarrow> exec_env \<Rightarrow> ('p, 'r) statement \<Rightarrow> ('c, 'db) world
     \<Rightarrow> field list result \<times> ('p, 'r) statement \<times> ('c, 'db) world" where
  "ComputeSchema E ev st w =
     (if ds_admin st then (ok [(''result'', STRING, True)], st, w)
      else if ds_direct st
      then (case Execute E ev st w of
              (Inl e, st1, w1) \<Rightarrow> (Inl e, st1, w1)
            | (Inr _, st1, w1) \<Rightarrow>
                (ok (case ds_result st1 of Some (Inr r) \<Rightarrow> r_schema E r | _ \<Rightarrow> []), st1, w1))
      else (ok (case ds_stmt st of Some p \<Rightarrow> p_schema E p | None \<Rightarrow> []), st, w))"

text \<open>\<open>GetSchema\<close>: the override, or the schema computed once and remembered with its error.\<close>

definition GetSchema ::
    "('c, 'db, 'p, 'r) engine \<Rightarrow> exec_env \<Rightarrow> ('p, 'r) statement \<Rightarrow> ('c, 'db) world
     \<Rightarrow> field list result \<times> ('p, 'r) statement \<times> ('c, 'db) world" where
  "GetSchema E ev st w =
     (case ds_override st of
        Some s \<Rightarrow> (ok s, st, w)
      | None \<Rightarrow>
          (case ds_cached_schema st of
             Some r \<Rightarrow> (r, st, w)
           | None \<Rightarrow>
               let (r, st1, w1) = ComputeSchema E ev st w
               in (r, st1\<lparr>ds_cached_schema := Some r\<rparr>, w1)))"

definition FetchResult ::
    "('c, 'db, 'p, 'r) engine \<Rightarrow> exec_env \<Rightarrow> ('p, 'r) statement \<Rightarrow> ('c, 'db) world
     \<Rightarrow> result_batch option result \<times> ('p, 'r) statement \<times> ('c, 'db) world" where
  "FetchResult E ev st w =
     (case ds_synthetic st of
        Some b \<Rightarrow> (ok (Some b), st\<lparr>ds_synthetic := None\<rparr>, w)
      | None \<Rightarrow>
          (case ds_result st of
             None \<Rightarrow> (ok None, st, w)
           | Some res \<Rightarrow>
               (case GetSchema E ev st w of
                  (Inl e, st1, w1) \<Rightarrow> (Inl e, st1, w1)
                | (Inr schema, st1, w1) \<Rightarrow>
                    (case res of
                       Inl err \<Rightarrow> (fail ExecutionError (fetch_failed E err), st1, w1)
                     | Inr r \<Rightarrow>
                         (case r_fetch E r of
                            Inl err \<Rightarrow> (fail ExecutionError err, st1, w1)
                          | Inr (chunk, r') \<Rightarrow>
                              (ok (map_option (\<lambda>rows. \<lparr>rb_schema = schema, rb_rows = rows\<rparr>) chunk),
                               st1\<lparr>ds_result := Some (Inr r')\<rparr>, w1))))))"

text \<open>The row count of a DML result: one BIGINT cell; otherwise the number of rows.\<close>

definition update_count :: "result_batch \<Rightarrow> int" where
  "update_count b =
     (case (rb_schema b, rb_rows b) of
        ([(n, t, nullable)], [[VInt i]]) \<Rightarrow> if t = INT64 then i else 1
      | _ \<Rightarrow> int (length (rb_rows b)))"

definition ExecuteUpdate ::
    "('c, 'db, 'p, 'r) engine \<Rightarrow> exec_env \<Rightarrow> ('p, 'r) statement \<Rightarrow> ('c, 'db) world
     \<Rightarrow> int result \<times> ('p, 'r) statement \<times> ('c, 'db) world" where
  "ExecuteUpdate E ev st w =
     (case Execute E ev st w of
        (Inl e, st1, w1) \<Rightarrow> (Inl e, st1, w1)
      | (Inr _, st1, w1) \<Rightarrow>
          (case FetchResult E ev st1 w1 of
             (Inl e, st2, w2) \<Rightarrow> (Inl e, st2, w2)
           | (Inr None, st2, w2) \<Rightarrow> (ok 0, st2, w2)
           | (Inr (Some b), st2, w2) \<Rightarrow> (ok (update_count b), st2, w2)))"

text \<open>\<open>DuckDBStatementBatchReader\<close>: it executes its statement on the first \<open>ReadNext\<close> and counts rows.\<close>

record ('p, 'r) batch_reader =
  br_statement :: "('p, 'r) statement"
  br_schema :: "field list"
  br_executed :: bool

definition reader_Create ::
    "('c, 'db, 'p, 'r) engine \<Rightarrow> exec_env \<Rightarrow> ('p, 'r) statement \<Rightarrow> ('c, 'db) world
     \<Rightarrow> ('p, 'r) batch_reader result \<times> ('c, 'db) world" where
  "reader_Create E ev st w =
     (case GetSchema E ev st w of
        (Inl e, st1, w1) \<Rightarrow> (Inl e, w1)
      | (Inr s, st1, w1) \<Rightarrow> (ok \<lparr>br_statement = st1, br_schema = s, br_executed = False\<rparr>, w1))"

definition fetch_and_count ::
    "('c, 'db, 'p, 'r) engine \<Rightarrow> exec_env \<Rightarrow> ('p, 'r) statement \<Rightarrow> ('c, 'db) world
     \<Rightarrow> result_batch option result \<times> ('p, 'r) statement \<times> ('c, 'db) world" where
  "fetch_and_count E ev st w =
     (case FetchResult E ev st w of
        (Inl e, st1, w1) \<Rightarrow> (Inl e, st1, w1)
      | (Inr None, st1, w1) \<Rightarrow> (ok None, st1, w1)
      | (Inr (Some b), st1, w1) \<Rightarrow>
          (ok (Some b),
           exec_record (\<lambda>x mo. (IncrementRowsFetched (int (length (rb_rows b))) x, mo)) st1 w1))"

definition ReadNext ::
    "('c, 'db, 'p, 'r) engine \<Rightarrow> exec_env \<Rightarrow> ('p, 'r) batch_reader \<Rightarrow> ('c, 'db) world
     \<Rightarrow> result_batch option result \<times> ('p, 'r) batch_reader \<times> ('c, 'db) world" where
  "ReadNext E ev br w =
     (case (if br_executed br then (ok 0, br_statement br, w) else Execute E ev (br_statement br) w) of
        (Inl e, st1, w1) \<Rightarrow> (Inl e, br\<lparr>br_statement := st1\<rparr>, w1)
      | (Inr _, st1, w1) \<Rightarrow>
          (case fetch_and_count E ev st1 w1 of
             (r, st2, w2) \<Rightarrow> (r, br\<lparr>br_statement := st2, br_executed := True\<rparr>, w2)))"

section \<open>What the pipeline of Create guarantees\<close>

text \<open>The part of a session that decides what it may do.\<close>

definition same_identity :: "'c client_session \<Rightarrow> 'c client_session \<Rightarrow> bool" where
  "same_identity a b \<longleftrightarrow>
     connection a = connection b \<and> session_id a = session_id b \<and> username a = username b
     \<and> role a = role b \<and> catalog_access a = catalog_access b"

lemma same_identity_refl [simp]: "same_identity a a"
  by (simp add: same_identity_def)

lemma set_active_identity: "same_identity (session_of q (set_active p h w)) (session_of q w)"
  by (cases "q = p"; cases "p < length (objs (w_reg w))")
    (auto simp: same_identity_def set_active_def update_session_def session_of_def list_update_beyond)

lemma set_active_simps [simp, gate_simps]:
  "w_db (set_active p h w) = w_db w"
  "w_server (set_active p h w) = w_server w"
  "w_license (set_active p h w) = w_license w"
  "w_now (set_active p h w) = w_now w"
  "w_version (set_active p h w) = w_version w"
  "w_metrics (set_active p h w) = w_metrics w"
  "instr_mgr (set_active p h w) = instr_mgr w"
  "srv_instr (w_reg (set_active p h w)) = srv_instr (w_reg w)"
  "srv_instance_id (w_reg (set_active p h w)) = srv_instance_id (w_reg w)"
  by (simp_all add: set_active_def update_session_def instr_mgr_def)

lemma identity_fields [simp, gate_simps]:
  "connection (session_of q (set_active p h w)) = connection (session_of q w)"
  "session_id (session_of q (set_active p h w)) = session_id (session_of q w)"
  "username (session_of q (set_active p h w)) = username (session_of q w)"
  "role (session_of q (set_active p h w)) = role (session_of q w)"
  "catalog_access (session_of q (set_active p h w)) = catalog_access (session_of q w)"
  using set_active_identity [of q p h w] by (simp_all add: same_identity_def)

lemma values_of_set_active [simp]: "values_of (set_active p h w) q = values_of w q"
  by (simp add: values_of_def Let_def)

lemma access_identity [simp]:
  "HasWriteAccess perms (session_of q (set_active p h w)) c mo = HasWriteAccess perms (session_of q w) c mo"
  "HasReadAccess perms (session_of q (set_active p h w)) c mo = HasReadAccess perms (session_of q w) c mo"
  by (simp_all add: HasWriteAccess_def HasReadAccess_def)

lemma set_instr_simps [simp, gate_simps]:
  "w_db (set_instr mo w) = w_db w"
  "w_server (set_instr mo w) = w_server w"
  "w_metrics (set_instr mo w) = w_metrics w"
  "session_of p (set_instr mo w) = session_of p w"
  "instr_mgr (set_instr mo w) = (if w_server w then mo else None)"
  by (simp_all add: set_instr_def session_of_def instr_mgr_def)

lemma record_statement_simps [simp, gate_simps]:
  "w_db (record_statement a e w) = w_db w"
  "session_of p (record_statement a e w) = session_of p w"
  by (simp_all add: record_statement_def)

lemma attach_cases:
  assumes "attach_instrumentation a st w = (r, w')"
  shows "\<exists>st'. r = ok st' \<and> ds_stmt st' = ds_stmt st \<and> ds_direct st' = ds_direct st
    \<and> ds_sql st' = ds_sql st \<and> ds_admin st' = ds_admin st \<and> ds_session st' = ds_session st
    \<and> ds_result st' = ds_result st \<and> bind_parameters st' = bind_parameters st
    \<and> w_db w' = w_db w"
  using assms by (auto simp: attach_instrumentation_def split: if_splits)

definition perms_of :: "('c, 'db) world \<Rightarrow> bool" where
  "perms_of w = IsCatalogPermissionsAvailable (w_now w) (w_license w)"

text \<open>What a session may do with a prepared statement.\<close>

definition authorised :: "('c, 'db, 'p, 'r) engine \<Rightarrow> ('c, 'db) world \<Rightarrow> nat \<Rightarrow> 'p \<Rightarrow> bool" where
  "authorised E w q p \<longleftrightarrow>
     list_all (\<lambda>c. HasWriteAccess (perms_of w) (session_of q w) c (instr_mgr w)) (p_modified E p)
     \<and> list_all (\<lambda>c. HasReadAccess (perms_of w) (session_of q w) c (instr_mgr w)) (p_reads E p)
     \<and> (p_read_only E p \<or> role (session_of q w) \<noteq> ''readonly'')"

lemma authorised_set_active [simp]: "authorised E (set_active p h w) q x \<longleftrightarrow> authorised E w q x"
  by (simp add: authorised_def perms_of_def)

lemma check_prepared_iff:
  "is_ok (fst (check_prepared E a p w)) \<longleftrightarrow> authorised E w (ca_session a) p"
proof (cases "CheckCatalogWriteAccess (perms_of w) (session_of (ca_session a) w) (p_modified E p)
         (instr_mgr w) (ident_of a)")
  case (Pair r mo)
  show ?thesis
  proof (cases r)
    case (Inl e)
    then have "\<not> list_all (\<lambda>c. HasWriteAccess (perms_of w) (session_of (ca_session a) w) c (instr_mgr w))
        (p_modified E p)"
      using Pair write_check_iff [of "perms_of w" "session_of (ca_session a) w" "p_modified E p"
        "instr_mgr w" "ident_of a"] by (simp add: list_all_iff)
    then show ?thesis
      using Pair Inl by (simp add: check_prepared_def Let_def authorised_def perms_of_def)
  next
    case (Inr u)
    have mo: "mo = instr_mgr w" using Pair Inr by (auto dest: write_check_ok_mgr)
    have wr: "list_all (\<lambda>c. HasWriteAccess (perms_of w) (session_of (ca_session a) w) c (instr_mgr w))
        (p_modified E p)"
      using Pair Inr write_check_iff [of "perms_of w" "session_of (ca_session a) w" "p_modified E p"
        "instr_mgr w" "ident_of a"] by (simp add: list_all_iff)
    obtain r2 mo2 where R: "CheckCatalogReadAccess (perms_of w) (session_of (ca_session a) w) (p_reads E p)
        (instr_mgr w) (ident_of a) = (r2, mo2)" by force
    have "(\<exists>u. r2 = Inr u) \<longleftrightarrow> list_all (\<lambda>c. HasReadAccess (perms_of w) (session_of (ca_session a) w) c
        (instr_mgr w)) (p_reads E p)"
      using read_check_iff [of "perms_of w" "session_of (ca_session a) w" "p_reads E p" "instr_mgr w" "ident_of a"] R
      by (auto simp: list_all_iff is_ok_iff)
    then show ?thesis
      using Pair Inr R wr mo
      by (cases r2) (auto simp: check_prepared_def Let_def authorised_def perms_of_def)
  qed
qed

lemma check_prepared_world:
  assumes "check_prepared E a p w = (Inr u, w')"
  shows "w' = w"
  using assms by (auto simp: check_prepared_def Let_def split: prod.splits sum.splits if_splits)

text \<open>Where a statement that Create returns comes from.\<close>

lemma Create_cases:
  assumes "Create E a w = (Inr st, w')"
  obtains (admin) "ds_admin st" "ds_direct st"
  | (prepared) p where "ds_stmt st = Some p" "\<not> ds_direct st" "\<not> ds_admin st"
      "authorised E w (ca_session a) p"
      "db_prepare E (connection (session_of (ca_session a) w))
         (ReplaceGizmoSQLFunctions (values_of w (ca_session a)) (ca_sql a)) (w_db w) = Inr p"
      "w_db w' = w_db w"
  | (direct) err where "ds_direct st" "\<not> ds_admin st" "ds_stmt st = None" "ds_sql st = ca_sql a"
      "db_prepare E (connection (session_of (ca_session a) w))
         (ReplaceGizmoSQLFunctions (values_of w (ca_session a)) (ca_sql a)) (w_db w) = Inl err"
      "contains err multi_statement_error" "w_db w' = w_db w"
proof -
  let ?w1 = "set_active (ca_session a) (ca_handle a) w"
  consider (k) level target where "create_kill a level target ?w1 = (Inr st, w')"
    | (s) level where "attach_instrumentation a ((direct_statement a (Some level))\<lparr>ds_admin := True\<rparr>) ?w1 = (Inr st, w')"
    | (q) "create_sql E a ?w1 = (Inr st, w')"
    using assms by (auto simp: Create_def Let_def split: sum.splits if_splits option.splits)
  then show thesis
  proof cases
    case k
    then have "ds_admin st \<and> ds_direct st"
      by (auto simp: create_kill_def Let_def direct_statement_def split: prod.splits sum.splits
          dest!: attach_cases)
    then show thesis using admin by blast
  next
    case s
    then have "ds_admin st \<and> ds_direct st"
      by (auto simp: direct_statement_def dest!: attach_cases)
    then show thesis using admin by blast
  next
    case q
    show thesis
    proof (cases "db_prepare E (connection (session_of (ca_session a) w))
         (ReplaceGizmoSQLFunctions (values_of w (ca_session a)) (ca_sql a)) (w_db w)")
      case (Inr p)
      obtain r w2 where c: "check_prepared E a p ?w1 = (r, w2)" by force
      with q Inr obtain u where r: "r = Inr u" by (cases r) (auto simp: create_sql_def)
      have "w2 = ?w1" using c r by (auto dest: check_prepared_world)
      moreover have "authorised E w (ca_session a) p"
        using check_prepared_iff [of E a p ?w1] c r by simp
      ultimately show thesis
        using q Inr c r prepared [of p]
        by (auto simp: create_sql_def prepared_statement_def dest!: attach_cases)
    next
      case (Inl err)
      then show thesis
        using q direct [of err]
        by (auto simp: create_sql_def direct_statement_def split: if_splits dest!: attach_cases)
    qed
  qed
qed

section \<open>What an execution changes\<close>

lemma exec_record_simps [simp]:
  "w_db (snd (exec_record f st w)) = w_db w"
  "w_server (snd (exec_record f st w)) = w_server w"
  "w_metrics (snd (exec_record f st w)) = w_metrics w"
  "session_of p (snd (exec_record f st w)) = session_of p w"
  "ds_result (fst (exec_record f st w)) = ds_result st"
  "ds_direct (fst (exec_record f st w)) = ds_direct st"
  "ds_admin (fst (exec_record f st w)) = ds_admin st"
  "ds_stmt (fst (exec_record f st w)) = ds_stmt st"
  "ds_sql (fst (exec_record f st w)) = ds_sql st"
  "ds_session (fst (exec_record f st w)) = ds_session st"
  "ds_log_level (fst (exec_record f st w)) = ds_log_level st"
  "ds_synthetic (fst (exec_record f st w)) = ds_synthetic st"
  "ds_override (fst (exec_record f st w)) = ds_override st"
  "ds_cached_schema (fst (exec_record f st w)) = ds_cached_schema st"
  "bind_parameters (fst (exec_record f st w)) = bind_parameters st"
  by (simp_all add: exec_record_def session_of_def split: option.split prod.split)

lemma begin_exec_simps [simp]:
  "w_db (snd (begin_exec E ev st w)) = w_db w"
  "w_server (snd (begin_exec E ev st w)) = w_server w"
  "w_metrics (snd (begin_exec E ev st w)) = w_metrics w"
  "session_of p (snd (begin_exec E ev st w)) = session_of p w"
  "ds_result (fst (begin_exec E ev st w)) = ds_result st"
  "ds_direct (fst (begin_exec E ev st w)) = ds_direct st"
  "ds_admin (fst (begin_exec E ev st w)) = ds_admin st"
  "ds_stmt (fst (begin_exec E ev st w)) = ds_stmt st"
  "ds_sql (fst (begin_exec E ev st w)) = ds_sql st"
  "ds_session (fst (begin_exec E ev st w)) = ds_session st"
  "ds_synthetic (fst (begin_exec E ev st w)) = ds_synthetic st"
  "bind_parameters (fst (begin_exec E ev st w)) = bind_parameters st"
  "metric_operation E (fst (begin_exec E ev st w)) = metric_operation E st"
  by (simp_all add: begin_exec_def metric_operation_def split: option.split prod.split)

lemma with_db_simps [simp]:
  "w_db (with_db d w) = d" "w_server (with_db d w) = w_server w"
  "w_metrics (with_db d w) = w_metrics w" "session_of p (with_db d w) = session_of p w"
  "w_reg (with_db d w) = w_reg w"
  by (simp_all add: with_db_def session_of_def)

lemma record_metric_simps [simp]:
  "w_db (record_metric op l w) = w_db w" "w_server (record_metric op l w) = w_server w"
  "session_of p (record_metric op l w) = session_of p w"
  "w_metrics (record_metric op l w) = w_metrics w @ [(op, l)]"
  by (simp_all add: record_metric_def session_of_def)

lemma begin_exec_conn [simp]:
  "conn_of (fst (begin_exec E ev st w)) (snd (begin_exec E ev st w)) = conn_of st w"
  by (simp add: conn_of_def)

text \<open>A session is allocated: its pointer is in range, so that its fields can be written.\<close>

definition has_session :: "nat \<Rightarrow> ('c, 'db) world \<Rightarrow> bool" where
  "has_session p w \<longleftrightarrow> p < length (objs (w_reg w))"

lemma has_session_simps [simp]:
  "has_session p (with_db d w) = has_session p w"
  "has_session p (snd (begin_exec E ev st w)) = has_session p w"
  "has_session p (set_active q h w) = has_session p w"
  by (simp_all add: has_session_def begin_exec_def set_instr_def set_active_def update_session_def
      split: option.split prod.split)

lemma set_active_handle [simp]:
  "has_session p w \<Longrightarrow> active_sql_handle (session_of p (set_active p h w)) = Some h"
  by (simp add: has_session_def set_active_def update_session_def session_of_def)

lemma Execute_starts:
  assumes "w_server w"
  shows "Execute E ev st w =
    (case begin_exec E ev st w of (st1, w1) \<Rightarrow>
       if ds_admin st then execute_admin E ev st1 w1
       else execute_query E ev
              (case query_timeout (session_of (ds_session st) w) of
                 Some t \<Rightarrow> t | None \<Rightarrow> srv_query_timeout (w_reg w)) st1 w1)"
proof -
  have "\<exists>l. GetLogLevel st w = ok l"
    using assms by (auto simp: GetLogLevel_def GetSessionOrServerLogLevel_def split: option.split)
  then show ?thesis
    using assms by (auto simp: Execute_def GetQueryTimeout_def Let_def split: option.split prod.split)
qed

lemma execute_query_in_time:
  assumes "timeout = 0 \<or> \<not> ev_slow ev" and "run_worker E None st w = (r, st1, w1)"
  shows "execute_query E ev timeout st w =
    (r, fst (exec_outcome E ev (ev_end ev - ev_start ev) r st1 w1),
     record_metric (metric_operation E st) (outcome_label r)
       (snd (exec_outcome E ev (ev_end ev - ev_start ev) r st1 w1)))"
  using assms by (auto simp: execute_query_def Let_def split: prod.split)

text \<open>Running a prepared statement and running a direct one.\<close>

lemma engine_call_alone [simp]:
  "engine_call E None c (db_start_execute E c p vs) d = db_execute E c p vs d"
  "engine_call E None c (db_start_query E c sql) d = db_query E c sql d"
  by (simp_all add: engine_call_def db_execute_def db_query_def)

lemma run_worker_interrupted:
  assumes "\<not> ds_direct st" and "ds_stmt st = Some p"
  shows "run_worker E i st w =
    (case engine_call E i (conn_of st w) (db_start_execute E (conn_of st w) p (bind_parameters st)) (w_db w) of
       (q, d) \<Rightarrow>
         ((case q of Inl err \<Rightarrow> fail ExecutionError (''An execution error has occurred: '' @ err) | Inr _ \<Rightarrow> ok 0),
          st\<lparr>ds_result := Some q\<rparr>, set_active (ds_session st) [] (with_db d w)))"
  using assms by (auto simp: run_worker_def split: prod.split sum.split)

lemma run_worker_prepared:
  assumes "\<not> ds_direct st" and "ds_stmt st = Some p"
  shows "run_worker E None st w =
    (case db_execute E (conn_of st w) p (bind_parameters st) (w_db w) of
       (q, d) \<Rightarrow>
         ((case q of Inl err \<Rightarrow> fail ExecutionError (''An execution error has occurred: '' @ err) | Inr _ \<Rightarrow> ok 0),
          st\<lparr>ds_result := Some q\<rparr>, set_active (ds_session st) [] (with_db d w)))"
  using assms by (auto simp: run_worker_def split: prod.split sum.split)

lemma run_worker_direct:
  assumes "ds_direct st" and "ds_result st = None" and "bind_parameters st = []"
  shows "run_worker E None st w =
    (case db_query E (conn_of st w) (ds_sql st) (w_db w) of
       (q, d) \<Rightarrow>
         ((case q of Inl err \<Rightarrow> fail ExecutionError (''Direct query execution error: '' @ err) | Inr _ \<Rightarrow> ok 0),
          (case q of Inl err \<Rightarrow> st | Inr res \<Rightarrow> st\<lparr>ds_result := Some (Inr res)\<rparr>),
          set_active (ds_session st) [] (with_db d w)))"
  using assms by (auto simp: run_worker_def split: prod.split sum.split)

lemma exec_outcome_simps [simp]:
  "w_db (snd (exec_outcome E ev d r st w)) = w_db w"
  "w_server (snd (exec_outcome E ev d r st w)) = w_server w"
  "w_metrics (snd (exec_outcome E ev d r st w)) = w_metrics w"
  "session_of p (snd (exec_outcome E ev d r st w)) = session_of p w"
  "ds_result (fst (exec_outcome E ev d r st w)) = ds_result st"
  "ds_direct (fst (exec_outcome E ev d r st w)) = ds_direct st"
  "ds_admin (fst (exec_outcome E ev d r st w)) = ds_admin st"
  "ds_stmt (fst (exec_outcome E ev d r st w)) = ds_stmt st"
  "ds_sql (fst (exec_outcome E ev d r st w)) = ds_sql st"
  "ds_session (fst (exec_outcome E ev d r st w)) = ds_session st"
  "bind_parameters (fst (exec_outcome E ev d r st w)) = bind_parameters st"
  "ds_synthetic (fst (exec_outcome E ev d r st w)) = ds_synthetic st"
  by (simp_all add: exec_outcome_def)

section \<open>A small engine for the witnesses\<close>

text \<open>
  A database is the log of the statements run on it; a text with a semicolon cannot be prepared; a
  statement that starts with INSERT modifies the catalog \<open>sales\<close>; every result is empty.
\<close>

definition log_engine :: "(unit, string list, string, unit) engine" where
  "log_engine =
     \<lparr>db_prepare = (\<lambda>c sql d. if contains sql '';'' then Inl multi_statement_error else Inr sql),
      p_modified = (\<lambda>p. if prefix ''INSERT'' p then [''sales''] else []),
      p_reads = (\<lambda>p. []), p_read_only = (\<lambda>p. \<not> prefix ''INSERT'' p), p_query = (\<lambda>p. p),
      p_schema = (\<lambda>p. []),
      db_start_execute = (\<lambda>c p vs d. d @ [p]), db_start_query = (\<lambda>c sql d. d @ [sql]),
      db_finish = (\<lambda>c d. (Inr (), d)), db_interrupt = (\<lambda>c d. d), r_schema = (\<lambda>r. []), r_fetch = (\<lambda>r. Inr (None, r)),
      fetch_failed = (\<lambda>e. e),
      parse_query = (\<lambda>s. Inr [SetStatement ''gizmosql.query_timeout'' SCOPE_GLOBAL (Some ''30'')]),
      value_text = (\<lambda>v. ''?''), status_text = message\<rparr>"

definition log_world :: "string \<Rightarrow> (unit, string list) world" where
  "log_world rl =
     \<lparr>w_reg = (one_session ''b'')\<lparr>objs := [session_fields (sample_ctx ''b'' rl) ''p'' () ''b''
                 (fresh_registry None ''i'')]\<rparr>,
      w_server = True, w_license = None, w_now = 0, w_version = ''v1'', w_db = [], w_metrics = []\<rparr>"

definition log_args :: "string \<Rightarrow> create_args" where
  "log_args sql =
     \<lparr>ca_session = 0, ca_handle = ''h'', ca_sql = sql, ca_log_level = None, ca_log_queries = False,
      ca_override = None, ca_method = ''DoGet'', ca_internal = False\<rparr>"

section \<open>Properties\<close>

text \<open>
  C14: No prepared statement without authorisation: a statement that Create returns with a DuckDB
  prepared statement was prepared from the text with the pseudo-functions replaced, the session may
  write every catalog it modifies and read every catalog it reads, and a session with the role
  \<open>readonly\<close> only gets one that modifies nothing.
\<close>

theorem prepared_statement_is_authorised:
  assumes "Create E a w = (Inr st, w')" and "ds_stmt st = Some p" and "\<not> ds_admin st"
  shows "db_prepare E (connection (session_of (ca_session a) w))
         (ReplaceGizmoSQLFunctions (values_of w (ca_session a)) (ca_sql a)) (w_db w) = Inr p
    \<and> list_all (\<lambda>c. HasWriteAccess (perms_of w) (session_of (ca_session a) w) c (instr_mgr w)) (p_modified E p)
    \<and> list_all (\<lambda>c. HasReadAccess (perms_of w) (session_of (ca_session a) w) c (instr_mgr w)) (p_reads E p)
    \<and> (p_read_only E p \<or> role (session_of (ca_session a) w) \<noteq> ''readonly'')"
  using assms(1)
proof (cases rule: Create_cases)
  case admin
  with assms(3) show ?thesis by simp
next
  case (prepared q)
  with assms(2) show ?thesis by (simp add: authorised_def)
next
  case (direct err)
  with assms(2) show ?thesis by simp
qed

lemma session_of_log_world [simp]:
  "session_of 0 (log_world rl) = session_fields (sample_ctx ''b'' rl) ''p'' () ''b'' (fresh_registry None ''i'')"
  by (simp add: session_of_def log_world_def)

lemma log_world_simps [simp]:
  "instr_mgr (log_world rl) = None" "w_server (log_world rl)" "w_db (log_world rl) = []"
  "w_license (log_world rl) = None" "w_now (log_world rl) = 0" "w_metrics (log_world rl) = []"
  "has_session 0 (log_world rl)"
  by (simp_all add: instr_mgr_def log_world_def one_session_def fresh_registry_def has_session_def)

lemma log_session_simps [simp]:
  "role (session_fields (sample_ctx sid rl) ''p'' () sid (fresh_registry None ''i'')) = rl"
  "query_log_level (session_fields (sample_ctx sid rl) ''p'' () sid (fresh_registry None ''i'')) = Some ARROW_INFO"
  "query_timeout (session_fields (sample_ctx sid rl) ''p'' () sid (fresh_registry None ''i'')) = Some 0"
  by (simp_all add: session_fields_def sample_ctx_def empty_ctx_def fresh_registry_def)

lemma log_args_simps [simp]:
  "ca_sql (log_args sql) = sql" "ca_session (log_args sql) = 0" "ca_handle (log_args sql) = ''h''"
  "ca_log_level (log_args sql) = None"
  by (simp_all add: log_args_def)

lemma log_create:
  "IsDetachInstrumentationDb sql [] = False \<Longrightarrow> IsKillSessionCommand sql = None \<Longrightarrow>
     IsLikelyGizmoSQLSet sql = False \<Longrightarrow>
     Create log_engine (log_args sql) (log_world rl)
       = create_sql log_engine (log_args sql) (set_active 0 ''h'' (log_world rl))"
  by (simp add: Create_def GetSessionOrServerLogLevel_def)

lemma replace_plain:
  "contains (to_upper sql) ''GIZMOSQL_'' = False \<Longrightarrow> ReplaceGizmoSQLFunctions gv sql = sql"
  unfolding ReplaceGizmoSQLFunctions_def using replace_from_id [of 0 sql gv] by simp

text \<open>Plain SQL: no command of the server, no pseudo-function.\<close>

definition plain_sql :: "string \<Rightarrow> bool" where
  "plain_sql sql \<longleftrightarrow>
     \<not> IsDetachInstrumentationDb sql [] \<and> IsKillSessionCommand sql = None
     \<and> \<not> IsLikelyGizmoSQLSet sql \<and> \<not> contains (to_upper sql) ''GIZMOSQL_''"

lemma log_create_prepared:
  assumes "plain_sql sql" and "\<not> contains sql '';''"
    and "p_read_only log_engine sql \<or> rl \<noteq> ''readonly''"
  shows "Create log_engine (log_args sql) (log_world rl)
    = (Inr (prepared_statement log_engine (log_args sql) sql), set_active 0 ''h'' (log_world rl))"
proof -
  let ?w = "set_active 0 ''h'' (log_world rl)"
  obtain r w2 where c: "check_prepared log_engine (log_args sql) sql ?w = (r, w2)" by force
  have "authorised log_engine ?w 0 sql"
    using assms(3)
    by (auto simp: authorised_def list_all_iff HasWriteAccess_def HasReadAccess_def GetCatalogAccess_def
        perms_of_def IsCatalogPermissionsAvailable_def IsFeatureAvailable_iff)
  then obtain u where r: "r = Inr u"
    using check_prepared_iff [of log_engine "log_args sql" sql ?w] c by (auto simp: is_ok_iff)
  then have "w2 = ?w" using c by (auto dest: check_prepared_world)
  moreover have "db_prepare log_engine c sql d = Inr sql" for c d
    using assms(2) by (simp add: log_engine_def)
  ultimately show ?thesis
    using assms(1) c r
    by (simp add: log_create plain_sql_def create_sql_def replace_plain attach_instrumentation_def)
qed

lemma select_1_plain: "plain_sql ''SELECT 1'' \<and> \<not> contains ''SELECT 1'' '';''"
  by code_simp

theorem prepared_statement_is_authorised_witness:
  "db_prepare log_engine () (ReplaceGizmoSQLFunctions (values_of (log_world ''readonly'') 0) ''SELECT 1'') []
     = Inr ''SELECT 1''
   \<and> list_all (\<lambda>c. HasReadAccess (perms_of (log_world ''readonly'')) (session_of 0 (log_world ''readonly'')) c None)
       (p_reads log_engine ''SELECT 1'')"
proof -
  have "p_read_only log_engine ''SELECT 1''" by (simp add: log_engine_def)
  then have "Create log_engine (log_args ''SELECT 1'') (log_world ''readonly'')
    = (Inr (prepared_statement log_engine (log_args ''SELECT 1'') ''SELECT 1''),
       set_active 0 ''h'' (log_world ''readonly''))"
    using select_1_plain log_create_prepared by blast
  from prepared_statement_is_authorised [OF this, of "''SELECT 1''"] show ?thesis
    by (simp add: prepared_statement_def)
qed

lemma log_level_found:
  "w_server w \<Longrightarrow>
     \<exists>l. (case x of Some l \<Rightarrow> ok l | None \<Rightarrow> GetSessionOrServerLogLevel p w) = ok l"
  by (auto simp: GetSessionOrServerLogLevel_def split: option.split)

lemma create_direct:
  assumes "w_server w" and "IsKillSessionCommand (ca_sql a) = None" and "\<not> IsLikelyGizmoSQLSet (ca_sql a)"
    and "\<not> IsDetachInstrumentationDb (ca_sql a) (case instr_mgr w of None \<Rightarrow> [] | Some m \<Rightarrow> mgr_catalog m)"
    and "db_prepare E (connection (session_of (ca_session a) w))
         (ReplaceGizmoSQLFunctions (values_of w (ca_session a)) (ca_sql a)) (w_db w) = Inl err"
    and "contains err multi_statement_error"
  shows "Create E a w = attach_instrumentation a (direct_statement a (ca_log_level a))
      (set_active (ca_session a) (ca_handle a) w)"
proof -
  obtain l where l: "(case ca_log_level a of Some l \<Rightarrow> ok l
      | None \<Rightarrow> GetSessionOrServerLogLevel (ca_session a) w) = ok l"
    using log_level_found [OF assms(1)] by blast
  show ?thesis
    unfolding Create_def l using assms by (simp add: Let_def create_sql_def)
qed

lemma attach_world:
  assumes "attach_instrumentation a st w = (r, w')"
  shows "w_server w' = w_server w \<and> session_of p w' = session_of p w"
  using assms by (auto simp: attach_instrumentation_def record_statement_def split: if_splits)

text \<open>
  C15: A statement that DuckDB refuses to prepare because it holds several statements is not checked at
  all: whatever the session's role and catalog rules, Create returns it for direct execution with its
  original text, and executing it in time runs that text on the session's connection.
\<close>

theorem multi_statement_text_is_not_checked:
  fixes E :: "('c, 'db, 'p, 'r) engine"
  assumes "w_server w" and "IsKillSessionCommand (ca_sql a) = None" and "\<not> IsLikelyGizmoSQLSet (ca_sql a)"
    and "\<not> IsDetachInstrumentationDb (ca_sql a) (case instr_mgr w of None \<Rightarrow> [] | Some m \<Rightarrow> mgr_catalog m)"
    and "db_prepare E (connection (session_of (ca_session a) w))
         (ReplaceGizmoSQLFunctions (values_of w (ca_session a)) (ca_sql a)) (w_db w) = Inl err"
    and "contains err multi_statement_error" and "\<not> ev_slow ev"
  shows "\<exists>st w'. Create E a w = (Inr st, w') \<and> ds_direct st \<and> ds_sql st = ca_sql a
    \<and> w_db (snd (snd (Execute E ev st w')))
        = snd (db_query E (connection (session_of (ca_session a) w)) (ca_sql a) (w_db w))"
proof -
  let ?w1 = "set_active (ca_session a) (ca_handle a) w"
  let ?st = "direct_statement a (ca_log_level a) :: ('p, 'r) statement"
  obtain r w' where at: "attach_instrumentation a ?st ?w1 = (r, w')" by force
  then obtain st where r: "r = ok st" and st: "ds_direct st" "ds_sql st = ca_sql a" "\<not> ds_admin st"
      "ds_session st = ca_session a" "ds_result st = None" "bind_parameters st = []" "w_db w' = w_db w"
    using attach_cases [OF at] by (auto simp: direct_statement_def)
  have c: "Create E a w = (Inr st, w')"
    using create_direct [OF assms(1-6)] at r by simp
  have server: "w_server w'" and conn: "connection (session_of (ca_session a) w') = connection (session_of (ca_session a) w)"
    using attach_world [OF at] assms(1) by simp_all
  obtain st1 w1 where b: "begin_exec E ev st w' = (st1, w1)" by force
  have b': "w_db w1 = w_db w" "conn_of st1 w1 = connection (session_of (ca_session a) w)"
    "ds_direct st1" "ds_result st1 = None" "bind_parameters st1 = []" "ds_sql st1 = ca_sql a"
    using begin_exec_simps [where E = E and ev = ev and st = st and w = w'] begin_exec_conn [of E ev st w'] st conn
    by (simp_all add: b conn_of_def)
  obtain q d where q: "db_query E (connection (session_of (ca_session a) w)) (ca_sql a) (w_db w) = (q, d)"
    by force
  have "w_db (snd (snd (Execute E ev st w'))) = d"
    using st b' q assms(7) run_worker_direct [of st1 E w1]
    by (simp add: Execute_starts [OF server] b execute_query_in_time)
  then show ?thesis using c st q by auto
qed

lemma insert_2_facts:
  "plain_sql ''INSERT INTO t VALUES (1); INSERT INTO t VALUES (2)''
   \<and> contains ''INSERT INTO t VALUES (1); INSERT INTO t VALUES (2)'' '';''
   \<and> contains multi_statement_error multi_statement_error"
  by code_simp

theorem multi_statement_text_is_not_checked_witness:
  "\<exists>st w'. Create log_engine (log_args ''INSERT INTO t VALUES (1); INSERT INTO t VALUES (2)'') (log_world ''readonly'')
       = (Inr st, w') \<and> ds_direct st \<and> ds_sql st = ca_sql (log_args ''INSERT INTO t VALUES (1); INSERT INTO t VALUES (2)'')
    \<and> w_db (snd (snd (Execute log_engine \<lparr>ev_xid = ''x'', ev_start = 0, ev_end = 5, ev_slow = False, ev_point = Returned\<rparr> st w')))
        = snd (db_query log_engine (connection (session_of (ca_session
              (log_args ''INSERT INTO t VALUES (1); INSERT INTO t VALUES (2)'')) (log_world ''readonly'')))
            (ca_sql (log_args ''INSERT INTO t VALUES (1); INSERT INTO t VALUES (2)'')) (w_db (log_world ''readonly'')))"
proof (rule multi_statement_text_is_not_checked)
  show "db_prepare log_engine
      (connection (session_of (ca_session (log_args ''INSERT INTO t VALUES (1); INSERT INTO t VALUES (2)''))
         (log_world ''readonly'')))
      (ReplaceGizmoSQLFunctions
         (values_of (log_world ''readonly'') (ca_session (log_args ''INSERT INTO t VALUES (1); INSERT INTO t VALUES (2)'')))
         (ca_sql (log_args ''INSERT INTO t VALUES (1); INSERT INTO t VALUES (2)''))) (w_db (log_world ''readonly''))
    = Inl multi_statement_error"
    using insert_2_facts by (simp add: log_engine_def replace_plain plain_sql_def)
qed (use insert_2_facts in \<open>simp_all add: plain_sql_def\<close>)

text \<open>
  C31: Executing a prepared statement in time runs it exactly once with the bound parameters: the engine
  moves to the state that execution leaves, the answer is success exactly when the engine succeeds (with
  its message otherwise), the result is kept for fetching, the session has no active statement any more,
  and one query metric is recorded with the matching label.
\<close>

theorem execute_runs_prepared_once:
  assumes "w_server w" and "has_session (ds_session st) w" and "ds_stmt st = Some p" and "\<not> ds_direct st"
    and "\<not> ds_admin st" and "\<not> ev_slow ev"
    and "db_execute E (conn_of st w) p (bind_parameters st) (w_db w) = (q, d)"
    and "Execute E ev st w = (r, st', w')"
  shows "w_db w' = d
    \<and> r = (case q of Inl err \<Rightarrow> fail ExecutionError (''An execution error has occurred: '' @ err) | Inr _ \<Rightarrow> ok 0)
    \<and> ds_result st' = Some q
    \<and> active_sql_handle (session_of (ds_session st) w') = Some []
    \<and> w_metrics w' = w_metrics w @ [(metric_operation E st, outcome_label r)]"
proof -
  obtain st1 w1 where b: "begin_exec E ev st w = (st1, w1)" by force
  have b': "w_db w1 = w_db w" "conn_of st1 w1 = conn_of st w" "\<not> ds_direct st1" "ds_stmt st1 = Some p"
    "bind_parameters st1 = bind_parameters st" "ds_session st1 = ds_session st"
    "has_session (ds_session st) w1" "metric_operation E st1 = metric_operation E st"
    "w_metrics w1 = w_metrics w"
    using begin_exec_simps [where E = E and ev = ev and st = st and w = w] begin_exec_conn [of E ev st w] assms(2-4)
      has_session_simps(2) [of "ds_session st" E ev st w]
    by (simp_all add: b)
  from assms(8) show ?thesis
    using assms(5,6,7) b' run_worker_prepared [of st1 p E w1]
    by (auto simp: Execute_starts [OF assms(1)] b execute_query_in_time)
qed

lemma log_statement_simps [simp]:
  "ds_stmt (prepared_statement log_engine (log_args sql) p) = Some p"
  "ds_session (prepared_statement log_engine (log_args sql) p) = 0"
  "\<not> ds_direct (prepared_statement log_engine (log_args sql) p)"
  "\<not> ds_admin (prepared_statement log_engine (log_args sql) p)"
  "bind_parameters (prepared_statement log_engine (log_args sql) p) = []"
  by (simp_all add: prepared_statement_def log_args_def)

definition quick :: exec_env where
  "quick = \<lparr>ev_xid = ''x'', ev_start = 0, ev_end = 5, ev_slow = False, ev_point = Returned\<rparr>"

definition slow :: exec_env where
  "slow = \<lparr>ev_xid = ''x'', ev_start = 0, ev_end = 2000, ev_slow = True, ev_point = Running\<rparr>"

lemma quick_slow [simp]: "\<not> ev_slow quick" "ev_slow slow"
  by (simp_all add: quick_def slow_def)

theorem execute_runs_prepared_once_witness:
  "w_db (snd (snd (Execute log_engine quick (prepared_statement log_engine (log_args ''SELECT 1'') ''SELECT 1'')
      (log_world ''user'')))) = [''SELECT 1'']"
proof -
  let ?st = "prepared_statement log_engine (log_args ''SELECT 1'') ''SELECT 1''"
  obtain r st' w' where e: "Execute log_engine quick ?st (log_world ''user'') = (r, st', w')"
    by (cases "Execute log_engine quick ?st (log_world ''user'')") auto
  have "db_execute log_engine (conn_of ?st (log_world ''user'')) ''SELECT 1'' (bind_parameters ?st)
      (w_db (log_world ''user'')) = (Inr (), [''SELECT 1''])"
    by (simp add: log_engine_def db_execute_def)
  from execute_runs_prepared_once [OF _ _ _ _ _ _ this e] have "w_db w' = [''SELECT 1'']"
    by simp
  then show ?thesis by (simp only: e snd_conv)
qed

text \<open>Where the interrupt reaches the database, by where the worker is; what it does to the record.\<close>

lemma engine_call_interrupted:
  assumes "engine_call E (Some i) c start d0 = (q, d)"
  shows "d = (case i of
      Not_started \<Rightarrow> snd (db_finish E c (start (db_interrupt E c d0)))
    | Running \<Rightarrow> snd (db_finish E c (db_interrupt E c (start d0)))
    | Returned \<Rightarrow> db_interrupt E c (snd (db_finish E c (start d0))))"
  using assms by (cases i) (auto simp: engine_call_def split: prod.splits)

lemma timeout_closes_record:
  "case ds_exec (fst (exec_record (\<lambda>x mo. SetTimeout now x mo) st w)) of
     None \<Rightarrow> ds_exec st = None | Some x \<Rightarrow> ei_finalized x \<and> ei_status x = ''timeout''"
  by (auto simp: exec_record_def SetTimeout_def Finalize_def Let_def split: option.split prod.splits if_splits)

text \<open>
  C32: The query timeout: with a non-zero timeout in the session, a prepared statement whose worker has not ended
  when it expires is interrupted on its own connection, wherever the worker then is with its call of the
  engine, and awaited: the call runs to its end before the answer, which is the timeout error whatever the
  worker returned. Its execution record is closed as a timeout, the metric says timeout, and the session has no
  active statement. A timeout of zero never fires: the statement runs to its end uninterrupted.
\<close>

theorem timeout_interrupts_and_reports:
  assumes "w_server w" and "has_session (ds_session st) w" and "ds_stmt st = Some p" and "\<not> ds_direct st"
    and "\<not> ds_admin st" and "ev_slow ev"
    and "query_timeout (session_of (ds_session st) w) = Some secs"
    and "Execute E ev st w = (r, st', w')"
  shows "(if secs = 0 then w_db w' = snd (db_execute E (conn_of st w) p (bind_parameters st) (w_db w))
              \<and> w_metrics w' = w_metrics w @ [(metric_operation E st, outcome_label r)]
          else w_db w' =
                (case ev_point ev of
                   Not_started \<Rightarrow> snd (db_finish E (conn_of st w)
                     (db_start_execute E (conn_of st w) p (bind_parameters st)
                        (db_interrupt E (conn_of st w) (w_db w))))
                 | Running \<Rightarrow> snd (db_finish E (conn_of st w)
                     (db_interrupt E (conn_of st w)
                        (db_start_execute E (conn_of st w) p (bind_parameters st) (w_db w))))
                 | Returned \<Rightarrow> db_interrupt E (conn_of st w)
                     (snd (db_finish E (conn_of st w)
                        (db_start_execute E (conn_of st w) p (bind_parameters st) (w_db w)))))
              \<and> r = fail ExecutionError (timeout_msg secs)
              \<and> w_metrics w' = w_metrics w @ [(metric_operation E st, MetricTimeout)]
              \<and> (case ds_exec st' of None \<Rightarrow> ds_exec (fst (begin_exec E ev st w)) = None
                   | Some x \<Rightarrow> ei_finalized x \<and> ei_status x = ''timeout''))
    \<and> active_sql_handle (session_of (ds_session st) w') = Some []"
proof -
  obtain st1 w1 where b: "begin_exec E ev st w = (st1, w1)" by force
  have b': "w_db w1 = w_db w" "conn_of st1 w1 = conn_of st w" "\<not> ds_direct st1" "ds_stmt st1 = Some p"
    "bind_parameters st1 = bind_parameters st" "ds_session st1 = ds_session st"
    "has_session (ds_session st) w1" "metric_operation E st1 = metric_operation E st"
    "w_metrics w1 = w_metrics w"
    using begin_exec_simps [where E = E and ev = ev and st = st and w = w] begin_exec_conn [of E ev st w]
      assms(2-4) has_session_simps(2) [of "ds_session st" E ev st w]
    by (simp_all add: b)
  show ?thesis
  proof (cases "secs = 0")
    case True
    obtain q d where q: "db_execute E (conn_of st w) p (bind_parameters st) (w_db w) = (q, d)" by force
    from assms(8) show ?thesis
      using assms(5,7) True b' q run_worker_prepared [of st1 p E w1]
      by (auto simp: Execute_starts [OF assms(1)] b execute_query_in_time)
  next
    case False
    obtain q d where q: "engine_call E (Some (ev_point ev)) (conn_of st w)
        (db_start_execute E (conn_of st w) p (bind_parameters st)) (w_db w) = (q, d)" by force
    let ?st2 = "st1\<lparr>ds_result := Some q\<rparr>"
    let ?w2 = "set_active (ds_session st) [] (set_active (ds_session st) [] (with_db d w1))"
    obtain st3 w3 where x: "exec_record (\<lambda>x mo. SetTimeout (ev_end ev) x mo) ?st2 ?w2 = (st3, w3)"
      by force
    have w3: "w_db w3 = d" "w_metrics w3 = w_metrics w"
      "session_of (ds_session st) w3 = session_of (ds_session st) ?w2"
      using exec_record_simps(1,3,4) [where f = "\<lambda>x mo. SetTimeout (ev_end ev) x mo" and st = ?st2 and w = ?w2]
        b' by (simp_all add: x)
    have closed: "case ds_exec st3 of None \<Rightarrow> ds_exec st1 = None
        | Some x \<Rightarrow> ei_finalized x \<and> ei_status x = ''timeout''"
      using timeout_closes_record [where now = "ev_end ev" and st = ?st2 and w = ?w2]
      by (auto simp: x split: option.splits)
    have "execute_query E ev secs st1 w1 =
        (fail ExecutionError (timeout_msg secs), st3, record_metric (metric_operation E st) MetricTimeout w3)"
      using False assms(6) b' x run_worker_interrupted [OF b'(3,4), of E "Some (ev_point ev)" w1] q
      by (simp add: execute_query_def)
    then have res: "r = fail ExecutionError (timeout_msg secs)" "st' = st3"
        "w' = record_metric (metric_operation E st) MetricTimeout w3"
      using assms(5,7,8) by (simp_all add: Execute_starts [OF assms(1)] b)
    have active: "active_sql_handle (session_of (ds_session st) w') = Some []"
      using b' w3 by (simp add: res)
    have "w_db w' = d" "w_metrics w' = w_metrics w @ [(metric_operation E st, MetricTimeout)]"
      using w3 by (simp_all add: res)
    then show ?thesis
      using False res(1,2) closed active engine_call_interrupted [OF q]
      unfolding b fst_conv by (simp only: if_False simp_thms)
  qed
qed

theorem timeout_interrupts_and_reports_witness:
  "fst (Execute log_engine slow
      (prepared_statement log_engine (log_args ''SELECT 1'') ''SELECT 1'')
      (update_session 0 (\<lambda>cs. cs\<lparr>query_timeout := Some 2\<rparr>) (log_world ''user'')))
   = fail ExecutionError (timeout_msg 2)"
proof -
  let ?st = "prepared_statement log_engine (log_args ''SELECT 1'') ''SELECT 1''"
  let ?w = "update_session 0 (\<lambda>cs. cs\<lparr>query_timeout := Some 2\<rparr>) (log_world ''user'')"
  obtain r st' w' where e: "Execute log_engine slow ?st ?w = (r, st', w')"
    by (cases "Execute log_engine slow ?st ?w") auto
  have "w_server ?w" "has_session (ds_session ?st) ?w"
    "query_timeout (session_of (ds_session ?st) ?w) = Some 2"
    by (simp_all add: update_session_def has_session_def session_of_def log_world_def)
  from timeout_interrupts_and_reports [OF this(1,2) _ _ _ _ this(3) e, of "''SELECT 1''"]
  have "r = fail ExecutionError (timeout_msg 2)" by simp
  then show ?thesis by (simp only: e fst_conv)
qed

text \<open>
  A statement in direct execution runs at most once: after it has a result, executing it again
  (in time) succeeds without touching the database. A client that executes a prepared handle of several
  statements twice therefore has it run once.
\<close>

theorem direct_statement_runs_once:
  assumes "w_server w" and "ds_direct st" and "\<not> ds_admin st" and "ds_result st = Some x" and "\<not> ev_slow ev"
  shows "\<exists>st' w'. Execute E ev st w = (ok 0, st', w') \<and> w_db w' = w_db w \<and> ds_result st' = Some x"
proof -
  obtain st1 w1 where b: "begin_exec E ev st w = (st1, w1)" by force
  have b': "w_db w1 = w_db w" "ds_direct st1" "ds_result st1 = Some x"
    using begin_exec_simps [where E = E and ev = ev and st = st and w = w] assms(2,4) by (simp_all add: b)
  have "run_worker E None st1 w1 = (ok 0, st1, w1)" using b' by (simp add: run_worker_def idle_interrupt_def)
  then show ?thesis
    using assms(3,5) b' by (auto simp: Execute_starts [OF assms(1)] b execute_query_in_time)
qed

theorem direct_statement_runs_once_witness:
  "\<exists>st' w'. Execute log_engine quick
        ((direct_statement (log_args ''a;b'') None)\<lparr>ds_result := Some (Inr ())\<rparr>) (log_world ''user'')
      = (ok 0, st', w') \<and> w_db w' = w_db (log_world ''user'') \<and> ds_result st' = Some (Inr ())"
  by (rule direct_statement_runs_once) (simp_all add: direct_statement_def)

lemma update_session_other: "session_of q (update_session p f w) \<noteq> session_of q w \<Longrightarrow> q = p"
  by (rule ccontr) (simp add: update_session_def session_of_def)

lemma update_session_identity [simp]:
  "connection (session_of q (update_session p (\<lambda>cs. cs\<lparr>query_timeout := t\<rparr>) w)) = connection (session_of q w)"
  "session_id (session_of q (update_session p (\<lambda>cs. cs\<lparr>query_timeout := t\<rparr>) w)) = session_id (session_of q w)"
  "username (session_of q (update_session p (\<lambda>cs. cs\<lparr>query_timeout := t\<rparr>) w)) = username (session_of q w)"
  "role (session_of q (update_session p (\<lambda>cs. cs\<lparr>query_timeout := t\<rparr>) w)) = role (session_of q w)"
  "catalog_access (session_of q (update_session p (\<lambda>cs. cs\<lparr>query_timeout := t\<rparr>) w)) = catalog_access (session_of q w)"
  "connection (session_of q (update_session p (\<lambda>cs. cs\<lparr>query_log_level := l\<rparr>) w)) = connection (session_of q w)"
  "session_id (session_of q (update_session p (\<lambda>cs. cs\<lparr>query_log_level := l\<rparr>) w)) = session_id (session_of q w)"
  "username (session_of q (update_session p (\<lambda>cs. cs\<lparr>query_log_level := l\<rparr>) w)) = username (session_of q w)"
  "role (session_of q (update_session p (\<lambda>cs. cs\<lparr>query_log_level := l\<rparr>) w)) = role (session_of q w)"
  "catalog_access (session_of q (update_session p (\<lambda>cs. cs\<lparr>query_log_level := l\<rparr>) w)) = catalog_access (session_of q w)"
  by (cases "q = p"; cases "p < length (objs (w_reg w))";
      simp add: update_session_def session_of_def list_update_beyond)+

lemma update_session_fields [simp]:
  "w_db (update_session p f w) = w_db w"
  "killed_session_ids (w_reg (update_session p f w)) = killed_session_ids (w_reg w)"
  "srv_query_timeout (w_reg (update_session p f w)) = srv_query_timeout (w_reg w)"
  "srv_query_log_level (w_reg (update_session p f w)) = srv_query_log_level (w_reg w)"
  by (simp_all add: update_session_def)

lemma reg_update_sessions [simp]:
  "session_of q (w\<lparr>w_reg := (w_reg w)\<lparr>srv_query_timeout := t\<rparr>\<rparr>) = session_of q w"
  "session_of q (w\<lparr>w_reg := (w_reg w)\<lparr>srv_query_log_level := l\<rparr>\<rparr>) = session_of q w"
  by (simp_all add: session_of_def)

text \<open>
  The scope of an administrative SET: it changes the server's defaults only for an administrator
  and only with the GLOBAL scope; with the session scope it changes the setting of the caller's own
  session and nothing else; with any other scope, or when it fails, nothing changes.
\<close>

theorem set_changes_what_its_scope_says:
  assumes "apply_gizmosql_set p name scope val w = (r, w')"
  shows "w_db w' = w_db w \<and> killed_session_ids (w_reg w') = killed_session_ids (w_reg w)
    \<and> (scope = SCOPE_GLOBAL \<and> role (session_of p w) = ''admin''
       \<or> srv_query_timeout (w_reg w') = srv_query_timeout (w_reg w)
         \<and> srv_query_log_level (w_reg w') = srv_query_log_level (w_reg w))
    \<and> ((scope = SCOPE_SESSION \<or> scope = SCOPE_AUTOMATIC) \<and> q = p \<or> session_of q w' = session_of q w)
    \<and> same_identity (session_of q w') (session_of q w)
    \<and> (is_ok r \<or> w' = w)"
  using assms
  by (auto simp: apply_gizmosql_set_def by_scope_def SetServerQueryTimeout_def Let_def
      SetServerQueryLogLevel_def same_identity_def
      split: if_splits option.splits intro: ccontr dest: update_session_other)

theorem set_changes_what_its_scope_says_witness:
  "fst (apply_gizmosql_set 0 ''gizmosql.query_timeout'' SCOPE_GLOBAL ''30'' (log_world ''user''))
     = fail Invalid ''Only admin users can change the server query_timeout setting.''
   \<and> srv_query_timeout (w_reg (snd (apply_gizmosql_set 0 ''gizmosql.query_timeout'' SCOPE_GLOBAL ''30'' (log_world ''user''))))
     = srv_query_timeout (w_reg (log_world ''user''))"
proof -
  obtain r w' where e: "apply_gizmosql_set 0 ''gizmosql.query_timeout'' SCOPE_GLOBAL ''30'' (log_world ''user'') = (r, w')"
    by force
  have "stoi ''30'' = Some 30" "to_lower (take 9 ''gizmosql.query_timeout'') = ''gizmosql.''" by code_simp+
  then have "r = fail Invalid ''Only admin users can change the server query_timeout setting.''"
    using e by (simp add: apply_gizmosql_set_def by_scope_def SetServerQueryTimeout_def)
  moreover have "srv_query_timeout (w_reg w') = srv_query_timeout (w_reg (log_world ''user''))"
    using set_changes_what_its_scope_says [OF e] by simp
  ultimately show ?thesis by (simp only: e fst_conv snd_conv)
qed

section \<open>Audit of Create\<close>

fun is_statement_of :: "string \<Rightarrow> instr_write \<Rightarrow> bool" where
  "is_statement_of h (InsertStatement x sid sql m i prepared e) \<longleftrightarrow> x = h"
| "is_statement_of h w \<longleftrightarrow> False"

definition statement_records :: "string \<Rightarrow> instr_manager option \<Rightarrow> nat" where
  "statement_records h mo =
     (case mo of None \<Rightarrow> 0 | Some m \<Rightarrow> length (filter (is_statement_of h) (mgr_queue m)))"

definition recording :: "('c, 'db) world \<Rightarrow> bool" where
  "recording w \<longleftrightarrow> w_server w \<and> (\<exists>m. srv_instr (w_reg w) = Some m \<and> accepting m)"

definition records_of :: "create_args \<Rightarrow> ('c, 'db) world \<Rightarrow> nat" where
  "records_of a w = statement_records (ca_handle a) (srv_instr (w_reg w))"

lemma insert_counts:
  assumes "accepting m"
  shows "\<exists>m'. StatementInstrumentation (Some m) h sid sql me i e = Some m' \<and> accepting m'
    \<and> statement_records h (Some m') = statement_records h (Some m) + 1"
  using assms
  by (simp add: StatementInstrumentation_def queue_if_set_def QueueWrite_def accepting_def
      statement_records_def)

lemma record_statement_counts:
  assumes "recording w"
  shows "recording (record_statement a e w) \<and> records_of a (record_statement a e w) = records_of a w + 1"
proof -
  obtain m where m: "srv_instr (w_reg w) = Some m" "accepting m" "w_server w"
    using assms by (auto simp: recording_def)
  obtain m' where m': "audit (session_of (ca_session a) w) (ident_of a) e (Some m) = Some m'" "accepting m'"
    "statement_records (ca_handle a) (Some m') = statement_records (ca_handle a) (Some m) + 1"
    using insert_counts [OF m(2), of "ca_handle a"] by (force simp: audit_def ident_of_def)
  then show ?thesis
    using m by (simp add: record_statement_def instr_mgr_def set_instr_def recording_def records_of_def)
qed

lemma recording_mgr: "recording w \<Longrightarrow> instr_mgr w \<noteq> None"
  by (auto simp: recording_def instr_mgr_def)

lemma attach_counts:
  assumes "recording w" and "attach_instrumentation a st w = (r, w')"
  shows "is_ok r \<and> recording w' \<and> records_of a w' = records_of a w + 1"
  using assms record_statement_counts [OF assms(1), of a "[]"] recording_mgr [OF assms(1)]
  by (auto simp: attach_instrumentation_def)

lemma recording_set_active [simp]:
  "recording (set_active p h w) = recording w" "records_of a (set_active p h w) = records_of a w"
  by (simp_all add: recording_def records_of_def)

lemma audited_world:
  "recording w \<Longrightarrow> set_instr (audit (session_of (ca_session a) w) (ident_of a) e (instr_mgr w)) w
     = record_statement a e w"
  by (simp add: record_statement_def)

lemma check_prepared_counts:
  assumes "recording w" and "check_prepared E a p w = (Inl e, w')"
  shows "records_of a w' = records_of a w + 1"
proof -
  have "\<exists>e'. w' = record_statement a e' w"
    using assms
    by (auto simp: check_prepared_def Let_def record_statement_def
        split: prod.splits sum.splits if_splits
        dest: write_check_fail_mgr read_check_fail_mgr write_check_ok_mgr)
  then show ?thesis using record_statement_counts [OF assms(1)] by auto
qed

lemma create_sql_counts:
  assumes "recording w" and "create_sql E a w = (r, w')"
  shows "records_of a w' = records_of a w + 1"
proof (cases "db_prepare E (connection (session_of (ca_session a) w))
             (ReplaceGizmoSQLFunctions (values_of w (ca_session a)) (ca_sql a)) (w_db w)")
  case (Inl err)
  then show ?thesis
    using assms attach_counts [OF assms(1)] record_statement_counts [OF assms(1)]
    by (auto simp: create_sql_def split: if_splits)
next
  case (Inr p)
  obtain r1 w1 where c: "check_prepared E a p w = (r1, w1)" by force
  show ?thesis
  proof (cases r1)
    case (Inl e)
    then show ?thesis
      using assms Inr c check_prepared_counts [OF assms(1)] by (auto simp: create_sql_def)
  next
    case (Inr u)
    have "w1 = w" using c Inr by (auto dest: check_prepared_world)
    then show ?thesis
      using assms \<open>db_prepare E _ _ _ = Inr p\<close> Inr c attach_counts [OF assms(1)]
      by (auto simp: create_sql_def)
  qed
qed

lemma run_kill_counts:
  assumes "recording w" and "run_kill a target w = (r, w')"
  shows "recording w' \<and> records_of a w' = records_of a w + 1"
proof -
  obtain m where m: "srv_instr (w_reg w) = Some m" "accepting m" "w_server w"
    using assms(1) by (auto simp: recording_def)
  obtain r1 reg where k: "HandleKillSession (IsKillSessionAvailable (w_now w) (w_license w)) (w_server w)
      (kill_of a target) ((w_reg w)\<lparr>srv_instr := instr_mgr w\<rparr>) = (r1, reg)" by force
  have "\<exists>e. srv_instr reg = StatementInstrumentation (Some m) (ca_handle a)
      (session_id (objs (w_reg w) ! ca_session a)) (redact_sql_for_logs (ca_sql a)) (ca_method a) (ca_internal a) e"
    using kill_session_instr [OF k] m by (auto simp: kill_of_def instr_mgr_def)
  then obtain m' where "srv_instr reg = Some m'" "accepting m'"
    "statement_records (ca_handle a) (Some m') = statement_records (ca_handle a) (Some m) + 1"
    using insert_counts [OF m(2)] by metis
  moreover have "w_reg w' = reg\<lparr>srv_instr := srv_instr reg\<rparr>" "w_server w'"
    using assms(2) k m(3) by (auto simp: run_kill_def Let_def)
  ultimately show ?thesis
    using m by (simp add: recording_def records_of_def)
qed

text \<open>
  C33: Every statement a client tries to create leaves its trace: with instrumentation on, each call of
  Create, whether it succeeds or is refused (by the DETACH guard, the access checks, the read-only role
  or the parser), queues exactly one record with the call's statement id. Only a successful KILL SESSION
  queues two with the same id.
\<close>

theorem every_create_is_recorded:
  assumes "recording w" and "Create E a w = (r, w')"
  shows "records_of a w' = records_of a w
    + (if IsKillSessionCommand (ca_sql a) \<noteq> None \<and> is_ok r then 2 else 1)"
proof -
  let ?w1 = "set_active (ca_session a) (ca_handle a) w"
  have server: "w_server w" and rec: "recording ?w1" using assms(1) by (simp_all add: recording_def)
  obtain l where l: "(case ca_log_level a of Some l \<Rightarrow> ok l
      | None \<Rightarrow> GetSessionOrServerLogLevel (ca_session a) w) = ok l"
    using log_level_found [OF server] by blast
  let ?det = "IsDetachInstrumentationDb (ca_sql a) (case instr_mgr ?w1 of None \<Rightarrow> [] | Some m \<Rightarrow> mgr_catalog m)"
  have body: "(r, w') = (if ?det then (fail Invalid detach_msg, record_statement a detach_msg ?w1)
      else case IsKillSessionCommand (ca_sql a) of Some target \<Rightarrow> create_kill a l target ?w1
        | None \<Rightarrow> if IsLikelyGizmoSQLSet (ca_sql a)
            then attach_instrumentation a ((direct_statement a (Some l))\<lparr>ds_admin := True\<rparr>) ?w1
            else create_sql E a ?w1)"
    using assms(2) unfolding Create_def l by (simp add: Let_def)
  show ?thesis
  proof (cases ?det)
    case True
    then show ?thesis using body record_statement_counts [OF rec, of a detach_msg] by simp
  next
    case nodet: False
    show ?thesis
    proof (cases "IsKillSessionCommand (ca_sql a)")
      case None
      then show ?thesis
      proof (cases "IsLikelyGizmoSQLSet (ca_sql a)")
        case True
        then have "attach_instrumentation a ((direct_statement a (Some l))\<lparr>ds_admin := True\<rparr>) ?w1 = (r, w')"
          using body nodet None by simp
        from attach_counts [OF rec this] show ?thesis using None by simp
      next
        case False
        then have "create_sql E a ?w1 = (r, w')" using body nodet None by simp
        from create_sql_counts [OF rec this] show ?thesis using None by simp
      qed
    next
      case (Some target)
      obtain r1 w1 where k: "run_kill a target ?w1 = (r1, w1)" by force
      have counts: "recording w1" "records_of a w1 = records_of a w + 1"
        using run_kill_counts [OF rec k] by simp_all
      show ?thesis
      proof (cases r1)
        case (Inl e)
        then show ?thesis using body nodet Some k counts by (simp add: create_kill_def)
      next
        case (Inr u)
        then have "\<exists>st. attach_instrumentation a st w1 = (r, w')"
          using body nodet Some k by (auto simp: create_kill_def Let_def)
        then obtain st where "attach_instrumentation a st w1 = (r, w')" by blast
        from attach_counts [OF counts(1) this] counts(2) Some show ?thesis by simp
      qed
    qed
  qed
qed

definition recording_world :: "string \<Rightarrow> (unit, string list) world" where
  "recording_world rl = (log_world rl)\<lparr>w_reg := (w_reg (log_world rl))\<lparr>srv_instr := Some sample_manager\<rparr>\<rparr>"

theorem every_create_is_recorded_witness:
  "records_of (log_args ''DETACH _gizmosql_instr'')
     (snd (Create log_engine (log_args ''DETACH _gizmosql_instr'') (recording_world ''admin''))) = 1"
proof -
  obtain r w' where c: "Create log_engine (log_args ''DETACH _gizmosql_instr'') (recording_world ''admin'') = (r, w')"
    by force
  have "recording (recording_world ''admin'')"
    by (simp add: recording_def recording_world_def accepting_def sample_manager_def)
  moreover have "IsKillSessionCommand ''DETACH _gizmosql_instr'' = None" by code_simp
  moreover have "records_of (log_args ''DETACH _gizmosql_instr'') (recording_world ''admin'') = 0"
    by (simp add: records_of_def statement_records_def recording_world_def sample_manager_def)
  ultimately have "records_of (log_args ''DETACH _gizmosql_instr'') w' = 1"
    using every_create_is_recorded [OF _ c] by simp
  then show ?thesis by (simp only: c snd_conv)
qed

section \<open>A reader runs its statement once\<close>

fun read_many ::
    "('c, 'db, 'p, 'r) engine \<Rightarrow> exec_env list \<Rightarrow> ('p, 'r) batch_reader \<Rightarrow> ('c, 'db) world
     \<Rightarrow> ('p, 'r) batch_reader \<times> ('c, 'db) world" where
  "read_many E [] br w = (br, w)"
| "read_many E (ev # evs) br w =
     (case ReadNext E ev br w of (_, br', w') \<Rightarrow> read_many E evs br' w')"

lemma FetchResult_prepared:
  assumes "\<not> ds_direct st" and "FetchResult E ev st w = (r, st', w')"
  shows "\<not> ds_direct st' \<and> w_db w' = w_db w"
proof -
  have "\<not> ds_direct (fst (snd (GetSchema E ev st w))) \<and> snd (snd (GetSchema E ev st w)) = w"
    using assms(1) by (simp add: GetSchema_def ComputeSchema_def split: option.split)
  then show ?thesis
    using assms by (auto simp: FetchResult_def split: option.splits sum.splits prod.splits)
qed

lemma fetch_and_count_prepared:
  assumes "\<not> ds_direct st" and "fetch_and_count E ev st w = (r, st', w')"
  shows "\<not> ds_direct st' \<and> w_db w' = w_db w"
proof -
  obtain r1 st1 w1 where f: "FetchResult E ev st w = (r1, st1, w1)"
    by (cases "FetchResult E ev st w") auto
  have keep: "\<not> ds_direct st1" "w_db w1 = w_db w" using FetchResult_prepared [OF assms(1) f] by simp_all
  show ?thesis
  proof (cases "\<exists>b. r1 = Inr (Some b)")
    case True
    then obtain b :: result_batch where "exec_record (\<lambda>x mo. (IncrementRowsFetched (int (length (rb_rows b))) x, mo)) st1 w1
        = (st', w')"
      using assms(2) f by (auto simp: fetch_and_count_def)
    then show ?thesis
      using keep exec_record_simps(1,6) [where st = st1 and w = w1] by (metis fst_conv snd_conv)
  next
    case False
    then show ?thesis
      using assms(2) f keep by (auto simp: fetch_and_count_def split: sum.splits option.splits)
  qed
qed

lemma ReadNext_executed:
  assumes "br_executed br" and "\<not> ds_direct (br_statement br)" and "ReadNext E ev br w = (r, br', w')"
  shows "br_executed br' \<and> \<not> ds_direct (br_statement br') \<and> w_db w' = w_db w"
proof -
  obtain r1 st1 w1 where f: "fetch_and_count E ev (br_statement br) w = (r1, st1, w1)"
    by (cases "fetch_and_count E ev (br_statement br) w") auto
  from fetch_and_count_prepared [OF assms(2) f] show ?thesis
    using assms f by (auto simp: ReadNext_def)
qed

lemma read_many_executed:
  "br_executed br \<Longrightarrow> \<not> ds_direct (br_statement br) \<Longrightarrow> read_many E evs br w = (br', w') \<Longrightarrow> w_db w' = w_db w"
proof (induction evs arbitrary: br w)
  case (Cons ev evs)
  obtain r br1 w1 where n: "ReadNext E ev br w = (r, br1, w1)" by (cases "ReadNext E ev br w") auto
  from ReadNext_executed [OF Cons.prems(1,2) n] Cons.IH [of br1 w1] Cons.prems(3) n show ?case by simp
qed simp

lemma Execute_prepared_db:
  assumes "w_server w" and "ds_stmt st = Some p" and "\<not> ds_direct st" and "\<not> ds_admin st" and "\<not> ev_slow ev"
    and "db_execute E (conn_of st w) p (bind_parameters st) (w_db w) = (Inr x, d)"
  shows "\<exists>st' w'. Execute E ev st w = (ok 0, st', w') \<and> w_db w' = d \<and> \<not> ds_direct st'"
proof -
  obtain st1 w1 where b: "begin_exec E ev st w = (st1, w1)" by force
  have b': "w_db w1 = w_db w" "conn_of st1 w1 = conn_of st w" "\<not> ds_direct st1" "ds_stmt st1 = Some p"
    "bind_parameters st1 = bind_parameters st"
    using begin_exec_simps [where E = E and ev = ev and st = st and w = w] begin_exec_conn [of E ev st w]
      assms(2,3) by (simp_all add: b)
  show ?thesis
    using assms(4-6) b' run_worker_prepared [of st1 p E w1]
    by (simp add: Execute_starts [OF assms(1)] b execute_query_in_time)
qed

text \<open>
  However many batches a client reads, the statement behind its stream is executed once: after any
  positive number of reads the database is in the state that one execution with the bound parameters
  leaves.
\<close>

theorem reader_executes_once:
  assumes "w_server w" and "ds_stmt (br_statement br) = Some p" and "\<not> ds_direct (br_statement br)"
    and "\<not> ds_admin (br_statement br)" and "\<not> br_executed br" and "\<not> ev_slow ev"
    and "db_execute E (conn_of (br_statement br) w) p (bind_parameters (br_statement br)) (w_db w) = (Inr x, d)"
  shows "w_db (snd (read_many E (ev # evs) br w)) = d"
proof -
  obtain st1 w1 where e: "Execute E ev (br_statement br) w = (ok 0, st1, w1)" "w_db w1 = d" "\<not> ds_direct st1"
    using Execute_prepared_db [OF assms(1-4,6,7)] by blast
  let ?br = "br\<lparr>br_statement := st1, br_executed := True\<rparr>"
  have "ReadNext E ev br w = ReadNext E ev ?br w1"
    using assms(5) e(1) by (simp add: ReadNext_def)
  moreover obtain r br1 w2 where n: "ReadNext E ev ?br w1 = (r, br1, w2)"
    by (cases "ReadNext E ev ?br w1") auto
  moreover have "br_executed br1 \<and> \<not> ds_direct (br_statement br1) \<and> w_db w2 = d"
    using ReadNext_executed [OF _ _ n] e by simp
  moreover obtain br2 w3 where "read_many E evs br1 w2 = (br2, w3)" by force
  ultimately show ?thesis using read_many_executed [of br1 E evs w2 br2 w3] by simp
qed

theorem reader_executes_once_witness:
  "w_db (snd (read_many log_engine [quick, quick, quick]
      \<lparr>br_statement = prepared_statement log_engine (log_args ''SELECT 1'') ''SELECT 1'', br_schema = [],
       br_executed = False\<rparr> (log_world ''user''))) = [''SELECT 1'']"
proof (rule reader_executes_once)
  show "db_execute log_engine
      (conn_of (br_statement \<lparr>br_statement = prepared_statement log_engine (log_args ''SELECT 1'') ''SELECT 1'',
          br_schema = [], br_executed = False\<rparr>) (log_world ''user'')) ''SELECT 1''
      (bind_parameters (br_statement \<lparr>br_statement = prepared_statement log_engine (log_args ''SELECT 1'') ''SELECT 1'',
          br_schema = [], br_executed = False\<rparr>)) (w_db (log_world ''user'')) = (Inr (), [''SELECT 1''])"
    by (simp add: log_engine_def db_execute_def)
qed simp_all

end
