(* ===== verification/Metadata.thy ===== *)
theory Metadata
  imports ArrowTypes
begin

text \<open>
  The SQL texts that the metadata commands of \<open>src/src/duckdb/duckdb_server.cpp\<close> build
  (\<open>GetDbSchemas\<close>, \<open>GetTables\<close>, the key commands, \<open>TableExists\<close>), each with the values it binds to its
  placeholders. The theorem at the end says what DuckDB is asked once the values are in place: every
  optional field of the request restricts the column it names, in whatever combination the fields are
  given, and no name or pattern of the client becomes SQL text.
\<close>

section \<open>Texts with bound values\<close>

type_synonym bound_sql = "string \<times> duckdb_value list"

definition emit :: "string \<Rightarrow> bound_sql \<Rightarrow> bound_sql" where
  "emit t Q = (fst Q @ t, snd Q)"

definition emit_bound :: "string \<Rightarrow> string \<Rightarrow> bound_sql \<Rightarrow> bound_sql" where
  "emit_bound t v Q = (fst Q @ t, snd Q @ [DVarchar v])"

text \<open>The shape all commands share: a placeholder when the field is given, another text when not.\<close>

definition emit_option :: "string option \<Rightarrow> string \<Rightarrow> string \<Rightarrow> bound_sql \<Rightarrow> bound_sql" where
  "emit_option v given absent Q = (case v of Some s \<Rightarrow> emit_bound given s Q | None \<Rightarrow> emit absent Q)"

section \<open>Schemas and tables\<close>

record get_db_schemas =
  gs_catalog :: "string option"
  gs_schema_pattern :: "string option"

definition db_schemas_query :: "get_db_schemas \<Rightarrow> bound_sql" where
  "db_schemas_query c =
     (let q1 = (''SELECT catalog_name, schema_name AS db_schema_name FROM ''
                @ ''information_schema.schemata WHERE 1 = 1'', []);
          q2 = emit '' AND catalog_name = '' q1;
          q3 = emit_option (gs_catalog c) ''?'' ''CURRENT_DATABASE()'' q2;
          q4 = emit_option (gs_schema_pattern c) '' AND schema_name LIKE ?'' [] q3
      in emit '' ORDER BY catalog_name, db_schema_name'' q4)"

record get_tables =
  gt_catalog :: "string option"
  gt_schema_pattern :: "string option"
  gt_table_pattern :: "string option"
  gt_types :: "string list"
  gt_include_schema :: bool

text \<open>The loop over the table types; the comma is left out after the last.\<close>

fun emit_types :: "string list \<Rightarrow> bound_sql \<Rightarrow> bound_sql" where
  "emit_types [] Q = Q"
| "emit_types (t # ts) Q =
     emit_types ts (if ts \<noteq> [] then emit '','' (emit_bound ''?'' t Q) else emit_bound ''?'' t Q)"

definition tables_select :: string where
  "tables_select =
     ''SELECT table_catalog as catalog_name, table_schema as db_schema_name, table_name, table_type ''
       @ ''FROM information_schema.tables where 1=1''"

definition PrepareQueryForGetTables :: "get_tables \<Rightarrow> bound_sql" where
  "PrepareQueryForGetTables c =
     (let q1 = (tables_select, []);
          q2 = emit '' and table_catalog '' q1;
          q3 = emit_option (gt_catalog c) ''LIKE ?'' ''= CURRENT_DATABASE()'' q2;
          q4 = emit_option (gt_schema_pattern c) '' and table_schema LIKE ?'' [] q3;
          q5 = emit_option (gt_table_pattern c) '' and table_name LIKE ?'' [] q4;
          q6 = (if gt_types c \<noteq> []
                then emit '')'' (emit_types (gt_types c) (emit '' and table_type IN ('' q5))
                else q5)
      in emit '' order by table_name'' q6)"

text \<open>\<open>TableExists\<close>: the lookup an ingest starts with.\<close>

definition table_exists_query :: "string option \<Rightarrow> string option \<Rightarrow> string \<Rightarrow> bound_sql" where
  "table_exists_query catalog_name schema_name table_name =
     (let q1 = (''SELECT 1 FROM information_schema.tables WHERE 1 = 1 '', []);
          q2 = emit_option catalog_name ''AND table_catalog = ? ''
                 ''AND table_catalog = CURRENT_DATABASE() '' q1;
          q3 = emit_option schema_name ''AND table_schema = ? ''
                 ''AND table_schema = CURRENT_SCHEMA() '' q2
      in emit_bound ''  AND table_name = ? LIMIT 1'' table_name q3)"

section \<open>Keys\<close>

record table_ref =
  tr_catalog :: "string option"
  tr_schema :: "string option"
  tr_table :: string

definition primary_keys_select :: string where
  "primary_keys_select =
     ''SELECT database_name AS catalog_name'' @ [newline] @ ''     , schema_name'' @ [newline]
     @ ''     , table_name'' @ [newline] @ ''     , column_name'' @ [newline]
     @ ''     , column_index + 1 AS key_sequence'' @ [newline] @ ''     , constraint_name  AS key_name''
     @ [newline] @ ''   FROM (SELECT dc.*'' @ [newline]
     @ ''              , UNNEST(dc.constraint_column_indexes) AS column_index'' @ [newline]
     @ ''              , UNNEST(dc.constraint_column_names) AS column_name'' @ [newline]
     @ ''           FROM duckdb_constraints() AS dc'' @ [newline]
     @ ''          WHERE constraint_type = '' @ [squote] @ ''PRIMARY KEY'' @ [squote] @ [newline]
     @ ''        ) WHERE 1 = 1''"

definition primary_keys_query :: "table_ref \<Rightarrow> bound_sql" where
  "primary_keys_query r =
     (let q1 = (primary_keys_select, []);
          q2 = emit '' AND catalog_name = '' q1;
          q3 = emit_option (tr_catalog r) ''?'' ''CURRENT_DATABASE()'' q2;
          q4 = emit_option (tr_schema r) '' and schema_name LIKE ?'' [] q3
      in emit_bound '' and table_name LIKE ?'' (tr_table r) q4)"

definition keys_select :: string where
  "keys_select =
     ''SELECT * FROM ('' @ [newline]
     @ ''               SELECT fk.database_name                                                                         AS pk_catalog_name,''
     @ [newline]
     @ ''                      fk.schema_name                                                                           AS pk_schema_name,''
     @ [newline]
     @ ''                      fk.referenced_table                                                                      AS pk_table_name,''
     @ [newline]
     @ ''                      UNNEST(fk.referenced_column_names)                                                       AS pk_column_name,''
     @ [newline]
     @ ''                      fk.database_name                                                                         AS fk_catalog_name,''
     @ [newline]
     @ ''                      fk.schema_name                                                                           AS fk_schema_name,''
     @ [newline]
     @ ''                      fk.table_name                                                                            AS fk_table_name,''
     @ [newline]
     @ ''                      UNNEST(fk.constraint_column_names)                                                       AS fk_column_name,''
     @ [newline]
     @ ''                      UNNEST(fk.constraint_column_indexes)                                                     AS key_sequence,''
     @ [newline]
     @ ''                      fk.constraint_name                                                                       AS fk_key_name,''
     @ [newline]
     @ ''                      pk.constraint_name                                                                       AS pk_key_name,''
     @ [newline]
     @ ''                      1                                                                                        AS update_rule, /* DuckDB only supports RESTRICT */''
     @ [newline]
     @ ''                      1                                                                                        AS delete_rule /* DuckDB only supports RESTRICT */''
     @ [newline] @ ''               FROM duckdb_constraints() AS fk'' @ [newline]
     @ ''                  JOIN'' @ [newline] @ ''                    duckdb_constraints() AS pk''
     @ [newline] @ ''                  ON (fk.referenced_table = pk.table_name'' @ [newline]
     @ ''                      AND fk.constraint_type = '' @ [squote] @ ''FOREIGN KEY'' @ [squote]
     @ [newline] @ ''                      AND pk.constraint_type = '' @ [squote] @ ''PRIMARY KEY''
     @ [squote] @ [newline] @ ''                     )'' @ [newline] @ ''            ) WHERE ''"

definition keys_order :: string where
  "keys_order =
     '' ORDER BY'' @ [newline]
     @ ''  pk_catalog_name, pk_schema_name, pk_table_name, pk_key_name, key_sequence''"

definition PrepareQueryForGetImportedOrExportedKeys :: "bound_sql \<Rightarrow> bound_sql" where
  "PrepareQueryForGetImportedOrExportedKeys filter_sql =
     (keys_select @ fst filter_sql @ keys_order, snd filter_sql)"

definition imported_keys_query :: "table_ref \<Rightarrow> bound_sql" where
  "imported_keys_query r =
     (let q1 = emit_bound ''fk_table_name = ?'' (tr_table r) ([], []);
          q2 = emit '' AND fk_catalog_name = '' q1;
          q3 = emit_option (tr_catalog r) ''?'' ''CURRENT_DATABASE()'' q2;
          q4 = emit_option (tr_schema r) '' AND fk_schema_name = ?'' [] q3
      in PrepareQueryForGetImportedOrExportedKeys q4)"

definition exported_keys_query :: "table_ref \<Rightarrow> bound_sql" where
  "exported_keys_query r =
     (let q1 = emit_bound ''pk_table_name = ?'' (tr_table r) ([], []);
          q2 = emit '' AND pk_catalog_name = '' q1;
          q3 = emit_option (tr_catalog r) ''?'' ''CURRENT_DATABASE()'' q2;
          q4 = emit_option (tr_schema r) '' AND pk_schema_name = ?'' [] q3
      in PrepareQueryForGetImportedOrExportedKeys q4)"

definition cross_reference_query :: "table_ref \<Rightarrow> table_ref \<Rightarrow> bound_sql" where
  "cross_reference_query pk fk =
     (let q1 = emit_bound ''pk_table_name = ?'' (tr_table pk) ([], []);
          q2 = emit '' AND pk_catalog_name = '' q1;
          q3 = emit_option (tr_catalog pk) ''?'' ''CURRENT_DATABASE()'' q2;
          q4 = emit_option (tr_schema pk) '' AND pk_schema_name = ?'' [] q3;
          q5 = emit_bound '' AND fk_table_name = ?'' (tr_table fk) q4;
          q6 = emit '' AND fk_catalog_name = '' q5;
          q7 = emit_option (tr_catalog fk) ''?'' ''CURRENT_DATABASE()'' q6;
          q8 = emit_option (tr_schema fk) '' AND fk_schema_name = ?'' [] q7
      in PrepareQueryForGetImportedOrExportedKeys q8)"

section \<open>The commands\<close>

datatype metadata_command =
    GetCatalogs | GetDbSchemas get_db_schemas | GetTableTypes | GetTables get_tables
  | GetPrimaryKeys table_ref | GetImportedKeys table_ref | GetExportedKeys table_ref
  | GetCrossReference table_ref table_ref

definition catalogs_query :: string where
  "catalogs_query = ''SELECT DISTINCT catalog_name FROM information_schema.schemata ORDER BY catalog_name''"

definition table_types_query :: string where
  "table_types_query =
     ''SELECT * FROM VALUES ('' @ [squote] @ ''BASE TABLE'' @ [squote] @ ''), ('' @ [squote]
       @ ''LOCAL TEMPORARY'' @ [squote] @ ''), ('' @ [squote] @ ''VIEW'' @ [squote]
       @ '') AS table_types (table_type)''"

fun metadata_query :: "metadata_command \<Rightarrow> bound_sql" where
  "metadata_query GetCatalogs = (catalogs_query, [])"
| "metadata_query (GetDbSchemas c) = db_schemas_query c"
| "metadata_query GetTableTypes = (table_types_query, [])"
| "metadata_query (GetTables c) = PrepareQueryForGetTables c"
| "metadata_query (GetPrimaryKeys r) = primary_keys_query r"
| "metadata_query (GetImportedKeys r) = imported_keys_query r"
| "metadata_query (GetExportedKeys r) = exported_keys_query r"
| "metadata_query (GetCrossReference pk fk) = cross_reference_query pk fk"

section \<open>What DuckDB is asked\<close>

text \<open>A text with its placeholders replaced, in order, by the bound values as \<open>L\<close> writes them.\<close>

fun fill :: "(duckdb_value \<Rightarrow> string) \<Rightarrow> string \<Rightarrow> duckdb_value list \<Rightarrow> string" where
  "fill L [] vs = []"
| "fill L (c # cs) vs =
     (if c = CHR ''?'' then (case vs of [] \<Rightarrow> c # fill L cs [] | v # vs' \<Rightarrow> L v @ fill L cs vs')
      else c # fill L cs vs)"

definition placeholders :: "string \<Rightarrow> nat" where
  "placeholders q = length (filter (\<lambda>c. c = CHR ''?'') q)"

definition fills :: "(duckdb_value \<Rightarrow> string) \<Rightarrow> bound_sql \<Rightarrow> string \<Rightarrow> bool" where
  "fills L Q t \<longleftrightarrow> placeholders (fst Q) = length (snd Q) \<and> fill L (fst Q) (snd Q) = t"

lemma placeholders_append [simp]: "placeholders (a @ b) = placeholders a + placeholders b"
  by (simp add: placeholders_def)

lemma placeholders_simps [simp]:
  "placeholders [] = 0"
  "placeholders (c # cs) = (if c = CHR ''?'' then Suc (placeholders cs) else placeholders cs)"
  by (simp_all add: placeholders_def)

lemma fill_append:
  "placeholders a = length vs \<Longrightarrow> fill L (a @ b) (vs @ ws) = fill L a vs @ fill L b ws"
  by (induction a arbitrary: vs) (auto simp: Suc_length_conv)

lemma fill_plain: "placeholders a = 0 \<Longrightarrow> fill L a [] = a"
  by (induction a) (auto simp: split: if_splits)

lemma fills_nil: "placeholders a = 0 \<Longrightarrow> fills L (a, []) a"
  by (simp add: fills_def fill_plain)

lemma fills_emit: "fills L Q t \<Longrightarrow> placeholders a = 0 \<Longrightarrow> fills L (emit a Q) (t @ a)"
  using fill_append [of "fst Q" "snd Q" L a "[]"] by (simp add: fills_def emit_def fill_plain)

declare fill.simps [simp del]

lemma fills_bound:
  assumes "fills L Q t" and "placeholders a = 0" and "placeholders b = 0"
  shows "fills L (emit_bound (a @ ''?'' @ b) v Q) (t @ a @ L (DVarchar v) @ b)"
proof -
  have "fill L (a @ ''?'' @ b) [DVarchar v] = a @ L (DVarchar v) @ b"
    using fill_append [of a "[]" L "''?'' @ b" "[DVarchar v]"] assms(2,3)
    by (simp add: fill_plain fill.simps(2))
  then show ?thesis
    using assms fill_append [of "fst Q" "snd Q" L "a @ ''?'' @ b" "[DVarchar v]"]
    by (simp add: fills_def emit_bound_def)
qed

text \<open>The restrictions a command places on the rows, as the requests mean them.\<close>

datatype restriction = Like string | Equals string | Current string | OneOf "string list"

type_synonym condition = "string \<times> string \<times> restriction"

fun comma_list :: "string list \<Rightarrow> string" where
  "comma_list [] = []"
| "comma_list (t # ts) = t @ (if ts = [] then [] else '','' @ comma_list ts)"

fun restriction_text :: "(duckdb_value \<Rightarrow> string) \<Rightarrow> restriction \<Rightarrow> string" where
  "restriction_text L (Like v) = '' LIKE '' @ L (DVarchar v)"
| "restriction_text L (Equals v) = '' = '' @ L (DVarchar v)"
| "restriction_text L (Current f) = '' = '' @ f"
| "restriction_text L (OneOf vs) = '' IN ('' @ comma_list (map (L \<circ> DVarchar) vs) @ '')''"

definition condition_text :: "(duckdb_value \<Rightarrow> string) \<Rightarrow> condition \<Rightarrow> string" where
  "condition_text L c = (case c of (connective, column, r) \<Rightarrow> connective @ column @ restriction_text L r)"

definition conditions_text :: "(duckdb_value \<Rightarrow> string) \<Rightarrow> condition list \<Rightarrow> string" where
  "conditions_text L cs = concat (map (condition_text L) cs)"

definition if_given :: "string \<Rightarrow> string \<Rightarrow> (string \<Rightarrow> restriction) \<Rightarrow> string option \<Rightarrow> condition list" where
  "if_given connective column f v = (case v of None \<Rightarrow> [] | Some s \<Rightarrow> [(connective, column, f s)])"

definition or_current ::
    "string \<Rightarrow> string \<Rightarrow> (string \<Rightarrow> restriction) \<Rightarrow> string \<Rightarrow> string option \<Rightarrow> condition list" where
  "or_current connective column f current v =
     [(connective, column, case v of None \<Rightarrow> Current current | Some s \<Rightarrow> f s)]"

fun meaning :: "metadata_command \<Rightarrow> string \<times> condition list \<times> string" where
  "meaning GetCatalogs = (catalogs_query, [], [])"
| "meaning (GetDbSchemas c) =
     (''SELECT catalog_name, schema_name AS db_schema_name FROM information_schema.schemata WHERE 1 = 1'',
      or_current '' AND '' ''catalog_name'' Equals ''CURRENT_DATABASE()'' (gs_catalog c)
        @ if_given '' AND '' ''schema_name'' Like (gs_schema_pattern c),
      '' ORDER BY catalog_name, db_schema_name'')"
| "meaning GetTableTypes = (table_types_query, [], [])"
| "meaning (GetTables c) =
     (tables_select,
      or_current '' and '' ''table_catalog'' Like ''CURRENT_DATABASE()'' (gt_catalog c)
        @ if_given '' and '' ''table_schema'' Like (gt_schema_pattern c)
        @ if_given '' and '' ''table_name'' Like (gt_table_pattern c)
        @ (if gt_types c = [] then [] else [('' and '', ''table_type'', OneOf (gt_types c))]),
      '' order by table_name'')"
| "meaning (GetPrimaryKeys r) =
     (primary_keys_select,
      or_current '' AND '' ''catalog_name'' Equals ''CURRENT_DATABASE()'' (tr_catalog r)
        @ if_given '' and '' ''schema_name'' Like (tr_schema r)
        @ [('' and '', ''table_name'', Like (tr_table r))], [])"
| "meaning (GetImportedKeys r) =
     (keys_select,
      ([], ''fk_table_name'', Equals (tr_table r))
        # or_current '' AND '' ''fk_catalog_name'' Equals ''CURRENT_DATABASE()'' (tr_catalog r)
        @ if_given '' AND '' ''fk_schema_name'' Equals (tr_schema r), keys_order)"
| "meaning (GetExportedKeys r) =
     (keys_select,
      ([], ''pk_table_name'', Equals (tr_table r))
        # or_current '' AND '' ''pk_catalog_name'' Equals ''CURRENT_DATABASE()'' (tr_catalog r)
        @ if_given '' AND '' ''pk_schema_name'' Equals (tr_schema r), keys_order)"
| "meaning (GetCrossReference pk fk) =
     (keys_select,
      ([], ''pk_table_name'', Equals (tr_table pk))
        # or_current '' AND '' ''pk_catalog_name'' Equals ''CURRENT_DATABASE()'' (tr_catalog pk)
        @ if_given '' AND '' ''pk_schema_name'' Equals (tr_schema pk)
        @ ('' AND '', ''fk_table_name'', Equals (tr_table fk))
        # or_current '' AND '' ''fk_catalog_name'' Equals ''CURRENT_DATABASE()'' (tr_catalog fk)
        @ if_given '' AND '' ''fk_schema_name'' Equals (tr_schema fk), keys_order)"

definition meaning_text :: "(duckdb_value \<Rightarrow> string) \<Rightarrow> string \<times> condition list \<times> string \<Rightarrow> string" where
  "meaning_text L m = (case m of (sel, cs, post) \<Rightarrow> sel @ conditions_text L cs @ post)"

lemma conditions_text_simps [simp]:
  "conditions_text L [] = []"
  "conditions_text L (c # cs) = condition_text L c @ conditions_text L cs"
  "conditions_text L (cs @ ds) = conditions_text L cs @ conditions_text L ds"
  by (simp_all add: conditions_text_def)

text \<open>One step of a builder against one condition of its meaning.\<close>

lemma fills_if_given:
  assumes "fills L Q t" and "given = a @ ''?''" and "placeholders a = 0"
    and "\<And>s. condition_text L (connective, column, f s) = a @ L (DVarchar s)"
  shows "fills L (emit_option v given [] Q) (t @ conditions_text L (if_given connective column f v))"
proof (cases v)
  case None
  then show ?thesis using fills_emit [OF assms(1), of "[]"]
    by (simp add: emit_option_def if_given_def)
next
  case (Some s)
  then show ?thesis using fills_bound [OF assms(1,3), of "[]" s] assms(2,4)
    by (simp add: emit_option_def if_given_def)
qed

lemma fills_or_current:
  assumes "fills L Q t" and "pre @ given = a @ ''?'' @ b" and "placeholders (a @ b) = 0"
    and "pre @ absent = c @ b" and "placeholders c = 0"
    and "\<And>s. condition_text L (connective, column, f s) = a @ L (DVarchar s)"
    and "condition_text L (connective, column, Current current) = c"
  shows "fills L (emit_option v given absent (emit pre Q))
      (t @ conditions_text L (or_current connective column f current v) @ b)"
proof (cases v)
  case None
  have "fills L (emit (pre @ absent) Q) (t @ c @ b)"
    using fills_emit [OF assms(1), of "c @ b"] assms(3,4,5) by simp
  then show ?thesis
    using None assms(7) by (simp add: emit_option_def or_current_def emit_def)
next
  case (Some s)
  have "fills L (emit_bound (pre @ given) s Q) (t @ a @ L (DVarchar s) @ b)"
    using fills_bound [OF assms(1), of a b s] assms(2,3) by simp
  then show ?thesis
    using Some assms(6) by (simp add: emit_option_def or_current_def emit_def emit_bound_def)
qed

lemma fills_types:
  "fills L Q t \<Longrightarrow> fills L (emit_types ts Q) (t @ comma_list (map (L \<circ> DVarchar) ts))"
proof (induction ts arbitrary: Q t)
  case (Cons v ts)
  have "fills L (emit_bound ''?'' v Q) (t @ L (DVarchar v))"
    using fills_bound [OF Cons.prems, of "[]" "[]" v] by simp
  then show ?case
    using fills_emit [of L "emit_bound ''?'' v Q" "t @ L (DVarchar v)" "'',''"]
      Cons.IH [of "emit_bound ''?'' v Q" "t @ L (DVarchar v)"]
      Cons.IH [of "emit '','' (emit_bound ''?'' v Q)" "(t @ L (DVarchar v)) @ '',''"]
    by simp
qed simp

lemmas condition_simps = condition_text_def placeholders_simps

lemma fills_db_schemas: "fills L (db_schemas_query c) (meaning_text L (meaning (GetDbSchemas c)))"
proof -
  let ?s = "''SELECT catalog_name, schema_name AS db_schema_name FROM information_schema.schemata WHERE 1 = 1''"
  let ?c1 = "or_current '' AND '' ''catalog_name'' Equals ''CURRENT_DATABASE()'' (gs_catalog c)"
  let ?q1 = "emit_option (gs_catalog c) ''?'' ''CURRENT_DATABASE()'' (emit '' AND catalog_name = '' (?s, []))"
  have s: "fills L (?s, []) ?s" by (rule fills_nil) simp
  have 1: "fills L ?q1 (?s @ conditions_text L ?c1)"
    using fills_or_current [OF s, where a = "'' AND catalog_name = ''" and b = "[]"]
    by (simp add: condition_simps)
  have 2: "fills L (emit_option (gs_schema_pattern c) '' AND schema_name LIKE ?'' [] ?q1)
      ((?s @ conditions_text L ?c1) @ conditions_text L (if_given '' AND '' ''schema_name'' Like (gs_schema_pattern c)))"
    by (rule fills_if_given [OF 1, where a = "'' AND schema_name LIKE ''"]) (simp_all add: condition_simps)
  show ?thesis
    using fills_emit [OF 2, of "'' ORDER BY catalog_name, db_schema_name''"]
    by (simp add: db_schemas_query_def meaning_text_def Let_def)
qed

lemma fills_primary_keys: "fills L (primary_keys_query r) (meaning_text L (meaning (GetPrimaryKeys r)))"
proof -
  let ?c1 = "or_current '' AND '' ''catalog_name'' Equals ''CURRENT_DATABASE()'' (tr_catalog r)"
  let ?c2 = "if_given '' and '' ''schema_name'' Like (tr_schema r)"
  let ?q1 = "emit_option (tr_catalog r) ''?'' ''CURRENT_DATABASE()''
      (emit '' AND catalog_name = '' (primary_keys_select, []))"
  have s: "fills L (primary_keys_select, []) primary_keys_select"
    by (rule fills_nil) (simp add: primary_keys_select_def)
  have 1: "fills L ?q1 (primary_keys_select @ conditions_text L ?c1)"
    using fills_or_current [OF s, where a = "'' AND catalog_name = ''" and b = "[]"]
    by (simp add: condition_simps)
  have 2: "fills L (emit_option (tr_schema r) '' and schema_name LIKE ?'' [] ?q1)
      ((primary_keys_select @ conditions_text L ?c1) @ conditions_text L ?c2)"
    by (rule fills_if_given [OF 1, where a = "'' and schema_name LIKE ''"]) (simp_all add: condition_simps)
  show ?thesis
    using fills_bound [OF 2, of "'' and table_name LIKE ''" "[]" "tr_table r"]
    by (simp add: primary_keys_query_def meaning_text_def Let_def condition_text_def)
qed

text \<open>The filter of the key commands, for either side of a foreign key.\<close>

definition key_conditions :: "string \<Rightarrow> string \<Rightarrow> table_ref \<Rightarrow> condition list" where
  "key_conditions lead side r =
     (lead, side @ ''_table_name'', Equals (tr_table r))
       # or_current '' AND '' (side @ ''_catalog_name'') Equals ''CURRENT_DATABASE()'' (tr_catalog r)
       @ if_given '' AND '' (side @ ''_schema_name'') Equals (tr_schema r)"

lemma fills_key_filter:
  assumes "fills L Q t" and "placeholders lead = 0" and "placeholders side = 0"
  shows "fills L (emit_option (tr_schema r) ('' AND '' @ side @ ''_schema_name = ?'') []
      (emit_option (tr_catalog r) ''?'' ''CURRENT_DATABASE()''
        (emit ('' AND '' @ side @ ''_catalog_name = '')
          (emit_bound (lead @ side @ ''_table_name = ?'') (tr_table r) Q))))
    (t @ conditions_text L (key_conditions lead side r))"
proof -
  have 1: "fills L (emit_bound (lead @ side @ ''_table_name = ?'') (tr_table r) Q)
      (t @ condition_text L (lead, side @ ''_table_name'', Equals (tr_table r)))"
    using fills_bound [OF assms(1), of "lead @ side @ ''_table_name = ''" "[]" "tr_table r"] assms(2,3)
    by (simp add: condition_simps)
  let ?cat = "'' AND '' @ side @ ''_catalog_name = ''" and ?sch = "'' AND '' @ side @ ''_schema_name = ''"
  let ?cur = "'' AND '' @ side @ ''_catalog_name = CURRENT_DATABASE()''"
  have "?cat @ ''?'' = ?cat @ ''?'' @ []" "placeholders (?cat @ []) = 0"
    "?cat @ ''CURRENT_DATABASE()'' = ?cur @ []" "placeholders ?cur = 0"
    "\<And>s. condition_text L ('' AND '', side @ ''_catalog_name'', Equals s) = ?cat @ L (DVarchar s)"
    "condition_text L ('' AND '', side @ ''_catalog_name'', Current ''CURRENT_DATABASE()'') = ?cur"
    by (simp_all add: condition_text_def assms(3))
  note 2 = fills_or_current [OF 1 this, of "tr_catalog r"]
  have "'' AND '' @ side @ ''_schema_name = ?'' = ?sch @ ''?''" "placeholders ?sch = 0"
    "\<And>s. condition_text L ('' AND '', side @ ''_schema_name'', Equals s) = ?sch @ L (DVarchar s)"
    by (simp_all add: condition_text_def assms(3))
  note fills_if_given [OF 2 this, of "tr_schema r"]
  then show ?thesis by (simp only: key_conditions_def conditions_text_simps append_assoc append_Nil append_Cons)
qed

lemma fills_keys:
  assumes "fills L F (conditions_text L cs)"
  shows "fills L (PrepareQueryForGetImportedOrExportedKeys F) (meaning_text L (keys_select, cs, keys_order))"
proof -
  have "placeholders keys_select = 0" "placeholders keys_order = 0"
    by (simp_all add: keys_select_def keys_order_def del: append_Cons append_Nil append_assoc)
  then show ?thesis
    using assms fill_append [of keys_select "[]" L "fst F @ keys_order" "snd F"]
      fill_append [of "fst F" "snd F" L keys_order "[]"]
    by (simp add: fills_def fill_plain PrepareQueryForGetImportedOrExportedKeys_def meaning_text_def)
qed

lemma fills_imported_keys: "fills L (imported_keys_query r) (meaning_text L (meaning (GetImportedKeys r)))"
  using fills_keys [OF fills_key_filter [OF fills_nil, of "[]" "[]" "''fk''" L r, simplified]]
  by (simp add: imported_keys_query_def key_conditions_def Let_def)

lemma fills_exported_keys: "fills L (exported_keys_query r) (meaning_text L (meaning (GetExportedKeys r)))"
  using fills_keys [OF fills_key_filter [OF fills_nil, of "[]" "[]" "''pk''" L r, simplified]]
  by (simp add: exported_keys_query_def key_conditions_def Let_def)

lemma fills_cross_reference:
  "fills L (cross_reference_query pk fk) (meaning_text L (meaning (GetCrossReference pk fk)))"
  using fills_keys [OF fills_key_filter [OF fills_key_filter [OF fills_nil, of "[]" "[]" "''pk''" L pk, simplified],
      of "'' AND ''" "''fk''" fk, simplified, folded conditions_text_simps]]
  by (simp add: cross_reference_query_def key_conditions_def Let_def)

lemma fills_tables: "fills L (PrepareQueryForGetTables c) (meaning_text L (meaning (GetTables c)))"
proof -
  let ?c1 = "or_current '' and '' ''table_catalog'' Like ''CURRENT_DATABASE()'' (gt_catalog c)"
  let ?c2 = "if_given '' and '' ''table_schema'' Like (gt_schema_pattern c)"
  let ?c3 = "if_given '' and '' ''table_name'' Like (gt_table_pattern c)"
  let ?c4 = "if gt_types c = [] then [] else [('' and '', ''table_type'', OneOf (gt_types c))]"
  let ?q1 = "emit_option (gt_catalog c) ''LIKE ?'' ''= CURRENT_DATABASE()'' (emit '' and table_catalog '' (tables_select, []))"
  let ?q2 = "emit_option (gt_schema_pattern c) '' and table_schema LIKE ?'' [] ?q1"
  let ?q3 = "emit_option (gt_table_pattern c) '' and table_name LIKE ?'' [] ?q2"
  let ?q4 = "if gt_types c \<noteq> [] then emit '')'' (emit_types (gt_types c) (emit '' and table_type IN ('' ?q3)) else ?q3"
  have s: "fills L (tables_select, []) tables_select" by (rule fills_nil) (simp add: tables_select_def)
  have 1: "fills L ?q1 (tables_select @ conditions_text L ?c1)"
    using fills_or_current [OF s, where a = "'' and table_catalog LIKE ''" and b = "[]"
        and c = "'' and table_catalog = CURRENT_DATABASE()''"]
    by (simp add: condition_simps)
  have 2: "fills L ?q2 ((tables_select @ conditions_text L ?c1) @ conditions_text L ?c2)"
    by (rule fills_if_given [OF 1, where a = "'' and table_schema LIKE ''"]) (simp_all add: condition_simps)
  have 3: "fills L ?q3 (((tables_select @ conditions_text L ?c1) @ conditions_text L ?c2) @ conditions_text L ?c3)"
    by (rule fills_if_given [OF 2, where a = "'' and table_name LIKE ''"]) (simp_all add: condition_simps)
  let ?t3 = "((tables_select @ conditions_text L ?c1) @ conditions_text L ?c2) @ conditions_text L ?c3"
  have "fills L (emit '')'' (emit_types (gt_types c) (emit '' and table_type IN ('' ?q3)))
      (((?t3 @ '' and table_type IN ('') @ comma_list (map (L \<circ> DVarchar) (gt_types c))) @ '')'')"
    by (intro fills_emit fills_types 3) simp_all
  then have 4: "fills L ?q4 (?t3 @ conditions_text L ?c4)"
    using 3 by (simp add: condition_text_def)
  show ?thesis
    using fills_emit [OF 4, of "'' order by table_name''"]
    by (simp add: PrepareQueryForGetTables_def meaning_text_def Let_def)
qed

lemma fills_table_exists:
  "fills L (table_exists_query cat sch tab)
     (''SELECT 1 FROM information_schema.tables WHERE 1 = 1 ''
      @ conditions_text L (or_current ''AND '' ''table_catalog'' Equals ''CURRENT_DATABASE()'' cat)
      @ '' '' @ conditions_text L (or_current ''AND '' ''table_schema'' Equals ''CURRENT_SCHEMA()'' sch)
      @ '' '' @ conditions_text L [(''  AND '', ''table_name'', Equals tab)] @ '' LIMIT 1'')"
proof -
  let ?s = "''SELECT 1 FROM information_schema.tables WHERE 1 = 1 ''"
  have s: "fills L (?s, []) ?s" by (rule fills_nil) simp
  note 1 = fills_or_current [OF s, where pre = "[]" and a = "''AND table_catalog = ''" and b = "'' ''"
      and given = "''AND table_catalog = ? ''" and absent = "''AND table_catalog = CURRENT_DATABASE() ''"
      and c = "''AND table_catalog = CURRENT_DATABASE()''" and connective = "''AND ''" and column = "''table_catalog''"
      and f = Equals and current = "''CURRENT_DATABASE()''" and v = cat]
  note 2 = fills_or_current [OF 1, where pre = "[]" and a = "''AND table_schema = ''" and b = "'' ''"
      and given = "''AND table_schema = ? ''" and absent = "''AND table_schema = CURRENT_SCHEMA() ''"
      and c = "''AND table_schema = CURRENT_SCHEMA()''" and connective = "''AND ''" and column = "''table_schema''"
      and f = Equals and current = "''CURRENT_SCHEMA()''" and v = sch]
  have e: "emit [] Q = Q" for Q by (simp add: emit_def)
  show ?thesis
    using fills_bound [OF 2, of "''  AND table_name = ''" "'' LIMIT 1''" tab]
    by (simp add: e table_exists_query_def Let_def condition_text_def)
qed

section \<open>Properties\<close>

text \<open>
  C40: Every metadata command asks DuckDB for exactly the rows its fields describe: the text has as many
  placeholders as values are bound, and with the values in place it is the fixed selection restricted,
  for every optional field that is given, by a condition on that field's own column (the catalog falls
  back to the current database), in whatever combination the fields are given. No name or pattern of the
  client is part of the SQL text.
\<close>

theorem metadata_query_means_its_fields:
  "placeholders (fst (metadata_query m)) = length (snd (metadata_query m))
    \<and> fill L (fst (metadata_query m)) (snd (metadata_query m)) = meaning_text L (meaning m)"
proof -
  have plain: "fills L (q, []) (meaning_text L (q, [], []))" if "placeholders q = 0" for q
    using fills_nil [OF that] by (simp add: meaning_text_def)
  have none: "placeholders catalogs_query = 0" "placeholders table_types_query = 0"
    by (simp_all add: catalogs_query_def table_types_query_def)
  have "fills L (metadata_query m) (meaning_text L (meaning m))"
  proof (cases m)
    case GetCatalogs
    then show ?thesis using plain none by simp
  next
    case GetTableTypes
    then show ?thesis using plain none by simp
  qed (simp_all del: meaning.simps add: fills_db_schemas fills_tables fills_primary_keys
        fills_imported_keys fills_exported_keys fills_cross_reference)
  then show ?thesis by (simp add: fills_def)
qed

end
