(* ===== verification/Interfaces.thy ===== *)
theory Interfaces
  imports Prelude
begin

text \<open>
  The interfaces the two backends, DuckDB and SQLite, provide alike, with what follows from their laws alone: the
  handle of a statement ticket, which carries a query and its transaction, and the map of prepared statements.
\<close>

section \<open>Tickets\<close>

text \<open>A ticket gives back its parts as long as the transaction's name has no colon.\<close>

locale ticket_codec =
  fixes encode :: "string \<Rightarrow> string \<Rightarrow> string" and decode :: "string \<Rightarrow> (string \<times> string) result"
  assumes reads_back: "CHR '':'' \<notin> set t \<Longrightarrow> decode (encode q t) = ok (q, t)"
begin

lemma without_transaction: "decode (encode q []) = ok (q, [])"
  by (rule reads_back) simp

lemma tickets_differ:
  "CHR '':'' \<notin> set t \<Longrightarrow> CHR '':'' \<notin> set t' \<Longrightarrow> encode q t = encode q' t' \<longleftrightarrow> q = q' \<and> t = t'"
  by (metis Pair_inject reads_back sum.inject(2))

end

section \<open>Prepared statements\<close>

text \<open>
  A lookup finds the statement of a handle; closing forgets one handle that is known, leaves the others alone, and does
  nothing with one that is not known.
\<close>

locale handle_map =
  fixes lookup :: "'s \<Rightarrow> string \<Rightarrow> nat result" and close :: "string \<Rightarrow> 's \<Rightarrow> unit result \<times> 's"
  assumes close_known: "is_ok (fst (close h s)) \<longleftrightarrow> is_ok (lookup s h)"
    and close_forgets: "\<not> is_ok (lookup (snd (close h s)) h)"
    and close_others: "h' \<noteq> h \<Longrightarrow> lookup (snd (close h s)) h' = lookup s h'"
    and close_unknown: "\<not> is_ok (lookup s h) \<Longrightarrow> snd (close h s) = s"
begin

lemma close_twice: "\<not> is_ok (fst (close h (snd (close h s))))"
  by (simp add: close_known close_forgets)

lemma closed_again_unchanged: "snd (close h (snd (close h s))) = snd (close h s)"
  by (rule close_unknown) (rule close_forgets)

lemma lookup_close: "is_ok (lookup (snd (close h s)) h') \<longleftrightarrow> h' \<noteq> h \<and> is_ok (lookup s h')"
  by (cases "h' = h") (simp_all add: close_forgets close_others)

lemma lookup_close_all:
  "is_ok (lookup (fold (\<lambda>h s. snd (close h s)) hs s) h) \<longleftrightarrow> h \<notin> set hs \<and> is_ok (lookup s h)"
  by (induction hs arbitrary: s) (auto simp: lookup_close)

lemma survivors_unchanged: "h \<notin> set hs \<Longrightarrow> lookup (fold (\<lambda>h s. snd (close h s)) hs s) h = lookup s h"
  by (induction hs arbitrary: s) (simp_all add: close_others)

end

end
