(* ===== verification/Handlers.thy ===== *)
theory Handlers
  imports Statement Metadata Interfaces
begin

text \<open>
  The Flight SQL commands of \<open>DuckDBFlightSqlServer::Impl\<close>
  (\<open>src/src/duckdb/duckdb_server.cpp\<close>): statement queries and their tickets, prepared statement handles
  and their parameters, updates, metadata commands, the reader that adds the schemas of listed tables,
  transactions, cancellation and session options. Statement objects live in a store because a handle and
  the streams made from it share one object.
\<close>

section \<open>The state the commands share\<close>

record ('c, 'db, 'p, 'r) server =
  sv_world :: "('c, 'db) world"
  sv_statements :: "('p, 'r) statement list"
  prepared_statements :: "string \<Rightarrow> nat option"
  open_transactions :: "string \<Rightarrow> string option"

text \<open>
  One call: the request context, the peer address, the connection a new session would get, the next
  random UUID, and what the outside decides about an execution.
\<close>

record 'c call =
  cl_ctx :: request_ctx
  cl_addr :: string
  cl_conn :: 'c
  cl_uuid :: string
  cl_env :: exec_env

definition client_session_for :: "'c call \<Rightarrow> ('c, 'db) world \<Rightarrow> nat result \<times> ('c, 'db) world" where
  "client_session_for cl w =
     (case GetClientSession (cl_ctx cl) (cl_addr cl) (cl_conn cl) (w_reg w) of
        (r, reg) \<Rightarrow> (r, w\<lparr>w_reg := reg\<rparr>))"

text \<open>The arguments the commands give to \<open>DuckDBStatement::Create\<close>.\<close>

definition statement_args ::
    "'c call \<Rightarrow> nat \<Rightarrow> string \<Rightarrow> log_level option \<Rightarrow> field list option \<Rightarrow> string \<Rightarrow> bool \<Rightarrow> ('c, 'db) world \<Rightarrow> create_args" where
  "statement_args cl p query level override method internal w =
     \<lparr>ca_session = p, ca_handle = cl_uuid cl, ca_sql = query, ca_log_level = level,
      ca_log_queries = srv_print_queries (w_reg w), ca_override = override, ca_method = method,
      ca_internal = internal\<rparr>"

text \<open>The last reference to a statement goes: its execution record is closed.\<close>

definition drop_statement :: "int \<Rightarrow> ('p, 'r) statement \<Rightarrow> ('c, 'db) world \<Rightarrow> ('c, 'db) world" where
  "drop_statement now st w =
     (case ds_exec st of
        None \<Rightarrow> w
      | Some x \<Rightarrow> w\<lparr>w_reg := (w_reg w)\<lparr>srv_instr := destroy_exec_instr now x (srv_instr (w_reg w))\<rparr>\<rparr>)"

definition alloc_statement ::
    "('p, 'r) statement \<Rightarrow> ('c, 'db, 'p, 'r) server \<Rightarrow> nat \<times> ('c, 'db, 'p, 'r) server" where
  "alloc_statement st sv =
     (length (sv_statements sv), sv\<lparr>sv_statements := sv_statements sv @ [st]\<rparr>)"

definition put_statement ::
    "nat \<Rightarrow> ('p, 'r) statement \<Rightarrow> ('c, 'db) world \<Rightarrow> ('c, 'db, 'p, 'r) server \<Rightarrow> ('c, 'db, 'p, 'r) server" where
  "put_statement i st w sv = sv\<lparr>sv_statements := (sv_statements sv)[i := st], sv_world := w\<rparr>"

section \<open>Streams\<close>

text \<open>A \<open>RecordBatchStream\<close> over a \<open>DuckDBStatementBatchReader\<close>, which refers to its statement.\<close>

record stream =
  sm_statement :: nat
  sm_schema :: "field list"
  sm_executed :: bool

definition stream_Create ::
    "('c, 'db, 'p, 'r) engine \<Rightarrow> exec_env \<Rightarrow> nat \<Rightarrow> ('c, 'db, 'p, 'r) server
     \<Rightarrow> stream result \<times> ('c, 'db, 'p, 'r) server" where
  "stream_Create E ev i sv =
     (case GetSchema E ev (sv_statements sv ! i) (sv_world sv) of
        (Inl e, st, w) \<Rightarrow> (Inl e, put_statement i st w sv)
      | (Inr s, st, w) \<Rightarrow>
          (ok \<lparr>sm_statement = i, sm_schema = s, sm_executed = False\<rparr>, put_statement i st w sv))"

definition stream_next ::
    "('c, 'db, 'p, 'r) engine \<Rightarrow> exec_env \<Rightarrow> stream \<Rightarrow> ('c, 'db, 'p, 'r) server
     \<Rightarrow> result_batch option result \<times> stream \<times> ('c, 'db, 'p, 'r) server" where
  "stream_next E ev sm sv =
     (case ReadNext E ev \<lparr>br_statement = sv_statements sv ! sm_statement sm, br_schema = sm_schema sm,
             br_executed = sm_executed sm\<rparr> (sv_world sv) of
        (r, br, w) \<Rightarrow>
          (r, sm\<lparr>sm_executed := br_executed br\<rparr>, put_statement (sm_statement sm) (br_statement br) w sv))"

section \<open>Statement queries\<close>

text \<open>What the ticket of a statement query carries as its handle.\<close>

definition EncodeTransactionQuery :: "string \<Rightarrow> string \<Rightarrow> string" where
  "EncodeTransactionQuery query transaction_id = transaction_id @ '':'' @ query"

definition DecodeTransactionQuery :: "string \<Rightarrow> (string \<times> string) result" where
  "DecodeTransactionQuery ticket =
     (case find_char (CHR '':'') ticket of
        None \<Rightarrow> fail Invalid ''Malformed ticket''
      | Some divider \<Rightarrow> ok (drop (divider + 1) ticket, take divider ticket))"

definition GetFlightInfoStatement ::
    "('c, 'db, 'p, 'r) engine \<Rightarrow> 'c call \<Rightarrow> string \<Rightarrow> string \<Rightarrow> ('c, 'db, 'p, 'r) server
     \<Rightarrow> (field list \<times> string) result \<times> ('c, 'db, 'p, 'r) server" where
  "GetFlightInfoStatement E cl query transaction_id sv =
     (case client_session_for cl (sv_world sv) of
        (Inl e, w1) \<Rightarrow> (Inl e, sv\<lparr>sv_world := w1\<rparr>)
      | (Inr p, w1) \<Rightarrow>
          (case Create E (statement_args cl p query (Some ARROW_DEBUG) None ''GetFlightInfoStatement'' False w1) w1 of
             (Inl e, w2) \<Rightarrow> (Inl e, sv\<lparr>sv_world := w2\<rparr>)
           | (Inr st, w2) \<Rightarrow>
               (case GetSchema E (cl_env cl) st w2 of
                  (r, st1, w3) \<Rightarrow>
                    (rbind r (\<lambda>schema. ok (schema, EncodeTransactionQuery query transaction_id)),
                     sv\<lparr>sv_world := drop_statement (ev_end (cl_env cl)) st1 w3\<rparr>))))"

definition DoGetStatement ::
    "('c, 'db, 'p, 'r) engine \<Rightarrow> 'c call \<Rightarrow> string \<Rightarrow> ('c, 'db, 'p, 'r) server
     \<Rightarrow> stream result \<times> ('c, 'db, 'p, 'r) server" where
  "DoGetStatement E cl statement_handle sv =
     (case DecodeTransactionQuery statement_handle of
        Inl e \<Rightarrow> (Inl e, sv)
      | Inr (query, transaction_id) \<Rightarrow>
          (case client_session_for cl (sv_world sv) of
             (Inl e, w1) \<Rightarrow> (Inl e, sv\<lparr>sv_world := w1\<rparr>)
           | (Inr p, w1) \<Rightarrow>
               (case Create E (statement_args cl p query None None ''DoGetStatement'' False w1) w1 of
                  (Inl e, w2) \<Rightarrow> (Inl e, sv\<lparr>sv_world := w2\<rparr>)
                | (Inr st, w2) \<Rightarrow>
                    (case alloc_statement st (sv\<lparr>sv_world := w2\<rparr>) of
                       (i, sv1) \<Rightarrow> stream_Create E (cl_env cl) i sv1))))"

definition DoPutCommandStatementUpdate ::
    "('c, 'db, 'p, 'r) engine \<Rightarrow> 'c call \<Rightarrow> string \<Rightarrow> ('c, 'db, 'p, 'r) server
     \<Rightarrow> int result \<times> ('c, 'db, 'p, 'r) server" where
  "DoPutCommandStatementUpdate E cl query sv =
     (case client_session_for cl (sv_world sv) of
        (Inl e, w1) \<Rightarrow> (Inl e, sv\<lparr>sv_world := w1\<rparr>)
      | (Inr p, w1) \<Rightarrow>
          (case Create E (statement_args cl p query None None ''DoPutCommandStatementUpdate'' False w1) w1 of
             (Inl e, w2) \<Rightarrow> (Inl e, sv\<lparr>sv_world := w2\<rparr>)
           | (Inr st, w2) \<Rightarrow>
               (case ExecuteUpdate E (cl_env cl) st w2 of
                  (r, st1, w3) \<Rightarrow> (r, sv\<lparr>sv_world := drop_statement (ev_end (cl_env cl)) st1 w3\<rparr>))))"

section \<open>Prepared statements\<close>

definition GetStatementByHandle :: "string \<Rightarrow> ('c, 'db, 'p, 'r) server \<Rightarrow> nat result" where
  "GetStatementByHandle h sv =
     (case prepared_statements sv h of
        None \<Rightarrow> fail KeyError ''Prepared statement not found''
      | Some i \<Rightarrow> ok i)"

text \<open>What DuckDB knows of the parameters of a prepared statement.\<close>

record 'p param_info =
  named_param_count :: "'p \<Rightarrow> nat"
  param_type :: "'p \<Rightarrow> string \<Rightarrow> duckdb_type"

definition parameter_fields :: "'p param_info \<Rightarrow> 'p option \<Rightarrow> field list" where
  "parameter_fields P stmt =
     (case stmt of
        None \<Rightarrow> []
      | Some p \<Rightarrow>
          map (\<lambda>i. (''parameter_'' @ show_nat (i + 1),
                    GetDataTypeFromDuckDbType (param_type P p (show_nat (i + 1))), True))
            [0..<named_param_count P p])"

record prepared_result =
  dataset_schema :: "field list"
  parameter_schema :: "field list"
  prepared_statement_handle :: string

text \<open>The handle is in the map before the schema is computed, and stays there if that fails.\<close>

definition CreatePreparedStatement ::
    "('c, 'db, 'p, 'r) engine \<Rightarrow> 'p param_info \<Rightarrow> 'c call \<Rightarrow> string \<Rightarrow> ('c, 'db, 'p, 'r) server
     \<Rightarrow> prepared_result result \<times> ('c, 'db, 'p, 'r) server" where
  "CreatePreparedStatement E P cl query sv =
     (case client_session_for cl (sv_world sv) of
        (Inl e, w1) \<Rightarrow> (Inl e, sv\<lparr>sv_world := w1\<rparr>)
      | (Inr p, w1) \<Rightarrow>
          (case Create E (statement_args cl p query None None ''CreatePreparedStatement'' False w1) w1 of
             (Inl e, w2) \<Rightarrow> (Inl e, sv\<lparr>sv_world := w2\<rparr>)
           | (Inr st, w2) \<Rightarrow>
               (case alloc_statement st (sv\<lparr>sv_world := w2\<rparr>) of
                  (i, sv1) \<Rightarrow>
                    (case GetSchema E (cl_env cl) st w2 of
                       (r, st1, w3) \<Rightarrow>
                         (rbind r (\<lambda>schema. ok
                            \<lparr>dataset_schema = schema, parameter_schema = parameter_fields P (ds_stmt st1),
                             prepared_statement_handle = cl_uuid cl\<rparr>),
                          put_statement i st1 w3
                            (sv1\<lparr>prepared_statements := (prepared_statements sv1)(cl_uuid cl \<mapsto> i)\<rparr>))))))"

definition ClosePreparedStatement ::
    "string \<Rightarrow> ('c, 'db, 'p, 'r) server \<Rightarrow> unit result \<times> ('c, 'db, 'p, 'r) server" where
  "ClosePreparedStatement h sv =
     (if prepared_statements sv h \<noteq> None
      then (ok (), sv\<lparr>prepared_statements := (prepared_statements sv)(h := None)\<rparr>)
      else (fail Invalid ''Prepared statement not found'', sv))"

definition GetFlightInfoPreparedStatement ::
    "('c, 'db, 'p, 'r) engine \<Rightarrow> 'c call \<Rightarrow> string \<Rightarrow> ('c, 'db, 'p, 'r) server
     \<Rightarrow> field list result \<times> ('c, 'db, 'p, 'r) server" where
  "GetFlightInfoPreparedStatement E cl h sv =
     (case GetStatementByHandle h sv of
        Inl e \<Rightarrow> (Inl e, sv)
      | Inr i \<Rightarrow>
          (case GetSchema E (cl_env cl) (sv_statements sv ! i) (sv_world sv) of
             (r, st, w) \<Rightarrow> (r, put_statement i st w sv)))"

definition DoGetPreparedStatement ::
    "('c, 'db, 'p, 'r) engine \<Rightarrow> 'c call \<Rightarrow> string \<Rightarrow> ('c, 'db, 'p, 'r) server
     \<Rightarrow> stream result \<times> ('c, 'db, 'p, 'r) server" where
  "DoGetPreparedStatement E cl h sv =
     (case GetStatementByHandle h sv of
        Inl e \<Rightarrow> (Inl e, sv)
      | Inr i \<Rightarrow> stream_Create E (cl_env cl) i sv)"

text \<open>
  Reading parameters: every cell of every incoming batch, row by row, as the text of its scalar. The
  stream may fail, and so may the access to a cell; what was read so far stays bound.
\<close>

type_synonym scalar_access = "arrow_type \<Rightarrow> arrow_value \<Rightarrow> string result"

fun read_cells :: "scalar_access \<Rightarrow> (arrow_type \<times> arrow_value) list \<Rightarrow> duckdb_value list
    \<Rightarrow> unit result \<times> duckdb_value list" where
  "read_cells S [] vs = (ok (), vs)"
| "read_cells S ((t, v) # cells) vs =
     (case S t v of Inl e \<Rightarrow> (Inl e, vs) | Inr s \<Rightarrow> read_cells S cells (vs @ [DVarchar s]))"

definition batch_cells :: "batch \<Rightarrow> (arrow_type \<times> arrow_value) list" where
  "batch_cells b = concat (map (\<lambda>row. map (\<lambda>(t, vs). (t, vs ! row)) b) [0..<num_rows b])"

fun read_parameters :: "scalar_access \<Rightarrow> (status + batch option) list \<Rightarrow> duckdb_value list
    \<Rightarrow> unit result \<times> duckdb_value list" where
  "read_parameters S [] vs = (ok (), vs)"
| "read_parameters S (Inl e # chunks) vs = (Inl e, vs)"
| "read_parameters S (Inr None # chunks) vs = (ok (), vs)"
| "read_parameters S (Inr (Some b) # chunks) vs =
     (case read_cells S (batch_cells b) vs of
        (Inl e, vs') \<Rightarrow> (Inl e, vs')
      | (Inr _, vs') \<Rightarrow> read_parameters S chunks vs')"

definition SetParametersOnDuckDBStatement ::
    "scalar_access \<Rightarrow> (status + batch option) list \<Rightarrow> ('p, 'r) statement \<Rightarrow> unit result \<times> ('p, 'r) statement" where
  "SetParametersOnDuckDBStatement S chunks st =
     (case read_parameters S chunks [] of (r, vs) \<Rightarrow> (r, st\<lparr>bind_parameters := vs\<rparr>))"

definition DoPutPreparedStatementQuery ::
    "scalar_access \<Rightarrow> string \<Rightarrow> (status + batch option) list \<Rightarrow> ('c, 'db, 'p, 'r) server
     \<Rightarrow> unit result \<times> ('c, 'db, 'p, 'r) server" where
  "DoPutPreparedStatementQuery S h chunks sv =
     (case GetStatementByHandle h sv of
        Inl e \<Rightarrow> (Inl e, sv)
      | Inr i \<Rightarrow>
          (case SetParametersOnDuckDBStatement S chunks (sv_statements sv ! i) of
             (r, st) \<Rightarrow> (r, put_statement i st (sv_world sv) sv)))"

definition DoPutPreparedStatementUpdate ::
    "('c, 'db, 'p, 'r) engine \<Rightarrow> scalar_access \<Rightarrow> 'c call \<Rightarrow> string \<Rightarrow> (status + batch option) list
     \<Rightarrow> ('c, 'db, 'p, 'r) server \<Rightarrow> int result \<times> ('c, 'db, 'p, 'r) server" where
  "DoPutPreparedStatementUpdate E S cl h chunks sv =
     (case GetStatementByHandle h sv of
        Inl e \<Rightarrow> (Inl e, sv)
      | Inr i \<Rightarrow>
          (case SetParametersOnDuckDBStatement S chunks (sv_statements sv ! i) of
             (Inl e, st) \<Rightarrow> (Inl e, put_statement i st (sv_world sv) sv)
           | (Inr _, st) \<Rightarrow>
               (case ExecuteUpdate E (cl_env cl) st (sv_world sv) of
                  (r, st1, w) \<Rightarrow> (r, put_statement i st1 w sv))))"

section \<open>Metadata commands\<close>

text \<open>The method a command is recorded under. Arrow's \<open>SqlSchema\<close> gives the schema of its answer.\<close>

fun metadata_method :: "metadata_command \<Rightarrow> string" where
  "metadata_method GetCatalogs = ''DoGetCatalogs''"
| "metadata_method (GetDbSchemas c) = ''DoGetDbSchemas''"
| "metadata_method GetTableTypes = ''DoGetTableTypes''"
| "metadata_method (GetTables c) = ''DoGetTables''"
| "metadata_method (GetPrimaryKeys r) = ''DoGetPrimaryKeys''"
| "metadata_method (GetImportedKeys r) = ''DoGetImportedKeys''"
| "metadata_method (GetExportedKeys r) = ''DoGetExportedKeys''"
| "metadata_method (GetCrossReference pk fk) = ''DoGetCrossReference''"

definition DoGetDuckDBQuery ::
    "('c, 'db, 'p, 'r) engine \<Rightarrow> 'c call \<Rightarrow> nat \<Rightarrow> bound_sql \<Rightarrow> field list \<Rightarrow> string \<Rightarrow> bool
     \<Rightarrow> ('c, 'db, 'p, 'r) server \<Rightarrow> stream result \<times> ('c, 'db, 'p, 'r) server" where
  "DoGetDuckDBQuery E cl p Q schema flight_method is_internal sv =
     (case Create E (statement_args cl p (fst Q) (Some ARROW_DEBUG) (Some schema) flight_method is_internal
             (sv_world sv)) (sv_world sv) of
        (Inl e, w) \<Rightarrow> (Inl e, sv\<lparr>sv_world := w\<rparr>)
      | (Inr st, w) \<Rightarrow>
          (case alloc_statement (st\<lparr>bind_parameters := snd Q\<rparr>) (sv\<lparr>sv_world := w\<rparr>) of
             (i, sv1) \<Rightarrow> (ok \<lparr>sm_statement = i, sm_schema = schema, sm_executed = False\<rparr>, sv1)))"

definition DoGetMetadata ::
    "('c, 'db, 'p, 'r) engine \<Rightarrow> (metadata_command \<Rightarrow> field list) \<Rightarrow> 'c call \<Rightarrow> metadata_command
     \<Rightarrow> ('c, 'db, 'p, 'r) server \<Rightarrow> stream result \<times> ('c, 'db, 'p, 'r) server" where
  "DoGetMetadata E sql_schema cl m sv =
     (case client_session_for cl (sv_world sv) of
        (Inl e, w1) \<Rightarrow> (Inl e, sv\<lparr>sv_world := w1\<rparr>)
      | (Inr p, w1) \<Rightarrow>
          DoGetDuckDBQuery E cl p (metadata_query m) (sql_schema m) (metadata_method m) True (sv\<lparr>sv_world := w1\<rparr>))"

subsection \<open>Tables with their schemas\<close>

text \<open>
  \<open>DuckDBTablesWithSchemaBatchReader\<close>: it reads one batch of the inner stream, prepares a query on
  every table it lists and adds the serialised schemas as a column. The call of the
  \<open>n\<close>-th statement gives its random handle and its execution.
\<close>

record tables_stream =
  ts_reader :: stream
  ts_session :: nat
  ts_executed :: bool

definition column_index :: "string \<Rightarrow> field list \<Rightarrow> nat option" where
  "column_index n fs =
     (let i = length (takeWhile (\<lambda>f. fst f \<noteq> n) fs) in if i < length fs then Some i else None)"

definition text_cell_at :: "string \<Rightarrow> field list \<Rightarrow> arrow_value list \<Rightarrow> string" where
  "text_cell_at n fs row =
     (case column_index n fs of
        None \<Rightarrow> []
      | Some i \<Rightarrow> (case row ! i of VString s \<Rightarrow> s | _ \<Rightarrow> []))"

definition table_probe :: "field list \<Rightarrow> arrow_value list \<Rightarrow> string" where
  "table_probe fs row =
     ''SELECT * FROM '' @ [dquote] @ text_cell_at ''catalog_name'' fs row @ [dquote] @ ''.'' @ [dquote]
       @ text_cell_at ''db_schema_name'' fs row @ [dquote] @ ''.'' @ [dquote]
       @ text_cell_at ''table_name'' fs row @ [dquote] @ '' LIMIT 0''"

fun table_schemas ::
    "('c, 'db, 'p, 'r) engine \<Rightarrow> (field list \<Rightarrow> string result) \<Rightarrow> nat \<Rightarrow> (nat \<Rightarrow> 'c call) \<Rightarrow> field list
     \<Rightarrow> arrow_value list list \<Rightarrow> ('c, 'db) world \<Rightarrow> string list result \<times> ('c, 'db) world" where
  "table_schemas E serialize p cls fs [] w = (ok [], w)"
| "table_schemas E serialize p cls fs (row # rows) w =
     (case Create E \<lparr>ca_session = p, ca_handle = cl_uuid (cls 0), ca_sql = table_probe fs row,
             ca_log_level = Some ARROW_DEBUG, ca_log_queries = False, ca_override = None,
             ca_method = ''DoGetTables'', ca_internal = True\<rparr> w of
        (Inl e, w1) \<Rightarrow> (Inl e, w1)
      | (Inr st, w1) \<Rightarrow>
          (case GetSchema E (cl_env (cls 0)) st w1 of
             (r, st1, w2) \<Rightarrow>
               (case rbind r serialize of
                  Inl e \<Rightarrow> (Inl e, drop_statement (ev_end (cl_env (cls 0))) st1 w2)
                | Inr s \<Rightarrow>
                    (case table_schemas E serialize p (\<lambda>n. cls (Suc n)) fs rows
                            (drop_statement (ev_end (cl_env (cls 0))) st1 w2) of
                       (r', w3) \<Rightarrow> (rbind r' (\<lambda>ss. ok (s # ss)), w3)))))"

fun add_cell :: "nat \<Rightarrow> arrow_value list \<times> string \<Rightarrow> arrow_value list" where
  "add_cell i (row, s) = take i row @ VOpaque s # drop i row"

text \<open>The batch with the new column, its columns then picked by the names of the expected schema.\<close>

definition conform_batch :: "field list \<Rightarrow> result_batch \<Rightarrow> string list \<Rightarrow> result_batch result" where
  "conform_batch expected b schemas =
     (let fs = take 4 (rb_schema b) @ (''table_schema'', BINARY, True) # drop 4 (rb_schema b);
          rows = map (add_cell 4) (zip (rb_rows b) schemas);
          missing = filter (\<lambda>f. column_index (fst f) fs = None) expected
      in if missing \<noteq> []
         then fail Invalid (''Expected column '' @ [squote] @ fst (hd missing) @ [squote]
                @ '' not found in result batch'')
         else ok \<lparr>rb_schema = expected,
                  rb_rows = map (\<lambda>row. map (\<lambda>f. row ! the (column_index (fst f) fs)) expected) rows\<rparr>)"

definition tables_stream_next ::
    "('c, 'db, 'p, 'r) engine \<Rightarrow> (field list \<Rightarrow> string result) \<Rightarrow> field list \<Rightarrow> exec_env \<Rightarrow> (nat \<Rightarrow> 'c call)
     \<Rightarrow> tables_stream \<Rightarrow> ('c, 'db, 'p, 'r) server
     \<Rightarrow> result_batch option result \<times> tables_stream \<times> ('c, 'db, 'p, 'r) server" where
  "tables_stream_next E serialize expected ev cls ts sv =
     (if ts_executed ts then (ok None, ts, sv)
      else case stream_next E ev (ts_reader ts) sv of
             (Inl e, sm, sv1) \<Rightarrow> (Inl e, ts\<lparr>ts_reader := sm\<rparr>, sv1)
           | (Inr None, sm, sv1) \<Rightarrow> (ok None, ts\<lparr>ts_reader := sm\<rparr>, sv1)
           | (Inr (Some b), sm, sv1) \<Rightarrow>
               (case table_schemas E serialize (ts_session ts) cls (rb_schema b) (rb_rows b) (sv_world sv1) of
                  (r, w) \<Rightarrow>
                    (case rbind r (conform_batch expected b) of
                       Inl e \<Rightarrow> (Inl e, ts\<lparr>ts_reader := sm\<rparr>, sv1\<lparr>sv_world := w\<rparr>)
                     | Inr b' \<Rightarrow>
                         (ok (Some b'), ts\<lparr>ts_reader := sm, ts_executed := True\<rparr>, sv1\<lparr>sv_world := w\<rparr>))))"

section \<open>Transactions, cancellation, options\<close>

definition ExecuteSql ::
    "('c, 'db, 'p, 'r) engine \<Rightarrow> nat \<Rightarrow> string \<Rightarrow> ('c, 'db) world \<Rightarrow> unit result \<times> ('c, 'db) world" where
  "ExecuteSql E p query w =
     (case db_query E (connection (session_of p w)) query (w_db w) of
        (Inl err, d) \<Rightarrow> (fail Invalid err, with_db d w)
      | (Inr _, d) \<Rightarrow> (ok (), with_db d w))"

text \<open>The handle is recorded before BEGIN runs; the connection decides whether a transaction starts.\<close>

definition BeginTransaction ::
    "('c, 'db, 'p, 'r) engine \<Rightarrow> 'c call \<Rightarrow> ('c, 'db, 'p, 'r) server \<Rightarrow> string result \<times> ('c, 'db, 'p, 'r) server" where
  "BeginTransaction E cl sv =
     (case client_session_for cl (sv_world sv) of
        (Inl e, w1) \<Rightarrow> (Inl e, sv\<lparr>sv_world := w1\<rparr>)
      | (Inr p, w1) \<Rightarrow>
          (case ExecuteSql E p ''BEGIN TRANSACTION'' w1 of
             (r, w2) \<Rightarrow>
               (rbind r (\<lambda>_. ok (cl_uuid cl)),
                sv\<lparr>sv_world := w2, open_transactions := (open_transactions sv)(cl_uuid cl \<mapsto> [])\<rparr>)))"

datatype end_action = kCommit | kRollback

definition EndTransaction ::
    "('c, 'db, 'p, 'r) engine \<Rightarrow> 'c call \<Rightarrow> end_action \<Rightarrow> string \<Rightarrow> ('c, 'db, 'p, 'r) server
     \<Rightarrow> unit result \<times> ('c, 'db, 'p, 'r) server" where
  "EndTransaction E cl action transaction_id sv =
     (case client_session_for cl (sv_world sv) of
        (Inl e, w1) \<Rightarrow> (Inl e, sv\<lparr>sv_world := w1\<rparr>)
      | (Inr p, w1) \<Rightarrow>
          (case ExecuteSql E p (if action = kCommit then ''COMMIT'' else ''ROLLBACK'') w1 of
             (r, w2) \<Rightarrow>
               (r, sv\<lparr>sv_world := w2,
                     open_transactions := (open_transactions sv)(transaction_id := None)\<rparr>)))"

definition DoCancelActiveStatement ::
    "('c, 'db, 'p, 'r) engine \<Rightarrow> nat \<Rightarrow> ('c, 'db) world \<Rightarrow> unit result \<times> ('c, 'db) world" where
  "DoCancelActiveStatement E p w =
     (if active_sql_handle (session_of p w) \<in> {None, Some []}
      then (fail Invalid ''No active SQL statement to cancel.'', w)
      else (ok (), with_db (db_interrupt E (connection (session_of p w)) (w_db w)) w))"

text \<open>\<open>CancelFlightInfo\<close> and \<open>CancelQuery\<close>; the request itself is not looked at.\<close>

definition CancelQuery ::
    "('c, 'db, 'p, 'r) engine \<Rightarrow> 'c call \<Rightarrow> ('c, 'db, 'p, 'r) server \<Rightarrow> unit result \<times> ('c, 'db, 'p, 'r) server" where
  "CancelQuery E cl sv =
     (case client_session_for cl (sv_world sv) of
        (Inl e, w1) \<Rightarrow> (Inl e, sv\<lparr>sv_world := w1\<rparr>)
      | (Inr p, w1) \<Rightarrow>
          (case DoCancelActiveStatement E p w1 of (r, w2) \<Rightarrow> (r, sv\<lparr>sv_world := w2\<rparr>)))"

datatype session_option_value =
    OptString string | OptInt int | OptBool bool | OptDouble int | OptStrings "string list" | OptUnset

definition SessionValueToString :: "session_option_value \<Rightarrow> string option" where
  "SessionValueToString v =
     (case v of OptString s \<Rightarrow> Some s | OptInt i \<Rightarrow> Some (show_int i)
      | OptBool b \<Rightarrow> Some (if b then ''true'' else ''false'') | _ \<Rightarrow> None)"

text \<open>
  The options come in the order of the request's map. \<open>std::get\<close> on another alternative throws, which
  ends the call. The names that are not options are the errors of a successful answer.
\<close>

fun set_options ::
    "('c, 'db, 'p, 'r) engine \<Rightarrow> nat \<Rightarrow> (string \<times> session_option_value) list \<Rightarrow> string list \<Rightarrow> ('c, 'db) world
     \<Rightarrow> string list result \<times> ('c, 'db) world" where
  "set_options E p [] errors w = (ok errors, w)"
| "set_options E p ((n, v) # opts) errors w =
     (if n = ''catalog'' \<or> n = ''schema''
      then (case v of
              OptString s \<Rightarrow>
                (case ExecuteSql E p (''USE '' @ [dquote] @ filter (\<lambda>c. c \<noteq> dquote) s @ [dquote]) w of
                   (Inl e, w1) \<Rightarrow> (Inl e, w1)
                 | (Inr _, w1) \<Rightarrow> set_options E p opts errors w1)
            | _ \<Rightarrow> (fail UnknownError ''bad_variant_access'', w))
      else set_options E p opts (errors @ [n]) w)"

definition SetSessionOptions ::
    "('c, 'db, 'p, 'r) engine \<Rightarrow> 'c call \<Rightarrow> (string \<times> session_option_value) list \<Rightarrow> ('c, 'db, 'p, 'r) server
     \<Rightarrow> string list result \<times> ('c, 'db, 'p, 'r) server" where
  "SetSessionOptions E cl opts sv =
     (case client_session_for cl (sv_world sv) of
        (Inl e, w1) \<Rightarrow> (Inl e, sv\<lparr>sv_world := w1\<rparr>)
      | (Inr p, w1) \<Rightarrow>
          (case set_options E p opts [] w1 of (r, w2) \<Rightarrow> (r, sv\<lparr>sv_world := w2\<rparr>)))"

text \<open>The first column of a materialised result is DuckDB's; NULL cells are skipped.\<close>

definition ExecuteSqlAndGetStringVector ::
    "('c, 'db, 'p, 'r) engine \<Rightarrow> ('r \<Rightarrow> duckdb_value list) \<Rightarrow> nat \<Rightarrow> string \<Rightarrow> ('c, 'db) world
     \<Rightarrow> string list result \<times> ('c, 'db) world" where
  "ExecuteSqlAndGetStringVector E first_column p query w =
     (case db_query E (connection (session_of p w)) query (w_db w) of
        (Inl err, d) \<Rightarrow> (fail Invalid (''SQL query failed: '' @ err), with_db d w)
      | (Inr r, d) \<Rightarrow>
          (ok (map (value_text E) (filter (\<lambda>v. v \<noteq> DNull) (first_column r))), with_db d w))"

definition GetSessionOptions ::
    "('c, 'db, 'p, 'r) engine \<Rightarrow> ('r \<Rightarrow> duckdb_value list) \<Rightarrow> 'c call \<Rightarrow> ('c, 'db, 'p, 'r) server
     \<Rightarrow> (string \<times> string) list result \<times> ('c, 'db, 'p, 'r) server" where
  "GetSessionOptions E first_column cl sv =
     (case client_session_for cl (sv_world sv) of
        (Inl e, w1) \<Rightarrow> (Inl e, sv\<lparr>sv_world := w1\<rparr>)
      | (Inr p, w1) \<Rightarrow>
          (case ExecuteSqlAndGetStringVector E first_column p ''SELECT current_catalog()'' w1 of
             (Inr (c # _), w2) \<Rightarrow>
               (case ExecuteSqlAndGetStringVector E first_column p ''SELECT current_schema()'' w2 of
                  (Inr (s # _), w3) \<Rightarrow> (ok [(''catalog'', c), (''schema'', s)], sv\<lparr>sv_world := w3\<rparr>)
                | (Inr [], w3) \<Rightarrow> (fail UnknownError ''front of an empty vector'', sv\<lparr>sv_world := w3\<rparr>)
                | (Inl _, w3) \<Rightarrow> (fail Invalid ''Could not get current schema'', sv\<lparr>sv_world := w3\<rparr>))
           | (Inr [], w2) \<Rightarrow> (fail UnknownError ''front of an empty vector'', sv\<lparr>sv_world := w2\<rparr>)
           | (Inl _, w2) \<Rightarrow> (fail Invalid ''Could not get current catalog'', sv\<lparr>sv_world := w2\<rparr>)))"

text \<open>\<open>ReleaseAllSessions\<close>: first the handles, then the sessions.\<close>

definition ReleaseAllStatements :: "('c, 'db, 'p, 'r) server \<Rightarrow> ('c, 'db, 'p, 'r) server" where
  "ReleaseAllStatements sv =
     sv\<lparr>prepared_statements := (\<lambda>_. None),
        sv_world := (sv_world sv)\<lparr>w_reg := ReleaseAllSessions (w_reg (sv_world sv))\<rparr>\<rparr>"

section \<open>Tickets and handles\<close>

lemma undivided_ticket: "CHR '':'' \<notin> set t \<Longrightarrow> DecodeTransactionQuery t = fail Invalid ''Malformed ticket''"
  by (subst DecodeTransactionQuery_def, subst find_char_None [THEN iffD2]) simp_all

interpretation duckdb_ticket: ticket_codec EncodeTransactionQuery DecodeTransactionQuery
  by unfold_locales (simp add: DecodeTransactionQuery_def EncodeTransactionQuery_def find_char_append)

interpretation duckdb_handles: handle_map "\<lambda>sv h. GetStatementByHandle h sv" ClosePreparedStatement
  by unfold_locales (auto simp: GetStatementByHandle_def ClosePreparedStatement_def is_ok_def split: option.splits if_splits)

text \<open>After any number of handles are closed exactly they are gone.\<close>

lemma duckdb_closed_handles:
  "is_ok (GetStatementByHandle h (fold (\<lambda>h sv. snd (ClosePreparedStatement h sv)) hs sv))
     \<longleftrightarrow> h \<notin> set hs \<and> is_ok (GetStatementByHandle h sv)"
  by (rule duckdb_handles.lookup_close_all)

text \<open>
  A ticket gives back what it was made from: decoding the handle of an encoded query returns the query
  unchanged, whatever it contains, and the transaction id, as long as the id has no colon; without any
  colon a ticket is refused.
\<close>

theorem ticket_reads_back:
  assumes "CHR '':'' \<notin> set transaction_id"
  shows "DecodeTransactionQuery (EncodeTransactionQuery query transaction_id) = ok (query, transaction_id)
    \<and> DecodeTransactionQuery transaction_id = fail Invalid ''Malformed ticket''"
  using duckdb_ticket.reads_back [OF assms] undivided_ticket [OF assms] by simp

theorem ticket_reads_back_witness:
  "DecodeTransactionQuery (EncodeTransactionQuery ''SELECT a::int'' []) = ok (''SELECT a::int'', [])
    \<and> DecodeTransactionQuery [] = fail Invalid ''Malformed ticket''"
  using ticket_reads_back [of "[]" "''SELECT a::int''"] by simp

section \<open>Parameters\<close>

lemma read_cells_ok:
  "list_all2 (\<lambda>(t, v) s. S t v = Inr s) cells ss \<Longrightarrow> read_cells S cells vs = (ok (), vs @ map DVarchar ss)"
  by (induction cells ss arbitrary: vs rule: list_all2_induct) auto

lemma read_parameters_ok:
  "list_all2 (\<lambda>b ss. list_all2 (\<lambda>(t, v) s. S t v = Inr s) (batch_cells b) ss) bs sss \<Longrightarrow>
     read_parameters S (map (Inr \<circ> Some) bs @ Inr None # rest) vs = (ok (), vs @ map DVarchar (concat sss))"
  by (induction bs sss arbitrary: vs rule: list_all2_induct) (auto simp: read_cells_ok)

text \<open>A prepared statement whose schema was not refused; every handle without direct execution is one.\<close>

definition runs_prepared :: "('p, 'r) statement \<Rightarrow> 'p \<Rightarrow> bool" where
  "runs_prepared st p \<longleftrightarrow>
     ds_stmt st = Some p \<and> \<not> ds_direct st \<and> \<not> ds_admin st
     \<and> (case ds_cached_schema st of Some (Inl e) \<Rightarrow> False | _ \<Rightarrow> True)"

lemma GetSchema_prepared:
  assumes "runs_prepared st p"
  shows "\<exists>s c. GetSchema E ev st w = (ok s, st\<lparr>ds_cached_schema := c\<rparr>, w)"
proof -
  have "\<exists>c. st = st\<lparr>ds_cached_schema := c\<rparr>" by (cases st) auto
  then show ?thesis
    using assms by (auto simp: runs_prepared_def GetSchema_def ComputeSchema_def split: option.splits sum.splits)
qed

lemma ReadNext_prepared:
  fixes br :: "('p, 'r) batch_reader"
  assumes "w_server w" and "ds_stmt (br_statement br) = Some p" and "\<not> ds_direct (br_statement br)"
    and "\<not> ds_admin (br_statement br)" and "\<not> br_executed br" and "\<not> ev_slow ev"
    and "db_execute E (conn_of (br_statement br) w) p (bind_parameters (br_statement br)) (w_db w) = (Inr x, d)"
  shows "w_db (snd (snd (ReadNext E ev br w))) = d"
proof -
  obtain st1 w1 where e: "Execute E ev (br_statement br) w = (ok 0, st1, w1)" "w_db w1 = d" "\<not> ds_direct st1"
    using Execute_prepared_db [OF assms(1-4,6,7)] by blast
  obtain r st2 w2 where f: "fetch_and_count E ev st1 w1 = (r, st2, w2)"
    by (cases "fetch_and_count E ev st1 w1") auto
  show ?thesis using fetch_and_count_prepared [OF e(3) f] e assms(5) f by (simp add: ReadNext_def)
qed

text \<open>A stream made from a handle executes the statement of the handle, with what is bound to it.\<close>

lemma handle_executes:
  fixes sv :: "('c, 'db, 'p, 'r) server"
  assumes "prepared_statements sv h = Some i" and "i < length (sv_statements sv)"
    and "runs_prepared (sv_statements sv ! i) p" and "w_server (sv_world sv)" and "\<not> ev_slow ev"
    and "db_execute E (conn_of (sv_statements sv ! i) (sv_world sv)) p
      (bind_parameters (sv_statements sv ! i)) (w_db (sv_world sv)) = (Inr x, d)"
  shows "\<exists>sm sv1. DoGetPreparedStatement E cl h sv = (ok sm, sv1)
    \<and> w_db (sv_world (snd (snd (stream_next E ev sm sv1)))) = d"
proof -
  let ?st = "sv_statements sv ! i"
  obtain s c where g: "GetSchema E (cl_env cl) ?st (sv_world sv) = (ok s, ?st\<lparr>ds_cached_schema := c\<rparr>, sv_world sv)"
    using GetSchema_prepared [OF assms(3)] by blast
  let ?st1 = "?st\<lparr>ds_cached_schema := c\<rparr>"
  let ?sv1 = "put_statement i ?st1 (sv_world sv) sv"
  let ?sm = "\<lparr>sm_statement = i, sm_schema = s, sm_executed = False\<rparr>"
  have dg: "DoGetPreparedStatement E cl h sv = (ok ?sm, ?sv1)"
    using assms(1) g by (simp add: DoGetPreparedStatement_def GetStatementByHandle_def stream_Create_def)
  have st1: "sv_statements ?sv1 ! i = ?st1" "sv_world ?sv1 = sv_world sv"
    using assms(2) by (simp_all add: put_statement_def)
  obtain r br w where n: "ReadNext E ev \<lparr>br_statement = ?st\<lparr>ds_cached_schema := c\<rparr>, br_schema = s, br_executed = False\<rparr>
      (sv_world sv) = (r, br, w)"
    by (metis prod_cases3)
  have "w_db w = d"
    using ReadNext_prepared [OF assms(4), of "\<lparr>br_statement = ?st1, br_schema = s, br_executed = False\<rparr>" p ev E x d]
      assms(3,5,6) n by (simp add: runs_prepared_def conn_of_def)
  then show ?thesis
    using dg n st1 by (simp add: stream_next_def) (simp add: put_statement_def)
qed

text \<open>A server with one prepared handle, for the witnesses; \<open>ks\<close> are the killed session ids.\<close>

definition log_server :: "string set \<Rightarrow> (unit, string list, string, unit) server" where
  "log_server ks =
     \<lparr>sv_world = (log_world ''user'')\<lparr>w_reg := (w_reg (log_world ''user''))\<lparr>killed_session_ids := ks\<rparr>\<rparr>,
      sv_statements = [prepared_statement log_engine (log_args ''SELECT 1'') ''SELECT 1''],
      prepared_statements = (\<lambda>h. if h = ''h'' then Some 0 else None), open_transactions = (\<lambda>_. None)\<rparr>"

definition log_call :: "unit call" where
  "log_call = \<lparr>cl_ctx = sample_ctx ''b'' ''user'', cl_addr = ''p'', cl_conn = (), cl_uuid = ''u'', cl_env = quick\<rparr>"

lemma log_server_simps [simp]:
  "prepared_statements (log_server ks) ''h'' = Some 0"
  "sv_statements (log_server ks) \<noteq> []"
  "sv_statements (log_server ks) ! 0 = prepared_statement log_engine (log_args ''SELECT 1'') ''SELECT 1''"
  "w_server (sv_world (log_server ks))" "w_db (sv_world (log_server ks)) = []"
  "killed_session_ids (w_reg (sv_world (log_server ks))) = ks"
  "runs_prepared (prepared_statement log_engine (log_args ''SELECT 1'') ''SELECT 1'') ''SELECT 1''"
  "db_execute log_engine c p vs d = (Inr (), d @ [p])"
  by (simp_all add: log_server_def log_world_def runs_prepared_def prepared_statement_def log_engine_def db_execute_def)

text \<open>
  C38: The execution of a prepared statement gets exactly the parameters that were sent last, each row in
  turn, whatever was bound before: after DoPutPreparedStatementQuery has accepted the batches, fetching
  from the handle executes the statement once with the texts of all their cells, row by row, batch by
  batch.
\<close>

theorem last_parameters_are_executed:
  fixes sv :: "('c, 'db, 'p, 'r) server"
  assumes "prepared_statements sv h = Some i" and "i < length (sv_statements sv)"
    and "runs_prepared (sv_statements sv ! i) p" and "w_server (sv_world sv)" and "\<not> ev_slow ev"
    and "list_all2 (\<lambda>b ss. list_all2 (\<lambda>(t, v) s. S t v = Inr s) (batch_cells b) ss) bs sss"
    and "db_execute E (conn_of (sv_statements sv ! i) (sv_world sv)) p
      (map DVarchar (concat sss)) (w_db (sv_world sv)) = (Inr x, d)"
  shows "\<exists>sv1. DoPutPreparedStatementQuery S h (map (Inr \<circ> Some) bs @ [Inr None]) sv = (ok (), sv1)
    \<and> (\<exists>sm sv2. DoGetPreparedStatement E cl h sv1 = (ok sm, sv2)
          \<and> w_db (sv_world (snd (snd (stream_next E ev sm sv2)))) = d)"
proof -
  let ?st = "(sv_statements sv ! i)\<lparr>bind_parameters := map DVarchar (concat sss)\<rparr>"
  let ?sv1 = "put_statement i ?st (sv_world sv) sv"
  have put: "DoPutPreparedStatementQuery S h (map (Inr \<circ> Some) bs @ [Inr None]) sv = (ok (), ?sv1)"
    using assms(1) read_parameters_ok [OF assms(6), of "[]" "[]"]
    by (simp add: DoPutPreparedStatementQuery_def GetStatementByHandle_def SetParametersOnDuckDBStatement_def)
  have "\<exists>sm sv2. DoGetPreparedStatement E cl h ?sv1 = (ok sm, sv2)
      \<and> w_db (sv_world (snd (snd (stream_next E ev sm sv2)))) = d"
    using assms(1-5,7)
    by (intro handle_executes [where p = p and x = x and i = i])
      (simp_all add: put_statement_def runs_prepared_def conn_of_def)
  with put show ?thesis by blast
qed

theorem last_parameters_are_executed_witness:
  "\<exists>sv1. DoPutPreparedStatementQuery (\<lambda>t v. Inr ''7'') ''h''
        (map (Inr \<circ> Some) [[(INT64, [VInt 7])]] @ [Inr None]) (log_server {}) = (ok (), sv1)
    \<and> (\<exists>sm sv2. DoGetPreparedStatement log_engine log_call ''h'' sv1 = (ok sm, sv2)
          \<and> w_db (sv_world (snd (snd (stream_next log_engine quick sm sv2)))) = [''SELECT 1''])"
  by (rule last_parameters_are_executed [where i = 0 and p = "''SELECT 1''" and sss = "[[''7'']]" and x = "()"])
    (simp_all add: batch_cells_def num_rows_def)

text \<open>
  A handle outlives the session: for a session whose id has been killed, every command that asks for
  the session is refused, but a statement it had prepared can still be fetched through its handle and is
  executed on the session's connection; the handle commands do not look at the session at all, so any
  other session that knows the handle can do the same.
\<close>

theorem killed_session_keeps_its_handles:
  fixes sv :: "('c, 'db, 'p, 'r) server"
  assumes "ctx_session_id (cl_ctx cl) = Some sid" and "sid \<in> killed_session_ids (w_reg (sv_world sv))"
    and "prepared_statements sv h = Some i" and "i < length (sv_statements sv)"
    and "runs_prepared (sv_statements sv ! i) p" and "w_server (sv_world sv)" and "\<not> ev_slow ev"
    and "db_execute E (conn_of (sv_statements sv ! i) (sv_world sv)) p
      (bind_parameters (sv_statements sv ! i)) (w_db (sv_world sv)) = (Inr x, d)"
  shows "fst (DoGetStatement E cl (EncodeTransactionQuery q []) sv) = fail Invalid killed_msg
    \<and> fst (CreatePreparedStatement E P cl q sv) = fail Invalid killed_msg
    \<and> (\<exists>sm sv1. DoGetPreparedStatement E cl h sv = (ok sm, sv1)
          \<and> w_db (sv_world (snd (snd (stream_next E ev sm sv1)))) = d)"
proof -
  have "client_session_for cl (sv_world sv) = (fail Invalid killed_msg, sv_world sv)"
    using assms(1,2)
    by (simp add: client_session_for_def GetClientSession_def GetSessionID_def session_fast_def)
  moreover have "find_char (CHR '':'') (EncodeTransactionQuery q []) = Some 0"
    by (simp add: EncodeTransactionQuery_def)
  ultimately show ?thesis
    using handle_executes [OF assms(3-8), of cl]
    by (simp add: DoGetStatement_def CreatePreparedStatement_def DecodeTransactionQuery_def)
qed

theorem killed_session_keeps_its_handles_witness:
  "fst (DoGetStatement log_engine log_call (EncodeTransactionQuery ''SELECT 2'' []) (log_server {''b''}))
      = fail Invalid killed_msg
    \<and> fst (CreatePreparedStatement log_engine \<lparr>named_param_count = (\<lambda>p. 0), param_type = (\<lambda>p n. VARCHAR)\<rparr>
          log_call ''SELECT 2'' (log_server {''b''})) = fail Invalid killed_msg
    \<and> (\<exists>sm sv1. DoGetPreparedStatement log_engine log_call ''h'' (log_server {''b''}) = (ok sm, sv1)
          \<and> w_db (sv_world (snd (snd (stream_next log_engine quick sm sv1)))) = [''SELECT 1''])"
  by (rule killed_session_keeps_its_handles [where sid = "''b''" and i = 0 and p = "''SELECT 1''" and x = "()"])
    (simp_all add: log_call_def sample_ctx_def)

text \<open>
  The listing of tables with their schemas stops after one batch: once it has returned a batch, every
  further read returns the end of the stream and reads nothing, whatever the inner stream still has, so
  tables after the first batch of the query are not listed.
\<close>

theorem tables_with_schema_only_first_batch:
  assumes "tables_stream_next E serialize expected ev cls ts sv = (Inr (Some b), ts', sv')"
  shows "tables_stream_next E serialize expected ev' cls' ts' sv' = (ok None, ts', sv')
    \<and> \<not> ts_executed ts \<and> rb_schema b = expected"
proof -
  have "ts_executed ts' \<and> \<not> ts_executed ts \<and> rb_schema b = expected"
    using assms by (auto simp: tables_stream_next_def conform_batch_def rbind_def Let_def
        split: if_splits prod.splits sum.splits option.splits)
  then show ?thesis by (simp add: tables_stream_next_def)
qed

text \<open>An engine whose listing never ends, and a stream that has started to read it.\<close>

definition listing_engine :: "(unit, string list, string, unit) engine" where
  "listing_engine = log_engine\<lparr>r_fetch := (\<lambda>r. Inr (Some [], r))\<rparr>"

definition tables_schema :: "field list" where
  "tables_schema = [(''catalog_name'', STRING, True), (''db_schema_name'', STRING, True),
     (''table_name'', STRING, False), (''table_type'', STRING, False)]"

definition listing_server :: "(unit, string list, string, unit) server" where
  "listing_server = (log_server {})\<lparr>sv_statements :=
     [(prepared_statement listing_engine (log_args ''SELECT 1'') ''SELECT 1'')
        \<lparr>ds_override := Some tables_schema, ds_result := Some (Inr ())\<rparr>]\<rparr>"

theorem tables_with_schema_only_first_batch_witness:
  "case tables_stream_next listing_engine (\<lambda>fs. ok ''schema'') (tables_schema @ [(''table_schema'', BINARY, False)])
          quick (\<lambda>n. log_call)
          \<lparr>ts_reader = \<lparr>sm_statement = 0, sm_schema = tables_schema, sm_executed = True\<rparr>, ts_session = 0,
           ts_executed = False\<rparr> listing_server of
     (Inr (Some b), ts', sv') \<Rightarrow>
       fst (tables_stream_next listing_engine (\<lambda>fs. ok ''schema'') (tables_schema @ [(''table_schema'', BINARY, False)])
              quick (\<lambda>n. log_call) ts' sv') = ok None
   | _ \<Rightarrow> False"
proof -
  let ?run = "tables_stream_next listing_engine (\<lambda>fs. ok ''schema'') (tables_schema @ [(''table_schema'', BINARY, False)])
          quick (\<lambda>n. log_call)
          \<lparr>ts_reader = \<lparr>sm_statement = 0, sm_schema = tables_schema, sm_executed = True\<rparr>, ts_session = 0,
           ts_executed = False\<rparr> listing_server"
  have "case ?run of (Inr (Some b), ts', sv') \<Rightarrow> True | _ \<Rightarrow> False"
    by (simp add: tables_stream_next_def stream_next_def ReadNext_def fetch_and_count_def FetchResult_def
        GetSchema_def exec_record_def listing_server_def listing_engine_def log_engine_def db_query_def db_execute_def conform_batch_def
        prepared_statement_def log_args_def tables_schema_def column_index_def Let_def put_statement_def)
  then obtain b ts' sv' where run: "?run = (Inr (Some b), ts', sv')"
    by (cases ?run) (auto split: sum.splits option.splits)
  show ?thesis using tables_with_schema_only_first_batch [OF run] by (simp add: run)
qed

section \<open>A query of several statements runs twice\<close>

text \<open>What a direct execution leaves alone: the session map, and of each session what finds it again.\<close>

definition keeps :: "('c, 'db) world \<Rightarrow> ('c, 'db) world \<Rightarrow> bool" where
  "keeps w w' \<longleftrightarrow>
     w_server w' = w_server w \<and> client_sessions (w_reg w') = client_sessions (w_reg w)
     \<and> killed_session_ids (w_reg w') = killed_session_ids (w_reg w)
     \<and> map (\<lambda>cs. (connection cs, kill_requested cs)) (objs (w_reg w'))
         = map (\<lambda>cs. (connection cs, kill_requested cs)) (objs (w_reg w))"

named_theorems keep_rules \<open>steps that keep the session map\<close>

lemma keeps_refl [keep_rules]: "keeps w w"
  by (simp add: keeps_def)

lemma keeps_trans: "keeps u v \<Longrightarrow> keeps v w \<Longrightarrow> keeps u w"
  by (simp add: keeps_def)

lemma keeps_set_active [keep_rules]: "keeps w (set_active p h w)"
  by (cases "p < length (objs (w_reg w))")
    (simp_all add: keeps_def set_active_def update_session_def map_update list_update_beyond list_update_same_conv)

lemma keeps_set_instr [keep_rules]: "keeps w (set_instr mo w)"
  by (simp add: keeps_def set_instr_def)

lemma keeps_with_db [keep_rules]: "keeps w (with_db d w)"
  by (simp add: keeps_def with_db_def)

lemma keeps_record_metric [keep_rules]: "keeps w (record_metric operation label w)"
  by (simp add: keeps_def record_metric_def)

lemma keeps_exec_record [keep_rules]: "keeps w (snd (exec_record f st w))"
  by (simp add: keeps_def exec_record_def split: option.split prod.split)

lemma keeps_begin_exec [keep_rules]: "keeps w (snd (begin_exec E ev st w))"
  by (simp add: begin_exec_def keep_rules split: option.split prod.split)

lemma keeps_attach [keep_rules]: "keeps w (snd (attach_instrumentation a st w))"
  by (simp add: attach_instrumentation_def record_statement_def keep_rules)

lemma drop_statement_db [simp]: "w_db (drop_statement now st w) = w_db w"
  by (simp add: drop_statement_def split: option.split)

lemma keeps_drop [keep_rules]: "keeps w (drop_statement now st w)"
  by (simp add: keeps_def drop_statement_def split: option.split)

lemma keeps_exec_outcome [keep_rules]: "keeps w (snd (exec_outcome E ev d r st w))"
  by (simp add: exec_outcome_def keep_rules)

text \<open>Asking for a session again finds the same object, on the same connection.\<close>

definition finds :: "'c call \<Rightarrow> nat \<Rightarrow> ('c, 'db) world \<Rightarrow> bool" where
  "finds cl p w \<longleftrightarrow>
     (case ctx_session_id (cl_ctx cl) of
        None \<Rightarrow> False
      | Some sid \<Rightarrow> sid \<notin> killed_session_ids (w_reg w) \<and> client_sessions (w_reg w) sid = Some p
                  \<and> p < length (objs (w_reg w)) \<and> \<not> kill_requested (objs (w_reg w) ! p))"

lemma client_session_found:
  "finds cl p w \<Longrightarrow> client_session_for cl w = (ok p, w)"
  by (auto simp: finds_def client_session_for_def GetClientSession_def GetSessionID_def session_fast_def
      split: option.splits)

lemma keeps_session:
  assumes "keeps w w'" and "p < length (objs (w_reg w))"
  shows "p < length (objs (w_reg w'))" and "connection (session_of p w') = connection (session_of p w)"
    and "kill_requested (session_of p w') = kill_requested (session_of p w)"
proof -
  let ?f = "\<lambda>cs. (connection cs, kill_requested cs)"
  have m: "map ?f (objs (w_reg w')) = map ?f (objs (w_reg w))"
    using assms(1) by (simp add: keeps_def)
  then show l: "p < length (objs (w_reg w'))"
    using map_eq_imp_length_eq [OF m] assms(2) by simp
  have "?f (objs (w_reg w') ! p) = ?f (objs (w_reg w) ! p)"
    using arg_cong [OF m, of "\<lambda>xs. xs ! p"] assms(2) l by (simp del: prod.inject)
  then show "connection (session_of p w') = connection (session_of p w)"
    and "kill_requested (session_of p w') = kill_requested (session_of p w)"
    by (simp_all add: session_of_def)
qed

lemma finds_keeps: "finds cl p w \<Longrightarrow> keeps w w' \<Longrightarrow> finds cl p w'"
  using keeps_session [of w w' p] by (auto simp: finds_def keeps_def session_of_def split: option.splits)

text \<open>A text no command of the server recognises, and that DuckDB refuses because of its several statements.\<close>

definition several_statements :: "('c, 'db, 'p, 'r) engine \<Rightarrow> 'c \<Rightarrow> string \<Rightarrow> bool" where
  "several_statements E c query \<longleftrightarrow>
     IsKillSessionCommand query = None \<and> \<not> IsLikelyGizmoSQLSet query
     \<and> (\<forall>cat. \<not> IsDetachInstrumentationDb query cat)
     \<and> (\<forall>gv d. case db_prepare E c (ReplaceGizmoSQLFunctions gv query) d of
           Inl err \<Rightarrow> contains err multi_statement_error | Inr _ \<Rightarrow> False)"

lemma direct_schema_runs:
  fixes st :: "('p, 'r) statement"
  assumes "w_server w" and "ds_direct st" and "\<not> ds_admin st" and "ds_result st = None" and "bind_parameters st = []"
    and "ds_override st = None" and "ds_cached_schema st = None" and "\<not> ev_slow ev"
    and "db_query E (conn_of st w) (ds_sql st) (w_db w) = (Inr r, d)"
  shows "\<exists>s st' w'. GetSchema E ev st w = (ok s, st', w') \<and> w_db w' = d \<and> keeps w w'"
proof -
  obtain st1 w1 where b: "begin_exec E ev st w = (st1, w1)" by force
  have b': "w_db w1 = w_db w" "conn_of st1 w1 = conn_of st w" "ds_direct st1" "\<not> ds_admin st1"
    "ds_result st1 = None" "bind_parameters st1 = []" "ds_sql st1 = ds_sql st" "keeps w w1"
    using begin_exec_simps [where E = E and ev = ev and st = st and w = w] begin_exec_conn [of E ev st w]
      keeps_begin_exec [of w E ev st] assms(2-5) by (simp_all add: b)
  let ?w2 = "set_active (ds_session st1) [] (with_db d w1)" and ?st2 = "st1\<lparr>ds_result := Some (Inr r)\<rparr>"
  have worker: "run_worker E None st1 w1 = (ok 0, ?st2, ?w2)"
    using run_worker_direct [of st1 E w1] b' assms(9) by simp
  obtain st3 w3 where o: "exec_outcome E ev (ev_end ev - ev_start ev) (ok 0) ?st2 ?w2 = (st3, w3)" by force
  have o': "w_db w3 = d" "ds_result st3 = Some (Inr r)" "keeps ?w2 w3"
    using exec_outcome_simps [where E = E and ev = ev and d = "ev_end ev - ev_start ev" and r = "ok 0"
        and st = ?st2 and w = ?w2] keeps_exec_outcome [of ?w2 E ev "ev_end ev - ev_start ev" "ok 0" ?st2]
    by (simp_all add: o)
  have k: "keeps w (record_metric n l w3)" for n l
    using b'(8) o'(3) keeps_with_db [of w1 d] keeps_set_active [of "with_db d w1" "ds_session st1" "[]"]
      keeps_record_metric [of w3 n l] by (meson keeps_trans)
  have "\<exists>st' w'. Execute E ev st w = (ok 0, st', w') \<and> w_db w' = d \<and> ds_result st' = Some (Inr r) \<and> keeps w w'"
    using assms(3,8) o' k by (simp add: Execute_starts [OF assms(1)] b execute_query_in_time [OF _ worker] o)
  then show ?thesis
    using assms(2,3,6,7) by (auto simp: GetSchema_def ComputeSchema_def)
qed

lemma attach_shape:
  "attach_instrumentation a st w = (r, w') \<Longrightarrow> r = ok st \<or> r = ok (st\<lparr>ds_instrumented := True\<rparr>)"
  by (auto simp: attach_instrumentation_def split: if_splits)

lemma several_statements_run:
  fixes E :: "('c, 'db, 'p, 'r) engine"
  assumes "w_server w" and "several_statements E (connection (session_of (ca_session a) w)) (ca_sql a)"
    and "ca_override a = None" and "\<not> ev_slow ev"
    and "db_query E (connection (session_of (ca_session a) w)) (ca_sql a) (w_db w) = (Inr r, d)"
  shows "\<exists>st w1 s st' w'. Create E a w = (Inr st, w1) \<and> GetSchema E ev st w1 = (ok s, st', w')
    \<and> w_db w' = d \<and> keeps w w'"
proof -
  let ?w1 = "set_active (ca_session a) (ca_handle a) w"
  let ?st = "direct_statement a (ca_log_level a) :: ('p, 'r) statement"
  obtain err where err: "db_prepare E (connection (session_of (ca_session a) w))
         (ReplaceGizmoSQLFunctions (values_of w (ca_session a)) (ca_sql a)) (w_db w) = Inl err"
    "contains err multi_statement_error"
    using assms(2) unfolding several_statements_def by (metis (no_types, lifting) sum.case_eq_if sum.collapse(1))
  have c: "Create E a w = attach_instrumentation a ?st ?w1"
    using assms(1,2) by (intro create_direct [OF _ _ _ _ err]) (simp_all add: several_statements_def)
  obtain ra w2 where at': "attach_instrumentation a ?st ?w1 = (ra, w2)" by force
  obtain st where at: "attach_instrumentation a ?st ?w1 = (Inr st, w2)" "st = ?st \<or> st = ?st\<lparr>ds_instrumented := True\<rparr>"
    using attach_shape [OF at'] at' by blast
  have k: "keeps w w2"
    using keeps_trans [OF keeps_set_active keeps_attach [of ?w1 a ?st]] at(1) by simp
  have w2: "w_server w2" "w_db w2 = w_db w" "session_of (ca_session a) w2 = session_of (ca_session a) ?w1"
    using attach_world [OF at(1)] attach_cases [OF at(1)] assms(1) by auto
  have f: "ds_direct st" "\<not> ds_admin st" "ds_result st = None" "bind_parameters st = []" "ds_override st = None"
    "ds_cached_schema st = None" "ds_sql st = ca_sql a" "ds_session st = ca_session a"
    using assms(3) at(2) by (auto simp: direct_statement_def)
  obtain s st' w' where "GetSchema E ev st w2 = (ok s, st', w')" "w_db w' = d" "keeps w2 w'"
    using direct_schema_runs [OF w2(1) f(1-6) assms(4), of E r d] w2 f(7,8) assms(5) by (auto simp: conn_of_def)
  then show ?thesis using c at(1) k keeps_trans by metis
qed

text \<open>
  A query of several statements runs twice: when a client sends a text that DuckDB cannot prepare
  because it holds several statements through the two calls every Flight SQL query makes, the whole text
  is executed once by GetFlightInfoStatement, to find the schema, and once more by DoGetStatement with the
  ticket of the first call, before any row is read.
\<close>

theorem several_statements_run_twice:
  fixes E :: "('c, 'db, 'p, 'r) engine"
  assumes "w_server (sv_world sv)" and "finds cl p (sv_world sv)" and "\<not> ev_slow (cl_env cl)"
    and "several_statements E (connection (session_of p (sv_world sv))) query"
    and "CHR '':'' \<notin> set transaction_id"
    and "db_query E (connection (session_of p (sv_world sv))) query (w_db (sv_world sv)) = (Inr r1, d1)"
    and "db_query E (connection (session_of p (sv_world sv))) query d1 = (Inr r2, d2)"
  shows "\<exists>schema ticket sv1 sm sv2.
      GetFlightInfoStatement E cl query transaction_id sv = (ok (schema, ticket), sv1) \<and> w_db (sv_world sv1) = d1
    \<and> DoGetStatement E cl ticket sv1 = (ok sm, sv2) \<and> w_db (sv_world sv2) = d2"
proof -
  let ?w = "sv_world sv" and ?ticket = "EncodeTransactionQuery query transaction_id"
  let ?a = "statement_args cl p query (Some ARROW_DEBUG) None ''GetFlightInfoStatement'' False ?w"
  have a: "ca_session ?a = p" "ca_sql ?a = query" "ca_override ?a = None" by (simp_all add: statement_args_def)
  obtain st w1 s st' w2 where one: "Create E ?a ?w = (Inr st, w1)" "GetSchema E (cl_env cl) st w1 = (ok s, st', w2)"
    "w_db w2 = d1" "keeps ?w w2"
    using several_statements_run [of ?w E ?a "cl_env cl" r1 d1] assms(1,3,4,6) a by auto
  let ?w3 = "drop_statement (ev_end (cl_env cl)) st' w2"
  let ?sv1 = "sv\<lparr>sv_world := ?w3\<rparr>"
  have info: "GetFlightInfoStatement E cl query transaction_id sv = (ok (s, ?ticket), ?sv1)"
    using one client_session_found [OF assms(2)] by (simp add: GetFlightInfoStatement_def)
  have w3: "keeps ?w ?w3" "w_db ?w3 = d1"
    using one(3) keeps_trans [OF one(4) keeps_drop] by simp_all
  have sess: "connection (session_of p ?w3) = connection (session_of p ?w)" "finds cl p ?w3" "w_server ?w3"
    using keeps_session [OF w3(1)] finds_keeps [OF assms(2) w3(1)] assms(1,2) w3(1)
    by (auto simp: finds_def keeps_def split: option.splits)
  let ?b = "statement_args cl p query None None ''DoGetStatement'' False ?w3"
  have b: "ca_session ?b = p" "ca_sql ?b = query" "ca_override ?b = None" by (simp_all add: statement_args_def)
  obtain st2 w4 s2 st2' w5 where two: "Create E ?b ?w3 = (Inr st2, w4)"
    "GetSchema E (cl_env cl) st2 w4 = (ok s2, st2', w5)" "w_db w5 = d2"
    using several_statements_run [of ?w3 E ?b "cl_env cl" r2 d2] assms(3,4,7) b sess w3(2) by auto
  have "\<exists>sm sv2. DoGetStatement E cl ?ticket ?sv1 = (ok sm, sv2) \<and> w_db (sv_world sv2) = d2"
    using two client_session_found [OF sess(2)] find_char_append [OF assms(5), of query]
    by (simp add: DoGetStatement_def DecodeTransactionQuery_def EncodeTransactionQuery_def alloc_statement_def
        stream_Create_def nth_append put_statement_def)
  then show ?thesis using info w3(2) by fastforce
qed

theorem several_statements_run_twice_witness:
  "\<exists>schema ticket sv1 sm sv2.
      GetFlightInfoStatement log_engine log_call ''INSERT INTO t VALUES (1); SELECT 1'' [] (log_server {})
        = (ok (schema, ticket), sv1) \<and> w_db (sv_world sv1) = [''INSERT INTO t VALUES (1); SELECT 1'']
    \<and> DoGetStatement log_engine log_call ticket sv1 = (ok sm, sv2)
    \<and> w_db (sv_world sv2) = [''INSERT INTO t VALUES (1); SELECT 1'', ''INSERT INTO t VALUES (1); SELECT 1'']"
proof (rule several_statements_run_twice [where p = 0])
  have "plain_sql ''INSERT INTO t VALUES (1); SELECT 1''" "contains ''INSERT INTO t VALUES (1); SELECT 1'' '';''"
    "\<not> contains (to_upper (trim ''INSERT INTO t VALUES (1); SELECT 1'')) ''DETACH''"
    by code_simp+
  then show "several_statements log_engine (connection (session_of 0 (sv_world (log_server {}))))
      ''INSERT INTO t VALUES (1); SELECT 1''"
    by (simp add: several_statements_def plain_sql_def replace_plain log_engine_def db_query_def contains_iff multi_statement_error_def
        IsDetachInstrumentationDb_def Let_def)
qed (simp_all add: log_engine_def db_query_def log_server_def log_world_def log_call_def finds_def sample_ctx_def one_session_def
      fresh_registry_def session_fields_def)

end
