(* ===== verification/Ingest.thy ===== *)
theory Ingest
  imports Handlers
begin

text \<open>
  Bulk ingestion (\<open>DoPutCommandStatementIngest\<close> of \<open>src/src/duckdb/duckdb_server.cpp\<close>) with its
  transaction guard: the choice between creating, replacing, appending through an interim table and
  failing, the appender loop over the incoming batches, and the commit. DuckDB's transactions and its
  appender are the parameter \<open>ingest_api\<close>; what the atomicity theorem needs of them is the predicate
  \<open>transactional\<close>.
\<close>

section \<open>DuckDB as seen by an ingest\<close>

datatype appender_target = InTable string | InSchema string string | InCatalog string string string

text \<open>
  \<open>has_row\<close> prepares and runs a lookup; the other operations give the exception they throw, if any. An
  appender is the rows it was given: \<open>app_close\<close> writes them, \<open>app_discard\<close> is its destructor.
\<close>

record ('c, 'db, 'r) ingest_api =
  has_row :: "'c \<Rightarrow> bound_sql \<Rightarrow> 'db \<Rightarrow> string + bool"
  tx_begin :: "'c \<Rightarrow> 'db \<Rightarrow> string + 'db"
  tx_commit :: "'c \<Rightarrow> 'db \<Rightarrow> string option \<times> 'db"
  tx_rollback :: "'c \<Rightarrow> 'db \<Rightarrow> 'db"
  app_open :: "'c \<Rightarrow> appender_target \<Rightarrow> 'db \<Rightarrow> string option"
  app_close :: "'c \<Rightarrow> appender_target \<Rightarrow> duckdb_value list list \<Rightarrow> 'db \<Rightarrow> string option \<times> 'db"
  app_discard :: "'c \<Rightarrow> appender_target \<Rightarrow> duckdb_value list list \<Rightarrow> 'db \<Rightarrow> 'db"
  result_count :: "'r \<Rightarrow> int"
  type_name :: "duckdb_type \<Rightarrow> string"

section \<open>The command\<close>

datatype if_not_exist = NotExistFail | NotExistCreate | NotExistUnspecified

datatype if_exists = ExistsFail | ExistsAppend | ExistsReplace | ExistsUnspecified

record ingest_command =
  ic_catalog :: "string option"
  ic_schema :: "string option"
  ic_table :: string
  ic_temporary :: bool
  ic_if_not_exist :: if_not_exist
  ic_if_exists :: if_exists

text \<open>A chunk of the stream: a batch, if it has one, and whether it has application metadata.\<close>

type_synonym chunk = "batch option \<times> bool"

definition full_table_name :: "ingest_command \<Rightarrow> string" where
  "full_table_name c =
     (case ic_catalog c of None \<Rightarrow> [] | Some s \<Rightarrow> QuoteIdent s @ ''.'')
       @ (case ic_schema c of None \<Rightarrow> [] | Some s \<Rightarrow> QuoteIdent s @ ''.'') @ QuoteIdent (ic_table c)"

definition interim_name :: "ingest_command \<Rightarrow> string \<Rightarrow> string" where
  "interim_name c sid = ic_table c @ ''_interim_bulk_ingest_temp_'' @ sid"

definition TableExists ::
    "('c, 'db, 'r) ingest_api \<Rightarrow> 'c \<Rightarrow> ingest_command \<Rightarrow> 'db \<Rightarrow> bool result" where
  "TableExists I conn c d =
     (case has_row I conn (table_exists_query (ic_catalog c) (ic_schema c) (ic_table c)) d of
        Inl err \<Rightarrow> fail Invalid (''DuckDB metadata query failed: '' @ err)
      | Inr b \<Rightarrow> ok b)"

definition RunAndLogQuery ::
    "('c, 'db, 'p, 'r) engine \<Rightarrow> 'c \<Rightarrow> string \<Rightarrow> 'db \<Rightarrow> 'r result \<times> 'db" where
  "RunAndLogQuery E conn query d =
     (case db_query E conn query d of
        (Inl err, d1) \<Rightarrow> (fail Invalid (''Failed to run DuckDB query: '' @ query @ '': '' @ err), d1)
      | (Inr r, d1) \<Rightarrow> (ok r, d1))"

text \<open>Steps 4 and 5: the target (or interim) table is there afterwards; the result names the interim table.\<close>

definition create_target ::
    "('c, 'db, 'p, 'r) engine \<Rightarrow> ('c, 'db, 'r) ingest_api \<Rightarrow> 'c \<Rightarrow> ingest_command \<Rightarrow> field list \<Rightarrow> 'db
     \<Rightarrow> string option result \<times> 'db" where
  "create_target E I conn c schema d =
     (case RunAndLogQuery E conn
             (GenerateCreateTableSQLFromArrowSchema (type_name I) (full_table_name c) schema (ic_temporary c) False) d of
        (r, d1) \<Rightarrow> (rbind r (\<lambda>_. ok None), d1))"

definition prepare_table ::
    "('c, 'db, 'p, 'r) engine \<Rightarrow> ('c, 'db, 'r) ingest_api \<Rightarrow> 'c \<Rightarrow> string \<Rightarrow> ingest_command \<Rightarrow> field list \<Rightarrow> bool
     \<Rightarrow> 'db \<Rightarrow> string option result \<times> 'db" where
  "prepare_table E I conn sid c schema target_exists d =
     (if \<not> target_exists then create_target E I conn c schema d
      else case ic_if_exists c of
             ExistsFail \<Rightarrow> (fail Invalid (''Table: '' @ full_table_name c @ '' already exists''), d)
           | ExistsAppend \<Rightarrow>
               (case RunAndLogQuery E conn
                       (GenerateCreateTableSQLFromArrowSchema (type_name I) (QuoteIdent (interim_name c sid)) schema
                          True True) d of
                  (r, d1) \<Rightarrow> (rbind r (\<lambda>_. ok (Some (interim_name c sid))), d1))
           | ExistsUnspecified \<Rightarrow> (ok None, d)
           | ExistsReplace \<Rightarrow>
               (case RunAndLogQuery E conn (''DROP TABLE '' @ full_table_name c) d of
                  (Inl e, d1) \<Rightarrow> (Inl e, d1)
                | (Inr _, d1) \<Rightarrow> create_target E I conn c schema d1))"

definition target_of :: "ingest_command \<Rightarrow> string option \<Rightarrow> appender_target" where
  "target_of c interim =
     (case interim of
        Some t \<Rightarrow> InTable t
      | None \<Rightarrow>
          (case (ic_catalog c, ic_schema c) of
             (Some cat, Some sch) \<Rightarrow> InCatalog cat sch (ic_table c)
           | (_, Some sch) \<Rightarrow> InSchema sch (ic_table c)
           | _ \<Rightarrow> InTable (ic_table c)))"

definition duckdb_exception :: "string \<Rightarrow> 'a result" where
  "duckdb_exception e = fail Invalid (''DuckDB ingest failed: '' @ e)"

text \<open>
  The loop: it counts the rows of a batch and appends them. An exception of DuckDB's is caught; another one,
  such as a conversion throws itself, leaves the command.
\<close>

fun append_chunks :: "value_lib \<Rightarrow> (status + chunk) list \<Rightarrow> int \<Rightarrow> duckdb_value list list
    \<Rightarrow> int result \<times> duckdb_value list list" where
  "append_chunks lib [] cnt rows = (ok cnt, rows)"
| "append_chunks lib (Inl e # chunks) cnt rows = (Inl e, rows)"
| "append_chunks lib (Inr (None, metadata) # chunks) cnt rows =
     (if metadata then append_chunks lib chunks cnt rows else (ok cnt, rows))"
| "append_chunks lib (Inr (Some b, metadata) # chunks) cnt rows =
     (case AppendRecordBatchToDuckDB lib (Some b) rows of
        (Some (DuckDBException e), rows1) \<Rightarrow> (duckdb_exception e, rows1)
      | (Some (OtherException e), rows1) \<Rightarrow> (fail UnknownError e, rows1)
      | (None, rows1) \<Rightarrow> append_chunks lib chunks (cnt + int (num_rows b)) rows1)"

text \<open>Step 7: the interim rows go into the target, their number is compared, the interim table goes.\<close>

definition mismatch_msg :: "ingest_command \<Rightarrow> string \<Rightarrow> int \<Rightarrow> int \<Rightarrow> string" where
  "mismatch_msg c interim n cnt =
     ''Row count inserted from interim table: '' @ interim @ '' ('' @ show_int n @ '')'' @ '' into: ''
       @ full_table_name c @ '' was mis-matched from rows appended ('' @ show_int cnt @ '') !''"

definition copy_interim ::
    "('c, 'db, 'p, 'r) engine \<Rightarrow> ('c, 'db, 'r) ingest_api \<Rightarrow> 'c \<Rightarrow> ingest_command \<Rightarrow> string option \<Rightarrow> int \<Rightarrow> 'db
     \<Rightarrow> unit result \<times> 'db" where
  "copy_interim E I conn c interim cnt d =
     (case interim of
        None \<Rightarrow> (ok (), d)
      | Some t \<Rightarrow>
          (case RunAndLogQuery E conn
                  (''INSERT INTO '' @ full_table_name c @ '' BY NAME SELECT * FROM '' @ QuoteIdent t) d of
             (Inl e, d1) \<Rightarrow> (Inl e, d1)
           | (Inr r, d1) \<Rightarrow>
               (if result_count I r \<noteq> cnt
                then (fail Invalid (mismatch_msg c t (result_count I r) cnt), d1)
                else case RunAndLogQuery E conn (''DROP TABLE '' @ QuoteIdent t) d1 of
                       (r', d2) \<Rightarrow> (rbind r' (\<lambda>_. ok ()), d2))))"

definition append_all ::
    "('c, 'db, 'p, 'r) engine \<Rightarrow> ('c, 'db, 'r) ingest_api \<Rightarrow> value_lib \<Rightarrow> 'c \<Rightarrow> ingest_command \<Rightarrow> string option
     \<Rightarrow> (status + chunk) list \<Rightarrow> 'db \<Rightarrow> int result \<times> 'db" where
  "append_all E I lib conn c interim chunks d =
     (let target = target_of c interim
      in case app_open I conn target d of
           Some e \<Rightarrow> (duckdb_exception e, d)
         | None \<Rightarrow>
             (case append_chunks lib chunks 0 [] of
                (Inl e, rows) \<Rightarrow> (Inl e, app_discard I conn target rows d)
              | (Inr cnt, rows) \<Rightarrow>
                  (case app_close I conn target rows d of
                     (Some e, d1) \<Rightarrow> (duckdb_exception e, d1)
                   | (None, d1) \<Rightarrow>
                       (case copy_interim E I conn c interim cnt d1 of
                          (r, d2) \<Rightarrow> (rbind r (\<lambda>_. ok cnt), d2)))))"

text \<open>Everything under the transaction guard; its destructor rolls back unless the commit came through.\<close>

definition commit_tx :: "('c, 'db, 'r) ingest_api \<Rightarrow> 'c \<Rightarrow> int result \<times> 'db \<Rightarrow> int result \<times> 'db" where
  "commit_tx I conn rd =
     (case rd of
        (Inl e, d) \<Rightarrow> (Inl e, tx_rollback I conn d)
      | (Inr n, d) \<Rightarrow>
          (case tx_commit I conn d of
             (Some e, d1) \<Rightarrow> (duckdb_exception e, tx_rollback I conn d1)
           | (None, d1) \<Rightarrow> (ok n, d1)))"

definition ingest ::
    "('c, 'db, 'p, 'r) engine \<Rightarrow> ('c, 'db, 'r) ingest_api \<Rightarrow> value_lib \<Rightarrow> 'c \<Rightarrow> string \<Rightarrow> ingest_command
     \<Rightarrow> field list result \<Rightarrow> (status + chunk) list \<Rightarrow> 'db \<Rightarrow> int result \<times> 'db" where
  "ingest E I lib conn sid c arrow_schema chunks d =
     (case rbind arrow_schema (\<lambda>s. rbind (TableExists I conn c d) (\<lambda>b. ok (s, b))) of
        Inl e \<Rightarrow> (Inl e, d)
      | Inr (schema, target_exists) \<Rightarrow>
          if \<not> target_exists \<and> ic_if_not_exist c = NotExistFail
          then (fail Invalid (''Table: '' @ full_table_name c @ '' does not exist''), d)
          else case tx_begin I conn d of
                 Inl e \<Rightarrow> (fail UnknownError e, d)
               | Inr d1 \<Rightarrow>
                   commit_tx I conn
                     (case prepare_table E I conn sid c schema target_exists d1 of
                        (Inl e, d2) \<Rightarrow> (Inl e, d2)
                      | (Inr interim, d2) \<Rightarrow> append_all E I lib conn c interim chunks d2))"

definition DoPutCommandStatementIngest ::
    "('c, 'db, 'p, 'r) engine \<Rightarrow> ('c, 'db, 'r) ingest_api \<Rightarrow> value_lib \<Rightarrow> 'c call \<Rightarrow> ingest_command
     \<Rightarrow> field list result \<Rightarrow> (status + chunk) list \<Rightarrow> ('c, 'db) world \<Rightarrow> int result \<times> ('c, 'db) world" where
  "DoPutCommandStatementIngest E I lib cl c arrow_schema chunks w =
     (case client_session_for cl w of
        (Inl e, w1) \<Rightarrow> (Inl e, w1)
      | (Inr p, w1) \<Rightarrow>
          (case ingest E I lib (connection (session_of p w1)) (session_id (session_of p w1)) c arrow_schema chunks
                  (w_db w1) of
             (r, d) \<Rightarrow> (r, with_db d w1)))"

section \<open>Properties\<close>

text \<open>
  What the atomicity needs of DuckDB: \<open>base\<close> gives the committed state a transaction started from; the
  statements an ingest runs and the appender stay inside the transaction, a commit that fails too, and a
  rollback returns to that state.
\<close>

definition ingest_statement :: "string \<Rightarrow> bool" where
  "ingest_statement q \<longleftrightarrow> prefix ''CREATE '' q \<or> prefix ''DROP TABLE '' q \<or> prefix ''INSERT INTO '' q"

definition transactional ::
    "('c, 'db, 'p, 'r) engine \<Rightarrow> ('c, 'db, 'r) ingest_api \<Rightarrow> 'c \<Rightarrow> ('db \<Rightarrow> 'db) \<Rightarrow> bool" where
  "transactional E I conn base \<longleftrightarrow>
     (\<forall>d d1. tx_begin I conn d = Inr d1 \<longrightarrow> base d1 = d)
     \<and> (\<forall>q d. ingest_statement q \<longrightarrow> base (snd (db_query E conn q d)) = base d)
     \<and> (\<forall>t rows d. base (snd (app_close I conn t rows d)) = base d \<and> base (app_discard I conn t rows d) = base d)
     \<and> (\<forall>d. fst (tx_commit I conn d) \<noteq> None \<longrightarrow> base (snd (tx_commit I conn d)) = base d)
     \<and> (\<forall>d. tx_rollback I conn d = base d)"

lemma RunAndLogQuery_base:
  assumes "transactional E I conn base" and "ingest_statement q" and "RunAndLogQuery E conn q d = (r, d1)"
  shows "base d1 = base d"
proof -
  have "d1 = snd (db_query E conn q d)"
    using assms(3) by (auto simp: RunAndLogQuery_def split: prod.splits sum.splits)
  then show ?thesis using assms(1,2) by (simp add: transactional_def)
qed

lemma ingest_statements [simp]:
  "ingest_statement (GenerateCreateTableSQLFromArrowSchema tt n schema temporary replace)"
  "ingest_statement (''DROP TABLE '' @ n)" "ingest_statement (''INSERT INTO '' @ n)"
  by (simp_all add: ingest_statement_def GenerateCreateTableSQLFromArrowSchema_def)

lemma create_target_base:
  "transactional E I conn base \<Longrightarrow> create_target E I conn c schema d = (r, d1) \<Longrightarrow> base d1 = base d"
  using RunAndLogQuery_base [OF _ ingest_statements(1)]
  by (fastforce simp: create_target_def split: prod.splits)

lemma prepare_table_base:
  assumes "transactional E I conn base" and "prepare_table E I conn sid c schema ex d = (r, d1)"
  shows "base d1 = base d"
proof (cases "ex \<and> ic_if_exists c = ExistsReplace")
  case True
  obtain r1 d2 where q: "RunAndLogQuery E conn (''DROP TABLE '' @ full_table_name c) d = (r1, d2)" by force
  show ?thesis
    using assms(2) True q RunAndLogQuery_base [OF assms(1) ingest_statements(2) q]
      create_target_base [OF assms(1), of c schema d2]
    by (auto simp: prepare_table_def split: sum.splits)
next
  case False
  obtain r1 d2 where q: "RunAndLogQuery E conn (GenerateCreateTableSQLFromArrowSchema (type_name I)
      (QuoteIdent (interim_name c sid)) schema True True) d = (r1, d2)" by force
  show ?thesis
    using assms(2) False q RunAndLogQuery_base [OF assms(1) ingest_statements(1) q]
      create_target_base [OF assms(1), of c schema d]
    by (auto simp: prepare_table_def split: if_splits if_exists.splits)
qed

lemma copy_interim_base:
  assumes "transactional E I conn base" and "copy_interim E I conn c interim cnt d = (r, d1)"
  shows "base d1 = base d"
proof (cases interim)
  case (Some t)
  obtain r1 d2 where q: "RunAndLogQuery E conn
      (''INSERT INTO '' @ full_table_name c @ '' BY NAME SELECT * FROM '' @ QuoteIdent t) d = (r1, d2)" by force
  obtain r2 d3 where p: "RunAndLogQuery E conn (''DROP TABLE '' @ QuoteIdent t) d2 = (r2, d3)" by force
  have b: "base d2 = base d" by (rule RunAndLogQuery_base [OF assms(1) ingest_statements(3) q])
  have "d1 = d2 \<or> d1 = d3"
    using assms(2) Some q p by (auto simp: copy_interim_def split: sum.splits if_splits prod.splits)
  then show ?thesis
    using RunAndLogQuery_base [OF assms(1) ingest_statements(2) p] b by auto
qed (use assms(2) in \<open>simp add: copy_interim_def\<close>)

lemma append_all_base:
  assumes "transactional E I conn base" and "append_all E I lib conn c interim chunks d = (r, d1)"
  shows "base d1 = base d"
proof -
  let ?t = "target_of c interim"
  have a: "base (snd (app_close I conn t rows d)) = base d" "base (app_discard I conn t rows d) = base d" for t rows
    using assms(1) by (auto simp: transactional_def)
  obtain r1 rows where l: "append_chunks lib chunks 0 [] = (r1, rows)" by force
  obtain e d2 where cl: "app_close I conn ?t rows d = (e, d2)" by force
  obtain r3 d3 where co: "copy_interim E I conn c interim (projr r1) d2 = (r3, d3)" by force
  have "d1 = d \<or> d1 = app_discard I conn ?t rows d \<or> d1 = d2 \<or> d1 = d3"
    using assms(2) l cl co by (auto simp: append_all_def Let_def split: option.splits sum.splits)
  then show ?thesis
    using a(1) [of ?t rows] a(2) [of ?t rows] cl copy_interim_base [OF assms(1) co] by auto
qed

text \<open>The batches of a stream up to its end, and the rows a batch becomes.\<close>

fun data_batches :: "(status + chunk) list \<Rightarrow> batch list" where
  "data_batches [] = []"
| "data_batches (Inl e # chunks) = []"
| "data_batches (Inr (None, metadata) # chunks) = (if metadata then data_batches chunks else [])"
| "data_batches (Inr (Some b, metadata) # chunks) = b # data_batches chunks"

definition row_of :: "value_lib \<Rightarrow> batch \<Rightarrow> nat \<Rightarrow> duckdb_value list \<Rightarrow> bool" where
  "row_of lib b i row \<longleftrightarrow> list_all2 (\<lambda>c v. ConvertArrowCellToDuckDBValue lib (fst c) (snd c ! i) = Inr v) b row"

definition rows_of :: "value_lib \<Rightarrow> batch \<Rightarrow> duckdb_value list list \<Rightarrow> bool" where
  "rows_of lib b rows \<longleftrightarrow> list_all2 (row_of lib b) [0..<num_rows b] rows"

lemma append_row_converts:
  "append_row lib b i cells = Inr row \<Longrightarrow> \<exists>vs. row = cells @ vs \<and> row_of lib b i vs"
proof (induction b arbitrary: cells)
  case (Cons c b)
  obtain t vs where c: "c = (t, vs)" by force
  obtain d where d: "ConvertArrowCellToDuckDBValue lib t (vs ! i) = Inr d" "append_row lib b i (cells @ [d]) = Inr row"
    using Cons.prems c by (auto split: sum.splits option.splits)
  then obtain ds where "row = (cells @ [d]) @ ds" "row_of lib b i ds" using Cons.IH by blast
  then show ?case using d(1) c by (intro exI [of _ "d # ds"]) (simp add: row_of_def)
qed (simp add: row_of_def)

lemma append_rows_converts:
  "append_rows lib b is acc = (None, rows) \<Longrightarrow> \<exists>rs. rows = acc @ rs \<and> list_all2 (row_of lib b) is rs"
proof (induction "is" arbitrary: acc)
  case (Cons i "is")
  obtain r where r: "append_row lib b i [] = Inr r" "append_rows lib b is (acc @ [r]) = (None, rows)"
    using Cons.prems by (auto split: sum.splits option.splits)
  then obtain rs where "rows = (acc @ [r]) @ rs" "list_all2 (row_of lib b) is rs" using Cons.IH by blast
  then show ?case using append_row_converts [OF r(1)] by (intro exI [of _ "r # rs"]) simp
qed simp

lemma append_chunks_converts:
  "append_chunks lib chunks cnt acc = (Inr n, rows) \<Longrightarrow>
     \<exists>rss. rows = acc @ concat rss \<and> list_all2 (rows_of lib) (data_batches chunks) rss
       \<and> n = cnt + int (length (concat rss))"
proof (induction lib chunks cnt acc rule: append_chunks.induct)
  case (3 lib metadata chunks cnt rows')
  then show ?case by (auto split: if_splits)
next
  case (4 lib b metadata chunks cnt acc)
  obtain rows1 where a: "AppendRecordBatchToDuckDB lib (Some b) acc = (None, rows1)"
    using 4(2) by (auto simp: duckdb_exception_def split: prod.splits option.splits thrown.splits)
  then obtain rs where rs: "rows1 = acc @ rs" "rows_of lib b rs"
    using append_rows_converts by (fastforce simp: AppendRecordBatchToDuckDB_def rows_of_def)
  have "length rs = num_rows b" using rs(2) by (auto simp: rows_of_def dest: list_all2_lengthD)
  moreover obtain rss where "rows = rows1 @ concat rss" "list_all2 (rows_of lib) (data_batches chunks) rss"
    "n = cnt + int (num_rows b) + int (length (concat rss))"
    using 4(1) [OF a [symmetric] refl] 4(2) a by auto
  ultimately show ?case using rs by (intro exI [of _ "rs # rss"]) simp
qed auto

text \<open>
  C16: An ingest is all or nothing. If it returns an error, for whatever reason, the database is as it was
  before the call. If it succeeds, the appender wrote, and the transaction that was committed contains,
  exactly the rows of every batch of the stream, in order, each cell converted to its column's value, and
  the result is their number; when the rows went through the interim table, the INSERT into the target
  reported that same number.
\<close>

theorem ingest_all_or_nothing:
  assumes "transactional E I conn base" and "ingest E I lib conn sid c arrow_schema chunks d = (r, d')"
  shows "case r of
      Inl e \<Rightarrow> d' = d
    | Inr n \<Rightarrow> (\<exists>rss interim d1 d2 d3. list_all2 (rows_of lib) (data_batches chunks) rss
        \<and> n = int (length (concat rss))
        \<and> app_close I conn (target_of c interim) (concat rss) d1 = (None, d2)
        \<and> copy_interim E I conn c interim n d2 = (ok (), d3) \<and> tx_commit I conn d3 = (None, d'))"
proof -
  have roll: "tx_rollback I conn x = base x" "tx_begin I conn d = Inr y \<Longrightarrow> base y = d"
    "fst (tx_commit I conn x) \<noteq> None \<Longrightarrow> base (snd (tx_commit I conn x)) = base x" for x y
    using assms(1) by (auto simp: transactional_def)
  consider (early) e where "r = Inl e" "d' = d"
    | (tx) d1 schema ex where "tx_begin I conn d = Inr d1"
        "commit_tx I conn (case prepare_table E I conn sid c schema ex d1 of
             (Inl e, d2) \<Rightarrow> (Inl e, d2)
           | (Inr interim, d2) \<Rightarrow> append_all E I lib conn c interim chunks d2) = (r, d')"
    using assms(2) by (auto simp: ingest_def split: sum.splits if_splits prod.splits)
  then show ?thesis
  proof cases
    case early
    then show ?thesis by simp
  next
    case tx
    obtain r2 d2 where p: "prepare_table E I conn sid c schema ex d1 = (r2, d2)" by force
    have b2: "base d2 = d" using prepare_table_base [OF assms(1) p] roll(2) [OF tx(1)] by simp
    show ?thesis
    proof (cases r2)
      case (Inl e)
      then show ?thesis using tx(2) p b2 roll(1) by (auto simp: commit_tx_def)
    next
      case (Inr interim)
      obtain r3 d3 where a: "append_all E I lib conn c interim chunks d2 = (r3, d3)" by force
      have b3: "base d3 = d" using append_all_base [OF assms(1) a] b2 by simp
      obtain ce d4 where ce: "tx_commit I conn d3 = (ce, d4)" by force
      have res: "commit_tx I conn (r3, d3) = (r, d')" using tx(2) p Inr a by simp
      show ?thesis
      proof (cases r)
        case (Inl e)
        then show ?thesis
          using res ce b3 roll(1) roll(3) [of d3]
          by (auto simp: commit_tx_def duckdb_exception_def split: sum.splits option.splits)
      next
        fix n assume r: "r = Inr n"
        then have ok3: "r3 = Inr n" "ce = None" "d' = d4"
          using res ce by (auto simp: commit_tx_def duckdb_exception_def split: sum.splits option.splits)
        obtain rows where l: "append_chunks lib chunks 0 [] = (Inr n, rows)"
          using a ok3(1) by (auto simp: append_all_def Let_def duckdb_exception_def rbind_def
              split: option.splits sum.splits prod.splits)
        obtain d5 where "app_close I conn (target_of c interim) rows d2 = (None, d5)"
          "copy_interim E I conn c interim n d5 = (ok (), d3)"
          using a ok3(1) l by (auto simp: append_all_def Let_def duckdb_exception_def rbind_def
              split: option.splits sum.splits prod.splits)
        moreover obtain rss where "rows = concat rss" "list_all2 (rows_of lib) (data_batches chunks) rss"
          "n = int (length (concat rss))"
          using append_chunks_converts [OF l] by auto
        ultimately show ?thesis using r ok3 ce by (simp del: length_concat) blast
      qed
    qed
  qed
qed

text \<open>
  A database with transactions for the witness: the committed log and the current one. The stream has one
  batch and then fails.
\<close>

definition pair_engine :: "(unit, string list \<times> string list, string, unit) engine" where
  "pair_engine =
     \<lparr>db_prepare = (\<lambda>c sql d. Inr sql), p_modified = (\<lambda>p. []), p_reads = (\<lambda>p. []), p_read_only = (\<lambda>p. False),
      p_query = (\<lambda>p. p), p_schema = (\<lambda>p. []), db_start_execute = (\<lambda>c p vs d. d),
      db_start_query = (\<lambda>c sql d. (fst d, snd d @ [sql])), db_finish = (\<lambda>c d. (Inr (), d)), db_interrupt = (\<lambda>c d. d), r_schema = (\<lambda>r. []),
      r_fetch = (\<lambda>r. Inr (None, r)), fetch_failed = (\<lambda>e. e), parse_query = (\<lambda>s. Inr []),
      value_text = (\<lambda>v. ''?''), status_text = message\<rparr>"

definition pair_api :: "(unit, string list \<times> string list, unit) ingest_api" where
  "pair_api =
     \<lparr>has_row = (\<lambda>c q d. Inr True), tx_begin = (\<lambda>c d. if fst d = snd d then Inr d else Inl ''in a transaction''),
      tx_commit = (\<lambda>c d. (None, (snd d, snd d))), tx_rollback = (\<lambda>c d. (fst d, fst d)), app_open = (\<lambda>c t d. None),
      app_close = (\<lambda>c t rows d. (None, (fst d, snd d @ [''rows'']))),
      app_discard = (\<lambda>c t rows d. (fst d, snd d @ [''flushed''])), result_count = (\<lambda>r. 0), type_name = (\<lambda>t. ''T'')\<rparr>"

definition replace_command :: ingest_command where
  "replace_command = \<lparr>ic_catalog = None, ic_schema = None, ic_table = ''t'', ic_temporary = False,
     ic_if_not_exist = NotExistUnspecified, ic_if_exists = ExistsReplace\<rparr>"

theorem ingest_all_or_nothing_witness:
  "snd (ingest pair_engine pair_api sample_lib () ''s'' replace_command (ok [(''a'', INT32, True)])
      [Inr (Some [(INT32, [VInt 1])], False), Inl (Status IOError ''cut off'')] ([''old''], [''old''])) = ([''old''], [''old''])"
  (is "snd ?i = _")
proof -
  have tr: "transactional pair_engine pair_api () (\<lambda>d. (fst d, fst d))"
    by (auto simp: transactional_def db_query_def pair_engine_def pair_api_def split: if_splits)
  obtain r d' where i: "?i = (r, d')" by (rule prod.exhaust)
  moreover have "\<exists>e. fst ?i = Inl e"
    by (simp add: ingest_def TableExists_def pair_api_def replace_command_def prepare_table_def RunAndLogQuery_def
        pair_engine_def db_query_def create_target_def append_all_def AppendRecordBatchToDuckDB_def num_rows_def
        ConvertArrowCellToDuckDBValue_def scalar_cell_def int_cell_def sum_map_def commit_tx_def)
  ultimately show ?thesis using ingest_all_or_nothing [OF tr i] by auto
qed

text \<open>
  An ingest does not look at what the session may do: whatever role and catalog rules the session has,
  \<open>readonly\<close> or rules that grant nothing included, the command has the same result and leaves the same
  database, so it creates, replaces and fills tables in catalogs the session may not write.
\<close>

theorem ingest_ignores_permissions:
  assumes "finds cl p w" and "w' = update_session p (\<lambda>cs. cs\<lparr>role := rl, catalog_access := rules\<rparr>) w"
  shows "fst (DoPutCommandStatementIngest E I lib cl c arrow_schema chunks w')
      = fst (DoPutCommandStatementIngest E I lib cl c arrow_schema chunks w)
    \<and> w_db (snd (DoPutCommandStatementIngest E I lib cl c arrow_schema chunks w'))
      = w_db (snd (DoPutCommandStatementIngest E I lib cl c arrow_schema chunks w))
    \<and> role (session_of p w') = rl \<and> catalog_access (session_of p w') = rules"
proof -
  have p: "p < length (objs (w_reg w))" using assms(1) by (auto simp: finds_def split: option.splits)
  then have f: "finds cl p w'"
    using assms by (auto simp: finds_def update_session_def split: option.splits)
  have "connection (session_of p w') = connection (session_of p w)" "session_id (session_of p w') = session_id (session_of p w)"
    "w_db w' = w_db w" "role (session_of p w') = rl" "catalog_access (session_of p w') = rules"
    using p assms(2) by (simp_all add: session_of_def update_session_def)
  then show ?thesis
    using client_session_found [OF f] client_session_found [OF assms(1)]
    by (simp add: DoPutCommandStatementIngest_def split: prod.split)
qed

definition log_ingest_api :: "(unit, string list, unit) ingest_api" where
  "log_ingest_api =
     \<lparr>has_row = (\<lambda>c q d. Inr False), tx_begin = (\<lambda>c d. Inr d), tx_commit = (\<lambda>c d. (None, d)), tx_rollback = (\<lambda>c d. d),
      app_open = (\<lambda>c t d. None), app_close = (\<lambda>c t rows d. (None, d)), app_discard = (\<lambda>c t rows d. d),
      result_count = (\<lambda>r. 0), type_name = (\<lambda>t. ''T'')\<rparr>"

theorem ingest_ignores_permissions_witness:
  "role (session_of 0 (update_session 0 (\<lambda>cs. cs\<lparr>role := ''readonly'', catalog_access := []\<rparr>) (sv_world (log_server {}))))
      = ''readonly''
    \<and> fst (DoPutCommandStatementIngest log_engine log_ingest_api sample_lib log_call replace_command
        (ok [(''a'', INT32, True)]) []
        (update_session 0 (\<lambda>cs. cs\<lparr>role := ''readonly'', catalog_access := []\<rparr>) (sv_world (log_server {})))) = ok 0"
proof -
  have f: "finds log_call 0 (sv_world (log_server {}))"
    by (simp add: log_server_def log_world_def log_call_def finds_def sample_ctx_def one_session_def
        fresh_registry_def session_fields_def)
  have "fst (DoPutCommandStatementIngest log_engine log_ingest_api sample_lib log_call replace_command
      (ok [(''a'', INT32, True)]) [] (sv_world (log_server {}))) = ok 0"
    using client_session_found [OF f]
    by (simp add: DoPutCommandStatementIngest_def ingest_def TableExists_def replace_command_def prepare_table_def
        create_target_def RunAndLogQuery_def db_query_def log_engine_def log_ingest_api_def append_all_def target_of_def
        copy_interim_def commit_tx_def split: prod.splits)
  then show ?thesis
    using ingest_ignores_permissions [OF f refl, where E = log_engine and I = log_ingest_api and lib = sample_lib
        and c = replace_command and arrow_schema = "ok [(''a'', INT32, True)]" and chunks = "[]"
        and rl = "''readonly''" and rules = "[]"]
    by (simp only: simp_thms)
qed

end
