(* ===== verification/TypeInfo.thy ===== *)
theory TypeInfo
  imports Prelude
begin

text \<open>
  The types the two backends announce (\<open>src/src/duckdb/duckdb_type_info.cpp\<close>, \<open>src/src/sqlite/sqlite_type_info.cc\<close>) and
  the choice of the rows of one type, which searches a vector of type codes with \<open>std::equal_range\<close>. The search is
  that of the standard library: it halves the range, and asks for a vector that is sorted.
\<close>

section \<open>Searching\<close>

function lower_bound :: "int list \<Rightarrow> int \<Rightarrow> nat \<Rightarrow> nat \<Rightarrow> nat" where
  "lower_bound xs v first len =
     (if len = 0 then first
      else let half = len div 2; middle = first + half in
           if xs ! middle < v then lower_bound xs v (middle + 1) (len - half - 1)
           else lower_bound xs v first half)"
  by pat_completeness auto
termination by (relation "measure (\<lambda>(xs, v, first, len). len)") (auto simp: Let_def)

function upper_bound :: "int list \<Rightarrow> int \<Rightarrow> nat \<Rightarrow> nat \<Rightarrow> nat" where
  "upper_bound xs v first len =
     (if len = 0 then first
      else let half = len div 2; middle = first + half in
           if v < xs ! middle then upper_bound xs v first half
           else upper_bound xs v (middle + 1) (len - half - 1))"
  by pat_completeness auto
termination by (relation "measure (\<lambda>(xs, v, first, len). len)") (auto simp: Let_def)

function equal_range_from :: "int list \<Rightarrow> int \<Rightarrow> nat \<Rightarrow> nat \<Rightarrow> nat \<times> nat" where
  "equal_range_from xs v first len =
     (if len = 0 then (first, first)
      else let half = len div 2; middle = first + half in
           if xs ! middle < v then equal_range_from xs v (middle + 1) (len - half - 1)
           else if v < xs ! middle then equal_range_from xs v first half
           else (lower_bound xs v first half, upper_bound xs v (middle + 1) (first + len - (middle + 1))))"
  by pat_completeness auto
termination by (relation "measure (\<lambda>(xs, v, first, len). len)") (auto simp: Let_def)

declare lower_bound.simps [simp del] upper_bound.simps [simp del] equal_range_from.simps [simp del]

definition equal_range :: "int list \<Rightarrow> int \<Rightarrow> nat \<times> nat" where
  "equal_range xs v = equal_range_from xs v 0 (length xs)"

text \<open>What a search must find: the first element that is not smaller, the first that is greater.\<close>

definition splits_at :: "(int \<Rightarrow> bool) \<Rightarrow> int list \<Rightarrow> nat \<Rightarrow> bool" where
  "splits_at p xs i \<longleftrightarrow> i \<le> length xs \<and> (\<forall>j < i. p (xs ! j)) \<and> (\<forall>j. i \<le> j \<and> j < length xs \<longrightarrow> \<not> p (xs ! j))"

text \<open>What a search knows of its range: all before it is smaller, all behind it is not.\<close>

definition searching :: "(int \<Rightarrow> bool) \<Rightarrow> int list \<Rightarrow> nat \<Rightarrow> nat \<Rightarrow> bool" where
  "searching p xs first len \<longleftrightarrow> first + len \<le> length xs \<and> (\<forall>j < first. p (xs ! j))
     \<and> (\<forall>j. first + len \<le> j \<and> j < length xs \<longrightarrow> \<not> p (xs ! j))"

lemma searching_done: "searching p xs first 0 \<Longrightarrow> splits_at p xs first"
  by (simp add: searching_def splits_at_def)

lemma searching_start: "searching p xs 0 (length xs)"
  by (auto simp: searching_def)

text \<open>A predicate that only fails on greater elements, as those of the searches are.\<close>

definition downward :: "(int \<Rightarrow> bool) \<Rightarrow> bool" where
  "downward p \<longleftrightarrow> (\<forall>x y. x \<le> y \<and> p y \<longrightarrow> p x)"

lemma downward_less [simp]: "downward (\<lambda>x. x < v)" and downward_le [simp]: "downward (\<lambda>x. x \<le> v)"
  by (auto simp: downward_def)

lemma searching_right:
  assumes "sorted xs" and "downward p" and "searching p xs first len" and "half < len" and "p (xs ! (first + half))"
  shows "searching p xs (first + half + 1) (len - half - 1)"
proof -
  have "p (xs ! j)" if "j \<le> first + half" for j
    using sorted_nth_mono [OF assms(1) that] assms(2-5) by (auto simp: downward_def searching_def)
  then show ?thesis using assms(3,4) by (auto simp: searching_def)
qed

lemma searching_left:
  assumes "sorted xs" and "downward p" and "searching p xs first len" and "half < len" and "\<not> p (xs ! (first + half))"
  shows "searching p xs first half"
proof -
  have "\<not> p (xs ! j)" if "first + half \<le> j" "j < length xs" for j
    using sorted_nth_mono [OF assms(1) that] assms(2,5) by (auto simp: downward_def)
  then show ?thesis using assms(3,4) by (auto simp: searching_def)
qed

lemma lower_bound_splits:
  "sorted xs \<Longrightarrow> searching (\<lambda>x. x < v) xs first len \<Longrightarrow> splits_at (\<lambda>x. x < v) xs (lower_bound xs v first len)"
proof (induction xs v first len rule: lower_bound.induct)
  case (1 xs v first len)
  show ?case
  proof (cases "len = 0")
    case True
    then show ?thesis using 1 searching_done by (simp add: lower_bound.simps)
  next
    case False
    note step = lower_bound.simps [of xs v first len]
    have half: "len div 2 < len" using False by simp
    show ?thesis
      using 1 False searching_right [OF 1(3) downward_less 1(4) half] searching_left [OF 1(3) downward_less 1(4) half]
      by (simp add: step Let_def)
  qed
qed

lemma upper_bound_splits:
  "sorted xs \<Longrightarrow> searching (\<lambda>x. x \<le> v) xs first len \<Longrightarrow> splits_at (\<lambda>x. x \<le> v) xs (upper_bound xs v first len)"
proof (induction xs v first len rule: upper_bound.induct)
  case (1 xs v first len)
  show ?case
  proof (cases "len = 0")
    case True
    then show ?thesis using 1 searching_done by (simp add: upper_bound.simps)
  next
    case False
    note step = upper_bound.simps [of xs v first len]
    have half: "len div 2 < len" using False by simp
    show ?thesis
      using 1 False searching_right [OF 1(3) downward_le 1(4) half] searching_left [OF 1(3) downward_le 1(4) half]
      by (simp add: step Let_def not_less)
  qed
qed

lemma equal_range_splits:
  "sorted xs \<Longrightarrow> searching (\<lambda>x. x < v) xs first len \<Longrightarrow> searching (\<lambda>x. x \<le> v) xs first len \<Longrightarrow>
     splits_at (\<lambda>x. x < v) xs (fst (equal_range_from xs v first len))
     \<and> splits_at (\<lambda>x. x \<le> v) xs (snd (equal_range_from xs v first len))"
proof (induction xs v first len rule: equal_range_from.induct)
  case (1 xs v first len)
  show ?case
  proof (cases "len = 0")
    case True
    then show ?thesis using 1 searching_done by (simp add: equal_range_from.simps)
  next
    case False
    note step = equal_range_from.simps [of xs v first len]
    let ?m = "first + len div 2"
    have half: "len div 2 < len" using False by simp
    note right = searching_right [OF 1(3) _ _ half] and left = searching_left [OF 1(3) _ _ half]
    consider "xs ! ?m < v" | "v < xs ! ?m" | "xs ! ?m = v" by linarith
    then show ?thesis
    proof cases
      case 1: 1
      then show ?thesis
        using "1.IH"(1) [OF False refl refl 1] right [OF downward_less "1.prems"(2)] right [OF downward_le "1.prems"(3)]
          "1.prems"(1) False by (simp add: step Let_def)
    next
      case 2
      then show ?thesis
        using "1.IH"(2) [OF False refl refl] left [OF downward_less "1.prems"(2)] left [OF downward_le "1.prems"(3)]
          "1.prems"(1) False by (simp add: step Let_def)
    next
      case 3
      have "len - len div 2 - 1 = first + len - Suc ?m" by simp
      then show ?thesis
        using 3 False lower_bound_splits [OF "1.prems"(1) left [OF downward_less "1.prems"(2)]]
          upper_bound_splits [OF "1.prems"(1) right [OF downward_le "1.prems"(3)]]
        by (simp add: step Let_def)
    qed
  qed
qed

lemma in_take_drop: "x \<in> set (take n (drop l xs)) \<Longrightarrow> \<exists>j. l \<le> j \<and> j < l + n \<and> j < length xs \<and> x = xs ! j"
proof -
  assume "x \<in> set (take n (drop l xs))"
  then obtain i where "i < length (take n (drop l xs))" "x = take n (drop l xs) ! i" by (metis in_set_conv_nth)
  moreover from this have "i < n" "i < length xs - l" by simp_all
  moreover from this have "l + i < length xs" by linarith
  ultimately have "l \<le> l + i \<and> l + i < l + n \<and> l + i < length xs \<and> x = xs ! (l + i)" by simp
  then show ?thesis by blast
qed

lemma in_drop: "x \<in> set (drop r xs) \<Longrightarrow> \<exists>j. r \<le> j \<and> j < length xs \<and> x = xs ! j"
  using in_take_drop [of x "length xs" r xs] by auto

text \<open>In a sorted vector the range holds exactly the elements that are equal.\<close>

lemma range_is_filter:
  assumes "map f rows = xs" and "splits_at (\<lambda>x. x < v) xs l" and "splits_at (\<lambda>x. x \<le> v) xs r"
  shows "take (r - l) (drop l rows) = filter (\<lambda>row. f row = v) rows"
proof -
  have len: "length rows = length xs" using assms(1) by (metis length_map)
  have f: "f (rows ! j) = xs ! j" if "j < length xs" for j using that assms(1) by (metis length_map nth_map)
  have bounds: "l \<le> length xs" "r \<le> length xs" using assms(2,3) by (simp_all add: splits_at_def)
  have lr: "l \<le> r"
  proof (rule ccontr)
    assume "\<not> l \<le> r"
    then have "xs ! r < v" "r < length xs" using assms(2) bounds by (auto simp: splits_at_def)
    moreover from this have "\<not> xs ! r \<le> v" using assms(3) by (auto simp: splits_at_def)
    ultimately show False by simp
  qed
  have parts: "rows = take l rows @ take (r - l) (drop l rows) @ drop r rows"
    using lr by (metis append_take_drop_id drop_drop le_add_diff_inverse2)
  have "f row \<noteq> v" if row: "row \<in> set (take l rows)" for row
  proof -
    have "row \<in> set (take l (drop 0 rows))" using row by simp
    from in_take_drop [OF this] obtain j where j: "j < l" "j < length xs" "row = rows ! j" using len by auto
    then have "xs ! j < v" using assms(2) by (simp add: splits_at_def)
    then show ?thesis using f [OF j(2)] j(3) by simp
  qed
  moreover have "f row \<noteq> v" if row: "row \<in> set (drop r rows)" for row
  proof -
    obtain j where j: "r \<le> j" "j < length xs" "row = rows ! j" using in_drop [OF row] len by auto
    then have "\<not> xs ! j \<le> v" using assms(3) by (simp add: splits_at_def)
    then show ?thesis using f [OF j(2)] j(3) by simp
  qed
  moreover have "f row = v" if row: "row \<in> set (take (r - l) (drop l rows))" for row
  proof -
    obtain j where j: "l \<le> j" "j < r" "j < length xs" "row = rows ! j" using in_take_drop [OF row] len lr by auto
    then have "xs ! j \<le> v" "\<not> xs ! j < v" using assms(2,3) by (simp_all add: splits_at_def)
    then show ?thesis using f [OF j(3)] j(4) by simp
  qed
  ultimately have "filter (\<lambda>row. f row = v) (take l rows) = []"
      "filter (\<lambda>row. f row = v) (take (r - l) (drop l rows)) = take (r - l) (drop l rows)"
      "filter (\<lambda>row. f row = v) (drop r rows) = []"
    by (auto simp: filter_empty_conv filter_id_conv)
  then show ?thesis using parts by (metis append.right_neutral append_Nil filter_append)
qed

section \<open>The tables\<close>

text \<open>The columns of \<open>GetXdbcTypeInfo\<close>.\<close>

record type_info =
  ti_type_name :: string
  ti_data_type :: int
  ti_column_size :: int
  ti_literal_prefix :: "string option"
  ti_literal_suffix :: "string option"
  ti_create_params :: "string list"
  ti_nullable :: int
  ti_case_sensitive :: bool
  ti_searchable :: int
  ti_unsigned_attribute :: bool
  ti_fixed_prec_scale :: bool
  ti_auto_increment :: bool
  ti_local_type_name :: string
  ti_minimum_scale :: int
  ti_maximum_scale :: int
  ti_sql_data_type :: int
  ti_datetime_subcode :: int
  ti_num_prec_radix :: int
  ti_interval_precision :: int

text \<open>A row; all columns but these are the same in every row.\<close>

definition type_row :: "string \<Rightarrow> int \<Rightarrow> int \<Rightarrow> string option \<Rightarrow> string list \<Rightarrow> type_info" where
  "type_row name tcode column_size quote params =
     \<lparr>ti_type_name = name, ti_data_type = tcode, ti_column_size = column_size, ti_literal_prefix = quote,
      ti_literal_suffix = quote, ti_create_params = params, ti_nullable = 1, ti_case_sensitive = False,
      ti_searchable = 3, ti_unsigned_attribute = False, ti_fixed_prec_scale = False, ti_auto_increment = False,
      ti_local_type_name = name, ti_minimum_scale = 0, ti_maximum_scale = 0, ti_sql_data_type = tcode,
      ti_datetime_subcode = 0, ti_num_prec_radix = 0, ti_interval_precision = 0\<rparr>"

definition duckdb_type_rows :: "type_info list" where
  "duckdb_type_rows =
     [type_row ''boolean'' 16 1 None [],
      type_row ''tinyint'' (-6) 3 None [],
      type_row ''smallint'' 5 5 None [],
      type_row ''integer'' 4 10 None [],
      type_row ''bigint'' (-5) 19 None [],
      type_row ''hugeint'' (-5) 38 None [],
      type_row ''float'' 6 7 None [],
      type_row ''double'' 8 15 None [],
      type_row ''decimal'' 3 38 None [],
      type_row ''varchar'' 12 255 (Some [squote]) [''length''],
      type_row ''text'' (-1) 65536 (Some [squote]) [''length''],
      type_row ''date'' 91 10 (Some [squote]) [],
      type_row ''time'' 92 8 (Some [squote]) [],
      type_row ''timestamp'' 93 32 (Some [squote]) []]"

definition duckdb_type_codes :: "int list" where
  "duckdb_type_codes = [16, -6, 5, 4, -5, -5, 6, 8, 3, 12, -1, 91, 92, 93]"

definition sqlite_type_rows :: "type_info list" where
  "sqlite_type_rows =
     [type_row ''bit'' (-7) 1 None [],
      type_row ''tinyint'' (-6) 3 None [],
      type_row ''bigint'' (-5) 19 None [],
      type_row ''longvarbinary'' (-4) 65536 None [],
      type_row ''varbinary'' (-3) 255 None [],
      type_row ''text'' (-1) 65536 (Some [squote]) [''length''],
      type_row ''longvarchar'' (-1) 65536 (Some [squote]) [''length''],
      type_row ''char'' 1 255 (Some [squote]) [''length''],
      type_row ''integer'' 4 9 None [],
      type_row ''smallint'' 5 5 None [],
      type_row ''float'' 6 7 None [],
      type_row ''double'' 8 15 None [],
      type_row ''numeric'' 8 15 None [],
      type_row ''varchar'' 12 255 (Some [squote]) [''length''],
      type_row ''date'' 91 10 (Some [squote]) [],
      type_row ''time'' 92 8 (Some [squote]) [],
      type_row ''timestamp'' 93 32 (Some [squote]) []]"

definition sqlite_type_codes :: "int list" where
  "sqlite_type_codes = [-7, -6, -5, -4, -3, -1, -1, 1, 4, 5, 6, 8, 8, 12, 91, 92, 93]"

text \<open>The rows of one type: the slice of the table at the positions the search gives.\<close>

definition slice_of :: "int list \<Rightarrow> int \<Rightarrow> 'a list \<Rightarrow> 'a list" where
  "slice_of codes filter_code rows =
     (case equal_range codes filter_code of (first, last_position) \<Rightarrow> take (last_position - first) (drop first rows))"

definition DoGetTypeInfoResult_duckdb :: "int option \<Rightarrow> type_info list" where
  "DoGetTypeInfoResult_duckdb data_type =
     (case data_type of None \<Rightarrow> duckdb_type_rows | Some t \<Rightarrow> slice_of duckdb_type_codes t duckdb_type_rows)"

definition DoGetTypeInfoResult_sqlite :: "int option \<Rightarrow> type_info list" where
  "DoGetTypeInfoResult_sqlite data_type =
     (case data_type of None \<Rightarrow> sqlite_type_rows | Some t \<Rightarrow> slice_of sqlite_type_codes t sqlite_type_rows)"

section \<open>What clients are told\<close>

lemma slice_is_filter:
  assumes "sorted codes" and "map f rows = codes"
  shows "slice_of codes v rows = filter (\<lambda>row. f row = v) rows"
proof -
  obtain l r where lr: "equal_range codes v = (l, r)" by (cases "equal_range codes v")
  from equal_range_splits [OF assms(1) searching_start searching_start, of v] lr
  have "splits_at (\<lambda>x. x < v) codes l" "splits_at (\<lambda>x. x \<le> v) codes r" by (simp_all add: equal_range_def)
  from range_is_filter [OF assms(2) this] show ?thesis by (simp add: slice_of_def lr)
qed

lemma sqlite_codes: "sorted sqlite_type_codes" "map ti_data_type sqlite_type_rows = sqlite_type_codes"
  by (simp_all add: sqlite_type_codes_def sqlite_type_rows_def type_row_def)

text \<open>
  The SQLite backend answers a request for the types of a code with exactly the rows of its table that have the code,
  in their order: its vector of codes is sorted, so the search finds them.
\<close>

theorem sqlite_types_of_a_code:
  "DoGetTypeInfoResult_sqlite (Some t) = filter (\<lambda>row. ti_data_type row = t) sqlite_type_rows"
  by (simp add: DoGetTypeInfoResult_sqlite_def slice_is_filter [OF sqlite_codes])

text \<open>
  The vector of the DuckDB backend follows its table, which is not sorted, so the search is lost in it: asked for
  integers it gives four types, asked for booleans none. Float, date, time and timestamp are answered as asked.
\<close>

lemma duckdb_codes_unsorted: "map ti_data_type duckdb_type_rows = duckdb_type_codes" "\<not> sorted duckdb_type_codes"
  by (simp_all add: duckdb_type_codes_def duckdb_type_rows_def type_row_def)

lemma duckdb_integer_types:
  "map ti_type_name (DoGetTypeInfoResult_duckdb (Some 4)) = [''smallint'', ''integer'', ''bigint'', ''hugeint'']"
  by code_simp

lemma duckdb_boolean_types: "DoGetTypeInfoResult_duckdb (Some 16) = []"
  by code_simp

lemma duckdb_codes_answered:
  "filter (\<lambda>t. DoGetTypeInfoResult_duckdb (Some t) = filter (\<lambda>row. ti_data_type row = t) duckdb_type_rows)
     duckdb_type_codes = [6, 91, 92, 93]"
  by code_simp

end
