(* ===== verification/Service.thy ===== *)
theory Service
  imports Ingest TypeInfo
begin

text \<open>
  The DuckDB server as Flight sees it: the methods of \<open>DuckDBFlightSqlServer\<close>
  (\<open>src/src/duckdb/duckdb_server.cpp\<close>), which hand every call to the implementation, with the flight
  information they announce and the streams they leave behind. The handlers themselves are in
  \<open>Handlers\<close>, \<open>Ingest\<close>, \<open>Sessions\<close> and \<open>TypeInfo\<close>; here they are put together to one step function
  over the calls a client can make, in any order.
\<close>

section \<open>Flight information\<close>

text \<open>
  What \<open>FlightInfo::Make\<close> puts together: the schema, the command of the descriptor, the tickets of the
  endpoints, and the counts of rows and bytes, \<open>-1\<close> when they are not known.
\<close>

record announcement =
  fi_schema :: "field list"
  fi_command :: string
  fi_tickets :: "string list"
  fi_records :: int
  fi_bytes :: int

definition GetFlightInfoForCommand :: "string \<Rightarrow> field list \<Rightarrow> announcement result" where
  "GetFlightInfoForCommand cmd schema =
     ok \<lparr>fi_schema = schema, fi_command = cmd, fi_tickets = [cmd], fi_records = -1, fi_bytes = -1\<rparr>"

text \<open>The function of \<open>SqlSchema\<close> that gives the schema announced for a command.\<close>

fun announced_schema :: "metadata_command \<Rightarrow> string" where
  "announced_schema GetCatalogs = ''GetCatalogsSchema''"
| "announced_schema (GetDbSchemas c) = ''GetDbSchemasSchema''"
| "announced_schema GetTableTypes = ''GetTableTypesSchema''"
| "announced_schema (GetTables c) =
     (if gt_include_schema c then ''GetTablesSchemaWithIncludedSchema'' else ''GetTablesSchema'')"
| "announced_schema (GetPrimaryKeys r) = ''GetPrimaryKeysSchema''"
| "announced_schema (GetImportedKeys r) = ''GetImportedKeysSchema''"
| "announced_schema (GetExportedKeys r) = ''GetExportedKeysSchema''"
| "announced_schema (GetCrossReference pk fk) = ''GetCrossReferenceSchema''"

text \<open>And the one whose schema the statement of the command is created with.\<close>

fun statement_schema :: "metadata_command \<Rightarrow> string" where
  "statement_schema GetCatalogs = ''GetCatalogsSchema''"
| "statement_schema (GetDbSchemas c) = ''GetDbSchemasSchema''"
| "statement_schema GetTableTypes = ''GetTableTypesSchema''"
| "statement_schema (GetTables c) = ''GetTablesSchema''"
| "statement_schema (GetPrimaryKeys r) = ''GetPrimaryKeysSchema''"
| "statement_schema (GetImportedKeys r) = ''GetImportedKeysSchema''"
| "statement_schema (GetExportedKeys r) = ''GetExportedKeysSchema''"
| "statement_schema (GetCrossReference pk fk) = ''GetCrossReferenceSchema''"

definition GetFlightInfoMetadata :: "(string \<Rightarrow> field list) \<Rightarrow> metadata_command \<Rightarrow> string \<Rightarrow> announcement result" where
  "GetFlightInfoMetadata SqlSchema m cmd = GetFlightInfoForCommand cmd (SqlSchema (announced_schema m))"

section \<open>Calls and answers\<close>

text \<open>What the server is built on besides its state, one component for each library the handlers use.\<close>

record ('c, 'db, 'p, 'r) service_lib =
  lib_engine :: "('c, 'db, 'p, 'r) engine"
  lib_params :: "'p param_info"
  lib_scalars :: scalar_access
  lib_column :: "'r \<Rightarrow> duckdb_value list"
  lib_schema :: "string \<Rightarrow> field list"
  lib_serialize :: "field list \<Rightarrow> string result"
  lib_ticket :: "string \<Rightarrow> string"
  lib_ingest :: "('c, 'db, 'r) ingest_api"
  lib_values :: value_lib

text \<open>
  One constructor per method. A descriptor brings its command; the streams a client got are numbered in the order
  they were made, and \<open>NextBatch\<close> is Flight reading the next batch of one of them, with the calls of the
  statements this prepares.
\<close>

datatype 'c request =
    InfoStatement string string string
  | GetStatement string
  | InfoMetadata metadata_command string
  | GetMetadata metadata_command
  | InfoTypes string
  | GetTypes "int option"
  | PutUpdate string
  | CreatePrepared string
  | ClosePrepared string
  | InfoPrepared string string
  | GetPrepared string
  | PutParameters string "(status + batch option) list"
  | PutPreparedUpdate string "(status + batch option) list"
  | PutIngest ingest_command "field list result" "(status + chunk) list"
  | Begin
  | End end_action string
  | CancelInfo
  | CancelActive
  | SetOptions "(string \<times> session_option_value) list"
  | GetOptions
  | CloseClient
  | NextBatch nat "nat \<Rightarrow> 'c call"

datatype answer =
    Info announcement
  | Stream nat
  | Count int
  | Prepared prepared_result
  | Transaction string
  | OptionErrors "string list"
  | OptionValues "(string \<times> string) list"
  | Batch "result_batch option"
  | TypeRows "type_info list option"
  | Done

text \<open>A stream is one of three: a statement's reader, the reader that adds the schemas of tables, or the rows of types.\<close>

datatype any_stream =
    Plain stream
  | WithSchemas tables_stream
  | Types "type_info list option"

record ('c, 'db, 'p, 'r) service =
  sc_server :: "('c, 'db, 'p, 'r) server"
  sc_streams :: "any_stream list"

definition with_server ::
    "('a \<Rightarrow> answer) \<Rightarrow> 'a result \<times> ('c, 'db, 'p, 'r) server \<Rightarrow> any_stream list
     \<Rightarrow> answer result \<times> ('c, 'db, 'p, 'r) service" where
  "with_server f R streams = (map_sum id f (fst R), \<lparr>sc_server = snd R, sc_streams = streams\<rparr>)"

definition leave_stream ::
    "any_stream result \<times> ('c, 'db, 'p, 'r) server \<Rightarrow> any_stream list
     \<Rightarrow> answer result \<times> ('c, 'db, 'p, 'r) service" where
  "leave_stream R streams =
     (case R of
        (Inl e, sv) \<Rightarrow> (Inl e, \<lparr>sc_server = sv, sc_streams = streams\<rparr>)
      | (Inr s, sv) \<Rightarrow> (ok (Stream (length streams)), \<lparr>sc_server = sv, sc_streams = streams @ [s]\<rparr>))"

section \<open>The service\<close>

text \<open>\<open>DoGetTables\<close> wraps its reader when the schemas of the tables are asked for; the others hand it out as it is.\<close>

definition DoGetMetadataStream ::
    "('c, 'db, 'p, 'r) service_lib \<Rightarrow> 'c call \<Rightarrow> metadata_command \<Rightarrow> ('c, 'db, 'p, 'r) server
     \<Rightarrow> any_stream result \<times> ('c, 'db, 'p, 'r) server" where
  "DoGetMetadataStream L cl m sv =
     (case DoGetMetadata (lib_engine L) (\<lambda>m. lib_schema L (statement_schema m)) cl m sv of
        (Inl e, sv1) \<Rightarrow> (Inl e, sv1)
      | (Inr sm, sv1) \<Rightarrow>
          (case m of
             GetTables c \<Rightarrow>
               (if gt_include_schema c
                then (ok (WithSchemas \<lparr>ts_reader = sm, ts_session = ds_session (sv_statements sv1 ! sm_statement sm),
                                       ts_executed = False\<rparr>), sv1)
                else (ok (Plain sm), sv1))
           | _ \<Rightarrow> (ok (Plain sm), sv1)))"

text \<open>Flight reads one batch. A stream of type rows has one batch.\<close>

definition next_batch ::
    "('c, 'db, 'p, 'r) service_lib \<Rightarrow> 'c call \<Rightarrow> (nat \<Rightarrow> 'c call) \<Rightarrow> nat \<Rightarrow> ('c, 'db, 'p, 'r) service
     \<Rightarrow> answer result \<times> ('c, 'db, 'p, 'r) service" where
  "next_batch L cl probes n sc =
     (if n < length (sc_streams sc)
      then (case sc_streams sc ! n of
              Plain sm \<Rightarrow>
                (case stream_next (lib_engine L) (cl_env cl) sm (sc_server sc) of
                   (r, sm1, sv) \<Rightarrow>
                     (map_sum id Batch r, \<lparr>sc_server = sv, sc_streams = (sc_streams sc)[n := Plain sm1]\<rparr>))
            | WithSchemas ts \<Rightarrow>
                (case tables_stream_next (lib_engine L) (lib_serialize L)
                        (lib_schema L ''GetTablesSchemaWithIncludedSchema'') (cl_env cl) probes ts (sc_server sc) of
                   (r, ts1, sv) \<Rightarrow>
                     (map_sum id Batch r, \<lparr>sc_server = sv, sc_streams = (sc_streams sc)[n := WithSchemas ts1]\<rparr>))
            | Types rows \<Rightarrow> (ok (TypeRows rows), sc\<lparr>sc_streams := (sc_streams sc)[n := Types None]\<rparr>))
      else (fail KeyError ''no such stream'', sc))"

definition serve ::
    "('c, 'db, 'p, 'r) service_lib \<Rightarrow> 'c call \<Rightarrow> 'c request \<Rightarrow> ('c, 'db, 'p, 'r) service
     \<Rightarrow> answer result \<times> ('c, 'db, 'p, 'r) service" where
  "serve L cl rq sc =
     (let E = lib_engine L; sv = sc_server sc; streams = sc_streams sc;
          in_world = (\<lambda>w. sv\<lparr>sv_world := w\<rparr>)
      in case rq of
        InfoStatement query transaction_id cmd \<Rightarrow>
          with_server (\<lambda>(schema, handle). Info \<lparr>fi_schema = schema, fi_command = cmd,
              fi_tickets = [lib_ticket L handle], fi_records = -1, fi_bytes = -1\<rparr>)
            (GetFlightInfoStatement E cl query transaction_id sv) streams
      | GetStatement handle \<Rightarrow>
          leave_stream (apfst (map_sum id Plain) (DoGetStatement E cl handle sv)) streams
      | InfoMetadata m cmd \<Rightarrow> (map_sum id Info (GetFlightInfoMetadata (lib_schema L) m cmd), sc)
      | GetMetadata m \<Rightarrow> leave_stream (DoGetMetadataStream L cl m sv) streams
      | InfoTypes cmd \<Rightarrow> (map_sum id Info (GetFlightInfoForCommand cmd (lib_schema L ''GetXdbcTypeInfoSchema'')), sc)
      | GetTypes t \<Rightarrow> leave_stream (ok (Types (Some (DoGetTypeInfoResult_duckdb t))), sv) streams
      | PutUpdate query \<Rightarrow> with_server Count (DoPutCommandStatementUpdate E cl query sv) streams
      | CreatePrepared query \<Rightarrow> with_server Prepared (CreatePreparedStatement E (lib_params L) cl query sv) streams
      | ClosePrepared h \<Rightarrow> with_server (\<lambda>_. Done) (ClosePreparedStatement h sv) streams
      | InfoPrepared h cmd \<Rightarrow>
          with_server Info (apfst (\<lambda>r. rbind r (GetFlightInfoForCommand cmd))
            (GetFlightInfoPreparedStatement E cl h sv)) streams
      | GetPrepared h \<Rightarrow> leave_stream (apfst (map_sum id Plain) (DoGetPreparedStatement E cl h sv)) streams
      | PutParameters h chunks \<Rightarrow>
          with_server (\<lambda>_. Done) (DoPutPreparedStatementQuery (lib_scalars L) h chunks sv) streams
      | PutPreparedUpdate h chunks \<Rightarrow>
          with_server Count (DoPutPreparedStatementUpdate E (lib_scalars L) cl h chunks sv) streams
      | PutIngest c schema chunks \<Rightarrow>
          with_server Count (apsnd in_world
            (DoPutCommandStatementIngest E (lib_ingest L) (lib_values L) cl c schema chunks (sv_world sv))) streams
      | Begin \<Rightarrow> with_server Transaction (BeginTransaction E cl sv) streams
      | End action transaction_id \<Rightarrow> with_server (\<lambda>_. Done) (EndTransaction E cl action transaction_id sv) streams
      | CancelInfo \<Rightarrow> with_server (\<lambda>_. Done) (CancelQuery E cl sv) streams
      | CancelActive \<Rightarrow> with_server (\<lambda>_. Done) (CancelQuery E cl sv) streams
      | SetOptions opts \<Rightarrow> with_server OptionErrors (SetSessionOptions E cl opts sv) streams
      | GetOptions \<Rightarrow> with_server OptionValues (GetSessionOptions E (lib_column L) cl sv) streams
      | CloseClient \<Rightarrow>
          with_server (\<lambda>_. Done) (apsnd (\<lambda>reg. in_world ((sv_world sv)\<lparr>w_reg := reg\<rparr>))
            (CloseSession (cl_ctx cl) (cl_addr cl) (cl_conn cl) (w_reg (sv_world sv)))) streams
      | NextBatch n probes \<Rightarrow> next_batch L cl probes n sc)"

text \<open>A run: the answers to a list of calls, each with its own context, and the state they lead to.\<close>

fun run_calls ::
    "('c, 'db, 'p, 'r) service_lib \<Rightarrow> ('c call \<times> 'c request) list \<Rightarrow> ('c, 'db, 'p, 'r) service
     \<Rightarrow> answer result list \<times> ('c, 'db, 'p, 'r) service" where
  "run_calls L [] sc = ([], sc)"
| "run_calls L ((cl, rq) # calls) sc =
     (case serve L cl rq sc of (r, sc1) \<Rightarrow> apfst ((#) r) (run_calls L calls sc1))"

definition new_service :: "('c, 'db) world \<Rightarrow> ('c, 'db, 'p, 'r) service" where
  "new_service w =
     \<lparr>sc_server = \<lparr>sv_world = w, sv_statements = [], prepared_statements = (\<lambda>_. None), open_transactions = (\<lambda>_. None)\<rparr>,
      sc_streams = []\<rparr>"

section \<open>What every call keeps\<close>

text \<open>Most handlers keep the map of handles and forget no statement.\<close>

definition kept :: "('c, 'db, 'p, 'r) server \<Rightarrow> ('c, 'db, 'p, 'r) server \<Rightarrow> bool" where
  "kept sv sv' \<longleftrightarrow>
     prepared_statements sv' = prepared_statements sv \<and> length (sv_statements sv) \<le> length (sv_statements sv')"

lemma kept_intros [simp]:
  "kept sv sv"
  "kept sv (sv\<lparr>sv_world := w\<rparr>)"
  "kept sv (sv\<lparr>sv_world := w, open_transactions := t\<rparr>)"
  "kept sv (put_statement i st w sv)"
  "kept (sv\<lparr>sv_world := w\<rparr>) sv' = kept sv sv'"
  by (simp_all add: kept_def put_statement_def)

lemma kept_trans [trans]: "kept a b \<Longrightarrow> kept b c \<Longrightarrow> kept a c"
  by (simp add: kept_def)

lemma kept_alloc: "alloc_statement st sv = (i, sv') \<Longrightarrow> kept sv sv' \<and> i < length (sv_statements sv')"
  by (auto simp: kept_def alloc_statement_def)

lemma stream_Create_keeps:
  "stream_Create E ev i sv = (r, sv') \<Longrightarrow>
     kept sv sv' \<and> (\<forall>sm. r = Inr sm \<longrightarrow> sm_statement sm = i) \<and> length (sv_statements sv') = length (sv_statements sv)"
  by (auto simp: stream_Create_def put_statement_def kept_def split: prod.splits sum.splits)

lemma stream_next_keeps:
  "stream_next E ev sm sv = (r, sm', sv') \<Longrightarrow>
     kept sv sv' \<and> sm_statement sm' = sm_statement sm \<and> length (sv_statements sv') = length (sv_statements sv)"
  by (auto simp: stream_next_def put_statement_def kept_def split: prod.splits)

lemma tables_stream_next_keeps:
  assumes "tables_stream_next E serialize expected ev cls ts sv = (r, ts', sv')"
  shows "kept sv sv' \<and> sm_statement (ts_reader ts') = sm_statement (ts_reader ts)
    \<and> length (sv_statements sv') = length (sv_statements sv)"
proof (cases "ts_executed ts")
  case False
  obtain r1 sm sv1 where n: "stream_next E ev (ts_reader ts) sv = (r1, sm, sv1)"
    by (cases "stream_next E ev (ts_reader ts) sv") auto
  show ?thesis
    using stream_next_keeps [OF n] assms False n
    by (auto simp: tables_stream_next_def kept_def split: sum.splits option.splits prod.splits)
qed (use assms in \<open>simp add: tables_stream_next_def\<close>)

lemma GetFlightInfoStatement_keeps: "kept sv (snd (GetFlightInfoStatement E cl q t sv))"
  by (auto simp: GetFlightInfoStatement_def split: prod.splits sum.splits)

lemma DoGetStatement_keeps:
  assumes "DoGetStatement E cl h sv = (r, sv')"
  shows "kept sv sv' \<and> (\<forall>sm. r = Inr sm \<longrightarrow> sm_statement sm < length (sv_statements sv'))"
proof -
  have "kept sv sv' \<and> (\<forall>sm. r = Inr sm \<longrightarrow> sm_statement sm < length (sv_statements sv'))"
    if "alloc_statement st (sv\<lparr>sv_world := w\<rparr>) = (i, sv1)" and "stream_Create E (cl_env cl) i sv1 = (r, sv')" for st w i sv1
    using kept_alloc [OF that(1)] stream_Create_keeps [OF that(2)] by (auto intro: kept_trans)
  then show ?thesis
    using assms by (auto simp: DoGetStatement_def split: prod.splits sum.splits)
qed

lemma DoGetPreparedStatement_keeps:
  assumes "DoGetPreparedStatement E cl h sv = (r, sv')"
  shows "kept sv sv' \<and> (\<forall>sm. r = Inr sm \<longrightarrow> (\<exists>i. prepared_statements sv h = Some i \<and> sm_statement sm = i))"
  using assms
  by (auto simp: DoGetPreparedStatement_def GetStatementByHandle_def split: sum.splits option.splits
        dest: stream_Create_keeps)

lemma update_keeps:
  "kept sv (snd (DoPutCommandStatementUpdate E cl q sv))"
  "kept sv (snd (GetFlightInfoPreparedStatement E cl h sv))"
  "kept sv (snd (DoPutPreparedStatementQuery S h chunks sv))"
  "kept sv (snd (DoPutPreparedStatementUpdate E S cl h chunks sv))"
  by (auto simp: DoPutCommandStatementUpdate_def GetFlightInfoPreparedStatement_def DoPutPreparedStatementQuery_def
        DoPutPreparedStatementUpdate_def split: prod.splits sum.splits)

lemma session_calls_keep:
  "kept sv (snd (BeginTransaction E cl sv))"
  "kept sv (snd (EndTransaction E cl a t sv))"
  "kept sv (snd (CancelQuery E cl sv))"
  "kept sv (snd (SetSessionOptions E cl opts sv))"
  "kept sv (snd (GetSessionOptions E f cl sv))"
  by (auto simp: BeginTransaction_def EndTransaction_def CancelQuery_def SetSessionOptions_def GetSessionOptions_def
        split: prod.splits sum.splits list.splits)

lemma DoGetMetadata_keeps:
  assumes "DoGetMetadata E A cl m sv = (r, sv')"
  shows "kept sv sv' \<and> (\<forall>sm. r = Inr sm \<longrightarrow> sm_statement sm < length (sv_statements sv') \<and> sm_schema sm = A m)"
  using assms
  by (auto simp: DoGetMetadata_def DoGetDuckDBQuery_def alloc_statement_def kept_def split: prod.splits sum.splits)

section \<open>Handles\<close>

definition handles :: "('c, 'db, 'p, 'r) service \<Rightarrow> string set" where
  "handles sc = dom (prepared_statements (sc_server sc))"

text \<open>
  The promise about handles, over their set alone: they come from \<open>CreatePreparedStatement\<close> and go with
  \<open>ClosePreparedStatement\<close>, a call with another handle is refused, and no other call touches them. A creation
  that fails may still have left its handle.
\<close>

fun handle_of :: "'c request \<Rightarrow> string option" where
  "handle_of (InfoPrepared h cmd) = Some h"
| "handle_of (GetPrepared h) = Some h"
| "handle_of (PutParameters h chunks) = Some h"
| "handle_of (PutPreparedUpdate h chunks) = Some h"
| "handle_of rq = None"

fun moves_handles :: "'c request \<Rightarrow> bool" where
  "moves_handles (CreatePrepared q) = True"
| "moves_handles (ClosePrepared h) = True"
| "moves_handles rq = False"

inductive handle_step :: "string \<Rightarrow> 'c request \<Rightarrow> answer result \<Rightarrow> string set \<Rightarrow> string set \<Rightarrow> bool" where
  made: "prepared_statement_handle p = u \<Longrightarrow> handle_step u (CreatePrepared q) (ok (Prepared p)) H (insert u H)"
| made_unseen: "handle_step u (CreatePrepared q) (Inl e) H (insert u H)"
| not_made: "handle_step u (CreatePrepared q) (Inl e) H H"
| closed: "h \<in> H \<Longrightarrow> handle_step u (ClosePrepared h) (ok Done) H (H - {h})"
| not_known: "h \<notin> H \<Longrightarrow> handle_step u (ClosePrepared h) (fail Invalid ''Prepared statement not found'') H H"
| used: "handle_of rq = Some h \<Longrightarrow> h \<in> H \<Longrightarrow> handle_step u rq r H H"
| refused: "handle_of rq = Some h \<Longrightarrow> h \<notin> H \<Longrightarrow> handle_step u rq (fail KeyError ''Prepared statement not found'') H H"
| other: "handle_of rq = None \<Longrightarrow> \<not> moves_handles rq \<Longrightarrow> handle_step u rq r H H"

inductive_cases handle_stepE: "handle_step u rq r H H'"

lemma with_server_simps [simp]:
  "sc_server (snd (with_server f R streams)) = snd R"
  "sc_streams (snd (with_server f R streams)) = streams"
  "fst (with_server f R streams) = map_sum id f (fst R)"
  by (simp_all add: with_server_def)

lemma leave_stream_server [simp]: "sc_server (snd (leave_stream R streams)) = snd R"
  by (simp add: leave_stream_def split: prod.split sum.split)

lemma DoGetMetadataStream_keeps:
  assumes "DoGetMetadataStream L cl m sv = (r, sv')"
  shows "kept sv sv'"
proof -
  obtain r1 sv1 where g: "DoGetMetadata (lib_engine L) (\<lambda>m. lib_schema L (statement_schema m)) cl m sv = (r1, sv1)"
    by (cases "DoGetMetadata (lib_engine L) (\<lambda>m. lib_schema L (statement_schema m)) cl m sv") auto
  show ?thesis
    using DoGetMetadata_keeps [OF g] assms
    by (auto simp: DoGetMetadataStream_def g split: sum.splits metadata_command.splits if_splits)
qed

lemma next_batch_keeps:
  assumes "next_batch L cl probes n sc = (r, sc1)"
  shows "kept (sc_server sc) (sc_server sc1)"
proof (cases "n < length (sc_streams sc)")
  case True
  then show ?thesis
    using assms
    by (auto simp: next_batch_def split: any_stream.splits prod.splits
          dest!: stream_next_keeps tables_stream_next_keeps)
qed (use assms in \<open>simp add: next_batch_def\<close>)

lemma other_calls_keep:
  assumes "\<not> moves_handles rq"
  shows "kept (sc_server sc) (sc_server (snd (serve L cl rq sc)))"
proof (cases rq)
  case (NextBatch n probes)
  then show ?thesis using next_batch_keeps [of L cl probes n sc] by (cases "next_batch L cl probes n sc") (simp add: serve_def)
next
  case (GetStatement h)
  then show ?thesis
    using DoGetStatement_keeps [of "lib_engine L" cl h "sc_server sc"]
    by (cases "DoGetStatement (lib_engine L) cl h (sc_server sc)") (simp add: serve_def)
next
  case (GetMetadata m)
  then show ?thesis
    using DoGetMetadataStream_keeps [of L cl m "sc_server sc"]
    by (cases "DoGetMetadataStream L cl m (sc_server sc)") (simp add: serve_def)
next
  case (GetPrepared h)
  then show ?thesis
    using DoGetPreparedStatement_keeps [of "lib_engine L" cl h "sc_server sc"]
    by (cases "DoGetPreparedStatement (lib_engine L) cl h (sc_server sc)") (simp add: serve_def)
qed (use assms in \<open>simp_all add: serve_def Let_def GetFlightInfoStatement_keeps update_keeps session_calls_keep\<close>)

lemma create_prepared_step:
  "handle_step (cl_uuid cl) (CreatePrepared q) (fst (serve L cl (CreatePrepared q) sc))
     (handles sc) (handles (snd (serve L cl (CreatePrepared q) sc)))"
  by (auto simp: serve_def with_server_def handles_def CreatePreparedStatement_def alloc_statement_def put_statement_def
        rbind_def Let_def split: prod.splits sum.splits intro!: made made_unseen not_made)

lemma close_prepared_step:
  "handle_step u (ClosePrepared h) (fst (serve L cl (ClosePrepared h) sc))
     (handles sc) (handles (snd (serve L cl (ClosePrepared h) sc)))"
proof (cases "h \<in> handles sc")
  case True
  then have "fst (serve L cl (ClosePrepared h) sc) = ok Done"
    and "handles (snd (serve L cl (ClosePrepared h) sc)) = handles sc - {h}"
    by (auto simp: serve_def with_server_def handles_def ClosePreparedStatement_def Let_def)
  then show ?thesis using closed [OF True] by simp
next
  case False
  then have "fst (serve L cl (ClosePrepared h) sc) = fail Invalid ''Prepared statement not found''"
    and "handles (snd (serve L cl (ClosePrepared h) sc)) = handles sc"
    by (auto simp: serve_def with_server_def handles_def ClosePreparedStatement_def Let_def)
  then show ?thesis using not_known [OF False] by simp
qed

lemma kept_handles: "kept (sc_server sc) (sc_server sc') \<Longrightarrow> handles sc' = handles sc"
  by (simp add: kept_def handles_def)

lemma unknown_handle_refused:
  assumes "handle_of rq = Some h" and "h \<notin> handles sc"
  shows "fst (serve L cl rq sc) = fail KeyError ''Prepared statement not found''"
  using assms
  by (cases rq) (auto simp: serve_def with_server_def leave_stream_def handles_def GetFlightInfoPreparedStatement_def
      DoGetPreparedStatement_def DoPutPreparedStatementQuery_def DoPutPreparedStatementUpdate_def
      GetStatementByHandle_def domIff rbind_def)

lemma serve_handles:
  "handle_step (cl_uuid cl) rq (fst (serve L cl rq sc)) (handles sc) (handles (snd (serve L cl rq sc)))"
proof (cases "moves_handles rq")
  case True
  then show ?thesis using create_prepared_step close_prepared_step by (cases rq) auto
next
  case False
  then have same: "handles (snd (serve L cl rq sc)) = handles sc"
    by (intro kept_handles other_calls_keep)
  show ?thesis
  proof (cases "handle_of rq")
    case None
    then show ?thesis using False same by (simp add: other)
  next
    case (Some h)
    show ?thesis
    proof (cases "h \<in> handles sc")
      case True
      then show ?thesis using used [OF Some] same by simp
    next
      case False
      then show ?thesis using refused [OF Some False] unknown_handle_refused [OF Some False, of L cl] same by simp
    qed
  qed
qed

text \<open>The promise along a run.\<close>

inductive handle_run :: "('c call \<times> 'c request) list \<Rightarrow> answer result list \<Rightarrow> string set \<Rightarrow> string set \<Rightarrow> bool" where
  nothing: "handle_run [] [] H H"
| one_more: "handle_step (cl_uuid cl) rq r H H1 \<Longrightarrow> handle_run calls rs H1 H2 \<Longrightarrow>
     handle_run ((cl, rq) # calls) (r # rs) H H2"

text \<open>The names that were drawn for a handle and not closed since.\<close>

fun open_names :: "('c call \<times> 'c request) list \<Rightarrow> string set \<Rightarrow> string set" where
  "open_names [] H = H"
| "open_names ((cl, CreatePrepared q) # calls) H = open_names calls (insert (cl_uuid cl) H)"
| "open_names ((cl, ClosePrepared h) # calls) H = open_names calls (H - {h})"
| "open_names ((cl, rq) # calls) H = open_names calls H"

lemma open_names_mono: "H \<subseteq> H' \<Longrightarrow> open_names calls H \<subseteq> open_names calls H'"
proof (induction calls arbitrary: H H')
  case (Cons call calls)
  obtain cl rq where c: "call = (cl, rq)" by (cases call)
  show ?case using Cons.prems unfolding c by (cases rq) (auto intro!: Cons.IH)
qed simp

lemma handle_step_names:
  assumes "handle_step (cl_uuid cl) rq r H H'"
  shows "open_names calls H' \<subseteq> open_names ((cl, rq) # calls) H"
proof -
  have "H' \<subseteq> open_names [(cl, rq)] H" and "open_names ((cl, rq) # calls) H = open_names calls (open_names [(cl, rq)] H)"
    using assms by (cases rq; auto elim!: handle_stepE)+
  then show ?thesis using open_names_mono by metis
qed

lemma handle_run_names: "handle_run calls rs H H' \<Longrightarrow> H' \<subseteq> open_names calls H"
proof (induction rule: handle_run.induct)
  case (one_more cl rq r H H1 calls rs H2)
  then show ?case using handle_step_names by (meson subset_trans)
qed simp

lemma run_handles:
  "handle_run calls (fst (run_calls L calls sc)) (handles sc) (handles (snd (run_calls L calls sc)))"
proof (induction calls arbitrary: sc)
  case (Cons call calls)
  obtain cl rq where c: "call = (cl, rq)" by (cases call)
  obtain r sc1 where s: "serve L cl rq sc = (r, sc1)" by (cases "serve L cl rq sc") auto
  have "handle_step (cl_uuid cl) rq r (handles sc) (handles sc1)" using serve_handles [of cl rq L sc] s by simp
  then show ?case using Cons.IH [of sc1] c s by (simp add: handle_run.one_more)
qed (simp add: handle_run.nothing)

text \<open>
  C5: Whatever calls clients make, in any order and from any sessions, the prepared handles behave as their abstract
  specification says: they come into being by \<open>CreatePreparedStatement\<close> under the new name it draws, end with
  \<open>ClosePreparedStatement\<close>, a call with a handle that is not there is refused, and every other call leaves all
  handles alone; so the handles a server knows are among the names that were drawn and not closed since. The one
  weakness the specification has to admit is a creation that reports an error and leaves its handle behind.
\<close>

theorem handles_refine:
  "handle_run calls (fst (run_calls L calls sc)) (handles sc) (handles (snd (run_calls L calls sc)))
   \<and> handles (snd (run_calls L calls (new_service w))) \<subseteq> open_names calls {}"
  using run_handles handle_run_names [OF run_handles [where calls = calls and L = L and sc = "new_service w"]]
  by (simp add: handles_def new_service_def)

section \<open>Calls without a session\<close>

text \<open>The calls that look for the session of their caller.\<close>

fun needs_session :: "'c request \<Rightarrow> bool" where
  "needs_session (InfoStatement q t cmd) = True"
| "needs_session (GetStatement h) = is_ok (DecodeTransactionQuery h)"
| "needs_session (GetMetadata m) = True"
| "needs_session (PutUpdate q) = True"
| "needs_session (CreatePrepared q) = True"
| "needs_session (PutIngest c s chunks) = True"
| "needs_session Begin = True"
| "needs_session (End a t) = True"
| "needs_session CancelInfo = True"
| "needs_session CancelActive = True"
| "needs_session (SetOptions opts) = True"
| "needs_session GetOptions = True"
| "needs_session CloseClient = True"
| "needs_session rq = False"

text \<open>
  C39: A call that needs a session is refused with the error of the session when there is none, because the request
  has no session id or its session was killed. It has done nothing then: no statement, handle, transaction or stream
  is different and the database is as it was.
\<close>

theorem no_session_no_effect:
  assumes "needs_session rq"
    and "GetClientSession (cl_ctx cl) (cl_addr cl) (cl_conn cl) (w_reg (sv_world (sc_server sc))) = (Inl e, reg)"
  shows "serve L cl rq sc
    = (Inl e, sc\<lparr>sc_server := (sc_server sc)\<lparr>sv_world := (sv_world (sc_server sc))\<lparr>w_reg := reg\<rparr>\<rparr>\<rparr>)"
proof -
  have s: "client_session_for cl (sv_world (sc_server sc)) = (Inl e, (sv_world (sc_server sc))\<lparr>w_reg := reg\<rparr>)"
    using assms(2) by (simp add: client_session_for_def)
  show ?thesis
    using assms s
    by (cases rq) (auto simp: serve_def with_server_def leave_stream_def GetFlightInfoStatement_def DoGetStatement_def
        DoGetMetadataStream_def DoGetMetadata_def DoPutCommandStatementUpdate_def CreatePreparedStatement_def
        DoPutCommandStatementIngest_def BeginTransaction_def EndTransaction_def CancelQuery_def SetSessionOptions_def
        GetSessionOptions_def CloseSession_def is_ok_def Let_def split: sum.splits prod.splits)
qed

section \<open>What is announced is what comes\<close>

definition stream_schema :: "('c, 'db, 'p, 'r) service_lib \<Rightarrow> any_stream \<Rightarrow> field list" where
  "stream_schema L s =
     (case s of
        Plain sm \<Rightarrow> sm_schema sm
      | WithSchemas ts \<Rightarrow> lib_schema L ''GetTablesSchemaWithIncludedSchema''
      | Types rows \<Rightarrow> lib_schema L ''GetXdbcTypeInfoSchema'')"

text \<open>
  The flight information of a metadata command announces the schema of the stream that its ticket, the command
  itself, leads to: when the server answers the command with a stream, the stream has exactly that schema, the tables
  with and without the schemas of their columns included.
\<close>

theorem metadata_comes_as_announced:
  assumes "DoGetMetadataStream L cl m sv = (Inr s, sv')"
  shows "GetFlightInfoMetadata (lib_schema L) m cmd
    = ok \<lparr>fi_schema = stream_schema L s, fi_command = cmd, fi_tickets = [cmd], fi_records = -1, fi_bytes = -1\<rparr>"
proof -
  obtain r sv1 where g: "DoGetMetadata (lib_engine L) (\<lambda>m. lib_schema L (statement_schema m)) cl m sv = (r, sv1)"
    by (cases "DoGetMetadata (lib_engine L) (\<lambda>m. lib_schema L (statement_schema m)) cl m sv") auto
  show ?thesis
    using DoGetMetadata_keeps [OF g] assms g
    by (cases m) (auto simp: DoGetMetadataStream_def stream_schema_def GetFlightInfoMetadata_def
        GetFlightInfoForCommand_def split: sum.splits if_splits)
qed

text \<open>A small service: a log as the database, and one session.\<close>

definition log_lib :: "(unit, string list, string, unit) service_lib" where
  "log_lib =
     \<lparr>lib_engine = log_engine\<lparr>db_prepare := (\<lambda>c sql d. Inr sql), p_modified := (\<lambda>p. []),
                                p_read_only := (\<lambda>p. True)\<rparr>,
      lib_params = \<lparr>named_param_count = (\<lambda>p. 0), param_type = (\<lambda>p n. VARCHAR)\<rparr>,
      lib_scalars = (\<lambda>t v. Inr ''7''), lib_column = (\<lambda>r. []),
      lib_schema = (\<lambda>n. if n = ''GetTablesSchemaWithIncludedSchema'' then tables_schema @ [(''table_schema'', BINARY, False)]
                        else tables_schema),
      lib_serialize = (\<lambda>fs. ok ''schema''), lib_ticket = (\<lambda>h. h), lib_ingest = log_ingest_api, lib_values = sample_lib\<rparr>"

definition log_service :: "string set \<Rightarrow> (unit, string list, string, unit) service" where
  "log_service ks = \<lparr>sc_server = log_server ks, sc_streams = []\<rparr>"

theorem no_session_no_effect_witness:
  "serve log_lib log_call (CreatePrepared ''SELECT 2'') (log_service {''b''})
    = (fail Invalid killed_msg, log_service {''b''}\<lparr>sc_server := (log_server {''b''})\<lparr>sv_world :=
         (sv_world (log_server {''b''}))\<lparr>w_reg := w_reg (sv_world (log_server {''b''}))\<rparr>\<rparr>\<rparr>)"
  using no_session_no_effect [of "CreatePrepared ''SELECT 2''" log_call "log_service {''b''}"
      "Status Invalid killed_msg" "w_reg (sv_world (log_server {''b''}))" log_lib]
  by (simp add: log_service_def log_call_def GetClientSession_def session_fast_def log_server_def)

definition all_tables :: metadata_command where
  "all_tables =
     GetTables \<lparr>gt_catalog = Some ''c'', gt_schema_pattern = None, gt_table_pattern = None, gt_types = [], gt_include_schema = True\<rparr>"

lemma all_tables_query:
  "\<not> IsDetachInstrumentationDb (fst (metadata_query all_tables)) []"
  "IsKillSessionCommand (fst (metadata_query all_tables)) = None"
  "\<not> IsLikelyGizmoSQLSet (fst (metadata_query all_tables))"
  by code_simp+

lemma log_session: "client_session_for log_call (sv_world (log_server {})) = (Inr 0, sv_world (log_server {}))"
  by (simp add: client_session_for_def log_call_def GetClientSession_def session_fast_def log_server_def log_world_def
      one_session_def fresh_registry_def)

lemma all_tables_stream: "is_ok (fst (DoGetMetadataStream log_lib log_call all_tables (log_server {})))"
proof -
  obtain r w where c: "Create (lib_engine log_lib) (statement_args log_call 0 (fst (metadata_query all_tables))
      (Some ARROW_DEBUG) (Some (lib_schema log_lib ''GetTablesSchema'')) ''DoGetTables'' True
      (sv_world (log_server {}))) (sv_world (log_server {})) = (r, w)"
    by fastforce
  have "is_ok r"
    using c all_tables_query
    by (auto simp: is_ok_def Create_def create_sql_def statement_args_def log_lib_def check_prepared_def attach_instrumentation_def
        Let_def instr_mgr_def log_server_def log_world_def one_session_def fresh_registry_def set_active_def update_session_def
        log_engine_def split: if_splits)
  then show ?thesis
    using c by (auto simp: DoGetMetadataStream_def DoGetMetadata_def DoGetDuckDBQuery_def alloc_statement_def log_session
        all_tables_def is_ok_def split: sum.splits)
qed

theorem metadata_comes_as_announced_witness:
  "\<exists>s sv'. DoGetMetadataStream log_lib log_call all_tables (log_server {}) = (Inr s, sv')
    \<and> GetFlightInfoMetadata (lib_schema log_lib) all_tables ''x''
      = ok \<lparr>fi_schema = stream_schema log_lib s, fi_command = ''x'', fi_tickets = [''x''], fi_records = -1, fi_bytes = -1\<rparr>"
proof -
  obtain s sv' where "DoGetMetadataStream log_lib log_call all_tables (log_server {}) = (Inr s, sv')"
    using all_tables_stream by (cases "DoGetMetadataStream log_lib log_call all_tables (log_server {})")
      (auto simp: is_ok_def split: sum.splits)
  then show ?thesis using metadata_comes_as_announced by blast
qed

end
