(* ===== verification/SqlInfo.thy ===== *)
theory SqlInfo
  imports Handlers
begin

text \<open>
  What the two backends tell a client about themselves (\<open>src/src/duckdb/duckdb_sql_info.cpp\<close>,
  \<open>src/src/sqlite/sqlite_sql_info.cc\<close>) and the creation of the DuckDB server, which registers it. Ids and
  enumerators are Flight SQL's and stand under their names; the answer to \<open>GetSqlInfo\<close> is Flight's.
\<close>

section \<open>Results\<close>

datatype sql_info_result =
    InfoText string | InfoBool bool | InfoInt32 int | InfoInt64 int | InfoNamed32 string | InfoNamed64 string
  | InfoTexts "string list" | InfoMap "(string \<times> string list) list"

type_synonym sql_info_map = "string \<Rightarrow> sql_info_result option"

section \<open>The lists of functions in the DuckDB table\<close>

definition GetStaticNumericFunctions :: "string list" where
  "GetStaticNumericFunctions =
     [''ABS'', ''ACOS'', ''ASIN'', ''ATAN'', ''ATAN2'', ''CEIL'', ''CEILING'', ''COS'', ''COT'', ''DEGREES'',
      ''EXP'', ''FLOOR'', ''GREATEST'', ''LEAST'', ''LN'', ''LOG'', ''LOG10'', ''LOG2'', ''MOD'', ''PI'',
      ''POW'', ''POWER'', ''RADIANS'', ''RANDOM'', ''ROUND'', ''SIGN'', ''SIN'', ''SQRT'', ''TAN'', ''TRUNC'',
      ''CBRT'', ''FACTORIAL'', ''GAMMA'', ''LGAMMA'', ''NEXTAFTER'', ''SETSEED'', ''BIT_COUNT'', ''CHR'',
      ''EVEN'', ''XOR'', ''@'']"

definition GetStaticStringFunctions :: "string list" where
  "GetStaticStringFunctions =
     [''ASCII'', ''BIT_LENGTH'', ''CHAR_LENGTH'', ''CHARACTER_LENGTH'', ''CHR'', ''CONCAT'', ''CONCAT_WS'',
      ''FORMAT'', ''INITCAP'', ''INSTR'', ''LCASE'', ''LEFT'', ''LENGTH'', ''LIKE_ESCAPE'', ''LOWER'',
      ''LPAD'', ''LTRIM'', ''MD5'', ''NFC_NORMALIZE'', ''ORD'', ''POSITION'', ''PREFIX'', ''PRINTF'',
      ''REGEXP_EXTRACT'', ''REGEXP_FULL_MATCH'', ''REGEXP_MATCHES'', ''REGEXP_REPLACE'',
      ''REGEXP_SPLIT_TO_ARRAY'', ''REPEAT'', ''REPLACE'', ''REVERSE'', ''RIGHT'', ''RPAD'', ''RTRIM'',
      ''STRPOS'', ''SUBSTR'', ''SUBSTRING'', ''SUFFIX'', ''TRIM'', ''UCASE'', ''UNICODE'', ''UPPER'',
      ''BASE64'', ''FROM_BASE64'', ''TO_BASE64'', ''STRIP_ACCENTS'', ''STR_SPLIT'', ''STR_SPLIT_REGEX'',
      ''STRING_SPLIT'', ''STRING_SPLIT_REGEX'', ''STRING_TO_ARRAY'', ''EDITDIST3'', ''HAMMING'', ''JACCARD'',
      ''LEVENSHTEIN'', ''MISMATCHES'', ''CONTAINS'', ''NOT_LIKE_ESCAPE'', ''ARRAY_EXTRACT'', ''ARRAY_SLICE'',
      ''LIST_ELEMENT'', ''LIST_EXTRACT'', ''STRLEN'']"

definition GetStaticSystemFunctions :: "string list" where
  "GetStaticSystemFunctions =
     [''CURRENT_CATALOG'', ''CURRENT_DATABASE'', ''CURRENT_SCHEMA'', ''CURRENT_USER'', ''SESSION_USER'',
      ''USER'', ''VERSION'']"

definition GetStaticDateTimeFunctions :: "string list" where
  "GetStaticDateTimeFunctions =
     [''CURRENT_DATE'', ''CURRENT_TIME'', ''CURRENT_TIMESTAMP'', ''LOCALTIME'', ''LOCALTIMESTAMP'', ''NOW'',
      ''TODAY'', ''YESTERDAY'', ''TOMORROW'', ''DATE_PART'', ''DATE_TRUNC'', ''EXTRACT'', ''STRFTIME'',
      ''STRPTIME'', ''AGE'', ''DATE_ADD'', ''DATE_SUB'', ''DATEDIFF'', ''DATEADD'', ''DATESUB'', ''LAST_DAY'',
      ''MONTHNAME'', ''DAYNAME'', ''DAYOFWEEK'', ''DAYOFYEAR'', ''ISODOW'', ''ISOYEAR'', ''WEEKDAY'',
      ''WEEKOFYEAR'', ''YEARWEEK'']"

definition duckdb_conversions :: "(string \<times> string list) list" where
  "duckdb_conversions =
     [(''SQL_CONVERT_BIGINT'',
        [''SQL_CONVERT_INTEGER'', ''SQL_CONVERT_SMALLINT'', ''SQL_CONVERT_DECIMAL'', ''SQL_CONVERT_NUMERIC'',
         ''SQL_CONVERT_REAL'', ''SQL_CONVERT_FLOAT'', ''SQL_CONVERT_VARCHAR'', ''SQL_CONVERT_CHAR'']),
      (''SQL_CONVERT_INTEGER'',
        [''SQL_CONVERT_BIGINT'', ''SQL_CONVERT_SMALLINT'', ''SQL_CONVERT_DECIMAL'', ''SQL_CONVERT_NUMERIC'',
         ''SQL_CONVERT_REAL'', ''SQL_CONVERT_FLOAT'', ''SQL_CONVERT_VARCHAR'', ''SQL_CONVERT_CHAR'']),
      (''SQL_CONVERT_VARCHAR'',
        [''SQL_CONVERT_CHAR'', ''SQL_CONVERT_BIGINT'', ''SQL_CONVERT_INTEGER'', ''SQL_CONVERT_SMALLINT'',
         ''SQL_CONVERT_DECIMAL'', ''SQL_CONVERT_NUMERIC'', ''SQL_CONVERT_REAL'', ''SQL_CONVERT_FLOAT'',
         ''SQL_CONVERT_DATE'', ''SQL_CONVERT_TIME'', ''SQL_CONVERT_TIMESTAMP'']),
      (''SQL_CONVERT_FLOAT'',
        [''SQL_CONVERT_BIGINT'', ''SQL_CONVERT_INTEGER'', ''SQL_CONVERT_SMALLINT'', ''SQL_CONVERT_DECIMAL'',
         ''SQL_CONVERT_NUMERIC'', ''SQL_CONVERT_REAL'', ''SQL_CONVERT_FLOAT'', ''SQL_CONVERT_VARCHAR'',
         ''SQL_CONVERT_CHAR''])]"

text \<open>The table as it is written down, with the version, the timeout in seconds and the version of Arrow.\<close>

definition duckdb_base_info :: "string \<Rightarrow> string \<Rightarrow> (string \<times> sql_info_result) list" where
  "duckdb_base_info version arrow_version =
     [(''FLIGHT_SQL_SERVER_NAME'', InfoText ''gizmosql''),
      (''FLIGHT_SQL_SERVER_VERSION'', InfoText (''duckdb '' @ version)),
      (''FLIGHT_SQL_SERVER_ARROW_VERSION'', InfoText arrow_version),
      (''FLIGHT_SQL_SERVER_READ_ONLY'', InfoBool False),
      (''FLIGHT_SQL_SERVER_SQL'', InfoBool True),
      (''FLIGHT_SQL_SERVER_SUBSTRAIT'', InfoBool False),
      (''FLIGHT_SQL_SERVER_TRANSACTION'', InfoNamed32 ''SQL_SUPPORTED_TRANSACTION_TRANSACTION''),
      (''FLIGHT_SQL_SERVER_CANCEL'', InfoBool True),
      (''SQL_DDL_CATALOG'', InfoBool True),
      (''SQL_DDL_SCHEMA'', InfoBool True),
      (''SQL_DDL_TABLE'', InfoBool True),
      (''SQL_IDENTIFIER_CASE'', InfoNamed64 ''SQL_CASE_SENSITIVITY_CASE_INSENSITIVE''),
      (''SQL_IDENTIFIER_QUOTE_CHAR'', InfoText [dquote]),
      (''SQL_QUOTED_IDENTIFIER_CASE'', InfoNamed64 ''SQL_CASE_SENSITIVITY_CASE_INSENSITIVE''),
      (''SQL_ALL_TABLES_ARE_SELECTABLE'', InfoBool True),
      (''SQL_NULL_ORDERING'', InfoNamed64 ''SQL_NULLS_SORTED_AT_END''),
      (''SQL_KEYWORDS'', InfoTexts []),
      (''SQL_NUMERIC_FUNCTIONS'', InfoTexts GetStaticNumericFunctions),
      (''SQL_STRING_FUNCTIONS'', InfoTexts GetStaticStringFunctions),
      (''SQL_SYSTEM_FUNCTIONS'', InfoTexts GetStaticSystemFunctions),
      (''SQL_DATETIME_FUNCTIONS'', InfoTexts GetStaticDateTimeFunctions),
      (''SQL_SEARCH_STRING_ESCAPE'', InfoText [bslash]),
      (''SQL_EXTRA_NAME_CHARACTERS'', InfoText ''$''),
      (''SQL_SUPPORTS_COLUMN_ALIASING'', InfoBool True),
      (''SQL_NULL_PLUS_NULL_IS_NULL'', InfoBool True),
      (''SQL_SUPPORTS_CONVERT'', InfoMap duckdb_conversions)]"

definition duckdb_capability_info :: "int \<Rightarrow> (string \<times> sql_info_result) list" where
  "duckdb_capability_info timeout =
     [(''FLIGHT_SQL_SERVER_BULK_INGESTION'', InfoBool True),
      (''FLIGHT_SQL_SERVER_INGEST_TRANSACTIONS_SUPPORTED'', InfoBool True),
      (''FLIGHT_SQL_SERVER_STATEMENT_TIMEOUT'', InfoInt32 timeout),
      (''FLIGHT_SQL_SERVER_TRANSACTION_TIMEOUT'', InfoInt32 0),
      (''SQL_DEFAULT_TRANSACTION_ISOLATION'', InfoInt64 2),
      (''SQL_TRANSACTIONS_SUPPORTED'', InfoBool True),
      (''SQL_SUPPORTED_TRANSACTIONS_ISOLATION_LEVELS'', InfoInt32 14),
      (''SQL_DATA_DEFINITION_CAUSES_TRANSACTION_COMMIT'', InfoBool False),
      (''SQL_DATA_DEFINITIONS_IN_TRANSACTIONS_IGNORED'', InfoBool False)]"

definition duckdb_limit_info :: "(string \<times> sql_info_result) list" where
  "duckdb_limit_info =
     [(''SQL_MAX_BINARY_LITERAL_LENGTH'', InfoInt32 0),
      (''SQL_MAX_CHAR_LITERAL_LENGTH'', InfoInt32 0),
      (''SQL_MAX_COLUMN_NAME_LENGTH'', InfoInt32 0),
      (''SQL_MAX_COLUMNS_IN_GROUP_BY'', InfoInt32 0),
      (''SQL_MAX_COLUMNS_IN_INDEX'', InfoInt32 0),
      (''SQL_MAX_COLUMNS_IN_ORDER_BY'', InfoInt32 0),
      (''SQL_MAX_COLUMNS_IN_SELECT'', InfoInt32 0),
      (''SQL_MAX_COLUMNS_IN_TABLE'', InfoInt32 0),
      (''SQL_MAX_CONNECTIONS'', InfoInt32 0),
      (''SQL_MAX_CURSOR_NAME_LENGTH'', InfoInt32 0),
      (''SQL_MAX_INDEX_LENGTH'', InfoInt32 0),
      (''SQL_SCHEMA_NAME_LENGTH'', InfoInt32 0),
      (''SQL_MAX_PROCEDURE_NAME_LENGTH'', InfoInt32 0),
      (''SQL_MAX_CATALOG_NAME_LENGTH'', InfoInt32 0),
      (''SQL_MAX_ROW_SIZE'', InfoInt32 0),
      (''SQL_MAX_ROW_SIZE_INCLUDES_BLOBS'', InfoBool True),
      (''SQL_MAX_STATEMENT_LENGTH'', InfoInt32 0),
      (''SQL_MAX_STATEMENTS'', InfoInt32 0),
      (''SQL_MAX_TABLE_NAME_LENGTH'', InfoInt32 0),
      (''SQL_MAX_TABLES_IN_SELECT'', InfoInt32 0),
      (''SQL_MAX_USERNAME_LENGTH'', InfoInt32 0)]"

definition duckdb_support_info :: "(string \<times> sql_info_result) list" where
  "duckdb_support_info =
     [(''SQL_SCHEMA_TERM'', InfoText ''schema''),
      (''SQL_CATALOG_TERM'', InfoText ''catalog''),
      (''SQL_CATALOG_AT_START'', InfoBool True),
      (''SQL_PROCEDURE_TERM'', InfoText ''procedure''),
      (''SQL_SCHEMAS_SUPPORTED_ACTIONS'', InfoInt32 31),
      (''SQL_CATALOGS_SUPPORTED_ACTIONS'', InfoInt32 31),
      (''SQL_SUPPORTS_TABLE_CORRELATION_NAMES'', InfoBool True),
      (''SQL_SUPPORTS_DIFFERENT_TABLE_CORRELATION_NAMES'', InfoBool True),
      (''SQL_SUPPORTS_EXPRESSIONS_IN_ORDER_BY'', InfoBool True),
      (''SQL_SUPPORTS_ORDER_BY_UNRELATED'', InfoBool True),
      (''SQL_SUPPORTS_LIKE_ESCAPE_CLAUSE'', InfoBool True),
      (''SQL_SUPPORTS_NON_NULLABLE_COLUMNS'', InfoBool True),
      (''SQL_SUPPORTS_INTEGRITY_ENHANCEMENT_FACILITY'', InfoBool False),
      (''SQL_SELECT_FOR_UPDATE_SUPPORTED'', InfoBool False),
      (''SQL_STORED_PROCEDURES_SUPPORTED'', InfoBool False),
      (''SQL_CORRELATED_SUBQUERIES_SUPPORTED'', InfoBool True),
      (''SQL_BATCH_UPDATES_SUPPORTED'', InfoBool False),
      (''SQL_SAVEPOINTS_SUPPORTED'', InfoBool False),
      (''SQL_NAMED_PARAMETERS_SUPPORTED'', InfoBool False),
      (''SQL_STORED_FUNCTIONS_USING_CALL_SYNTAX_SUPPORTED'', InfoBool False),
      (''SQL_SUPPORTED_GROUP_BY'', InfoInt32 2),
      (''SQL_SUPPORTED_GRAMMAR'', InfoInt32 3),
      (''SQL_ANSI92_SUPPORTED_LEVEL'', InfoInt32 3),
      (''SQL_OUTER_JOINS_SUPPORT_LEVEL'', InfoInt32 3),
      (''SQL_SUPPORTED_SUBQUERIES'', InfoInt32 15),
      (''SQL_SUPPORTED_UNIONS'', InfoInt32 3),
      (''SQL_SUPPORTED_RESULT_SET_TYPES'', InfoInt32 1),
      (''SQL_SUPPORTED_POSITIONED_COMMANDS'', InfoInt32 0),
      (''SQL_LOCATORS_UPDATE_COPY'', InfoBool False)]"

definition duckdb_static_info :: "string \<Rightarrow> string \<Rightarrow> int \<Rightarrow> (string \<times> sql_info_result) list" where
  "duckdb_static_info version arrow_version timeout =
     duckdb_base_info version arrow_version @ duckdb_capability_info timeout @ duckdb_limit_info @ duckdb_support_info"

section \<open>The SQLite table\<close>

definition sqlite_keywords :: "string list" where
  "sqlite_keywords =
     [''ABORT'', ''ACTION'', ''ADD'', ''AFTER'', ''ALL'', ''ALTER'', ''ALWAYS'', ''ANALYZE'', ''AND'', ''AS'',
      ''ASC'', ''ATTACH'', ''AUTOINCREMENT'', ''BEFORE'', ''BEGIN'', ''BETWEEN'', ''BY'', ''CASCADE'',
      ''CASE'', ''CAST'', ''CHECK'', ''COLLATE'', ''COLUMN'', ''COMMIT'', ''CONFLICT'', ''CONSTRAINT'',
      ''CREATE'', ''CROSS'', ''CURRENT'', ''CURRENT_DATE'', ''CURRENT_TIME'', ''CURRENT_TIMESTAMP'',
      ''DATABASE'', ''DEFAULT'', ''DEFERRABLE'', ''DEFERRED'', ''DELETE'', ''DESC'', ''DETACH'', ''DISTINCT'',
      ''DO'', ''DROP'', ''EACH'', ''ELSE'', ''END'', ''ESCAPE'', ''EXCEPT'', ''EXCLUDE'', ''EXCLUSIVE'',
      ''EXISTS'', ''EXPLAIN'', ''FAIL'', ''FILTER'', ''FIRST'', ''FOLLOWING'', ''FOR'', ''FOREIGN'', ''FROM'',
      ''FULL'', ''GENERATED'', ''GLOB'', ''GROUP'', ''GROUPS'', ''HAVING'', ''IF'', ''IGNORE'', ''IMMEDIATE'',
      ''IN'', ''INDEX'', ''INDEXED'', ''INITIALLY'', ''INNER'', ''INSERT'', ''INSTEAD'', ''INTERSECT'',
      ''INTO'', ''IS'', ''ISNULL'', ''JOIN'', ''KEY'', ''LAST'', ''LEFT'', ''LIKE'', ''LIMIT'', ''MATCH'',
      ''MATERIALIZED'', ''NATURAL'', ''NO'', ''NOT'', ''NOTHING'', ''NOTNULL'', ''NULL'', ''NULLS'', ''OF'',
      ''OFFSET'', ''ON'', ''OR'', ''ORDER'', ''OTHERS'', ''OUTER'', ''OVER'', ''PARTITION'', ''PLAN'',
      ''PRAGMA'', ''PRECEDING'', ''PRIMARY'', ''QUERY'', ''RAISE'', ''RANGE'', ''RECURSIVE'', ''REFERENCES'',
      ''REGEXP'', ''REINDEX'', ''RELEASE'', ''RENAME'', ''REPLACE'', ''RESTRICT'', ''RETURNING'', ''RIGHT'',
      ''ROLLBACK'', ''ROW'', ''ROWS'', ''SAVEPOINT'', ''SELECT'', ''SET'', ''TABLE'', ''TEMP'', ''TEMPORARY'',
      ''THEN'', ''TIES'', ''TO'', ''TRANSACTION'', ''TRIGGER'', ''UNBOUNDED'', ''UNION'', ''UNIQUE'',
      ''UPDATE'', ''USING'', ''VACUUM'', ''VALUES'', ''VIEW'', ''VIRTUAL'', ''WHEN'', ''WHERE'', ''WINDOW'',
      ''WITH'', ''WITHOUT'']"

definition sqlite_numeric_functions :: "string list" where
  "sqlite_numeric_functions =
     [''ACOS'', ''ACOSH'', ''ASIN'', ''ASINH'', ''ATAN'', ''ATAN2'', ''ATANH'', ''CEIL'', ''CEILING'', ''COS'',
      ''COSH'', ''DEGREES'', ''EXP'', ''FLOOR'', ''LN'', ''LOG'', ''LOG'', ''LOG10'', ''LOG2'', ''MOD'',
      ''PI'', ''POW'', ''POWER'', ''RADIANS'', ''SIN'', ''SINH'', ''SQRT'', ''TAN'', ''TANH'', ''TRUNC'']"

definition sqlite_string_functions :: "string list" where
  "sqlite_string_functions =
     [''SUBSTR'', ''TRIM'', ''LTRIM'', ''RTRIM'', ''LENGTH'', ''REPLACE'', ''UPPER'', ''LOWER'', ''INSTR'']"

definition sqlite_sql_info :: "string \<Rightarrow> (string \<times> sql_info_result) list" where
  "sqlite_sql_info arrow_version =
     [(''FLIGHT_SQL_SERVER_NAME'', InfoText ''gizmosql''),
      (''FLIGHT_SQL_SERVER_VERSION'', InfoText ''sqlite 3''),
      (''FLIGHT_SQL_SERVER_ARROW_VERSION'', InfoText arrow_version),
      (''FLIGHT_SQL_SERVER_READ_ONLY'', InfoBool False),
      (''FLIGHT_SQL_SERVER_SQL'', InfoBool True),
      (''FLIGHT_SQL_SERVER_SUBSTRAIT'', InfoBool False),
      (''FLIGHT_SQL_SERVER_TRANSACTION'', InfoNamed32 ''SQL_SUPPORTED_TRANSACTION_TRANSACTION''),
      (''FLIGHT_SQL_SERVER_CANCEL'', InfoBool False),
      (''SQL_DDL_CATALOG'', InfoBool False),
      (''SQL_DDL_SCHEMA'', InfoBool False),
      (''SQL_DDL_TABLE'', InfoBool True),
      (''SQL_IDENTIFIER_CASE'', InfoNamed64 ''SQL_CASE_SENSITIVITY_CASE_INSENSITIVE''),
      (''SQL_IDENTIFIER_QUOTE_CHAR'', InfoText [dquote]),
      (''SQL_QUOTED_IDENTIFIER_CASE'', InfoNamed64 ''SQL_CASE_SENSITIVITY_CASE_INSENSITIVE''),
      (''SQL_ALL_TABLES_ARE_SELECTABLE'', InfoBool True),
      (''SQL_NULL_ORDERING'', InfoNamed64 ''SQL_NULLS_SORTED_AT_START''),
      (''SQL_KEYWORDS'', InfoTexts sqlite_keywords),
      (''SQL_NUMERIC_FUNCTIONS'', InfoTexts sqlite_numeric_functions),
      (''SQL_STRING_FUNCTIONS'', InfoTexts sqlite_string_functions),
      (''SQL_SUPPORTS_CONVERT'', InfoMap [(''SQL_CONVERT_BIGINT'', [''SQL_CONVERT_INTEGER''])])]"
section \<open>What the server asks DuckDB\<close>

text \<open>\<open>ExecuteSqlAndGetStringVector\<close> on a connection.\<close>

definition strings_on_connection ::
    "('c, 'db, 'p, 'r) engine \<Rightarrow> ('r \<Rightarrow> duckdb_value list) \<Rightarrow> 'c \<Rightarrow> string \<Rightarrow> 'db \<Rightarrow> string list result \<times> 'db" where
  "strings_on_connection E first_column conn query d =
     (case db_query E conn query d of
        (Inl err, d1) \<Rightarrow> (fail Invalid (''SQL query failed: '' @ err), d1)
      | (Inr r, d1) \<Rightarrow> (ok (map (value_text E) (filter (\<lambda>v. v \<noteq> DNull) (first_column r))), d1))"

lemma session_strings:
  "ExecuteSqlAndGetStringVector E f p query w
    = (case strings_on_connection E f (connection (session_of p w)) query (w_db w) of (r, d) \<Rightarrow> (r, with_db d w))"
  by (simp add: ExecuteSqlAndGetStringVector_def strings_on_connection_def split: prod.split sum.split)

text \<open>A query that fails gives no entries.\<close>

definition GetDynamic ::
    "('c, 'db, 'p, 'r) engine \<Rightarrow> ('r \<Rightarrow> duckdb_value list) \<Rightarrow> 'c \<Rightarrow> string \<Rightarrow> 'db \<Rightarrow> string list \<times> 'db" where
  "GetDynamic E first_column conn query d =
     (case strings_on_connection E first_column conn query d of
        (Inr l, d1) \<Rightarrow> (l, d1)
      | (Inl e, d1) \<Rightarrow> ([], d1))"

definition scalar_functions :: string where
  "scalar_functions = ''SELECT function_name FROM duckdb_functions() WHERE function_type = '' @ [squote] @ ''scalar'' @ [squote] @ '' ''"

definition similar_to :: "string \<Rightarrow> string" where
  "similar_to types = ''AND return_type SIMILAR TO '' @ [squote] @ ''%('' @ types @ '')%'' @ [squote] @ '' ORDER BY function_name''"

definition keywords_query :: string where
  "keywords_query = ''SELECT keyword_name FROM duckdb_keywords() ORDER BY keyword_name''"

definition numeric_functions_query :: string where
  "numeric_functions_query = scalar_functions @ similar_to ''INTEGER|BIGINT|DOUBLE|FLOAT|DECIMAL|NUMERIC|REAL''"

definition string_functions_query :: string where
  "string_functions_query = scalar_functions @ similar_to ''VARCHAR|TEXT|STRING''"

definition system_functions_query :: string where
  "system_functions_query =
     scalar_functions @ ''AND (function_name LIKE '' @ [squote] @ ''%CURRENT%'' @ [squote]
     @ '' OR function_name LIKE '' @ [squote] @ ''%SESSION%'' @ [squote] @ '' OR function_name LIKE '' @ [squote]
     @ ''%USER%'' @ [squote] @ '' OR function_name = '' @ [squote] @ ''VERSION'' @ [squote] @ '') ORDER BY function_name''"

definition datetime_functions_query :: string where
  "datetime_functions_query = scalar_functions @ similar_to ''DATE|TIME|TIMESTAMP|TIMESTAMPTZ|INTERVAL''"

text \<open>The entries that are asked for, each on a new connection, in this order.\<close>

definition dynamic_entries :: "(string \<times> string) list" where
  "dynamic_entries =
     [(''SQL_KEYWORDS'', keywords_query), (''SQL_NUMERIC_FUNCTIONS'', numeric_functions_query),
      (''SQL_STRING_FUNCTIONS'', string_functions_query), (''SQL_SYSTEM_FUNCTIONS'', system_functions_query),
      (''SQL_DATETIME_FUNCTIONS'', datetime_functions_query)]"

fun override_info ::
    "('c, 'db, 'p, 'r) engine \<Rightarrow> ('r \<Rightarrow> duckdb_value list) \<Rightarrow> (nat \<Rightarrow> 'c) \<Rightarrow> (string \<times> string) list
     \<Rightarrow> sql_info_map \<Rightarrow> 'db \<Rightarrow> sql_info_map \<times> 'db" where
  "override_info E f conns [] m d = (m, d)"
| "override_info E f conns ((n, query) # entries) m d =
     (case GetDynamic E f (conns 0) query d of
        (l, d1) \<Rightarrow> override_info E f (\<lambda>k. conns (Suc k)) entries (m(n \<mapsto> InfoTexts l)) d1)"

text \<open>\<open>asked\<close> tells whether there is a server to ask.\<close>

definition GetSqlInfoResultMap ::
    "('c, 'db, 'p, 'r) engine \<Rightarrow> ('r \<Rightarrow> duckdb_value list) \<Rightarrow> (nat \<Rightarrow> 'c) \<Rightarrow> bool \<Rightarrow> string \<Rightarrow> string \<Rightarrow> int
     \<Rightarrow> 'db \<Rightarrow> sql_info_map \<times> 'db" where
  "GetSqlInfoResultMap E f conns asked version arrow_version timeout d =
     (let m = map_of (duckdb_static_info version arrow_version timeout)
      in if asked then override_info E f conns dynamic_entries m d else (m, d))"

definition GetSqlInfoResultMap_sqlite :: "string \<Rightarrow> sql_info_map" where
  "GetSqlInfoResultMap_sqlite arrow_version = map_of (sqlite_sql_info arrow_version)"

section \<open>Creating the DuckDB server\<close>

record ('c, 'db) created_server =
  cr_registry :: "'c registry"
  cr_db :: 'db
  cr_info :: sql_info_map

text \<open>
  \<open>open_db\<close> is the constructor of \<open>duckdb::DuckDB\<close>, which throws: a place, none for a database in memory, and whether
  it is opened for reading only.
\<close>

definition DuckDBFlightSqlServer_Create ::
    "('c, 'db, 'p, 'r) engine \<Rightarrow> ('r \<Rightarrow> duckdb_value list) \<Rightarrow> (nat \<Rightarrow> 'c) \<Rightarrow> (string option \<Rightarrow> bool \<Rightarrow> string + 'db)
     \<Rightarrow> string \<Rightarrow> string \<Rightarrow> string \<Rightarrow> instr_manager option
     \<Rightarrow> string \<Rightarrow> bool \<Rightarrow> bool \<Rightarrow> int \<Rightarrow> log_level \<Rightarrow> string + ('c, 'db) created_server" where
  "DuckDBFlightSqlServer_Create E f conns open_db version arrow_version uuid manager
       path read_only print_queries default_timeout level =
     (case open_db (if path = '':memory:'' then None else Some path) read_only of
        Inl e \<Rightarrow> Inl e
      | Inr d \<Rightarrow>
          (case GetSqlInfoResultMap E f conns True version arrow_version default_timeout d of
             (m, d1) \<Rightarrow>
               Inr \<lparr>cr_registry =
                      \<lparr>objs = [], client_sessions = (\<lambda>_. None), killed_session_ids = {}, active_connections = 0,
                       interrupts = [], srv_instance_id = uuid, srv_query_timeout = default_timeout,
                       srv_query_log_level = level, srv_print_queries = print_queries, srv_instr = manager\<rparr>,
                    cr_db = d1, cr_info = m\<rparr>))"

section \<open>What is announced\<close>

text \<open>No id stands in a table twice, so what is registered is what is written.\<close>

lemma table_ids_distinct:
  "distinct (map fst (duckdb_static_info version arrow_version timeout))"
  "distinct (map fst (sqlite_sql_info arrow_version))"
  by (simp_all add: duckdb_static_info_def duckdb_base_info_def duckdb_capability_info_def duckdb_limit_info_def
      duckdb_support_info_def sqlite_sql_info_def)

lemma override_others: "n \<notin> fst ` set entries \<Longrightarrow> fst (override_info E f conns entries m d) n = m n"
  by (induction entries arbitrary: conns m d) (auto split: prod.split)

lemma override_lists:
  "n \<in> fst ` set entries \<Longrightarrow> \<exists>l. fst (override_info E f conns entries m d) n = Some (InfoTexts l)"
proof (induction entries arbitrary: conns m d)
  case (Cons e entries)
  obtain k query where e: "e = (k, query)" by (cases e)
  obtain l d1 where g: "GetDynamic E f (conns 0) query d = (l, d1)" by (cases "GetDynamic E f (conns 0) query d") auto
  show ?case
  proof (cases "n \<in> fst ` set entries")
    case True
    then show ?thesis using Cons.IH e g by simp
  next
    case False
    then have "n = k" using Cons.prems e by simp
    then show ?thesis using override_others [OF False, of E f "\<lambda>k. conns (Suc k)" "m(k \<mapsto> InfoTexts l)" d1] e g by simp
  qed
qed simp

text \<open>A server whose database refuses the queries announces no keyword and no function, not the lists in the table.\<close>

lemma refused_queries_give_nothing:
  assumes "\<And>c q. \<exists>err. db_query E c q d = (Inl err, d)"
  shows "fst (override_info E f conns entries m d) n
    = (if n \<in> fst ` set entries then Some (InfoTexts []) else m n)"
proof -
  have none: "GetDynamic E f c q d = ([], d)" for c q
    using assms [of c q] by (auto simp: GetDynamic_def strings_on_connection_def)
  show ?thesis
  proof (induction entries arbitrary: conns m)
    case (Cons e entries)
    then show ?case by (cases e) (simp add: none)
  qed simp
qed

lemmas duckdb_info_defs =
  duckdb_static_info_def duckdb_base_info_def duckdb_capability_info_def duckdb_limit_info_def duckdb_support_info_def

lemma dynamic_ids:
  "fst ` set dynamic_entries =
     {''SQL_KEYWORDS'', ''SQL_NUMERIC_FUNCTIONS'', ''SQL_STRING_FUNCTIONS'', ''SQL_SYSTEM_FUNCTIONS'', ''SQL_DATETIME_FUNCTIONS''}"
  by (simp add: dynamic_entries_def)

lemma created_info:
  assumes "DuckDBFlightSqlServer_Create E f conns open_db version arrow_version uuid manager path read_only print_queries
     default_timeout level = Inr s" and "n \<notin> fst ` set dynamic_entries"
  shows "cr_info s n = map_of (duckdb_static_info version arrow_version default_timeout) n"
proof -
  let ?m = "map_of (duckdb_static_info version arrow_version default_timeout)"
  obtain d where d: "open_db (if path = '':memory:'' then None else Some path) read_only = Inr d"
    using assms(1) by (auto simp: DuckDBFlightSqlServer_Create_def split: sum.splits)
  obtain m d1 where m: "override_info E f conns dynamic_entries ?m d = (m, d1)"
    by (cases "override_info E f conns dynamic_entries ?m d") auto
  have "cr_info s = m"
    using assms(1) d m by (auto simp: DuckDBFlightSqlServer_Create_def GetSqlInfoResultMap_def Let_def)
  then show ?thesis using override_others [OF assms(2), of E f conns ?m d] m by simp
qed

text \<open>
  The table does not depend on how the server runs: a server opened for reading only says like any other that it is
  not, and the timeout it gives is the one it was created with, whatever an administrator sets later.
\<close>

lemma announced_access_and_timeout:
  assumes "DuckDBFlightSqlServer_Create E f conns open_db version arrow_version uuid manager path read_only print_queries
     default_timeout level = Inr s"
  shows "cr_info s ''FLIGHT_SQL_SERVER_READ_ONLY'' = Some (InfoBool False)"
    and "cr_info s ''FLIGHT_SQL_SERVER_STATEMENT_TIMEOUT'' = Some (InfoInt32 default_timeout)"
    and "cr_info s ''FLIGHT_SQL_SERVER_CANCEL'' = Some (InfoBool True)"
  by (simp_all add: created_info [OF assms] dynamic_ids duckdb_info_defs)

text \<open>The kind of an entry.\<close>

fun same_kind :: "sql_info_result \<Rightarrow> sql_info_result \<Rightarrow> bool" where
  "same_kind (InfoText a) (InfoText b) = True"
| "same_kind (InfoBool a) (InfoBool b) = True"
| "same_kind (InfoInt32 a) (InfoInt32 b) = True"
| "same_kind (InfoInt64 a) (InfoInt64 b) = True"
| "same_kind (InfoNamed32 a) (InfoNamed32 b) = True"
| "same_kind (InfoNamed64 a) (InfoNamed64 b) = True"
| "same_kind (InfoTexts a) (InfoTexts b) = True"
| "same_kind (InfoMap a) (InfoMap b) = True"
| "same_kind a b = False"

text \<open>Whatever SQLite answers DuckDB answers too, and with a value of the same kind.\<close>

lemma sqlite_ids_answered:
  "list_all (\<lambda>(n, r). case map_of (duckdb_static_info version a timeout) n of None \<Rightarrow> False | Some r' \<Rightarrow> same_kind r r')
     (sqlite_sql_info a)"
  by (simp add: duckdb_info_defs sqlite_sql_info_def)

text \<open>Two of the texts of SQLite are the same.\<close>

lemma sqlite_logarithm_twice: "\<not> distinct sqlite_numeric_functions"
  by (simp add: sqlite_numeric_functions_def)

end
