(* ===== verification/Options.thy ===== *)
theory Options
  imports Statement
begin

text \<open>
  What the server makes of its arguments and environment (\<open>CreateFlightSQLServer\<close> and the first half of
  \<open>RunFlightSQLServer\<close> in \<open>src/src/common/gizmosql_library.cpp\<close>): each value is the argument, else an
  environment variable, else a default, in the order of the code, with the checks that refuse to start.
  The environment and the file system are the parameter \<open>host\<close>; log lines are left out.
\<close>

section \<open>The host\<close>

text \<open>\<open>getenv\<close> as \<open>SafeGetEnvVarValue\<close> gives it: the empty string for an unset variable.\<close>

record host =
  env_var :: "string \<Rightarrow> string"
  fs_absolute :: "string \<Rightarrow> string"
  fs_exists :: "string \<Rightarrow> bool"
  fs_contents :: "string \<Rightarrow> string"
  fresh_uuid :: string

definition or_env :: "host \<Rightarrow> string \<Rightarrow> string \<Rightarrow> string" where
  "or_env h v n = (if v = [] then env_var h n else v)"

definition or_default :: "string \<Rightarrow> string \<Rightarrow> string" where
  "or_default v d = (if v = [] then d else v)"

section \<open>The options, by group\<close>

datatype backend = Duckdb | Sqlite

record base_options =
  bo_database :: string
  bo_hostname :: string
  bo_port :: int
  bo_health_port :: int
  bo_username :: string
  bo_password :: string
  bo_secret_key :: string

record tls_options =
  to_cert :: string
  to_key :: string
  to_mtls_ca :: string

record init_options =
  io_commands :: string
  io_file :: string

record token_options =
  ko_issuer :: string
  ko_audience :: string
  ko_cert :: string
  ko_jwks_uri :: string
  ko_default_role :: string
  ko_emails :: string

record instr_options =
  no_enabled :: bool
  no_db_path :: string
  no_catalog :: string
  no_schema :: string

record oauth_options =
  uo_client_id :: string
  uo_client_secret :: string
  uo_scopes :: string
  uo_port :: int
  uo_base_url :: string
  uo_disable_tls :: bool

record server_options =
  so_backend :: backend
  so_base :: base_options
  so_tls :: tls_options
  so_init :: init_options
  so_token :: token_options
  so_instr :: instr_options
  so_oauth :: oauth_options
  so_health_query :: string
  so_read_only :: bool
  so_print_queries :: bool
  so_access_log :: bool
  so_query_timeout :: int
  so_query_log_level :: log_level
  so_auth_log_level :: log_level
  so_allow_cross :: bool
  so_telemetry :: bool

section \<open>Database, address, credentials\<close>

definition resolve_database :: "host \<Rightarrow> string \<Rightarrow> string" where
  "resolve_database h f =
     (if f = [] \<or> f = '':memory:'' then '':memory:''
      else if find_char (CHR '':'') f = None then fs_absolute h f else f)"

text \<open>
  The port: unlike every other value the environment goes before the argument. A text that \<open>stoi\<close> refuses
  is an error, as is the port of the health server.
\<close>

definition resolve_port :: "host \<Rightarrow> int \<Rightarrow> int \<Rightarrow> int result" where
  "resolve_port h port health_port =
     (let e = env_var h ''GIZMOSQL_PORT''
      in if e = [] then ok port
         else case stoi e of
                None \<Rightarrow> fail Invalid ''GIZMOSQL_PORT environment variable is set but is not a valid integer''
              | Some p \<Rightarrow>
                  (if p = health_port
                   then fail Invalid ''GIZMOSQL_PORT environment variable cannot be the same as health_port''
                   else if p > 0 \<and> p < 65536 then ok p
                   else fail Invalid ''GIZMOSQL_PORT environment variable is set but is not a valid port number''))"

definition no_password_msg :: string where
  "no_password_msg =
     ''The GizmoSQL Server password is empty and env var: '' @ [squote] @ ''GIZMOSQL_PASSWORD'' @ [squote]
     @ '' is not set.  Pass a value to this argument to secure the server.''"

definition resolve_base :: "host \<Rightarrow> base_options \<Rightarrow> base_options result" where
  "resolve_base h b =
     rbind (resolve_port h (bo_port b) (bo_health_port b)) (\<lambda>port.
       let password = or_env h (bo_password b) ''GIZMOSQL_PASSWORD'';
           secret = or_env h (bo_secret_key b) ''SECRET_KEY''
       in if password = [] then fail Invalid no_password_msg
          else ok (b\<lparr>bo_database := resolve_database h (bo_database b),
                     bo_hostname := or_default (or_env h (bo_hostname b) ''GIZMOSQL_HOSTNAME'') ''0.0.0.0'',
                     bo_port := port,
                     bo_username := or_default (or_env h (bo_username b) ''GIZMOSQL_USERNAME'') ''gizmosql_user'',
                     bo_password := password,
                     bo_secret_key := (if secret = [] then ''SECRET-'' @ fresh_uuid h else secret)\<rparr>))"

section \<open>Certificates\<close>

definition existing_file :: "host \<Rightarrow> string \<Rightarrow> string \<Rightarrow> string result" where
  "existing_file h what p =
     (let a = fs_absolute h p in if fs_exists h a then ok a else fail Invalid (what @ a))"

definition resolve_tls :: "host \<Rightarrow> tls_options \<Rightarrow> tls_options result" where
  "resolve_tls h t =
     (if to_cert t = [] then ok t
      else rbind (existing_file h ''TLS certificate file does not exist: '' (to_cert t)) (\<lambda>cert.
             if to_key t = []
             then fail Invalid ''tls_key_path was not specified (when tls_cert_path WAS specified)''
             else rbind (existing_file h ''TLS key file does not exist: '' (to_key t)) (\<lambda>key.
                    ok (t\<lparr>to_cert := cert, to_key := key\<rparr>))))"

definition resolve_mtls :: "host \<Rightarrow> tls_options \<Rightarrow> tls_options result" where
  "resolve_mtls h t =
     (if to_mtls_ca t = [] then ok t
      else rbind (existing_file h ''mTLS CA certificate file does not exist: '' (to_mtls_ca t)) (\<lambda>ca.
             ok (t\<lparr>to_mtls_ca := ca\<rparr>)))"

section \<open>Initial commands\<close>

text \<open>A file is only read when its name comes from the environment.\<close>

definition resolve_init :: "host \<Rightarrow> init_options \<Rightarrow> init_options result" where
  "resolve_init h i =
     (let commands = or_env h (io_commands i) ''INIT_SQL_COMMANDS''
      in if io_file i \<noteq> [] then ok (i\<lparr>io_commands := commands\<rparr>)
         else let e = env_var h ''INIT_SQL_COMMANDS_FILE''
              in if e = [] then ok (i\<lparr>io_commands := commands\<rparr>)
                 else rbind (existing_file h ''INIT_SQL_COMMANDS_FILE does not exist: '' e) (\<lambda>f.
                        ok (i\<lparr>io_commands := commands @ fs_contents h f, io_file := f\<rparr>)))"

section \<open>Tokens\<close>

definition resolve_token_cert :: "host \<Rightarrow> string \<Rightarrow> string result" where
  "resolve_token_cert h c =
     (if c \<noteq> [] then ok c
      else let e = env_var h ''TOKEN_SIGNATURE_VERIFY_CERT_PATH''
           in if e = [] then ok []
              else existing_file h ''Token signature verification certificate file does not exist: '' e)"

definition resolve_token :: "host \<Rightarrow> token_options \<Rightarrow> token_options result" where
  "resolve_token h k =
     (let iss = or_env h (ko_issuer k) ''TOKEN_ALLOWED_ISSUER'';
          aud = or_env h (ko_audience k) ''TOKEN_ALLOWED_AUDIENCE''
      in rbind (resolve_token_cert h (ko_cert k)) (\<lambda>cert.
           if iss \<noteq> [] \<and> aud = []
           then fail Invalid (''The token allowed issuer is set, but audience is not set.  ''
                  @ ''Pass a value to this argument to secure the server.'')
           else ok \<lparr>ko_issuer = iss, ko_audience = aud, ko_cert = cert,
                    ko_jwks_uri = or_env h (ko_jwks_uri k) ''GIZMOSQL_TOKEN_JWKS_URI'',
                    ko_default_role = or_env h (ko_default_role k) ''GIZMOSQL_TOKEN_DEFAULT_ROLE'',
                    ko_emails = or_default (or_env h (ko_emails k) ''GIZMOSQL_TOKEN_AUTHORIZED_EMAILS'') ''*''\<rparr>))"

section \<open>Health check, instrumentation, OAuth\<close>

definition resolve_instr :: "host \<Rightarrow> instr_options \<Rightarrow> instr_options" where
  "resolve_instr h n =
     n\<lparr>no_catalog := or_env h (no_catalog n) ''GIZMOSQL_INSTRUMENTATION_CATALOG'',
       no_schema := or_default (or_env h (no_schema n) ''GIZMOSQL_INSTRUMENTATION_SCHEMA'') ''main''\<rparr>"

text \<open>The port of the OAuth server: a text that is no number leaves the 0.\<close>

definition resolve_oauth_port :: "host \<Rightarrow> string \<Rightarrow> int \<Rightarrow> int" where
  "resolve_oauth_port h client_id port =
     (let p = (if port = 0
               then (let e = env_var h ''GIZMOSQL_OAUTH_PORT''
                     in if e = [] then 0 else case stoi e of None \<Rightarrow> 0 | Some q \<Rightarrow> q)
               else port)
      in if p = 0 \<and> client_id \<noteq> [] then 31339 else p)"

definition resolve_oauth :: "host \<Rightarrow> oauth_options \<Rightarrow> oauth_options" where
  "resolve_oauth h u =
     (let cid = or_env h (uo_client_id u) ''GIZMOSQL_OAUTH_CLIENT_ID''
      in u\<lparr>uo_client_id := cid,
           uo_client_secret := or_env h (uo_client_secret u) ''GIZMOSQL_OAUTH_CLIENT_SECRET'',
           uo_scopes := or_default (or_env h (uo_scopes u) ''GIZMOSQL_OAUTH_SCOPES'') ''openid profile email'',
           uo_port := resolve_oauth_port h cid (uo_port u),
           uo_base_url := or_env h (uo_base_url u) ''GIZMOSQL_OAUTH_BASE_URL''\<rparr>)"

definition check_oauth :: "token_options \<Rightarrow> oauth_options \<Rightarrow> unit result" where
  "check_oauth k u =
     (if uo_client_id u \<noteq> [] \<and> (ko_issuer k = [] \<or> ko_audience k = [])
      then fail Invalid (''OAuth client ID is set but --token-allowed-issuer and --token-allowed-audience ''
             @ ''are required for server-side OAuth code exchange.'')
      else ok ())"

text \<open>\<open>CreateFlightSQLServer\<close> up to the call of the builder.\<close>

definition resolve_options :: "host \<Rightarrow> server_options \<Rightarrow> server_options result" where
  "resolve_options h o0 =
     rbind (resolve_base h (so_base o0)) (\<lambda>b.
     rbind (resolve_tls h (so_tls o0)) (\<lambda>t0.
     rbind (resolve_init h (so_init o0)) (\<lambda>i.
     rbind (resolve_mtls h t0) (\<lambda>t.
     rbind (resolve_token h (so_token o0)) (\<lambda>k.
       let u = resolve_oauth h (so_oauth o0)
       in rbind (check_oauth k u) (\<lambda>_.
            ok (o0\<lparr>so_base := b, so_tls := t, so_init := i, so_token := k,
                   so_health_query := or_default (or_env h (so_health_query o0) ''GIZMOSQL_HEALTH_CHECK_QUERY'') ''SELECT 1'',
                   so_instr := resolve_instr h (so_instr o0), so_oauth := u\<rparr>)))))))"

section \<open>The arguments of the process\<close>

definition pick :: "host \<Rightarrow> string \<Rightarrow> string \<Rightarrow> string \<Rightarrow> string" where
  "pick h v env_name def = or_default (or_env h v env_name) def"

definition parse_bool :: "string \<Rightarrow> bool option" where
  "parse_bool s =
     (let l = to_lower s
      in if l = ''1'' \<or> l = ''true'' \<or> l = ''on'' \<or> l = ''yes'' then Some True
         else if l = ''0'' \<or> l = ''false'' \<or> l = ''off'' \<or> l = ''no'' then Some False
         else None)"

text \<open>An explicit value goes before the environment; a text that is no truth value counts as false.\<close>

definition resolve_bool_env :: "host \<Rightarrow> bool option \<Rightarrow> string \<Rightarrow> bool" where
  "resolve_bool_env h v env_name =
     (case v of
        Some b \<Rightarrow> b
      | None \<Rightarrow> (case parse_bool (env_var h env_name) of Some b \<Rightarrow> b | None \<Rightarrow> False))"

text \<open>What \<open>RunFlightSQLServer\<close> derives itself; an access log text that is no truth value turns it on.\<close>

record run_arguments =
  ra_options :: server_options
  ra_log_level :: string
  ra_log_format :: string
  ra_access_log :: string
  ra_log_file :: string
  ra_query_log_level :: string
  ra_auth_log_level :: string
  ra_instrumentation :: "bool option"
  ra_allow_cross :: "bool option"
  ra_oauth_disable_tls :: "bool option"
  ra_otel_enabled :: "bool option"
  ra_license_file :: string

datatype log_format = kText | kJson

record log_config =
  lc_level :: log_level
  lc_format :: log_format
  lc_file_path :: "string option"
  lc_component :: string

definition run_log_config :: "host \<Rightarrow> run_arguments \<Rightarrow> log_config" where
  "run_log_config h a =
     (let file = pick h (ra_log_file a) ''GIZMOSQL_LOG_FILE'' []
      in \<lparr>lc_level = log_level_string_to_arrow_log_level (pick h (ra_log_level a) ''GIZMOSQL_LOG_LEVEL'' ''info''),
          lc_format = (if to_lower (pick h (ra_log_format a) ''GIZMOSQL_LOG_FORMAT'' ''text'') = ''json''
                       then kJson else kText),
          lc_file_path = (if file = [] then None else Some file), lc_component = ''gizmosql_server''\<rparr>)"

definition run_options :: "host \<Rightarrow> run_arguments \<Rightarrow> server_options" where
  "run_options h a =
     (let o0 = ra_options a
      in o0\<lparr>so_access_log :=
              (case parse_bool (pick h (ra_access_log a) ''GIZMOSQL_ACCESS_LOG'' ''off'') of Some b \<Rightarrow> b | None \<Rightarrow> True),
            so_query_log_level :=
              log_level_string_to_arrow_log_level (pick h (ra_query_log_level a) ''GIZMOSQL_QUERY_LOG_LEVEL'' ''info''),
            so_auth_log_level :=
              log_level_string_to_arrow_log_level (pick h (ra_auth_log_level a) ''GIZMOSQL_AUTH_LOG_LEVEL'' ''info''),
            so_instr := (so_instr o0)
              \<lparr>no_enabled := resolve_bool_env h (ra_instrumentation a) ''GIZMOSQL_ENABLE_INSTRUMENTATION''\<rparr>,
            so_allow_cross := resolve_bool_env h (ra_allow_cross a) ''GIZMOSQL_ALLOW_CROSS_INSTANCE_TOKENS'',
            so_oauth := (so_oauth o0)
              \<lparr>uo_disable_tls := resolve_bool_env h (ra_oauth_disable_tls a) ''GIZMOSQL_OAUTH_DISABLE_TLS''\<rparr>,
            so_telemetry := resolve_bool_env h (ra_otel_enabled a) ''GIZMOSQL_OTEL_ENABLED''\<rparr>)"

section \<open>Properties\<close>

lemma existing_file_ok: "existing_file h what p = ok q \<Longrightarrow> q = fs_absolute h p \<and> fs_exists h q"
  by (auto simp: existing_file_def Let_def split: if_splits)

lemma resolve_optionsE:
  assumes "resolve_options h o0 = ok o1"
  obtains t0 where "resolve_base h (so_base o0) = ok (so_base o1)" "resolve_tls h (so_tls o0) = ok t0"
    "resolve_init h (so_init o0) = ok (so_init o1)" "resolve_mtls h t0 = ok (so_tls o1)"
    "resolve_token h (so_token o0) = ok (so_token o1)" "so_oauth o1 = resolve_oauth h (so_oauth o0)"
    "check_oauth (so_token o1) (so_oauth o1) = ok ()"
    "so_health_query o1 = or_default (or_env h (so_health_query o0) ''GIZMOSQL_HEALTH_CHECK_QUERY'') ''SELECT 1''"
  using assms by (auto simp: resolve_options_def rbind_ok_iff Let_def)

lemma resolve_base_secured:
  "resolve_base h b = ok b' \<Longrightarrow> bo_password b' \<noteq> [] \<and> bo_username b' \<noteq> [] \<and> bo_secret_key b' \<noteq> []"
  by (auto simp: resolve_base_def rbind_ok_iff Let_def or_default_def split: if_splits)

lemma resolve_tls_secured:
  "resolve_tls h t = ok t' \<Longrightarrow> to_cert t' = [] \<or> fs_exists h (to_cert t') \<and> fs_exists h (to_key t')"
  by (auto simp: resolve_tls_def rbind_ok_iff split: if_splits dest!: existing_file_ok)

lemma resolve_mtls_secured:
  "resolve_mtls h t = ok t' \<Longrightarrow> to_cert t' = to_cert t \<and> to_key t' = to_key t
     \<and> (to_mtls_ca t' = [] \<or> fs_exists h (to_mtls_ca t'))"
  by (auto simp: resolve_mtls_def rbind_ok_iff split: if_splits dest!: existing_file_ok)

lemma resolve_token_secured:
  "resolve_token h k = ok k' \<Longrightarrow> (ko_issuer k' = [] \<or> ko_audience k' \<noteq> []) \<and> ko_emails k' \<noteq> []"
  by (auto simp: resolve_token_def rbind_ok_iff Let_def or_default_def split: if_splits)

lemma or_default_nonempty [simp]: "d \<noteq> [] \<Longrightarrow> or_default v d \<noteq> []"
  by (simp add: or_default_def)

text \<open>
  A server that starts is secured by its options: it has a password, a user name and a signing key;
  with a TLS certificate there is a key and both files exist, as does the CA file of client certificates;
  tokens of an issuer are only accepted for a configured audience; the OAuth flow is only on with issuer
  and audience; and the list of authorized e-mails is not empty by default.
\<close>

theorem started_server_is_secured:
  assumes "resolve_options h o0 = ok o1"
  shows "bo_password (so_base o1) \<noteq> [] \<and> bo_username (so_base o1) \<noteq> [] \<and> bo_secret_key (so_base o1) \<noteq> []
    \<and> (to_cert (so_tls o1) = [] \<or> fs_exists h (to_cert (so_tls o1)) \<and> fs_exists h (to_key (so_tls o1)))
    \<and> (to_mtls_ca (so_tls o1) = [] \<or> fs_exists h (to_mtls_ca (so_tls o1)))
    \<and> (ko_issuer (so_token o1) = [] \<or> ko_audience (so_token o1) \<noteq> [])
    \<and> (uo_client_id (so_oauth o1) = [] \<or> ko_issuer (so_token o1) \<noteq> [] \<and> ko_audience (so_token o1) \<noteq> [])
    \<and> ko_emails (so_token o1) \<noteq> []"
proof -
  obtain t0 where r: "resolve_base h (so_base o0) = ok (so_base o1)" "resolve_tls h (so_tls o0) = ok t0"
    "resolve_mtls h t0 = ok (so_tls o1)" "resolve_token h (so_token o0) = ok (so_token o1)"
    "check_oauth (so_token o1) (so_oauth o1) = ok ()"
    using assms by (rule resolve_optionsE)
  have "uo_client_id (so_oauth o1) = [] \<or> ko_issuer (so_token o1) \<noteq> [] \<and> ko_audience (so_token o1) \<noteq> []"
    using r(5) by (auto simp: check_oauth_def split: if_splits)
  then show ?thesis
    using resolve_base_secured [OF r(1)] resolve_tls_secured [OF r(2)] resolve_mtls_secured [OF r(3)]
      resolve_token_secured [OF r(4)] by auto
qed

text \<open>
  A file of initial commands that is named by the argument is never read: with it, the commands are
  those of the argument or of the environment, whatever the file holds and whether or not it exists; only
  a file named by the environment variable is read.
\<close>

theorem init_file_argument_is_ignored:
  assumes "io_file i \<noteq> []"
  shows "resolve_init (h\<lparr>fs_contents := c, fs_exists := ex\<rparr>) i
    = ok (i\<lparr>io_commands := or_env h (io_commands i) ''INIT_SQL_COMMANDS''\<rparr>)"
  using assms by (simp add: resolve_init_def Let_def or_env_def)

text \<open>
  The port of the environment goes before the argument, unlike every other option: a
  user name and a password that are given stay as they are.
\<close>

theorem port_environment_wins:
  assumes "resolve_base h b = ok b'" and "env_var h ''GIZMOSQL_PORT'' = show_int p" and "0 < p" and "p < 65536"
  shows "bo_port b' = p
    \<and> (bo_username b \<noteq> [] \<longrightarrow> bo_username b' = bo_username b) \<and> (bo_password b \<noteq> [] \<longrightarrow> bo_password b' = bo_password b)"
proof -
  have "stoi (show_int p) = Some p" using assms(3,4) by (intro stoi_show_int) simp_all
  moreover have "show_int p \<noteq> []" by (simp add: show_int_def)
  ultimately show ?thesis
    using assms by (auto simp: resolve_base_def resolve_port_def rbind_ok_iff Let_def or_env_def or_default_def
        split: if_splits)
qed

definition sample_host :: host where
  "sample_host =
     \<lparr>env_var = (\<lambda>n. if n = ''GIZMOSQL_PORT'' then show_int 4000 else []), fs_absolute = (\<lambda>p. CHR ''/'' # p),
      fs_exists = (\<lambda>p. True), fs_contents = (\<lambda>p. ''SELECT 1''), fresh_uuid = ''u''\<rparr>"

definition sample_base :: base_options where
  "sample_base = \<lparr>bo_database = [], bo_hostname = [], bo_port = 31337, bo_health_port = 31338, bo_username = ''ann'',
     bo_password = ''pw'', bo_secret_key = []\<rparr>"

definition sample_options :: server_options where
  "sample_options =
     \<lparr>so_backend = Duckdb, so_base = sample_base, so_tls = \<lparr>to_cert = ''c'', to_key = ''k'', to_mtls_ca = []\<rparr>,
      so_init = \<lparr>io_commands = [], io_file = []\<rparr>,
      so_token = \<lparr>ko_issuer = ''i'', ko_audience = ''a'', ko_cert = [], ko_jwks_uri = [], ko_default_role = [], ko_emails = []\<rparr>,
      so_instr = \<lparr>no_enabled = False, no_db_path = [], no_catalog = [], no_schema = []\<rparr>,
      so_oauth = \<lparr>uo_client_id = ''id'', uo_client_secret = [], uo_scopes = [], uo_port = 0, uo_base_url = [], uo_disable_tls = False\<rparr>,
      so_health_query = [], so_read_only = False, so_print_queries = False, so_access_log = False, so_query_timeout = 0,
      so_query_log_level = ARROW_INFO, so_auth_log_level = ARROW_INFO, so_allow_cross = False, so_telemetry = False\<rparr>"

lemma sample_base_resolved: "\<exists>b. resolve_base sample_host sample_base = ok b"
proof -
  have "stoi (show_int 4000) = Some 4000" by (rule stoi_show_int) simp_all
  moreover have "show_int 4000 \<noteq> []" by (simp add: show_int_def)
  ultimately show ?thesis
    by (simp add: resolve_base_def resolve_port_def sample_host_def sample_base_def Let_def or_env_def)
qed

theorem started_server_is_secured_witness:
  "\<exists>o1. resolve_options sample_host sample_options = ok o1 \<and> bo_password (so_base o1) \<noteq> []
     \<and> ko_audience (so_token o1) \<noteq> []"
proof -
  obtain b where "resolve_base sample_host sample_base = ok b" using sample_base_resolved by blast
  then have "\<exists>o1. resolve_options sample_host sample_options = ok o1 \<and> ko_issuer (so_token o1) \<noteq> []"
    by (simp add: resolve_options_def sample_options_def resolve_tls_def existing_file_def sample_host_def
        resolve_init_def or_env_def resolve_mtls_def resolve_token_def resolve_token_cert_def check_oauth_def Let_def)
  then show ?thesis using started_server_is_secured by blast
qed

theorem init_file_argument_is_ignored_witness:
  "resolve_init (sample_host\<lparr>fs_contents := (\<lambda>_. ''CREATE TABLE t''), fs_exists := (\<lambda>_. False)\<rparr>)
     \<lparr>io_commands = [], io_file = ''init.sql''\<rparr> = ok \<lparr>io_commands = [], io_file = ''init.sql''\<rparr>"
  by (subst init_file_argument_is_ignored) (simp_all add: or_env_def sample_host_def)

theorem port_environment_wins_witness:
  "\<exists>b. resolve_base sample_host sample_base = ok b \<and> bo_port sample_base = 31337 \<and> bo_port b = 4000"
proof -
  obtain b where "resolve_base sample_host sample_base = ok b" using sample_base_resolved by blast
  moreover from port_environment_wins [OF this, of 4000] have "bo_port b = 4000"
    by (simp add: sample_host_def)
  ultimately show ?thesis by (simp add: sample_base_def)
qed

end
