(* ===== verification/Auth.thy ===== *)
theory Auth
  imports CatalogPermissions License Sessions
begin

text \<open>
  Authentication (\<open>src/src/common/gizmosql_security.cpp\<close>), as the Enterprise build compiles it: the
  headers, the Basic middleware factory (password or bootstrap token), the session token it issues, and
  the Bearer middleware factory, which fills the request context that sessions are made from. jwt-cpp,
  picojson, OpenSSL's HMAC and the base64 decoder are the parameter \<open>auth_lib\<close>; log lines are left out.
\<close>

section \<open>Tokens and the libraries\<close>

datatype json = JNull | JBool bool | JNumber int | JString string | JArray "json list" | JObject "(string \<times> json) list"

datatype jwt_algorithm =
    HS256 string | RS256 string | RS384 string | RS512 string | ES256 string | ES384 string | ES512 string

record decoded_jwt =
  jwt_token :: string
  jwt_header :: "(string \<times> json) list"
  jwt_payload :: "(string \<times> json) list"

record jwt_verifier =
  vf_algorithm :: jwt_algorithm
  vf_issuer :: string
  vf_audience :: "string option"

text \<open>
  \<open>jwt_decode\<close> gives the text of its exception or the decoded token; \<open>jwt_verify\<close> the text of its
  exception if signature, issuer, audience or times are not as asked. The two texts are those of
  the exceptions for an absent claim and for a claim of another type.
\<close>

record auth_lib =
  jwt_decode :: "string \<Rightarrow> string + decoded_jwt"
  jwt_verify :: "jwt_verifier \<Rightarrow> decoded_jwt \<Rightarrow> string option"
  jwt_sign :: "jwt_algorithm \<Rightarrow> (string \<times> json) list \<Rightarrow> (string \<times> json) list \<Rightarrow> string"
  missing_claim_text :: string
  claim_type_text :: string
  json_serialize :: "json \<Rightarrow> string"
  json_parse :: "string \<Rightarrow> string + json"
  base64_decode :: "string \<Rightarrow> string"
  hmac_sha256 :: "string \<Rightarrow> string \<Rightarrow> nat list"
  status_to_string :: "status \<Rightarrow> string"

definition claim :: "string \<Rightarrow> decoded_jwt \<Rightarrow> json option" where
  "claim n d = map_of (jwt_payload d) n"

text \<open>\<open>get_payload_claim(n).as_string()\<close>, \<open>Inl\<close> when it throws.\<close>

definition claim_text :: "auth_lib \<Rightarrow> string \<Rightarrow> decoded_jwt \<Rightarrow> string + string" where
  "claim_text lib n d =
     (case claim n d of
        None \<Rightarrow> Inl (missing_claim_text lib)
      | Some j \<Rightarrow> (case j of JString s \<Rightarrow> Inr s | _ \<Rightarrow> Inl (claim_type_text lib)))"

definition SafeGetClaim :: "auth_lib \<Rightarrow> string \<Rightarrow> decoded_jwt \<Rightarrow> string" where
  "SafeGetClaim lib n d = (case claim_text lib n d of Inl _ \<Rightarrow> [] | Inr s \<Rightarrow> s)"

definition SafeGetTokenId :: "auth_lib \<Rightarrow> decoded_jwt \<Rightarrow> string" where
  "SafeGetTokenId lib d = (let v = SafeGetClaim lib ''jti'' d in if v = [] then ''(no-jti)'' else v)"

definition ExtractUsername :: "auth_lib \<Rightarrow> decoded_jwt \<Rightarrow> string + string" where
  "ExtractUsername lib d =
     (let email = SafeGetClaim lib ''email'' d in if email \<noteq> [] then Inr email else claim_text lib ''sub'' d)"

subsection \<open>The catalog access claim\<close>

definition access_of_text :: "string \<Rightarrow> catalog_access_level" where
  "access_of_text s = (if s = ''write'' then kWrite else if s = ''read'' then kRead else kNone)"

text \<open>An item of the array: items of another shape are skipped, unknown levels are \<open>none\<close>.\<close>

definition access_rule_of :: "json \<Rightarrow> catalog_access_rule option" where
  "access_rule_of item =
     (case item of
        JObject members \<Rightarrow>
          (case (map_of members ''catalog'', map_of members ''access'') of
             (Some (JString c), Some (JString a)) \<Rightarrow>
               Some \<lparr>rule_catalog = c, rule_access = access_of_text a\<rparr>
           | _ \<Rightarrow> None)
      | _ \<Rightarrow> None)"

definition ParseCatalogAccessClaim :: "decoded_jwt \<Rightarrow> catalog_access_rule list option" where
  "ParseCatalogAccessClaim d =
     (case claim ''catalog_access'' d of
        None \<Rightarrow> None
      | Some j \<Rightarrow> (case j of JArray items \<Rightarrow> Some (List.map_filter access_rule_of items) | _ \<Rightarrow> None))"

section \<open>Headers\<close>

text \<open>The headers of a call, in order; \<open>find\<close> gives the first of a key.\<close>

record call_info =
  ci_headers :: "(string \<times> string) list"
  ci_peer :: string
  ci_peer_identity :: string

definition FindKeyValPrefixInCallHeaders :: "(string \<times> string) list \<Rightarrow> string \<Rightarrow> string \<Rightarrow> string" where
  "FindKeyValPrefixInCallHeaders headers key pre =
     (case map_of headers key of
        None \<Rightarrow> []
      | Some v \<Rightarrow>
          (if length pre < length v \<and> to_upper (take (length pre) v) = to_upper pre
           then drop (length pre) v else []))"

definition GetAuthHeaderType :: "(string \<times> string) list \<Rightarrow> string result" where
  "GetAuthHeaderType headers =
     (if FindKeyValPrefixInCallHeaders headers ''authorization'' ''Basic '' \<noteq> [] then ok ''Basic''
      else if FindKeyValPrefixInCallHeaders headers ''authorization'' ''Bearer '' \<noteq> [] then ok ''Bearer''
      else fail IOError ''Invalid Authorization Header type!'')"

text \<open>Two \<open>getline\<close> calls with a colon; what follows a second colon is not read.\<close>

definition ParseBasicHeader :: "auth_lib \<Rightarrow> (string \<times> string) list \<Rightarrow> string \<times> string" where
  "ParseBasicHeader lib headers =
     (case getlines (CHR '':'')
             (base64_decode lib (FindKeyValPrefixInCallHeaders headers ''authorization'' ''Basic '')) of
        [] \<Rightarrow> ([], [])
      | [u] \<Rightarrow> (u, [])
      | u # p # _ \<Rightarrow> (u, p))"

definition hex_digit :: "nat \<Rightarrow> char" where
  "hex_digit n = (if n < 10 then char_of (48 + n) else char_of (87 + n))"

definition hex_byte :: "nat \<Rightarrow> string" where
  "hex_byte b = [hex_digit (b div 16), hex_digit (b mod 16)]"

definition HMAC_SHA256 :: "auth_lib \<Rightarrow> string \<Rightarrow> string \<Rightarrow> string" where
  "HMAC_SHA256 lib key d = concat (map hex_byte (hmac_sha256 lib key d))"

text \<open>
  The ODBC driver puts user and password into the user name. The loop keeps the text before the last
  separator it removes as the user name and the text after it as the password.
\<close>

definition odbc_delimiter :: string where
  "odbc_delimiter = ''};PWD={''"

function split_odbc :: "string \<Rightarrow> string \<Rightarrow> string \<times> string" where
  "split_odbc user rest =
     (case find_sub odbc_delimiter rest of
        None \<Rightarrow> (user, rest)
      | Some pos \<Rightarrow> split_odbc (take pos rest) (drop (pos + length odbc_delimiter) rest))"
  by pat_completeness auto
termination
  by (relation "measure (\<lambda>(u, r). length r)") (auto dest: find_sub_bound simp: odbc_delimiter_def)

declare split_odbc.simps [simp del]

definition basic_credentials :: "auth_lib \<Rightarrow> (string \<times> string) list \<Rightarrow> string \<times> string" where
  "basic_credentials lib headers =
     (case ParseBasicHeader lib headers of
        (u, p) \<Rightarrow> (if contains u odbc_delimiter then split_odbc u u else (u, p)))"

section \<open>Session tokens\<close>

type_synonym claims = "(string \<times> json) list"

record token_spec =
  tk_username :: string
  tk_role :: string
  tk_method :: string
  tk_instance :: string
  tk_catalog_access :: "string option"

text \<open>
  \<open>CreateGizmoSQLJWT\<close>: \<open>jti\<close> and \<open>sid\<close> are its two random UUIDs, \<open>now\<close> the clock in seconds.
\<close>

definition token_claims :: "auth_lib \<Rightarrow> token_spec \<Rightarrow> string \<Rightarrow> string \<Rightarrow> int \<Rightarrow> claims" where
  "token_claims lib t jti sid now =
     [(''iss'', JString ''gizmosql''), (''jti'', JString (''gizmosql-server-'' @ jti)),
      (''iat'', JNumber now), (''exp'', JNumber (now + 24 * 3600)), (''sub'', JString (tk_username t)),
      (''role'', JString (tk_role t)), (''auth_method'', JString (tk_method t)),
      (''instance_id'', JString (tk_instance t)), (''session_id'', JString sid)]
     @ (case tk_catalog_access t of
          None \<Rightarrow> []
        | Some s \<Rightarrow> (case json_parse lib s of Inl _ \<Rightarrow> [] | Inr j \<Rightarrow> [(''catalog_access'', j)]))"

definition CreateGizmoSQLJWT :: "auth_lib \<Rightarrow> string \<Rightarrow> token_spec \<Rightarrow> string \<Rightarrow> string \<Rightarrow> int \<Rightarrow> string" where
  "CreateGizmoSQLJWT lib secret_key t jti sid now =
     jwt_sign lib (HS256 secret_key) [(''alg'', JString ''HS256''), (''typ'', JString ''JWT'')]
       (token_claims lib t jti sid now)"

section \<open>The Basic factory\<close>

record jwks =
  GetKeyForKid :: "string \<Rightarrow> string result"
  GetAlgorithmForKid :: "string \<Rightarrow> string result"

record basic_factory =
  bf_username :: string
  bf_password :: string
  bf_secret_key :: string
  bf_issuer :: string
  bf_audience :: string
  bf_cert :: string
  bf_token_auth :: bool
  bf_tls :: bool
  bf_mtls :: bool
  bf_instance_id :: string
  bf_default_role :: string
  bf_patterns :: "string list"
  bf_oauth_url :: string
  bf_jwks :: "jwks option"

text \<open>The constructor. \<open>read_file\<close> gives the content of a file that opens; \<open>Inl\<close> is the exception.\<close>

record basic_config =
  bc_username :: string
  bc_password :: string
  bc_secret_key :: string
  bc_issuer :: string
  bc_audience :: string
  bc_cert_path :: string
  bc_tls :: bool
  bc_mtls :: bool

definition BasicAuthServerMiddlewareFactory ::
    "auth_lib \<Rightarrow> (string \<Rightarrow> string option) \<Rightarrow> basic_config \<Rightarrow> string + basic_factory" where
  "BasicAuthServerMiddlewareFactory lib read_file c =
     (let f = \<lparr>bf_username = bc_username c, bf_password = HMAC_SHA256 lib (bc_secret_key c) (bc_password c),
               bf_secret_key = bc_secret_key c, bf_issuer = bc_issuer c, bf_audience = bc_audience c,
               bf_cert = [], bf_token_auth = False, bf_tls = bc_tls c, bf_mtls = bc_mtls c,
               bf_instance_id = [], bf_default_role = [], bf_patterns = [], bf_oauth_url = [], bf_jwks = None\<rparr>
      in if bc_username c = ''token''
         then Inl (''You cannot use username: '' @ [squote] @ ''token'' @ [squote]
                   @ '' for basic authentication, because it is reserved for JWT token-based authentication'')
         else if bc_issuer c \<noteq> [] \<and> bc_audience c \<noteq> []
         then (if bc_cert_path c \<noteq> []
               then (case read_file (bc_cert_path c) of
                       None \<Rightarrow> Inl (''Could not open certificate file: '' @ bc_cert_path c)
                     | Some cert \<Rightarrow> Inr (f\<lparr>bf_cert := cert, bf_token_auth := True\<rparr>))
               else Inr (f\<lparr>bf_token_auth := True\<rparr>))
         else Inr f)"

text \<open>The list of authorized e-mails: items between commas, without blanks and tabs around them.\<close>

definition list_blank :: "char \<Rightarrow> bool" where
  "list_blank c \<longleftrightarrow> c = CHR '' '' \<or> c = tabchar"

definition strip_blanks :: "string \<Rightarrow> string" where
  "strip_blanks s = rev (dropWhile list_blank (rev (dropWhile list_blank s)))"

definition SetTokenAuthorizedEmails :: "string \<Rightarrow> basic_factory \<Rightarrow> basic_factory" where
  "SetTokenAuthorizedEmails patterns f =
     f\<lparr>bf_patterns := map strip_blanks
         (filter (list_ex (\<lambda>c. \<not> list_blank c)) (getlines (CHR '','') patterns))\<rparr>"

definition pattern_matches :: "string \<Rightarrow> string \<Rightarrow> bool" where
  "pattern_matches email pattern =
     (let e = to_lower email; p = to_lower pattern
      in if p = ''*'' then True
         else if p \<noteq> [] \<and> hd p = CHR ''*''
         then length (tl p) \<le> length e \<and> drop (length e - length (tl p)) e = tl p
         else e = p)"

definition IsEmailAuthorized :: "string \<Rightarrow> basic_factory \<Rightarrow> bool" where
  "IsEmailAuthorized email f \<longleftrightarrow> bf_patterns f = [] \<or> list_ex (pattern_matches email) (bf_patterns f)"

subsection \<open>Bootstrap tokens\<close>

text \<open>A computation that may throw: \<open>Inl\<close> is the text of the exception.\<close>

definition xbind :: "string + 'a \<Rightarrow> ('a \<Rightarrow> string + 'b) \<Rightarrow> string + 'b" where
  "xbind x f = (case x of Inl e \<Rightarrow> Inl e | Inr v \<Rightarrow> f v)"

definition header_text :: "auth_lib \<Rightarrow> string \<Rightarrow> decoded_jwt \<Rightarrow> string + string" where
  "header_text lib n d =
     (case map_of (jwt_header d) n of
        None \<Rightarrow> Inr []
      | Some j \<Rightarrow> (case j of JString s \<Rightarrow> Inr s | _ \<Rightarrow> Inl (claim_type_text lib)))"

definition jwks_algorithm :: "string \<Rightarrow> string \<Rightarrow> jwt_algorithm option" where
  "jwks_algorithm alg key =
     (if alg = ''RS256'' \<or> alg = [] then Some (RS256 key)
      else if alg = ''RS384'' then Some (RS384 key)
      else if alg = ''RS512'' then Some (RS512 key)
      else if alg = ''ES256'' then Some (ES256 key)
      else if alg = ''ES384'' then Some (ES384 key)
      else if alg = ''ES512'' then Some (ES512 key)
      else None)"

definition external_auth_msg :: string where
  "external_auth_msg =
     ''SSO/OAuth authentication via JWKS requires GizmoSQL Enterprise Edition with the ''
     @ [squote] @ ''external_auth'' @ [squote] @ '' feature. Use username/password authentication or a static ''
     @ ''certificate, or visit https://gizmodata.com/gizmosql for more details''"

text \<open>The key a token is verified with: of the JWKS manager when there is one, else of the certificate.\<close>

definition token_algorithm ::
    "auth_lib \<Rightarrow> basic_factory \<Rightarrow> bool \<Rightarrow> decoded_jwt \<Rightarrow> string + jwt_algorithm result" where
  "token_algorithm lib f external_auth d =
     (case bf_jwks f of
        Some m \<Rightarrow>
          (if \<not> external_auth then Inr (fail Unauthenticated external_auth_msg)
           else xbind (header_text lib ''kid'' d) (\<lambda>kid.
             if kid = []
             then Inr (fail Invalid (''JWT token missing '' @ [squote] @ ''kid'' @ [squote]
                         @ '' header claim, required for JWKS verification''))
             else (case GetKeyForKid m kid of
                     Inl st \<Rightarrow> Inr (fail Invalid (''Failed to find public key for kid '' @ [squote] @ kid
                                 @ [squote] @ '': '' @ status_to_string lib st))
                   | Inr key \<Rightarrow>
                       (let known = (case GetAlgorithmForKid m kid of Inl _ \<Rightarrow> [] | Inr a \<Rightarrow> a)
                        in xbind (if known = [] then header_text lib ''alg'' d else Inr known) (\<lambda>alg.
                             case jwks_algorithm alg key of
                               None \<Rightarrow> Inr (fail Invalid (''Unsupported JWT algorithm: '' @ alg))
                             | Some a \<Rightarrow> Inr (ok a))))))
      | None \<Rightarrow>
          (if bf_cert f \<noteq> [] then Inr (ok (RS256 (bf_cert f)))
           else Inr (fail Invalid (''Token verification not configured: no JWKS manager or static ''
                       @ ''certificate available''))))"

definition token_role :: "auth_lib \<Rightarrow> basic_factory \<Rightarrow> decoded_jwt \<Rightarrow> string + string" where
  "token_role lib f d =
     (if claim ''role'' d \<noteq> None then claim_text lib ''role'' d else Inr (bf_default_role f))"

definition no_role_msg :: string where
  "no_role_msg =
     ''Bootstrap Bearer Token missing '' @ [squote] @ ''role'' @ [squote]
     @ '' claim. Either configure the IdP to include a '' @ [squote] @ ''role'' @ [squote]
     @ '' claim, or set --token-default-role on the server.''"

definition catalog_license_msg :: string where
  "catalog_license_msg =
     ''Per-catalog permissions (catalog_access claim) is an Enterprise feature. ''
     @ ''Please obtain an Enterprise license or remove the catalog_access claim from your token.''"

definition not_authorized_msg :: "string \<Rightarrow> string" where
  "not_authorized_msg u =
     ''User '' @ [squote] @ u @ [squote] @ '' is not authorized. Contact your administrator.''"

text \<open>The checks after the signature, in their order.\<close>

definition bootstrap_checks ::
    "auth_lib \<Rightarrow> basic_factory \<Rightarrow> bool \<Rightarrow> decoded_jwt \<Rightarrow> string + decoded_jwt result" where
  "bootstrap_checks lib f catalog_permissions d =
     (if claim ''role'' d = None \<and> bf_default_role f = [] then Inr (fail Invalid no_role_msg)
      else if claim ''catalog_access'' d \<noteq> None \<and> \<not> catalog_permissions
      then Inr (fail Unauthenticated catalog_license_msg)
      else xbind (token_role lib f d) (\<lambda>rl.
             xbind (ExtractUsername lib d) (\<lambda>u.
               if \<not> IsEmailAuthorized u f then Inr (fail Unauthenticated (not_authorized_msg u))
               else Inr (ok d))))"

definition bootstrap_body ::
    "auth_lib \<Rightarrow> basic_factory \<Rightarrow> bool \<Rightarrow> bool \<Rightarrow> string \<Rightarrow> string + decoded_jwt result" where
  "bootstrap_body lib f external_auth catalog_permissions token =
     xbind (jwt_decode lib token) (\<lambda>d.
       xbind (claim_text lib ''iss'' d) (\<lambda>iss.
         if iss \<noteq> bf_issuer f then Inr (fail Invalid ''Invalid token issuer'')
         else xbind (token_algorithm lib f external_auth d) (\<lambda>r.
           case r of
             Inl e \<Rightarrow> Inr (Inl e)
           | Inr a \<Rightarrow>
               (case jwt_verify lib \<lparr>vf_algorithm = a, vf_issuer = bf_issuer f, vf_audience = Some (bf_audience f)\<rparr> d of
                  Some e \<Rightarrow> Inl e
                | None \<Rightarrow> bootstrap_checks lib f catalog_permissions d))))"

definition VerifyAndDecodeBootstrapToken ::
    "auth_lib \<Rightarrow> basic_factory \<Rightarrow> bool \<Rightarrow> bool \<Rightarrow> string \<Rightarrow> decoded_jwt result" where
  "VerifyAndDecodeBootstrapToken lib f external_auth catalog_permissions token =
     (if token = [] then fail Invalid ''Bearer Token is empty''
      else case bootstrap_body lib f external_auth catalog_permissions token of
             Inl e \<Rightarrow> fail Invalid (''Bootstrap Token verification failed with error: '' @ e)
           | Inr r \<Rightarrow> r)"

subsection \<open>The start of a call\<close>

text \<open>
  What a call leaves behind as its middleware. An exception that leaves \<open>StartCall\<close> is an error of the
  call. \<open>lic\<close> and \<open>now\<close> are the license in force and the clock.
\<close>

datatype middleware = Discovery string | IssueToken token_spec | BearerToken decoded_jwt

definition thrown :: "string \<Rightarrow> 'a result" where
  "thrown e = fail UnknownError e"

definition connection_context :: "basic_factory \<Rightarrow> call_info \<Rightarrow> request_ctx \<Rightarrow> request_ctx" where
  "connection_context f ci ctx =
     ctx\<lparr>ctx_user_agent := map_of (ci_headers ci) ''user-agent'',
         ctx_peer_identity := (if ci_peer_identity ci = [] then None else Some (ci_peer_identity ci)),
         ctx_connection_protocol :=
           Some (if bf_mtls f \<and> ci_peer_identity ci \<noteq> [] then ''mtls''
                 else if bf_tls f then ''tls'' else ''plaintext'')\<rparr>"

definition bootstrap_login ::
    "auth_lib \<Rightarrow> basic_factory \<Rightarrow> bool \<Rightarrow> bool \<Rightarrow> string \<Rightarrow> middleware option result" where
  "bootstrap_login lib f external_auth catalog_permissions token =
     (if \<not> bf_token_auth f then fail Unauthenticated ''Token auth is not enabled on the server''
      else rbind (VerifyAndDecodeBootstrapToken lib f external_auth catalog_permissions token) (\<lambda>d.
        case xbind (token_role lib f d) (\<lambda>rl. xbind (ExtractUsername lib d) (\<lambda>u. Inr (rl, u))) of
          Inl e \<Rightarrow> thrown e
        | Inr (rl, u) \<Rightarrow>
            ok (Some (IssueToken
              \<lparr>tk_username = u, tk_role = rl, tk_method = ''BootstrapToken'', tk_instance = bf_instance_id f,
               tk_catalog_access = map_option (json_serialize lib) (claim ''catalog_access'' d)\<rparr>))))"

definition basic_login ::
    "auth_lib \<Rightarrow> basic_factory \<Rightarrow> bool \<Rightarrow> bool \<Rightarrow> string \<times> string \<Rightarrow> middleware option result" where
  "basic_login lib f external_auth catalog_permissions credentials =
     (case credentials of (user, pwd) \<Rightarrow>
        if user = ''__discover__''
        then (if bf_oauth_url f \<noteq> [] then ok (Some (Discovery (bf_oauth_url f)))
              else fail Unauthenticated ''Server-side OAuth is not enabled'')
        else if user = [] \<or> pwd = []
        then fail Unauthenticated ''No Username and/or Password supplied''
        else if user \<noteq> ''token''
        then (if user = bf_username f \<and> HMAC_SHA256 lib (bf_secret_key f) pwd = bf_password f
              then ok (Some (IssueToken
                \<lparr>tk_username = user, tk_role = ''admin'', tk_method = ''Basic'',
                 tk_instance = bf_instance_id f, tk_catalog_access = None\<rparr>))
              else fail Unauthenticated ''Invalid credentials'')
        else bootstrap_login lib f external_auth catalog_permissions pwd)"

definition basic_StartCall ::
    "auth_lib \<Rightarrow> basic_factory \<Rightarrow> bool \<Rightarrow> bool \<Rightarrow> call_info \<Rightarrow> request_ctx
     \<Rightarrow> middleware option result \<times> request_ctx" where
  "basic_StartCall lib f external_auth catalog_permissions ci ctx =
     (rbind (GetAuthHeaderType (ci_headers ci)) (\<lambda>t.
        if t = ''Basic''
        then basic_login lib f external_auth catalog_permissions (basic_credentials lib (ci_headers ci))
        else ok None),
      connection_context f ci ctx)"

section \<open>The Bearer factory\<close>

record bearer_factory =
  be_secret_key :: string
  be_log_level :: log_level
  be_instance_id :: string
  be_allow_cross :: bool
  logged_token_ids :: "string set"

definition kMaxLoggedTokens :: nat where
  "kMaxLoggedTokens = 50000"

text \<open>The level a validated token is logged at: the configured one the first time, then DEBUG.\<close>

definition GetTokenLogLevel :: "auth_lib \<Rightarrow> decoded_jwt \<Rightarrow> bearer_factory \<Rightarrow> log_level \<times> bearer_factory" where
  "GetTokenLogLevel lib d F =
     (let i = SafeGetTokenId lib d
      in if i = [] \<or> i = ''(no-jti)'' then (ARROW_DEBUG, F)
         else if i \<in> logged_token_ids F then (ARROW_DEBUG, F)
         else let s = insert i (logged_token_ids F)
              in (be_log_level F, F\<lparr>logged_token_ids := (if card s > kMaxLoggedTokens then {i} else s)\<rparr>))"

definition other_instance_msg :: "string \<Rightarrow> string" where
  "other_instance_msg i =
     ''Session not associated with this server instance ('' @ i
     @ ''). Please reconnect to establish a new session.''"

definition token_body :: "auth_lib \<Rightarrow> bearer_factory \<Rightarrow> string \<Rightarrow> string + decoded_jwt result" where
  "token_body lib F token =
     xbind (jwt_decode lib token) (\<lambda>d.
       xbind (claim_text lib ''iss'' d) (\<lambda>iss.
         if iss \<noteq> ''gizmosql'' then Inr (fail Invalid ''Invalid token issuer'')
         else (case jwt_verify lib \<lparr>vf_algorithm = HS256 (be_secret_key F), vf_issuer = ''gizmosql'',
                      vf_audience = None\<rparr> d of
                 Some e \<Rightarrow> Inl e
               | None \<Rightarrow>
                   (if be_instance_id F \<noteq> [] \<and> claim ''instance_id'' d \<noteq> None
                    then xbind (claim_text lib ''instance_id'' d) (\<lambda>i.
                           if i \<noteq> be_instance_id F \<and> \<not> be_allow_cross F
                           then Inr (fail Unauthenticated (other_instance_msg (be_instance_id F)))
                           else Inr (ok d))
                    else Inr (ok d)))))"

definition VerifyAndDecodeToken ::
    "auth_lib \<Rightarrow> bearer_factory \<Rightarrow> string \<Rightarrow> decoded_jwt result \<times> bearer_factory" where
  "VerifyAndDecodeToken lib F token =
     (if token = [] then (fail Invalid ''Bearer Token is empty'', F)
      else case token_body lib F token of
             Inl e \<Rightarrow> (fail Invalid (''Token verification failed with error: '' @ e), F)
           | Inr (Inl e) \<Rightarrow> (Inl e, F)
           | Inr (Inr d) \<Rightarrow> (ok d, snd (GetTokenLogLevel lib d F)))"

text \<open>The claims of the token become the request context, one after the other.\<close>

definition take_claims :: "auth_lib \<Rightarrow> call_info \<Rightarrow> decoded_jwt \<Rightarrow> request_ctx \<Rightarrow> unit result \<times> request_ctx" where
  "take_claims lib ci d ctx =
     (case claim_text lib ''sub'' d of
        Inl e \<Rightarrow> (thrown e, ctx)
      | Inr sub \<Rightarrow>
          (let ctx1 = ctx\<lparr>ctx_username := Some sub\<rparr>
           in case claim_text lib ''role'' d of
                Inl e \<Rightarrow> (thrown e, ctx1)
              | Inr rl \<Rightarrow>
                  (let ctx2 = ctx1\<lparr>ctx_role := Some rl, ctx_peer := Some (ci_peer ci)\<rparr>
                   in case claim_text lib ''session_id'' d of
                        Inl e \<Rightarrow> (thrown e, ctx2)
                      | Inr sid \<Rightarrow>
                          (let ctx3 = ctx2\<lparr>ctx_session_id := Some sid\<rparr>
                           in case claim_text lib ''auth_method'' d of
                                Inl e \<Rightarrow> (thrown e, ctx3)
                              | Inr m \<Rightarrow>
                                  (ok (), ctx3\<lparr>ctx_auth_method := Some m,
                                               ctx_catalog_access := ParseCatalogAccessClaim d\<rparr>)))))"

definition bearer_StartCall ::
    "auth_lib \<Rightarrow> bearer_factory \<Rightarrow> call_info \<Rightarrow> request_ctx
     \<Rightarrow> middleware option result \<times> request_ctx \<times> bearer_factory" where
  "bearer_StartCall lib F ci ctx =
     (if map_of (ci_headers ci) ''authorization'' = None then (ok None, ctx, F)
      else case GetAuthHeaderType (ci_headers ci) of
             Inl e \<Rightarrow> (Inl e, ctx, F)
           | Inr t \<Rightarrow>
               (if t \<noteq> ''Bearer'' then (ok None, ctx, F)
                else case VerifyAndDecodeToken lib F
                            (FindKeyValPrefixInCallHeaders (ci_headers ci) ''authorization'' ''Bearer '') of
                       (Inl e, F1) \<Rightarrow> (Inl e, ctx, F1)
                     | (Inr d, F1) \<Rightarrow>
                         (case take_claims lib ci d ctx of
                            (r, ctx1) \<Rightarrow> (rbind r (\<lambda>_. ok (Some (BearerToken d))), ctx1, F1))))"

text \<open>
  The headers a middleware adds to the answer. \<open>CallCompleted\<close> of the bearer middleware clears the
  request context; the other two do nothing.
\<close>

fun SendingHeaders ::
    "auth_lib \<Rightarrow> basic_factory \<Rightarrow> string \<Rightarrow> string \<Rightarrow> int \<Rightarrow> middleware \<Rightarrow> (string \<times> string) list" where
  "SendingHeaders lib f jti sid now (Discovery url) =
     [(''authorization'', ''Bearer {'' @ [dquote] @ ''oauth_url'' @ [dquote] @ '':'' @ [dquote] @ url @ [dquote] @ ''}''),
      (''x-gizmosql-oauth-url'', url)]"
| "SendingHeaders lib f jti sid now (IssueToken t) =
     [(''authorization'', ''Bearer '' @ CreateGizmoSQLJWT lib (bf_secret_key f) t jti sid now)]"
| "SendingHeaders lib f jti sid now (BearerToken d) =
     [(''x-username'', SafeGetClaim lib ''sub'' d), (''x-role'', SafeGetClaim lib ''role'' d)]"

fun CallCompleted :: "middleware \<Rightarrow> request_ctx \<Rightarrow> request_ctx" where
  "CallCompleted (BearerToken d) ctx = empty_ctx"
| "CallCompleted _ ctx = ctx"

text \<open>The two factories in the order they are registered: the first error ends the call.\<close>

definition start_call ::
    "auth_lib \<Rightarrow> basic_factory \<Rightarrow> bool \<Rightarrow> bool \<Rightarrow> bearer_factory \<Rightarrow> call_info \<Rightarrow> request_ctx
     \<Rightarrow> middleware list result \<times> request_ctx \<times> bearer_factory" where
  "start_call lib f external_auth catalog_permissions F ci ctx =
     (case basic_StartCall lib f external_auth catalog_permissions ci ctx of
        (Inl e, ctx1) \<Rightarrow> (Inl e, ctx1, F)
      | (Inr m1, ctx1) \<Rightarrow>
          (case bearer_StartCall lib F ci ctx1 of
             (Inl e, ctx2, F1) \<Rightarrow> (Inl e, ctx2, F1)
           | (Inr m2, ctx2, F1) \<Rightarrow>
               (ok (map the (filter (\<lambda>m. m \<noteq> None) [m1, m2])), ctx2, F1)))"

section \<open>Properties\<close>

lemma xbindE [elim!]:
  assumes "xbind x g = Inr y" obtains v where "x = Inr v" and "g v = Inr y"
  using assms by (cases x) (simp_all add: xbind_def)

lemma xbind_simps [simp]: "xbind (Inl e) g = Inl e" "xbind (Inr v) g = g v"
  by (simp_all add: xbind_def)

text \<open>
  Libraries and a server for the witnesses: one token text that decodes to the claims of an administrator's
  session, a decoder that leaves credentials as they are, and the password \<open>pw\<close>.
\<close>

definition sample_spec :: token_spec where
  "sample_spec = \<lparr>tk_username = ''ann'', tk_role = ''admin'', tk_method = ''Basic'', tk_instance = ''i'',
     tk_catalog_access = None\<rparr>"

definition base_auth :: auth_lib where
  "base_auth =
     \<lparr>jwt_decode = (\<lambda>t. Inl ''no token''), jwt_verify = (\<lambda>v d. None), jwt_sign = (\<lambda>a h cs. ''tok''),
      missing_claim_text = ''claim not found'', claim_type_text = ''bad cast'', json_serialize = (\<lambda>j. ''[]''),
      json_parse = (\<lambda>s. Inr (JArray [])), base64_decode = (\<lambda>s. s), hmac_sha256 = (\<lambda>k d. map of_char d),
      status_to_string = message\<rparr>"

definition sample_token :: decoded_jwt where
  "sample_token = \<lparr>jwt_token = ''tok'', jwt_header = [], jwt_payload = token_claims base_auth sample_spec ''j'' ''s1'' 0\<rparr>"

definition sample_auth :: auth_lib where
  "sample_auth = base_auth\<lparr>jwt_decode := (\<lambda>t. if t = ''tok'' then Inr sample_token else Inl ''no token'')\<rparr>"

definition sample_basic :: basic_factory where
  "sample_basic =
     \<lparr>bf_username = ''ann'', bf_password = HMAC_SHA256 sample_auth ''k'' ''pw'', bf_secret_key = ''k'', bf_issuer = [],
      bf_audience = [], bf_cert = [], bf_token_auth = False, bf_tls = False, bf_mtls = False,
      bf_instance_id = ''i'', bf_default_role = [], bf_patterns = [], bf_oauth_url = [], bf_jwks = None\<rparr>"

definition sample_bearer :: bearer_factory where
  "sample_bearer = \<lparr>be_secret_key = ''k'', be_log_level = ARROW_INFO, be_instance_id = ''i'', be_allow_cross = False,
     logged_token_ids = {}\<rparr>"

definition sample_call :: "string \<Rightarrow> call_info" where
  "sample_call v = \<lparr>ci_headers = [(''authorization'', v)], ci_peer = ''p'', ci_peer_identity = []\<rparr>"

lemma sample_auth_simps [simp]:
  "jwt_decode sample_auth ''tok'' = Inr sample_token" "jwt_verify sample_auth v d = None"
  "jwt_sign sample_auth a h cs = ''tok''"
  "jwt_payload sample_token = token_claims sample_auth sample_spec ''j'' ''s1'' 0"
  by (simp_all add: sample_auth_def base_auth_def sample_token_def token_claims_def sample_spec_def)

text \<open>What a bootstrap token must be for a login to succeed with it.\<close>

definition bootstrap_accepted ::
    "auth_lib \<Rightarrow> basic_factory \<Rightarrow> bool \<Rightarrow> bool \<Rightarrow> string \<Rightarrow> decoded_jwt \<Rightarrow> bool" where
  "bootstrap_accepted lib f external_auth catalog_permissions token d \<longleftrightarrow>
     token \<noteq> [] \<and> jwt_decode lib token = Inr d \<and> claim_text lib ''iss'' d = Inr (bf_issuer f)
     \<and> (\<exists>a. token_algorithm lib f external_auth d = Inr (ok a)
          \<and> jwt_verify lib \<lparr>vf_algorithm = a, vf_issuer = bf_issuer f, vf_audience = Some (bf_audience f)\<rparr> d = None)
     \<and> (claim ''role'' d \<noteq> None \<or> bf_default_role f \<noteq> [])
     \<and> (claim ''catalog_access'' d = None \<or> catalog_permissions)
     \<and> (\<exists>u. ExtractUsername lib d = Inr u \<and> IsEmailAuthorized u f)"

lemma checks_ok:
  "bootstrap_checks lib f cp d = Inr (Inr d') \<Longrightarrow> d' = d \<and> (claim ''role'' d \<noteq> None \<or> bf_default_role f \<noteq> [])
     \<and> (claim ''catalog_access'' d = None \<or> cp) \<and> (\<exists>u. ExtractUsername lib d = Inr u \<and> IsEmailAuthorized u f)"
  by (auto simp: bootstrap_checks_def split: if_splits)

lemma bootstrap_ok:
  assumes "VerifyAndDecodeBootstrapToken lib f ea cp token = Inr d"
  shows "bootstrap_accepted lib f ea cp token d"
proof -
  have "token \<noteq> []" "bootstrap_body lib f ea cp token = Inr (Inr d)"
    using assms by (auto simp: VerifyAndDecodeBootstrapToken_def split: if_splits sum.split_asm)
  then show ?thesis
    by (auto simp: bootstrap_body_def bootstrap_accepted_def dest!: checks_ok
        split: if_split_asm sum.split_asm option.split_asm)
qed

text \<open>
  C7: A session token is only issued for credentials: when the Basic middleware will issue one, either the
  client sent the configured user name with a password whose HMAC is the stored one, and the token makes
  an administrator of that name, or it sent the user name \<open>token\<close> with a bootstrap token that decodes,
  has the configured issuer, is verified with the key and audience configured, carries a catalog claim
  only under a license for it, and names a user the e-mail list admits; the issued token then carries that
  user and the role of the bootstrap token or the configured default.
\<close>

theorem session_token_needs_credentials:
  assumes "basic_StartCall lib f ea cp ci ctx = (ok (Some (IssueToken t)), ctx')"
    and "basic_credentials lib (ci_headers ci) = (user, pwd)"
  shows "tk_instance t = bf_instance_id f
    \<and> (if tk_method t = ''Basic''
       then user = bf_username f \<and> HMAC_SHA256 lib (bf_secret_key f) pwd = bf_password f \<and> user \<noteq> ''token''
            \<and> pwd \<noteq> [] \<and> tk_username t = user \<and> tk_role t = ''admin'' \<and> tk_catalog_access t = None
       else tk_method t = ''BootstrapToken'' \<and> user = ''token'' \<and> bf_token_auth f
            \<and> (\<exists>d. bootstrap_accepted lib f ea cp pwd d \<and> ExtractUsername lib d = Inr (tk_username t)
                 \<and> IsEmailAuthorized (tk_username t) f \<and> token_role lib f d = Inr (tk_role t)
                 \<and> tk_catalog_access t = map_option (json_serialize lib) (claim ''catalog_access'' d)))"
proof -
  have l: "basic_login lib f ea cp (user, pwd) = ok (Some (IssueToken t))"
    using assms by (auto simp: basic_StartCall_def gate_simps split: if_splits)
  show ?thesis
  proof (cases "user = ''token''")
    case False
    with l show ?thesis by (auto simp: basic_login_def split: if_splits)
  next
    case True
    then have "bootstrap_login lib f ea cp pwd = ok (Some (IssueToken t))"
      using l by (auto simp: basic_login_def split: if_splits)
    then obtain d where v: "bf_token_auth f" "VerifyAndDecodeBootstrapToken lib f ea cp pwd = Inr d"
      and r: "(case xbind (token_role lib f d) (\<lambda>rl. xbind (ExtractUsername lib d) (\<lambda>u. Inr (rl, u))) of
          Inl e \<Rightarrow> thrown e
        | Inr (rl, u) \<Rightarrow> ok (Some (IssueToken
              \<lparr>tk_username = u, tk_role = rl, tk_method = ''BootstrapToken'', tk_instance = bf_instance_id f,
               tk_catalog_access = map_option (json_serialize lib) (claim ''catalog_access'' d)\<rparr>)))
        = ok (Some (IssueToken t))"
      by (auto simp: bootstrap_login_def rbind_ok_iff split: if_split_asm)
    have d: "token_role lib f d = Inr (tk_role t)" "ExtractUsername lib d = Inr (tk_username t)"
      "tk_method t = ''BootstrapToken''" "tk_instance t = bf_instance_id f"
      "tk_catalog_access t = map_option (json_serialize lib) (claim ''catalog_access'' d)"
      using r by (auto simp: thrown_def split: sum.split_asm)
    show ?thesis using True d v(1) bootstrap_ok [OF v(2)] by (auto simp: bootstrap_accepted_def)
  qed
qed

theorem session_token_needs_credentials_witness:
  "tk_instance sample_spec = bf_instance_id sample_basic \<and> ''ann'' = bf_username sample_basic
    \<and> HMAC_SHA256 sample_auth (bf_secret_key sample_basic) ''pw'' = bf_password sample_basic
    \<and> tk_username sample_spec = ''ann'' \<and> tk_role sample_spec = ''admin''"
proof -
  have c: "basic_credentials sample_auth (ci_headers (sample_call ''Basic ann:pw'')) = (''ann'', ''pw'')"
    by code_simp
  have t: "GetAuthHeaderType (ci_headers (sample_call ''Basic ann:pw'')) = ok ''Basic''" by code_simp
  obtain ctx' where "basic_StartCall sample_auth sample_basic False False (sample_call ''Basic ann:pw'') empty_ctx
      = (ok (Some (IssueToken sample_spec)), ctx')"
    by (simp add: basic_StartCall_def t c basic_login_def sample_basic_def sample_spec_def)
  from session_token_needs_credentials [OF this c] show ?thesis by (simp add: sample_spec_def)
qed

text \<open>The issued token, when it comes back.\<close>

lemma claim_of_token [simp]:
  assumes "jwt_payload d = token_claims lib t jti sid now"
  shows "claim_text lib ''iss'' d = Inr ''gizmosql''" "claim_text lib ''sub'' d = Inr (tk_username t)"
    "claim_text lib ''role'' d = Inr (tk_role t)" "claim_text lib ''session_id'' d = Inr sid"
    "claim_text lib ''auth_method'' d = Inr (tk_method t)" "claim_text lib ''instance_id'' d = Inr (tk_instance t)"
    "claim ''catalog_access'' d
       = Option.bind (tk_catalog_access t) (\<lambda>s. case json_parse lib s of Inl _ \<Rightarrow> None | Inr j \<Rightarrow> Some j)"
  using assms by (simp_all add: claim_text_def claim_def token_claims_def split: option.split sum.split)

lemma bearer_header:
  assumes "token \<noteq> []"
  shows "FindKeyValPrefixInCallHeaders [(''authorization'', ''Bearer '' @ token)] ''authorization'' ''Bearer '' = token"
    and "GetAuthHeaderType [(''authorization'', ''Bearer '' @ token)] = ok ''Bearer''"
  using assms by (simp_all add: FindKeyValPrefixInCallHeaders_def GetAuthHeaderType_def to_upper_def toupper_def
      is_lower_def)

text \<open>
  C9: A login opens the session it was made for: the token that the Basic middleware sends in its answer,
  sent back as a bearer token to a server with the same secret key and instance id, is accepted, and the
  request context then carries the user, the role and the authentication method the token was issued with,
  the session id that was drawn for it, and the access rules of the catalog claim that was passed on from
  the bootstrap token. This rests on the token library reading back the claims it signed.
\<close>

theorem issued_token_opens_its_session:
  assumes "CreateGizmoSQLJWT lib (bf_secret_key f) t jti sid now = token" and "token \<noteq> []"
    and "jwt_decode lib token = Inr d" and "jwt_payload d = token_claims lib t jti sid now"
    and "jwt_verify lib \<lparr>vf_algorithm = HS256 (bf_secret_key f), vf_issuer = ''gizmosql'', vf_audience = None\<rparr> d = None"
    and "be_secret_key F = bf_secret_key f" and "tk_instance t = be_instance_id F \<or> be_allow_cross F"
    and "tk_catalog_access t = map_option (json_serialize lib) access"
    and "case access of None \<Rightarrow> True | Some j \<Rightarrow> json_parse lib (json_serialize lib j) = Inr j"
  shows "case bearer_StartCall lib F
        (ci\<lparr>ci_headers := SendingHeaders lib f jti sid now (IssueToken t)\<rparr>) ctx of
      (r, ctx', F') \<Rightarrow>
        r = ok (Some (BearerToken d)) \<and> ctx_username ctx' = Some (tk_username t) \<and> ctx_role ctx' = Some (tk_role t)
        \<and> ctx_session_id ctx' = Some sid \<and> ctx_auth_method ctx' = Some (tk_method t)
        \<and> ctx_catalog_access ctx'
            = (case access of Some (JArray items) \<Rightarrow> Some (List.map_filter access_rule_of items) | _ \<Rightarrow> None)"
proof -
  have h: "SendingHeaders lib f jti sid now (IssueToken t) = [(''authorization'', ''Bearer '' @ token)]"
    using assms(1) by simp
  have body: "token_body lib F token = Inr (Inr d)"
    using assms(3,5-7) claim_of_token [OF assms(4)] by (auto simp: token_body_def)
  have acc: "claim ''catalog_access'' d = access"
    using claim_of_token(7) [OF assms(4)] assms(8,9) by (cases access) auto
  show ?thesis
    using body acc claim_of_token [OF assms(4)] bearer_header [OF assms(2)] assms(2)
    by (simp only: h) (simp add: bearer_StartCall_def VerifyAndDecodeToken_def take_claims_def Let_def
        ParseCatalogAccessClaim_def split: option.split json.split)
qed

theorem issued_token_opens_its_session_witness:
  "case bearer_StartCall sample_auth sample_bearer
        ((sample_call [])\<lparr>ci_headers := SendingHeaders sample_auth sample_basic ''j'' ''s1'' 0 (IssueToken sample_spec)\<rparr>)
        empty_ctx of
      (r, ctx', F') \<Rightarrow> r = ok (Some (BearerToken sample_token)) \<and> ctx_session_id ctx' = Some ''s1''
        \<and> ctx_role ctx' = Some ''admin''"
  using issued_token_opens_its_session [of sample_auth sample_basic sample_spec "''j''" "''s1''" 0 "''tok''" sample_token
      sample_bearer None "sample_call []" empty_ctx]
  by (simp add: CreateGizmoSQLJWT_def sample_spec_def sample_bearer_def sample_basic_def split: prod.split_asm)

text \<open>A session token this server accepts.\<close>

definition session_token_valid :: "auth_lib \<Rightarrow> bearer_factory \<Rightarrow> string \<Rightarrow> decoded_jwt \<Rightarrow> bool" where
  "session_token_valid lib F token d \<longleftrightarrow>
     token \<noteq> [] \<and> jwt_decode lib token = Inr d \<and> claim_text lib ''iss'' d = Inr ''gizmosql''
     \<and> jwt_verify lib \<lparr>vf_algorithm = HS256 (be_secret_key F), vf_issuer = ''gizmosql'', vf_audience = None\<rparr> d = None
     \<and> (be_instance_id F = [] \<or> claim ''instance_id'' d = None \<or> be_allow_cross F
        \<or> claim_text lib ''instance_id'' d = Inr (be_instance_id F))"

lemma token_body_valid:
  "token \<noteq> [] \<Longrightarrow> token_body lib F token = Inr (Inr d) \<Longrightarrow> session_token_valid lib F token d"
  by (auto simp: token_body_def session_token_valid_def split: if_split_asm option.split_asm)

lemma VerifyAndDecodeToken_ok:
  assumes "VerifyAndDecodeToken lib F token = (Inr d, F')"
  shows "session_token_valid lib F token d"
  using assms by (intro token_body_valid)
    (auto simp: VerifyAndDecodeToken_def split: if_split_asm sum.split_asm)

lemma take_claims_ok:
  assumes "take_claims lib ci d ctx = (Inr u, ctx')"
  shows "claim_text lib ''sub'' d = Inr (the (ctx_username ctx')) \<and> claim_text lib ''role'' d = Inr (the (ctx_role ctx'))
    \<and> claim_text lib ''session_id'' d = Inr (the (ctx_session_id ctx'))
    \<and> ctx_username ctx' \<noteq> None \<and> ctx_role ctx' \<noteq> None \<and> ctx_session_id ctx' \<noteq> None
    \<and> ctx_catalog_access ctx' = ParseCatalogAccessClaim d"
  using assms by (auto simp: take_claims_def thrown_def Let_def split: sum.split_asm)

lemma bearer_call:
  assumes "bearer_StartCall lib F ci ctx = (Inr m, ctx', F')"
  shows "m = None \<and> ctx' = ctx \<or>
    (\<exists>d. m = Some (BearerToken d) \<and> take_claims lib ci d ctx = (ok (), ctx')
       \<and> session_token_valid lib F (FindKeyValPrefixInCallHeaders (ci_headers ci) ''authorization'' ''Bearer '') d)"
proof (cases "m = None")
  case True
  with assms show ?thesis
    by (auto simp: bearer_StartCall_def rbind_ok_iff split: if_split_asm sum.split_asm prod.split_asm)
next
  case False
  let ?token = "FindKeyValPrefixInCallHeaders (ci_headers ci) ''authorization'' ''Bearer ''"
  obtain d F1 where v: "VerifyAndDecodeToken lib F ?token = (Inr d, F1)"
    and t: "(case take_claims lib ci d ctx of (r, ctx1) \<Rightarrow> (rbind r (\<lambda>_. ok (Some (BearerToken d))), ctx1, F1))
      = (Inr m, ctx', F')"
    using assms False by (auto simp: bearer_StartCall_def split: if_split_asm sum.split_asm prod.split_asm)
  have "m = Some (BearerToken d)" "take_claims lib ci d ctx = (ok (), ctx')"
    using t by (auto simp: rbind_ok_iff split: prod.split_asm)
  then show ?thesis using VerifyAndDecodeToken_ok [OF v] by blast
qed

text \<open>
  C8: A call acts for a session only with a valid session token: when the two middlewares let a call start
  and its context names a session that was not there before, the authorization header holds a token that is
  signed with the server's own secret, was issued by this server (or by any, where that is allowed) and is
  not refused by the library, and session, user, role and catalog rules are those of its claims.
\<close>

theorem session_needs_valid_token:
  assumes "start_call lib f ea cp F ci ctx = (Inr ms, ctx', F')"
    and "ctx_session_id ctx = None" and "ctx_session_id ctx' = Some sid"
  shows "\<exists>d. session_token_valid lib F
        (FindKeyValPrefixInCallHeaders (ci_headers ci) ''authorization'' ''Bearer '') d
    \<and> claim_text lib ''session_id'' d = Inr sid
    \<and> map_sum (\<lambda>e. ()) Some (claim_text lib ''sub'' d) = Inr (ctx_username ctx')
    \<and> map_sum (\<lambda>e. ()) Some (claim_text lib ''role'' d) = Inr (ctx_role ctx')
    \<and> ctx_catalog_access ctx' = ParseCatalogAccessClaim d"
proof -
  obtain m1 ctx1 where b: "basic_StartCall lib f ea cp ci ctx = (Inr m1, ctx1)"
    using assms(1) by (auto simp: start_call_def split: sum.split_asm prod.split_asm)
  obtain m2 where e: "bearer_StartCall lib F ci ctx1 = (Inr m2, ctx', F')"
    using assms(1) b by (auto simp: start_call_def split: sum.split_asm prod.split_asm)
  have "ctx_session_id ctx1 = None"
    using b assms(2) by (auto simp: basic_StartCall_def connection_context_def)
  then have "ctx' \<noteq> ctx1" using assms(3) by auto
  then obtain d where d: "take_claims lib ci d ctx1 = (ok (), ctx')"
    "session_token_valid lib F (FindKeyValPrefixInCallHeaders (ci_headers ci) ''authorization'' ''Bearer '') d"
    using bearer_call [OF e] by blast
  show ?thesis using take_claims_ok [OF d(1)] d(2) assms(3) by auto
qed

theorem session_needs_valid_token_witness:
  "\<exists>d. session_token_valid sample_auth sample_bearer
        (FindKeyValPrefixInCallHeaders (ci_headers (sample_call ''Bearer tok'')) ''authorization'' ''Bearer '') d
    \<and> claim_text sample_auth ''session_id'' d = Inr ''s1''"
proof -
  have h: "GetAuthHeaderType (ci_headers (sample_call ''Bearer tok'')) = ok ''Bearer''"
    "FindKeyValPrefixInCallHeaders (ci_headers (sample_call ''Bearer tok'')) ''authorization'' ''Bearer '' = ''tok''"
    "map_of (ci_headers (sample_call ''Bearer tok'')) ''authorization'' = Some ''Bearer tok''"
    by code_simp+
  have b: "token_body sample_auth sample_bearer ''tok'' = Inr (Inr sample_token)"
    using claim_of_token [of sample_token sample_auth sample_spec "''j''" "''s1''" 0]
    by (simp add: token_body_def sample_bearer_def sample_spec_def)
  obtain ms ctx' F' where "start_call sample_auth sample_basic False False sample_bearer (sample_call ''Bearer tok'')
      empty_ctx = (Inr ms, ctx', F')" "ctx_session_id ctx' = Some ''s1''"
    using claim_of_token [of sample_token sample_auth sample_spec "''j''" "''s1''" 0]
    by (simp add: start_call_def basic_StartCall_def bearer_StartCall_def h VerifyAndDecodeToken_def b take_claims_def
        Let_def)
  from session_needs_valid_token [OF this(1) _ this(2)] show ?thesis by (auto simp: empty_ctx_def)
qed

text \<open>
  A catalog claim without a usable entry grants everything: when the catalog claim of a token is not an
  array, is empty, or has only entries that are skipped (another shape, a misspelt field), the session of
  its call has read and write access to every catalog but the instrumentation catalog, with and without
  the license for catalog permissions.
\<close>

theorem unusable_catalog_claim_grants_everything:
  assumes "take_claims lib ci d ctx = (ok (), ctx')" and "claim ''catalog_access'' d = Some j"
    and "case j of JArray items \<Rightarrow> list_all (\<lambda>i. access_rule_of i = None) items | _ \<Rightarrow> True"
    and "map_option mgr_catalog mgr \<noteq> Some c"
  shows "HasWriteAccess perms (session_fields ctx' addr conn sid reg) c mgr
    \<and> HasReadAccess perms (session_fields ctx' addr conn sid reg) c mgr"
proof -
  have "List.map_filter access_rule_of items = []" if "j = JArray items" for items
    using assms(3) that by (simp add: map_filter_def list_all_iff filter_empty_conv)
  then have "ParseCatalogAccessClaim d \<in> {None, Some []}"
    using assms(2) by (auto simp: ParseCatalogAccessClaim_def split: json.split)
  then have "catalog_access (session_fields ctx' addr conn sid reg) = []"
    using take_claims_ok [OF assms(1)] by (auto simp: session_fields_def)
  then show ?thesis
    using assms(4) by (simp add: HasWriteAccess_def HasReadAccess_def GetCatalogAccess_def)
qed

definition empty_claim_token :: decoded_jwt where
  "empty_claim_token = sample_token\<lparr>jwt_payload := jwt_payload sample_token
     @ [(''catalog_access'', JArray [JObject [(''catlog'', JString ''sales''), (''access'', JString ''none'')]])]\<rparr>"

theorem unusable_catalog_claim_grants_everything_witness:
  "HasWriteAccess True (session_fields (snd (take_claims sample_auth (sample_call []) empty_claim_token empty_ctx))
       ''p'' () ''s1'' (fresh_registry None ''i'')) ''sales'' None
    \<and> HasReadAccess True (session_fields (snd (take_claims sample_auth (sample_call []) empty_claim_token empty_ctx))
       ''p'' () ''s1'' (fresh_registry None ''i'')) ''sales'' None"
proof (rule unusable_catalog_claim_grants_everything)
  show "take_claims sample_auth (sample_call []) empty_claim_token empty_ctx
      = (ok (), snd (take_claims sample_auth (sample_call []) empty_claim_token empty_ctx))"
    by (simp add: take_claims_def claim_text_def claim_def empty_claim_token_def token_claims_def sample_spec_def)
  show "claim ''catalog_access'' empty_claim_token
      = Some (JArray [JObject [(''catlog'', JString ''sales''), (''access'', JString ''none'')]])"
    by (simp add: claim_def empty_claim_token_def token_claims_def sample_spec_def)
qed (simp_all add: access_rule_of_def)

text \<open>The level of each of a sequence of validated tokens, and the factory after them.\<close>

fun log_levels :: "auth_lib \<Rightarrow> decoded_jwt list \<Rightarrow> bearer_factory \<Rightarrow> log_level list \<times> bearer_factory" where
  "log_levels lib [] F = ([], F)"
| "log_levels lib (d # ds) F =
     (case GetTokenLogLevel lib d F of (l, F1) \<Rightarrow> (case log_levels lib ds F1 of (ls, F2) \<Rightarrow> (l # ls, F2)))"

definition log_bounded :: "bearer_factory \<Rightarrow> bool" where
  "log_bounded F \<longleftrightarrow> finite (logged_token_ids F) \<and> card (logged_token_ids F) \<le> kMaxLoggedTokens"

lemma GetTokenLogLevel_bounded:
  "log_bounded F \<Longrightarrow> log_bounded (snd (GetTokenLogLevel lib d F))"
  by (auto simp: GetTokenLogLevel_def log_bounded_def Let_def kMaxLoggedTokens_def)

lemma GetTokenLogLevel_repeat:
  "GetTokenLogLevel lib d F = (l, F1) \<Longrightarrow> fst (GetTokenLogLevel lib d F1) = ARROW_DEBUG"
  by (auto simp: GetTokenLogLevel_def Let_def split: if_splits)

text \<open>
  The memory of logged tokens is bounded: however many tokens are validated, at most 50000 ids are
  remembered; and a token that comes right after itself is logged at DEBUG, whatever came before.
\<close>

theorem token_log_is_bounded:
  assumes "log_bounded F" and "log_levels lib ds F = (ls, F')"
  shows "card (logged_token_ids F') \<le> 50000 \<and> length ls = length ds
    \<and> fst (GetTokenLogLevel lib d (snd (GetTokenLogLevel lib d F'))) = ARROW_DEBUG"
proof -
  have "log_bounded F' \<and> length ls = length ds"
    using assms
  proof (induction ds arbitrary: F ls)
    case (Cons d ds)
    then show ?case
      using GetTokenLogLevel_bounded [OF Cons.prems(1), of lib d] by (fastforce split: prod.splits)
  qed auto
  then show ?thesis
    using GetTokenLogLevel_repeat [of lib d F'] by (cases "GetTokenLogLevel lib d F'")
      (auto simp: log_bounded_def kMaxLoggedTokens_def)
qed

theorem token_log_is_bounded_witness:
  "card (logged_token_ids (snd (log_levels sample_auth [sample_token, sample_token] sample_bearer))) \<le> 50000
    \<and> length (fst (log_levels sample_auth [sample_token, sample_token] sample_bearer)) = 2"
proof -
  obtain ls F' where "log_levels sample_auth [sample_token, sample_token] sample_bearer = (ls, F')" by force
  moreover have "log_bounded sample_bearer" by (simp add: log_bounded_def sample_bearer_def)
  ultimately show ?thesis using token_log_is_bounded [of sample_bearer sample_auth] by (metis (no_types, lifting)
    fst_conv length_Cons list.size(3) numeral_2_eq_2 snd_conv)
qed

section \<open>The list of authorized e-mails\<close>

lemma suffix_drop: "suffix p e \<longleftrightarrow> length p \<le> length e \<and> drop (length e - length p) e = p"
  by (auto simp: suffix_def) (metis append_take_drop_id)

lemma pattern_matches_iff:
  "pattern_matches email p \<longleftrightarrow>
     (case to_lower p of [] \<Rightarrow> email = [] | c # cs \<Rightarrow>
        (if c = CHR ''*'' then suffix cs (to_lower email) else to_lower email = c # cs))"
  by (auto simp: pattern_matches_def Let_def suffix_drop to_lower_def split: list.split)

text \<open>
  C34: The e-mail list means what it says, ignoring case: a user is admitted when the list has no entry at
  all, or when some entry, without the blanks around it, is a star followed by the end of the address, or
  is the address. A list of blanks and commas only has no entry and so admits everyone.
\<close>

theorem authorized_emails_mean:
  "IsEmailAuthorized email (SetTokenAuthorizedEmails patterns f) \<longleftrightarrow>
     (let entries = filter (\<lambda>p. p \<noteq> []) (map strip_blanks (getlines (CHR '','') patterns))
      in entries = [] \<or> list_ex (\<lambda>p. case to_lower p of [] \<Rightarrow> False
           | c # cs \<Rightarrow> (if c = CHR ''*'' then suffix cs (to_lower email) else to_lower email = c # cs)) entries)"
proof -
  have blank: "strip_blanks p = [] \<longleftrightarrow> \<not> list_ex (\<lambda>c. \<not> list_blank c) p" for p
  proof -
    have "dropWhile list_blank (rev (dropWhile list_blank p)) = [] \<longleftrightarrow> (\<forall>c \<in> set p. list_blank c)"
      by (induction p) (auto simp: dropWhile_eq_Nil_conv)
    then show ?thesis by (auto simp: strip_blanks_def list_ex_iff)
  qed
  have entries: "map strip_blanks (filter (list_ex (\<lambda>c. \<not> list_blank c)) ps)
      = filter (\<lambda>p. p \<noteq> []) (map strip_blanks ps)" for ps
    by (induction ps) (auto simp: blank)
  have "to_lower p \<noteq> []" if "p \<noteq> []" for p using that by (simp add: to_lower_def)
  then show ?thesis
    by (auto simp: IsEmailAuthorized_def SetTokenAuthorizedEmails_def entries list_ex_iff pattern_matches_iff
        split: list.split list.split_asm)
qed

text \<open>The password of a Basic header never contains a colon, so one that does can not be given.\<close>

lemma getlines_parts: "t \<in> set (getlines x s) \<Longrightarrow> x \<notin> set t"
proof (induction x s rule: getlines.induct)
  case (2 d c cs)
  then show ?case by (auto dest: set_takeWhileD split: if_splits)
qed simp

lemma parsed_password_has_no_colon:
  "CHR '':'' \<notin> set (snd (ParseBasicHeader lib headers))"
  using getlines_parts by (auto simp: ParseBasicHeader_def split: list.splits) (metis list.set_intros)

end
