(* ===== verification/OAuth.thy ===== *)
theory OAuth
  imports Auth
begin

text \<open>
  The server-side OAuth code exchange (\<open>src/src/enterprise/oauth/oauth_http_server.cpp\<close> and its page
  templates) and the client that waits for the token (\<open>src/src/client/oauth_flow.cpp\<close>). The HTTP
  library, nlohmann's JSON parser and jwt-cpp are parameters. A callback is two critical sections with the
  code exchange between them; the step relation \<open>ostep\<close> interleaves any number of callbacks, polls,
  logins and cleanups. The logo of the pages is an argument; log lines are left out.
\<close>

section \<open>Pages\<close>

text \<open>The raw string literals, line by line.\<close>

fun text_of_lines :: "string list \<Rightarrow> string" where
  "text_of_lines [] = []"
| "text_of_lines [l] = l"
| "text_of_lines (l # ls) = l @ newline # text_of_lines ls"

definition kOAuthPageStyles :: string where
  "kOAuthPageStyles = text_of_lines
     [[],
      ''<style>'',
      ''  body {'',
      ''    font-family: -apple-system, BlinkMacSystemFont, 'Segoe UI', Roboto, 'Helvetica Neue', Arial, sans-serif;'',
      ''    display: flex;'',
      ''    justify-content: center;'',
      ''    align-items: center;'',
      ''    min-height: 100vh;'',
      ''    margin: 0;'',
      ''    background-color: #f8f9fa;'',
      ''    color: #333;'',
      ''  }'',
      ''  .container {'',
      ''    text-align: center;'',
      ''    padding: 48px;'',
      ''    background: white;'',
      ''    border-radius: 12px;'',
      ''    box-shadow: 0 2px 12px rgba(0,0,0,0.08);'',
      ''    max-width: 480px;'',
      ''  }'',
      ''  .logo { width: 100px; height: 100px; margin-bottom: 24px; }'',
      ''  h1 { font-size: 24px; font-weight: 600; margin: 0 0 12px 0; }'',
      ''  p { font-size: 16px; color: #666; margin: 8px 0; }'',
      ''  .error { color: #dc3545; }'',
      ''</style>'',
      []]"

definition kOAuthSuccessPage :: string where
  "kOAuthSuccessPage = text_of_lines
     [''<!DOCTYPE html>'',
      ''<html>'',
      ''<head>'',
      ''  <meta charset=\"utf-8\">'',
      ''  <title>GizmoSQL - Authentication Successful</title>'',
      ''  %STYLES%'',
      ''</head>'',
      ''<body>'',
      ''  <div class=\"container\">'',
      ''    <img class=\"logo\" src=\"data:image/png;base64,%LOGO%\" alt=\"GizmoSQL\">'',
      ''    <h1>Authentication Successful</h1>'',
      ''    <p>You have been authenticated. You may close this tab.</p>'',
      ''    <p style=\"color:#999;font-size:13px;\">This tab will close automatically in 3 seconds.</p>'',
      ''  </div>'',
      ''  <script>setTimeout(function(){ window.close(); }, 3000);</script>'',
      ''</body>'',
      ''</html>'']"

definition kOAuthErrorPage :: string where
  "kOAuthErrorPage = text_of_lines
     [''<!DOCTYPE html>'',
      ''<html>'',
      ''<head>'',
      ''  <meta charset=\"utf-8\">'',
      ''  <title>GizmoSQL - Authentication Failed</title>'',
      ''  %STYLES%'',
      ''</head>'',
      ''<body>'',
      ''  <div class=\"container\">'',
      ''    <img class=\"logo\" src=\"data:image/png;base64,%LOGO%\" alt=\"GizmoSQL\">'',
      ''    <h1>Authentication Failed</h1>'',
      ''    <p class=\"error\">%ERROR%</p>'',
      ''    <p>Please close this tab and try again.</p>'',
      ''  </div>'',
      ''</body>'',
      ''</html>'']"

definition kOAuthExpiredPage :: string where
  "kOAuthExpiredPage = text_of_lines
     [''<!DOCTYPE html>'',
      ''<html>'',
      ''<head>'',
      ''  <meta charset=\"utf-8\">'',
      ''  <title>GizmoSQL - Session Expired</title>'',
      ''  %STYLES%'',
      ''</head>'',
      ''<body>'',
      ''  <div class=\"container\">'',
      ''    <img class=\"logo\" src=\"data:image/png;base64,%LOGO%\" alt=\"GizmoSQL\">'',
      ''    <h1>Session Expired</h1>'',
      ''    <p>Your authentication session has expired. Please try again.</p>'',
      ''  </div>'',
      ''</body>'',
      ''</html>'']"

text \<open>One placeholder: its first occurrence is replaced.\<close>

definition replace_placeholder :: "string \<Rightarrow> string \<Rightarrow> string \<Rightarrow> string" where
  "replace_placeholder pat new html =
     (case find_sub pat html of
        None \<Rightarrow> html
      | Some pos \<Rightarrow> take pos html @ new @ drop (pos + length pat) html)"

definition RenderPage :: "string \<Rightarrow> string \<Rightarrow> string \<Rightarrow> string" where
  "RenderPage logo tmpl err =
     replace_placeholder ''%ERROR%'' err
       (replace_placeholder ''%LOGO%'' logo (replace_placeholder ''%STYLES%'' kOAuthPageStyles tmpl))"

section \<open>Configuration, state and responses\<close>

record oauth_config =
  oc_port :: int
  oc_client_id :: string
  oc_client_secret :: string
  oc_scopes :: string
  oc_redirect_uri :: string
  oc_secret_key :: string
  oc_patterns :: "string list"
  oc_disable_tls :: bool
  oc_tls_cert_path :: string
  oc_tls_key_path :: string
  oc_authorization_endpoint :: string
  oc_token_endpoint :: string

text \<open>\<open>nl_parse\<close> is nlohmann's parser, \<open>Inl\<close> the text of its exception, as \<open>nl_type_error\<close> for a wrong type.\<close>

record oauth_lib =
  oa_auth :: auth_lib
  nl_parse :: "string \<Rightarrow> string + json"
  nl_type_error :: string
  oa_logo :: string

text \<open>\<open>PendingAuth\<close>; the clock counts nanoseconds. \<open>unordered_map\<close> by session hash.\<close>

record pending_auth =
  created_at :: int
  pa_id_token :: "string option"
  pa_error :: "string option"

type_synonym pendings = "string \<Rightarrow> pending_auth option"

definition fresh_auth :: "int \<Rightarrow> pending_auth" where
  "fresh_auth now = \<lparr>created_at = now, pa_id_token = None, pa_error = None\<rparr>"

text \<open>What a handler puts into the response; a JSON object has its members in the order they are written.\<close>

datatype content = NoContent | Html string | Json "(string \<times> string) list"

record http_response =
  rs_status :: int
  rs_content :: content
  rs_location :: "string option"

definition reply :: "int \<Rightarrow> content \<Rightarrow> http_response" where
  "reply st c = \<lparr>rs_status = st, rs_content = c, rs_location = None\<rparr>"

definition session_hash :: "oauth_lib \<Rightarrow> oauth_config \<Rightarrow> string \<Rightarrow> string" where
  "session_hash lib cfg uuid = HMAC_SHA256 (oa_auth lib) (oc_secret_key cfg) uuid"

section \<open>Handlers\<close>

definition is_alnum :: "char \<Rightarrow> bool" where
  "is_alnum c \<longleftrightarrow> is_alpha c \<or> is_digit c"

definition url_plain :: "char \<Rightarrow> bool" where
  "url_plain c \<longleftrightarrow> is_alnum c \<or> c = CHR ''-'' \<or> c = CHR ''_'' \<or> c = CHR ''.'' \<or> c = CHR ''~''"

definition UrlEncode :: "string \<Rightarrow> string" where
  "UrlEncode value =
     concat (map (\<lambda>c. if url_plain c then [c] else CHR 0x25 # to_upper (hex_byte (of_char c))) value)"

definition authorization_url :: "oauth_config \<Rightarrow> string \<Rightarrow> string" where
  "authorization_url cfg h =
     oc_authorization_endpoint cfg @ ''?response_type=code''
       @ ''&client_id='' @ UrlEncode (oc_client_id cfg)
       @ ''&redirect_uri='' @ UrlEncode (oc_redirect_uri cfg)
       @ ''&scope='' @ UrlEncode (oc_scopes cfg) @ ''&state='' @ h"

text \<open>\<open>uuid\<close> is the random UUID, \<open>now\<close> the clock.\<close>

definition HandleInitiate ::
    "oauth_lib \<Rightarrow> oauth_config \<Rightarrow> string \<Rightarrow> int \<Rightarrow> pendings \<Rightarrow> http_response \<times> pendings" where
  "HandleInitiate lib cfg uuid now P =
     (let h = session_hash lib cfg uuid
      in (reply 200 (Json [(''auth_url'', authorization_url cfg h), (''session_uuid'', uuid)]),
          P(h \<mapsto> fresh_auth now)))"

definition error_page :: "oauth_lib \<Rightarrow> string \<Rightarrow> content" where
  "error_page lib err = Html (RenderPage (oa_logo lib) kOAuthErrorPage err)"

definition HandleStart ::
    "oauth_lib \<Rightarrow> oauth_config \<Rightarrow> (string \<times> string) list \<Rightarrow> int \<Rightarrow> pendings \<Rightarrow> http_response \<times> pendings" where
  "HandleStart lib cfg params now P =
     (case map_of params ''session'' of
        None \<Rightarrow> (reply 400 (error_page lib ''Missing session parameter''), P)
      | Some h \<Rightarrow>
          (if h = [] then (reply 400 (error_page lib ''Missing session parameter''), P)
           else if P h \<noteq> None then (reply 409 (error_page lib ''Session already in progress''), P)
           else (\<lparr>rs_status = 302, rs_content = NoContent, rs_location = Some (authorization_url cfg h)\<rparr>,
                 P(h \<mapsto> fresh_auth now))))"

text \<open>The sections that find an entry and set its error or its token.\<close>

definition set_error :: "string \<Rightarrow> string \<Rightarrow> pendings \<Rightarrow> pendings" where
  "set_error h err P = (case P h of None \<Rightarrow> P | Some pa \<Rightarrow> P(h \<mapsto> pa\<lparr>pa_error := Some err\<rparr>))"

definition set_token :: "string \<Rightarrow> string \<Rightarrow> pendings \<Rightarrow> pendings" where
  "set_token h t P = (case P h of None \<Rightarrow> P | Some pa \<Rightarrow> P(h \<mapsto> pa\<lparr>pa_id_token := Some t\<rparr>))"

text \<open>
  \<open>HandleCallback\<close> up to the code exchange: a response, or the code and the session hash to go on with.
\<close>

definition callback_begin ::
    "oauth_lib \<Rightarrow> (string \<times> string) list \<Rightarrow> pendings \<Rightarrow> (http_response + string \<times> string) \<times> pendings" where
  "callback_begin lib params P =
     (case map_of params ''error'' of
        Some e \<Rightarrow>
          (let desc = (case map_of params ''error_description'' of Some d \<Rightarrow> d | None \<Rightarrow> e)
           in (Inl (reply 200 (error_page lib desc)),
               (case map_of params ''state'' of None \<Rightarrow> P | Some h \<Rightarrow> set_error h desc P)))
      | None \<Rightarrow>
          (case (map_of params ''code'', map_of params ''state'') of
             (Some c, Some h) \<Rightarrow>
               (case P h of
                  None \<Rightarrow> (Inl (reply 200 (Html (RenderPage (oa_logo lib) kOAuthExpiredPage []))), P)
                | Some pa \<Rightarrow>
                    (if pa_id_token pa \<noteq> None \<or> pa_error pa \<noteq> None
                     then (Inl (reply 409 (error_page lib ''Session already completed'')), P)
                     else (Inr (c, h), P)))
           | _ \<Rightarrow> (Inl (reply 400 (error_page lib ''Missing code or state parameter'')), P)))"

text \<open>\<open>IsEmailAuthorized\<close> of this server; its list is never given an empty pattern.\<close>

definition oauth_pattern_matches :: "string \<Rightarrow> string \<Rightarrow> bool" where
  "oauth_pattern_matches email pattern =
     (let lower_email = to_lower email; lower_pattern = to_lower pattern
      in if lower_pattern = ''*'' then True
         else if lower_pattern \<noteq> [] \<and> hd lower_pattern = CHR ''*''
         then (let sfx = drop 1 lower_pattern
               in length sfx \<le> length lower_email
                  \<and> take (length sfx) (drop (length lower_email - length sfx) lower_email) = sfx)
         else lower_email = lower_pattern)"

definition oauth_IsEmailAuthorized :: "oauth_config \<Rightarrow> string \<Rightarrow> bool" where
  "oauth_IsEmailAuthorized cfg email \<longleftrightarrow>
     oc_patterns cfg = [] \<or> list_ex (oauth_pattern_matches email) (oc_patterns cfg)"

definition oauth_username :: "oauth_lib \<Rightarrow> decoded_jwt \<Rightarrow> string + string" where
  "oauth_username lib d =
     (let email = (if claim ''email'' d \<noteq> None
                   then (case claim_text (oa_auth lib) ''email'' d of Inl _ \<Rightarrow> [] | Inr s \<Rightarrow> s) else [])
      in if email = [] then claim_text (oa_auth lib) ''sub'' d else Inr email)"

definition CheckEmailAuthorization :: "oauth_lib \<Rightarrow> oauth_config \<Rightarrow> string \<Rightarrow> unit result" where
  "CheckEmailAuthorization lib cfg tok =
     (case xbind (jwt_decode (oa_auth lib) tok) (oauth_username lib) of
        Inl e \<Rightarrow> fail Invalid (''Failed to decode ID token: '' @ e)
      | Inr user \<Rightarrow>
          (if \<not> oauth_IsEmailAuthorized cfg user
           then fail Invalid (''User '' @ [squote] @ user @ [squote] @ '' is not authorized'')
           else ok ()))"

text \<open>\<open>HandleCallback\<close> after the exchange, which gave \<open>answer\<close>.\<close>

definition callback_end ::
    "oauth_lib \<Rightarrow> oauth_config \<Rightarrow> string \<Rightarrow> string result \<Rightarrow> pendings \<Rightarrow> http_response \<times> pendings" where
  "callback_end lib cfg h answer P =
     (case rbind answer (\<lambda>t. rbind (CheckEmailAuthorization lib cfg t) (\<lambda>_. ok t)) of
        Inl e \<Rightarrow> (reply 200 (error_page lib (message e)), set_error h (message e) P)
      | Inr t \<Rightarrow> (reply 200 (Html (RenderPage (oa_logo lib) kOAuthSuccessPage [])), set_token h t P))"

definition HandleTokenPoll ::
    "oauth_lib \<Rightarrow> oauth_config \<Rightarrow> string \<Rightarrow> pendings \<Rightarrow> http_response \<times> pendings" where
  "HandleTokenPoll lib cfg uuid P =
     (let h = session_hash lib cfg uuid
      in case P h of
           None \<Rightarrow> (reply 404 (Json [(''status'', ''not_found'')]), P)
         | Some pa \<Rightarrow>
             (case (pa_error pa, pa_id_token pa) of
                (Some e, _) \<Rightarrow> (reply 200 (Json [(''error'', e), (''status'', ''error'')]), P)
              | (None, Some t) \<Rightarrow> (reply 200 (Json [(''status'', ''complete''), (''token'', t)]), P(h := None))
              | (None, None) \<Rightarrow> (reply 200 (Json [(''status'', ''pending'')]), P)))"

text \<open>One pass of the cleanup thread: entries older than 15 minutes go.\<close>

definition challenge_timeout :: int where
  "challenge_timeout = 15 * 60 * 1000000000"

definition CleanupExpiredSessions :: "int \<Rightarrow> pendings \<Rightarrow> pendings" where
  "CleanupExpiredSessions now P =
     (\<lambda>h. case P h of None \<Rightarrow> None | Some pa \<Rightarrow> if now - created_at pa > challenge_timeout then None else Some pa)"

subsection \<open>The code exchange\<close>

text \<open>\<open>json.contains(k)\<close>, false for a value that is no object; \<open>get<std::string>()\<close>, which throws.\<close>

definition member :: "string \<Rightarrow> json \<Rightarrow> json option" where
  "member k j = (case j of JObject ms \<Rightarrow> map_of ms k | _ \<Rightarrow> None)"

definition get_string :: "oauth_lib \<Rightarrow> json \<Rightarrow> string + string" where
  "get_string lib j = (case j of JString s \<Rightarrow> Inr s | _ \<Rightarrow> Inl (nl_type_error lib))"

text \<open>The endpoint as the base URL of the HTTP client and the path.\<close>

definition split_url :: "string \<Rightarrow> (string \<times> string) option" where
  "split_url url =
     (case find_sub ''://'' url of
        None \<Rightarrow> None
      | Some i \<Rightarrow>
          (let rest = drop (i + 3) url
           in case find_char (CHR ''/'') rest of
                None \<Rightarrow> Some (take (i + 3) url @ rest, ''/'')
              | Some k \<Rightarrow> Some (take (i + 3) url @ take k rest, drop k rest)))"

definition token_of_response :: "oauth_lib \<Rightarrow> json \<Rightarrow> string + string result" where
  "token_of_response lib j =
     (case member ''error'' j of
        Some e \<Rightarrow>
          xbind (get_string lib e) (\<lambda>err.
            xbind (case member ''error_description'' j of
                     None \<Rightarrow> Inr err
                   | Some d \<Rightarrow> xbind (get_string lib d) (\<lambda>s. Inr (err @ '': '' @ s)))
              (\<lambda>full. Inr (fail Invalid (''Token exchange error: '' @ full))))
      | None \<Rightarrow>
          (case member ''id_token'' j of
             Some (JString s) \<Rightarrow> Inr (ok s)
           | _ \<Rightarrow> Inr (fail Invalid (''Token endpoint response missing '' @ [squote] @ ''id_token''
                         @ [squote] @ '' field''))))"

text \<open>\<open>post\<close> is the HTTP client: base URL, path and parameters to the text of an error, or status and body.\<close>

type_synonym http_post = "string \<Rightarrow> string \<Rightarrow> (string \<times> string) list \<Rightarrow> string + int \<times> string"

definition ExchangeCodeForTokens :: "oauth_lib \<Rightarrow> oauth_config \<Rightarrow> http_post \<Rightarrow> string \<Rightarrow> string result" where
  "ExchangeCodeForTokens lib cfg post auth_code =
     (case split_url (oc_token_endpoint cfg) of
        None \<Rightarrow> fail Invalid (''Invalid token endpoint URL: '' @ oc_token_endpoint cfg)
      | Some (base, path) \<Rightarrow>
          (case post base path
                  [(''grant_type'', ''authorization_code''), (''code'', auth_code),
                   (''redirect_uri'', oc_redirect_uri cfg), (''client_id'', oc_client_id cfg),
                   (''client_secret'', oc_client_secret cfg)] of
             Inl e \<Rightarrow> fail IOError (''Token exchange HTTP request failed: '' @ e)
           | Inr (st, body) \<Rightarrow>
               (if st \<noteq> 200
                then fail IOError (''Token endpoint returned status '' @ show_int st @ '': '' @ body)
                else case xbind (nl_parse lib body) (token_of_response lib) of
                       Inl e \<Rightarrow> fail Invalid (''Failed to parse token endpoint response: '' @ e)
                     | Inr r \<Rightarrow> r)))"

text \<open>The handler without interference.\<close>

definition HandleCallback ::
    "oauth_lib \<Rightarrow> oauth_config \<Rightarrow> http_post \<Rightarrow> (string \<times> string) list \<Rightarrow> pendings \<Rightarrow> http_response \<times> pendings" where
  "HandleCallback lib cfg post params P =
     (case callback_begin lib params P of
        (Inl r, P1) \<Rightarrow> (r, P1)
      | (Inr (c, h), P1) \<Rightarrow> callback_end lib cfg h (ExchangeCodeForTokens lib cfg post c) P1)"

subsection \<open>Start and configuration\<close>

text \<open>\<open>Start\<close> up to the two threads: the configuration it leaves and whether it serves over TLS.\<close>

definition oauth_Start :: "oauth_config \<Rightarrow> (oauth_config \<times> bool) result" where
  "oauth_Start cfg =
     (if oc_client_id cfg = [] then fail Invalid ''OAuth client ID is required''
      else if oc_authorization_endpoint cfg = [] \<or> oc_token_endpoint cfg = []
      then fail Invalid (''OAuth authorization_endpoint and token_endpoint are required ''
             @ ''(from OIDC discovery)'')
      else let use_tls = (oc_tls_cert_path cfg \<noteq> [] \<and> oc_tls_key_path cfg \<noteq> [] \<and> \<not> oc_disable_tls cfg)
           in ok (if oc_redirect_uri cfg = []
                  then cfg\<lparr>oc_redirect_uri := (if use_tls then ''https'' else ''http'') @ ''://localhost:''
                              @ show_int (oc_port cfg) @ ''/oauth/callback''\<rparr>
                  else cfg, use_tls))"

section \<open>The waiting client\<close>

text \<open>
  What the client gets from a request: the text of a transport error, or the status and the parsed body
  (\<open>None\<close> when it does not parse). A JSON object of texts is read back as it was written.
\<close>

datatype http_reply = NoReply string | Reply int "json option"

definition client_view :: "http_response \<Rightarrow> http_reply" where
  "client_view r =
     Reply (rs_status r)
       (case rs_content r of Json kvs \<Rightarrow> Some (JObject (map (\<lambda>(k, v). (k, JString v)) kvs)) | _ \<Rightarrow> None)"

text \<open>\<open>json.value(key, default)\<close>: it throws on a value of another type and on a value that is no object.\<close>

definition json_value :: "oauth_lib \<Rightarrow> string \<Rightarrow> string \<Rightarrow> json \<Rightarrow> string + string" where
  "json_value lib k d j =
     (case j of
        JObject ms \<Rightarrow> (case map_of ms k of None \<Rightarrow> Inr d | Some v \<Rightarrow> get_string lib v)
      | _ \<Rightarrow> Inl (nl_type_error lib))"

definition client_Initiate :: "oauth_lib \<Rightarrow> string \<Rightarrow> string \<Rightarrow> http_reply \<Rightarrow> string + (string \<times> string) result" where
  "client_Initiate lib base_url body r =
     (case r of
        NoReply e \<Rightarrow> Inr (fail IOError (''Failed to connect to OAuth server at '' @ base_url @ '': '' @ e))
      | Reply st j \<Rightarrow>
          (if st \<noteq> 200
           then Inr (fail IOError (''OAuth initiate failed with HTTP '' @ show_int st @ '': '' @ body))
           else case j of
                  None \<Rightarrow> Inr (fail IOError ''Failed to parse OAuth initiate response'')
                | Some v \<Rightarrow>
                    (case (member ''session_uuid'' v, member ''auth_url'' v) of
                       (Some u, Some a) \<Rightarrow>
                         xbind (get_string lib u) (\<lambda>uuid. xbind (get_string lib a) (\<lambda>url. Inr (ok (uuid, url))))
                     | _ \<Rightarrow> Inr (fail IOError ''OAuth initiate response missing required fields''))))"

text \<open>One poll: \<open>None\<close> is \<open>pending\<close>.\<close>

definition poll_reply :: "oauth_lib \<Rightarrow> http_reply \<Rightarrow> (string + string result) option" where
  "poll_reply lib r =
     (case r of
        NoReply e \<Rightarrow> Some (Inr (fail IOError (''Failed to poll OAuth token: '' @ e)))
      | Reply st j \<Rightarrow>
          (if st \<noteq> 200 then Some (Inr (fail IOError (''OAuth token poll failed with HTTP '' @ show_int st)))
           else case j of
                  None \<Rightarrow> Some (Inr (fail IOError ''Failed to parse OAuth token response''))
                | Some v \<Rightarrow>
                    (case json_value lib ''status'' [] v of
                       Inl e \<Rightarrow> Some (Inl e)
                     | Inr s \<Rightarrow>
                         (if s = ''complete''
                          then (case member ''token'' v of
                                  None \<Rightarrow> Some (Inr (fail IOError (''OAuth response has status '' @ [squote]
                                            @ ''complete'' @ [squote] @ '' but no token'')))
                                | Some t \<Rightarrow> Some (xbind (get_string lib t) (\<lambda>tok. Inr (ok tok))))
                          else if s = ''error''
                          then Some (xbind (json_value lib ''message'' ''Unknown OAuth error'' v)
                                 (\<lambda>msg. Inr (fail IOError (''OAuth login failed: '' @ msg))))
                          else if s = ''pending'' then None
                          else Some (Inr (fail IOError (''Unknown OAuth poll status: '' @ s)))))))"

definition poll_timeout_seconds :: int where
  "poll_timeout_seconds = 300"

text \<open>
  The loop at its \<open>k\<close>-th round: \<open>clock k\<close> is the time in milliseconds since the start when the round
  begins, \<open>replies k\<close> what its request gives. The loop may go on for ever if the clock stands still.
\<close>

partial_function (option) poll_from ::
    "oauth_lib \<Rightarrow> (nat \<Rightarrow> int) \<Rightarrow> (nat \<Rightarrow> http_reply) \<Rightarrow> nat \<Rightarrow> (string + string result) option" where
  "poll_from lib clock replies k =
     (if cdiv (clock k) 1000 \<ge> poll_timeout_seconds
      then Some (Inr (fail IOError (''OAuth login timed out after '' @ show_int poll_timeout_seconds @ '' seconds'')))
      else case poll_reply lib (replies k) of
             Some r \<Rightarrow> Some r
           | None \<Rightarrow> poll_from lib clock replies (Suc k))"

definition PollForToken ::
    "oauth_lib \<Rightarrow> (nat \<Rightarrow> int) \<Rightarrow> (nat \<Rightarrow> http_reply) \<Rightarrow> (string + string result) option" where
  "PollForToken lib clock replies = poll_from lib clock replies 0"

text \<open>
  \<open>Authenticate\<close>: \<open>body\<close> and \<open>r\<close> are the answer to \<open>/oauth/initiate\<close>, \<open>replies\<close> those to the polls of a
  UUID. Whether a browser can be opened only changes what is printed.
\<close>

definition Authenticate ::
    "oauth_lib \<Rightarrow> string \<Rightarrow> string \<Rightarrow> http_reply \<Rightarrow> (nat \<Rightarrow> int) \<Rightarrow> (string \<Rightarrow> nat \<Rightarrow> http_reply)
     \<Rightarrow> (string + string result) option" where
  "Authenticate lib base_url body r clock replies =
     (case client_Initiate lib base_url body r of
        Inl e \<Rightarrow> Some (Inl e)
      | Inr (Inl st) \<Rightarrow> Some (Inr (Inl st))
      | Inr (Inr (uuid, auth_url)) \<Rightarrow> PollForToken lib clock (replies uuid))"

section \<open>Interleavings\<close>

text \<open>
  The shared table and the callbacks whose code exchange is running. A step is one critical section; its
  event records what the properties speak of.
\<close>

type_synonym oauth_state = "pendings \<times> (string \<times> string) list"

datatype oauth_event =
    Quiet
  | LoginCreated string
  | CallbackBegan string string
  | TokenStored string string string
  | TokenDelivered string string

inductive ostep :: "oauth_lib \<Rightarrow> oauth_config \<Rightarrow> oauth_state \<Rightarrow> oauth_event \<Rightarrow> oauth_state \<Rightarrow> bool"
  for lib :: oauth_lib and cfg :: oauth_config where
  initiate: "HandleInitiate lib cfg uuid now P = (r, P') \<Longrightarrow>
    ostep lib cfg (P, fl) (LoginCreated (session_hash lib cfg uuid)) (P', fl)"
| start: "HandleStart lib cfg params now P = (r, P') \<Longrightarrow> map_of params ''session'' = Some h \<Longrightarrow> rs_status r = 302 \<Longrightarrow>
    ostep lib cfg (P, fl) (LoginCreated h) (P', fl)"
| start_refused: "HandleStart lib cfg params now P = (r, P') \<Longrightarrow> rs_status r \<noteq> 302 \<Longrightarrow>
    ostep lib cfg (P, fl) Quiet (P', fl)"
| callback_answered: "callback_begin lib params P = (Inl r, P') \<Longrightarrow> ostep lib cfg (P, fl) Quiet (P', fl)"
| callback_exchanges: "callback_begin lib params P = (Inr (c, h), P') \<Longrightarrow>
    ostep lib cfg (P, fl) (CallbackBegan c h) (P', fl @ [(c, h)])"
| callback_fails: "i < length fl \<Longrightarrow> fl ! i = (c, h) \<Longrightarrow>
    rbind (ExchangeCodeForTokens lib cfg post c) (CheckEmailAuthorization lib cfg) = Inl e \<Longrightarrow>
    callback_end lib cfg h (ExchangeCodeForTokens lib cfg post c) P = (r, P') \<Longrightarrow>
    ostep lib cfg (P, fl) Quiet (P', take i fl @ drop (Suc i) fl)"
| callback_stores: "i < length fl \<Longrightarrow> fl ! i = (c, h) \<Longrightarrow> ExchangeCodeForTokens lib cfg post c = ok t \<Longrightarrow>
    CheckEmailAuthorization lib cfg t = ok () \<Longrightarrow>
    callback_end lib cfg h (ok t) P = (r, P') \<Longrightarrow>
    ostep lib cfg (P, fl) (TokenStored c h t) (P', take i fl @ drop (Suc i) fl)"
| poll_delivers: "HandleTokenPoll lib cfg uuid P = (r, P') \<Longrightarrow>
    rs_content r = Json [(''status'', ''complete''), (''token'', t)] \<Longrightarrow>
    ostep lib cfg (P, fl) (TokenDelivered uuid t) (P', fl)"
| poll_waits: "HandleTokenPoll lib cfg uuid P = (r, P') \<Longrightarrow>
    \<forall>t. rs_content r \<noteq> Json [(''status'', ''complete''), (''token'', t)] \<Longrightarrow>
    ostep lib cfg (P, fl) Quiet (P', fl)"
| cleanup: "ostep lib cfg (P, fl) Quiet (CleanupExpiredSessions now P, fl)"

inductive osteps :: "oauth_lib \<Rightarrow> oauth_config \<Rightarrow> oauth_state \<Rightarrow> oauth_event list \<Rightarrow> oauth_state \<Rightarrow> bool"
  for lib :: oauth_lib and cfg :: oauth_config where
  osteps_none: "osteps lib cfg s [] s"
| osteps_snoc: "osteps lib cfg s es s1 \<Longrightarrow> ostep lib cfg s1 e s2 \<Longrightarrow> osteps lib cfg s (es @ [e]) s2"

section \<open>What a token goes through\<close>

lemma set_error_simps [simp]:
  "set_error h err P h' = (if h' = h then map_option (pa_error_update (\<lambda>_. Some err)) (P h) else P h')"
  by (simp add: set_error_def split: option.split)

lemma set_token_simps [simp]:
  "set_token h t P h' = (if h' = h then map_option (pa_id_token_update (\<lambda>_. Some t)) (P h) else P h')"
  by (simp add: set_token_def split: option.split)

lemma callback_end_simps [simp]:
  "callback_end lib cfg h (Inl e) P = (reply 200 (error_page lib (message e)), set_error h (message e) P)"
  "CheckEmailAuthorization lib cfg t = Inl e \<Longrightarrow> callback_end lib cfg h (Inr t) P
     = (reply 200 (error_page lib (message e)), set_error h (message e) P)"
  "CheckEmailAuthorization lib cfg t = Inr u \<Longrightarrow> callback_end lib cfg h (Inr t) P
     = (reply 200 (Html (RenderPage (oa_logo lib) kOAuthSuccessPage [])), set_token h t P)"
  by (simp_all add: callback_end_def)

lemma HandleTokenPoll_delivers:
  assumes "HandleTokenPoll lib cfg uuid P = (r, P')"
    and "rs_content r = Json [(''status'', ''complete''), (''token'', t)]"
  shows "\<exists>pa. P (session_hash lib cfg uuid) = Some pa \<and> pa_error pa = None \<and> pa_id_token pa = Some t
    \<and> P' = P(session_hash lib cfg uuid := None)"
  using assms by (auto simp: HandleTokenPoll_def Let_def reply_def split: option.splits)

lemma HandleTokenPoll_waits:
  assumes "HandleTokenPoll lib cfg uuid P = (r, P')"
    and "\<forall>t. rs_content r \<noteq> Json [(''status'', ''complete''), (''token'', t)]"
  shows "P' = P"
  using assms by (auto simp: HandleTokenPoll_def Let_def reply_def split: option.splits)

text \<open>
  The invariant: a token in the table was stored for that session by a callback that had begun for it, and
  its user is on the list; callbacks in flight have begun; a session delivers one token per login created.
\<close>

definition token_origin :: "oauth_lib \<Rightarrow> oauth_config \<Rightarrow> oauth_event list \<Rightarrow> string \<Rightarrow> string \<Rightarrow> bool" where
  "token_origin lib cfg es h t \<longleftrightarrow>
     (\<exists>c post. CallbackBegan c h \<in> set es \<and> TokenStored c h t \<in> set es
        \<and> ExchangeCodeForTokens lib cfg post c = ok t)
     \<and> CheckEmailAuthorization lib cfg t = ok ()"

fun logins :: "string \<Rightarrow> oauth_event list \<Rightarrow> nat" where
  "logins h [] = 0"
| "logins h (e # es) = (if e = LoginCreated h then 1 else 0) + logins h es"

fun deliveries :: "oauth_lib \<Rightarrow> oauth_config \<Rightarrow> string \<Rightarrow> oauth_event list \<Rightarrow> nat" where
  "deliveries lib cfg h [] = 0"
| "deliveries lib cfg h (e # es) =
     (case e of TokenDelivered u t \<Rightarrow> if session_hash lib cfg u = h then 1 else 0 | _ \<Rightarrow> 0)
       + deliveries lib cfg h es"

lemma logins_append [simp]: "logins h (xs @ ys) = logins h xs + logins h ys"
  by (induction xs) auto

lemma deliveries_append [simp]: "deliveries lib cfg h (xs @ ys) = deliveries lib cfg h xs + deliveries lib cfg h ys"
  by (induction xs) auto

definition oauth_ok :: "oauth_lib \<Rightarrow> oauth_config \<Rightarrow> oauth_event list \<Rightarrow> oauth_state \<Rightarrow> bool" where
  "oauth_ok lib cfg es s \<longleftrightarrow>
     (\<forall>h pa t. fst s h = Some pa \<longrightarrow> pa_id_token pa = Some t \<longrightarrow> token_origin lib cfg es h t)
     \<and> (\<forall>c h. (c, h) \<in> set (snd s) \<longrightarrow> CallbackBegan c h \<in> set es)
     \<and> (\<forall>h. deliveries lib cfg h es + (if fst s h = None then 0 else 1) \<le> logins h es)"

lemma token_origin_mono: "token_origin lib cfg es h t \<Longrightarrow> token_origin lib cfg (es @ es') h t"
  by (auto simp: token_origin_def)

text \<open>What one step may do to the table.\<close>

lemma oauth_ok_table:
  assumes "oauth_ok lib cfg es (P, fl)" and "set fl' \<subseteq> set fl"
    and "\<And>h pa' t. P' h = Some pa' \<Longrightarrow> pa_id_token pa' = Some t \<Longrightarrow>
      (\<exists>pa. P h = Some pa \<and> pa_id_token pa = Some t) \<or> token_origin lib cfg (es @ [e]) h t"
    and "\<And>h. deliveries lib cfg h [e] + (if P' h = None then 0 else 1) \<le> logins h [e] + (if P h = None then 0 else 1)"
  shows "oauth_ok lib cfg (es @ [e]) (P', fl')"
proof -
  have "deliveries lib cfg h (es @ [e]) + (if P' h = None then 0 else 1) \<le> logins h (es @ [e])" for h
  proof -
    have "deliveries lib cfg h es + (if P h = None then 0 else 1) \<le> logins h es"
      using assms(1) by (simp add: oauth_ok_def)
    then show ?thesis using assms(4) [of h] unfolding deliveries_append logins_append by linarith
  qed
  moreover have "token_origin lib cfg (es @ [e]) h t" if "P' h = Some pa" "pa_id_token pa = Some t" for h pa t
    using assms(1) assms(3) [OF that] by (auto simp: oauth_ok_def intro: token_origin_mono)
  moreover have "CallbackBegan c h \<in> set (es @ [e])" if "(c, h) \<in> set fl'" for c h
    using assms(1,2) that by (auto simp: oauth_ok_def)
  ultimately show ?thesis by (simp add: oauth_ok_def)
qed

lemma set_take_drop_subset: "set (take i xs @ drop (Suc i) xs) \<subseteq> set xs"
  by (auto dest: in_set_takeD in_set_dropD)

lemma ostep_ok:
  assumes "ostep lib cfg s e s'" and "oauth_ok lib cfg es s"
  shows "oauth_ok lib cfg (es @ [e]) s'"
  using assms(1)
proof (cases rule: ostep.cases)
  case (initiate uuid now P r P' fl)
  then show ?thesis
    using assms(2) by (auto intro!: oauth_ok_table simp: HandleInitiate_def Let_def fresh_auth_def split: if_splits)
next
  case (start params now P r P' h fl)
  then have "P' = P(h \<mapsto> fresh_auth now)"
    by (auto simp: HandleStart_def reply_def split: if_splits)
  then show ?thesis
    using start assms(2) by (auto intro!: oauth_ok_table simp: fresh_auth_def split: if_splits)
next
  case (start_refused params now P r P' fl)
  then have "P' = P" by (auto simp: HandleStart_def split: option.splits if_splits)
  then show ?thesis using start_refused assms(2) by (auto intro!: oauth_ok_table)
next
  case (callback_answered params P r P' fl)
  then have "P' = P \<or> (\<exists>h d. P' = set_error h d P)"
    by (auto simp: callback_begin_def Let_def split: option.splits if_splits)
  then show ?thesis
    using callback_answered assms(2) by (auto intro!: oauth_ok_table split: if_splits)
next
  case (callback_exchanges params P c h P' fl)
  then have "P' = P"
    by (auto simp: callback_begin_def Let_def split: option.splits if_splits)
  then show ?thesis
    using callback_exchanges assms(2) by (auto simp: oauth_ok_def intro: token_origin_mono)
next
  case (callback_fails i fl c h post err P r P')
  then have "P' = set_error h (message err) P"
    by (auto simp: rbind_def split: sum.splits)
  then show ?thesis
    using callback_fails assms(2) set_take_drop_subset [of i fl]
    by (auto intro!: oauth_ok_table split: if_splits simp del: set_append)
next
  case (callback_stores i fl c h post t P r P')
  then have P': "P' = set_token h t P" by simp
  have "(c, h) \<in> set fl" using callback_stores nth_mem [of i fl] by force
  then have "CallbackBegan c h \<in> set es" using assms(2) callback_stores by (auto simp: oauth_ok_def)
  then have "token_origin lib cfg (es @ [e]) h t" using callback_stores by (auto simp: token_origin_def)
  then show ?thesis
    using callback_stores P' assms(2) set_take_drop_subset [of i fl]
    by (auto intro!: oauth_ok_table split: if_splits simp del: set_append)
next
  case (poll_delivers uuid P r P' t fl)
  from HandleTokenPoll_delivers [OF poll_delivers(4,5)] show ?thesis
    using poll_delivers assms(2) by (auto intro!: oauth_ok_table split: if_splits)
next
  case (poll_waits uuid P r P' fl)
  from HandleTokenPoll_waits [OF poll_waits(4,5)] show ?thesis
    using poll_waits assms(2) by (auto intro!: oauth_ok_table)
next
  case (cleanup P fl now)
  then show ?thesis
    using assms(2)
    by (auto intro!: oauth_ok_table simp: CleanupExpiredSessions_def split: option.splits if_splits)
qed

lemma osteps_ok: "osteps lib cfg s es s' \<Longrightarrow> s = (Map.empty, []) \<Longrightarrow> oauth_ok lib cfg es s'"
proof (induction rule: osteps.induct)
  case (osteps_none s)
  then show ?case by (simp add: oauth_ok_def)
qed (blast intro: ostep_ok)

text \<open>
  C11: However logins, callbacks, polls and cleanups interleave, a token that is handed to a poll was stored
  before for exactly the session of the polled UUID, by a callback that had begun with that session's hash
  and whose code the identity provider exchanged for this token, and its user is on the list of
  authorized e-mails; and the session had delivered fewer tokens so far than logins were created for it,
  so every login yields at most one token.
\<close>

theorem delivered_token_was_exchanged:
  assumes "osteps lib cfg (Map.empty, []) (es @ [TokenDelivered uuid t]) s"
  shows "(\<exists>c post. CallbackBegan c (session_hash lib cfg uuid) \<in> set es
        \<and> TokenStored c (session_hash lib cfg uuid) t \<in> set es
        \<and> ExchangeCodeForTokens lib cfg post c = ok t)
    \<and> CheckEmailAuthorization lib cfg t = ok ()
    \<and> deliveries lib cfg (session_hash lib cfg uuid) es < logins (session_hash lib cfg uuid) es"
proof -
  obtain s1 where run: "osteps lib cfg (Map.empty, []) es s1" "ostep lib cfg s1 (TokenDelivered uuid t) s"
    using assms by (auto elim: osteps.cases)
  have inv: "oauth_ok lib cfg es s1" using osteps_ok [OF run(1) refl] .
  from run(2) obtain pa where "fst s1 (session_hash lib cfg uuid) = Some pa" "pa_id_token pa = Some t"
    by (auto elim!: ostep.cases dest!: HandleTokenPoll_delivers)
  with inv have "token_origin lib cfg es (session_hash lib cfg uuid) t"
    and "deliveries lib cfg (session_hash lib cfg uuid) es + 1 \<le> logins (session_hash lib cfg uuid) es"
    unfolding oauth_ok_def by (blast, metis option.distinct(1))
  then show ?thesis by (auto simp: token_origin_def)
qed

section \<open>The abstract login table\<close>

text \<open>
  What the table promises: a session is unknown, waiting, done with a token or failed. A result is taken
  once; a failure stays; a failure after a result replaces it.
\<close>

datatype login = Unknown | Waiting | Done string | Failed string

definition abs_auth :: "pending_auth option \<Rightarrow> login" where
  "abs_auth pa =
     (case pa of
        None \<Rightarrow> Unknown
      | Some a \<Rightarrow>
          (case (pa_error a, pa_id_token a) of
             (Some e, _) \<Rightarrow> Failed e
           | (None, Some t) \<Rightarrow> Done t
           | (None, None) \<Rightarrow> Waiting))"

definition abs_table :: "pendings \<Rightarrow> string \<Rightarrow> login" where
  "abs_table P h = abs_auth (P h)"

fun finish :: "string result \<Rightarrow> login \<Rightarrow> login" where
  "finish r Unknown = Unknown"
| "finish (Inl e) l = Failed (message e)"
| "finish (Inr t) (Failed e) = Failed e"
| "finish (Inr t) l = Done t"

fun taken :: "login \<Rightarrow> login" where
  "taken (Done t) = Unknown"
| "taken l = l"

fun login_answer :: "login \<Rightarrow> http_response" where
  "login_answer Unknown = reply 404 (Json [(''status'', ''not_found'')])"
| "login_answer Waiting = reply 200 (Json [(''status'', ''pending'')])"
| "login_answer (Done t) = reply 200 (Json [(''status'', ''complete''), (''token'', t)])"
| "login_answer (Failed e) = reply 200 (Json [(''error'', e), (''status'', ''error'')])"

lemma abs_auth_simps [simp]:
  "abs_auth None = Unknown"
  "abs_auth (Some (fresh_auth now)) = Waiting"
  "abs_auth (map_option (pa_error_update (\<lambda>_. Some e)) pa) = (case pa of None \<Rightarrow> Unknown | Some _ \<Rightarrow> Failed e)"
  by (auto simp: abs_auth_def fresh_auth_def split: option.split)

lemma abs_auth_iffs [simp]:
  "abs_auth pa = Unknown \<longleftrightarrow> pa = None"
  "abs_auth (Some a) = Waiting \<longleftrightarrow> pa_id_token a = None \<and> pa_error a = None"
  by (auto simp: abs_auth_def split: option.splits)

lemma abs_table_upd [simp]: "abs_table (P(h := pa)) = (abs_table P)(h := abs_auth pa)"
  by (auto simp: abs_table_def)

lemma abs_set_error: "abs_table (set_error h e P) = (abs_table P)(h := finish (fail Invalid e) (abs_table P h))"
  by (auto simp: abs_table_def fun_eq_iff set_error_def abs_auth_def split: option.split)

lemma abs_set_token: "abs_table (set_token h t P) = (abs_table P)(h := finish (ok t) (abs_table P h))"
  by (auto simp: abs_table_def fun_eq_iff set_token_def abs_auth_def split: option.split)

lemma finish_message: "finish (Inl e) l = finish (fail Invalid (message e)) l"
  by (cases l) simp_all

lemma HandleTokenPoll_abs:
  "fst (HandleTokenPoll lib cfg uuid P) = login_answer (abs_table P (session_hash lib cfg uuid))
    \<and> abs_table (snd (HandleTokenPoll lib cfg uuid P))
      = (abs_table P)(session_hash lib cfg uuid := taken (abs_table P (session_hash lib cfg uuid)))"
  by (auto simp: HandleTokenPoll_def Let_def abs_table_def abs_auth_def fun_eq_iff split: option.split)

lemma callback_end_abs:
  "abs_table (snd (callback_end lib cfg h answer P))
    = (abs_table P)(h := finish (rbind answer (\<lambda>t. rbind (CheckEmailAuthorization lib cfg t) (\<lambda>_. ok t))) (abs_table P h))"
proof (cases "rbind answer (\<lambda>t. rbind (CheckEmailAuthorization lib cfg t) (\<lambda>_. ok t))")
  case (Inl e)
  then show ?thesis by (simp add: callback_end_def abs_set_error finish_message [of e])
qed (simp add: callback_end_def abs_set_token)

text \<open>
  C12: The server's table implements the abstract one: a poll answers by the session's abstract state and
  takes a finished login, so that a second poll does not find it; the end of a callback finishes the
  session it began for and no other; a callback goes on to the exchange exactly when its session is
  waiting, and until then it changes nothing, unless the identity provider reports an error: then it
  finishes the session its state names with that error, and no other; a new login makes its session
  waiting; \<open>/oauth/start\<close> never touches a known session; the cleanup forgets exactly the sessions older
  than the time limit.
\<close>

theorem login_table_refines:
  "fst (HandleTokenPoll lib cfg uuid P) = login_answer (abs_table P (session_hash lib cfg uuid))
   \<and> abs_table (snd (HandleTokenPoll lib cfg uuid P))
    = (abs_table P)(session_hash lib cfg uuid := taken (abs_table P (session_hash lib cfg uuid)))
   \<and> abs_table (snd (callback_end lib cfg h answer P))
    = (abs_table P)(h := finish (rbind answer (\<lambda>t. rbind (CheckEmailAuthorization lib cfg t) (\<lambda>_. ok t))) (abs_table P h))
   \<and> (fst (callback_begin lib params P) = Inr (c, h)
    \<longleftrightarrow> map_of params ''error'' = None \<and> map_of params ''code'' = Some c \<and> map_of params ''state'' = Some h
      \<and> abs_table P h = Waiting)
   \<and> abs_table (snd (callback_begin lib params P))
    = (case (map_of params ''error'', map_of params ''state'') of
         (Some e, Some h1) \<Rightarrow>
           (abs_table P)(h1 := finish (fail Invalid (case map_of params ''error_description'' of
                                          None \<Rightarrow> e | Some d \<Rightarrow> d)) (abs_table P h1))
       | _ \<Rightarrow> abs_table P)
   \<and> abs_table (snd (HandleInitiate lib cfg uuid now P)) = (abs_table P)(session_hash lib cfg uuid := Waiting)
   \<and> (abs_table (snd (HandleStart lib cfg params now P)) = (case map_of params ''session'' of None \<Rightarrow> abs_table P
        | Some h1 \<Rightarrow> if h1 \<noteq> [] \<and> abs_table P h1 = Unknown then (abs_table P)(h1 := Waiting) else abs_table P))
   \<and> abs_table (CleanupExpiredSessions now P) h
    = (case P h of None \<Rightarrow> Unknown
         | Some pa \<Rightarrow> if now - created_at pa > challenge_timeout then Unknown else abs_table P h)"
proof (intro conjI)
  show "fst (callback_begin lib params P) = Inr (c, h)
    \<longleftrightarrow> map_of params ''error'' = None \<and> map_of params ''code'' = Some c \<and> map_of params ''state'' = Some h
      \<and> abs_table P h = Waiting"
    by (auto simp: callback_begin_def Let_def abs_table_def split: option.splits)
  show "abs_table (snd (HandleStart lib cfg params now P)) = (case map_of params ''session'' of None \<Rightarrow> abs_table P
        | Some h1 \<Rightarrow> if h1 \<noteq> [] \<and> abs_table P h1 = Unknown then (abs_table P)(h1 := Waiting) else abs_table P)"
    by (auto simp: HandleStart_def abs_table_def split: option.splits)
  show "abs_table (snd (callback_begin lib params P))
    = (case (map_of params ''error'', map_of params ''state'') of
         (Some e, Some h1) \<Rightarrow>
           (abs_table P)(h1 := finish (fail Invalid (case map_of params ''error_description'' of
                                          None \<Rightarrow> e | Some d \<Rightarrow> d)) (abs_table P h1))
       | _ \<Rightarrow> abs_table P)"
    by (auto simp: callback_begin_def Let_def abs_set_error split: option.split)
  show "abs_table (CleanupExpiredSessions now P) h
    = (case P h of None \<Rightarrow> Unknown
         | Some pa \<Rightarrow> if now - created_at pa > challenge_timeout then Unknown else abs_table P h)"
    by (auto simp: CleanupExpiredSessions_def abs_table_def split: option.split)
qed (simp_all add: HandleTokenPoll_abs callback_end_abs HandleInitiate_def Let_def)

text \<open>
  A login that has succeeded can still be turned into a failure. A browser that repeats the callback
  (or two tabs) starts two exchanges of the same code, because each passes the check for a pending
  session before either stores its result; the first stores the token, the identity provider refuses the
  second use of the code, and the poll of the user, who saw the success page, gets the error.
\<close>

theorem repeated_callback_overturns_login:
  assumes "abs_table P (session_hash lib cfg uuid) = Waiting"
    and "ExchangeCodeForTokens lib cfg post c = ok t" and "CheckEmailAuthorization lib cfg t = ok ()"
    and "ExchangeCodeForTokens lib cfg post' c = Inl e"
  shows "\<exists>P'. osteps lib cfg (P, [])
      [CallbackBegan c (session_hash lib cfg uuid), CallbackBegan c (session_hash lib cfg uuid),
       TokenStored c (session_hash lib cfg uuid) t, Quiet] (P', [])
    \<and> fst (HandleTokenPoll lib cfg uuid P') = reply 200 (Json [(''error'', message e), (''status'', ''error'')])"
proof -
  let ?h = "session_hash lib cfg uuid"
  let ?params = "[(''code'', c), (''state'', ?h)]"
  obtain pa where pa: "P ?h = Some pa" "pa_id_token pa = None" "pa_error pa = None"
    using assms(1) by (cases "P ?h") (auto simp: abs_table_def)
  have first: "callback_begin lib ?params P = (Inr (c, ?h), P)"
    by (simp add: callback_begin_def pa)
  have 1: "ostep lib cfg (P, []) (CallbackBegan c ?h) (P, [(c, ?h)])"
    using callback_exchanges [OF first, of cfg "[]"] by simp
  have 2: "ostep lib cfg (P, [(c, ?h)]) (CallbackBegan c ?h) (P, [(c, ?h), (c, ?h)])"
    using callback_exchanges [OF first, of cfg "[(c, ?h)]"] by simp
  have 3: "ostep lib cfg (P, [(c, ?h), (c, ?h)]) (TokenStored c ?h t) (set_token ?h t P, [(c, ?h)])"
    using callback_stores [of 0 "[(c, ?h), (c, ?h)]" c ?h lib cfg post t P] assms(2,3) by simp
  have 4: "ostep lib cfg (set_token ?h t P, [(c, ?h)]) Quiet (set_error ?h (message e) (set_token ?h t P), [])"
    using callback_fails [of 0 "[(c, ?h)]" c ?h lib cfg post' e "set_token ?h t P"] assms(4) by simp
  have "osteps lib cfg (P, []) ([] @ [CallbackBegan c ?h] @ [CallbackBegan c ?h] @ [TokenStored c ?h t] @ [Quiet])
      (set_error ?h (message e) (set_token ?h t P), [])"
    using 1 2 3 4 unfolding append_assoc [symmetric] by (blast intro: osteps.intros)
  moreover have "fst (HandleTokenPoll lib cfg uuid (set_error ?h (message e) (set_token ?h t P)))
      = reply 200 (Json [(''error'', message e), (''status'', ''error'')])"
    by (simp add: HandleTokenPoll_def Let_def pa)
  ultimately show ?thesis by auto
qed

section \<open>The client waits\<close>

lemma http_number: "show_int 404 = ''404''" "show_int 300 = ''300''"
  by code_simp+

lemma client_view_poll [simp]:
  "poll_reply lib (client_view (login_answer Waiting)) = None"
  "poll_reply lib (client_view (login_answer (Done t))) = Some (Inr (ok t))"
  "poll_reply lib (client_view (login_answer (Failed e))) = Some (Inr (fail IOError ''OAuth login failed: Unknown OAuth error''))"
  "poll_reply lib (client_view (login_answer Unknown)) = Some (Inr (fail IOError ''OAuth token poll failed with HTTP 404''))"
  by (simp_all add: client_view_def poll_reply_def reply_def json_value_def member_def get_string_def xbind_def
      http_number)

lemma poll_from_waits:
  assumes "\<And>j. k \<le> j \<Longrightarrow> j < n \<Longrightarrow> poll_reply lib (replies j) = None \<and> cdiv (clock j) 1000 < poll_timeout_seconds"
    and "k \<le> n"
  shows "poll_from lib clock replies k = poll_from lib clock replies n"
  using assms(2,1)
proof (induction rule: inc_induct)
  case (step j)
  then show ?case by (subst poll_from.simps) force
qed simp

text \<open>
  C13: The client gets its token: if at the client's \<open>n\<close>-th poll the server has finished the login of
  its UUID with a token, was still waiting at all polls before, and the five minutes have not passed, then
  the client's loop returns exactly that token, whatever the table went through in between.
\<close>

theorem client_gets_the_token:
  assumes "\<forall>k<n. abs_table (P k) (session_hash lib cfg uuid) = Waiting"
    and "abs_table (P n) (session_hash lib cfg uuid) = Done t"
    and "\<forall>k\<le>n. 0 \<le> clock k \<and> clock k < 300000"
  shows "PollForToken lib' clock (\<lambda>k. client_view (fst (HandleTokenPoll lib cfg uuid (P k)))) = Some (Inr (ok t))"
proof -
  let ?r = "\<lambda>k. client_view (fst (HandleTokenPoll lib cfg uuid (P k)))"
  have time: "k \<le> n \<Longrightarrow> cdiv (clock k) 1000 < poll_timeout_seconds" for k
    using assms(3) by (auto simp: poll_timeout_seconds_def)
  have "PollForToken lib' clock ?r = poll_from lib' clock ?r n"
    unfolding PollForToken_def using assms(1) time
    by (intro poll_from_waits) (auto simp: HandleTokenPoll_abs simp del: login_answer.simps)
  also have "\<dots> = Some (Inr (ok t))"
    using time [of n] assms(2)
    by (subst poll_from.simps) (simp add: HandleTokenPoll_abs del: login_answer.simps)
  finally show ?thesis .
qed

text \<open>
  The client always comes back: if every round takes at least the second that it sleeps, the loop ends,
  whatever the server answers, after at most 301 rounds; without an answer other than \<open>pending\<close> it
  ends with the timeout error.
\<close>

theorem polling_ends:
  assumes "0 \<le> clock 0" and "\<forall>k. clock k + 1000 \<le> clock (Suc k)"
  shows "\<exists>n\<le>300. PollForToken lib clock replies = Some
     (case poll_reply lib (replies n) of
        Some r \<Rightarrow> (if cdiv (clock n) 1000 \<ge> poll_timeout_seconds
                   then Inr (fail IOError ''OAuth login timed out after 300 seconds'') else r)
      | None \<Rightarrow> Inr (fail IOError ''OAuth login timed out after 300 seconds''))"
proof -
  let ?stop = "\<lambda>n. cdiv (clock n) 1000 \<ge> poll_timeout_seconds \<or> poll_reply lib (replies n) \<noteq> None"
  have grow: "1000 * int k \<le> clock k" for k
  proof (induction k)
    case (Suc k)
    then show ?case using assms(2) [rule_format, of k] by simp
  qed (use assms(1) in simp)
  have "300000 \<le> clock 300" using grow [of 300] by simp
  then have "300000 div 1000 \<le> clock 300 div 1000" by (rule zdiv_mono1) simp
  then have "?stop 300" using \<open>300000 \<le> clock 300\<close> by (simp add: poll_timeout_seconds_def)
  then obtain n where n: "?stop n" "\<And>k. k < n \<Longrightarrow> \<not> ?stop k" "n \<le> 300"
    using LeastI [of ?stop 300] not_less_Least [of _ ?stop] Least_le [of ?stop 300] by blast
  have "PollForToken lib clock replies = poll_from lib clock replies n"
    unfolding PollForToken_def using n(2) by (intro poll_from_waits) (auto simp: not_le)
  moreover have "poll_from lib clock replies n = Some
     (case poll_reply lib (replies n) of
        Some r \<Rightarrow> (if cdiv (clock n) 1000 \<ge> poll_timeout_seconds
                   then Inr (fail IOError ''OAuth login timed out after 300 seconds'') else r)
      | None \<Rightarrow> Inr (fail IOError ''OAuth login timed out after 300 seconds''))"
    using n(1) by (subst poll_from.simps)
      (auto simp: poll_timeout_seconds_def http_number split: option.split)
  ultimately show ?thesis using n(3) by auto
qed

text \<open>
  The reason of a failed login never reaches the user: the server sends it as \<open>error\<close>, the client reads
  \<open>message\<close>. Whatever the error, the client reports an unknown one.
\<close>

theorem login_error_reason_is_lost:
  assumes "abs_table (P 0) (session_hash lib cfg uuid) = Failed e" and "0 \<le> clock 0" and "clock 0 < 300000"
  shows "PollForToken lib' clock (\<lambda>k. client_view (fst (HandleTokenPoll lib cfg uuid (P k))))
    = Some (Inr (fail IOError ''OAuth login failed: Unknown OAuth error''))"
  unfolding PollForToken_def using assms
  by (subst poll_from.simps) (simp add: HandleTokenPoll_abs poll_timeout_seconds_def del: login_answer.simps)

section \<open>The error page\<close>

lemma replace_placeholder_first:
  assumes "pat = c # p'" and "c \<notin> set pre"
  shows "replace_placeholder pat new (pre @ pat @ post) = pre @ new @ post"
  using find_sub_append [OF assms, of post] by (simp add: replace_placeholder_def)

definition error_page_head :: string where
  "error_page_head = text_of_lines
     [''<!DOCTYPE html>'', ''<html>'', ''<head>'', ''  <meta charset=\"utf-8\">'',
      ''  <title>GizmoSQL - Authentication Failed</title>'', ''  '']"

definition error_page_logo :: string where
  "error_page_logo = text_of_lines
     [[], ''</head>'', ''<body>'', ''  <div class=\"container\">'',
      ''    <img class=\"logo\" src=\"data:image/png;base64,'']"

definition error_page_mid :: string where
  "error_page_mid = text_of_lines
     [''\" alt=\"GizmoSQL\">'', ''    <h1>Authentication Failed</h1>'', ''    <p class=\"error\">'']"

definition error_page_foot :: string where
  "error_page_foot = text_of_lines
     [''</p>'', ''    <p>Please close this tab and try again.</p>'', ''  </div>'', ''</body>'', ''</html>'']"

lemma kOAuthErrorPage_parts:
  "kOAuthErrorPage = error_page_head @ ''%STYLES%'' @ error_page_logo @ ''%LOGO%'' @ error_page_mid @ ''%ERROR%''
     @ error_page_foot"
  by (simp add: kOAuthErrorPage_def error_page_head_def error_page_logo_def error_page_mid_def error_page_foot_def)

lemma error_page_plain:
  "CHR 0x25 \<notin> set error_page_head" "CHR 0x25 \<notin> set error_page_logo" "CHR 0x25 \<notin> set error_page_mid"
  "CHR 0x25 \<notin> set kOAuthPageStyles"
  by (simp_all add: error_page_head_def error_page_logo_def error_page_mid_def kOAuthPageStyles_def)

lemma RenderPage_error:
  assumes "CHR 0x25 \<notin> set logo"
  shows "RenderPage logo kOAuthErrorPage err
    = (error_page_head @ kOAuthPageStyles @ error_page_logo @ logo @ error_page_mid) @ err @ error_page_foot"
proof -
  have 1: "replace_placeholder ''%STYLES%'' kOAuthPageStyles kOAuthErrorPage
      = error_page_head @ kOAuthPageStyles @ error_page_logo @ ''%LOGO%'' @ error_page_mid @ ''%ERROR%'' @ error_page_foot"
    unfolding kOAuthErrorPage_parts
    by (rule replace_placeholder_first) (rule refl, rule error_page_plain)
  have 2: "replace_placeholder ''%LOGO%'' logo
      ((error_page_head @ kOAuthPageStyles @ error_page_logo) @ ''%LOGO%'' @ error_page_mid @ ''%ERROR%'' @ error_page_foot)
    = (error_page_head @ kOAuthPageStyles @ error_page_logo) @ logo @ error_page_mid @ ''%ERROR%'' @ error_page_foot"
    using error_page_plain by (intro replace_placeholder_first) auto
  have 3: "replace_placeholder ''%ERROR%'' err
      ((error_page_head @ kOAuthPageStyles @ error_page_logo @ logo @ error_page_mid) @ ''%ERROR%'' @ error_page_foot)
    = (error_page_head @ kOAuthPageStyles @ error_page_logo @ logo @ error_page_mid) @ err @ error_page_foot"
    using error_page_plain assms by (intro replace_placeholder_first) auto
  show ?thesis
    using 2 3 unfolding RenderPage_def 1 by (simp only: append_assoc)
qed

text \<open>
  The callback page contains the text of the request unescaped: whoever makes a browser open
  \<open>/oauth/callback?error=...&error_description=D\<close> gets a page of the server in which \<open>D\<close> stands as
  markup between the same two fixed texts, right after the opening tag of the error paragraph, whether or
  not any login is pending. So a description that is a script element is part of the page.
\<close>

theorem callback_page_reflects_its_parameter:
  assumes "CHR 0x25 \<notin> set (oa_logo lib)"
  shows "\<exists>pre post. suffix ''<p class=\"error\">'' pre \<and> prefix ''</p>'' post
    \<and> (\<forall>e d P. callback_begin lib [(''error'', e), (''error_description'', d)] P
          = (Inl (reply 200 (Html (pre @ d @ post))), P))"
proof (intro exI conjI allI)
  show "suffix ''<p class=\"error\">''
      (error_page_head @ kOAuthPageStyles @ error_page_logo @ oa_logo lib @ error_page_mid)"
    by (intro suffix_appendI) (simp add: error_page_mid_def suffix_def)
  show "prefix ''</p>'' error_page_foot" by (simp add: error_page_foot_def)
  show "callback_begin lib [(''error'', e), (''error_description'', d)] P
      = (Inl (reply 200 (Html ((error_page_head @ kOAuthPageStyles @ error_page_logo @ oa_logo lib @ error_page_mid)
           @ d @ error_page_foot))), P)" for e d P
    unfolding RenderPage_error [OF assms, symmetric] by (simp add: callback_begin_def error_page_def)
qed

section \<open>Samples\<close>

definition sample_oauth :: oauth_lib where
  "sample_oauth =
     \<lparr>oa_auth = sample_auth, nl_parse = (\<lambda>s. Inr (JObject [(''id_token'', JString s)])), nl_type_error = ''type'',
      oa_logo = ''iVBO''\<rparr>"

definition sample_oauth_config :: oauth_config where
  "sample_oauth_config =
     \<lparr>oc_port = 31339, oc_client_id = ''id'', oc_client_secret = ''s'', oc_scopes = ''openid'',
      oc_redirect_uri = ''http://localhost:31339/oauth/callback'', oc_secret_key = ''k'', oc_patterns = [],
      oc_disable_tls = False, oc_tls_cert_path = [], oc_tls_key_path = [],
      oc_authorization_endpoint = ''https://idp/auth'', oc_token_endpoint = ''https://idp/token''\<rparr>"

abbreviation sample_hash :: string where
  "sample_hash \<equiv> session_hash sample_oauth sample_oauth_config ''u''"

definition waiting_table :: pendings where
  "waiting_table = [sample_hash \<mapsto> fresh_auth 0]"

lemma waiting_table_abs [simp]: "abs_table waiting_table sample_hash = Waiting"
  by (simp add: waiting_table_def abs_table_def)

lemma sample_exchange:
  "ExchangeCodeForTokens sample_oauth sample_oauth_config (\<lambda>b p ps. Inr (200, ''tok'')) ''c'' = ok ''tok''"
  "\<exists>e. ExchangeCodeForTokens sample_oauth sample_oauth_config (\<lambda>b p ps. Inr (400, ''used'')) ''c'' = Inl e"
  by (simp_all add: ExchangeCodeForTokens_def sample_oauth_config_def split_url_def sample_oauth_def
      token_of_response_def member_def xbind_def)

lemma sample_email: "CheckEmailAuthorization sample_oauth sample_oauth_config ''tok'' = ok ()"
  by (simp add: CheckEmailAuthorization_def sample_oauth_def oauth_username_def claim_def claim_text_def
      token_claims_def sample_spec_def xbind_def oauth_IsEmailAuthorized_def sample_oauth_config_def)

theorem delivered_token_was_exchanged_witness:
  "CheckEmailAuthorization sample_oauth sample_oauth_config ''tok'' = ok ()
    \<and> deliveries sample_oauth sample_oauth_config sample_hash
        [LoginCreated sample_hash, CallbackBegan ''c'' sample_hash, TokenStored ''c'' sample_hash ''tok'']
      < logins sample_hash [LoginCreated sample_hash, CallbackBegan ''c'' sample_hash, TokenStored ''c'' sample_hash ''tok'']"
proof -
  let ?params = "[(''code'', ''c''), (''state'', sample_hash)]"
  have 1: "ostep sample_oauth sample_oauth_config (Map.empty, []) (LoginCreated sample_hash) (waiting_table, [])"
    using initiate [of sample_oauth sample_oauth_config "''u''" 0 Map.empty]
    by (simp add: HandleInitiate_def Let_def waiting_table_def)
  have "callback_begin sample_oauth ?params waiting_table = (Inr (''c'', sample_hash), waiting_table)"
    by (simp add: callback_begin_def waiting_table_def fresh_auth_def)
  from callback_exchanges [OF this, of sample_oauth_config "[]"]
  have 2: "ostep sample_oauth sample_oauth_config (waiting_table, []) (CallbackBegan ''c'' sample_hash)
      (waiting_table, [(''c'', sample_hash)])"
    by simp
  have 3: "ostep sample_oauth sample_oauth_config (waiting_table, [(''c'', sample_hash)])
      (TokenStored ''c'' sample_hash ''tok'') (set_token sample_hash ''tok'' waiting_table, [])"
    using callback_stores [of 0 "[(''c'', sample_hash)]" "''c''" sample_hash, OF _ _ sample_exchange(1) sample_email]
    by (simp add: sample_email)
  obtain r P' where poll: "HandleTokenPoll sample_oauth sample_oauth_config ''u''
      (set_token sample_hash ''tok'' waiting_table) = (r, P')"
    by (rule prod.exhaust)
  then have "rs_content r = Json [(''status'', ''complete''), (''token'', ''tok'')]"
    by (auto simp: HandleTokenPoll_def Let_def waiting_table_def fresh_auth_def reply_def)
  from poll_delivers [OF poll this, of "[]"]
  have 4: "ostep sample_oauth sample_oauth_config (set_token sample_hash ''tok'' waiting_table, [])
      (TokenDelivered ''u'' ''tok'') (P', [])" .
  have "osteps sample_oauth sample_oauth_config (Map.empty, [])
      (([] @ [LoginCreated sample_hash] @ [CallbackBegan ''c'' sample_hash]) @ [TokenStored ''c'' sample_hash ''tok'']
        @ [TokenDelivered ''u'' ''tok'']) (P', [])"
    using 1 2 3 4 unfolding append_assoc [symmetric] by (blast intro: osteps.intros)
  then have "osteps sample_oauth sample_oauth_config (Map.empty, [])
      ([LoginCreated sample_hash, CallbackBegan ''c'' sample_hash, TokenStored ''c'' sample_hash ''tok'']
        @ [TokenDelivered ''u'' ''tok'']) (P', [])"
    by (simp only: append_Nil append_Cons)
  from delivered_token_was_exchanged [OF this] show ?thesis by blast
qed

theorem repeated_callback_overturns_login_witness:
  "\<exists>P' e. fst (HandleTokenPoll sample_oauth sample_oauth_config ''u'' P')
    = reply 200 (Json [(''error'', e), (''status'', ''error'')])"
  using repeated_callback_overturns_login [OF waiting_table_abs sample_exchange(1) sample_email] sample_exchange(2)
  by blast

theorem client_gets_the_token_witness:
  "PollForToken sample_oauth (\<lambda>k. 1000 * int k) (\<lambda>k. client_view (fst (HandleTokenPoll sample_oauth sample_oauth_config ''u''
      (if k < 2 then waiting_table else set_token sample_hash ''tok'' waiting_table)))) = Some (Inr (ok ''tok''))"
  by (rule client_gets_the_token [where n = 2])
    (auto simp: abs_set_token)

theorem polling_ends_witness:
  "\<exists>n. PollForToken sample_oauth (\<lambda>k. 1000 * int k) (\<lambda>k. Reply 500 None) \<noteq> None \<and> n \<le> (300::nat)"
proof -
  have "\<exists>n\<le>300. PollForToken sample_oauth (\<lambda>k. 1000 * int k) (\<lambda>k. Reply 500 None) = Some
     (case poll_reply sample_oauth (Reply 500 None) of
        Some r \<Rightarrow> (if cdiv (1000 * int n) 1000 \<ge> poll_timeout_seconds
                   then Inr (fail IOError ''OAuth login timed out after 300 seconds'') else r)
      | None \<Rightarrow> Inr (fail IOError ''OAuth login timed out after 300 seconds''))"
    by (rule polling_ends) simp_all
  then show ?thesis by auto
qed

theorem login_error_reason_is_lost_witness:
  "PollForToken sample_oauth (\<lambda>k. 1000 * int k) (\<lambda>k. client_view (fst (HandleTokenPoll sample_oauth sample_oauth_config ''u''
      (set_error sample_hash ''access denied'' waiting_table))))
    = Some (Inr (fail IOError ''OAuth login failed: Unknown OAuth error''))"
  by (rule login_error_reason_is_lost [where e = "''access denied''"]) (simp_all add: abs_set_error)

theorem callback_page_reflects_its_parameter_witness:
  "\<exists>pre post. callback_begin sample_oauth [(''error'', ''x''), (''error_description'', ''<script>'')] waiting_table
    = (Inl (reply 200 (Html (pre @ ''<script>'' @ post))), waiting_table)"
proof -
  have "CHR 0x25 \<notin> set (oa_logo sample_oauth)" by (simp add: sample_oauth_def)
  from callback_page_reflects_its_parameter [OF this] show ?thesis by blast
qed

end
