(* ===== verification/Jwks.thy ===== *)
theory Jwks
  imports OAuth
begin

text \<open>
  The JWKS manager (\<open>src/src/enterprise/jwks/jwks_manager.cpp\<close>): the cache of the identity provider's
  public keys with its two time limits, the fetch that fills it, and the discovery of the provider's
  endpoints. The HTTP client, nlohmann's parser and jwt-cpp's key conversions are parameters; the clock
  counts nanoseconds; log lines are left out.
\<close>

section \<open>Fetching over HTTP\<close>

text \<open>\<open>http_get\<close>: base URL and path to the text of an error, or status and body.\<close>

type_synonym http_get = "string \<Rightarrow> string \<Rightarrow> string + int \<times> string"

text \<open>The port: a host without a colon has none (\<open>-1\<close>); \<open>None\<close> if what follows the colon is no number.\<close>

definition host_port :: "string \<Rightarrow> (string \<times> int) option" where
  "host_port host =
     (case find_char (CHR '':'') host of
        None \<Rightarrow> Some (host, - 1)
      | Some i \<Rightarrow> map_option (\<lambda>p. (take i host, p)) (stoi (drop (i + 1) host)))"

definition HttpGet :: "http_get \<Rightarrow> string \<Rightarrow> string result" where
  "HttpGet get url =
     (case find_sub ''://'' url of
        None \<Rightarrow> fail Invalid (''Invalid URL (no scheme): '' @ url)
      | Some i \<Rightarrow>
          (let rest = drop (i + 3) url;
               (host, path) = (case find_char (CHR ''/'') rest of
                                 None \<Rightarrow> (rest, ''/'') | Some k \<Rightarrow> (take k rest, drop k rest))
           in case host_port host of
                None \<Rightarrow> fail Invalid (''Invalid port in URL: '' @ url)
              | Some (h, port) \<Rightarrow>
                  (case get (take i url @ ''://'' @ h @ (if port > 0 then '':'' @ show_int port else [])) path of
                     Inl e \<Rightarrow> fail IOError (''HTTP GET failed for '' @ url @ '': '' @ e)
                   | Inr (st, body) \<Rightarrow>
                       (if st \<noteq> 200
                        then fail IOError (''HTTP GET '' @ url @ '' returned status '' @ show_int st)
                        else ok body))))"

section \<open>The cache\<close>

record cached_key =
  ck_pem :: string
  ck_algorithm :: string

record jwks_manager =
  jm_uri :: string
  jm_ttl :: int
  jm_cache :: "string \<Rightarrow> cached_key option"
  jm_last_fetch :: int
  jm_fetched :: bool

text \<open>\<open>parse_jwks\<close> gives the text of its exception, if any; the conversions their exception or the key.\<close>

record jwks_lib =
  jl_oauth :: oauth_lib
  parse_jwks :: "string \<Rightarrow> string option"
  rsa_to_pem :: "string \<Rightarrow> string \<Rightarrow> string + string"
  ec_to_pem :: "string \<Rightarrow> string \<Rightarrow> string \<Rightarrow> string + string"
  jl_status_to_string :: "status \<Rightarrow> string"

text \<open>The key of one entry: \<open>None\<close> when it is skipped (unknown type, missing parts, conversion failed).\<close>

definition key_of_entry :: "jwks_lib \<Rightarrow> string \<Rightarrow> json \<Rightarrow> string + string option" where
  "key_of_entry L kty k =
     (let val = (\<lambda>n. json_value (jl_oauth L) n [] k)
      in if kty = ''RSA''
         then xbind (val ''n'') (\<lambda>n. xbind (val ''e'') (\<lambda>e.
                Inr (if n \<noteq> [] \<and> e \<noteq> [] then (case rsa_to_pem L n e of Inl _ \<Rightarrow> None | Inr p \<Rightarrow> Some p) else None)))
         else if kty = ''EC''
         then xbind (val ''x'') (\<lambda>x. xbind (val ''y'') (\<lambda>y. xbind (val ''crv'') (\<lambda>c.
                Inr (if x \<noteq> [] \<and> y \<noteq> [] \<and> c \<noteq> []
                     then (case ec_to_pem L x y c of Inl _ \<Rightarrow> None | Inr p \<Rightarrow> Some p) else None))))
         else Inr None)"

fun load_keys :: "jwks_lib \<Rightarrow> json list \<Rightarrow> (string \<Rightarrow> cached_key option) \<Rightarrow> string + (string \<Rightarrow> cached_key option)" where
  "load_keys L [] cache = Inr cache"
| "load_keys L (k # ks) cache =
     (case member ''kid'' k of
        None \<Rightarrow> load_keys L ks cache
      | Some kj \<Rightarrow>
          xbind (get_string (jl_oauth L) kj) (\<lambda>kid.
          xbind (json_value (jl_oauth L) ''kty'' [] k) (\<lambda>kty.
          xbind (json_value (jl_oauth L) ''alg'' [] k) (\<lambda>alg.
          xbind (key_of_entry L kty k) (\<lambda>pem.
            load_keys L ks
              (case pem of None \<Rightarrow> cache | Some p \<Rightarrow> cache(kid \<mapsto> \<lparr>ck_pem = p, ck_algorithm = alg\<rparr>)))))))"

text \<open>The body as a new cache.\<close>

definition parse_keys :: "jwks_lib \<Rightarrow> string \<Rightarrow> string \<Rightarrow> (string \<Rightarrow> cached_key option) result" where
  "parse_keys L uri body =
     (case (case parse_jwks L body of
              Some e \<Rightarrow> Inl e
            | None \<Rightarrow>
                xbind (nl_parse (jl_oauth L) body) (\<lambda>j.
                  case member ''keys'' j of
                    Some (JArray ks) \<Rightarrow> xbind (load_keys L ks Map.empty) (\<lambda>c. Inr (Some c))
                  | _ \<Rightarrow> Inr None)) of
        Inl e \<Rightarrow> fail Invalid (''Failed to parse JWKS response: '' @ e)
      | Inr None \<Rightarrow> fail Invalid (''JWKS response missing '' @ [squote] @ ''keys'' @ [squote] @ '' array'')
      | Inr (Some c) \<Rightarrow>
          (if c = Map.empty then fail Invalid (''No usable keys found in JWKS response from '' @ uri) else ok c))"

text \<open>\<open>now\<close> is the clock when the answer has been read.\<close>

definition FetchAndParseJwks :: "jwks_lib \<Rightarrow> http_get \<Rightarrow> int \<Rightarrow> jwks_manager \<Rightarrow> unit result \<times> jwks_manager" where
  "FetchAndParseJwks L get now m =
     (case HttpGet get (jm_uri m) of
        Inl e \<Rightarrow> (fail IOError (''Failed to fetch JWKS from '' @ jm_uri m @ '': '' @ jl_status_to_string L e), m)
      | Inr body \<Rightarrow>
          (case parse_keys L (jm_uri m) body of
             Inl e \<Rightarrow> (Inl e, m)
           | Inr c \<Rightarrow> (ok (), m\<lparr>jm_cache := c, jm_last_fetch := now, jm_fetched := True\<rparr>)))"

definition seconds :: "int \<Rightarrow> int" where
  "seconds n = n * 1000000000"

text \<open>\<open>t\<close> is the clock under the lock, \<open>now\<close> that at the end of a fetch.\<close>

definition RefreshKeys :: "jwks_lib \<Rightarrow> http_get \<Rightarrow> int \<Rightarrow> int \<Rightarrow> jwks_manager \<Rightarrow> unit result \<times> jwks_manager" where
  "RefreshKeys L get t now m =
     (if jm_fetched m \<and> t - jm_last_fetch m < seconds 5 then (ok (), m) else FetchAndParseJwks L get now m)"

definition cached :: "int \<Rightarrow> string \<Rightarrow> jwks_manager \<Rightarrow> cached_key option" where
  "cached t kid m = (if jm_fetched m \<and> t - jm_last_fetch m < jm_ttl m then jm_cache m kid else None)"

text \<open>
  \<open>GetKeyForKid\<close> and \<open>GetAlgorithmForKid\<close> differ in the field they return. \<open>t0\<close>, \<open>t1\<close> and \<open>now\<close> are the
  clock at the first look-up, in \<open>RefreshKeys\<close> and after the fetch.
\<close>

record lookup_times =
  lt_first :: int
  lt_refresh :: int
  lt_fetched :: int

definition GetForKid ::
    "(cached_key \<Rightarrow> string) \<Rightarrow> jwks_lib \<Rightarrow> http_get \<Rightarrow> lookup_times \<Rightarrow> string \<Rightarrow> jwks_manager
     \<Rightarrow> string result \<times> jwks_manager" where
  "GetForKid sel L get ts kid m =
     (case cached (lt_first ts) kid m of
        Some k \<Rightarrow> (ok (sel k), m)
      | None \<Rightarrow>
          (case RefreshKeys L get (lt_refresh ts) (lt_fetched ts) m of
             (Inl e, m1) \<Rightarrow> (Inl e, m1)
           | (Inr _, m1) \<Rightarrow>
               (case jm_cache m1 kid of
                  Some k \<Rightarrow> (ok (sel k), m1)
                | None \<Rightarrow> (fail KeyError (''Key ID (kid) '' @ [squote] @ kid @ [squote]
                             @ '' not found in JWKS from '' @ jm_uri m), m1))))"

definition jwks_GetKeyForKid ::
    "jwks_lib \<Rightarrow> http_get \<Rightarrow> lookup_times \<Rightarrow> string \<Rightarrow> jwks_manager \<Rightarrow> string result \<times> jwks_manager" where
  "jwks_GetKeyForKid = GetForKid ck_pem"

definition jwks_GetAlgorithmForKid ::
    "jwks_lib \<Rightarrow> http_get \<Rightarrow> lookup_times \<Rightarrow> string \<Rightarrow> jwks_manager \<Rightarrow> string result \<times> jwks_manager" where
  "jwks_GetAlgorithmForKid = GetForKid ck_algorithm"

definition new_jwks_manager :: "string \<Rightarrow> jwks_manager" where
  "new_jwks_manager uri =
     \<lparr>jm_uri = uri, jm_ttl = seconds (5 * 60), jm_cache = Map.empty, jm_last_fetch = 0, jm_fetched = False\<rparr>"

section \<open>Discovery\<close>

record oidc_endpoints =
  ep_jwks_uri :: string
  ep_authorization :: string
  ep_token :: string

definition strip_slashes :: "string \<Rightarrow> string" where
  "strip_slashes s = rev (dropWhile (\<lambda>c. c = CHR ''/'') (rev s))"

definition endpoint_text :: "string \<Rightarrow> json \<Rightarrow> string" where
  "endpoint_text n j = (case member n j of Some (JString s) \<Rightarrow> s | _ \<Rightarrow> [])"

definition DiscoverOidcEndpoints :: "jwks_lib \<Rightarrow> http_get \<Rightarrow> string \<Rightarrow> oidc_endpoints result" where
  "DiscoverOidcEndpoints L get iss =
     (let url = strip_slashes iss @ ''/.well-known/openid-configuration''
      in rbind (HttpGet get url) (\<lambda>body.
           case nl_parse (jl_oauth L) body of
             Inl e \<Rightarrow> fail Invalid (''Failed to parse OIDC discovery document from '' @ url @ '': '' @ e)
           | Inr j \<Rightarrow>
               (case member ''jwks_uri'' j of
                  Some (JString u) \<Rightarrow>
                    ok \<lparr>ep_jwks_uri = u, ep_authorization = endpoint_text ''authorization_endpoint'' j,
                        ep_token = endpoint_text ''token_endpoint'' j\<rparr>
                | _ \<Rightarrow> fail Invalid (''OIDC discovery document missing '' @ [squote] @ ''jwks_uri'' @ [squote]
                         @ '' field from: '' @ url))))"

definition CreateFromIssuer :: "jwks_lib \<Rightarrow> http_get \<Rightarrow> string \<Rightarrow> jwks_manager result" where
  "CreateFromIssuer L get iss =
     rbind (DiscoverOidcEndpoints L get iss) (\<lambda>ep. ok (new_jwks_manager (ep_jwks_uri ep)))"

section \<open>Properties\<close>

lemma load_keys_origin:
  assumes "load_keys L ks cache = Inr c" and "c kid = Some ck"
  shows "cache kid = Some ck \<or> list_ex (\<lambda>k. member ''kid'' k = Some (JString kid)
    \<and> (\<exists>kty. key_of_entry L kty k = Inr (Some (ck_pem ck)))) ks"
  using assms
proof (induction L ks cache arbitrary: c rule: load_keys.induct)
  case (2 L k ks cache)
  show ?case
  proof (cases "member ''kid'' k")
    case None
    then show ?thesis using 2 by simp
  next
    case (Some kj)
    obtain kid' kty alg pem where parts: "get_string (jl_oauth L) kj = Inr kid'"
      "key_of_entry L kty k = Inr pem" "json_value (jl_oauth L) ''kty'' [] k = Inr kty"
      "json_value (jl_oauth L) ''alg'' [] k = Inr alg"
      "load_keys L ks (case pem of None \<Rightarrow> cache | Some p \<Rightarrow> cache(kid' \<mapsto> \<lparr>ck_pem = p, ck_algorithm = alg\<rparr>)) = Inr c"
      using 2(3) Some by (auto simp: xbind_def split: sum.splits)
    have "kj = JString kid'" using parts(1) by (auto simp: get_string_def split: json.splits)
    then show ?thesis
      using 2(2) [OF Some parts(5) 2(4)] parts(2) Some
      by (cases pem) (auto split: if_splits)
  qed
qed simp

definition key_in_document :: "jwks_lib \<Rightarrow> string \<Rightarrow> string \<Rightarrow> string \<Rightarrow> bool" where
  "key_in_document L body kid key \<longleftrightarrow>
     (\<exists>j ks. nl_parse (jl_oauth L) body = Inr j \<and> member ''keys'' j = Some (JArray ks)
        \<and> list_ex (\<lambda>k. member ''kid'' k = Some (JString kid)
            \<and> (\<exists>kty. key_of_entry L kty k = Inr (Some key))) ks)"

lemma parse_keys_origin:
  assumes "parse_keys L uri body = ok c" and "c kid = Some ck"
  shows "key_in_document L body kid (ck_pem ck)"
proof -
  obtain j ks where "nl_parse (jl_oauth L) body = Inr j" "member ''keys'' j = Some (JArray ks)"
    "load_keys L ks Map.empty = Inr c"
    using assms(1)
    by (auto simp: parse_keys_def xbind_def split: option.splits sum.splits json.splits if_splits)
  then show ?thesis
    using load_keys_origin [of L ks Map.empty c kid ck] assms(2) by (auto simp: key_in_document_def)
qed

lemma FetchAndParseJwks_ok:
  assumes "FetchAndParseJwks L get now m = (ok u, m')"
  obtains body c where "HttpGet get (jm_uri m) = ok body" "parse_keys L (jm_uri m) body = ok c"
    "m' = m\<lparr>jm_cache := c, jm_last_fetch := now, jm_fetched := True\<rparr>"
  using assms by (auto simp: FetchAndParseJwks_def split: sum.splits)

text \<open>
  C35: A verification key that is handed out is fresh and is the key asked for: either it comes from the
  unchanged table, which was fetched less than the cache time before the first look-up or less than five
  seconds before the second, or the table has just been fetched, and then the document the provider's
  JWKS address answered with has an entry with that key id whose conversion is this key.
\<close>

theorem handed_key_is_fresh:
  assumes "jwks_GetKeyForKid L get ts kid m = (ok key, m')"
  shows "(\<exists>k. jm_cache m' kid = Some k \<and> ck_pem k = key)
    \<and> (jm_fetched m \<and> m' = m \<and> (lt_first ts - jm_last_fetch m < jm_ttl m \<or> lt_refresh ts - jm_last_fetch m < seconds 5)
       \<or> jm_last_fetch m' = lt_fetched ts
         \<and> (\<exists>body. HttpGet get (jm_uri m) = ok body \<and> key_in_document L body kid key))"
proof (cases "cached (lt_first ts) kid m")
  case (Some k)
  then show ?thesis
    using assms by (auto simp: jwks_GetKeyForKid_def GetForKid_def cached_def split: if_splits)
next
  case None
  obtain r m1 where r: "RefreshKeys L get (lt_refresh ts) (lt_fetched ts) m = (r, m1)"
    by (rule prod.exhaust)
  then obtain k where k: "r = ok ()" "m' = m1" "jm_cache m1 kid = Some k" "ck_pem k = key"
    using assms None by (auto simp: jwks_GetKeyForKid_def GetForKid_def split: sum.splits option.splits)
  show ?thesis
  proof (cases "jm_fetched m \<and> lt_refresh ts - jm_last_fetch m < seconds 5")
    case True
    then show ?thesis using r k by (auto simp: RefreshKeys_def)
  next
    case False
    then have "FetchAndParseJwks L get (lt_fetched ts) m = (ok (), m1)"
      using r k(1) by (auto simp: RefreshKeys_def)
    then show ?thesis
      using k by (elim FetchAndParseJwks_ok) (auto dest: parse_keys_origin)
  qed
qed

text \<open>
  An unknown key id costs at most one fetch in five seconds, but only while fetches succeed: a failed one
  leaves the time of the last fetch as it was.
\<close>

lemma recent_fetch_is_not_repeated:
  assumes "jm_fetched m" and "lt_refresh ts - jm_last_fetch m < seconds 5"
  shows "jwks_GetKeyForKid L get ts kid m = jwks_GetKeyForKid L get' ts kid m"
  using assms by (simp add: jwks_GetKeyForKid_def GetForKid_def RefreshKeys_def split: option.split)

lemma failed_fetch_is_repeated:
  assumes "\<not> jm_fetched m" and "HttpGet get (jm_uri m) = Inl e"
  shows "snd (jwks_GetKeyForKid L get ts kid m) = m"
  using assms by (simp add: jwks_GetKeyForKid_def GetForKid_def RefreshKeys_def cached_def FetchAndParseJwks_def)

definition sample_jwks :: jwks_lib where
  "sample_jwks =
     \<lparr>jl_oauth = sample_oauth\<lparr>nl_parse := (\<lambda>s. Inr (JObject [(''keys'', JArray
          [JObject [(''kid'', JString ''a''), (''kty'', JString ''RSA''), (''n'', JString ''n''), (''e'', JString ''e'')]])]))\<rparr>,
      parse_jwks = (\<lambda>s. None), rsa_to_pem = (\<lambda>n e. Inr (n @ e)), ec_to_pem = (\<lambda>x y c. Inl ''no''),
      jl_status_to_string = message\<rparr>"

theorem handed_key_is_fresh_witness:
  "key_in_document sample_jwks ''{}'' ''a'' ''ne''"
proof -
  let ?get = "\<lambda>b p. Inr (200, ''{}'')"
  let ?ts = "\<lparr>lt_first = 1, lt_refresh = 2, lt_fetched = 3\<rparr>"
  let ?m = "new_jwks_manager ''https://idp/jwks''"
  have http: "HttpGet ?get ''https://idp/jwks'' = ok ''{}''"
    by (simp add: HttpGet_def host_port_def)
  have "(Map.empty(''a'' \<mapsto> \<lparr>ck_pem = ''ne'', ck_algorithm = []\<rparr>)) \<noteq> Map.empty"
    by simp
  then have "parse_keys sample_jwks ''https://idp/jwks'' ''{}'' = ok [''a'' \<mapsto> \<lparr>ck_pem = ''ne'', ck_algorithm = []\<rparr>]"
    by (simp add: parse_keys_def sample_jwks_def member_def xbind_def get_string_def json_value_def key_of_entry_def)
  with http have "jwks_GetKeyForKid sample_jwks ?get ?ts ''a'' ?m
      = (ok ''ne'', ?m\<lparr>jm_cache := [''a'' \<mapsto> \<lparr>ck_pem = ''ne'', ck_algorithm = []\<rparr>], jm_last_fetch := 3, jm_fetched := True\<rparr>)"
    by (simp add: jwks_GetKeyForKid_def GetForKid_def cached_def RefreshKeys_def FetchAndParseJwks_def
        new_jwks_manager_def)
  from handed_key_is_fresh [OF this] http show ?thesis by (auto simp: new_jwks_manager_def)
qed

end
