(* ===== verification/InstrManager.thy ===== *)
theory InstrManager
  imports Instrumentation
begin

text \<open>
  The instrumentation manager (\<open>src/src/enterprise/instrumentation/instrumentation_manager.cpp\<close>): where
  its database lies, what it does to the database when it is created, the cleanup of the records an
  unclean shutdown left, and its writer thread with the queue, as a step relation of the writer, any
  number of threads in \<open>QueueWrite\<close> and one in \<open>Shutdown\<close>. DuckDB is a parameter, except that the three
  UPDATE statements of the cleanup are also read as what they do to the tables. The text of the schema
  script is an argument; log lines are left out.
\<close>

section \<open>The path of the database\<close>

text \<open>\<open>std::filesystem\<close>: the working directory, the parent of a path (if it has one), and \<open>/\<close>.\<close>

record path_lib =
  current_path :: string
  parent_path :: "string \<Rightarrow> string option"
  path_join :: "string \<Rightarrow> string \<Rightarrow> string"

definition extension_syntax :: "string \<Rightarrow> bool" where
  "extension_syntax f = (case find_char (CHR '':'') f of None \<Rightarrow> False | Some i \<Rightarrow> i > 0)"

definition GetDefaultDbPath :: "path_lib \<Rightarrow> string option \<Rightarrow> string \<Rightarrow> string" where
  "GetDefaultDbPath fs env_path database_filename =
     (case env_path of
        Some (c # cs) \<Rightarrow> c # cs
      | _ \<Rightarrow>
          (let base_dir =
             (if database_filename \<noteq> [] \<and> database_filename \<noteq> '':memory:'' \<and> \<not> extension_syntax database_filename
              then (case parent_path fs database_filename of None \<Rightarrow> current_path fs | Some p \<Rightarrow> p)
              else current_path fs)
           in path_join fs base_dir ''gizmosql_instrumentation.db''))"

section \<open>Creation\<close>

text \<open>
  The replacement loop of \<open>GetSchemaSQL\<close>: the search goes on behind the inserted text, so it ends even if
  the catalog's name contains the placeholder.
\<close>

lemma find_sub_shorter: "find_sub p s = Some i \<Longrightarrow> p \<noteq> [] \<Longrightarrow> length s - (i + length p) < length s"
  using find_sub_bound [of p s i] by (cases p) auto

function replace_all :: "string \<Rightarrow> string \<Rightarrow> string \<Rightarrow> string" where
  "replace_all pat new sql =
     (case find_sub pat sql of
        None \<Rightarrow> sql
      | Some pos \<Rightarrow> (if pat = [] then sql else take pos sql @ new @ replace_all pat new (drop (pos + length pat) sql)))"
  by pat_completeness auto
termination
  by (relation "measure (\<lambda>(p, n, s). length s)") (auto dest: find_sub_shorter)

declare replace_all.simps [simp del]

definition GetSchemaSQL :: "string \<Rightarrow> string \<Rightarrow> string \<Rightarrow> string" where
  "GetSchemaSQL tmpl catalog schema = replace_all ''{SCHEMA}'' schema (replace_all ''{CATALOG}'' catalog tmpl)"

text \<open>
  A query on the writer connection: the error of its result, or its rows (their number, and the texts of
  the first column). \<open>schema_template\<close> is \<open>kSchemaSQLTemplate\<close>.
\<close>

record 'db instr_api =
  run_query :: "string \<Rightarrow> 'db \<Rightarrow> (string + string list) \<times> 'db"
  schema_template :: string

record manager_config =
  mc_db_path :: string
  mc_catalog :: string
  mc_schema :: string
  mc_external :: bool

definition GetQualifiedPrefix :: "manager_config \<Rightarrow> string" where
  "GetQualifiedPrefix c = mc_catalog c @ ''.'' @ mc_schema c"

definition InitializeSchema :: "'db instr_api \<Rightarrow> manager_config \<Rightarrow> 'db \<Rightarrow> unit result \<times> 'db" where
  "InitializeSchema A c d =
     (case run_query A (GetSchemaSQL (schema_template A) (mc_catalog c) (mc_schema c)) d of
        (Inl e, d1) \<Rightarrow> (fail Invalid (''Failed to initialize instrumentation schema: '' @ e), d1)
      | (Inr _, d1) \<Rightarrow> (ok (), d1))"

definition quoted :: "string \<Rightarrow> string" where
  "quoted s = squote # s @ [squote]"

fun id_list :: "string list \<Rightarrow> string" where
  "id_list [] = []"
| "id_list [i] = quoted i"
| "id_list (i # is) = quoted i @ '', '' @ id_list is"

definition stale_executions_sql :: "string \<Rightarrow> string \<Rightarrow> string" where
  "stale_executions_sql p ids =
     ''UPDATE '' @ p @ ''.sql_executions SET execution_end_time = now(),     status = '' @ quoted ''error''
       @ '',     error_message = '' @ quoted ''Server shutdown unexpectedly'' @ '' WHERE status = '' @ quoted ''executing''
       @ ''   AND statement_id IN (    SELECT statement_id FROM '' @ p
       @ ''.sql_statements     WHERE session_id IN (      SELECT session_id FROM '' @ p
       @ ''.sessions       WHERE instance_id IN ('' @ ids @ '')))''"

definition stale_sessions_sql :: "string \<Rightarrow> string \<Rightarrow> string" where
  "stale_sessions_sql p ids =
     ''UPDATE '' @ p @ ''.sessions SET stop_time = COALESCE(stop_time, now()),     status = '' @ quoted ''closed''
       @ '',     stop_reason = COALESCE(stop_reason, '' @ quoted ''unclean_shutdown''
       @ '') WHERE instance_id IN ('' @ ids @ '')   AND status = '' @ quoted ''active''"

definition stale_instances_sql :: "string \<Rightarrow> string \<Rightarrow> string" where
  "stale_instances_sql p ids =
     ''UPDATE '' @ p @ ''.instances SET stop_time = now(),     status = '' @ quoted ''stopped''
       @ '',     stop_reason = '' @ quoted ''unclean_shutdown'' @ '' WHERE instance_id IN ('' @ ids @ '')''"

text \<open>Errors of the cleanup are only logged; it always succeeds.\<close>

definition CleanupStaleRecords :: "'db instr_api \<Rightarrow> manager_config \<Rightarrow> 'db \<Rightarrow> unit result \<times> 'db" where
  "CleanupStaleRecords A c d =
     (if mc_external c then (ok (), d)
      else let p = GetQualifiedPrefix c
           in case run_query A (''SELECT instance_id FROM '' @ p @ ''.instances WHERE status = '' @ quoted ''running'') d of
                (Inl e, d1) \<Rightarrow> (ok (), d1)
              | (Inr rows, d1) \<Rightarrow>
                  (if rows = [] then (ok (), d1)
                   else let ids = id_list rows;
                            d2 = snd (run_query A (stale_executions_sql p ids) d1);
                            d3 = snd (run_query A (stale_sessions_sql p ids) d2)
                        in (ok (), snd (run_query A (stale_instances_sql p ids) d3))))"

definition outdated_msg :: "manager_config \<Rightarrow> string" where
  "outdated_msg c =
     (if mc_external c
      then ''Instrumentation schema is outdated in catalog '' @ quoted (mc_catalog c @ ''.'' @ mc_schema c)
        @ ''. The schema was created with an older version of GizmoSQL.'' @ newline
        # ''Please drop the existing instrumentation tables from the catalog, ''
        @ ''and GizmoSQL will create new tables with the updated schema.''
      else ''Instrumentation database schema is outdated. The database at '' @ quoted (mc_db_path c)
        @ '' was created with an older version of GizmoSQL.'' @ newline
        # ''Please rename or move the existing instrumentation database file to preserve your data, ''
        @ ''and GizmoSQL will create a new database with the updated schema.'' @ newline
        # ''Example: mv '' @ quoted (mc_db_path c) @ '' '' @ quoted (mc_db_path c @ ''.backup''))"

definition table_columns_sql :: "manager_config \<Rightarrow> string" where
  "table_columns_sql c =
     ''SELECT column_name FROM information_schema.columns WHERE table_catalog = '' @ quoted (mc_catalog c)
       @ '' AND table_name = '' @ quoted ''instances''"

text \<open>\<open>Create\<close> up to the start of the writer thread; \<open>have_db\<close>: an instance was given.\<close>

definition attach_instr :: "'db instr_api \<Rightarrow> manager_config \<Rightarrow> 'db \<Rightarrow> unit result \<times> 'db" where
  "attach_instr A c d =
     (if mc_external c then (ok (), d)
      else case run_query A (''ATTACH IF NOT EXISTS '' @ quoted (mc_db_path c) @ '' AS '' @ mc_catalog c) d of
             (Inl e, d1) \<Rightarrow> (fail Invalid (''Failed to attach instrumentation database: '' @ e), d1)
           | (Inr _, d1) \<Rightarrow> (ok (), d1))"

definition check_schema :: "'db instr_api \<Rightarrow> manager_config \<Rightarrow> 'db \<Rightarrow> unit result \<times> 'db" where
  "check_schema A c d =
     (case run_query A (table_columns_sql c @ '' AND column_name = '' @ quoted ''os_platform'') d of
        (Inl e, d1) \<Rightarrow> (ok (), d1)
      | (Inr new_columns, d1) \<Rightarrow>
          (case run_query A (table_columns_sql c @ '' LIMIT 1'') d1 of
             (Inl e, d2) \<Rightarrow> (ok (), d2)
           | (Inr any_column, d2) \<Rightarrow>
               (if any_column \<noteq> [] \<and> new_columns = [] then (fail Invalid (outdated_msg c), d2) else (ok (), d2))))"

definition and_then :: "unit result \<times> 'db \<Rightarrow> ('db \<Rightarrow> unit result \<times> 'db) \<Rightarrow> unit result \<times> 'db" where
  "and_then r f = (case r of (Inl e, d) \<Rightarrow> (Inl e, d) | (Inr _, d) \<Rightarrow> f d)"

definition manager_Create :: "'db instr_api \<Rightarrow> bool \<Rightarrow> manager_config \<Rightarrow> 'db \<Rightarrow> instr_manager result \<times> 'db" where
  "manager_Create A have_db c d =
     (if \<not> have_db then (fail Invalid ''InstrumentationManager requires a valid DuckDB instance'', d)
      else case and_then (and_then (and_then (attach_instr A c d) (check_schema A c)) (InitializeSchema A c))
                  (CleanupStaleRecords A c) of
             (r, d1) \<Rightarrow>
               (rbind r (\<lambda>_. ok \<lparr>mgr_catalog = mc_catalog c, mgr_schema = mc_schema c, mgr_enabled = True,
                                mgr_shutdown = False, mgr_queue = []\<rparr>), d1))"

section \<open>What the cleanup means\<close>

text \<open>The tables, with the columns the cleanup reads and writes; a NULL is \<open>None\<close>.\<close>

record instance_row =
  ir_instance :: string
  ir_status :: string
  ir_stop_time :: "int option"
  ir_stop_reason :: "string option"

record session_row =
  sr_session :: string
  sr_instance :: string
  sr_status :: string
  sr_stop_time :: "int option"
  sr_stop_reason :: "string option"

record statement_row =
  st_statement :: string
  st_session :: string

record execution_row =
  xr_statement :: string
  xr_status :: string
  xr_end_time :: "int option"
  xr_error :: "string option"

record instr_tables =
  t_instances :: "instance_row list"
  t_sessions :: "session_row list"
  t_statements :: "statement_row list"
  t_executions :: "execution_row list"

definition coalesce :: "'a option \<Rightarrow> 'a \<Rightarrow> 'a option" where
  "coalesce x d = (case x of None \<Rightarrow> Some d | Some v \<Rightarrow> Some v)"

definition stale_ids :: "instr_tables \<Rightarrow> string list" where
  "stale_ids t = map ir_instance (filter (\<lambda>r. ir_status r = ''running'') (t_instances t))"

definition sessions_of :: "string list \<Rightarrow> instr_tables \<Rightarrow> string list" where
  "sessions_of ids t = map sr_session (filter (\<lambda>r. List.member ids (sr_instance r)) (t_sessions t))"

definition statements_of :: "string list \<Rightarrow> instr_tables \<Rightarrow> string list" where
  "statements_of ids t = map st_statement (filter (\<lambda>r. List.member (sessions_of ids t) (st_session r)) (t_statements t))"

definition end_execution :: "int \<Rightarrow> string list \<Rightarrow> execution_row \<Rightarrow> execution_row" where
  "end_execution now stmts r =
     (if xr_status r = ''executing'' \<and> List.member stmts (xr_statement r)
      then r\<lparr>xr_end_time := Some now, xr_status := ''error'', xr_error := Some ''Server shutdown unexpectedly''\<rparr> else r)"

definition close_session_row :: "int \<Rightarrow> string list \<Rightarrow> session_row \<Rightarrow> session_row" where
  "close_session_row now ids r =
     (if List.member ids (sr_instance r) \<and> sr_status r = ''active''
      then r\<lparr>sr_stop_time := coalesce (sr_stop_time r) now, sr_status := ''closed'',
             sr_stop_reason := coalesce (sr_stop_reason r) ''unclean_shutdown''\<rparr> else r)"

definition stop_instance_row :: "int \<Rightarrow> string list \<Rightarrow> instance_row \<Rightarrow> instance_row" where
  "stop_instance_row now ids r =
     (if List.member ids (ir_instance r)
      then r\<lparr>ir_stop_time := Some now, ir_status := ''stopped'', ir_stop_reason := Some ''unclean_shutdown''\<rparr> else r)"

text \<open>The three statements in their order, on the tables.\<close>

definition cleanup_tables :: "int \<Rightarrow> instr_tables \<Rightarrow> instr_tables" where
  "cleanup_tables now t =
     (let ids = stale_ids t;
          t1 = t\<lparr>t_executions := map (end_execution now (statements_of ids t)) (t_executions t)\<rparr>;
          t2 = t1\<lparr>t_sessions := map (close_session_row now ids) (t_sessions t1)\<rparr>
      in if ids = [] then t else t2\<lparr>t_instances := map (stop_instance_row now ids) (t_instances t2)\<rparr>)"

text \<open>
  The cleanup leaves no trace of instances that were not stopped: no instance is running any more, no
  session of such an instance is active, no execution of their statements is executing; rows of other
  instances, sessions and statements are as before; and a second cleanup changes nothing.
\<close>

theorem cleanup_closes_stale_records:
  "list_all (\<lambda>r. ir_status r \<noteq> ''running'') (t_instances (cleanup_tables now t))
   \<and> filter (\<lambda>r. List.member (stale_ids t) (sr_instance r) \<and> sr_status r = ''active'')
     (t_sessions (cleanup_tables now t)) = []
   \<and> filter (\<lambda>r. List.member (statements_of (stale_ids t) t) (xr_statement r) \<and> xr_status r = ''executing'')
     (t_executions (cleanup_tables now t)) = []
   \<and> filter (\<lambda>r. \<not> List.member (stale_ids t) (ir_instance r)) (t_instances (cleanup_tables now t))
     = filter (\<lambda>r. \<not> List.member (stale_ids t) (ir_instance r)) (t_instances t)
   \<and> filter (\<lambda>r. \<not> List.member (stale_ids t) (sr_instance r)) (t_sessions (cleanup_tables now t))
     = filter (\<lambda>r. \<not> List.member (stale_ids t) (sr_instance r)) (t_sessions t)
   \<and> filter (\<lambda>r. \<not> List.member (statements_of (stale_ids t) t) (xr_statement r)) (t_executions (cleanup_tables now t))
     = filter (\<lambda>r. \<not> List.member (statements_of (stale_ids t) t) (xr_statement r)) (t_executions t)
   \<and> cleanup_tables now' (cleanup_tables now t) = cleanup_tables now t"
proof (intro conjI)
  have none: "stale_ids t = [] \<Longrightarrow> ir_status r \<noteq> ''running''" if "r \<in> set (t_instances t)" for r
    using that by (auto simp: stale_ids_def filter_empty_conv)
  show running: "list_all (\<lambda>r. ir_status r \<noteq> ''running'') (t_instances (cleanup_tables now t))"
    using none
    by (auto simp: list_all_iff cleanup_tables_def Let_def stop_instance_row_def)
      (auto simp: stale_ids_def)
  then have "stale_ids (cleanup_tables now t) = []"
    by (auto simp: stale_ids_def list_all_iff filter_empty_conv)
  then show "cleanup_tables now' (cleanup_tables now t) = cleanup_tables now t"
    by (subst cleanup_tables_def) (simp add: Let_def)
  have keep: "filter P (map f xs) = filter P xs" if "\<And>x. P (f x) = P x" "\<And>x. P x \<Longrightarrow> f x = x" for P f and xs :: "'a list"
    using that by (induction xs) auto
  show "filter (\<lambda>r. \<not> List.member (stale_ids t) (ir_instance r)) (t_instances (cleanup_tables now t))
      = filter (\<lambda>r. \<not> List.member (stale_ids t) (ir_instance r)) (t_instances t)"
    by (auto simp: cleanup_tables_def Let_def stop_instance_row_def split: if_splits intro!: keep)
  show "filter (\<lambda>r. \<not> List.member (stale_ids t) (sr_instance r)) (t_sessions (cleanup_tables now t))
      = filter (\<lambda>r. \<not> List.member (stale_ids t) (sr_instance r)) (t_sessions t)"
    by (auto simp: cleanup_tables_def Let_def close_session_row_def split: if_splits intro!: keep)
  show "filter (\<lambda>r. \<not> List.member (statements_of (stale_ids t) t) (xr_statement r)) (t_executions (cleanup_tables now t))
      = filter (\<lambda>r. \<not> List.member (statements_of (stale_ids t) t) (xr_statement r)) (t_executions t)"
    by (auto simp: cleanup_tables_def Let_def end_execution_def split: if_splits intro!: keep)
  show "filter (\<lambda>r. List.member (stale_ids t) (sr_instance r) \<and> sr_status r = ''active'')
      (t_sessions (cleanup_tables now t)) = []"
    by (auto simp: cleanup_tables_def Let_def filter_empty_conv close_session_row_def)
  show "filter (\<lambda>r. List.member (statements_of (stale_ids t) t) (xr_statement r) \<and> xr_status r = ''executing'')
      (t_executions (cleanup_tables now t)) = []"
    by (auto simp: cleanup_tables_def Let_def filter_empty_conv end_execution_def statements_of_def sessions_of_def)
qed

section \<open>The writer thread\<close>

text \<open>
  The writer: about to take the mutex and test, having found nothing to do with the mutex still held,
  blocked on the condition variable, running a write, gone.
\<close>

datatype writer_pc = WTest | WHolds | WBlocked | WRun instr_write | WExit

text \<open>A thread in \<open>QueueWrite\<close>: past the test of the flags, past the push; the one in \<open>Shutdown\<close>.\<close>

datatype producer_pc = PIdle | PPush instr_write | PNotify

datatype shutdown_pc = SIdle | SNotify | SJoin | SDone

record writer_state =
  w_queue :: "instr_write list"
  w_shutdown :: bool
  w_writer :: writer_pc
  w_shut :: shutdown_pc
  w_written :: "instr_write list"
  w_pushed :: "instr_write list"

type_synonym writer_config = "writer_state \<times> (nat \<Rightarrow> producer_pc)"

definition initial_writer :: writer_state where
  "initial_writer =
     \<lparr>w_queue = [], w_shutdown = False, w_writer = WTest, w_shut = SIdle, w_written = [], w_pushed = []\<rparr>"

text \<open>\<open>notify_one\<close>, \<open>notify_all\<close>: they wake the writer if it is blocked, and are lost if it is not.\<close>

definition notify :: "writer_state \<Rightarrow> writer_state" where
  "notify s = (if w_writer s = WBlocked then s\<lparr>w_writer := WTest\<rparr> else s)"

text \<open>
  The steps. \<open>w_written\<close> are the writes the writer has run, in order (one that throws is only logged);
  \<open>w_pushed\<close> those that were put into the queue.
\<close>

inductive wstep :: "writer_config \<Rightarrow> writer_config \<Rightarrow> bool" where
  writer_idle: "w_writer s = WTest \<Longrightarrow> w_queue s = [] \<Longrightarrow> \<not> w_shutdown s \<Longrightarrow>
    wstep (s, ps) (s\<lparr>w_writer := WHolds\<rparr>, ps)"
| writer_blocks: "w_writer s = WHolds \<Longrightarrow> wstep (s, ps) (s\<lparr>w_writer := WBlocked\<rparr>, ps)"
| writer_exits: "w_writer s = WTest \<Longrightarrow> w_queue s = [] \<Longrightarrow> w_shutdown s \<Longrightarrow>
    wstep (s, ps) (s\<lparr>w_writer := WExit\<rparr>, ps)"
| writer_pops: "w_writer s = WTest \<Longrightarrow> w_queue s = w # q \<Longrightarrow>
    wstep (s, ps) (s\<lparr>w_writer := WRun w, w_queue := q\<rparr>, ps)"
| writer_runs: "w_writer s = WRun w \<Longrightarrow>
    wstep (s, ps) (s\<lparr>w_writer := WTest, w_written := w_written s @ [w]\<rparr>, ps)"
| queue_dropped: "ps t = PIdle \<Longrightarrow> w_shutdown s \<Longrightarrow> wstep (s, ps) (s, ps)"
| queue_tests: "ps t = PIdle \<Longrightarrow> \<not> w_shutdown s \<Longrightarrow> wstep (s, ps) (s, ps(t := PPush w))"
| queue_pushes: "ps t = PPush w \<Longrightarrow> w_writer s \<noteq> WHolds \<Longrightarrow>
    wstep (s, ps) (s\<lparr>w_queue := w_queue s @ [w], w_pushed := w_pushed s @ [w]\<rparr>, ps(t := PNotify))"
| queue_notifies: "ps t = PNotify \<Longrightarrow> wstep (s, ps) (notify s, ps(t := PIdle))"
| shutdown_sets: "w_shut s = SIdle \<Longrightarrow> wstep (s, ps) (s\<lparr>w_shutdown := True, w_shut := SNotify\<rparr>, ps)"
| shutdown_notifies: "w_shut s = SNotify \<Longrightarrow> wstep (s, ps) ((notify s)\<lparr>w_shut := SJoin\<rparr>, ps)"
| shutdown_joins: "w_shut s = SJoin \<Longrightarrow> w_writer s = WExit \<Longrightarrow> wstep (s, ps) (s\<lparr>w_shut := SDone\<rparr>, ps)"

inductive wsteps :: "writer_config \<Rightarrow> writer_config \<Rightarrow> bool" where
  wsteps_none: "wsteps c c"
| wsteps_more: "wsteps c c1 \<Longrightarrow> wstep c1 c2 \<Longrightarrow> wsteps c c2"

text \<open>A wake-up without a notification, which the C++ standard allows.\<close>

inductive wstep_spurious :: "writer_config \<Rightarrow> writer_config \<Rightarrow> bool" where
  woken: "w_writer s = WBlocked \<Longrightarrow> wstep_spurious (s, ps) (s\<lparr>w_writer := WTest\<rparr>, ps)"

inductive wsteps' :: "writer_config \<Rightarrow> writer_config \<Rightarrow> bool" where
  wsteps'_none: "wsteps' c c"
| wsteps'_more: "wsteps' c c1 \<Longrightarrow> wstep c1 c2 \<or> wstep_spurious c1 c2 \<Longrightarrow> wsteps' c c2"

definition in_hand :: "writer_pc \<Rightarrow> instr_write list" where
  "in_hand p = (case p of WRun w \<Rightarrow> [w] | _ \<Rightarrow> [])"

text \<open>Nothing is lost or reordered on the way; the writer only leaves when the queue is empty and the flag set.\<close>

definition writer_ok :: "writer_config \<Rightarrow> bool" where
  "writer_ok c \<longleftrightarrow>
     w_pushed (fst c) = w_written (fst c) @ in_hand (w_writer (fst c)) @ w_queue (fst c)
     \<and> (w_shut (fst c) = SDone \<longrightarrow> w_writer (fst c) = WExit)
     \<and> (w_writer (fst c) = WExit \<longrightarrow> w_shutdown (fst c))
     \<and> (w_shut (fst c) = SIdle \<longrightarrow> \<not> w_shutdown (fst c))"

lemma notify_simps [simp]:
  "w_queue (notify s) = w_queue s" "w_shutdown (notify s) = w_shutdown s" "w_shut (notify s) = w_shut s"
  "w_written (notify s) = w_written s" "w_pushed (notify s) = w_pushed s"
  "in_hand (w_writer (notify s)) = in_hand (w_writer s)" "w_writer (notify s) = WExit \<longleftrightarrow> w_writer s = WExit"
  by (auto simp: notify_def in_hand_def)

lemma in_hand_simps [simp]:
  "in_hand WTest = []" "in_hand WHolds = []" "in_hand WBlocked = []" "in_hand WExit = []" "in_hand (WRun w) = [w]"
  by (simp_all add: in_hand_def)

lemma wstep_ok: "wstep c c' \<or> wstep_spurious c c' \<Longrightarrow> writer_ok c \<Longrightarrow> writer_ok c'"
  by (auto simp: writer_ok_def elim!: wstep.cases wstep_spurious.cases)

lemma wsteps'_ok: "wsteps' c c' \<Longrightarrow> writer_ok c \<Longrightarrow> writer_ok c'"
  by (induction rule: wsteps'.induct) (blast intro: wstep_ok)+

text \<open>
  After the flag is set only the threads that had passed its test, those of \<open>ps0\<close> at \<open>PPush\<close>, still push,
  each its one write; the writer leaves after everything that was queued before.
\<close>

definition only_late ::
    "writer_state \<Rightarrow> (nat \<Rightarrow> producer_pc) \<Rightarrow> instr_write list \<Rightarrow> (nat \<Rightarrow> producer_pc) \<Rightarrow> bool" where
  "only_late s0 ps0 pushed ps \<longleftrightarrow>
     (\<exists>ts late. distinct ts \<and> list_all2 (\<lambda>t w. ps0 t = PPush w) ts late
        \<and> pushed = w_pushed s0 @ late \<and> (\<forall>t \<in> set ts. \<forall>w. ps t \<noteq> PPush w))
     \<and> (\<forall>t w. ps t = PPush w \<longrightarrow> ps0 t = PPush w)"

definition draining :: "writer_state \<Rightarrow> (nat \<Rightarrow> producer_pc) \<Rightarrow> writer_config \<Rightarrow> bool" where
  "draining s0 ps0 c \<longleftrightarrow>
     writer_ok c \<and> w_shutdown (fst c) \<and> w_shut (fst c) \<noteq> SIdle
     \<and> only_late s0 ps0 (w_pushed (fst c)) (snd c)
     \<and> (w_writer (fst c) = WExit \<longrightarrow> length (w_pushed s0) \<le> length (w_written (fst c)))"

lemma only_late_start: "only_late s0 ps0 (w_pushed s0) ps0"
  unfolding only_late_def by (intro conjI exI [of _ "[]"]) simp_all

lemma only_late_length: "only_late s0 ps0 pushed ps \<Longrightarrow> length (w_pushed s0) \<le> length pushed"
  by (auto simp: only_late_def)

lemma only_late_returns: "only_late s0 ps0 pushed ps \<Longrightarrow> only_late s0 ps0 pushed (ps(t := PIdle))"
  unfolding only_late_def by (fastforce split: if_splits)

lemma only_late_push:
  assumes "only_late s0 ps0 pushed ps" and "ps t = PPush w"
  shows "only_late s0 ps0 (pushed @ [w]) (ps(t := PNotify))"
proof -
  obtain ts late where late: "distinct ts" "list_all2 (\<lambda>t w. ps0 t = PPush w) ts late"
      "pushed = w_pushed s0 @ late" "\<forall>t \<in> set ts. \<forall>w. ps t \<noteq> PPush w"
    using assms(1) by (auto simp: only_late_def)
  have then0: "\<forall>t w. ps t = PPush w \<longrightarrow> ps0 t = PPush w" using assms(1) by (simp add: only_late_def)
  have "distinct (ts @ [t])" using late(1,4) assms(2) by auto
  moreover have "list_all2 (\<lambda>t w. ps0 t = PPush w) (ts @ [t]) (late @ [w])"
    using late(2) then0 assms(2) by (auto intro: list_all2_appendI)
  moreover have "\<forall>u \<in> set (ts @ [t]). \<forall>w. (ps(t := PNotify)) u \<noteq> PPush w" using late(4) by auto
  moreover have "pushed @ [w] = w_pushed s0 @ late @ [w]" using late(3) by simp
  moreover have "\<forall>u v. (ps(t := PNotify)) u = PPush v \<longrightarrow> ps0 u = PPush v" using then0 by simp
  ultimately show ?thesis unfolding only_late_def by blast
qed

lemma wstep_draining:
  assumes "wstep c c' \<or> wstep_spurious c c'" and "draining s0 ps0 c"
  shows "draining s0 ps0 c'"
proof -
  have ok: "writer_ok c'" using wstep_ok [OF assms(1)] assms(2) by (simp add: draining_def)
  from assms(1) show ?thesis
  proof
    assume "wstep c c'"
    then show ?thesis
    proof cases
      case (writer_exits s ps)
      have "w_pushed s = w_written s"
        using assms(2) writer_exits by (simp add: draining_def writer_ok_def)
      then show ?thesis
        using assms(2) ok writer_exits only_late_length [of s0 ps0 "w_written s" ps]
        by (simp add: draining_def)
    next
      case (queue_pushes ps t w s)
      then show ?thesis using assms(2) ok only_late_push [of s0 ps0 "w_pushed s" ps t w] by (simp add: draining_def)
    next
      case (queue_notifies ps t s)
      then show ?thesis
        using assms(2) ok only_late_returns [of s0 ps0 "w_pushed s" ps t] by (simp add: draining_def)
    qed (use assms(2) ok in \<open>simp_all add: draining_def\<close>)
  next
    assume "wstep_spurious c c'"
    then show ?thesis using assms(2) ok by cases (simp add: draining_def)
  qed
qed

lemma wsteps'_draining: "wsteps' c c' \<Longrightarrow> draining s0 ps0 c \<Longrightarrow> draining s0 ps0 c'"
  by (induction rule: wsteps'.induct) (blast intro: wstep_draining)+

text \<open>
  C17: What a shutdown drains, in every interleaving of the writer, any number of threads in \<open>QueueWrite\<close> and the
  shutdown itself, with any spurious wake-ups: by the time \<open>Shutdown\<close> returns every write that was queued when the
  flag was set has been run, once and in the order of the queue. Writes pushed later are those of threads that
  were then between their test of the flag and their push, at most one for each; a first part of them is run
  after the others, and the rest stays in the queue unrun.
\<close>

theorem shutdown_drains_the_queue:
  assumes "wsteps' (initial_writer, \<lambda>_. PIdle) (s0, ps0)" and "w_shut s0 = SIdle"
    and "wsteps' (s0\<lparr>w_shutdown := True, w_shut := SNotify\<rparr>, ps0) (s, ps)" and "w_shut s = SDone"
  shows "\<exists>ts late ran. w_written s = w_pushed s0 @ ran \<and> ran @ w_queue s = late
    \<and> distinct ts \<and> list_all2 (\<lambda>t w. ps0 t = PPush w) ts late"
proof -
  have "writer_ok (s0, ps0)"
    using wsteps'_ok [OF assms(1)] by (simp add: writer_ok_def initial_writer_def)
  then have "draining s0 ps0 (s0\<lparr>w_shutdown := True, w_shut := SNotify\<rparr>, ps0)"
    using assms(2) only_late_start [of s0 ps0] by (auto simp: draining_def writer_ok_def)
  from wsteps'_draining [OF assms(3) this] have d: "draining s0 ps0 (s, ps)" .
  then obtain ts late where late: "distinct ts" "list_all2 (\<lambda>t w. ps0 t = PPush w) ts late"
      "w_pushed s = w_pushed s0 @ late"
    by (auto simp: draining_def only_late_def)
  have "w_writer s = WExit" using d assms(4) by (simp add: draining_def writer_ok_def)
  then have "w_written s @ w_queue s = w_pushed s0 @ late" "length (w_pushed s0) \<le> length (w_written s)"
    using d late(3) by (simp_all add: draining_def writer_ok_def)
  moreover from this obtain ran where ran: "w_written s = w_pushed s0 @ ran"
    by (metis append_eq_append_conv_if append_take_drop_id)
  ultimately have "ran @ w_queue s = late" by simp
  note ran this
  then show ?thesis using late(1,2) by blast
qed

definition stuck_writer :: writer_state where
  "stuck_writer = initial_writer\<lparr>w_writer := WBlocked, w_shutdown := True, w_shut := SJoin\<rparr>"

text \<open>
  A shutdown can hang. The flag is set and the notification sent without the mutex, so they can fall
  between the writer's test and its wait: the writer then blocks with the flag set, \<open>Shutdown\<close> waits for
  it to end, and no further step of any thread changes anything (later calls of \<open>QueueWrite\<close> return before
  they would notify); only a spurious wake-up could end it.
\<close>

theorem shutdown_can_hang:
  "wsteps (initial_writer, \<lambda>_. PIdle) (stuck_writer, \<lambda>_. PIdle)
    \<and> {c. wsteps (stuck_writer, \<lambda>_. PIdle) c} = {(stuck_writer, \<lambda>_. PIdle)}
    \<and> w_shut stuck_writer = SJoin"
proof (intro conjI)
  let ?i = initial_writer
  let ?s1 = "?i\<lparr>w_writer := WHolds\<rparr>"
  let ?s2 = "?s1\<lparr>w_shutdown := True, w_shut := SNotify\<rparr>"
  let ?s3 = "?s2\<lparr>w_shut := SJoin\<rparr>"
  have 1: "wstep (?i, \<lambda>_. PIdle) (?s1, \<lambda>_. PIdle)" by (rule writer_idle) (simp_all add: initial_writer_def)
  have 2: "wstep (?s1, \<lambda>_. PIdle) (?s2, \<lambda>_. PIdle)"
    by (rule shutdown_sets) (simp add: initial_writer_def)
  have 3: "wstep (?s2, \<lambda>_. PIdle) (?s3, \<lambda>_. PIdle)"
    using shutdown_notifies [of ?s2 "\<lambda>_. PIdle"] by (simp add: notify_def)
  have 4: "wstep (?s3, \<lambda>_. PIdle) (stuck_writer, \<lambda>_. PIdle)"
    using writer_blocks [of ?s3 "\<lambda>_. PIdle"] by (simp add: stuck_writer_def initial_writer_def)
  show "wsteps (initial_writer, \<lambda>_. PIdle) (stuck_writer, \<lambda>_. PIdle)"
    by (rule wsteps_more [OF wsteps_more [OF wsteps_more [OF wsteps_more [OF wsteps_none 1] 2] 3] 4])
  have stay: "c = (stuck_writer, \<lambda>_. PIdle)" if "wstep (stuck_writer, \<lambda>_. PIdle) c" for c
    using that by cases (simp_all add: stuck_writer_def initial_writer_def)
  have "wsteps c0 c \<Longrightarrow> c0 = (stuck_writer, \<lambda>_. PIdle) \<Longrightarrow> c = c0" for c0 c
    by (induction rule: wsteps.induct) (auto dest: stay)
  then show "{c. wsteps (stuck_writer, \<lambda>_. PIdle) c} = {(stuck_writer, \<lambda>_. PIdle)}"
    by (auto intro: wsteps_none)
  show "w_shut stuck_writer = SJoin" by (simp add: stuck_writer_def)
qed

text \<open>One write is queued, then the server shuts down.\<close>

definition one_write :: instr_write where
  "one_write = UpdateInstance ''i'' ''graceful''"

definition queued_writer :: writer_state where
  "queued_writer = initial_writer\<lparr>w_queue := [one_write], w_pushed := [one_write]\<rparr>"

definition drained_writer :: writer_state where
  "drained_writer = initial_writer\<lparr>w_pushed := [one_write], w_written := [one_write], w_shutdown := True,
     w_shut := SDone, w_writer := WExit\<rparr>"

lemma idle_twist [simp]: "(\<lambda>_ :: nat. PIdle)(t := PIdle) = (\<lambda>_. PIdle)"
  by auto

lemma wsteps'_step: "wsteps' c c1 \<Longrightarrow> wstep c1 c2 \<Longrightarrow> wsteps' c c2"
  by (blast intro: wsteps'_more)

lemma queued_run: "wsteps' (initial_writer, \<lambda>_. PIdle) (queued_writer, \<lambda>_. PIdle)"
proof -
  have 1: "wstep (initial_writer, \<lambda>_. PIdle) (initial_writer, (\<lambda>_. PIdle)(0 := PPush one_write))"
    by (rule queue_tests) (simp_all add: initial_writer_def)
  have 2: "wstep (initial_writer, (\<lambda>_. PIdle)(0 := PPush one_write)) (queued_writer, (\<lambda>_. PIdle)(0 := PNotify))"
    using queue_pushes [of "(\<lambda>_. PIdle)(0 := PPush one_write)" 0 one_write initial_writer]
    by (simp add: initial_writer_def queued_writer_def)
  have 3: "wstep (queued_writer, (\<lambda>_. PIdle)(0 := PNotify)) (queued_writer, \<lambda>_. PIdle)"
    using queue_notifies [of "(\<lambda>_. PIdle)(0 := PNotify)" 0 queued_writer]
    by (simp add: notify_def queued_writer_def initial_writer_def)
  show ?thesis by (rule wsteps'_step [OF wsteps'_step [OF wsteps'_step [OF wsteps'_none 1] 2] 3])
qed

lemma drain_run:
  "wsteps' (queued_writer\<lparr>w_shutdown := True, w_shut := SNotify\<rparr>, \<lambda>_. PIdle) (drained_writer, \<lambda>_. PIdle)"
proof -
  let ?s1 = "queued_writer\<lparr>w_shutdown := True, w_shut := SNotify\<rparr>"
  let ?s2 = "?s1\<lparr>w_shut := SJoin\<rparr>"
  let ?s3 = "?s2\<lparr>w_writer := WRun one_write, w_queue := []\<rparr>"
  let ?s4 = "?s3\<lparr>w_writer := WTest, w_written := [one_write]\<rparr>"
  have 1: "wstep (?s1, \<lambda>_. PIdle) (?s2, \<lambda>_. PIdle)"
    using shutdown_notifies [of ?s1 "\<lambda>_. PIdle"] by (simp add: notify_def queued_writer_def initial_writer_def)
  have 2: "wstep (?s2, \<lambda>_. PIdle) (?s3, \<lambda>_. PIdle)"
    by (rule writer_pops) (simp_all add: queued_writer_def initial_writer_def)
  have 3: "wstep (?s3, \<lambda>_. PIdle) (?s4, \<lambda>_. PIdle)"
    using writer_runs [of ?s3 one_write "\<lambda>_. PIdle"] by (simp add: queued_writer_def initial_writer_def)
  have 4: "wstep (?s4, \<lambda>_. PIdle) (?s4\<lparr>w_writer := WExit\<rparr>, \<lambda>_. PIdle)"
    by (rule writer_exits) (simp_all add: queued_writer_def initial_writer_def)
  have 5: "wstep (?s4\<lparr>w_writer := WExit\<rparr>, \<lambda>_. PIdle) (drained_writer, \<lambda>_. PIdle)"
    using shutdown_joins [of "?s4\<lparr>w_writer := WExit\<rparr>" "\<lambda>_. PIdle"]
    by (simp add: queued_writer_def initial_writer_def drained_writer_def)
  show ?thesis
    by (rule wsteps'_step [OF wsteps'_step [OF wsteps'_step [OF wsteps'_step [OF wsteps'_step [OF wsteps'_none 1] 2] 3] 4] 5])
qed

theorem shutdown_drains_the_queue_witness:
  "w_written drained_writer = w_pushed queued_writer \<and> w_queue drained_writer = []"
  using shutdown_drains_the_queue [OF queued_run _ drain_run]
  by (auto simp: queued_writer_def initial_writer_def drained_writer_def list_all2_conv_all_nth)

text \<open>
  A late write is lost: a thread that passed the test of the flag pushes after the writer has gone, and its
  write is never run, although \<open>QueueWrite\<close> accepted it.
\<close>

definition lost_writer :: writer_state where
  "lost_writer = initial_writer\<lparr>w_queue := [one_write], w_pushed := [one_write], w_shutdown := True,
     w_shut := SDone, w_writer := WExit\<rparr>"

theorem late_write_is_lost:
  "wsteps' (initial_writer, \<lambda>_. PIdle) (lost_writer, (\<lambda>_. PIdle)(0 := PNotify))
    \<and> w_written lost_writer = [] \<and> w_queue lost_writer = [one_write]"
proof (intro conjI)
  let ?late = "(\<lambda>_. PIdle)(0 := PPush one_write)"
  let ?s1 = "initial_writer\<lparr>w_shutdown := True, w_shut := SNotify\<rparr>"
  let ?s2 = "?s1\<lparr>w_shut := SJoin\<rparr>"
  let ?s3 = "?s2\<lparr>w_writer := WExit\<rparr>"
  let ?s4 = "?s3\<lparr>w_shut := SDone\<rparr>"
  have 1: "wstep (initial_writer, \<lambda>_. PIdle) (initial_writer, ?late)"
    by (rule queue_tests) (simp_all add: initial_writer_def)
  have 2: "wstep (initial_writer, ?late) (?s1, ?late)"
    by (rule shutdown_sets) (simp add: initial_writer_def)
  have 3: "wstep (?s1, ?late) (?s2, ?late)"
    using shutdown_notifies [of ?s1 ?late] by (simp add: notify_def initial_writer_def)
  have 4: "wstep (?s2, ?late) (?s3, ?late)" by (rule writer_exits) (simp_all add: initial_writer_def)
  have 5: "wstep (?s3, ?late) (?s4, ?late)" by (rule shutdown_joins) (simp_all add: initial_writer_def)
  have 6: "wstep (?s4, ?late) (lost_writer, (\<lambda>_. PIdle)(0 := PNotify))"
    using queue_pushes [of ?late 0 one_write ?s4] by (simp add: initial_writer_def lost_writer_def)
  show "wsteps' (initial_writer, \<lambda>_. PIdle) (lost_writer, (\<lambda>_. PIdle)(0 := PNotify))"
    by (rule wsteps'_step [OF wsteps'_step [OF wsteps'_step [OF wsteps'_step [OF wsteps'_step
          [OF wsteps'_step [OF wsteps'_none 1] 2] 3] 4] 5] 6])
qed (simp_all add: lost_writer_def initial_writer_def)

end
