(* ===== verification/Startup.thy ===== *)
theory Startup
  imports Options Jwks InstrManager
begin

text \<open>
  Starting and stopping the server (\<open>FlightSQLServerBuilder\<close> and the second half of
  \<open>RunFlightSQLServer\<close> in \<open>src/src/common/gizmosql_library.cpp\<close>): the initial commands, the middleware and
  its configuration, the JWKS manager, the OAuth server, the DuckDB backend with its instrumentation, and
  the order in which everything is released. The engine, the HTTP client and gRPC are parameters; \<open>Process\<close> adds
  the SQLite backend, the health service and telemetry.
\<close>

section \<open>Initial commands\<close>

text \<open>
  The pieces the regular expression \<open>;(?=(?:[^']*'[^']*')*[^']*$)\<close> cuts a text into: a semicolon separates
  when the rest of the text has an even number of quotes. A last piece is only there if it is not empty.
\<close>

definition quotes :: "string \<Rightarrow> nat" where
  "quotes s = length (filter (\<lambda>c. c = squote) s)"

fun split_init :: "string \<Rightarrow> string \<Rightarrow> string list" where
  "split_init [] acc = (if acc = [] then [] else [rev acc])"
| "split_init (c # cs) acc =
     (if c = CHR '';'' \<and> even (quotes cs) then rev acc # split_init cs []
      else split_init cs (c # acc))"

text \<open>
  The loop of \<open>RUN_INIT_COMMANDS\<close>. Its \<open>continue\<close> for an empty piece does not move the iterator, so the
  loop never ends then: \<open>None\<close>.
\<close>

partial_function (option) run_init ::
    "(string \<Rightarrow> 'db \<Rightarrow> unit result \<times> 'db) \<Rightarrow> string list \<Rightarrow> 'db \<Rightarrow> (unit result \<times> 'db) option" where
  "run_init exec cmds d =
     (case cmds of
        [] \<Rightarrow> Some (ok (), d)
      | c # cs \<Rightarrow>
          (if c = [] then run_init exec cmds d
           else case exec c d of
                  (Inl e, d1) \<Rightarrow> Some (Inl e, d1)
                | (Inr _, d1) \<Rightarrow> run_init exec cs d1))"

definition RUN_INIT_COMMANDS ::
    "(string \<Rightarrow> 'db \<Rightarrow> unit result \<times> 'db) \<Rightarrow> string \<Rightarrow> 'db \<Rightarrow> (unit result \<times> 'db) option" where
  "RUN_INIT_COMMANDS exec commands d =
     (if commands \<noteq> [] then run_init exec (split_init commands []) d else Some (ok (), d))"

subsection \<open>What the splitting means\<close>

text \<open>A scanner that knows whether it is inside a literal, and separates at semicolons outside.\<close>

fun split_outside :: "bool \<Rightarrow> string \<Rightarrow> string \<Rightarrow> string list" where
  "split_outside q [] acc = (if acc = [] then [] else [rev acc])"
| "split_outside q (c # cs) acc =
     (if c = squote then split_outside (\<not> q) cs (c # acc)
      else if c = CHR '';'' \<and> \<not> q then rev acc # split_outside q cs []
      else split_outside q cs (c # acc))"

lemma quotes_simps [simp]: "quotes [] = 0" "quotes (c # cs) = (if c = squote then Suc (quotes cs) else quotes cs)"
  by (simp_all add: quotes_def)

text \<open>
  The initial commands are cut at the semicolons that a scanner finds outside of literals, provided the
  text has an even number of quotes. With an odd number (an apostrophe in a comment is enough) it is cut
  as if the text began inside a literal: at the semicolons inside literals and at no other before the
  stray quote.
\<close>

theorem split_init_is_a_scanner:
  "split_init s acc = split_outside (odd (quotes s)) s acc"
  by (induction s arbitrary: acc) auto

subsection \<open>When the loop ends\<close>

text \<open>The commands one after the other up to the first error.\<close>

fun exec_seq :: "(string \<Rightarrow> 'db \<Rightarrow> unit result \<times> 'db) \<Rightarrow> string list \<Rightarrow> 'db \<Rightarrow> unit result \<times> 'db" where
  "exec_seq exec [] d = (ok (), d)"
| "exec_seq exec (c # cs) d =
     (case exec c d of (Inl e, d1) \<Rightarrow> (Inl e, d1) | (Inr _, d1) \<Rightarrow> exec_seq exec cs d1)"

lemma run_init_hangs: "run_init exec ([] # cs) d = None"
proof (rule ccontr)
  assume "run_init exec ([] # cs) d \<noteq> None"
  then obtain r where ret: "run_init exec ([] # cs) d = Some r" by blast
  have "[] # cs \<noteq> [] # cs"
  proof (rule run_init.raw_induct [where P = "\<lambda>exec cmds d r. cmds \<noteq> [] # cs", OF _ ret])
    fix rec :: "(string \<Rightarrow> 'a \<Rightarrow> unit result \<times> 'a) \<Rightarrow> string list \<Rightarrow> 'a \<Rightarrow> (unit result \<times> 'a) option"
      and exec and cmds :: "string list" and d and r
    assume IH: "\<And>exec cmds d r. rec exec cmds d = Some r \<Longrightarrow> cmds \<noteq> [] # cs"
      and body: "(case cmds of [] \<Rightarrow> Some (ok (), d)
          | c # cs \<Rightarrow> if c = [] then rec exec cmds d
             else case exec c d of (Inl e, d1) \<Rightarrow> Some (Inl e, d1) | (Inr _, d1) \<Rightarrow> rec exec cs d1) = Some r"
    show "cmds \<noteq> [] # cs" using IH [of exec cmds d r] body by auto
  qed
  then show False by simp
qed

lemma run_init_upto:
  "run_init exec cmds d =
     (case exec_seq exec (takeWhile (\<lambda>c. c \<noteq> []) cmds) d of
        (Inl e, d1) \<Rightarrow> Some (Inl e, d1)
      | (Inr _, d1) \<Rightarrow> (if list_all (\<lambda>c. c \<noteq> []) cmds then Some (ok (), d1) else None))"
proof (induction cmds arbitrary: d)
  case Nil
  then show ?case by (simp add: run_init.simps)
next
  case (Cons c cs)
  show ?case
  proof (cases "c = []")
    case True
    then show ?thesis by (simp add: run_init_hangs)
  next
    case False
    then show ?thesis
      by (subst run_init.simps) (auto simp: Cons.IH split: prod.split sum.split)
  qed
qed

text \<open>
  The initial commands are run one after the other in their order, up to the first that fails, whose
  error is the result; and the server hangs at start, without an error, exactly when it comes to an empty
  command, that is, when two separating semicolons stand next to each other, or one at the beginning, and
  all commands before succeed.
\<close>

theorem init_commands_end_or_hang:
  "RUN_INIT_COMMANDS exec commands d =
     (let cmds = split_init commands []
      in case exec_seq exec (takeWhile (\<lambda>c. c \<noteq> []) cmds) d of
           (Inl e, d1) \<Rightarrow> Some (Inl e, d1)
         | (Inr _, d1) \<Rightarrow> (if list_all (\<lambda>c. c \<noteq> []) cmds then Some (ok (), d1) else None))"
  by (simp add: RUN_INIT_COMMANDS_def run_init_upto Let_def)

lemma double_semicolon_hangs: "RUN_INIT_COMMANDS (\<lambda>c d. (ok (), d @ [c])) ''SELECT 1;;SELECT 2'' [] = None"
  by (simp add: RUN_INIT_COMMANDS_def run_init_upto)

section \<open>The middleware\<close>

text \<open>
  What the builder calls: the JWKS library and HTTP client, the certificate reader of the Basic factory, the
  license for external authentication, and the times at which a key is looked up.
\<close>

record front_lib =
  fl_jwks :: jwks_lib
  fl_get :: http_get
  fl_read_file :: "string \<Rightarrow> string option"
  fl_external_auth :: bool
  fl_times :: lookup_times

definition front_auth :: "front_lib \<Rightarrow> auth_lib" where
  "front_auth L = oa_auth (jl_oauth (fl_jwks L))"

text \<open>The manager as the Basic factory uses it.\<close>

definition jwks_view :: "front_lib \<Rightarrow> jwks_manager \<Rightarrow> jwks" where
  "jwks_view L m =
     \<lparr>GetKeyForKid = (\<lambda>kid. fst (jwks_GetKeyForKid (fl_jwks L) (fl_get L) (fl_times L) kid m)),
      GetAlgorithmForKid = (\<lambda>kid. fst (jwks_GetAlgorithmForKid (fl_jwks L) (fl_get L) (fl_times L) kid m))\<rparr>"

text \<open>The manager, and the authorization and token endpoints, which only the discovery gives.\<close>

definition setup_jwks :: "front_lib \<Rightarrow> token_options \<Rightarrow> jwks_manager option \<times> string \<times> string" where
  "setup_jwks L k =
     (if ko_jwks_uri k \<noteq> [] \<or> (ko_issuer k \<noteq> [] \<and> ko_audience k \<noteq> [] \<and> ko_cert k = [])
      then (if ko_jwks_uri k \<noteq> [] then (Some (new_jwks_manager (ko_jwks_uri k)), [], [])
            else case DiscoverOidcEndpoints (fl_jwks L) (fl_get L) (ko_issuer k) of
                   Inr ep \<Rightarrow> (Some (new_jwks_manager (ep_jwks_uri ep)), ep_authorization ep, ep_token ep)
                 | Inl e \<Rightarrow> (None, [], []))
      else (None, [], []))"

definition oauth_email_patterns :: "string \<Rightarrow> string list" where
  "oauth_email_patterns emails =
     (if emails \<noteq> [] \<and> emails \<noteq> ''*''
      then map strip_blanks (filter (list_ex (\<lambda>c. \<not> list_blank c)) (getlines (CHR '','') emails))
      else [])"

definition effective_base_url :: "server_options \<Rightarrow> string" where
  "effective_base_url o1 =
     (if uo_base_url (so_oauth o1) \<noteq> [] then uo_base_url (so_oauth o1)
      else (if to_cert (so_tls o1) \<noteq> [] \<and> \<not> uo_disable_tls (so_oauth o1) then ''https'' else ''http'')
        @ ''://localhost:'' @ show_int (uo_port (so_oauth o1)))"

definition oauth_config_of :: "server_options \<Rightarrow> string \<Rightarrow> string \<Rightarrow> oauth_config" where
  "oauth_config_of o1 auth_ep token_ep =
     \<lparr>oc_port = uo_port (so_oauth o1), oc_client_id = uo_client_id (so_oauth o1),
      oc_client_secret = uo_client_secret (so_oauth o1), oc_scopes = uo_scopes (so_oauth o1),
      oc_redirect_uri = effective_base_url o1 @ ''/oauth/callback'', oc_secret_key = bo_secret_key (so_base o1),
      oc_patterns = oauth_email_patterns (ko_emails (so_token o1)),
      oc_disable_tls = uo_disable_tls (so_oauth o1), oc_tls_cert_path = to_cert (so_tls o1),
      oc_tls_key_path = to_key (so_tls o1), oc_authorization_endpoint = auth_ep, oc_token_endpoint = token_ep\<rparr>"

definition setup_oauth ::
    "front_lib \<Rightarrow> server_options \<Rightarrow> jwks_manager option \<times> string \<times> string \<Rightarrow> oauth_config option result" where
  "setup_oauth L o1 js =
     (case js of (jm, auth_ep, token_ep) \<Rightarrow>
        if uo_client_id (so_oauth o1) = [] then ok None
        else if \<not> fl_external_auth L
        then fail Invalid (''Server-side OAuth code exchange requires GizmoSQL Enterprise Edition with the ''
               @ [squote] @ ''external_auth'' @ [squote] @ '' feature. Visit https://gizmodata.com/gizmosql for details.'')
        else if auth_ep = [] \<or> token_ep = []
        then fail Invalid (''OAuth code exchange requires OIDC authorization and token endpoints. ''
               @ ''These are normally discovered from the issuer'' @ [squote] @ ''s .well-known/openid-configuration. ''
               @ ''Ensure --token-allowed-issuer is set to a valid OIDC issuer URL.'')
        else if jm = None
        then fail Invalid (''OAuth code exchange requires JWKS for ID token verification. ''
               @ ''Ensure OIDC discovery succeeded or set --token-jwks-uri explicitly.'')
        else ok (Some (oauth_config_of o1 auth_ep token_ep)))"

text \<open>What the Flight server is given: the factories and the options of the listener.\<close>

record front =
  fr_scheme :: string
  fr_basic :: basic_factory
  fr_bearer :: bearer_factory
  fr_jwks :: "jwks_manager option"
  fr_oauth :: "oauth_config option"
  fr_middleware :: "string list"
  fr_verify_client :: bool

definition basic_config_of :: "server_options \<Rightarrow> basic_config" where
  "basic_config_of o1 =
     \<lparr>bc_username = bo_username (so_base o1), bc_password = bo_password (so_base o1),
      bc_secret_key = bo_secret_key (so_base o1), bc_issuer = ko_issuer (so_token o1),
      bc_audience = ko_audience (so_token o1), bc_cert_path = ko_cert (so_token o1),
      bc_tls = (to_cert (so_tls o1) \<noteq> []), bc_mtls = (to_mtls_ca (so_tls o1) \<noteq> [])\<rparr>"

definition configure_basic ::
    "front_lib \<Rightarrow> server_options \<Rightarrow> jwks_manager option \<Rightarrow> oauth_config option \<Rightarrow> basic_factory \<Rightarrow> basic_factory" where
  "configure_basic L o1 jm oc f =
     (let f1 = (if ko_default_role (so_token o1) \<noteq> []
                then f\<lparr>bf_default_role := ko_default_role (so_token o1)\<rparr> else f);
          f2 = (if ko_emails (so_token o1) \<noteq> [] then SetTokenAuthorizedEmails (ko_emails (so_token o1)) f1 else f1);
          f3 = (case jm of None \<Rightarrow> f2 | Some m \<Rightarrow> f2\<lparr>bf_jwks := Some (jwks_view L m)\<rparr>)
      in if oc = None then f3 else f3\<lparr>bf_oauth_url := effective_base_url o1\<rparr>)"

text \<open>
  The builder up to the backend. The constructor of the Basic factory throws for a reserved user name or an
  unreadable certificate: \<open>Inl\<close> of the outer sum, which leaves the builder.
\<close>

definition build_middleware :: "front_lib \<Rightarrow> server_options \<Rightarrow> string + front result" where
  "build_middleware L o1 =
     xbind (BasicAuthServerMiddlewareFactory (front_auth L) (fl_read_file L) (basic_config_of o1)) (\<lambda>f.
       let js = setup_jwks L (so_token o1)
       in Inr (rbind (setup_oauth L o1 js) (\<lambda>oc.
            ok \<lparr>fr_scheme = (if to_cert (so_tls o1) \<noteq> [] then ''grpc+tls'' else ''grpc+tcp''),
                fr_basic = configure_basic L o1 (fst js) oc f,
                fr_bearer = \<lparr>be_secret_key = bo_secret_key (so_base o1), be_log_level = so_auth_log_level o1,
                             be_instance_id = [], be_allow_cross = False, logged_token_ids = {}\<rparr>,
                fr_jwks = fst js, fr_oauth = oc,
                fr_middleware = [''header-auth-server'', ''bearer-auth-server'']
                  @ (if so_access_log o1 then [''access_log''] else [])
                  @ (if so_telemetry o1 then [''telemetry''] else []),
                fr_verify_client = (to_mtls_ca (so_tls o1) \<noteq> [])\<rparr>)))"

definition backend_check :: "server_options \<Rightarrow> unit result" where
  "backend_check o1 =
     (if no_enabled (so_instr o1) \<and> so_backend o1 \<noteq> Duckdb
      then fail Invalid (''Instrumentation is only supported with the DuckDB backend. ''
             @ ''Please use the default DuckDB backend or disable instrumentation.'')
      else ok ())"

definition build_front :: "front_lib \<Rightarrow> server_options \<Rightarrow> string + front result" where
  "build_front L o1 =
     map_sum id (\<lambda>r. rbind r (\<lambda>f. rbind (backend_check o1) (\<lambda>_. ok f))) (build_middleware L o1)"

section \<open>The DuckDB backend\<close>

text \<open>
  \<open>sa_create\<close> opens the database; \<open>sa_query\<close> runs a text on a connection of its own, as the server's
  \<open>ExecuteSql\<close> does for every command, and gives its error.
\<close>

record 'db start_api =
  sa_create :: "server_options \<Rightarrow> 'db result"
  sa_query :: "string \<Rightarrow> 'db \<Rightarrow> string option \<times> 'db"
  sa_instr :: "'db instr_api"
  sa_paths :: path_lib
  sa_instance_id :: string
  sa_describe :: "server_options \<Rightarrow> string \<Rightarrow> instance_config"

definition server_ExecuteSql :: "'db start_api \<Rightarrow> string \<Rightarrow> 'db \<Rightarrow> unit result \<times> 'db" where
  "server_ExecuteSql A sql d =
     (case sa_query A sql d of (Some e, d1) \<Rightarrow> (fail Invalid e, d1) | (None, d1) \<Rightarrow> (ok (), d1))"

definition manager_config_of :: "host \<Rightarrow> path_lib \<Rightarrow> server_options \<Rightarrow> manager_config" where
  "manager_config_of h fs o1 =
     (let n = so_instr o1;
          external = (no_catalog n \<noteq> []);
          e = env_var h ''GIZMOSQL_INSTRUMENTATION_DB_PATH''
      in \<lparr>mc_db_path = (if external then []
                       else if no_db_path n \<noteq> [] then no_db_path n
                       else GetDefaultDbPath fs (if e = [] then None else Some e) (bo_database (so_base o1))),
          mc_catalog = (if external then no_catalog n else ''_gizmosql_instr''),
          mc_schema = or_default (no_schema n) ''main'', mc_external = external\<rparr>)"

definition default_init_commands :: string where
  "default_init_commands =
     ''SET autoinstall_known_extensions = true; SET autoload_known_extensions = true;''
     @ ''INSTALL icu; LOAD icu;'' @ ''INSTALL spatial; LOAD spatial; CALL register_geoarrow_extensions();''"

definition duckdb_init_commands :: "manager_config \<Rightarrow> server_options \<Rightarrow> string" where
  "duckdb_init_commands mc o1 =
     default_init_commands
       @ (if no_enabled (so_instr o1) \<and> \<not> mc_external mc
          then ''ATTACH '' @ [squote] @ mc_db_path mc @ [squote] @ '' AS _gizmosql_instr;'' else [])
       @ io_commands (so_init o1)"

text \<open>A started server: its database, the manager and the record of this instance, when instrumented.\<close>

record 'db started =
  sd_front :: front
  sd_db :: 'db
  sd_manager :: "instr_manager option"
  sd_instance :: "instance_instr option"

definition set_instance :: "string \<Rightarrow> bool \<Rightarrow> front \<Rightarrow> front" where
  "set_instance i allow_cross f =
     f\<lparr>fr_basic := (fr_basic f)\<lparr>bf_instance_id := i\<rparr>,
       fr_bearer := (fr_bearer f)\<lparr>be_instance_id := i, be_allow_cross := be_allow_cross (fr_bearer f) \<or> allow_cross\<rparr>\<rparr>"

definition start_instrumentation ::
    "'db start_api \<Rightarrow> manager_config \<Rightarrow> server_options \<Rightarrow> front \<Rightarrow> 'db \<Rightarrow> 'db started result" where
  "start_instrumentation A mc o1 f d =
     (if \<not> no_enabled (so_instr o1) then ok \<lparr>sd_front = f, sd_db = d, sd_manager = None, sd_instance = None\<rparr>
      else case manager_Create (sa_instr A) True mc d of
             (Inl e, d1) \<Rightarrow> Inl e
           | (Inr m, d1) \<Rightarrow>
               (case InstanceInstrumentation (Some m) (sa_describe A o1 (sa_instance_id A)) of
                  (ii, mo) \<Rightarrow> ok \<lparr>sd_front = f, sd_db = d1, sd_manager = mo, sd_instance = Some ii\<rparr>))"

text \<open>\<open>None\<close>: the initial commands never end.\<close>

definition start_duckdb :: "host \<Rightarrow> 'db start_api \<Rightarrow> server_options \<Rightarrow> front \<Rightarrow> 'db started result option" where
  "start_duckdb h A o1 f0 =
     (case sa_create A o1 of
        Inl e \<Rightarrow> Some (Inl e)
      | Inr d \<Rightarrow>
          (let f = set_instance (sa_instance_id A) (so_allow_cross o1) f0;
               mc = manager_config_of h (sa_paths A) o1
           in case (case fr_oauth f of None \<Rightarrow> ok () | Some c \<Rightarrow> rbind (oauth_Start c) (\<lambda>_. ok ())) of
                Inl e \<Rightarrow> Some (Inl e)
              | Inr _ \<Rightarrow>
                  (case RUN_INIT_COMMANDS (server_ExecuteSql A) (duckdb_init_commands mc o1) d of
                     None \<Rightarrow> None
                   | Some (Inl e, d1) \<Rightarrow> Some (Inl e)
                   | Some (Inr _, d1) \<Rightarrow> Some (start_instrumentation A mc o1 f d1))))"

section \<open>Running and stopping\<close>

text \<open>
  The exit code of \<open>RunFlightSQLServer\<close> with the DuckDB backend; \<open>serve\<close> is what \<open>Serve\<close> and the release
  after it do. An exception of the builder leaves the process: \<open>Inl\<close>.
\<close>

definition RunFlightSQLServer ::
    "host \<Rightarrow> front_lib \<Rightarrow> 'db start_api \<Rightarrow> unit result \<Rightarrow> bool \<Rightarrow> run_arguments \<Rightarrow> (string + int) option" where
  "RunFlightSQLServer h L A license_status instr_licensed a =
     (let o0 = run_options h a
      in case license_status of
           Inl e \<Rightarrow> Some (Inr 1)
         | Inr _ \<Rightarrow>
             (if no_enabled (so_instr o0) \<and> \<not> instr_licensed then Some (Inr 1)
              else case resolve_options h o0 of
                     Inl e \<Rightarrow> Some (Inr 1)
                   | Inr o1 \<Rightarrow>
                       (case build_front L o1 of
                          Inl e \<Rightarrow> Some (Inl e)
                        | Inr (Inl e) \<Rightarrow> Some (Inr 1)
                        | Inr (Inr f) \<Rightarrow>
                            map_option (\<lambda>r. Inr (case r of Inl e \<Rightarrow> 1 | Inr s \<Rightarrow> 0)) (start_duckdb h A o1 f))))"

text \<open>
  The release after \<open>Serve\<close> has returned: \<open>order\<close> is the order in which the map of sessions is emptied,
  each session's destructor closing its record; then the instance's record, then the manager.
\<close>

fun release_sessions :: "string list \<Rightarrow> 'c registry \<Rightarrow> 'c registry" where
  "release_sessions [] s = s"
| "release_sessions (sid # sids) s =
     release_sessions sids
       (case client_sessions s sid of None \<Rightarrow> s | Some p \<Rightarrow> session_destroy (objs s ! p) s)"

definition manager_Shutdown :: "instr_manager option \<Rightarrow> instr_manager option" where
  "manager_Shutdown mo = map_option (\<lambda>m. m\<lparr>mgr_shutdown := True\<rparr>) mo"

definition release_server :: "string list \<Rightarrow> instance_instr option \<Rightarrow> 'c registry \<Rightarrow> 'c registry" where
  "release_server order inst s =
     (let s1 = ReleaseAllSessions (release_sessions order s);
          s2 = (case inst of None \<Rightarrow> s1 | Some ii \<Rightarrow> s1\<lparr>srv_instr := destroy_instance_instr ii (srv_instr s1)\<rparr>)
      in s2\<lparr>srv_instr := manager_Shutdown (srv_instr s2)\<rparr>)"

section \<open>Properties\<close>

text \<open>
  The OAuth flow works only with discovered endpoints: if the configuration is accepted with a client
  id, then no JWKS address was given, no certificate was given, and the issuer's discovery document named
  both endpoints, which are the ones used. With an explicit JWKS address the server never starts, although
  the message for a missing JWKS manager recommends to set one.
\<close>

theorem oauth_needs_discovery:
  assumes "setup_oauth L o1 (setup_jwks L (so_token o1)) = ok (Some c)"
  shows "ko_jwks_uri (so_token o1) = [] \<and> ko_cert (so_token o1) = [] \<and> fl_external_auth L
    \<and> (\<exists>ep. DiscoverOidcEndpoints (fl_jwks L) (fl_get L) (ko_issuer (so_token o1)) = ok ep
         \<and> oc_authorization_endpoint c = ep_authorization ep \<and> oc_token_endpoint c = ep_token ep
         \<and> ep_authorization ep \<noteq> [] \<and> ep_token ep \<noteq> [])"
  using assms
  by (auto simp: setup_oauth_def setup_jwks_def oauth_config_of_def split: if_splits sum.splits)

lemma oauth_pattern_same: "oauth_pattern_matches email p = pattern_matches email p"
proof -
  have "take (length s) (drop (length e - length s) e) = drop (length e - length s) e"
    if "length s \<le> length e" for s e :: string
    using that by (intro take_all) simp
  then show ?thesis
    by (cases "to_lower p") (auto simp: oauth_pattern_matches_def pattern_matches_def Let_def)
qed

text \<open>
  The OAuth server and the Basic middleware admit the same users: for every value of the option, the
  early check in the browser flow accepts an address exactly when the check of the bootstrap token will.
\<close>

theorem oauth_and_basic_admit_the_same:
  "oauth_IsEmailAuthorized (oauth_config_of o1 a t) email
    = IsEmailAuthorized email (configure_basic L o1 jm oc (f\<lparr>bf_patterns := []\<rparr>))"
proof -
  have "strip_blanks ''*'' = ''*''" "list_ex (\<lambda>c. \<not> list_blank c) ''*''"
    by (simp_all add: strip_blanks_def list_blank_def)
  then have all: "bf_patterns (SetTokenAuthorizedEmails ''*'' g) = [''*'']" for g
    by (simp add: SetTokenAuthorizedEmails_def getlines_no_delim)
  have star: "pattern_matches email ''*''"
    by (simp add: pattern_matches_def Let_def to_lower_def tolower_def is_upper_def)
  have same: "oauth_pattern_matches e = pattern_matches e" for e
    by (rule ext) (rule oauth_pattern_same)
  let ?s = "ko_emails (so_token o1)"
  have basic: "bf_patterns (configure_basic L o1 jm oc (f\<lparr>bf_patterns := []\<rparr>))
      = (if ?s = [] then [] else bf_patterns (SetTokenAuthorizedEmails ?s f))"
    by (simp add: configure_basic_def Let_def SetTokenAuthorizedEmails_def split: option.split)
  have oauth: "oc_patterns (oauth_config_of o1 a t)
      = (if ?s = [] \<or> ?s = ''*'' then [] else bf_patterns (SetTokenAuthorizedEmails ?s f))"
    by (simp add: oauth_config_of_def oauth_email_patterns_def SetTokenAuthorizedEmails_def)
  show ?thesis
    unfolding oauth_IsEmailAuthorized_def IsEmailAuthorized_def basic oauth same
    using star all by (cases "?s = ''*''") simp_all
qed

lemma release_sessions_keeps:
  "client_sessions (release_sessions order s) = client_sessions s \<and> objs (release_sessions order s) = objs s"
  by (induction order arbitrary: s) (auto simp: session_destroy_def split: option.split)

lemma release_sessions_queue:
  assumes "srv_instr s = Some m" and "accepting m"
    and "\<And>sid. sid \<in> set order \<Longrightarrow> \<exists>p si. client_sessions s sid = Some p \<and> instrumentation (objs s ! p) = Some si"
  shows "srv_instr (release_sessions order s) = Some (m\<lparr>mgr_queue := mgr_queue m
    @ map (\<lambda>sid. let si = the (instrumentation (objs s ! the (client_sessions s sid)))
                 in UpdateSession (si_session_id si) (session_status (si_stop_reason si)) (si_stop_reason si)) order\<rparr>)"
  using assms
proof (induction order arbitrary: s m)
  case (Cons sid order)
  obtain p si where p: "client_sessions s sid = Some p" "instrumentation (objs s ! p) = Some si"
    using Cons.prems(3) by (metis list.set_intros(1))
  let ?w = "UpdateSession (si_session_id si) (session_status (si_stop_reason si)) (si_stop_reason si)"
  let ?m = "m\<lparr>mgr_queue := mgr_queue m @ [?w]\<rparr>"
  let ?s = "s\<lparr>srv_instr := Some ?m\<rparr>"
  have "session_destroy (objs s ! p) s = ?s"
    using p(2) Cons.prems(1,2)
    by (simp add: session_destroy_def destroy_session_instr_def queue_if_set_def QueueWrite_def accepting_def)
  moreover have "accepting ?m" using Cons.prems(2) by (simp add: accepting_def)
  then have "srv_instr (release_sessions order ?s) = Some (?m\<lparr>mgr_queue := mgr_queue ?m
      @ map (\<lambda>sid. let si = the (instrumentation (objs s ! the (client_sessions s sid)))
                   in UpdateSession (si_session_id si) (session_status (si_stop_reason si)) (si_stop_reason si)) order\<rparr>)"
    using Cons.prems(3) by (subst Cons.IH [of ?s ?m]) auto
  ultimately show ?case using p by simp
qed simp

text \<open>
  C18: The order of the release loses no record: when the server stops, the close of every registered session
  is queued, with its stop reason, then the stop of the instance, and only then does the manager refuse
  writes; so the queue that it drains ends with exactly these records.
\<close>

theorem release_records_everything:
  assumes "srv_instr s = Some m" and "mgr_enabled m" and "\<not> mgr_shutdown m"
    and "set order = dom (client_sessions s)"
    and "\<forall>sid p. client_sessions s sid = Some p \<longrightarrow> instrumentation (objs s ! p) \<noteq> None"
  shows "\<exists>m'. srv_instr (release_server order (Some ii) s) = Some m' \<and> mgr_shutdown m'
    \<and> client_sessions (release_server order (Some ii) s) = Map.empty
    \<and> mgr_queue m' = mgr_queue m
        @ map (\<lambda>sid. let si = the (instrumentation (objs s ! the (client_sessions s sid)))
                     in UpdateSession (si_session_id si) (session_status (si_stop_reason si)) (si_stop_reason si)) order
        @ [UpdateInstance (ii_instance_id ii) (ii_stop_reason ii)]"
proof -
  have "\<exists>p si. client_sessions s sid = Some p \<and> instrumentation (objs s ! p) = Some si" if "sid \<in> set order" for sid
    using assms(4,5) that by (auto simp: dom_def)
  then have "srv_instr (release_sessions order s) = Some (m\<lparr>mgr_queue := mgr_queue m
    @ map (\<lambda>sid. let si = the (instrumentation (objs s ! the (client_sessions s sid)))
                 in UpdateSession (si_session_id si) (session_status (si_stop_reason si)) (si_stop_reason si)) order\<rparr>)"
    using assms(1-3) by (intro release_sessions_queue) (auto simp: accepting_def)
  then show ?thesis
    using assms(2,3)
    by (simp add: release_server_def Let_def ReleaseAllSessions_def destroy_instance_instr_def queue_if_set_def
        QueueWrite_def manager_Shutdown_def)
qed

section \<open>Samples\<close>

definition sample_front_lib :: front_lib where
  "sample_front_lib =
     \<lparr>fl_jwks = sample_jwks\<lparr>jl_oauth := sample_oauth\<lparr>nl_parse := (\<lambda>s. Inr (JObject
        [(''jwks_uri'', JString ''https://idp/keys''), (''authorization_endpoint'', JString ''https://idp/auth''),
         (''token_endpoint'', JString ''https://idp/token'')]))\<rparr>\<rparr>,
      fl_get = (\<lambda>b p. Inr (200, ''{}'')), fl_read_file = (\<lambda>p. None), fl_external_auth = True,
      fl_times = \<lparr>lt_first = 1, lt_refresh = 2, lt_fetched = 3\<rparr>\<rparr>"

definition sample_provider :: token_options where
  "sample_provider = \<lparr>ko_issuer = ''https://idp'', ko_audience = ''a'', ko_cert = [], ko_jwks_uri = [],
     ko_default_role = [], ko_emails = []\<rparr>"

theorem oauth_needs_discovery_witness:
  "\<exists>ep. DiscoverOidcEndpoints (fl_jwks sample_front_lib) (fl_get sample_front_lib) ''https://idp'' = ok ep
     \<and> ep_token ep = ''https://idp/token''"
proof -
  let ?o = "sample_options\<lparr>so_token := sample_provider\<rparr>"
  have "HttpGet (fl_get sample_front_lib) ''https://idp/.well-known/openid-configuration'' = ok ''{}''"
    by (simp add: HttpGet_def host_port_def sample_front_lib_def)
  then have disc: "DiscoverOidcEndpoints (fl_jwks sample_front_lib) (fl_get sample_front_lib) ''https://idp''
      = ok \<lparr>ep_jwks_uri = ''https://idp/keys'', ep_authorization = ''https://idp/auth'', ep_token = ''https://idp/token''\<rparr>"
    by (simp add: DiscoverOidcEndpoints_def strip_slashes_def endpoint_text_def member_def sample_front_lib_def)
  then have "\<exists>c. setup_oauth sample_front_lib ?o (setup_jwks sample_front_lib (so_token ?o)) = ok (Some c)
      \<and> oc_token_endpoint c = ''https://idp/token''"
    by (simp add: setup_oauth_def setup_jwks_def sample_provider_def sample_options_def oauth_config_of_def)
       (simp add: sample_front_lib_def)
  then obtain c where c: "setup_oauth sample_front_lib ?o (setup_jwks sample_front_lib (so_token ?o)) = ok (Some c)"
    "oc_token_endpoint c = ''https://idp/token''" by blast
  from oauth_needs_discovery [OF c(1)] c(2) show ?thesis by (auto simp: sample_provider_def)
qed

theorem release_records_everything_witness:
  "\<exists>m' r. srv_instr (release_server [''s''] (Some \<lparr>ii_instance_id = ''i'', ii_stop_reason = ''graceful''\<rparr>)
      ((one_session ''s'')\<lparr>objs := [(objs (one_session ''s'') ! 0)\<lparr>instrumentation :=
          Some \<lparr>si_session_id = ''s'', si_stop_reason = ''closed''\<rparr>\<rparr>],
        srv_instr := Some \<lparr>mgr_catalog = ''c'', mgr_schema = ''m'', mgr_enabled = True, mgr_shutdown = False, mgr_queue = []\<rparr>\<rparr>))
      = Some m'
    \<and> mgr_queue m' = [UpdateSession ''s'' r ''closed'', UpdateInstance ''i'' ''graceful'']"
proof -
  let ?m = "\<lparr>mgr_catalog = ''c'', mgr_schema = ''m'', mgr_enabled = True, mgr_shutdown = False, mgr_queue = []\<rparr>"
  let ?si = "\<lparr>si_session_id = ''s'', si_stop_reason = ''closed''\<rparr>"
  let ?s = "(one_session ''s'')\<lparr>objs := [(objs (one_session ''s'') ! 0)\<lparr>instrumentation := Some ?si\<rparr>], srv_instr := Some ?m\<rparr>"
  have sess: "client_sessions (one_session ''s'') sid = (if sid = ''s'' then Some 0 else None)" for sid
    by (simp add: one_session_def)
  have "srv_instr ?s = Some ?m" "mgr_enabled ?m" "\<not> mgr_shutdown ?m" by simp_all
  moreover have "set [''s''] = dom (client_sessions ?s)" by (auto simp: sess dom_def)
  moreover have "\<forall>sid p. client_sessions ?s sid = Some p \<longrightarrow> instrumentation (objs ?s ! p) \<noteq> None"
    by (simp add: sess)
  ultimately show ?thesis
    using release_records_everything [of ?s ?m "[''s'']" "\<lparr>ii_instance_id = ''i'', ii_stop_reason = ''graceful''\<rparr>"]
    by (auto simp: sess Let_def)
qed

end
