(* ===== verification/Telemetry.thy ===== *)
theory Telemetry
  imports Options
begin

text \<open>
  Telemetry (\<open>src/src/common/gizmosql_telemetry.cpp\<close>, \<open>telemetry_middleware.cpp\<close>) and the access log
  (\<open>access_log_middleware.cpp\<close>): the configuration, the life of the instruments, and what the middleware says of a
  call. The OpenTelemetry library itself is outside; of its providers only what they are configured with is kept.
\<close>

section \<open>Configuration\<close>

datatype exporter_type = kNone | kHttp

definition ParseExporterType :: "string \<Rightarrow> exporter_type" where
  "ParseExporterType type_str =
     (let l = to_lower type_str in
      if l = [] \<or> l = ''none'' \<or> l = ''off'' \<or> l = ''disabled'' then kNone
      else kHttp)"

definition GetDefaultEndpoint :: "exporter_type \<Rightarrow> string" where
  "GetDefaultEndpoint t = (case t of kHttp \<Rightarrow> ''http://localhost:4318'' | kNone \<Rightarrow> [])"

definition blank :: "char \<Rightarrow> bool" where
  "blank c \<longleftrightarrow> c = CHR '' '' \<or> c = tabchar"

definition trim_blanks :: "string \<Rightarrow> string" where
  "trim_blanks s = rev (dropWhile blank (rev (dropWhile blank s)))"

text \<open>A pair without an equals sign or without a key is left out.\<close>

definition header_of :: "string \<Rightarrow> (string \<times> string) list" where
  "header_of pair =
     (case find_char (CHR ''='') pair of
        None \<Rightarrow> []
      | Some eq \<Rightarrow>
          (let key = trim_blanks (take eq pair); val = trim_blanks (drop (eq + 1) pair) in
           if key = [] then [] else [(key, val)]))"

function ParseHeaders :: "string \<Rightarrow> (string \<times> string) list" where
  "ParseHeaders remaining =
     (if remaining = [] then []
      else case find_char (CHR '','') remaining of
             None \<Rightarrow> header_of remaining
           | Some comma \<Rightarrow> header_of (take comma remaining) @ ParseHeaders (drop (comma + 1) remaining))"
  by pat_completeness auto
termination by (relation "measure length") (auto dest: find_char_Some)

declare ParseHeaders.simps [simp del]

record telemetry_config =
  tc_enabled :: bool
  tc_exporter_type :: exporter_type
  tc_endpoint :: string
  tc_service_name :: string
  tc_service_version :: string
  tc_deployment_environment :: string
  tc_headers :: string
  tc_traces_enabled :: bool
  tc_metrics_enabled :: bool

definition CreateResource :: "telemetry_config \<Rightarrow> (string \<times> string) list" where
  "CreateResource c =
     [(''service.name'', tc_service_name c)]
     @ (if tc_service_version c = [] then [] else [(''service.version'', tc_service_version c)])
     @ (if tc_deployment_environment c = [] then []
        else [(''deployment.environment'', tc_deployment_environment c)])"

section \<open>The life of telemetry\<close>

text \<open>A provider: its URL, headers and resource.\<close>

record provider =
  pv_url :: string
  pv_headers :: "(string \<times> string) list"
  pv_resource :: "(string \<times> string) list"

record telemetry =
  tm_initialized :: bool
  tm_enabled :: bool
  tm_tracer :: "provider option"
  tm_meter :: "provider option"
  tm_propagator :: bool
  tm_instruments :: bool

definition no_telemetry :: telemetry where
  "no_telemetry = \<lparr>tm_initialized = False, tm_enabled = False, tm_tracer = None, tm_meter = None,
                   tm_propagator = False, tm_instruments = False\<rparr>"

definition InitTelemetry :: "telemetry_config \<Rightarrow> telemetry \<Rightarrow> telemetry" where
  "InitTelemetry c t =
     (if tm_initialized t then t
      else if \<not> tc_enabled c \<or> tc_exporter_type c = kNone then t\<lparr>tm_initialized := True, tm_enabled := False\<rparr>
      else let endpoint = (if tc_endpoint c = [] then GetDefaultEndpoint (tc_exporter_type c) else tc_endpoint c);
               prov = (\<lambda>path. \<lparr>pv_url = endpoint @ path, pv_headers = ParseHeaders (tc_headers c),
                               pv_resource = CreateResource c\<rparr>);
               t1 = (if tc_traces_enabled c then t\<lparr>tm_tracer := Some (prov ''/v1/traces''), tm_propagator := True\<rparr> else t);
               t2 = (if tc_metrics_enabled c then t1\<lparr>tm_meter := Some (prov ''/v1/metrics'')\<rparr> else t1)
           in t2\<lparr>tm_initialized := True, tm_enabled := tc_traces_enabled c \<or> tc_metrics_enabled c\<rparr>)"

text \<open>Shutting down takes two steps that other threads can tell apart; it drops the instruments in the second.\<close>

definition shutdown_disable :: "telemetry \<Rightarrow> telemetry" where
  "shutdown_disable t = (if tm_initialized t then t\<lparr>tm_enabled := False\<rparr> else t)"

definition shutdown_reset :: "telemetry \<Rightarrow> telemetry" where
  "shutdown_reset t = (if tm_initialized t then t\<lparr>tm_instruments := False, tm_initialized := False\<rparr> else t)"

definition ShutdownTelemetry :: "telemetry \<Rightarrow> telemetry" where
  "ShutdownTelemetry t = shutdown_reset (shutdown_disable t)"

text \<open>
  A thread that records a measure: it asks whether telemetry is on, makes the instruments if there are none, and uses
  one, without holding the lock. Without an instrument the use is that of a null pointer.
\<close>

datatype recorder = Rec_ask | Rec_init | Rec_use | Rec_done | Rec_crash

definition record_step :: "recorder \<times> telemetry \<Rightarrow> recorder \<times> telemetry" where
  "record_step s =
     (case s of
        (Rec_ask, t) \<Rightarrow> (if tm_enabled t then Rec_init else Rec_done, t)
      | (Rec_init, t) \<Rightarrow> (Rec_use, t\<lparr>tm_instruments := True\<rparr>)
      | (Rec_use, t) \<Rightarrow> (if tm_instruments t then Rec_done else Rec_crash, t)
      | _ \<Rightarrow> s)"

section \<open>The middleware\<close>

datatype flight_method =
    Handshake | ListFlights | GetFlightInfo | GetSchema | DoGet | DoPut | DoAction | ListActions | DoExchange
  | PollFlightInfo | Other_method

definition FlightMethodName :: "flight_method \<Rightarrow> string" where
  "FlightMethodName m =
     (case m of
        Handshake \<Rightarrow> ''Handshake'' | ListFlights \<Rightarrow> ''ListFlights'' | GetFlightInfo \<Rightarrow> ''GetFlightInfo''
      | GetSchema \<Rightarrow> ''GetSchema'' | DoGet \<Rightarrow> ''DoGet'' | DoPut \<Rightarrow> ''DoPut'' | DoAction \<Rightarrow> ''DoAction''
      | ListActions \<Rightarrow> ''ListActions'' | DoExchange \<Rightarrow> ''DoExchange'' | PollFlightInfo \<Rightarrow> ''PollFlightInfo''
      | Other_method \<Rightarrow> ''Unknown'')"

definition EqualsIgnoreCase :: "string \<Rightarrow> string \<Rightarrow> bool" where
  "EqualsIgnoreCase l r \<longleftrightarrow> length l = length r \<and> to_lower l = to_lower r"

definition HasHeaderIgnoreCase :: "(string \<times> string) list \<Rightarrow> string \<Rightarrow> bool" where
  "HasHeaderIgnoreCase hs key \<longleftrightarrow> list_ex (\<lambda>(k, v). EqualsIgnoreCase k key) hs"

text \<open>What the propagator reads of the headers: the exact key first, then any spelling, else the empty text.\<close>

definition carrier_Get :: "(string \<times> string) list \<Rightarrow> string \<Rightarrow> string" where
  "carrier_Get hs key =
     (case List.find (\<lambda>(k, v). k = key) hs of
        Some (k, v) \<Rightarrow> v
      | None \<Rightarrow> (case List.find (\<lambda>(k, v). EqualsIgnoreCase k key) hs of Some (k, v) \<Rightarrow> v | None \<Rightarrow> []))"

text \<open>The codes of Arrow's status. An error of Flight, such as a failed login, is an \<open>IOError\<close> with a detail.\<close>

datatype arrow_code =
    C_Invalid | C_TypeError | C_SerializationError | C_KeyError | C_IndexError | C_AlreadyExists | C_OutOfMemory
  | C_CapacityError | C_Cancelled | C_NotImplemented | C_IOError | C_UnknownError | C_ExecutionError

definition arrow_code_of :: "status_code \<Rightarrow> arrow_code" where
  "arrow_code_of c =
     (case c of
        Invalid \<Rightarrow> C_Invalid | KeyError \<Rightarrow> C_KeyError | ExecutionError \<Rightarrow> C_ExecutionError | IOError \<Rightarrow> C_IOError
      | Unauthenticated \<Rightarrow> C_IOError | IndexError \<Rightarrow> C_IndexError | TypeError \<Rightarrow> C_TypeError
      | UnknownError \<Rightarrow> C_UnknownError | status_code.Cancelled \<Rightarrow> C_Cancelled | NotImplemented \<Rightarrow> C_NotImplemented)"

definition grpc_code_of :: "arrow_code \<Rightarrow> int" where
  "grpc_code_of c =
     (case c of
        C_Invalid \<Rightarrow> 3 | C_TypeError \<Rightarrow> 3 | C_SerializationError \<Rightarrow> 3
      | C_KeyError \<Rightarrow> 5 | C_IndexError \<Rightarrow> 5
      | C_AlreadyExists \<Rightarrow> 6
      | C_OutOfMemory \<Rightarrow> 8 | C_CapacityError \<Rightarrow> 8
      | C_Cancelled \<Rightarrow> 1
      | C_NotImplemented \<Rightarrow> 12
      | C_IOError \<Rightarrow> 14
      | _ \<Rightarrow> 2)"

text \<open>The attributes of a span when its call starts.\<close>

datatype attribute = AText string | ABool bool | AInt int

definition span_attributes ::
    "(string \<Rightarrow> string option) \<Rightarrow> flight_method \<Rightarrow> string \<Rightarrow> bool \<Rightarrow> (string \<times> string) list \<Rightarrow> (string \<times> attribute) list" where
  "span_attributes env method peer_address parent_valid hs =
     [(''rpc.system'', AText ''grpc''), (''rpc.service'', AText ''arrow.flight.protocol.FlightService''),
      (''rpc.method'', AText (FlightMethodName method)), (''gizmosql.trace.parent_present'', ABool parent_valid),
      (''gizmosql.trace.tracecontext_parent_present'', ABool parent_valid),
      (''gizmosql.trace.parent_format'', AText (if parent_valid then ''tracecontext'' else ''none'')),
      (''gizmosql.trace.traceparent_present'', ABool (HasHeaderIgnoreCase hs ''traceparent''))]
     @ (case env ''GIZMOSQL_OTEL_SERVICE_VERSION'' of
          None \<Rightarrow> [] | Some v \<Rightarrow> if v = [] then [] else [(''service.version'', AText v)])
     @ (if peer_address = [] then [] else [(''net.peer.name'', AText peer_address)])"

text \<open>What a completed call adds: its duration and code.\<close>

definition completed_attributes :: "int \<Rightarrow> arrow_code option \<Rightarrow> (string \<times> attribute) list" where
  "completed_attributes elapsed_ms error =
     [(''duration_ms'', AInt elapsed_ms),
      (''rpc.grpc.status_code'', AInt (case error of None \<Rightarrow> 0 | Some c \<Rightarrow> grpc_code_of c))]"

text \<open>What the access log gives to the logger for a completed call.\<close>

definition access_line :: "flight_method \<Rightarrow> string \<Rightarrow> string \<Rightarrow> int \<Rightarrow> string" where
  "access_line method peer_address status_string dur_ms =
     ''[func=CallCompleted] access method='' @ FlightMethodName method @ '' peer='' @ (if peer_address = [] then ''unknown'' else peer_address)
     @ '' status='' @ status_string @ '' duration_ms='' @ show_int dur_ms"

section \<open>Measures\<close>

text \<open>
  What the recording functions give to the instruments, in their order: the instrument, the value and the labels. Counts
  of bytes and rows below 0 are dropped.
\<close>

type_synonym measure_of = "string \<times> int \<times> (string \<times> string) list"

definition RecordRpcCall :: "telemetry \<Rightarrow> string \<Rightarrow> string \<Rightarrow> int \<Rightarrow> measure_of list" where
  "RecordRpcCall t method status_label duration_ms =
     (if \<not> tm_enabled t then []
      else let labels = [(''rpc.method'', method), (''rpc.status'', status_label)]
           in [(''gizmosql.rpc.duration'', duration_ms, labels), (''gizmosql.rpc.count'', 1, labels)])"

definition RecordQueryExecution :: "telemetry \<Rightarrow> string \<Rightarrow> string \<Rightarrow> int \<Rightarrow> measure_of list" where
  "RecordQueryExecution t operation status_label duration_ms =
     (if \<not> tm_enabled t then []
      else let labels = [(''db.operation'', operation), (''db.status'', status_label)]
           in [(''gizmosql.query.duration'', duration_ms, labels), (''gizmosql.query.count'', 1, labels)])"

definition RecordActiveConnections :: "telemetry \<Rightarrow> int \<Rightarrow> measure_of list" where
  "RecordActiveConnections t count =
     (if \<not> tm_enabled t then [] else [(''gizmosql.connections.active'', count, [])])"

definition RecordBytesTransferred :: "telemetry \<Rightarrow> string \<Rightarrow> int \<Rightarrow> measure_of list" where
  "RecordBytesTransferred t direction bytes =
     (if \<not> tm_enabled t \<or> bytes < 0 then []
      else [(''gizmosql.bytes.transferred'', bytes, [(''direction'', direction)])])"

definition RecordRowsTransferred :: "telemetry \<Rightarrow> string \<Rightarrow> int \<Rightarrow> measure_of list" where
  "RecordRowsTransferred t direction rows =
     (if \<not> tm_enabled t \<or> rows < 0 then []
      else [(''gizmosql.rows.transferred'', rows, [(''direction'', direction)])])"

section \<open>The life of a call\<close>

text \<open>
  The span a call has when telemetry was on at its start, and what its end leaves of it: the status, with the text of an
  error, and the event an error adds. \<open>code_name\<close> is Arrow's name of a code, \<open>shown_status\<close> the text of a status.
\<close>

record call_span =
  sp_name :: string
  sp_attributes :: "(string \<times> attribute) list"
  sp_status :: "string option"
  sp_events :: "(string \<times> (string \<times> string) list) list"
  sp_ended :: bool

definition TelemetryMiddleware ::
    "telemetry \<Rightarrow> (string \<Rightarrow> string option) \<Rightarrow> flight_method \<Rightarrow> string \<Rightarrow> bool \<Rightarrow> (string \<times> string) list \<Rightarrow> call_span option" where
  "TelemetryMiddleware t env method peer_address parent_valid hs =
     (if \<not> tm_enabled t then None
      else Some \<lparr>sp_name = ''gizmosql.'' @ FlightMethodName method,
                 sp_attributes = span_attributes env method peer_address parent_valid hs,
                 sp_status = None, sp_events = [], sp_ended = False\<rparr>)"

definition call_completed ::
    "(arrow_code \<Rightarrow> string) \<Rightarrow> (arrow_code \<times> string \<Rightarrow> string) \<Rightarrow> telemetry \<Rightarrow> flight_method \<Rightarrow> int
     \<Rightarrow> (arrow_code \<times> string) option \<Rightarrow> call_span option \<Rightarrow> measure_of list \<times> call_span option" where
  "call_completed code_name shown_status t method elapsed_ms error span =
     (RecordRpcCall t (FlightMethodName method) (case error of None \<Rightarrow> ''OK'' | Some (c, m) \<Rightarrow> code_name c) elapsed_ms,
      map_option (\<lambda>sp. sp\<lparr>sp_attributes := sp_attributes sp @ completed_attributes elapsed_ms (map_option fst error),
                          sp_status := map_option shown_status error,
                          sp_events := sp_events sp @ (case error of None \<Rightarrow> []
                            | Some (c, m) \<Rightarrow> [(''error'', [(''exception.type'', code_name c), (''exception.message'', m)])])\<rparr>) span)"

text \<open>The destructor of the middleware ends the span.\<close>

definition end_span :: "call_span option \<Rightarrow> call_span option" where
  "end_span span = map_option (\<lambda>sp. sp\<lparr>sp_ended := True\<rparr>) span"

section \<open>What holds\<close>

text \<open>A call is measured by the telemetry of its end and traced by that of its start; off, it leaves nothing.\<close>

lemma no_telemetry_nothing_recorded:
  "\<not> tm_enabled t \<Longrightarrow>
     call_completed code_name shown_status t method ms error (TelemetryMiddleware t env method peer_address parent_valid hs) = ([], None)"
  by (simp add: call_completed_def TelemetryMiddleware_def RecordRpcCall_def)

text \<open>An error is seen three times: in the label of the measures, as the status of the span and as its event.\<close>

lemma error_is_recorded:
  assumes "tm_enabled t"
    and "call_completed code_name shown_status t method ms (Some (c, m)) (TelemetryMiddleware t env method peer_address parent_valid hs)
      = (ms1, Some sp)"
  shows "list_all (\<lambda>(i, v, labels). (''rpc.status'', code_name c) \<in> set labels) ms1
    \<and> sp_status sp = Some (shown_status (c, m)) \<and> length (sp_events sp) = 1
    \<and> (''rpc.grpc.status_code'', AInt (grpc_code_of c)) \<in> set (sp_attributes sp)"
  using assms
  by (auto simp: call_completed_def TelemetryMiddleware_def RecordRpcCall_def Let_def completed_attributes_def)

text \<open>Initialising again changes nothing until telemetry is shut down.\<close>

lemma InitTelemetry_once: "InitTelemetry c' (InitTelemetry c t) = InitTelemetry c t"
  by (simp add: InitTelemetry_def Let_def)

text \<open>Telemetry that is on has a provider for each signal that was asked for.\<close>

lemma enabled_telemetry_has_provider:
  "tm_enabled (InitTelemetry c no_telemetry) \<Longrightarrow>
     tm_tracer (InitTelemetry c no_telemetry) \<noteq> None \<or> tm_meter (InitTelemetry c no_telemetry) \<noteq> None"
  by (auto simp: InitTelemetry_def no_telemetry_def Let_def split: if_splits)

text \<open>A recording thread is safe while nobody shuts telemetry down, and not when someone does in between.\<close>

lemma recording_is_safe: "fst (record_step (record_step (record_step (Rec_ask, t)))) = Rec_done"
  by (simp add: record_step_def)

lemma recording_can_crash:
  assumes "tm_initialized t" and "tm_enabled t"
  shows "fst (record_step (map_prod id ShutdownTelemetry (record_step (record_step (Rec_ask, t))))) = Rec_crash"
  using assms by (simp add: record_step_def ShutdownTelemetry_def shutdown_disable_def shutdown_reset_def)

text \<open>A failed login is reported as unavailable.\<close>

lemma unauthenticated_is_unavailable: "grpc_code_of (arrow_code_of Unauthenticated) = 14"
  by (simp add: grpc_code_of_def arrow_code_of_def)

section \<open>Headers read back\<close>

fun show_headers :: "(string \<times> string) list \<Rightarrow> string" where
  "show_headers [] = []"
| "show_headers [(k, v)] = k @ ''='' @ v"
| "show_headers ((k, v) # h # hs) = k @ ''='' @ v @ '','' @ show_headers (h # hs)"

text \<open>A header that can be written: its key is there, and neither part hides a separator or a blank at an end.\<close>

definition plain_header :: "string \<times> string \<Rightarrow> bool" where
  "plain_header h \<longleftrightarrow> fst h \<noteq> [] \<and> CHR ''='' \<notin> set (fst h) \<and> CHR '','' \<notin> set (fst h) \<union> set (snd h)
     \<and> trim_blanks (fst h) = fst h \<and> trim_blanks (snd h) = snd h"

lemma header_of_plain: "plain_header (k, v) \<Longrightarrow> header_of (k @ ''='' @ v) = [(k, v)]"
  by (simp add: header_of_def plain_header_def find_char_append)

text \<open>
  The headers of the exporter are the ones that were written, in their order; a value may hold further equals signs.
\<close>

lemma headers_read_back: "list_all plain_header hs \<Longrightarrow> ParseHeaders (show_headers hs) = hs"
proof (induction hs rule: show_headers.induct)
  case 1
  then show ?case by (simp add: ParseHeaders.simps)
next
  case (2 k v)
  then have "find_char (CHR '','') (k @ ''='' @ v) = None" by (simp add: plain_header_def find_char_None)
  then show ?case using 2 header_of_plain by (subst ParseHeaders.simps) simp
next
  case (3 k v h hs)
  then have plain: "plain_header (k, v)" by simp
  then have comma: "CHR '','' \<notin> set (k @ ''='' @ v)" by (simp add: plain_header_def)
  have "find_char (CHR '','') ((k @ ''='' @ v) @ CHR '','' # show_headers (h # hs)) = Some (length (k @ ''='' @ v))"
    by (rule find_char_append [OF comma])
  then show ?case
    using 3 header_of_plain [OF plain] by (subst ParseHeaders.simps) simp
qed

end
