(* ===== verification/ServerMain.thy ===== *)
theory ServerMain
  imports Startup Telemetry
begin

text \<open>
  The server program (\<open>src/src/gizmosql_server.cpp\<close>): the options it declares, what \<open>main\<close> reads from them and
  the call of \<open>RunFlightSQLServer\<close> it ends with, followed by the telemetry this one sets up
  (\<open>src/src/common/gizmosql_library.cpp\<close>). The parsing of the command line is Boost's and a parameter:
  it gives a message, or for every option its value and whether that is the default.
\<close>

section \<open>The declared options\<close>

datatype option_type = TText | TInt | TBool | TTexts | TNothing

datatype option_value = ArgText string | ArgInt int | ArgBool bool | ArgTexts "string list" | ArgNothing

record declared_option =
  od_name :: string
  od_letter :: "char option"
  od_type :: option_type
  od_default :: "option_value option"

definition text_option :: "string \<Rightarrow> char option \<Rightarrow> declared_option" where
  "text_option n l = \<lparr>od_name = n, od_letter = l, od_type = TText, od_default = Some (ArgText [])\<rparr>"

definition int_option :: "string \<Rightarrow> char option \<Rightarrow> int \<Rightarrow> declared_option" where
  "int_option n l i = \<lparr>od_name = n, od_letter = l, od_type = TInt, od_default = Some (ArgInt i)\<rparr>"

definition bool_option :: "string \<Rightarrow> char option \<Rightarrow> declared_option" where
  "bool_option n l = \<lparr>od_name = n, od_letter = l, od_type = TBool, od_default = Some (ArgBool False)\<rparr>"

definition plain_option :: "string \<Rightarrow> declared_option" where
  "plain_option n = \<lparr>od_name = n, od_letter = None, od_type = TNothing, od_default = None\<rparr>"

definition server_desc :: "declared_option list" where
  "server_desc =
     [plain_option ''help'', plain_option ''version'',
      \<lparr>od_name = ''backend'', od_letter = Some (CHR ''B''), od_type = TText, od_default = Some (ArgText ''duckdb'')\<rparr>,
      text_option ''hostname'' (Some (CHR ''H'')),
      int_option ''port'' (Some (CHR ''R'')) 31337,
      text_option ''database-filename'' (Some (CHR ''D'')),
      text_option ''username'' (Some (CHR ''U'')),
      text_option ''password'' (Some (CHR ''P'')),
      text_option ''secret-key'' (Some (CHR ''S'')),
      \<lparr>od_name = ''tls'', od_letter = Some (CHR ''T''), od_type = TTexts, od_default = Some (ArgTexts [[], []])\<rparr>,
      text_option ''init-sql-commands'' (Some (CHR ''I'')),
      text_option ''init-sql-commands-file'' (Some (CHR ''F'')),
      text_option ''mtls-ca-cert-filename'' (Some (CHR ''M'')),
      bool_option ''print-queries'' (Some (CHR ''Q'')),
      bool_option ''readonly'' (Some (CHR ''O'')),
      text_option ''token-allowed-issuer'' None,
      text_option ''token-allowed-audience'' None,
      text_option ''token-signature-verify-cert-path'' None,
      text_option ''token-jwks-uri'' None,
      text_option ''token-default-role'' None,
      text_option ''token-authorized-emails'' None,
      text_option ''log-level'' None,
      text_option ''log-format'' None,
      text_option ''access-log'' None,
      text_option ''log-file'' None,
      int_option ''query-timeout'' None 0,
      text_option ''query-log-level'' None,
      text_option ''auth-log-level'' None,
      int_option ''health-port'' None 31338,
      text_option ''health-check-query'' None,
      bool_option ''enable-instrumentation'' None,
      text_option ''instrumentation-db-path'' None,
      text_option ''instrumentation-catalog'' None,
      text_option ''instrumentation-schema'' None,
      text_option ''license-key-file'' (Some (CHR ''L'')),
      bool_option ''allow-cross-instance-tokens'' None,
      text_option ''oauth-client-id'' None,
      text_option ''oauth-client-secret'' None,
      text_option ''oauth-scopes'' None,
      int_option ''oauth-port'' None 0,
      text_option ''oauth-base-url'' None,
      bool_option ''oauth-disable-tls'' None,
      bool_option ''otel-enabled'' None,
      text_option ''otel-exporter'' None,
      text_option ''otel-endpoint'' None,
      text_option ''otel-service-name'' None,
      text_option ''otel-headers'' None]"

section \<open>Reading the options\<close>

type_synonym variables_map = "string \<Rightarrow> (option_value \<times> bool) option"

text \<open>\<open>as<T>()\<close> throws when there is no value or one of another type.\<close>

definition bad_cast :: "'a result" where
  "bad_cast = fail UnknownError ''bad_any_cast''"

definition as_text :: "variables_map \<Rightarrow> string \<Rightarrow> string result" where
  "as_text vm n = (case vm n of Some (ArgText s, d) \<Rightarrow> ok s | _ \<Rightarrow> bad_cast)"

definition as_int :: "variables_map \<Rightarrow> string \<Rightarrow> int result" where
  "as_int vm n = (case vm n of Some (ArgInt i, d) \<Rightarrow> ok i | _ \<Rightarrow> bad_cast)"

definition as_bool :: "variables_map \<Rightarrow> string \<Rightarrow> bool result" where
  "as_bool vm n = (case vm n of Some (ArgBool b, d) \<Rightarrow> ok b | _ \<Rightarrow> bad_cast)"

text \<open>The value or, when the option does not count, the empty text; and the same for numbers.\<close>

definition text_of :: "variables_map \<Rightarrow> string \<Rightarrow> string result" where
  "text_of vm n = (if vm n = None then ok [] else as_text vm n)"

definition int_of_option :: "variables_map \<Rightarrow> string \<Rightarrow> int result" where
  "int_of_option vm n = (if vm n = None then ok 0 else as_int vm n)"

text \<open>A switch with three states: not given at all, or given as true or false.\<close>

definition flag_of :: "variables_map \<Rightarrow> string \<Rightarrow> bool option result" where
  "flag_of vm n =
     (case vm n of
        Some (v, True) \<Rightarrow> ok None
      | _ \<Rightarrow> rbind (as_bool vm n) (\<lambda>b. ok (Some b)))"

section \<open>The program\<close>

definition backend_of :: "string \<Rightarrow> backend option" where
  "backend_of s = (if s = ''duckdb'' then Some Duckdb else if s = ''sqlite'' then Some Sqlite else None)"

text \<open>The arguments of \<open>RunFlightSQLServer\<close>, by group. What it derives itself has no argument.\<close>

definition read_base :: "variables_map \<Rightarrow> base_options result" where
  "read_base vm =
     rbind (as_text vm ''database-filename'') (\<lambda>database.
     rbind (text_of vm ''hostname'') (\<lambda>hostname.
     rbind (as_int vm ''port'') (\<lambda>port.
     rbind (as_int vm ''health-port'') (\<lambda>health_port.
     rbind (text_of vm ''username'') (\<lambda>username.
     rbind (text_of vm ''password'') (\<lambda>password.
     rbind (text_of vm ''secret-key'') (\<lambda>secret_key.
       ok \<lparr>bo_database = database, bo_hostname = hostname, bo_port = port, bo_health_port = health_port,
           bo_username = username, bo_password = password, bo_secret_key = secret_key\<rparr>)))))))"

definition read_tls :: "variables_map \<Rightarrow> tls_options option result" where
  "read_tls vm =
     rbind (text_of vm ''mtls-ca-cert-filename'') (\<lambda>ca.
       case vm ''tls'' of
         None \<Rightarrow> ok (Some \<lparr>to_cert = [], to_key = [], to_mtls_ca = ca\<rparr>)
       | Some (ArgTexts [cert, key], d) \<Rightarrow> ok (Some \<lparr>to_cert = cert, to_key = key, to_mtls_ca = ca\<rparr>)
       | Some (ArgTexts tokens, d) \<Rightarrow> ok None
       | Some (v, d) \<Rightarrow> bad_cast)"

definition read_init :: "variables_map \<Rightarrow> init_options result" where
  "read_init vm =
     rbind (text_of vm ''init-sql-commands'') (\<lambda>commands.
     rbind (text_of vm ''init-sql-commands-file'') (\<lambda>file.
       ok \<lparr>io_commands = commands, io_file = file\<rparr>))"

definition read_token_options :: "variables_map \<Rightarrow> token_options result" where
  "read_token_options vm =
     rbind (text_of vm ''token-allowed-issuer'') (\<lambda>iss.
     rbind (text_of vm ''token-allowed-audience'') (\<lambda>aud.
     rbind (text_of vm ''token-signature-verify-cert-path'') (\<lambda>cert.
     rbind (text_of vm ''token-jwks-uri'') (\<lambda>uri.
     rbind (text_of vm ''token-default-role'') (\<lambda>default_role.
     rbind (text_of vm ''token-authorized-emails'') (\<lambda>emails.
       ok \<lparr>ko_issuer = iss, ko_audience = aud, ko_cert = cert, ko_jwks_uri = uri, ko_default_role = default_role,
           ko_emails = emails\<rparr>))))))"

definition read_instr :: "variables_map \<Rightarrow> instr_options result" where
  "read_instr vm =
     rbind (text_of vm ''instrumentation-db-path'') (\<lambda>path.
     rbind (text_of vm ''instrumentation-catalog'') (\<lambda>catalog.
     rbind (text_of vm ''instrumentation-schema'') (\<lambda>schema.
       ok \<lparr>no_enabled = False, no_db_path = path, no_catalog = catalog, no_schema = schema\<rparr>)))"

definition read_oauth :: "variables_map \<Rightarrow> oauth_options result" where
  "read_oauth vm =
     rbind (text_of vm ''oauth-client-id'') (\<lambda>client_id.
     rbind (text_of vm ''oauth-client-secret'') (\<lambda>secret.
     rbind (text_of vm ''oauth-scopes'') (\<lambda>scopes.
     rbind (as_int vm ''oauth-port'') (\<lambda>port.
     rbind (text_of vm ''oauth-base-url'') (\<lambda>url.
       ok \<lparr>uo_client_id = client_id, uo_client_secret = secret, uo_scopes = scopes, uo_port = port,
           uo_base_url = url, uo_disable_tls = False\<rparr>)))))"

definition read_options :: "backend \<Rightarrow> tls_options \<Rightarrow> variables_map \<Rightarrow> server_options result" where
  "read_options b t vm =
     rbind (read_base vm) (\<lambda>base.
     rbind (read_init vm) (\<lambda>i.
     rbind (read_token_options vm) (\<lambda>k.
     rbind (read_instr vm) (\<lambda>n.
     rbind (read_oauth vm) (\<lambda>u.
     rbind (as_bool vm ''print-queries'') (\<lambda>print_queries.
     rbind (as_bool vm ''readonly'') (\<lambda>read_only.
     rbind (int_of_option vm ''query-timeout'') (\<lambda>query_timeout.
     rbind (text_of vm ''health-check-query'') (\<lambda>health_query.
       ok \<lparr>so_backend = b, so_base = base, so_tls = t, so_init = i, so_token = k, so_instr = n, so_oauth = u,
           so_health_query = health_query, so_read_only = read_only, so_print_queries = print_queries,
           so_access_log = False, so_query_timeout = query_timeout, so_query_log_level = ARROW_INFO,
           so_auth_log_level = ARROW_INFO, so_allow_cross = False, so_telemetry = False\<rparr>)))))))))"

definition read_arguments :: "backend \<Rightarrow> tls_options \<Rightarrow> variables_map \<Rightarrow> run_arguments result" where
  "read_arguments b t vm =
     rbind (read_options b t vm) (\<lambda>options.
     rbind (text_of vm ''log-level'') (\<lambda>log_level.
     rbind (text_of vm ''log-format'') (\<lambda>log_format.
     rbind (text_of vm ''access-log'') (\<lambda>access_log.
     rbind (text_of vm ''log-file'') (\<lambda>log_file.
     rbind (text_of vm ''query-log-level'') (\<lambda>query_log_level.
     rbind (text_of vm ''auth-log-level'') (\<lambda>auth_log_level.
     rbind (flag_of vm ''enable-instrumentation'') (\<lambda>instrumentation.
     rbind (text_of vm ''license-key-file'') (\<lambda>license_file.
     rbind (flag_of vm ''allow-cross-instance-tokens'') (\<lambda>allow_cross.
     rbind (flag_of vm ''oauth-disable-tls'') (\<lambda>disable_tls.
     rbind (flag_of vm ''otel-enabled'') (\<lambda>otel.
       ok \<lparr>ra_options = options, ra_log_level = log_level, ra_log_format = log_format, ra_access_log = access_log,
           ra_log_file = log_file, ra_query_log_level = query_log_level, ra_auth_log_level = auth_log_level,
           ra_instrumentation = instrumentation, ra_allow_cross = allow_cross, ra_oauth_disable_tls = disable_tls,
           ra_otel_enabled = otel, ra_license_file = license_file\<rparr>))))))))))))"

record otel_arguments =
  oa_exporter :: string
  oa_endpoint :: string
  oa_service_name :: string
  oa_headers :: string

definition read_otel :: "variables_map \<Rightarrow> otel_arguments result" where
  "read_otel vm =
     rbind (text_of vm ''otel-exporter'') (\<lambda>exporter.
     rbind (text_of vm ''otel-endpoint'') (\<lambda>endpoint.
     rbind (text_of vm ''otel-service-name'') (\<lambda>service_name.
     rbind (text_of vm ''otel-headers'') (\<lambda>headers.
       ok \<lparr>oa_exporter = exporter, oa_endpoint = endpoint, oa_service_name = service_name, oa_headers = headers\<rparr>))))"

text \<open>
  How \<open>main\<close> ends: with an exit code of its own, with an exception nothing catches, or in the call of
  \<open>RunFlightSQLServer\<close>, whose result it returns.
\<close>

datatype program_end = Exits int | Throws string | Runs run_arguments otel_arguments

definition server_main :: "(declared_option list \<Rightarrow> string list \<Rightarrow> string + variables_map) \<Rightarrow> string list \<Rightarrow> program_end" where
  "server_main parse argv =
     (case parse server_desc argv of
        Inl e \<Rightarrow> Throws e
      | Inr vm \<Rightarrow>
          if vm ''help'' \<noteq> None then Exits 0
          else if vm ''version'' \<noteq> None then Exits 0
          else (case as_text vm ''backend'' of
                  Inl e \<Rightarrow> Throws (message e)
                | Inr backend_str \<Rightarrow>
                    (case backend_of backend_str of
                       None \<Rightarrow> Exits 1
                     | Some b \<Rightarrow>
                         (case read_tls vm of
                            Inl e \<Rightarrow> Throws (message e)
                          | Inr None \<Rightarrow> Exits 1
                          | Inr (Some t) \<Rightarrow>
                              (case rbind (read_arguments b t vm) (\<lambda>a. rbind (read_otel vm) (\<lambda>ot. ok (a, ot))) of
                                 Inl e \<Rightarrow> Throws (message e)
                               | Inr (a, ot) \<Rightarrow> Runs a ot)))))"

section \<open>Telemetry\<close>

text \<open>What \<open>RunFlightSQLServer\<close> configures telemetry with, and whether the server is told it is on.\<close>

definition telemetry_config_of :: "host \<Rightarrow> string \<Rightarrow> otel_arguments \<Rightarrow> telemetry_config" where
  "telemetry_config_of h version ot =
     \<lparr>tc_enabled = True,
      tc_exporter_type = ParseExporterType (pick h (oa_exporter ot) ''GIZMOSQL_OTEL_EXPORTER'' ''http''),
      tc_endpoint = pick h (oa_endpoint ot) ''GIZMOSQL_OTEL_ENDPOINT'' [],
      tc_service_name = pick h (oa_service_name ot) ''GIZMOSQL_OTEL_SERVICE_NAME'' ''gizmosql'',
      tc_service_version = pick h [] ''GIZMOSQL_OTEL_SERVICE_VERSION'' version,
      tc_deployment_environment = or_default (env_var h ''GIZMOSQL_ENVIRONMENT'') (env_var h ''ENVIRONMENT''),
      tc_headers = pick h (oa_headers ot) ''GIZMOSQL_OTEL_HEADERS'' [],
      tc_traces_enabled = True, tc_metrics_enabled = True\<rparr>"

definition run_telemetry :: "host \<Rightarrow> string \<Rightarrow> run_arguments \<Rightarrow> otel_arguments \<Rightarrow> telemetry \<Rightarrow> bool \<times> telemetry" where
  "run_telemetry h version a ot t =
     (if resolve_bool_env h (ra_otel_enabled a) ''GIZMOSQL_OTEL_ENABLED''
      then (let t1 = InitTelemetry (telemetry_config_of h version ot) t in (tm_enabled t1, t1))
      else (False, t))"

section \<open>What the command line leads to\<close>

text \<open>
  Boost's promise: an option with a default always has a value, of the declared type, and the default when nothing was
  given.
\<close>

fun has_type :: "option_value \<Rightarrow> option_type \<Rightarrow> bool" where
  "has_type (ArgText s) t = (t = TText)"
| "has_type (ArgInt i) t = (t = TInt)"
| "has_type (ArgBool b) t = (t = TBool)"
| "has_type (ArgTexts ss) t = (t = TTexts)"
| "has_type ArgNothing t = (t = TNothing)"

definition option_fits :: "variables_map \<Rightarrow> declared_option \<Rightarrow> bool" where
  "option_fits vm d =
     (case vm (od_name d) of
        None \<Rightarrow> od_default d = None
      | Some (v, defaulted) \<Rightarrow> has_type v (od_type d) \<and> (if defaulted then od_default d = Some v else True))"

definition fits :: "declared_option list \<Rightarrow> variables_map \<Rightarrow> bool" where
  "fits desc vm = list_all (option_fits vm) desc"

definition text_value :: "variables_map \<Rightarrow> string \<Rightarrow> string" where
  "text_value vm n = (case vm n of Some (ArgText s, d) \<Rightarrow> s | _ \<Rightarrow> [])"

definition texts_value :: "variables_map \<Rightarrow> string \<Rightarrow> string list" where
  "texts_value vm n = (case vm n of Some (ArgTexts ss, d) \<Rightarrow> ss | _ \<Rightarrow> [])"

definition int_value :: "variables_map \<Rightarrow> string \<Rightarrow> int" where
  "int_value vm n = (case vm n of Some (ArgInt i, d) \<Rightarrow> i | _ \<Rightarrow> 0)"

definition bool_value :: "variables_map \<Rightarrow> string \<Rightarrow> bool" where
  "bool_value vm n = (case vm n of Some (ArgBool b, d) \<Rightarrow> b | _ \<Rightarrow> False)"

definition flag_value :: "variables_map \<Rightarrow> string \<Rightarrow> bool option" where
  "flag_value vm n = (case vm n of Some (ArgBool b, False) \<Rightarrow> Some b | _ \<Rightarrow> None)"

lemma fits_option: "fits desc vm \<Longrightarrow> d \<in> set desc \<Longrightarrow> option_fits vm d"
  by (simp add: fits_def list_all_iff)

lemma text_option_read:
  assumes "fits desc vm" and "\<lparr>od_name = n, od_letter = l, od_type = TText, od_default = Some x\<rparr> \<in> set desc"
  shows "as_text vm n = ok (text_value vm n)" and "text_of vm n = ok (text_value vm n)"
  using fits_option [OF assms]
  by (auto simp: option_fits_def as_text_def text_of_def text_value_def split: option.splits option_value.splits)

lemma int_option_read:
  assumes "fits desc vm" and "\<lparr>od_name = n, od_letter = l, od_type = TInt, od_default = Some x\<rparr> \<in> set desc"
  shows "as_int vm n = ok (int_value vm n)" and "int_of_option vm n = ok (int_value vm n)"
  using fits_option [OF assms]
  by (auto simp: option_fits_def as_int_def int_of_option_def int_value_def split: option.splits option_value.splits)

lemma bool_option_read:
  assumes "fits desc vm" and "\<lparr>od_name = n, od_letter = l, od_type = TBool, od_default = Some x\<rparr> \<in> set desc"
  shows "as_bool vm n = ok (bool_value vm n)" and "flag_of vm n = ok (flag_value vm n)"
  using fits_option [OF assms]
  by (auto simp: option_fits_def as_bool_def flag_of_def flag_value_def bool_value_def
      split: option.splits option_value.splits bool.splits)

lemma texts_option_read:
  assumes "fits desc vm" and "\<lparr>od_name = n, od_letter = l, od_type = TTexts, od_default = Some x\<rparr> \<in> set desc"
  shows "\<exists>d. vm n = Some (ArgTexts (texts_value vm n), d)"
  using fits_option [OF assms]
  by (auto simp: option_fits_def texts_value_def split: option.splits option_value.splits)

text \<open>The options of the server by type.\<close>

definition names_of :: "option_type \<Rightarrow> string list" where
  "names_of t = map od_name (filter (\<lambda>d. od_type d = t \<and> od_default d \<noteq> None) server_desc)"

lemma named_option:
  assumes "n \<in> set (names_of t)"
  obtains l x where "\<lparr>od_name = n, od_letter = l, od_type = t, od_default = Some x\<rparr> \<in> set server_desc"
proof -
  obtain d where d: "d \<in> set server_desc" "od_type d = t" "od_default d \<noteq> None" "od_name d = n"
    using assms by (auto simp: names_of_def)
  then have "d = \<lparr>od_name = n, od_letter = od_letter d, od_type = t, od_default = Some (the (od_default d))\<rparr>" by auto
  with d(1) show ?thesis by (metis that)
qed

lemma server_option_reads:
  assumes "fits server_desc vm"
  shows "n \<in> set (names_of TText) \<Longrightarrow> as_text vm n = ok (text_value vm n)"
    and "n \<in> set (names_of TText) \<Longrightarrow> text_of vm n = ok (text_value vm n)"
    and "n \<in> set (names_of TInt) \<Longrightarrow> as_int vm n = ok (int_value vm n)"
    and "n \<in> set (names_of TInt) \<Longrightarrow> int_of_option vm n = ok (int_value vm n)"
    and "n \<in> set (names_of TBool) \<Longrightarrow> as_bool vm n = ok (bool_value vm n)"
    and "n \<in> set (names_of TBool) \<Longrightarrow> flag_of vm n = ok (flag_value vm n)"
    and "n \<in> set (names_of TTexts) \<Longrightarrow> \<exists>d. vm n = Some (ArgTexts (texts_value vm n), d)"
  by (meson named_option text_option_read(1) [OF assms] text_option_read(2) [OF assms] int_option_read(1) [OF assms]
      int_option_read(2) [OF assms] bool_option_read(1) [OF assms] bool_option_read(2) [OF assms]
      texts_option_read [OF assms])+

lemma server_names [simp]:
  "set (names_of TText) =
     {''backend'', ''hostname'', ''database-filename'', ''username'', ''password'', ''secret-key'', ''init-sql-commands'',
      ''init-sql-commands-file'', ''mtls-ca-cert-filename'', ''token-allowed-issuer'', ''token-allowed-audience'',
      ''token-signature-verify-cert-path'', ''token-jwks-uri'', ''token-default-role'', ''token-authorized-emails'',
      ''log-level'', ''log-format'', ''access-log'', ''log-file'', ''query-log-level'', ''auth-log-level'',
      ''health-check-query'', ''instrumentation-db-path'', ''instrumentation-catalog'', ''instrumentation-schema'',
      ''license-key-file'', ''oauth-client-id'', ''oauth-client-secret'', ''oauth-scopes'', ''oauth-base-url'',
      ''otel-exporter'', ''otel-endpoint'', ''otel-service-name'', ''otel-headers''}"
  "set (names_of TInt) = {''port'', ''query-timeout'', ''health-port'', ''oauth-port''}"
  "set (names_of TBool) = {''print-queries'', ''readonly'', ''enable-instrumentation'', ''allow-cross-instance-tokens'',
      ''oauth-disable-tls'', ''otel-enabled''}"
  "set (names_of TTexts) = {''tls''}"
  by (simp_all add: names_of_def server_desc_def text_option_def int_option_def bool_option_def plain_option_def)

lemmas reads = server_option_reads [unfolded server_names]

text \<open>The arguments the options stand for.\<close>

definition arguments_meant :: "backend \<Rightarrow> tls_options \<Rightarrow> variables_map \<Rightarrow> run_arguments" where
  "arguments_meant b t vm =
     (let v = text_value vm; n = int_value vm
      in \<lparr>ra_options =
            \<lparr>so_backend = b,
             so_base = \<lparr>bo_database = v ''database-filename'', bo_hostname = v ''hostname'', bo_port = n ''port'',
               bo_health_port = n ''health-port'', bo_username = v ''username'', bo_password = v ''password'',
               bo_secret_key = v ''secret-key''\<rparr>,
             so_tls = t,
             so_init = \<lparr>io_commands = v ''init-sql-commands'', io_file = v ''init-sql-commands-file''\<rparr>,
             so_token = \<lparr>ko_issuer = v ''token-allowed-issuer'', ko_audience = v ''token-allowed-audience'',
               ko_cert = v ''token-signature-verify-cert-path'', ko_jwks_uri = v ''token-jwks-uri'',
               ko_default_role = v ''token-default-role'', ko_emails = v ''token-authorized-emails''\<rparr>,
             so_instr = \<lparr>no_enabled = False, no_db_path = v ''instrumentation-db-path'',
               no_catalog = v ''instrumentation-catalog'', no_schema = v ''instrumentation-schema''\<rparr>,
             so_oauth = \<lparr>uo_client_id = v ''oauth-client-id'', uo_client_secret = v ''oauth-client-secret'',
               uo_scopes = v ''oauth-scopes'', uo_port = n ''oauth-port'', uo_base_url = v ''oauth-base-url'',
               uo_disable_tls = False\<rparr>,
             so_health_query = v ''health-check-query'', so_read_only = bool_value vm ''readonly'',
             so_print_queries = bool_value vm ''print-queries'', so_access_log = False,
             so_query_timeout = n ''query-timeout'', so_query_log_level = ARROW_INFO,
             so_auth_log_level = ARROW_INFO, so_allow_cross = False, so_telemetry = False\<rparr>,
          ra_log_level = v ''log-level'', ra_log_format = v ''log-format'', ra_access_log = v ''access-log'',
          ra_log_file = v ''log-file'', ra_query_log_level = v ''query-log-level'',
          ra_auth_log_level = v ''auth-log-level'', ra_instrumentation = flag_value vm ''enable-instrumentation'',
          ra_allow_cross = flag_value vm ''allow-cross-instance-tokens'',
          ra_oauth_disable_tls = flag_value vm ''oauth-disable-tls'', ra_otel_enabled = flag_value vm ''otel-enabled'',
          ra_license_file = v ''license-key-file''\<rparr>)"

lemma read_arguments_meant:
  assumes "fits server_desc vm"
  shows "read_arguments b t vm = ok (arguments_meant b t vm)"
proof -
  have "\<forall>n \<in> set (names_of TText). as_text vm n = ok (text_value vm n) \<and> text_of vm n = ok (text_value vm n)"
    and "\<forall>n \<in> set (names_of TInt). as_int vm n = ok (int_value vm n) \<and> int_of_option vm n = ok (int_value vm n)"
    and "\<forall>n \<in> set (names_of TBool). as_bool vm n = ok (bool_value vm n) \<and> flag_of vm n = ok (flag_value vm n)"
    using server_option_reads [OF assms] by blast+
  then show ?thesis
    by (simp add: read_arguments_def read_options_def read_base_def read_init_def read_token_options_def read_instr_def
        read_oauth_def arguments_meant_def Let_def)
qed

lemma read_otel_meant:
  assumes "fits server_desc vm"
  shows "read_otel vm = ok \<lparr>oa_exporter = text_value vm ''otel-exporter'', oa_endpoint = text_value vm ''otel-endpoint'',
    oa_service_name = text_value vm ''otel-service-name'', oa_headers = text_value vm ''otel-headers''\<rparr>"
proof -
  have "\<forall>n \<in> set (names_of TText). text_of vm n = ok (text_value vm n)"
    using server_option_reads [OF assms] by blast
  then show ?thesis by (simp add: read_otel_def)
qed

lemma read_tls_meant:
  assumes "fits server_desc vm"
  shows "read_tls vm = ok (case texts_value vm ''tls'' of
      [cert, key] \<Rightarrow> Some \<lparr>to_cert = cert, to_key = key, to_mtls_ca = text_value vm ''mtls-ca-cert-filename''\<rparr>
    | _ \<Rightarrow> None)"
proof -
  obtain d where "vm ''tls'' = Some (ArgTexts (texts_value vm ''tls''), d)"
    using reads(7) [OF assms] by auto
  then show ?thesis by (simp add: read_tls_def reads [OF assms] split: list.split)
qed

definition otel_meant :: "variables_map \<Rightarrow> otel_arguments" where
  "otel_meant vm = \<lparr>oa_exporter = text_value vm ''otel-exporter'', oa_endpoint = text_value vm ''otel-endpoint'',
     oa_service_name = text_value vm ''otel-service-name'', oa_headers = text_value vm ''otel-headers''\<rparr>"

lemma main_meant:
  assumes "parse server_desc argv = Inr vm" and "fits server_desc vm"
  shows "server_main parse argv =
    (if vm ''help'' \<noteq> None \<or> vm ''version'' \<noteq> None then Exits 0
     else case backend_of (text_value vm ''backend'') of
            None \<Rightarrow> Exits 1
          | Some b \<Rightarrow>
              (case texts_value vm ''tls'' of
                 [cert, key] \<Rightarrow>
                   Runs (arguments_meant b \<lparr>to_cert = cert, to_key = key,
                           to_mtls_ca = text_value vm ''mtls-ca-cert-filename''\<rparr> vm) (otel_meant vm)
               | _ \<Rightarrow> Exits 1))"
proof -
  have "as_text vm ''backend'' = ok (text_value vm ''backend'')" by (simp add: reads [OF assms(2)])
  then show ?thesis
    by (simp add: server_main_def assms(1) read_tls_meant [OF assms(2)] read_arguments_meant [OF assms(2)]
        read_otel_meant [OF assms(2)] otel_meant_def split: option.split list.split)
qed

lemma main_runs:
  assumes "server_main parse argv = Runs a ot" and "parse server_desc argv = Inr vm" and "fits server_desc vm"
  shows "\<exists>b t. a = arguments_meant b t vm"
  using assms(1) unfolding main_meant [of parse argv vm, OF assms(2,3)]
  by (auto split: if_splits option.splits list.splits)

text \<open>
  C21: \<open>main\<close> reads every option at the type it is declared with, so no exception leaves it once Boost has accepted the
  command line: it ends with 0 exactly when help or the version is asked for, with 1 exactly when the backend is
  unknown or \<open>--tls\<close> has not two values, and otherwise runs the server with the arguments the options stand for.
\<close>

theorem main_reads_every_option:
  assumes "parse server_desc argv = Inr vm" and "fits server_desc vm"
  shows "case server_main parse argv of
      Throws e \<Rightarrow> False
    | Exits n \<Rightarrow> (if vm ''help'' = None \<and> vm ''version'' = None
                 then n = 1 \<and> (backend_of (text_value vm ''backend'') = None \<or> length (texts_value vm ''tls'') \<noteq> 2)
                 else n = 0)
    | Runs a ot \<Rightarrow> vm ''help'' = None \<and> vm ''version'' = None
        \<and> (\<exists>b cert key. backend_of (text_value vm ''backend'') = Some b \<and> texts_value vm ''tls'' = [cert, key]
             \<and> a = arguments_meant b
                 \<lparr>to_cert = cert, to_key = key, to_mtls_ca = text_value vm ''mtls-ca-cert-filename''\<rparr> vm)"
  unfolding main_meant [of parse argv vm, OF assms]
  by (auto split: option.split list.split)

text \<open>The four switches: a value on the command line goes before the environment, which goes before false.\<close>

definition switched_on :: "host \<Rightarrow> variables_map \<Rightarrow> string \<Rightarrow> string \<Rightarrow> bool" where
  "switched_on h vm n e =
     (case flag_value vm n of Some b \<Rightarrow> b | None \<Rightarrow> parse_bool (env_var h e) = Some True)"

lemma resolve_bool_env_switch:
  "resolve_bool_env h (flag_value vm n) e = switched_on h vm n e"
  by (auto simp: resolve_bool_env_def switched_on_def split: option.split)

lemma switches_of_the_server:
  assumes "server_main parse argv = Runs a ot" and "parse server_desc argv = Inr vm" and "fits server_desc vm"
  shows "no_enabled (so_instr (run_options h a)) = switched_on h vm ''enable-instrumentation'' ''GIZMOSQL_ENABLE_INSTRUMENTATION''"
    and "so_allow_cross (run_options h a) = switched_on h vm ''allow-cross-instance-tokens'' ''GIZMOSQL_ALLOW_CROSS_INSTANCE_TOKENS''"
    and "uo_disable_tls (so_oauth (run_options h a)) = switched_on h vm ''oauth-disable-tls'' ''GIZMOSQL_OAUTH_DISABLE_TLS''"
    and "so_telemetry (run_options h a) = switched_on h vm ''otel-enabled'' ''GIZMOSQL_OTEL_ENABLED''"
proof -
  have "\<exists>b t. a = arguments_meant b t vm"
    by (rule main_runs [OF assms(1-3)])
  then show "no_enabled (so_instr (run_options h a)) = switched_on h vm ''enable-instrumentation'' ''GIZMOSQL_ENABLE_INSTRUMENTATION''"
    and "so_allow_cross (run_options h a) = switched_on h vm ''allow-cross-instance-tokens'' ''GIZMOSQL_ALLOW_CROSS_INSTANCE_TOKENS''"
    and "uo_disable_tls (so_oauth (run_options h a)) = switched_on h vm ''oauth-disable-tls'' ''GIZMOSQL_OAUTH_DISABLE_TLS''"
    and "so_telemetry (run_options h a) = switched_on h vm ''otel-enabled'' ''GIZMOSQL_OTEL_ENABLED''"
    by (auto simp: run_options_def Let_def arguments_meant_def resolve_bool_env_switch)
qed

lemma resolve_base_needs_password:
  "bo_password b = [] \<Longrightarrow> env_var h ''GIZMOSQL_PASSWORD'' = [] \<Longrightarrow> \<not> is_ok (resolve_base h b)"
  by (cases "resolve_port h (bo_port b) (bo_health_port b)") (simp_all add: resolve_base_def or_env_def Let_def)

text \<open>
  C20: Without a password there is no server: when neither the command line nor the environment gives one, the program
  returns 1, whatever the other options, the license and the files of the host are.
\<close>

theorem no_password_no_server:
  assumes "server_main parse argv = Runs a ot" and "parse server_desc argv = Inr vm" and "fits server_desc vm"
    and "text_value vm ''password'' = []" and "env_var h ''GIZMOSQL_PASSWORD'' = []"
  shows "RunFlightSQLServer h L A license_status instr_licensed a = Some (Inr 1)"
proof -
  have a: "\<exists>b t. a = arguments_meant b t vm"
    by (rule main_runs [OF assms(1-3)])
  have "so_base (run_options h a) = so_base (ra_options a)"
    by (simp add: run_options_def Let_def)
  then have "bo_password (so_base (run_options h a)) = []"
    using a assms(4) by (auto simp: arguments_meant_def Let_def)
  then have "\<not> is_ok (resolve_base h (so_base (run_options h a)))"
    by (rule resolve_base_needs_password [OF _ assms(5)])
  then obtain e where "resolve_base h (so_base (run_options h a)) = Inl e"
    by (auto simp: is_ok_def split: sum.splits)
  then have "resolve_options h (run_options h a) = Inl e"
    by (simp add: resolve_options_def)
  then show ?thesis
    by (simp add: RunFlightSQLServer_def Let_def split: sum.split)
qed

text \<open>A command line that gives nothing: every option has its default.\<close>

definition defaults :: "declared_option list \<Rightarrow> variables_map" where
  "defaults desc n =
     (case find (\<lambda>d. od_name d = n) desc of None \<Rightarrow> None | Some d \<Rightarrow> map_option (\<lambda>v. (v, True)) (od_default d))"

definition nothing_given :: "declared_option list \<Rightarrow> string list \<Rightarrow> string + variables_map" where
  "nothing_given desc argv = Inr (defaults desc)"

lemma defaults_fit: "fits server_desc (defaults server_desc)"
  by code_simp

lemma defaults_values:
  "defaults server_desc ''help'' = None" "defaults server_desc ''version'' = None"
  "text_value (defaults server_desc) ''backend'' = ''duckdb''"
  "texts_value (defaults server_desc) ''tls'' = [[], []]"
  "text_value (defaults server_desc) ''password'' = []"
  by code_simp+

theorem main_reads_every_option_witness:
  "case server_main nothing_given [] of
      Throws e \<Rightarrow> False
    | Exits n \<Rightarrow> False
    | Runs a ot \<Rightarrow> a = arguments_meant Duckdb
        \<lparr>to_cert = [], to_key = [], to_mtls_ca = text_value (defaults server_desc) ''mtls-ca-cert-filename''\<rparr>
        (defaults server_desc)"
  using main_reads_every_option [of nothing_given "[]" "defaults server_desc"]
  by (auto simp: nothing_given_def defaults_fit defaults_values backend_of_def split: program_end.splits)

lemma nothing_given_runs: "\<exists>a ot. server_main nothing_given [] = Runs a ot"
  using main_meant [of nothing_given "[]", OF _ defaults_fit]
  by (simp add: nothing_given_def defaults_values backend_of_def)

theorem no_password_no_server_witness:
  "\<exists>a ot. server_main nothing_given [] = Runs a ot
     \<and> (\<forall>L (A :: string list start_api). RunFlightSQLServer sample_host L A (ok ()) True a = Some (Inr 1))"
proof -
  obtain a ot where run: "server_main nothing_given [] = Runs a ot" using nothing_given_runs by blast
  have "RunFlightSQLServer sample_host L (A :: string list start_api) (ok ()) True a = Some (Inr 1)" for L A
    by (rule no_password_no_server [OF run, of "defaults server_desc"])
      (simp_all add: nothing_given_def defaults_fit defaults_values sample_host_def)
  with run show ?thesis by blast
qed

end
