(* ===== verification/Sqlite.thy ===== *)
theory Sqlite
  imports ArrowTypes
begin

text \<open>
  Statements of the SQLite backend (\<open>src/src/sqlite/sqlite_statement.cc\<close>), the reader of their rows
  (\<open>sqlite_statement_batch_reader.cc\<close>) and the type names of \<open>sqlite_server.cc\<close>. SQLite itself is the parameter
  \<open>sqlite_lib\<close>: a prepared program, its cursor, and the calls of the C interface the code makes.
\<close>

section \<open>What the backend uses\<close>

datatype sq_value = SqNull | SqInt int | SqReal int | SqText string | SqBlob string

datatype sq_code = SqOk | SqRow | SqDone | SqError | SqOther int

text \<open>
  A connection is a number, \<open>'p\<close> a prepared program, \<open>'c\<close> the state of its execution and \<open>'w\<close> the databases.
  A column has a name, a declared type and a table, the last two if SQLite knows them. \<open>sq_row\<close> is the current
  row, empty when there is none; the \<open>sq_as\<close> functions are SQLite's conversions of a column's value.
  \<open>sq_bind_ok\<close> tells whether a value can be bound at a position (counted from 1).
\<close>

record ('p, 'c, 'w) sqlite_lib =
  sq_prepare :: "nat \<Rightarrow> string \<Rightarrow> 'w \<Rightarrow> string + 'p"
  sq_fresh :: 'c
  sq_step :: "nat \<Rightarrow> 'p \<Rightarrow> sq_value list \<Rightarrow> 'c \<Rightarrow> 'w \<Rightarrow> sq_code \<times> 'c \<times> 'w"
  sq_reset :: "nat \<Rightarrow> 'p \<Rightarrow> 'c \<Rightarrow> 'w \<Rightarrow> sq_code \<times> 'c \<times> 'w"
  sq_row :: "'p \<Rightarrow> 'c \<Rightarrow> sq_value list"
  sq_columns :: "'p \<Rightarrow> (string \<times> string option \<times> string option) list"
  sq_parameters :: "'p \<Rightarrow> string option list"
  sq_bind_ok :: "'p \<Rightarrow> nat \<Rightarrow> sq_value \<Rightarrow> bool"
  sq_changes :: "nat \<Rightarrow> 'w \<Rightarrow> int"
  sq_errmsg :: "nat \<Rightarrow> 'w \<Rightarrow> string"
  sq_widen :: "int \<Rightarrow> int"
  sq_narrow :: "arrow_type \<Rightarrow> int \<Rightarrow> int"
  sq_as_int :: "sq_value \<Rightarrow> int"
  sq_as_real :: "sq_value \<Rightarrow> int"
  sq_as_text :: "sq_value \<Rightarrow> string option"
  sq_as_blob :: "sq_value \<Rightarrow> string option"
  sq_type_name :: "arrow_type \<Rightarrow> string"

section \<open>Types\<close>

definition iequals :: "string \<Rightarrow> string \<Rightarrow> bool" where
  "iequals s t \<longleftrightarrow> to_lower s = to_lower t"

definition istarts_with :: "string \<Rightarrow> string \<Rightarrow> bool" where
  "istarts_with s t \<longleftrightarrow> prefix (to_lower t) (to_lower s)"

definition text_type_name :: "string \<Rightarrow> bool" where
  "text_type_name s \<longleftrightarrow> iequals s ''TEXT'' \<or> iequals s ''DATE'' \<or> istarts_with s ''char'' \<or> istarts_with s ''varchar''"

text \<open>The dense union of text, bytes, integer and real, for a column of unknown type.\<close>

definition GetUnknownColumnDataType :: arrow_type where
  "GetUnknownColumnDataType = OTHER_ARROW ''dense_union''"

definition GetArrowType :: "string option \<Rightarrow> arrow_type result" where
  "GetArrowType sqlite_type =
     (case sqlite_type of
        None \<Rightarrow> ok NA
      | Some s \<Rightarrow>
          if s = [] then ok NA
          else if iequals s ''int'' \<or> iequals s ''integer'' then ok INT64
          else if iequals s ''REAL'' then ok DOUBLE
          else if iequals s ''BLOB'' then ok BINARY
          else if text_type_name s then ok STRING
          else fail Invalid (''Invalid SQLite type: '' @ s))"

text \<open>The type of a value: null, integer, real, text or blob.\<close>

datatype sq_type = SQLITE_NULL | SQLITE_INTEGER | SQLITE_FLOAT | SQLITE_TEXT | SQLITE_BLOB

definition type_of_value :: "sq_value \<Rightarrow> sq_type" where
  "type_of_value v =
     (case v of SqNull \<Rightarrow> SQLITE_NULL | SqInt i \<Rightarrow> SQLITE_INTEGER | SqReal r \<Rightarrow> SQLITE_FLOAT | SqText s \<Rightarrow> SQLITE_TEXT
      | SqBlob b \<Rightarrow> SQLITE_BLOB)"

definition GetSqlTypeFromTypeName :: "string option \<Rightarrow> sq_type" where
  "GetSqlTypeFromTypeName sqlite_type =
     (case sqlite_type of
        None \<Rightarrow> SQLITE_NULL
      | Some s \<Rightarrow>
          if iequals s ''int'' \<or> iequals s ''integer'' then SQLITE_INTEGER
          else if iequals s ''REAL'' then SQLITE_FLOAT
          else if iequals s ''BLOB'' then SQLITE_BLOB
          else if text_type_name s then SQLITE_TEXT
          else SQLITE_NULL)"

definition GetDataTypeFromSqliteType :: "sq_type \<Rightarrow> arrow_type" where
  "GetDataTypeFromSqliteType column_type =
     (case column_type of
        SQLITE_INTEGER \<Rightarrow> INT64 | SQLITE_FLOAT \<Rightarrow> DOUBLE | SQLITE_BLOB \<Rightarrow> BINARY | SQLITE_TEXT \<Rightarrow> STRING
      | SQLITE_NULL \<Rightarrow> NA)"

definition GetPrecisionFromColumn :: "sq_type \<Rightarrow> int" where
  "GetPrecisionFromColumn column_type =
     (case column_type of SQLITE_INTEGER \<Rightarrow> 10 | SQLITE_FLOAT \<Rightarrow> 15 | _ \<Rightarrow> 0)"

text \<open>The metadata of a column; the scale is always 15, and no column is read-only or counts by itself.\<close>

record column_metadata =
  cm_scale :: int
  cm_table :: "string option"
  cm_precision :: "int option"

definition GetColumnMetadata :: "sq_type \<Rightarrow> string option \<Rightarrow> column_metadata" where
  "GetColumnMetadata column_type table =
     (case table of
        None \<Rightarrow> \<lparr>cm_scale = 15, cm_table = None, cm_precision = None\<rparr>
      | Some t \<Rightarrow>
          if column_type = SQLITE_TEXT \<or> column_type = SQLITE_BLOB
          then \<lparr>cm_scale = 15, cm_table = Some t, cm_precision = None\<rparr>
          else \<lparr>cm_scale = 15, cm_table = Some t, cm_precision = Some (GetPrecisionFromColumn column_type)\<rparr>)"

type_synonym sq_field = "string \<times> arrow_type \<times> column_metadata"

section \<open>Statements\<close>

text \<open>A batch of parameters: the number of its columns and its rows. A cell has a type of its own (unions).\<close>

record parameter_batch =
  pb_columns :: nat
  pb_rows :: "(arrow_type \<times> arrow_value) list list"

record ('p, 'c) sqlite_statement =
  ss_db :: nat
  ss_prog :: 'p
  ss_bindings :: "sq_value list"
  ss_cursor :: 'c
  ss_parameters :: "parameter_batch list"

definition no_bindings :: "('p, 'c, 'w) sqlite_lib \<Rightarrow> 'p \<Rightarrow> sq_value list" where
  "no_bindings L p = replicate (length (sq_parameters L p)) SqNull"

definition stmt_Create ::
    "('p, 'c, 'w) sqlite_lib \<Rightarrow> nat \<Rightarrow> string \<Rightarrow> 'w \<Rightarrow> ('p, 'c) sqlite_statement result" where
  "stmt_Create L db sql w =
     (case sq_prepare L db sql w of
        Inl e \<Rightarrow> fail Invalid (''Can'' @ [squote] @ ''t prepare statement: '' @ e)
      | Inr p \<Rightarrow> ok \<lparr>ss_db = db, ss_prog = p, ss_bindings = no_bindings L p, ss_cursor = sq_fresh L, ss_parameters = []\<rparr>)"

definition runtime_error :: "('p, 'c, 'w) sqlite_lib \<Rightarrow> nat \<Rightarrow> 'w \<Rightarrow> 'a result" where
  "runtime_error L db w = fail ExecutionError (''A SQLite runtime error has occurred: '' @ sq_errmsg L db w)"

text \<open>\<open>Step\<close> and \<open>Reset\<close>: only the code \<open>SQLITE_ERROR\<close> is an error.\<close>

definition stmt_Step ::
    "('p, 'c, 'w) sqlite_lib \<Rightarrow> ('p, 'c) sqlite_statement \<Rightarrow> 'w \<Rightarrow> sq_code result \<times> ('p, 'c) sqlite_statement \<times> 'w" where
  "stmt_Step L s w =
     (case sq_step L (ss_db s) (ss_prog s) (ss_bindings s) (ss_cursor s) w of (rc, c, w') \<Rightarrow>
        (if rc = SqError then runtime_error L (ss_db s) w' else ok rc, s\<lparr>ss_cursor := c\<rparr>, w'))"

definition stmt_Reset ::
    "('p, 'c, 'w) sqlite_lib \<Rightarrow> ('p, 'c) sqlite_statement \<Rightarrow> 'w \<Rightarrow> sq_code result \<times> ('p, 'c) sqlite_statement \<times> 'w" where
  "stmt_Reset L s w =
     (case sq_reset L (ss_db s) (ss_prog s) (ss_cursor s) w of (rc, c, w') \<Rightarrow>
        (if rc = SqError then runtime_error L (ss_db s) w' else ok rc, s\<lparr>ss_cursor := c\<rparr>, w'))"

text \<open>The loop of \<open>ExecuteUpdate\<close>, which may never end.\<close>

partial_function (option) step_to_done ::
    "('p, 'c, 'w) sqlite_lib \<Rightarrow> ('p, 'c) sqlite_statement \<Rightarrow> 'w
     \<Rightarrow> (unit result \<times> ('p, 'c) sqlite_statement \<times> 'w) option" where
  "step_to_done L s w =
     (case stmt_Step L s w of (r, s', w') \<Rightarrow>
        (case r of
           Inl e \<Rightarrow> Some (Inl e, s', w')
         | Inr rc \<Rightarrow> if rc = SqDone then Some (ok (), s', w') else step_to_done L s' w'))"

definition stmt_ExecuteUpdate ::
    "('p, 'c, 'w) sqlite_lib \<Rightarrow> ('p, 'c) sqlite_statement \<Rightarrow> 'w
     \<Rightarrow> (int result \<times> ('p, 'c) sqlite_statement \<times> 'w) option" where
  "stmt_ExecuteUpdate L s w =
     map_option (\<lambda>(r, s', w'). (rbind r (\<lambda>u. ok (sq_changes L (ss_db s) w')), s', w')) (step_to_done L s w)"

definition stmt_SetParameters ::
    "('p, 'c, 'w) sqlite_lib \<Rightarrow> parameter_batch list \<Rightarrow> ('p, 'c) sqlite_statement \<Rightarrow> unit result \<times> ('p, 'c) sqlite_statement" where
  "stmt_SetParameters L params s =
     (let num_params = length (sq_parameters L (ss_prog s)) in
      case List.find (\<lambda>b. pb_columns b \<noteq> num_params) params of
        Some b \<Rightarrow> (fail Invalid (''Expected '' @ show_int (int num_params) @ '' parameters, but got ''
                                @ show_int (int (pb_columns b))), s)
      | None \<Rightarrow> (ok (), s\<lparr>ss_parameters := filter (\<lambda>b. pb_rows b \<noteq> []) params\<rparr>))"

text \<open>What is bound for a cell; a null is bound as such whatever its type.\<close>

definition bound_value :: "('p, 'c, 'w) sqlite_lib \<Rightarrow> arrow_type \<times> arrow_value \<Rightarrow> sq_value option" where
  "bound_value L cell =
     (case cell of
        (ty, VNull) \<Rightarrow> Some SqNull
      | (INT32, VInt i) \<Rightarrow> Some (SqInt i)
      | (INT64, VInt i) \<Rightarrow> Some (SqInt i)
      | (FLOAT, VFloat f) \<Rightarrow> Some (SqReal (sq_widen L f))
      | (DOUBLE, VFloat f) \<Rightarrow> Some (SqReal f)
      | (STRING, VString s) \<Rightarrow> Some (SqText s)
      | _ \<Rightarrow> None)"

fun bind_cells ::
    "('p, 'c, 'w) sqlite_lib \<Rightarrow> nat \<Rightarrow> (arrow_type \<times> arrow_value) list \<Rightarrow> ('p, 'c) sqlite_statement \<Rightarrow> 'w
     \<Rightarrow> unit result \<times> ('p, 'c) sqlite_statement" where
  "bind_cells L c [] s w = (ok (), s)"
| "bind_cells L c (cell # cells) s w =
     (case bound_value L cell of
        None \<Rightarrow> (fail TypeError (''Received unsupported data type: '' @ sq_type_name L (fst cell)), s)
      | Some v \<Rightarrow>
          if sq_bind_ok L (ss_prog s) (c + 1) v
          then bind_cells L (c + 1) cells (s\<lparr>ss_bindings := (ss_bindings s)[c := v]\<rparr>) w
          else if v = SqNull then bind_cells L (c + 1) cells s w
          else (fail UnknownError (''Failed to bind parameter: '' @ sq_errmsg L (ss_db s) w), s))"

text \<open>\<open>sqlite3_clear_bindings\<close> always succeeds.\<close>

definition stmt_Bind ::
    "('p, 'c, 'w) sqlite_lib \<Rightarrow> nat \<Rightarrow> nat \<Rightarrow> ('p, 'c) sqlite_statement \<Rightarrow> 'w \<Rightarrow> unit result \<times> ('p, 'c) sqlite_statement" where
  "stmt_Bind L batch_index row_index s w =
     (if batch_index \<ge> length (ss_parameters s)
      then (fail IndexError (''Cannot bind to batch '' @ show_int (int batch_index)), s)
      else let rows = pb_rows (ss_parameters s ! batch_index) in
           if row_index \<ge> length rows
           then (fail IndexError (''Cannot bind to row '' @ show_int (int row_index) @ '' in batch ''
                                  @ show_int (int batch_index)), s)
           else bind_cells L 0 (rows ! row_index) (s\<lparr>ss_bindings := no_bindings L (ss_prog s)\<rparr>) w)"

text \<open>The schema: the type of the current row's value, else the declared type, else the union.\<close>

definition column_type_at :: "sq_value list \<Rightarrow> nat \<Rightarrow> sq_type" where
  "column_type_at row i = (if i < length row then type_of_value (row ! i) else SQLITE_NULL)"

fun schema_fields :: "sq_value list \<Rightarrow> nat \<Rightarrow> (string \<times> string option \<times> string option) list \<Rightarrow> sq_field list result" where
  "schema_fields row i [] = ok []"
| "schema_fields row i ((name, decltype, table) # cols) =
     (let column_type = column_type_at row i; data_type = GetDataTypeFromSqliteType column_type in
      rbind (if data_type = NA
             then (case decltype of None \<Rightarrow> ok GetUnknownColumnDataType | Some d \<Rightarrow> GetArrowType (Some d))
             else ok data_type) (\<lambda>ty.
      rbind (schema_fields row (Suc i) cols) (\<lambda>fs. ok ((name, ty, GetColumnMetadata column_type table) # fs))))"

definition stmt_GetSchema :: "('p, 'c, 'w) sqlite_lib \<Rightarrow> ('p, 'c) sqlite_statement \<Rightarrow> sq_field list result" where
  "stmt_GetSchema L s = schema_fields (sq_row L (ss_prog s) (ss_cursor s)) 0 (sq_columns L (ss_prog s))"

section \<open>The reader of a statement's rows\<close>

definition kMaxBatchSize :: nat where "kMaxBatchSize = 16384"

text \<open>The members of \<open>SqliteStatementBatchReader\<close> but the statement.\<close>

record statement_reader =
  sr_schema :: "sq_field list"
  sr_rc :: sq_code
  sr_executed :: bool
  sr_batch_index :: nat
  sr_row_index :: nat

definition new_reader :: "sq_field list \<Rightarrow> statement_reader" where
  "new_reader schema =
     \<lparr>sr_schema = schema, sr_rc = SqOk, sr_executed = False, sr_batch_index = 0, sr_row_index = 0\<rparr>"

text \<open>
  The reader without a schema runs the statement to its first row to learn the types, with the first parameters
  if there are any.
\<close>

definition reader_Create_sqlite ::
    "('p, 'c, 'w) sqlite_lib \<Rightarrow> ('p, 'c) sqlite_statement \<Rightarrow> 'w
     \<Rightarrow> statement_reader result \<times> ('p, 'c) sqlite_statement \<times> 'w" where
  "reader_Create_sqlite L s w =
     (case stmt_Reset L s w of
        (Inl e, s1, w1) \<Rightarrow> (Inl e, s1, w1)
      | (Inr rc, s1, w1) \<Rightarrow>
          (case (if ss_parameters s1 \<noteq> [] then stmt_Bind L 0 0 s1 w1 else (ok (), s1)) of
             (Inl e, s2) \<Rightarrow> (Inl e, s2, w1)
           | (Inr u, s2) \<Rightarrow>
               (case stmt_Step L s2 w1 of
                  (Inl e, s3, w2) \<Rightarrow> (Inl e, s3, w2)
                | (Inr rc, s3, w2) \<Rightarrow> (rbind (stmt_GetSchema L s3) (\<lambda>sc. ok (new_reader sc)), s3, w2))))"

text \<open>A cell, by the type of its column; a null is a null for every type.\<close>

definition read_cell :: "('p, 'c, 'w) sqlite_lib \<Rightarrow> arrow_type \<Rightarrow> sq_value \<Rightarrow> arrow_value result" where
  "read_cell L ty v =
     (let text = ok (case sq_as_text L v of None \<Rightarrow> VNull | Some s \<Rightarrow> VString s);
          blob = ok (case sq_as_blob L v of None \<Rightarrow> VNull | Some s \<Rightarrow> VString s);
          narrowed = ok (VInt (sq_narrow L ty (sq_as_int L v)))
      in if v = SqNull then ok VNull
         else case ty of
           INT64 \<Rightarrow> narrowed | UINT64 \<Rightarrow> narrowed | INT32 \<Rightarrow> narrowed | UINT32 \<Rightarrow> narrowed | INT16 \<Rightarrow> narrowed
         | UINT16 \<Rightarrow> narrowed | INT8 \<Rightarrow> narrowed | UINT8 \<Rightarrow> narrowed
         | DOUBLE \<Rightarrow> ok (VFloat (sq_as_real L v)) | FLOAT \<Rightarrow> ok (VFloat (sq_narrow L FLOAT (sq_as_real L v)))
         | BINARY \<Rightarrow> blob | LARGE_BINARY \<Rightarrow> blob | STRING \<Rightarrow> text | LARGE_STRING \<Rightarrow> text
         | OTHER_ARROW n \<Rightarrow>
             if n = ''halffloat'' then ok (VFloat (sq_narrow L ty (sq_as_real L v)))
             else fail NotImplemented (''Not implemented SQLite data conversion to '' @ sq_type_name L ty)
         | _ \<Rightarrow> fail NotImplemented (''Not implemented SQLite data conversion to '' @ sq_type_name L ty))"

fun read_cells_of :: "('p, 'c, 'w) sqlite_lib \<Rightarrow> sq_value list \<Rightarrow> nat \<Rightarrow> sq_field list \<Rightarrow> arrow_value list result" where
  "read_cells_of L row i [] = ok []"
| "read_cells_of L row i ((name, ty, md) # fs) =
     rbind (read_cell L ty (if i < length row then row ! i else SqNull)) (\<lambda>v.
     rbind (read_cells_of L row (Suc i) fs) (\<lambda>vs. ok (v # vs)))"

definition read_row :: "('p, 'c, 'w) sqlite_lib \<Rightarrow> sq_field list \<Rightarrow> ('p, 'c) sqlite_statement \<Rightarrow> arrow_value list result" where
  "read_row L fs s = read_cells_of L (sq_row L (ss_prog s) (ss_cursor s)) 0 fs"

text \<open>The inner loop: at most \<open>n\<close> more rows.\<close>

fun fetch_rows ::
    "('p, 'c, 'w) sqlite_lib \<Rightarrow> sq_field list \<Rightarrow> nat \<Rightarrow> sq_code \<Rightarrow> arrow_value list list
     \<Rightarrow> ('p, 'c) sqlite_statement \<Rightarrow> 'w \<Rightarrow> (sq_code \<times> arrow_value list list) result \<times> ('p, 'c) sqlite_statement \<times> 'w" where
  "fetch_rows L fs 0 rc rows s w = (ok (rc, rows), s, w)"
| "fetch_rows L fs (Suc n) rc rows s w =
     (if rc \<noteq> SqRow then (ok (rc, rows), s, w)
      else case read_row L fs s of
             Inl e \<Rightarrow> (Inl e, s, w)
           | Inr r \<Rightarrow>
               (case stmt_Step L s w of
                  (Inl e, s1, w1) \<Rightarrow> (Inl e, s1, w1)
                | (Inr rc1, s1, w1) \<Rightarrow> fetch_rows L fs n rc1 (rows @ [r]) s1 w1))"

text \<open>
  The start of a run: \<open>None\<close> when the parameters are used up. The result code of the reset, then that of the first
  step, is kept.
\<close>

definition start_run ::
    "('p, 'c, 'w) sqlite_lib \<Rightarrow> parameter_batch list \<Rightarrow> statement_reader \<Rightarrow> ('p, 'c) sqlite_statement \<Rightarrow> 'w
     \<Rightarrow> statement_reader option result \<times> statement_reader \<times> ('p, 'c) sqlite_statement \<times> 'w" where
  "start_run L params rd s w =
     (if sr_executed rd then (ok (Some rd), rd, s, w)
      else case stmt_Reset L s w of
             (Inl e, s1, w1) \<Rightarrow> (Inl e, rd, s1, w1)
           | (Inr rc, s1, w1) \<Rightarrow>
               (let rd1 = rd\<lparr>sr_rc := rc\<rparr> in
                if params \<noteq> [] \<and> sr_batch_index rd \<ge> length params then (ok None, rd1, s1, w1)
                else case (if params \<noteq> [] then stmt_Bind L (sr_batch_index rd) (sr_row_index rd) s1 w1 else (ok (), s1)) of
                       (Inl e, s2) \<Rightarrow> (Inl e, rd1, s2, w1)
                     | (Inr u, s2) \<Rightarrow>
                         (case stmt_Step L s2 w1 of
                            (Inl e, s3, w2) \<Rightarrow> (Inl e, rd1, s3, w2)
                          | (Inr rc, s3, w2) \<Rightarrow>
                              (let rd2 = rd1\<lparr>sr_rc := rc, sr_executed := True\<rparr> in (ok (Some rd2), rd2, s3, w2)))))"

text \<open>The next parameters after a finished run.\<close>

definition advance :: "parameter_batch list \<Rightarrow> statement_reader \<Rightarrow> statement_reader" where
  "advance params rd =
     (if sr_row_index rd + 1 < length (pb_rows (params ! sr_batch_index rd))
      then rd\<lparr>sr_row_index := sr_row_index rd + 1, sr_executed := False\<rparr>
      else let rd1 = rd\<lparr>sr_batch_index := sr_batch_index rd + 1, sr_row_index := 0\<rparr>
           in if sr_batch_index rd1 < length params then rd1\<lparr>sr_executed := False\<rparr> else rd1)"

definition batch_of :: "arrow_value list list \<Rightarrow> arrow_value list list option" where
  "batch_of rows = (if rows \<noteq> [] then Some rows else None)"

lemma advance_simps [simp]: "sr_schema (advance params rd) = sr_schema rd" "sr_rc (advance params rd) = sr_rc rd"
  by (simp_all add: advance_def Let_def)

lemma start_run_indices:
  "start_run L params rd s w = (ok (Some rd1), rd2, s1, w1) \<Longrightarrow>
     sr_batch_index rd1 = sr_batch_index rd \<and> sr_row_index rd1 = sr_row_index rd \<and> sr_schema rd1 = sr_schema rd
     \<and> sr_executed rd1"
  by (auto simp: start_run_def Let_def split: if_splits prod.splits sum.splits)

text \<open>
  The outer loop of \<open>ReadNext\<close>; the statement's parameters do not change while it runs. It goes on only with
  parameters that are left.
\<close>

function read_loop ::
    "('p, 'c, 'w) sqlite_lib \<Rightarrow> parameter_batch list \<Rightarrow> statement_reader \<Rightarrow> arrow_value list list
     \<Rightarrow> ('p, 'c) sqlite_statement \<Rightarrow> 'w
     \<Rightarrow> arrow_value list list option result \<times> statement_reader \<times> ('p, 'c) sqlite_statement \<times> 'w" where
  "read_loop L params rd rows s w =
     (case start_run L params rd s w of
        (Inl e, rd1, s1, w1) \<Rightarrow> (Inl e, rd1, s1, w1)
      | (Inr None, rd1, s1, w1) \<Rightarrow> (ok None, rd1, s1, w1)
      | (Inr (Some rd1), rd0, s1, w1) \<Rightarrow>
          (case fetch_rows L (sr_schema rd1) (kMaxBatchSize - length rows) (sr_rc rd1) rows s1 w1 of
             (Inl e, s2, w2) \<Rightarrow> (Inl e, rd1, s2, w2)
           | (Inr (rc, rows'), s2, w2) \<Rightarrow>
               (let rd2 = rd1\<lparr>sr_rc := rc\<rparr> in
                if params \<noteq> [] \<and> rc = SqDone \<and> sr_batch_index rd2 < length params
                then let rd3 = advance params rd2 in
                     if \<not> sr_executed rd3 \<and> length rows' < kMaxBatchSize
                     then read_loop L params rd3 rows' s2 w2
                     else (ok (batch_of rows'), rd3, s2, w2)
                else (ok (batch_of rows'), rd2, s2, w2))))"
  by pat_completeness auto
termination
proof (relation "measures [\<lambda>(L, params, rd, rows, s, w). length params - sr_batch_index rd,
    \<lambda>(L, params, rd, rows, s, w). length (pb_rows (params ! sr_batch_index rd)) - sr_row_index rd]", goal_cases)
  case 2
  then show ?case
    by (auto dest!: start_run_indices [OF sym] simp: advance_def Let_def split: if_splits)
qed simp

section \<open>When an update returns\<close>

fun steps_from ::
    "('p, 'c, 'w) sqlite_lib \<Rightarrow> nat \<Rightarrow> ('p, 'c) sqlite_statement \<Rightarrow> 'w \<Rightarrow> ('p, 'c) sqlite_statement \<times> 'w" where
  "steps_from L 0 s w = (s, w)"
| "steps_from L (Suc k) s w = (case stmt_Step L s w of (r, s', w') \<Rightarrow> steps_from L k s' w')"

definition step_code :: "('p, 'c, 'w) sqlite_lib \<Rightarrow> nat \<Rightarrow> ('p, 'c) sqlite_statement \<Rightarrow> 'w \<Rightarrow> sq_code result" where
  "step_code L k s w = (case steps_from L k s w of (s', w') \<Rightarrow> fst (stmt_Step L s' w'))"

definition ends :: "sq_code result \<Rightarrow> bool" where
  "ends r \<longleftrightarrow> r = ok SqDone \<or> (\<exists>e. r = Inl e)"

lemma step_code_0: "step_code L 0 s w = fst (stmt_Step L s w)"
  by (simp add: step_code_def)

lemma step_code_Suc: "stmt_Step L s w = (r, s', w') \<Longrightarrow> step_code L (Suc k) s w = step_code L k s' w'"
  by (simp add: step_code_def)

lemma step_to_done_returns: "ends (step_code L k s w) \<Longrightarrow> \<exists>r. step_to_done L s w = Some r"
proof (induction k arbitrary: s w)
  case 0
  then show ?case
    by (subst step_to_done.simps) (auto simp: step_code_0 ends_def split: prod.splits sum.splits)
next
  case (Suc k)
  obtain r s' w' where step: "stmt_Step L s w = (r, s', w')" by (cases "stmt_Step L s w")
  have "\<exists>r. step_to_done L s' w' = Some r" using Suc step_code_Suc [OF step] by simp
  then show ?case by (subst step_to_done.simps) (auto simp: step split: sum.splits)
qed

lemma step_to_done_ends:
  assumes "step_to_done L s w = Some r"
  shows "\<exists>k. ends (step_code L k s w)"
proof (rule step_to_done.raw_induct [where P = "\<lambda>L s w r. \<exists>k. ends (step_code L k s w)", OF _ assms])
  fix f and L :: "('a, 'b, 'c) sqlite_lib" and s w and r :: "unit result \<times> ('a, 'b) sqlite_statement \<times> 'c"
  assume IH: "\<And>L s w r. f L s w = Some r \<Longrightarrow> \<exists>k. ends (step_code L k s w)"
    and body: "(case stmt_Step L s w of (r, s', w') \<Rightarrow>
      (case r of Inl e \<Rightarrow> Some (Inl e, s', w') | Inr rc \<Rightarrow> if rc = SqDone then Some (ok (), s', w') else f L s' w')) = Some r"
  obtain q s' w' where step: "stmt_Step L s w = (q, s', w')" by (cases "stmt_Step L s w")
  show "\<exists>k. ends (step_code L k s w)"
  proof (cases "ends q")
    case True
    then show ?thesis using step by (intro exI [of _ 0]) (simp add: step_code_0)
  next
    case False
    then have "f L s' w' = Some r" using body step by (auto simp: ends_def split: sum.splits if_splits)
    then obtain k where "ends (step_code L k s' w')" using IH by blast
    then show ?thesis using step_code_Suc [OF step] by (intro exI [of _ "Suc k"]) simp
  qed
qed

text \<open>
  C26: An update returns exactly when some step ends with \<open>SQLITE_DONE\<close> or \<open>SQLITE_ERROR\<close>. Any other failure, such
  as a violated constraint or a locked database, is not an error for \<open>Step\<close>: the loop steps again, and when
  the failure stays it never returns.
\<close>

theorem update_returns_iff:
  "(\<exists>r. stmt_ExecuteUpdate L s w = Some r)
   \<longleftrightarrow> (\<exists>k. step_code L k s w = ok SqDone \<or> (\<exists>e. step_code L k s w = Inl e))"
  unfolding stmt_ExecuteUpdate_def using step_to_done_returns step_to_done_ends by (fastforce simp: ends_def)

text \<open>A violated constraint: each step fails in the same way and leaves everything as it was.\<close>

lemma constraint_violation_hangs:
  assumes "\<And>c v. sq_step L (ss_db s) (ss_prog s) (ss_bindings s) c v = (SqOther 19, c, v)"
  shows "stmt_ExecuteUpdate L s w = None"
proof -
  have step: "stmt_Step L s w = (ok (SqOther 19), s, w)" for w by (simp add: stmt_Step_def assms)
  have "step_code L k s w = ok (SqOther 19)" for k
    by (induction k) (simp_all add: step_code_0 step step_code_Suc [OF step])
  then show ?thesis
    using step_to_done_ends [of L s w] by (cases "step_to_done L s w") (auto simp: stmt_ExecuteUpdate_def ends_def)
qed

section \<open>What a reader gives\<close>

definition ReadNext_sqlite ::
    "('p, 'c, 'w) sqlite_lib \<Rightarrow> statement_reader \<Rightarrow> ('p, 'c) sqlite_statement \<Rightarrow> 'w
     \<Rightarrow> arrow_value list list option result \<times> statement_reader \<times> ('p, 'c) sqlite_statement \<times> 'w" where
  "ReadNext_sqlite L rd s w = read_loop L (ss_parameters s) rd [] s w"

declare read_loop.simps [simp del]

text \<open>
  The rows of one run: from the code of the last step, one row after the other until \<open>SQLITE_DONE\<close>.
\<close>

inductive drains ::
    "('p, 'c, 'w) sqlite_lib \<Rightarrow> sq_field list \<Rightarrow> sq_code \<Rightarrow> ('p, 'c) sqlite_statement \<Rightarrow> 'w \<Rightarrow> arrow_value list list
     \<Rightarrow> ('p, 'c) sqlite_statement \<Rightarrow> 'w \<Rightarrow> bool"
  for L :: "('p, 'c, 'w) sqlite_lib" and fs :: "sq_field list" where
  finished: "drains L fs SqDone s w [] s w"
| row: "read_row L fs s = ok r \<Longrightarrow> stmt_Step L s w = (ok rc, s1, w1) \<Longrightarrow> drains L fs rc s1 w1 rs s' w' \<Longrightarrow>
    drains L fs SqRow s w (r # rs) s' w'"

inductive_cases drains_NilE: "drains L fs rc s w [] s' w'"
inductive_cases drains_ConsE: "drains L fs rc s w (r # rs) s' w'"

text \<open>
  One run for every row of parameters, in order (one run without binding when there are none), each from a reset.
\<close>

inductive runs ::
    "('p, 'c, 'w) sqlite_lib \<Rightarrow> sq_field list \<Rightarrow> (nat \<times> nat) option list \<Rightarrow> ('p, 'c) sqlite_statement \<Rightarrow> 'w
     \<Rightarrow> arrow_value list list \<Rightarrow> bool"
  for L :: "('p, 'c, 'w) sqlite_lib" and fs :: "sq_field list" where
  no_more: "runs L fs [] s w []"
| run: "stmt_Reset L s w = (ok rc0, s1, w1) \<Longrightarrow>
    (case p of None \<Rightarrow> (ok (), s1) | Some (b, r) \<Rightarrow> stmt_Bind L b r s1 w1) = (ok (), s2) \<Longrightarrow>
    stmt_Step L s2 w1 = (ok rc, s3, w2) \<Longrightarrow> drains L fs rc s3 w2 rs s4 w3 \<Longrightarrow> runs L fs ps s4 w3 rest \<Longrightarrow>
    runs L fs (p # ps) s w (rs @ rest)"

inductive_cases runs_NilE: "runs L fs [] s w rs"
inductive_cases runs_ConsE: "runs L fs (p # ps) s w rs"

definition batch_positions :: "parameter_batch list \<Rightarrow> nat \<Rightarrow> nat \<Rightarrow> (nat \<times> nat) option list" where
  "batch_positions params b r = map (\<lambda>i. Some (b, i)) [r..<length (pb_rows (params ! b))]"

definition positions_from :: "parameter_batch list \<Rightarrow> nat \<Rightarrow> nat \<Rightarrow> (nat \<times> nat) option list" where
  "positions_from params b r =
     (if b < length params
      then batch_positions params b r @ concat (map (\<lambda>i. batch_positions params i 0) [Suc b..<length params]) else [])"

definition positions :: "parameter_batch list \<Rightarrow> (nat \<times> nat) option list" where
  "positions params = (if params = [] then [None] else positions_from params 0 0)"

text \<open>Reading until the stream ends.\<close>

inductive reads ::
    "('p, 'c, 'w) sqlite_lib \<Rightarrow> statement_reader \<Rightarrow> ('p, 'c) sqlite_statement \<Rightarrow> 'w \<Rightarrow> arrow_value list list list \<Rightarrow> bool"
  for L :: "('p, 'c, 'w) sqlite_lib" where
  stream_end: "ReadNext_sqlite L rd s w = (ok None, rd', s', w') \<Longrightarrow> reads L rd s w []"
| stream_batch: "ReadNext_sqlite L rd s w = (ok (Some b), rd', s', w') \<Longrightarrow> reads L rd' s' w' bs \<Longrightarrow> reads L rd s w (b # bs)"

lemma positions_next:
  assumes "b < length params" and "r < length (pb_rows (params ! b))"
  shows "positions_from params b r = Some (b, r) # positions_from params b (Suc r)"
  using assms by (simp add: positions_from_def batch_positions_def upt_conv_Cons)

lemma positions_batch:
  assumes "b < length params" and "length (pb_rows (params ! b)) \<le> r"
  shows "positions_from params b r = positions_from params (Suc b) 0"
  using assms by (auto simp: positions_from_def batch_positions_def upt_conv_Cons)

lemma stmt_parameters:
  "stmt_Step L s w = (r, s', w') \<Longrightarrow> ss_parameters s' = ss_parameters s"
  "stmt_Reset L s w = (r, s', w') \<Longrightarrow> ss_parameters s' = ss_parameters s"
  by (auto simp: stmt_Step_def stmt_Reset_def split: prod.splits)

lemma bind_parameters_kept: "bind_cells L c cells s w = (r, s') \<Longrightarrow> ss_parameters s' = ss_parameters s"
proof (induction cells arbitrary: c s)
  case (Cons cell cells)
  then show ?case by (cases "bound_value L cell") (auto split: if_splits dest!: Cons.IH)
qed simp

lemma Bind_parameters: "stmt_Bind L b r s w = (x, s') \<Longrightarrow> ss_parameters s' = ss_parameters s"
  by (auto simp: stmt_Bind_def Let_def split: if_splits dest: bind_parameters_kept)

lemma drains_parameters: "drains L fs rc s w rs s' w' \<Longrightarrow> ss_parameters s' = ss_parameters s"
  by (induction rule: drains.induct) (auto dest: stmt_parameters)

text \<open>Fetching takes the first rows of the run and leaves the rest of it.\<close>

lemma fetch_rows_drains:
  assumes "drains L fs rc s w rs s' w'"
  shows "\<exists>rc1 s1 w1. fetch_rows L fs n rc acc s w = (ok (rc1, acc @ take n rs), s1, w1) \<and> drains L fs rc1 s1 w1 (drop n rs) s' w'"
  using assms
proof (induction n arbitrary: rc acc s w rs)
  case 0
  then show ?case by simp
next
  case (Suc n)
  show ?case
  proof (cases rs)
    case Nil
    then have "rc = SqDone" "s' = s" "w' = w" using Suc.prems by (auto elim: drains_NilE)
    then show ?thesis using Nil by (auto intro: drains.finished)
  next
    case (Cons r rest)
    obtain rc1 s1 w1 where step: "rc = SqRow" "read_row L fs s = ok r" "stmt_Step L s w = (ok rc1, s1, w1)"
        "drains L fs rc1 s1 w1 rest s' w'"
      using Suc.prems Cons by (auto elim: drains_ConsE)
    show ?thesis using Suc.IH [OF step(4), of "acc @ [r]"] step(1-3) Cons by auto
  qed
qed

lemma drains_Nil_Done: "drains L fs rc s w rs s' w' \<Longrightarrow> rs = [] \<longleftrightarrow> rc = SqDone"
  by (auto elim: drains.cases)

text \<open>What a reader in the middle of its work will still give: the rest of its run and the runs to come.\<close>

definition later_positions :: "parameter_batch list \<Rightarrow> statement_reader \<Rightarrow> (nat \<times> nat) option list" where
  "later_positions params rd =
     (if params = [] then [] else positions_from params (sr_batch_index rd) (Suc (sr_row_index rd)))"

definition own_position :: "parameter_batch list \<Rightarrow> statement_reader \<Rightarrow> (nat \<times> nat) option" where
  "own_position params rd = (if params = [] then None else Some (sr_batch_index rd, sr_row_index rd))"

definition in_range :: "parameter_batch list \<Rightarrow> statement_reader \<Rightarrow> bool" where
  "in_range params rd \<longleftrightarrow>
     params = [] \<or> sr_batch_index rd < length params \<and> sr_row_index rd < length (pb_rows (params ! sr_batch_index rd))"

definition past_end :: "parameter_batch list \<Rightarrow> statement_reader \<Rightarrow> bool" where
  "past_end params rd \<longleftrightarrow> params \<noteq> [] \<and> length params \<le> sr_batch_index rd"

definition will_give ::
    "('p, 'c, 'w) sqlite_lib \<Rightarrow> statement_reader \<Rightarrow> ('p, 'c) sqlite_statement \<Rightarrow> 'w \<Rightarrow> arrow_value list list \<Rightarrow> bool" where
  "will_give L rd s w rs \<longleftrightarrow>
     (let params = ss_parameters s in
      if sr_executed rd
      then \<exists>rs1 rs2 s1 w1. rs = rs1 @ rs2 \<and> drains L (sr_schema rd) (sr_rc rd) s w rs1 s1 w1
             \<and> (if past_end params rd then rs1 = [] \<and> rs2 = []
                else in_range params rd \<and> runs L (sr_schema rd) (later_positions params rd) s1 w1 rs2)
      else in_range params rd \<and> runs L (sr_schema rd) (own_position params rd # later_positions params rd) s w rs)"

definition no_empty :: "parameter_batch list \<Rightarrow> bool" where
  "no_empty params \<longleftrightarrow> (\<forall>b \<in> set params. pb_rows b \<noteq> [])"

lemma will_giveI:
  assumes "sr_executed rd" and "drains L (sr_schema rd) (sr_rc rd) s w rs1 s1 w1"
    and "if past_end (ss_parameters s) rd then rs1 = [] \<and> rs2 = []
      else in_range (ss_parameters s) rd \<and> runs L (sr_schema rd) (later_positions (ss_parameters s) rd) s1 w1 rs2"
  shows "will_give L rd s w (rs1 @ rs2)"
proof -
  have "\<exists>ra rb sa wa. rs1 @ rs2 = ra @ rb \<and> drains L (sr_schema rd) (sr_rc rd) s w ra sa wa
      \<and> (if past_end (ss_parameters s) rd then ra = [] \<and> rb = []
         else in_range (ss_parameters s) rd \<and> runs L (sr_schema rd) (later_positions (ss_parameters s) rd) sa wa rb)"
    using assms(2,3) by blast
  then show ?thesis using assms(1) by (simp only: will_give_def Let_def if_True)
qed

lemma start_run_gives:
  assumes "will_give L rd s w rs"
  shows "\<exists>rd1 s1 w1. start_run L (ss_parameters s) rd s w = (ok (Some rd1), rd1, s1, w1) \<and> sr_executed rd1
    \<and> will_give L rd1 s1 w1 rs \<and> ss_parameters s1 = ss_parameters s
    \<and> later_positions (ss_parameters s) rd1 = later_positions (ss_parameters s) rd"
proof (cases "sr_executed rd")
  case True
  then show ?thesis using assms by (simp add: start_run_def)
next
  case False
  let ?params = "ss_parameters s"
  have range: "in_range ?params rd"
    and runs: "runs L (sr_schema rd) (own_position ?params rd # later_positions ?params rd) s w rs"
    using assms False by (simp_all add: will_give_def Let_def)
  obtain rc0 s1 w1 s2 rc s3 w2 rs1 s4 w3 rs2 where r: "stmt_Reset L s w = (ok rc0, s1, w1)"
      "(case own_position ?params rd of None \<Rightarrow> (ok (), s1) | Some (b, r) \<Rightarrow> stmt_Bind L b r s1 w1) = (ok (), s2)"
      "stmt_Step L s2 w1 = (ok rc, s3, w2)" "drains L (sr_schema rd) rc s3 w2 rs1 s4 w3"
      "runs L (sr_schema rd) (later_positions ?params rd) s4 w3 rs2" "rs = rs1 @ rs2"
    using runs by (auto elim: runs_ConsE)
  let ?rd1 = "rd\<lparr>sr_rc := rc, sr_executed := True\<rparr>"
  have bound: "(if ?params \<noteq> [] then stmt_Bind L (sr_batch_index rd) (sr_row_index rd) s1 w1 else (ok (), s1)) = (ok (), s2)"
    using r(2) by (auto simp: own_position_def split: if_splits)
  have start: "start_run L ?params rd s w = (ok (Some ?rd1), ?rd1, s3, w2)"
    using False range r(1,3) bound by (auto simp: start_run_def Let_def in_range_def)
  have kept: "ss_parameters s3 = ?params"
    using r(1,3) bound by (auto dest!: stmt_parameters Bind_parameters split: if_splits)
  have "\<not> past_end ?params ?rd1" using range by (auto simp: past_end_def in_range_def)
  then have "will_give L ?rd1 s3 w2 (rs1 @ rs2)"
    using r(4,5) range kept by (intro will_giveI [of _ _ _ _ _ s4 w3]) (auto simp: in_range_def later_positions_def split: if_splits)
  then have "will_give L ?rd1 s3 w2 rs" using r(6) by simp
  then show ?thesis using start kept by (auto simp: later_positions_def)
qed

lemma advance_positions:
  assumes "params \<noteq> []" and "in_range params rd" and "no_empty params" and "sr_executed rd"
  shows "if sr_executed (advance params rd)
    then past_end params (advance params rd) \<and> later_positions params rd = []
    else in_range params (advance params rd)
      \<and> later_positions params rd = own_position params (advance params rd) # later_positions params (advance params rd)"
proof -
  let ?b = "sr_batch_index rd" and ?r = "sr_row_index rd"
  have range: "?b < length params" "?r < length (pb_rows (params ! ?b))" using assms(1,2) by (auto simp: in_range_def)
  show ?thesis
  proof (cases "Suc ?r < length (pb_rows (params ! ?b))")
    case True
    then show ?thesis
      using assms range positions_next [OF range(1) True]
      by (simp add: advance_def in_range_def later_positions_def own_position_def)
  next
    case False
    then have next_batch: "later_positions params rd = positions_from params (Suc ?b) 0"
      using assms(1) range positions_batch [of ?b params "Suc ?r"] by (simp add: later_positions_def)
    show ?thesis
    proof (cases "Suc ?b < length params")
      case True
      then have "0 < length (pb_rows (params ! Suc ?b))" using assms(3) by (auto simp: no_empty_def)
      then show ?thesis
        using False True assms next_batch positions_next [OF True, of 0]
        by (simp add: advance_def Let_def in_range_def later_positions_def own_position_def)
    next
      case nb: False
      then show ?thesis
        using False assms next_batch by (simp add: advance_def Let_def past_end_def positions_from_def)
    qed
  qed
qed

lemma batch_full: "length acc < k \<Longrightarrow> drop (k - length acc) rs \<noteq> [] \<Longrightarrow> length (acc @ take (k - length acc) rs) = k"
  by auto

lemma read_loop_gives:
  assumes "will_give L rd s w rs" and "ss_parameters s = params" and "no_empty params" and "length acc < kMaxBatchSize"
  shows "\<exists>out rest rd' s' w'. read_loop L params rd acc s w = (ok (batch_of (acc @ out)), rd', s', w') \<and> rs = out @ rest
    \<and> will_give L rd' s' w' rest \<and> ss_parameters s' = params \<and> length (acc @ out) \<le> kMaxBatchSize
    \<and> (rest = [] \<or> length (acc @ out) = kMaxBatchSize)"
  using assms
proof (induction "length (later_positions params rd)" arbitrary: rd s w rs acc rule: less_induct)
  case less
  obtain rd1 s1 w1 where start: "start_run L params rd s w = (ok (Some rd1), rd1, s1, w1)" "sr_executed rd1"
      "will_give L rd1 s1 w1 rs" "ss_parameters s1 = params" "later_positions params rd1 = later_positions params rd"
    using start_run_gives [OF less.prems(1)] less.prems(2) by auto
  obtain rs1 rs2 s2 w2 where give: "rs = rs1 @ rs2" "drains L (sr_schema rd1) (sr_rc rd1) s1 w1 rs1 s2 w2"
      "if past_end params rd1 then rs1 = [] \<and> rs2 = []
       else in_range params rd1 \<and> runs L (sr_schema rd1) (later_positions params rd1) s2 w2 rs2"
    using start(2-4) by (auto simp: will_give_def Let_def)
  let ?n = "kMaxBatchSize - length acc"
  let ?rows = "acc @ take ?n rs1"
  obtain rc s3 w3 where fetch: "fetch_rows L (sr_schema rd1) ?n (sr_rc rd1) acc s1 w1 = (ok (rc, ?rows), s3, w3)"
      "drains L (sr_schema rd1) rc s3 w3 (drop ?n rs1) s2 w2"
    using fetch_rows_drains [OF give(2)] by blast
  have kept: "ss_parameters s3 = params"
    using drains_parameters [OF fetch(2)] drains_parameters [OF give(2)] start(4) by simp
  have size: "length ?rows \<le> kMaxBatchSize" using less.prems(4) by auto
  let ?rd2 = "rd1\<lparr>sr_rc := rc\<rparr>"
  show ?case
  proof (cases "params \<noteq> [] \<and> rc = SqDone \<and> sr_batch_index rd1 < length params")
    case True
    then have rest_empty: "drop ?n rs1 = []" "s3 = s2" "w3 = w2"
      using drains_Nil_Done [OF fetch(2)] fetch(2) by (auto elim: drains_NilE)
    then have all: "take ?n rs1 = rs1" by simp
    have more: "in_range params rd1" "runs L (sr_schema rd1) (later_positions params rd1) s2 w2 rs2"
      using give(3) True by (auto simp: past_end_def)
    let ?rd3 = "advance params ?rd2"
    have range2: "in_range params ?rd2" "sr_executed ?rd2" using more(1) start(2) by (simp_all add: in_range_def)
    note adv = advance_positions [OF _ range2(1) less.prems(3) range2(2)]
    have later2: "later_positions params ?rd2 = later_positions params rd1" by (simp add: later_positions_def)
    have will3: "will_give L ?rd3 s3 w3 rs2"
    proof (cases "sr_executed ?rd3")
      case e: True
      then have "past_end params ?rd3" "later_positions params rd1 = []" using adv True later2 by auto
      moreover from this have "rs2 = []" using more(2) by (auto elim: runs_NilE)
      moreover have "drains L (sr_schema ?rd3) (sr_rc ?rd3) s3 w3 [] s3 w3" using True by (simp add: drains.finished)
      ultimately show ?thesis
        using will_giveI [of ?rd3 L s3 w3 "[]" s3 w3 "[]"] e kept by simp
    next
      case e: False
      then show ?thesis
        using adv True later2 more(2) kept rest_empty by (auto simp: will_give_def Let_def)
    qed
    show ?thesis
    proof (cases "\<not> sr_executed ?rd3 \<and> length ?rows < kMaxBatchSize")
      case go: True
      have step: "read_loop L params rd acc s w = read_loop L params ?rd3 ?rows s3 w3"
        by (subst read_loop.simps) (use start(1) fetch(1) True go in \<open>simp add: Let_def\<close>)
      have shorter: "length (later_positions params ?rd3) < length (later_positions params rd)"
        using adv True later2 go start(5) by auto
      have "length ?rows < kMaxBatchSize" using go by blast
      from less.hyps [OF shorter will3 kept less.prems(3) this]
      obtain out rest rd' s' w' where res: "read_loop L params ?rd3 ?rows s3 w3 = (ok (batch_of (?rows @ out)), rd', s', w')"
          "rs2 = out @ rest" "will_give L rd' s' w' rest" "ss_parameters s' = params" "length (?rows @ out) \<le> kMaxBatchSize"
          "rest = [] \<or> length (?rows @ out) = kMaxBatchSize" by blast
      show ?thesis
        by (rule exI [of _ "rs1 @ out"], rule exI [of _ rest], rule exI [of _ rd'], rule exI [of _ s'], rule exI [of _ w'])
          (use step res give(1) all in simp)
    next
      case stop: False
      have step: "read_loop L params rd acc s w = (ok (batch_of ?rows), ?rd3, s3, w3)"
        by (subst read_loop.simps) (use start(1) fetch(1) True stop in \<open>auto simp: Let_def\<close>)
      have "rs2 = [] \<or> length ?rows = kMaxBatchSize"
      proof (cases "sr_executed ?rd3")
        case e: True
        then have "later_positions params rd1 = []" using adv True later2 by auto
        then show ?thesis using more(2) by (auto elim: runs_NilE)
      next
        case e: False
        then show ?thesis using stop size by auto
      qed
      then show ?thesis
        by (intro exI [of _ rs1] exI [of _ rs2] exI [of _ ?rd3] exI [of _ s3] exI [of _ w3])
          (use step give(1) all will3 kept size in simp)
    qed
  next
    case False
    have step: "read_loop L params rd acc s w = (ok (batch_of ?rows), ?rd2, s3, w3)"
      by (subst read_loop.simps) (use start(1) fetch(1) False in \<open>auto simp: Let_def\<close>)
    have will2: "will_give L ?rd2 s3 w3 (drop ?n rs1 @ rs2)"
      using fetch(2) give(3) start(2) kept
      by (auto simp: will_give_def Let_def past_end_def in_range_def later_positions_def split: if_splits)
    have "drop ?n rs1 @ rs2 = [] \<or> length ?rows = kMaxBatchSize"
    proof (cases "drop ?n rs1 = []")
      case d: True
      then have "rc = SqDone" using drains_Nil_Done [OF fetch(2)] by simp
      then have "params = [] \<or> past_end params rd1" using False by (auto simp: past_end_def)
      then have "rs2 = []"
        using give(3) by (auto simp: past_end_def later_positions_def elim: runs_NilE)
      then show ?thesis using d by simp
    next
      case d: False
      then show ?thesis using batch_full [OF less.prems(4) d] by simp
    qed
    then show ?thesis
      by (intro exI [of _ "take ?n rs1"] exI [of _ "drop ?n rs1 @ rs2"] exI [of _ ?rd2] exI [of _ s3] exI [of _ w3])
        (use step give(1) will2 kept size in simp)
  qed
qed

lemma reads_will_give:
  assumes "will_give L rd s w rs" and "no_empty (ss_parameters s)"
  shows "\<exists>bs. reads L rd s w bs \<and> concat bs = rs \<and> (\<forall>b \<in> set bs. b \<noteq> [] \<and> length b \<le> kMaxBatchSize)"
  using assms
proof (induction "length rs" arbitrary: rd s w rs rule: less_induct)
  case less
  have k: "0 < kMaxBatchSize" by (simp add: kMaxBatchSize_def)
  obtain out rest rd' s' w' where next_batch: "ReadNext_sqlite L rd s w = (ok (batch_of out), rd', s', w')" "rs = out @ rest"
      "will_give L rd' s' w' rest" "ss_parameters s' = ss_parameters s" "length out \<le> kMaxBatchSize"
      "rest = [] \<or> length out = kMaxBatchSize"
    using read_loop_gives [OF less.prems(1) refl less.prems(2), of "[]"] k
    unfolding ReadNext_sqlite_def append_Nil list.size(3) by blast
  show ?case
  proof (cases "out = []")
    case True
    then have "reads L rd s w []" using next_batch(1) by (auto simp: batch_of_def intro: reads.stream_end)
    moreover have "rs = []" using True next_batch(2,6) k by auto
    ultimately show ?thesis by (intro exI [of _ "[]"]) simp
  next
    case False
    then have "length rest < length rs" using next_batch(2) by simp
    from less.hyps [OF this next_batch(3)] obtain bs where bs: "reads L rd' s' w' bs" "concat bs = rest"
        "\<forall>b \<in> set bs. b \<noteq> [] \<and> length b \<le> kMaxBatchSize"
      using next_batch(4) less.prems(2) by auto
    have "reads L rd s w (out # bs)"
      using next_batch(1) False bs(1) by (auto simp: batch_of_def intro: reads.stream_batch)
    then show ?thesis using bs False next_batch(2,5) by (intro exI [of _ "out # bs"]) simp
  qed
qed

lemma new_reader_gives:
  assumes "no_empty (ss_parameters s)" and "runs L fs (positions (ss_parameters s)) s w rows"
  shows "will_give L (new_reader fs) s w rows"
proof -
  let ?params = "ss_parameters s"
  have range: "in_range ?params (new_reader fs)"
    using assms(1) by (cases ?params) (auto simp: in_range_def new_reader_def no_empty_def)
  have "positions ?params = own_position ?params (new_reader fs) # later_positions ?params (new_reader fs)"
    using range positions_next [of 0 ?params 0]
    by (auto simp: positions_def own_position_def later_positions_def new_reader_def in_range_def)
  then show ?thesis using range assms(2) by (simp add: will_give_def new_reader_def)
qed

text \<open>
  C25: Reading a statement gives every row of every run, once and in order: one run for each row of parameters over all
  their batches, or one run without any. Where a batch ends has no influence: batches are not empty and hold at
  most 16384 rows, also when a run ends exactly there.
\<close>

theorem reader_returns_every_row:
  assumes "no_empty (ss_parameters s)" and "runs L fs (positions (ss_parameters s)) s w rows"
  shows "\<exists>batches. reads L (new_reader fs) s w batches \<and> concat batches = rows
    \<and> list_all (\<lambda>b. b \<noteq> [] \<and> length b \<le> kMaxBatchSize) batches"
  using reads_will_give [OF new_reader_gives [OF assms] assms(1)] by (auto simp: list_all_iff)

lemma SetParameters_no_empty: "stmt_SetParameters L params s = (ok (), s') \<Longrightarrow> no_empty (ss_parameters s')"
  by (auto simp: stmt_SetParameters_def no_empty_def Let_def split: option.splits)

text \<open>
  Any code but \<open>SQLITE_ROW\<close> and \<open>SQLITE_ERROR\<close> ends the stream as if all rows had been read: a locked database or a
  violated constraint goes unreported.
\<close>

lemma other_codes_end_the_stream:
  assumes "sr_executed rd" and "sr_rc rd = SqOther n"
  shows "ReadNext_sqlite L rd s w = (ok None, rd, s, w)"
proof -
  have "fetch_rows L fs k (SqOther n) [] s w = (ok (SqOther n, []), s, w)" for fs k by (cases k) simp_all
  then show ?thesis
    using assms unfolding ReadNext_sqlite_def
    by (subst read_loop.simps) (simp add: start_run_def Let_def batch_of_def)
qed

text \<open>A declared type the backend does not know makes every statement that selects such a column fail.\<close>

lemma unknown_declared_type: "GetArrowType (Some ''BIGINT'') = fail Invalid ''Invalid SQLite type: BIGINT''"
  by code_simp

section \<open>Samples\<close>

text \<open>A program is its list of rows; starting one counts in the database.\<close>

definition toy_sqlite :: "(sq_value list list, nat option, nat) sqlite_lib" where
  "toy_sqlite =
     \<lparr>sq_prepare = (\<lambda>db sql w. if sql = ''insert'' then Inr [] else Inr [[SqInt 1], [SqInt 2]]), sq_fresh = None,
      sq_step = (\<lambda>db p b c w. case c of
                   None \<Rightarrow> if p = [] then (SqDone, None, Suc w) else (SqRow, Some 0, Suc w)
                 | Some i \<Rightarrow> if Suc i < length p then (SqRow, Some (Suc i), w) else (SqDone, None, w)),
      sq_reset = (\<lambda>db p c w. (SqOk, None, w)), sq_row = (\<lambda>p c. case c of None \<Rightarrow> [] | Some i \<Rightarrow> p ! i),
      sq_columns = (\<lambda>p. if p = [] then [] else [(''n'', Some ''integer'', None)]), sq_parameters = (\<lambda>p. []),
      sq_bind_ok = (\<lambda>p i v. True), sq_changes = (\<lambda>db w. int w), sq_errmsg = (\<lambda>db w. ''''), sq_widen = (\<lambda>i. i),
      sq_narrow = (\<lambda>t i. i), sq_as_int = (\<lambda>v. case v of SqInt i \<Rightarrow> i | _ \<Rightarrow> 0), sq_as_real = (\<lambda>v. 0),
      sq_as_text = (\<lambda>v. None), sq_as_blob = (\<lambda>v. None), sq_type_name = (\<lambda>t. ''type'')\<rparr>"

definition toy_select :: "(sq_value list list, nat option) sqlite_statement" where
  "toy_select = \<lparr>ss_db = 0, ss_prog = [[SqInt 1], [SqInt 2]], ss_bindings = [], ss_cursor = None, ss_parameters = []\<rparr>"

definition toy_fields :: "sq_field list" where
  "toy_fields = [(''n'', INT64, GetColumnMetadata SQLITE_INTEGER None)]"

lemma toy_runs: "runs toy_sqlite toy_fields (positions (ss_parameters toy_select)) toy_select 0 [[VInt 1], [VInt 2]]"
proof -
  have "drains toy_sqlite toy_fields SqRow (toy_select\<lparr>ss_cursor := Some 0\<rparr>) 1 [[VInt 1], [VInt 2]]
      (toy_select\<lparr>ss_cursor := None\<rparr>) 1"
    by (rule drains.row [where ?s1.0 = "toy_select\<lparr>ss_cursor := Some 1\<rparr>" and ?w1.0 = 1 and rc = SqRow];
        (rule drains.row [where ?s1.0 = "toy_select\<lparr>ss_cursor := None\<rparr>" and ?w1.0 = 1 and rc = SqDone])?;
        (rule drains.finished)?)
      (simp_all add: toy_sqlite_def toy_select_def toy_fields_def read_row_def read_cell_def stmt_Step_def)
  then have "runs toy_sqlite toy_fields [None] toy_select 0 ([[VInt 1], [VInt 2]] @ [])"
    by (rule runs.run [where ?rc0.0 = SqOk and ?s1.0 = toy_select and ?w1.0 = 0 and ?s2.0 = toy_select, rotated 3])
      (auto simp: toy_sqlite_def toy_select_def stmt_Step_def stmt_Reset_def intro: runs.no_more)
  then show ?thesis by (simp add: positions_def toy_select_def)
qed

theorem reader_returns_every_row_witness:
  "\<exists>batches. reads toy_sqlite (new_reader toy_fields) toy_select 0 batches \<and> concat batches = [[VInt 1], [VInt 2]]"
proof -
  have "no_empty (ss_parameters toy_select)" by (simp add: no_empty_def toy_select_def)
  from reader_returns_every_row [OF this toy_runs] show ?thesis by blast
qed

end
