(* ===== verification/SqliteServer.thy ===== *)
theory SqliteServer
  imports Sqlite Metadata Interfaces
begin

text \<open>
  The Flight SQL server on SQLite (\<open>src/src/sqlite/sqlite_server.cc\<close>, with the reader of tables and their schemas of
  \<open>sqlite_tables_schema_batch_reader.cc\<close>): its connections, prepared statements and transactions, and the texts
  of its metadata queries. Statements are shared between the map of prepared statements and the readers of their
  rows, so they are kept in a store. A handler that can run for ever returns an option.
\<close>

section \<open>The server's state\<close>

text \<open>
  What the server uses besides statements: opening a database (the error text, none when there is no connection to
  ask), closing it, \<open>sqlite3_exec\<close>, the numbers the random engine draws, the schemas of Flight SQL and what
  Arrow makes of a schema and a status.
\<close>

record ('p, 'c, 'w) sqlite_server_lib =
  sl_sqlite :: "('p, 'c, 'w) sqlite_lib"
  sl_open :: "string \<Rightarrow> bool \<Rightarrow> 'w \<Rightarrow> (string option + nat) \<times> 'w"
  sl_close :: "nat \<Rightarrow> 'w \<Rightarrow> 'w"
  sl_exec :: "nat \<Rightarrow> string \<Rightarrow> 'w \<Rightarrow> string option \<times> 'w"
  sl_draw :: "nat \<Rightarrow> nat"
  sl_schema :: "string \<Rightarrow> sq_field list"
  sl_serialize :: "(string \<times> arrow_type \<times> bool \<times> column_metadata) list \<Rightarrow> string"
  sl_status :: "status \<Rightarrow> string"

record ('p, 'c) sqlite_impl =
  im_db :: nat
  im_db_uri :: string
  im_prepared :: "string \<Rightarrow> nat option"
  im_transactions :: "string \<Rightarrow> nat option"
  im_draws :: nat
  im_store :: "('p, 'c) sqlite_statement list"

text \<open>The constructor initialises the connection only: the URI stays empty.\<close>

definition new_impl :: "nat \<Rightarrow> ('p, 'c) sqlite_impl" where
  "new_impl db =
     \<lparr>im_db = db, im_db_uri = [], im_prepared = (\<lambda>h. None), im_transactions = (\<lambda>h. None), im_draws = 0, im_store = []\<rparr>"

definition SQLite_Create ::
    "('p, 'c, 'w) sqlite_server_lib \<Rightarrow> string \<Rightarrow> bool \<Rightarrow> 'w \<Rightarrow> ('p, 'c) sqlite_impl result \<times> 'w" where
  "SQLite_Create S path read_only w =
     (case sl_open S path read_only w of
        (Inl (Some e), w1) \<Rightarrow> (fail Invalid (''Can'' @ [squote] @ ''t open database: '' @ e), w1)
      | (Inl None, w1) \<Rightarrow>
          (fail Invalid (''Can'' @ [squote] @ ''t open database: '' @ ''Unable to start SQLite. Insufficient memory''), w1)
      | (Inr db, w1) \<Rightarrow> (ok (new_impl db), w1))"

definition GetStatementByHandle_sqlite :: "('p, 'c) sqlite_impl \<Rightarrow> string \<Rightarrow> nat result" where
  "GetStatementByHandle_sqlite im handle =
     (case im_prepared im handle of None \<Rightarrow> fail KeyError ''Prepared statement not found'' | Some a \<Rightarrow> ok a)"

definition GetConnection_sqlite :: "('p, 'c) sqlite_impl \<Rightarrow> string \<Rightarrow> nat result" where
  "GetConnection_sqlite im transaction_id =
     (if transaction_id = [] then ok (im_db im)
      else case im_transactions im transaction_id of
             None \<Rightarrow> fail KeyError (''Unknown transaction ID: '' @ transaction_id)
           | Some db \<Rightarrow> ok db)"

definition transaction_ticket :: "string \<Rightarrow> string \<Rightarrow> string" where
  "transaction_ticket query transaction_id = transaction_id @ '':'' @ query"

definition read_transaction_ticket :: "string \<Rightarrow> (string \<times> string) result" where
  "read_transaction_ticket ticket =
     (case find_char (CHR '':'') ticket of
        None \<Rightarrow> fail Invalid ''Malformed ticket''
      | Some divider \<Rightarrow> ok (drop (divider + 1) ticket, take divider ticket))"

text \<open>Characters are drawn between 0 and Z until one is a digit or a capital letter.\<close>

partial_function (option) get_random_char :: "(nat \<Rightarrow> nat) \<Rightarrow> nat \<Rightarrow> (char \<times> nat) option" where
  "get_random_char draw k =
     (if draw k \<le> 57 \<or> 65 \<le> draw k then Some (char_of (draw k), Suc k) else get_random_char draw (Suc k))"

fun random_chars :: "(nat \<Rightarrow> nat) \<Rightarrow> nat \<Rightarrow> nat \<Rightarrow> (string \<times> nat) option" where
  "random_chars draw 0 k = Some ([], k)"
| "random_chars draw (Suc n) k =
     (case get_random_char draw k of
        None \<Rightarrow> None
      | Some (c, k1) \<Rightarrow> map_option (\<lambda>(s, k2). (c # s, k2)) (random_chars draw n k1))"

definition GenerateRandomString ::
    "('p, 'c, 'w) sqlite_server_lib \<Rightarrow> ('p, 'c) sqlite_impl \<Rightarrow> (string \<times> ('p, 'c) sqlite_impl) option" where
  "GenerateRandomString S im =
     map_option (\<lambda>(s, k). (s, im\<lparr>im_draws := k\<rparr>)) (random_chars (sl_draw S) 16 (im_draws im))"

section \<open>Queries and updates\<close>

text \<open>The schema and the ticket of a query; the statement is prepared but not run.\<close>

definition GetFlightInfoStatement_sqlite ::
    "('p, 'c, 'w) sqlite_server_lib \<Rightarrow> ('p, 'c) sqlite_impl \<Rightarrow> string \<Rightarrow> string \<Rightarrow> 'w \<Rightarrow> (sq_field list \<times> string) result" where
  "GetFlightInfoStatement_sqlite S im query transaction_id w =
     rbind (GetConnection_sqlite im transaction_id) (\<lambda>db.
     rbind (stmt_Create (sl_sqlite S) db query w) (\<lambda>statement.
     rbind (stmt_GetSchema (sl_sqlite S) statement) (\<lambda>schema.
     ok (schema, transaction_ticket query transaction_id))))"

definition DoGetStatement_sqlite ::
    "('p, 'c, 'w) sqlite_server_lib \<Rightarrow> ('p, 'c) sqlite_impl \<Rightarrow> string \<Rightarrow> 'w
     \<Rightarrow> (statement_reader \<times> ('p, 'c) sqlite_statement) result \<times> 'w" where
  "DoGetStatement_sqlite S im ticket w =
     (case rbind (read_transaction_ticket ticket) (\<lambda>(sql, transaction_id).
           rbind (GetConnection_sqlite im transaction_id) (\<lambda>db. stmt_Create (sl_sqlite S) db sql w)) of
        Inl e \<Rightarrow> (Inl e, w)
      | Inr statement \<Rightarrow>
          (case reader_Create_sqlite (sl_sqlite S) statement w of
             (r, s1, w1) \<Rightarrow> (rbind r (\<lambda>rd. ok (rd, s1)), w1)))"

definition DoPutCommandStatementUpdate_sqlite ::
    "('p, 'c, 'w) sqlite_server_lib \<Rightarrow> ('p, 'c) sqlite_impl \<Rightarrow> string \<Rightarrow> string \<Rightarrow> 'w \<Rightarrow> (int result \<times> 'w) option" where
  "DoPutCommandStatementUpdate_sqlite S im sql transaction_id w =
     (case rbind (GetConnection_sqlite im transaction_id) (\<lambda>db. stmt_Create (sl_sqlite S) db sql w) of
        Inl e \<Rightarrow> Some (Inl e, w)
      | Inr statement \<Rightarrow>
          map_option (\<lambda>(r, s1, w1). (r, w1)) (stmt_ExecuteUpdate (sl_sqlite S) statement w))"

section \<open>Prepared statements\<close>

definition parameter_name :: "nat \<Rightarrow> string option \<Rightarrow> string" where
  "parameter_name i n = (case n of None \<Rightarrow> ''parameter_'' @ show_int (int (i + 1)) | Some s \<Rightarrow> s)"

text \<open>
  The schemas of the result and of the parameters and the handle. The statement is registered before its schema is
  known, and stays when that fails.
\<close>

definition CreatePreparedStatement_sqlite ::
    "('p, 'c, 'w) sqlite_server_lib \<Rightarrow> ('p, 'c) sqlite_impl \<Rightarrow> string \<Rightarrow> string \<Rightarrow> 'w
     \<Rightarrow> ((sq_field list \<times> (string \<times> arrow_type) list \<times> string) result \<times> ('p, 'c) sqlite_impl) option" where
  "CreatePreparedStatement_sqlite S im query transaction_id w =
     (case rbind (GetConnection_sqlite im transaction_id) (\<lambda>db. stmt_Create (sl_sqlite S) db query w) of
        Inl e \<Rightarrow> Some (Inl e, im)
      | Inr statement \<Rightarrow>
          (case GenerateRandomString S im of
             None \<Rightarrow> None
           | Some (handle, im1) \<Rightarrow>
               (let im2 = im1\<lparr>im_prepared := (im_prepared im1)(handle \<mapsto> length (im_store im1)),
                              im_store := im_store im1 @ [statement]\<rparr>;
                    names = sq_parameters (sl_sqlite S) (ss_prog statement);
                    params = map (\<lambda>(i, n). (parameter_name i n, GetUnknownColumnDataType)) (enumerate 0 names)
                in Some (rbind (stmt_GetSchema (sl_sqlite S) statement) (\<lambda>schema. ok (schema, params, handle)), im2))))"

definition ClosePreparedStatement_sqlite :: "('p, 'c) sqlite_impl \<Rightarrow> string \<Rightarrow> unit result \<times> ('p, 'c) sqlite_impl" where
  "ClosePreparedStatement_sqlite im handle =
     (case im_prepared im handle of
        None \<Rightarrow> (fail Invalid ''Prepared statement not found'', im)
      | Some a \<Rightarrow> (ok (), im\<lparr>im_prepared := (im_prepared im)(handle := None)\<rparr>))"

definition prepared_address :: "('p, 'c) sqlite_impl \<Rightarrow> string \<Rightarrow> nat result" where
  "prepared_address im handle =
     (case im_prepared im handle of None \<Rightarrow> fail Invalid ''Prepared statement not found'' | Some a \<Rightarrow> ok a)"

definition GetFlightInfoPreparedStatement_sqlite ::
    "('p, 'c, 'w) sqlite_server_lib \<Rightarrow> ('p, 'c) sqlite_impl \<Rightarrow> string \<Rightarrow> sq_field list result" where
  "GetFlightInfoPreparedStatement_sqlite S im handle =
     rbind (prepared_address im handle) (\<lambda>a. stmt_GetSchema (sl_sqlite S) (im_store im ! a))"

definition store_statement :: "nat \<Rightarrow> ('p, 'c) sqlite_statement \<Rightarrow> ('p, 'c) sqlite_impl \<Rightarrow> ('p, 'c) sqlite_impl" where
  "store_statement a s im = im\<lparr>im_store := (im_store im)[a := s]\<rparr>"

text \<open>The reader and the statement it shares with the handle.\<close>

definition DoGetPreparedStatement_sqlite ::
    "('p, 'c, 'w) sqlite_server_lib \<Rightarrow> ('p, 'c) sqlite_impl \<Rightarrow> string \<Rightarrow> 'w
     \<Rightarrow> (statement_reader \<times> nat) result \<times> ('p, 'c) sqlite_impl \<times> 'w" where
  "DoGetPreparedStatement_sqlite S im handle w =
     (case prepared_address im handle of
        Inl e \<Rightarrow> (Inl e, im, w)
      | Inr a \<Rightarrow>
          (case reader_Create_sqlite (sl_sqlite S) (im_store im ! a) w of
             (r, s1, w1) \<Rightarrow> (rbind r (\<lambda>rd. ok (rd, a)), store_statement a s1 im, w1)))"

definition DoPutPreparedStatementQuery_sqlite ::
    "('p, 'c, 'w) sqlite_server_lib \<Rightarrow> ('p, 'c) sqlite_impl \<Rightarrow> string \<Rightarrow> parameter_batch list result
     \<Rightarrow> unit result \<times> ('p, 'c) sqlite_impl" where
  "DoPutPreparedStatementQuery_sqlite S im handle batches =
     (case GetStatementByHandle_sqlite im handle of
        Inl e \<Rightarrow> (Inl e, im)
      | Inr a \<Rightarrow>
          (case batches of
             Inl e \<Rightarrow> (Inl e, im)
           | Inr bs \<Rightarrow>
               (case stmt_SetParameters (sl_sqlite S) bs (im_store im ! a) of
                  (r, s1) \<Rightarrow> (r, store_statement a s1 im))))"

text \<open>The rows of the batch just set, from row \<open>i\<close>: bind, update, reset.\<close>

fun update_rows ::
    "('p, 'c, 'w) sqlite_lib \<Rightarrow> nat \<Rightarrow> nat \<Rightarrow> int \<Rightarrow> ('p, 'c) sqlite_statement \<Rightarrow> 'w
     \<Rightarrow> (int result \<times> ('p, 'c) sqlite_statement \<times> 'w) option" where
  "update_rows L 0 i affected s w = Some (ok affected, s, w)"
| "update_rows L (Suc n) i affected s w =
     (case stmt_Bind L 0 i (s\<lparr>ss_bindings := no_bindings L (ss_prog s)\<rparr>) w of
        (Inl e, s1) \<Rightarrow> Some (Inl e, s1, w)
      | (Inr u, s1) \<Rightarrow>
          (case stmt_ExecuteUpdate L s1 w of
             None \<Rightarrow> None
           | Some (Inl e, s2, w1) \<Rightarrow> Some (Inl e, s2, w1)
           | Some (Inr rows, s2, w1) \<Rightarrow>
               (case stmt_Reset L s2 w1 of
                  (Inl e, s3, w2) \<Rightarrow> Some (Inl e, s3, w2)
                | (Inr rc, s3, w2) \<Rightarrow> update_rows L n (Suc i) (affected + rows) s3 w2)))"

fun SetParametersOnSQLiteStatement ::
    "('p, 'c, 'w) sqlite_lib \<Rightarrow> parameter_batch result list \<Rightarrow> int \<Rightarrow> ('p, 'c) sqlite_statement \<Rightarrow> 'w
     \<Rightarrow> (int result \<times> ('p, 'c) sqlite_statement \<times> 'w) option" where
  "SetParametersOnSQLiteStatement L [] affected s w = Some (ok affected, s, w)"
| "SetParametersOnSQLiteStatement L (chunk # chunks) affected s w =
     (case chunk of
        Inl e \<Rightarrow> Some (Inl e, s, w)
      | Inr batch \<Rightarrow>
          if pb_rows batch = [] then SetParametersOnSQLiteStatement L chunks affected s w
          else (case stmt_SetParameters L [batch] s of
                  (Inl e, s1) \<Rightarrow> Some (Inl e, s1, w)
                | (Inr u, s1) \<Rightarrow>
                    (case update_rows L (length (pb_rows batch)) 0 affected s1 w of
                       None \<Rightarrow> None
                     | Some (Inl e, s2, w1) \<Rightarrow> Some (Inl e, s2, w1)
                     | Some (Inr n, s2, w1) \<Rightarrow> SetParametersOnSQLiteStatement L chunks n s2 w1)))"

definition DoPutPreparedStatementUpdate_sqlite ::
    "('p, 'c, 'w) sqlite_server_lib \<Rightarrow> ('p, 'c) sqlite_impl \<Rightarrow> string \<Rightarrow> parameter_batch result list \<Rightarrow> 'w
     \<Rightarrow> (int result \<times> ('p, 'c) sqlite_impl \<times> 'w) option" where
  "DoPutPreparedStatementUpdate_sqlite S im handle chunks w =
     (case GetStatementByHandle_sqlite im handle of
        Inl e \<Rightarrow> Some (Inl e, im, w)
      | Inr a \<Rightarrow>
          (let L = sl_sqlite S; s = im_store im ! a in
           map_option (\<lambda>(r, s1, w1). (r, store_statement a s1 im, w1))
             (if sq_parameters L (ss_prog s) = [] then stmt_ExecuteUpdate L s w
              else SetParametersOnSQLiteStatement L chunks 0 s w)))"

section \<open>Transactions\<close>

definition ExecuteSql_sqlite :: "('p, 'c, 'w) sqlite_server_lib \<Rightarrow> nat \<Rightarrow> string \<Rightarrow> 'w \<Rightarrow> unit result \<times> 'w" where
  "ExecuteSql_sqlite S db sql w =
     (case sl_exec S db sql w of (None, w1) \<Rightarrow> (ok (), w1) | (Some e, w1) \<Rightarrow> (fail IOError e, w1))"

text \<open>A transaction has a connection of its own, opened on the URI of the server.\<close>

definition BeginTransaction_sqlite ::
    "('p, 'c, 'w) sqlite_server_lib \<Rightarrow> ('p, 'c) sqlite_impl \<Rightarrow> 'w \<Rightarrow> (string result \<times> ('p, 'c) sqlite_impl \<times> 'w) option" where
  "BeginTransaction_sqlite S im w =
     (case GenerateRandomString S im of
        None \<Rightarrow> None
      | Some (handle, im1) \<Rightarrow>
          (case sl_open S (im_db_uri im1) False w of
             (Inl e, w1) \<Rightarrow>
               Some (fail Invalid (''Can'' @ [squote] @ ''t open new connection: '' @ (case e of None \<Rightarrow> [] | Some m \<Rightarrow> m)),
                     im1, w1)
           | (Inr new_db, w1) \<Rightarrow>
               (case ExecuteSql_sqlite S new_db ''BEGIN TRANSACTION'' w1 of
                  (Inl e, w2) \<Rightarrow> Some (Inl e, im1, w2)
                | (Inr u, w2) \<Rightarrow>
                    Some (ok handle, im1\<lparr>im_transactions := (im_transactions im1)(handle \<mapsto> new_db)\<rparr>, w2))))"

definition EndTransaction_sqlite ::
    "('p, 'c, 'w) sqlite_server_lib \<Rightarrow> ('p, 'c) sqlite_impl \<Rightarrow> string \<Rightarrow> bool \<Rightarrow> 'w
     \<Rightarrow> unit result \<times> ('p, 'c) sqlite_impl \<times> 'w" where
  "EndTransaction_sqlite S im transaction_id commit w =
     (case im_transactions im transaction_id of
        None \<Rightarrow> (fail KeyError (''Unknown transaction ID: '' @ transaction_id), im, w)
      | Some db \<Rightarrow>
          (case ExecuteSql_sqlite S db (if commit then ''COMMIT'' else ''ROLLBACK'') w of
             (r, w1) \<Rightarrow>
               (r, im\<lparr>im_transactions := (im_transactions im)(transaction_id := None)\<rparr>, sl_close S db w1)))"

section \<open>Metadata\<close>

text \<open>The texts of the fields are pasted between single quotes as they are.\<close>

definition pasted :: "string \<Rightarrow> string" where
  "pasted s = [squote] @ s @ [squote]"

definition double_quoted :: "string \<Rightarrow> string" where
  "double_quoted s = [dquote] @ s @ [dquote]"

definition if_value :: "string option \<Rightarrow> (string \<Rightarrow> string) \<Rightarrow> string" where
  "if_value v f = (case v of None \<Rightarrow> [] | Some s \<Rightarrow> f s)"

definition sqlite_types_filter :: "string list \<Rightarrow> string" where
  "sqlite_types_filter types =
     (if types = [] then [] else '' and table_type IN ('' @ comma_list (map pasted types) @ '')'')"

definition PrepareQueryForGetTables_sqlite :: "get_tables \<Rightarrow> string" where
  "PrepareQueryForGetTables_sqlite command =
     ''SELECT '' @ pasted ''main'' @ '' as catalog_name, null as schema_name, name as '' @
     ''table_name, type as table_type FROM sqlite_master where 1=1''
     @ if_value (gt_catalog command) (\<lambda>c. '' and catalog_name='' @ pasted c)
     @ if_value (gt_schema_pattern command) (\<lambda>p. '' and schema_name LIKE '' @ pasted p)
     @ if_value (gt_table_pattern command) (\<lambda>p. '' and table_name LIKE '' @ pasted p)
     @ sqlite_types_filter (gt_types command)
     @ '' order by table_name''"

definition sqlite_keys_select :: string where
  "sqlite_keys_select =
     ''SELECT * FROM (SELECT NULL AS pk_catalog_name,'' @ [newline] @
     ''    NULL AS pk_schema_name,'' @ [newline] @
     ''    p.'' @ double_quoted ''table'' @ '' AS pk_table_name,'' @ [newline] @
     ''    p.'' @ double_quoted ''to'' @ '' AS pk_column_name,'' @ [newline] @
     ''    NULL AS fk_catalog_name,'' @ [newline] @
     ''    NULL AS fk_schema_name,'' @ [newline] @
     ''    m.name AS fk_table_name,'' @ [newline] @
     ''    p.'' @ double_quoted ''from'' @ '' AS fk_column_name,'' @ [newline] @
     ''    p.seq AS key_sequence,'' @ [newline] @
     ''    NULL AS pk_key_name,'' @ [newline] @
     ''    NULL AS fk_key_name,'' @ [newline] @
     ''    CASE'' @ [newline] @
     ''        WHEN p.on_update = '' @ pasted ''CASCADE'' @ '' THEN 0'' @ [newline] @
     ''        WHEN p.on_update = '' @ pasted ''RESTRICT'' @ '' THEN 1'' @ [newline] @
     ''        WHEN p.on_update = '' @ pasted ''SET NULL'' @ '' THEN 2'' @ [newline] @
     ''        WHEN p.on_update = '' @ pasted ''NO ACTION'' @ '' THEN 3'' @ [newline] @
     ''        WHEN p.on_update = '' @ pasted ''SET DEFAULT'' @ '' THEN 4'' @ [newline] @
     ''    END AS update_rule,'' @ [newline] @
     ''    CASE'' @ [newline] @
     ''        WHEN p.on_delete = '' @ pasted ''CASCADE'' @ '' THEN 0'' @ [newline] @
     ''        WHEN p.on_delete = '' @ pasted ''RESTRICT'' @ '' THEN 1'' @ [newline] @
     ''        WHEN p.on_delete = '' @ pasted ''SET NULL'' @ '' THEN 2'' @ [newline] @
     ''        WHEN p.on_delete = '' @ pasted ''NO ACTION'' @ '' THEN 3'' @ [newline] @
     ''        WHEN p.on_delete = '' @ pasted ''SET DEFAULT'' @ '' THEN 4'' @ [newline] @
     ''    END AS delete_rule'' @ [newline] @
     ''  FROM sqlite_master m'' @ [newline] @
     ''  JOIN pragma_foreign_key_list(m.name) p ON m.name != p.'' @ double_quoted ''table'' @ [newline] @
     ''  WHERE m.type = '' @ pasted ''table'' @ '') WHERE ''"

definition PrepareQueryForGetImportedOrExportedKeys_sqlite :: "string \<Rightarrow> string" where
  "PrepareQueryForGetImportedOrExportedKeys_sqlite filter_text =
     sqlite_keys_select @ filter_text @ '' ORDER BY'' @ [newline] @
     ''  pk_catalog_name, pk_schema_name, pk_table_name, pk_key_name, key_sequence''"

definition sqlite_key_filter :: "string \<Rightarrow> table_ref \<Rightarrow> string" where
  "sqlite_key_filter side t =
     side @ ''_table_name = '' @ pasted (tr_table t)
     @ if_value (tr_catalog t) (\<lambda>c. '' AND '' @ side @ ''_catalog_name = '' @ pasted c)
     @ if_value (tr_schema t) (\<lambda>c. '' AND '' @ side @ ''_schema_name = '' @ pasted c)"

definition sqlite_imported_keys_query :: "table_ref \<Rightarrow> string" where
  "sqlite_imported_keys_query t = PrepareQueryForGetImportedOrExportedKeys_sqlite (sqlite_key_filter ''fk'' t)"

definition sqlite_exported_keys_query :: "table_ref \<Rightarrow> string" where
  "sqlite_exported_keys_query t = PrepareQueryForGetImportedOrExportedKeys_sqlite (sqlite_key_filter ''pk'' t)"

definition sqlite_cross_reference_query :: "table_ref \<Rightarrow> table_ref \<Rightarrow> string" where
  "sqlite_cross_reference_query pk fk =
     PrepareQueryForGetImportedOrExportedKeys_sqlite (sqlite_key_filter ''pk'' pk @ '' AND '' @ sqlite_key_filter ''fk'' fk)"

definition sqlite_primary_keys_query :: "table_ref \<Rightarrow> string" where
  "sqlite_primary_keys_query t =
     ''SELECT null as catalog_name, null as schema_name, table_name, '' @
     ''name as column_name,  pk as key_sequence, null as key_name'' @ [newline] @
     ''FROM pragma_table_info(table_name)'' @ [newline] @
     ''    JOIN (SELECT null as catalog_name, null as schema_name, name as '' @
     ''table_name, type as table_type'' @ [newline] @
     ''FROM sqlite_master) where 1=1 and pk != 0''
     @ if_value (tr_catalog t) (\<lambda>c. '' and catalog_name LIKE '' @ pasted c)
     @ if_value (tr_schema t) (\<lambda>c. '' and schema_name LIKE '' @ pasted c)
     @ '' and table_name LIKE '' @ pasted (tr_table t)"

definition sqlite_table_types_query :: string where
  "sqlite_table_types_query = ''SELECT DISTINCT type as table_type FROM sqlite_master''"

text \<open>A metadata query: its statement, and a reader with the schema Flight SQL prescribes.\<close>

definition DoGetSQLiteQuery ::
    "('p, 'c, 'w) sqlite_server_lib \<Rightarrow> nat \<Rightarrow> string \<Rightarrow> sq_field list \<Rightarrow> 'w
     \<Rightarrow> (statement_reader \<times> ('p, 'c) sqlite_statement) result" where
  "DoGetSQLiteQuery S db query schema w =
     rbind (stmt_Create (sl_sqlite S) db query w) (\<lambda>statement. ok (new_reader schema, statement))"

definition DoGetPrimaryKeys_sqlite ::
    "('p, 'c, 'w) sqlite_server_lib \<Rightarrow> ('p, 'c) sqlite_impl \<Rightarrow> table_ref \<Rightarrow> 'w
     \<Rightarrow> (statement_reader \<times> ('p, 'c) sqlite_statement) result" where
  "DoGetPrimaryKeys_sqlite S im t w =
     DoGetSQLiteQuery S (im_db im) (sqlite_primary_keys_query t) (sl_schema S ''primary_keys'') w"

definition DoGetImportedKeys_sqlite ::
    "('p, 'c, 'w) sqlite_server_lib \<Rightarrow> ('p, 'c) sqlite_impl \<Rightarrow> table_ref \<Rightarrow> 'w
     \<Rightarrow> (statement_reader \<times> ('p, 'c) sqlite_statement) result" where
  "DoGetImportedKeys_sqlite S im t w =
     DoGetSQLiteQuery S (im_db im) (sqlite_imported_keys_query t) (sl_schema S ''imported_keys'') w"

definition DoGetExportedKeys_sqlite ::
    "('p, 'c, 'w) sqlite_server_lib \<Rightarrow> ('p, 'c) sqlite_impl \<Rightarrow> table_ref \<Rightarrow> 'w
     \<Rightarrow> (statement_reader \<times> ('p, 'c) sqlite_statement) result" where
  "DoGetExportedKeys_sqlite S im t w =
     DoGetSQLiteQuery S (im_db im) (sqlite_exported_keys_query t) (sl_schema S ''exported_keys'') w"

definition DoGetCrossReference_sqlite ::
    "('p, 'c, 'w) sqlite_server_lib \<Rightarrow> ('p, 'c) sqlite_impl \<Rightarrow> table_ref \<Rightarrow> table_ref \<Rightarrow> 'w
     \<Rightarrow> (statement_reader \<times> ('p, 'c) sqlite_statement) result" where
  "DoGetCrossReference_sqlite S im pk fk w =
     DoGetSQLiteQuery S (im_db im) (sqlite_cross_reference_query pk fk) (sl_schema S ''cross_reference'') w"

definition DoGetTableTypes_sqlite ::
    "('p, 'c, 'w) sqlite_server_lib \<Rightarrow> ('p, 'c) sqlite_impl \<Rightarrow> 'w
     \<Rightarrow> (statement_reader \<times> ('p, 'c) sqlite_statement) result" where
  "DoGetTableTypes_sqlite S im w =
     DoGetSQLiteQuery S (im_db im) sqlite_table_types_query (sl_schema S ''table_types'') w"

text \<open>The only catalog is main, and it has one schema without a name.\<close>

definition DoGetCatalogs_sqlite :: "arrow_value list list" where
  "DoGetCatalogs_sqlite = [[VString ''main'']]"

definition DoGetDbSchemas_sqlite :: "string option \<Rightarrow> string option \<Rightarrow> arrow_value list list" where
  "DoGetDbSchemas_sqlite catalog schema_pattern =
     (if (catalog = None \<or> catalog = Some ''main'') \<and> (schema_pattern = None \<or> schema_pattern = Some ''%'')
      then [[VString ''main'', VNull]] else [])"

section \<open>Tables with their schemas\<close>

definition tables_schema_query :: "string \<Rightarrow> string" where
  "tables_schema_query main_query =
     ''SELECT table_name, name, type, [notnull] FROM pragma_table_info(table_name)'' @
     ''JOIN('' @ main_query @ '') order by table_name''"

definition text_at :: "('p, 'c, 'w) sqlite_lib \<Rightarrow> sq_value list \<Rightarrow> nat \<Rightarrow> string option" where
  "text_at L row i = (if i < length row then sq_as_text L (row ! i) else None)"

definition unknown_type_error ::
    "('p, 'c, 'w) sqlite_server_lib \<Rightarrow> string \<Rightarrow> string \<Rightarrow> string \<Rightarrow> status \<Rightarrow> 'a result" where
  "unknown_type_error S column_type column_name table_name st =
     fail NotImplemented (''Unknown SQLite type '' @ pasted column_type @ '' for column '' @ pasted column_name
                          @ '' in table '' @ pasted table_name @ '': '' @ sl_status S st)"

text \<open>
  The columns of one table: the statement over all tables is stepped from where it is until it gives no row, and
  the columns of the table are kept. Names and types are texts.
\<close>

type_synonym table_column = "string \<times> arrow_type \<times> bool \<times> column_metadata"

partial_function (option) table_columns ::
    "('p, 'c, 'w) sqlite_server_lib \<Rightarrow> string \<Rightarrow> table_column list \<Rightarrow> ('p, 'c) sqlite_statement \<Rightarrow> 'w
     \<Rightarrow> (table_column list result \<times> ('p, 'c) sqlite_statement \<times> 'w) option" where
  "table_columns S table_name acc s w =
     (case sq_step (sl_sqlite S) (ss_db s) (ss_prog s) (ss_bindings s) (ss_cursor s) w of (rc, c, w1) \<Rightarrow>
        let s1 = s\<lparr>ss_cursor := c\<rparr>; L = sl_sqlite S; row = sq_row L (ss_prog s) c in
        if rc \<noteq> SqRow then Some (ok acc, s1, w1)
        else if text_at L row 0 = Some table_name
        then (let column_name = (case text_at L row 1 of None \<Rightarrow> [] | Some n \<Rightarrow> n); column_type = text_at L row 2;
                  notnull = sq_as_int L (if 3 < length row then row ! 3 else SqNull)
              in case GetArrowType column_type of
                   Inl e \<Rightarrow>
                     Some (unknown_type_error S (case column_type of None \<Rightarrow> [] | Some t \<Rightarrow> t) column_name table_name e, s1, w1)
                 | Inr ty \<Rightarrow>
                     table_columns S table_name
                       (acc @ [(column_name, ty, notnull = 0, GetColumnMetadata (GetSqlTypeFromTypeName column_type) (Some table_name))])
                       s1 w1)
        else table_columns S table_name acc s1 w1)"

fun tables_columns ::
    "('p, 'c, 'w) sqlite_server_lib \<Rightarrow> string list \<Rightarrow> ('p, 'c) sqlite_statement \<Rightarrow> 'w
     \<Rightarrow> (string list result \<times> 'w) option" where
  "tables_columns S [] s w = Some (ok [], w)"
| "tables_columns S (t # ts) s w =
     (case table_columns S t [] s w of
        None \<Rightarrow> None
      | Some (Inl e, s1, w1) \<Rightarrow> Some (Inl e, w1)
      | Some (Inr cols, s1, w1) \<Rightarrow>
          map_option (\<lambda>(r, w2). (rbind r (\<lambda>rest. ok (sl_serialize S cols # rest)), w2)) (tables_columns S ts s1 w1))"

definition name_cell :: "arrow_value \<Rightarrow> string" where
  "name_cell v = (case v of VString s \<Rightarrow> s | _ \<Rightarrow> [])"

text \<open>\<open>ReadNext\<close>: the tables of the inner reader's next batch with one more cell, their serialised schema.\<close>

definition ReadNext_tables_with_schema ::
    "('p, 'c, 'w) sqlite_server_lib \<Rightarrow> nat \<Rightarrow> string \<Rightarrow> statement_reader \<Rightarrow> ('p, 'c) sqlite_statement \<Rightarrow> 'w
     \<Rightarrow> (arrow_value list list option result \<times> statement_reader \<times> ('p, 'c) sqlite_statement \<times> 'w) option" where
  "ReadNext_tables_with_schema S db main_query rd s w =
     (case stmt_Create (sl_sqlite S) db (tables_schema_query main_query) w of
        Inl e \<Rightarrow> Some (Inl e, rd, s, w)
      | Inr schema_statement \<Rightarrow>
          (case ReadNext_sqlite (sl_sqlite S) rd s w of
             (Inl e, rd1, s1, w1) \<Rightarrow> Some (Inl e, rd1, s1, w1)
           | (Inr None, rd1, s1, w1) \<Rightarrow> Some (ok None, rd1, s1, w1)
           | (Inr (Some first_batch), rd1, s1, w1) \<Rightarrow>
               (case tables_columns S (map (\<lambda>row. name_cell (row ! 2)) first_batch) schema_statement w1 of
                  None \<Rightarrow> None
                | Some (Inl e, w2) \<Rightarrow> Some (Inl e, rd1, s1, w2)
                | Some (Inr schemas, w2) \<Rightarrow>
                    Some (ok (Some (map2 (\<lambda>row sc. row @ [VString sc]) first_batch schemas)), rd1, s1, w2))))"

definition DoGetTables_sqlite ::
    "('p, 'c, 'w) sqlite_server_lib \<Rightarrow> ('p, 'c) sqlite_impl \<Rightarrow> get_tables \<Rightarrow> 'w
     \<Rightarrow> (statement_reader \<times> ('p, 'c) sqlite_statement \<times> string option) result" where
  "DoGetTables_sqlite S im command w =
     (let query = PrepareQueryForGetTables_sqlite command in
      rbind (DoGetSQLiteQuery S (im_db im) query (sl_schema S ''tables'') w) (\<lambda>(rd, s).
      ok (rd, s, if gt_include_schema command then Some query else None)))"

section \<open>What the handles are good for\<close>

text \<open>The distribution draws characters between 0 and Z.\<close>

definition letters_drawn :: "('p, 'c, 'w) sqlite_server_lib \<Rightarrow> bool" where
  "letters_drawn S \<longleftrightarrow> (\<forall>k. 48 \<le> sl_draw S k \<and> sl_draw S k \<le> 90)"

definition handle_char :: "char \<Rightarrow> bool" where
  "handle_char c \<longleftrightarrow> (let n = of_char c :: nat in 48 \<le> n \<and> n \<le> 57 \<or> 65 \<le> n \<and> n \<le> 90)"

definition is_handle :: "string \<Rightarrow> bool" where
  "is_handle s \<longleftrightarrow> length s = 16 \<and> list_all handle_char s"

definition drawn_char :: "(nat \<Rightarrow> nat) \<Rightarrow> nat \<Rightarrow> char \<Rightarrow> bool" where
  "drawn_char draw k c \<longleftrightarrow> (\<exists>j \<ge> k. c = char_of (draw j) \<and> (draw j \<le> 57 \<or> 65 \<le> draw j))"

lemma get_random_char_drawn:
  assumes "get_random_char draw k = Some r"
  shows "drawn_char draw k (fst r)"
proof (rule get_random_char.raw_induct [where P = "\<lambda>draw k r. drawn_char draw k (fst r)", OF _ assms])
  fix f and draw :: "nat \<Rightarrow> nat" and k and r :: "char \<times> nat"
  assume IH: "\<And>draw k r. f draw k = Some r \<Longrightarrow> drawn_char draw k (fst r)"
    and body: "(if draw k \<le> 57 \<or> 65 \<le> draw k then Some (char_of (draw k), Suc k) else f draw (Suc k)) = Some r"
  show "drawn_char draw k (fst r)"
  proof (cases "draw k \<le> 57 \<or> 65 \<le> draw k")
    case True
    then show ?thesis using body by (auto simp: drawn_char_def)
  next
    case False
    then have "drawn_char draw (Suc k) (fst r)" using body IH by simp
    then show ?thesis unfolding drawn_char_def using Suc_leD by blast
  qed
qed

text \<open>A character is found as soon as the engine draws a digit or a letter.\<close>

lemma get_random_char_returns:
  "draw (k + d) \<le> 57 \<or> 65 \<le> draw (k + d) \<Longrightarrow> \<exists>r. get_random_char draw k = Some r"
proof (induction d arbitrary: k)
  case 0
  then show ?case by (subst get_random_char.simps) simp
next
  case (Suc d)
  then have "\<exists>r. get_random_char draw (Suc k) = Some r" by simp
  then show ?case by (subst get_random_char.simps) auto
qed

lemma random_chars_returns:
  assumes "\<And>k. \<exists>d. draw (k + d) \<le> 57 \<or> 65 \<le> draw (k + d)"
  shows "\<exists>r. random_chars draw n k = Some r"
proof (induction n arbitrary: k)
  case (Suc n)
  from assms [of k] obtain c k1 where "get_random_char draw k = Some (c, k1)"
    using get_random_char_returns by (metis surj_pair)
  then show ?case using Suc [of k1] by auto
qed simp

lemma random_chars_handle:
  "random_chars (sl_draw S) n k = Some (s, k') \<Longrightarrow> letters_drawn S \<Longrightarrow> length s = n \<and> list_all handle_char s"
proof (induction n arbitrary: k s)
  case (Suc n)
  obtain c k1 s1 where parts: "get_random_char (sl_draw S) k = Some (c, k1)" "random_chars (sl_draw S) n k1 = Some (s1, k')"
      "s = c # s1"
    using Suc.prems(1) by (auto split: option.splits)
  obtain j where j: "c = char_of (sl_draw S j)" "sl_draw S j \<le> 57 \<or> 65 \<le> sl_draw S j"
    using get_random_char_drawn [OF parts(1)] by (auto simp: drawn_char_def)
  have bounds: "48 \<le> sl_draw S j" "sl_draw S j \<le> 90" using Suc.prems(2) by (auto simp: letters_drawn_def)
  then have "(of_char c :: nat) = sl_draw S j" using j(1) by (simp add: of_char_of)
  then have "handle_char c" using j(2) bounds by (auto simp: handle_char_def Let_def)
  then show ?case using Suc.IH [OF parts(2) Suc.prems(2)] parts(3) by simp
qed simp

lemma GenerateRandomString_handle:
  "GenerateRandomString S im = Some (h, im1) \<Longrightarrow> letters_drawn S \<Longrightarrow> is_handle h \<and> im1 = im\<lparr>im_draws := im_draws im1\<rparr>"
  using random_chars_handle [of S 16] by (auto simp: GenerateRandomString_def is_handle_def)

lemma handle_without_colon: "list_all handle_char s \<Longrightarrow> CHR '':'' \<notin> set s"
  by (induction s) (auto simp: handle_char_def)

section \<open>The states of a server\<close>

text \<open>
  The states that the requests lead to. Each request finds the databases as others left them, so their state is a new
  one each time.
\<close>

inductive sqlite_reachable :: "('p, 'c, 'w) sqlite_server_lib \<Rightarrow> ('p, 'c) sqlite_impl \<Rightarrow> bool"
  for S :: "('p, 'c, 'w) sqlite_server_lib" where
  created: "SQLite_Create S path read_only w = (ok im, w') \<Longrightarrow> sqlite_reachable S im"
| prepared: "sqlite_reachable S im \<Longrightarrow> CreatePreparedStatement_sqlite S im query t w = Some (r, im')
    \<Longrightarrow> sqlite_reachable S im'"
| closed: "sqlite_reachable S im \<Longrightarrow> ClosePreparedStatement_sqlite im h = (r, im') \<Longrightarrow> sqlite_reachable S im'"
| executed: "sqlite_reachable S im \<Longrightarrow> DoGetPreparedStatement_sqlite S im h w = (r, im', w') \<Longrightarrow> sqlite_reachable S im'"
| parameters_put: "sqlite_reachable S im \<Longrightarrow> DoPutPreparedStatementQuery_sqlite S im h batches = (r, im')
    \<Longrightarrow> sqlite_reachable S im'"
| updated: "sqlite_reachable S im \<Longrightarrow> DoPutPreparedStatementUpdate_sqlite S im h chunks w = Some (r, im', w')
    \<Longrightarrow> sqlite_reachable S im'"
| begun: "sqlite_reachable S im \<Longrightarrow> BeginTransaction_sqlite S im w = Some (r, im', w') \<Longrightarrow> sqlite_reachable S im'"
| ended: "sqlite_reachable S im \<Longrightarrow> EndTransaction_sqlite S im t commit w = (r, im', w') \<Longrightarrow> sqlite_reachable S im'"

text \<open>
  The invariant: handles are texts of sixteen digits and capitals, every registered statement exists, and the
  connection of a transaction comes from opening the server's URI, which is empty.
\<close>

definition opened_unnamed :: "('p, 'c, 'w) sqlite_server_lib \<Rightarrow> nat \<Rightarrow> bool" where
  "opened_unnamed S db \<longleftrightarrow> (\<exists>w w'. sl_open S [] False w = (Inr db, w'))"

definition impl_ok :: "('p, 'c, 'w) sqlite_server_lib \<Rightarrow> ('p, 'c) sqlite_impl \<Rightarrow> bool" where
  "impl_ok S im \<longleftrightarrow> im_db_uri im = []
     \<and> (\<forall>h a. im_prepared im h = Some a \<longrightarrow> is_handle h \<and> a < length (im_store im))
     \<and> (\<forall>h db. im_transactions im h = Some db \<longrightarrow> is_handle h \<and> opened_unnamed S db)"

lemma impl_okI:
  assumes "im_db_uri im = []" and "\<And>h a. im_prepared im h = Some a \<Longrightarrow> is_handle h \<and> a < length (im_store im)"
    and "\<And>h db. im_transactions im h = Some db \<Longrightarrow> is_handle h \<and> opened_unnamed S db"
  shows "impl_ok S im"
  using assms by (auto simp: impl_ok_def)

lemma store_statement_ok: "impl_ok S im \<Longrightarrow> impl_ok S (store_statement a s im)"
  by (auto simp: impl_ok_def store_statement_def)

lemma draws_ok: "impl_ok S im \<Longrightarrow> impl_ok S (im\<lparr>im_draws := k\<rparr>)"
  by (auto simp: impl_ok_def)

lemma generated_ok:
  "GenerateRandomString S im = Some (h, im1) \<Longrightarrow> letters_drawn S \<Longrightarrow> impl_ok S im \<Longrightarrow> is_handle h \<and> impl_ok S im1"
  by (metis GenerateRandomString_handle draws_ok)

lemma new_impl_ok: "impl_ok S (new_impl db)"
  by (simp add: impl_ok_def new_impl_def)

lemma CreatePreparedStatement_ok:
  assumes "impl_ok S im" and "letters_drawn S" and "CreatePreparedStatement_sqlite S im query t w = Some (r, im')"
  shows "impl_ok S im'"
proof -
  have "impl_ok S (im1\<lparr>im_prepared := (im_prepared im1)(h \<mapsto> length (im_store im1)), im_store := im_store im1 @ [st]\<rparr>)"
    if "GenerateRandomString S im = Some (h, im1)" for h im1 st
  proof -
    from generated_ok [OF that assms(2,1)] show ?thesis by (auto simp: impl_ok_def less_Suc_eq)
  qed
  then show ?thesis
    using assms(1,3) by (auto simp: CreatePreparedStatement_sqlite_def Let_def split: sum.splits option.splits)
qed

lemma BeginTransaction_ok:
  assumes "impl_ok S im" and "letters_drawn S" and "BeginTransaction_sqlite S im w = Some (r, im', w')"
  shows "impl_ok S im'"
proof -
  obtain h im1 where gen: "GenerateRandomString S im = Some (h, im1)"
    using assms(3) by (auto simp: BeginTransaction_sqlite_def split: option.splits)
  note h = generated_ok [OF gen assms(2,1)]
  have "impl_ok S (im1\<lparr>im_transactions := (im_transactions im1)(h \<mapsto> db)\<rparr>)"
    if "sl_open S (im_db_uri im1) False w = (Inr db, w1)" for db w1
    using h that by (auto simp: impl_ok_def opened_unnamed_def)
  then show ?thesis
    using h assms(3) gen by (auto simp: BeginTransaction_sqlite_def split: sum.splits prod.splits)
qed

lemma reachable_impl_ok: "sqlite_reachable S im \<Longrightarrow> letters_drawn S \<Longrightarrow> impl_ok S im"
proof (induction rule: sqlite_reachable.induct)
  case created
  then show ?case by (auto simp: SQLite_Create_def new_impl_ok split: prod.splits sum.splits option.splits)
next
  case prepared
  then show ?case by (blast intro: CreatePreparedStatement_ok)
next
  case closed
  then show ?case by (auto simp: ClosePreparedStatement_sqlite_def impl_ok_def split: option.splits if_splits)
next
  case executed
  then show ?case
    by (auto simp: DoGetPreparedStatement_sqlite_def store_statement_ok split: sum.splits prod.splits)
next
  case parameters_put
  then show ?case
    by (auto simp: DoPutPreparedStatementQuery_sqlite_def store_statement_ok split: sum.splits prod.splits)
next
  case updated
  then show ?case
    by (auto simp: DoPutPreparedStatementUpdate_sqlite_def Let_def store_statement_ok split: sum.splits if_splits)
next
  case begun
  then show ?case by (blast intro: BeginTransaction_ok)
next
  case ended
  then show ?case by (auto simp: EndTransaction_sqlite_def impl_ok_def split: option.splits prod.splits if_splits)
qed

interpretation sqlite_ticket: ticket_codec transaction_ticket read_transaction_ticket
  by unfold_locales (simp add: read_transaction_ticket_def transaction_ticket_def find_char_append)

interpretation sqlite_handles: handle_map GetStatementByHandle_sqlite "\<lambda>h im. ClosePreparedStatement_sqlite im h"
  by unfold_locales
    (auto simp: GetStatementByHandle_sqlite_def ClosePreparedStatement_sqlite_def is_ok_def split: option.splits)

text \<open>After any number of handles are closed exactly they are gone.\<close>

lemma sqlite_closed_handles:
  "is_ok (GetStatementByHandle_sqlite (fold (\<lambda>h im. snd (ClosePreparedStatement_sqlite im h)) hs im) h)
     \<longleftrightarrow> h \<notin> set hs \<and> is_ok (GetStatementByHandle_sqlite im h)"
  by (rule sqlite_handles.lookup_close_all)

lemma connection_id:
  assumes "impl_ok S im" and "GetConnection_sqlite im t = ok db"
  shows "t = [] \<and> db = im_db im \<or> is_handle t \<and> im_transactions im t = Some db \<and> opened_unnamed S db"
  using assms by (auto simp: GetConnection_sqlite_def impl_ok_def split: if_splits option.splits)

text \<open>
  The ticket of a query gives back its text and its transaction, whatever the text: the parts are separated by the
  first colon, and no transaction of a reachable server has a colon in its name.
\<close>

theorem query_ticket_reads_back:
  assumes "sqlite_reachable S im" and "letters_drawn S"
    and "GetFlightInfoStatement_sqlite S im query t w = ok (schema, ticket)"
  shows "read_transaction_ticket ticket = ok (query, t)"
proof -
  obtain db where db: "GetConnection_sqlite im t = ok db" and ticket: "ticket = transaction_ticket query t"
    using assms(3) by (auto simp: GetFlightInfoStatement_sqlite_def rbind_ok_iff)
  have "CHR '':'' \<notin> set t"
    using connection_id [OF reachable_impl_ok [OF assms(1,2)] db] handle_without_colon by (auto simp: is_handle_def)
  then show ?thesis by (simp add: ticket sqlite_ticket.reads_back)
qed

text \<open>
  C27: What runs in a transaction never runs on the server's database: the connection of every transaction was
  opened on the empty name, read and write, since the server never learns its own URI. SQLite makes that a
  temporary database of its own.
\<close>

theorem transactions_run_elsewhere:
  assumes "sqlite_reachable S im" and "letters_drawn S" and "t \<noteq> []" and "GetConnection_sqlite im t = ok db"
  shows "\<exists>v v'. sl_open S [] False v = (Inr db, v')"
  using connection_id [OF reachable_impl_ok [OF assms(1,2)] assms(4)] assms(3) by (auto simp: opened_unnamed_def)

text \<open>
  A statement without rows that is sent as a query runs twice: once for the types of its columns, when the reader is
  made, and once more when the first batch is read. An INSERT inserts twice.
\<close>

lemma statement_without_rows_runs_twice:
  assumes "stmt_Create (sl_sqlite S) (im_db im) sql w = ok s"
    and "\<And>c v. sq_reset (sl_sqlite S) (im_db im) (ss_prog s) c v = (SqOk, sq_fresh (sl_sqlite S), v)"
    and "\<And>b v. sq_step (sl_sqlite S) (im_db im) (ss_prog s) b (sq_fresh (sl_sqlite S)) v
      = (SqDone, sq_fresh (sl_sqlite S), run v)"
    and "sq_columns (sl_sqlite S) (ss_prog s) = []"
  shows "DoGetStatement_sqlite S im (transaction_ticket sql []) w = (ok (new_reader [], s), run w)"
    and "fst (ReadNext_sqlite (sl_sqlite S) (new_reader []) s (run w)) = ok None"
    and "snd (snd (snd (ReadNext_sqlite (sl_sqlite S) (new_reader []) s (run w)))) = run (run w)"
proof -
  let ?L = "sl_sqlite S"
  have s: "ss_db s = im_db im" "ss_cursor s = sq_fresh ?L" "ss_parameters s = []"
    using assms(1) by (auto simp: stmt_Create_def split: sum.splits)
  have "s\<lparr>ss_cursor := sq_fresh ?L\<rparr> = s" using s(2) by simp
  then have calls: "stmt_Reset ?L s v = (ok SqOk, s, v)" "stmt_Step ?L s v = (ok SqDone, s, run v)" for v
    using assms(2,3) s by (simp_all add: stmt_Reset_def stmt_Step_def)
  have "read_transaction_ticket (transaction_ticket sql []) = ok (sql, [])" by (rule sqlite_ticket.without_transaction)
  moreover have "GetConnection_sqlite im [] = ok (im_db im)" by (simp add: GetConnection_sqlite_def)
  ultimately show "DoGetStatement_sqlite S im (transaction_ticket sql []) w = (ok (new_reader [], s), run w)"
    using assms(1,4) calls s by (simp add: DoGetStatement_sqlite_def reader_Create_sqlite_def stmt_GetSchema_def)
  have "fetch_rows ?L [] n SqDone [] s v = (ok (SqDone, []), s, v)" for n v by (cases n) simp_all
  then have "ReadNext_sqlite ?L (new_reader []) s v
      = (ok None, (new_reader [])\<lparr>sr_rc := SqDone, sr_executed := True\<rparr>, s, run v)" for v
    unfolding ReadNext_sqlite_def using calls s
    by (subst read_loop.simps) (simp add: start_run_def new_reader_def batch_of_def Let_def)
  then show "fst (ReadNext_sqlite ?L (new_reader []) s (run w)) = ok None"
    and "snd (snd (snd (ReadNext_sqlite ?L (new_reader []) s (run w)))) = run (run w)" by simp_all
qed

text \<open>A prepared statement whose schema cannot be told stays registered, under a handle no client has.\<close>

lemma failed_preparation_stays:
  assumes "GetConnection_sqlite im t = ok db" and "stmt_Create (sl_sqlite S) db query w = ok st"
    and "stmt_GetSchema (sl_sqlite S) st = Inl e" and "GenerateRandomString S im = Some (h, im1)"
  shows "\<exists>im'. CreatePreparedStatement_sqlite S im query t w = Some (Inl e, im')
    \<and> im_prepared im' h = Some (length (im_store im1))"
  using assms by (simp add: CreatePreparedStatement_sqlite_def Let_def)

section \<open>A sample server\<close>

definition toy_server :: "(sq_value list list, nat option, nat) sqlite_server_lib" where
  "toy_server =
     \<lparr>sl_sqlite = toy_sqlite, sl_open = (\<lambda>uri read_only w. (Inr (if uri = [] then 7 else 1), w)), sl_close = (\<lambda>db w. w),
      sl_exec = (\<lambda>db sql w. (None, w)), sl_draw = (\<lambda>k. 65), sl_schema = (\<lambda>n. []), sl_serialize = (\<lambda>cols. []),
      sl_status = (\<lambda>s. '''')\<rparr>"

lemma toy_letters: "letters_drawn toy_server"
  by (simp add: letters_drawn_def toy_server_def)

definition toy_impl :: "(sq_value list list, nat option) sqlite_impl" where
  "toy_impl = \<lparr>im_db = 1, im_db_uri = [], im_prepared = (\<lambda>h. None),
     im_transactions = (\<lambda>h. None)(''AAAAAAAAAAAAAAAA'' \<mapsto> 7), im_draws = 16, im_store = []\<rparr>"

lemma get_random_char_accept: "draw k \<le> 57 \<or> 65 \<le> draw k \<Longrightarrow> get_random_char draw k = Some (char_of (draw k), Suc k)"
  by (subst get_random_char.simps) simp

lemma char_A: "char_of (65 :: nat) = CHR ''A''"
  by code_simp

lemma same_draws: "random_chars (\<lambda>k. 65) n k = Some (replicate n (CHR ''A''), k + n)"
  by (induction n arbitrary: k) (simp_all only: random_chars.simps, simp_all add: get_random_char_accept char_A)

lemma toy_handle: "random_chars (sl_draw toy_server) 16 0 = Some (''AAAAAAAAAAAAAAAA'', 16)"
  unfolding toy_server_def sqlite_server_lib.simps same_draws by (simp add: numeral_eq_Suc)

lemma toy_begin: "BeginTransaction_sqlite toy_server (new_impl 1) 0 = Some (ok ''AAAAAAAAAAAAAAAA'', toy_impl, 0)"
proof -
  have gen: "GenerateRandomString toy_server (new_impl 1) = Some (''AAAAAAAAAAAAAAAA'', (new_impl 1)\<lparr>im_draws := 16\<rparr>)"
    unfolding GenerateRandomString_def by (simp add: new_impl_def toy_handle)
  have "sl_open toy_server [] False 0 = (Inr 7, 0)" "ExecuteSql_sqlite toy_server 7 sql 0 = (ok (), 0)" for sql
    by (simp_all add: toy_server_def ExecuteSql_sqlite_def)
  with gen show ?thesis by (simp add: BeginTransaction_sqlite_def toy_impl_def new_impl_def)
qed

lemma toy_reachable: "sqlite_reachable toy_server toy_impl"
proof -
  have "SQLite_Create toy_server ''db'' False 0 = (ok (new_impl 1), 0)" by (simp add: SQLite_Create_def toy_server_def)
  from sqlite_reachable.begun [OF sqlite_reachable.created [OF this] toy_begin] show ?thesis .
qed

theorem query_ticket_reads_back_witness:
  "GetFlightInfoStatement_sqlite toy_server toy_impl ''insert'' ''AAAAAAAAAAAAAAAA'' 0
     = ok ([], ''AAAAAAAAAAAAAAAA:insert'')
   \<and> read_transaction_ticket ''AAAAAAAAAAAAAAAA:insert'' = ok (''insert'', ''AAAAAAAAAAAAAAAA'')"
proof -
  have "GetFlightInfoStatement_sqlite toy_server toy_impl ''insert'' ''AAAAAAAAAAAAAAAA'' 0
      = ok ([], ''AAAAAAAAAAAAAAAA:insert'')"
    by (simp add: GetFlightInfoStatement_sqlite_def GetConnection_sqlite_def toy_impl_def stmt_Create_def toy_server_def
        toy_sqlite_def stmt_GetSchema_def transaction_ticket_def)
  from this query_ticket_reads_back [OF toy_reachable toy_letters this] show ?thesis by blast
qed

theorem transactions_run_elsewhere_witness:
  "GetConnection_sqlite toy_impl ''AAAAAAAAAAAAAAAA'' = ok 7 \<and> (\<exists>v v'. sl_open toy_server [] False v = (Inr 7, v'))"
proof -
  have c: "GetConnection_sqlite toy_impl ''AAAAAAAAAAAAAAAA'' = ok 7"
    by (simp add: GetConnection_sqlite_def toy_impl_def)
  from c transactions_run_elsewhere [OF toy_reachable toy_letters _ c] show ?thesis by blast
qed

end
