(* ===== verification/Health.thy ===== *)
theory Health
  imports Prelude "HOL-Library.Word"
begin

text \<open>
  The health service (\<open>src/src/common/health_service.cpp\<close>): a background thread asks the backend and caches the
  answer, \<open>Check\<close> returns it, and every \<open>Watch\<close> stream waits for changes. The threads are steps on a shared state;
  the waits may time out at any moment, so a wait can be left whenever its thread runs.
\<close>

section \<open>The service\<close>

datatype poller = P_wait | P_check | P_update bool | P_done

datatype watch_phase = W_first bool "64 word" | W_head | W_wait | W_read bool "64 word" | W_done

record watch =
  wt_phase :: watch_phase
  wt_last :: bool
  wt_version :: "64 word"
  wt_sent :: "bool list"

text \<open>\<open>hs_history\<close> is the history of the cached status; the code does not keep it.\<close>

record health =
  hs_cached :: bool
  hs_version :: "64 word"
  hs_shutdown :: bool
  hs_poller :: poller
  hs_watches :: "watch list"
  hs_history :: "bool list"

text \<open>The answer of the check function; an exception counts as not serving.\<close>

definition checked :: "bool option \<Rightarrow> bool" where
  "checked r = (case r of None \<Rightarrow> False | Some b \<Rightarrow> b)"

definition new_health :: "bool option \<Rightarrow> health" where
  "new_health r =
     \<lparr>hs_cached = checked r, hs_version = 0, hs_shutdown = False, hs_poller = P_wait, hs_watches = [],
      hs_history = [checked r]\<rparr>"

definition store_status :: "bool \<Rightarrow> health \<Rightarrow> health" where
  "store_status b h =
     (if b \<noteq> hs_cached h
      then h\<lparr>hs_cached := b, hs_version := hs_version h + 1, hs_history := hs_history h @ [b]\<rparr>
      else h)"

text \<open>One step of the background thread; \<open>r\<close> is what the check gives.\<close>

definition HealthCheckLoop :: "bool option \<Rightarrow> health \<Rightarrow> health" where
  "HealthCheckLoop r h =
     (case hs_poller h of
        P_wait \<Rightarrow> h\<lparr>hs_poller := if hs_shutdown h then P_done else P_check\<rparr>
      | P_check \<Rightarrow> h\<lparr>hs_poller := P_update (checked r)\<rparr>
      | P_update b \<Rightarrow> (store_status b h)\<lparr>hs_poller := P_wait\<rparr>
      | P_done \<Rightarrow> h)"

datatype serving = SERVING | NOT_SERVING

definition Check :: "health \<Rightarrow> serving" where
  "Check h = (if hs_cached h then SERVING else NOT_SERVING)"

text \<open>A new stream reads the status it will send first.\<close>

definition open_watch :: "health \<Rightarrow> health" where
  "open_watch h =
     h\<lparr>hs_watches := hs_watches h @ [\<lparr>wt_phase = W_first (hs_cached h) (hs_version h), wt_last = hs_cached h,
                                      wt_version = hs_version h, wt_sent = []\<rparr>]\<rparr>"

text \<open>
  One step of a stream: \<open>cancelled\<close> tells whether its call was cancelled, \<open>written\<close> whether a write succeeds. A wait
  ends with the status and version of that moment.
\<close>

definition watch_step :: "bool \<Rightarrow> bool \<Rightarrow> health \<Rightarrow> watch \<Rightarrow> watch" where
  "watch_step cancelled written h w =
     (case wt_phase w of
        W_first b v \<Rightarrow>
          if written then w\<lparr>wt_phase := W_head, wt_last := b, wt_version := v, wt_sent := [b]\<rparr>
          else w\<lparr>wt_phase := W_done\<rparr>
      | W_head \<Rightarrow> w\<lparr>wt_phase := if cancelled \<or> hs_shutdown h then W_done else W_wait\<rparr>
      | W_wait \<Rightarrow> w\<lparr>wt_phase := W_read (hs_cached h) (hs_version h)\<rparr>
      | W_read b v \<Rightarrow>
          if cancelled \<or> hs_shutdown h then w\<lparr>wt_phase := W_done\<rparr>
          else if b \<noteq> wt_last w
          then (if written
                then w\<lparr>wt_phase := W_head, wt_last := b, wt_version := v, wt_sent := wt_sent w @ [b]\<rparr>
                else w\<lparr>wt_phase := W_done\<rparr>)
          else w\<lparr>wt_phase := W_head, wt_version := v\<rparr>
      | W_done \<Rightarrow> w)"

definition Watch_loop :: "nat \<Rightarrow> bool \<Rightarrow> bool \<Rightarrow> health \<Rightarrow> health" where
  "Watch_loop i cancelled written h =
     (if i < length (hs_watches h)
      then h\<lparr>hs_watches := (hs_watches h)[i := watch_step cancelled written h (hs_watches h ! i)]\<rparr>
      else h)"

text \<open>\<open>Shutdown\<close> sets the flag and then waits for the background thread to be done.\<close>

definition request_shutdown :: "health \<Rightarrow> health" where
  "request_shutdown h = h\<lparr>hs_shutdown := True\<rparr>"

definition Start_plaintext :: "bool \<Rightarrow> int \<Rightarrow> (string \<Rightarrow> bool) \<Rightarrow> string result" where
  "Start_plaintext has_service port listens =
     (if \<not> has_service then fail Invalid ''Health service cannot be null''
      else if port \<le> 0 \<or> port > 65535 then fail Invalid (''Invalid port number: '' @ show_int port)
      else let address = ''0.0.0.0:'' @ show_int port in
           if listens address then ok address
           else fail Invalid (''Failed to start plaintext health server on '' @ address))"

text \<open>
  The check of the server: its query on the backend, while there is one. The plaintext server is started last, when
  its port is positive; that it fails is only logged.
\<close>

definition health_check_fn :: "('s \<Rightarrow> string \<Rightarrow> unit result) \<Rightarrow> string \<Rightarrow> 's option \<Rightarrow> bool" where
  "health_check_fn ExecuteSql query locked =
     (case locked of None \<Rightarrow> False | Some s \<Rightarrow> is_ok (ExecuteSql s query))"

definition start_health_server :: "bool \<Rightarrow> int \<Rightarrow> (string \<Rightarrow> bool) \<Rightarrow> string option" where
  "start_health_server has_service health_port listens =
     (if has_service \<and> health_port > 0
      then (case Start_plaintext has_service health_port listens of Inl e \<Rightarrow> None | Inr address \<Rightarrow> Some address)
      else None)"

section \<open>Runs of the service\<close>

datatype health_event =
    Poll "bool option" | Open_watch | Watch_event nat bool bool | Request_shutdown

fun health_do :: "health_event \<Rightarrow> health \<Rightarrow> health" where
  "health_do (Poll r) h = HealthCheckLoop r h"
| "health_do Open_watch h = open_watch h"
| "health_do (Watch_event i cancelled written) h = Watch_loop i cancelled written h"
| "health_do Request_shutdown h = request_shutdown h"

definition health_run :: "bool option \<Rightarrow> health_event list \<Rightarrow> health" where
  "health_run r events = fold health_do events (new_health r)"

section \<open>What a stream reports\<close>

text \<open>What is sent is part of the history, in its order, and never the same status twice in a row.\<close>

definition reports :: "bool list \<Rightarrow> bool list \<Rightarrow> bool" where
  "reports sent history \<longleftrightarrow> subseq sent history \<and> distinct_adj sent"

text \<open>The history alternates, ends with the cached status and is counted by the version.\<close>

definition history_ok :: "health \<Rightarrow> bool" where
  "history_ok h \<longleftrightarrow> hs_history h \<noteq> [] \<and> last (hs_history h) = hs_cached h \<and> distinct_adj (hs_history h)
     \<and> hs_version h = of_nat (length (hs_history h) - 1)"

text \<open>What a stream holds: the status it is about to send can be added to what it has sent.\<close>

definition watch_ok :: "bool list \<Rightarrow> watch \<Rightarrow> bool" where
  "watch_ok history w \<longleftrightarrow> reports (wt_sent w) history
     \<and> (case wt_phase w of
          W_first b v \<Rightarrow> wt_sent w = [] \<and> subseq [b] history
        | W_read b v \<Rightarrow> wt_sent w \<noteq> [] \<and> last (wt_sent w) = wt_last w
                      \<and> (b \<noteq> wt_last w \<longrightarrow> subseq (wt_sent w @ [b]) history)
        | W_done \<Rightarrow> True
        | _ \<Rightarrow> wt_sent w \<noteq> [] \<and> last (wt_sent w) = wt_last w)"

definition health_ok :: "health \<Rightarrow> bool" where
  "health_ok h \<longleftrightarrow> history_ok h \<and> list_all (watch_ok (hs_history h)) (hs_watches h)"

lemma subseq_longer: "subseq xs ys \<Longrightarrow> subseq xs (ys @ zs)"
  by (rule subseq_rev_drop_many)

lemma reports_longer: "reports s history \<Longrightarrow> reports s (history @ [b])"
  by (auto simp: reports_def subseq_longer)

lemma watch_ok_longer: "watch_ok history w \<Longrightarrow> watch_ok (history @ [b]) w"
  by (auto simp: watch_ok_def reports_longer subseq_longer split: watch_phase.splits)

lemma subseq_single: "subseq s [y] \<Longrightarrow> s = [] \<or> s = [y]"
  by (cases s) (auto split: if_splits)

lemma subseq_before_last:
  assumes "subseq s (ys @ [y])" and "s \<noteq> []" and "last s \<noteq> y"
  shows "subseq s ys"
proof -
  obtain s1 s2 where s: "s = s1 @ s2" "subseq s1 ys" "subseq s2 [y]" using assms(1) by (rule subseq_appendE) blast
  from subseq_single [OF s(3)] show ?thesis
  proof
    assume "s2 = []"
    then show ?thesis using s by simp
  next
    assume "s2 = [y]"
    then show ?thesis using s(1) assms(3) by simp
  qed
qed

text \<open>What a stream reads after a wait can be sent next.\<close>

lemma read_status_next:
  assumes "history_ok h" and "subseq s (hs_history h)" and "s \<noteq> []" and "last s \<noteq> hs_cached h"
  shows "subseq (s @ [hs_cached h]) (hs_history h)"
proof -
  let ?ys = "butlast (hs_history h)"
  have ys: "hs_history h = ?ys @ [hs_cached h]"
    using assms(1) append_butlast_last_id [of "hs_history h"] by (simp add: history_ok_def)
  have "subseq s (?ys @ [hs_cached h])" using assms(2) ys by simp
  then have "subseq s ?ys" using assms(3,4) by (rule subseq_before_last)
  then show ?thesis by (subst ys) simp
qed

lemma reports_next: "distinct_adj s \<Longrightarrow> s \<noteq> [] \<Longrightarrow> b \<noteq> last s \<Longrightarrow> subseq (s @ [b]) history \<Longrightarrow> reports (s @ [b]) history"
  by (auto simp: reports_def distinct_adj_append_iff)

lemma watch_step_ok:
  assumes "history_ok h" and "watch_ok (hs_history h) w"
  shows "watch_ok (hs_history h) (watch_step cancelled written h w)"
proof (cases "wt_phase w")
  case (W_first b v)
  then show ?thesis using assms(2) by (auto simp: watch_ok_def watch_step_def reports_def)
next
  case W_head
  then show ?thesis using assms(2) by (auto simp: watch_ok_def watch_step_def)
next
  case W_wait
  then show ?thesis using assms read_status_next [OF assms(1), of "wt_sent w"]
    by (auto simp: watch_ok_def watch_step_def reports_def)
next
  case (W_read b v)
  then show ?thesis using assms(2) reports_next [of "wt_sent w" b "hs_history h"]
    by (auto simp: watch_ok_def watch_step_def reports_def)
next
  case W_done
  then show ?thesis using assms(2) by (simp add: watch_step_def)
qed

lemma store_status_ok: "health_ok h \<Longrightarrow> health_ok (store_status b h)"
proof -
  assume h: "health_ok h"
  have "of_nat (length s - 1) + 1 = (of_nat (length s) :: 64 word)" if "s \<noteq> []" for s :: "bool list"
    using that by (cases s) simp_all
  then show ?thesis
    using h by (auto simp: health_ok_def history_ok_def store_status_def distinct_adj_append_iff list_all_iff
        intro!: watch_ok_longer)
qed

lemma poller_ok: "health_ok h \<Longrightarrow> health_ok (h\<lparr>hs_poller := p\<rparr>)"
  by (simp add: health_ok_def history_ok_def)

lemma open_watch_ok:
  assumes "health_ok h"
  shows "health_ok (open_watch h)"
proof -
  have "hs_history h \<noteq> []" "last (hs_history h) = hs_cached h" using assms by (simp_all add: health_ok_def history_ok_def)
  then have "hs_cached h \<in> set (hs_history h)" using last_in_set [of "hs_history h"] by simp
  then have "subseq [hs_cached h] (hs_history h)" by (simp add: subseq_singleton_left)
  then show ?thesis using assms by (simp add: health_ok_def history_ok_def open_watch_def watch_ok_def reports_def)
qed

lemma health_do_ok: "health_ok h \<Longrightarrow> health_ok (health_do e h)"
proof (induction e h rule: health_do.induct)
  case (1 r h)
  then show ?case by (simp add: HealthCheckLoop_def poller_ok store_status_ok split: poller.split)
next
  case (3 i cancelled written h)
  then show ?case
    by (auto simp: Watch_loop_def health_ok_def history_ok_def list_all_length nth_list_update
        intro!: watch_step_ok)
next
  case (4 h)
  then show ?case by (simp add: request_shutdown_def health_ok_def history_ok_def)
qed (simp add: open_watch_ok)

lemma health_run_ok: "health_ok (health_run r events)"
proof -
  have "health_ok (fold health_do events h)" if "health_ok h" for h
    using that by (induction events arbitrary: h) (simp_all add: health_do_ok)
  then show ?thesis by (simp add: health_run_def health_ok_def history_ok_def new_health_def)
qed

text \<open>
  C29: In every run of the service each stream has been sent statuses that the service really had, in their order, and never
  the same one twice in a row, however the threads take turns and whatever the checks give.
\<close>

theorem watch_reports_changes:
  "list_all (\<lambda>w. subseq (wt_sent w) (hs_history (health_run r events)) \<and> distinct_adj (wt_sent w))
     (hs_watches (health_run r events))"
  using health_run_ok [of r events] by (auto simp: health_ok_def watch_ok_def reports_def list_all_iff)

text \<open>A probe gets the last status of the history, and the version counts its changes.\<close>

lemma Check_is_latest:
  "Check (health_run r events) = (if last (hs_history (health_run r events)) then SERVING else NOT_SERVING)"
  using health_run_ok [of r events] by (simp add: health_ok_def history_ok_def Check_def)

text \<open>A stream that goes once round its loop undisturbed has reported the cached status.\<close>

lemma watch_catches_up:
  assumes "wt_phase w = W_head" and "\<not> hs_shutdown h"
  shows "wt_last (watch_step False True h (watch_step False True h (watch_step False True h w))) = hs_cached h"
  using assms by (simp add: watch_step_def)

section \<open>The end of the service\<close>

text \<open>
  A stream ends only when its call is cancelled, a write fails or the shutdown was requested. The program stops the
  plaintext server before it requests the shutdown, and gRPC waits there for the streams to end.
\<close>

fun harmless :: "health_event \<Rightarrow> bool" where
  "harmless (Watch_event i cancelled written) = (\<not> cancelled \<and> written)"
| "harmless Request_shutdown = False"
| "harmless e = True"

definition streaming :: "nat \<Rightarrow> health \<Rightarrow> bool" where
  "streaming i h \<longleftrightarrow> \<not> hs_shutdown h \<and> i < length (hs_watches h) \<and> wt_phase (hs_watches h ! i) \<noteq> W_done"

lemma harmless_streaming: "harmless e \<Longrightarrow> streaming i h \<Longrightarrow> streaming i (health_do e h)"
proof (induction e h rule: health_do.induct)
  case (1 r h)
  then show ?case by (auto simp: HealthCheckLoop_def store_status_def streaming_def split: poller.splits)
next
  case (3 j cancelled written h)
  then show ?case
    by (auto simp: Watch_loop_def streaming_def nth_list_update watch_step_def split: watch_phase.splits)
qed (auto simp: open_watch_def streaming_def nth_append)

lemma stream_does_not_end: "list_all harmless events \<Longrightarrow> streaming i h \<Longrightarrow> streaming i (fold health_do events h)"
  by (induction events arbitrary: h) (simp_all add: harmless_streaming)

text \<open>Once the shutdown is requested the background thread is done after at most four of its steps, and stays so.\<close>

lemma shutdown_stops_poller:
  "hs_shutdown h \<Longrightarrow> hs_poller ((HealthCheckLoop r4 \<circ> HealthCheckLoop r3 \<circ> HealthCheckLoop r2 \<circ> HealthCheckLoop r1) h) = P_done"
  by (cases "hs_poller h") (simp_all add: HealthCheckLoop_def store_status_def)

end
