(* ===== verification/Process.thy ===== *)
theory Process
  imports ServerMain SqliteServer Health
begin

text \<open>
  The process as a whole: \<open>FlightSQLServerBuilder\<close> and \<open>RunFlightSQLServer\<close> of
  \<open>src/src/common/gizmosql_library.cpp\<close> over both backends, with what they keep in static variables: the health
  service, its plaintext server, the instrumentation manager and the OAuth server. The parts are those of \<open>Startup\<close>,
  \<open>SqliteServer\<close>, \<open>Health\<close> and \<open>Telemetry\<close>; Flight's own server and the ports are parameters.
\<close>

section \<open>How a function of the process ends\<close>

text \<open>
  It returns, \<open>ARROW_CHECK_OK\<close> aborts the process, an exception leaves it, or it does not return.
\<close>

datatype 'a course = Back 'a | Aborted string | Raised string | Forever

fun course_then :: "'a course \<Rightarrow> ('a \<Rightarrow> 'b course) \<Rightarrow> 'b course" where
  "course_then (Back x) k = k x"
| "course_then (Aborted e) k = Aborted e"
| "course_then (Raised e) k = Raised e"
| "course_then Forever k = Forever"

definition CHECK_OK :: "'a result \<Rightarrow> 'a course" where
  "CHECK_OK r = (case r of Inl e \<Rightarrow> Aborted (message e) | Inr x \<Rightarrow> Back x)"

lemma course_then_Back: "course_then c k = Back y \<longleftrightarrow> (\<exists>x. c = Back x \<and> k x = Back y)"
  by (cases c) simp_all

lemma course_thenE:
  assumes "course_then c k = Back y"
  obtains x where "c = Back x" "k x = Back y"
  using assms by (auto simp: course_then_Back)

lemma CHECK_OK_ok [simp]: "CHECK_OK (Inr x) = Back x"
  by (simp add: CHECK_OK_def)

lemma CHECK_OK_Back [simp]: "CHECK_OK r = Back x \<longleftrightarrow> r = ok x"
  by (auto simp: CHECK_OK_def split: sum.splits)

section \<open>Certificates\<close>

text \<open>\<open>read_file\<close> gives the contents of a file that can be opened.\<close>

definition FlightServerTlsCertificates ::
    "(string \<Rightarrow> string option) \<Rightarrow> string \<Rightarrow> string \<Rightarrow> (string \<times> string) list result" where
  "FlightServerTlsCertificates read_file cert_path key_path =
     (case read_file cert_path of
        None \<Rightarrow> fail IOError (''Could not open certificate: '' @ cert_path)
      | Some cert \<Rightarrow>
          (case read_file key_path of
             None \<Rightarrow> fail IOError (''Could not open key: '' @ key_path)
           | Some key \<Rightarrow> ok [(cert, key)]))"

definition FlightServerMtlsCACertificate :: "(string \<Rightarrow> string option) \<Rightarrow> string \<Rightarrow> string result" where
  "FlightServerMtlsCACertificate read_file cert_path =
     (case read_file cert_path of
        None \<Rightarrow> fail IOError (''Could not open MTLS CA certificate: '' @ cert_path)
      | Some cert \<Rightarrow> ok cert)"

section \<open>Static variables\<close>

text \<open>
  \<open>g_manager\<close> tells whether the pointer to the instrumentation manager is set; the manager itself is shared with the
  server. The OAuth server comes with whether its threads run.
\<close>

record statics =
  g_health :: "health option"
  g_plaintext :: "string option"
  g_manager :: bool
  g_oauth :: "(oauth_config \<times> bool) option"
  g_telemetry :: telemetry

definition no_statics :: statics where
  "no_statics = \<lparr>g_health = None, g_plaintext = None, g_manager = False, g_oauth = None, g_telemetry = no_telemetry\<rparr>"

datatype ('db, 'p, 'c) any_server = DuckServer "'db started" | LiteServer "('p, 'c) sqlite_impl"

text \<open>
  What Flight and the host give: the location of an address, \<open>Init\<close>, the handlers of signals, the ports that can be
  listened on, and what happened while \<open>Serve\<close> ran: its result, the registry it leaves, the order of its map of
  sessions, the steps of the health service, and the last answer of a check.
\<close>

record listener_options =
  fo_location :: string
  fo_certificates :: "(string \<times> string) list"
  fo_root_certificates :: string
  fo_front :: front
  fo_health_registered :: bool

record ('db, 'p, 'c, 'w, 'k) process_lib =
  pl_front :: front_lib
  pl_duck :: "'db start_api"
  pl_sqlite :: "('p, 'c, 'w) sqlite_server_lib"
  pl_location :: "string \<Rightarrow> string \<Rightarrow> int \<Rightarrow> string result"
  pl_init :: "listener_options \<Rightarrow> unit result"
  pl_signals :: "string list \<Rightarrow> unit result"
  pl_listens :: "string \<Rightarrow> bool"
  pl_serve :: "('db, 'p, 'c) any_server \<Rightarrow> unit result"
  pl_registry :: "('db, 'p, 'c) any_server \<Rightarrow> 'k registry"
  pl_order :: "('db, 'p, 'c) any_server \<Rightarrow> string list"
  pl_health_events :: "('db, 'p, 'c) any_server \<Rightarrow> health_event list"
  pl_last_check :: "bool option"

section \<open>The backends\<close>

text \<open>\<open>start_duckdb\<close> of \<open>Startup\<close> with the static variables it sets on the way.\<close>

definition open_duckdb ::
    "host \<Rightarrow> 'db start_api \<Rightarrow> server_options \<Rightarrow> front \<Rightarrow> statics \<Rightarrow> ('db started result \<times> statics) course" where
  "open_duckdb h A o1 f0 g =
     (case sa_create A o1 of
        Inl e \<Rightarrow> Back (Inl e, g)
      | Inr d \<Rightarrow>
          (let f = set_instance (sa_instance_id A) (so_allow_cross o1) f0;
               mc = manager_config_of h (sa_paths A) o1
           in case (case fr_oauth f of
                      None \<Rightarrow> ok g
                    | Some c \<Rightarrow> rbind (oauth_Start c) (\<lambda>(c1, tls). ok (g\<lparr>g_oauth := Some (c1, True)\<rparr>))) of
                Inl e \<Rightarrow> Back (Inl e, g)
              | Inr g1 \<Rightarrow>
                  (case RUN_INIT_COMMANDS (server_ExecuteSql A) (duckdb_init_commands mc o1) d of
                     None \<Rightarrow> Forever
                   | Some (Inl e, d1) \<Rightarrow> Back (Inl e, g1)
                   | Some (Inr _, d1) \<Rightarrow>
                       (case start_instrumentation A mc o1 f d1 of
                          Inl e \<Rightarrow> Back (Inl e, g1)
                        | Inr s \<Rightarrow> Back (ok s, g1\<lparr>g_manager := no_enabled (so_instr o1)\<rparr>)))))"

text \<open>The SQLite server is destroyed when an initial command fails, which closes its connection.\<close>

definition open_sqlite ::
    "('p, 'c, 'w) sqlite_server_lib \<Rightarrow> server_options \<Rightarrow> 'w \<Rightarrow> (('p, 'c) sqlite_impl result \<times> 'w) course" where
  "open_sqlite S o1 w =
     (case SQLite_Create S (bo_database (so_base o1)) (so_read_only o1) w of
        (Inl e, w1) \<Rightarrow> Back (Inl e, w1)
      | (Inr im, w1) \<Rightarrow>
          (case RUN_INIT_COMMANDS (ExecuteSql_sqlite S (im_db im)) (io_commands (so_init o1)) w1 of
             None \<Rightarrow> Forever
           | Some (Inl e, w2) \<Rightarrow> Back (Inl e, sl_close S (im_db im) w2)
           | Some (Inr _, w2) \<Rightarrow> Back (ok im, w2)))"

type_synonym ('db, 'p, 'c, 'w) opened = "('db, 'p, 'c) any_server result \<times> statics \<times> 'w"

definition open_backend ::
    "('db, 'p, 'c, 'w, 'k) process_lib \<Rightarrow> host \<Rightarrow> server_options \<Rightarrow> front \<Rightarrow> statics \<Rightarrow> 'w \<Rightarrow> ('db, 'p, 'c, 'w) opened course" where
  "open_backend P h o1 f g w =
     (case so_backend o1 of
        Duckdb \<Rightarrow> course_then (open_duckdb h (pl_duck P) o1 f g) (\<lambda>(r, g1). Back (map_sum id DuckServer r, g1, w))
      | Sqlite \<Rightarrow> course_then (open_sqlite (pl_sqlite P) o1 w) (\<lambda>(r, w1). Back (map_sum id LiteServer r, g, w1)))"

section \<open>The builder\<close>

text \<open>The first check of the new health service: the query on the backend.\<close>

definition first_check ::
    "('db, 'p, 'c, 'w, 'k) process_lib \<Rightarrow> string \<Rightarrow> ('db, 'p, 'c) any_server \<Rightarrow> 'w \<Rightarrow> health \<times> ('db, 'p, 'c) any_server \<times> 'w" where
  "first_check P query sv w =
     (case sv of
        DuckServer s \<Rightarrow>
          (case server_ExecuteSql (pl_duck P) query (sd_db s) of
             (r, d1) \<Rightarrow> (new_health (Some (is_ok r)), DuckServer (s\<lparr>sd_db := d1\<rparr>), w))
      | LiteServer im \<Rightarrow>
          (case ExecuteSql_sqlite (pl_sqlite P) (im_db im) query w of
             (r, w1) \<Rightarrow> (new_health (Some (is_ok r)), LiteServer im, w1)))"

text \<open>What the builder does with an open backend.\<close>

definition announce ::
    "('db, 'p, 'c, 'w, 'k) process_lib \<Rightarrow> server_options \<Rightarrow> listener_options \<Rightarrow> ('db, 'p, 'c) any_server \<Rightarrow> statics \<Rightarrow> 'w
     \<Rightarrow> ('db, 'p, 'c, 'w) opened course" where
  "announce P o1 fo sv g w =
     (case first_check P (so_health_query o1) sv w of
        (hs, sv1, w1) \<Rightarrow>
          course_then (CHECK_OK (pl_init P (fo\<lparr>fo_health_registered := True\<rparr>))) (\<lambda>_.
          course_then (CHECK_OK (pl_signals P [''SIGTERM'', ''SIGINT''])) (\<lambda>_.
            Back (ok sv1, g\<lparr>g_health := Some hs,
                            g_plaintext := start_health_server True (bo_health_port (so_base o1)) (pl_listens P)\<rparr>, w1))))"

definition FlightSQLServerBuilder ::
    "('db, 'p, 'c, 'w, 'k) process_lib \<Rightarrow> host \<Rightarrow> server_options \<Rightarrow> statics \<Rightarrow> 'w \<Rightarrow> ('db, 'p, 'c, 'w) opened course" where
  "FlightSQLServerBuilder P h o1 g w =
     (let t = so_tls o1; read_file = fl_read_file (pl_front P) in
      case pl_location P (if to_cert t \<noteq> [] then ''grpc+tls'' else ''grpc+tcp'') (bo_hostname (so_base o1)) (bo_port (so_base o1)) of
        Inl e \<Rightarrow> Back (Inl e, g, w)
      | Inr location \<Rightarrow>
          course_then (if to_cert t \<noteq> [] \<and> to_key t \<noteq> []
                    then CHECK_OK (FlightServerTlsCertificates read_file (to_cert t) (to_key t)) else Back []) (\<lambda>certs.
            case build_middleware (pl_front P) o1 of
              Inl e \<Rightarrow> Raised e
            | Inr (Inl e) \<Rightarrow> Back (Inl e, g, w)
            | Inr (Inr f) \<Rightarrow>
                (let g1 = (case fr_oauth f of None \<Rightarrow> g | Some c \<Rightarrow> g\<lparr>g_oauth := Some (c, False)\<rparr>) in
                 course_then (if to_mtls_ca t \<noteq> [] then CHECK_OK (FlightServerMtlsCACertificate read_file (to_mtls_ca t))
                           else Back []) (\<lambda>root.
                   case backend_check o1 of
                     Inl e \<Rightarrow> Back (Inl e, g1, w)
                   | Inr _ \<Rightarrow>
                       course_then (open_backend P h o1 f g1 w) (\<lambda>(r, g2, w1).
                         case r of
                           Inl e \<Rightarrow> Back (Inl e, g2, w1)
                         | Inr sv \<Rightarrow>
                             announce P o1 \<lparr>fo_location = location, fo_certificates = certs, fo_root_certificates = root,
                                            fo_front = f, fo_health_registered = False\<rparr> sv g2 w1)))))"

definition CreateFlightSQLServer ::
    "('db, 'p, 'c, 'w, 'k) process_lib \<Rightarrow> host \<Rightarrow> server_options \<Rightarrow> statics \<Rightarrow> 'w \<Rightarrow> ('db, 'p, 'c, 'w) opened course" where
  "CreateFlightSQLServer P h o0 g w =
     (case resolve_options h o0 of
        Inl e \<Rightarrow> Back (Inl e, g, w)
      | Inr o1 \<Rightarrow> FlightSQLServerBuilder P h o1 g w)"

section \<open>Running and stopping\<close>

text \<open>\<open>Shutdown\<close> of the health service waits for its thread, which needs at most four steps to end.\<close>

definition health_Shutdown :: "bool option \<Rightarrow> health \<Rightarrow> health" where
  "health_Shutdown r h =
     (HealthCheckLoop r \<circ> HealthCheckLoop r \<circ> HealthCheckLoop r \<circ> HealthCheckLoop r) (request_shutdown h)"

definition CleanupServerResources :: "statics \<times> instr_manager option \<Rightarrow> statics \<times> instr_manager option" where
  "CleanupServerResources = (\<lambda>(g, m).
     (g\<lparr>g_plaintext := None, g_health := None, g_manager := False, g_oauth := None\<rparr>,
      if g_manager g then manager_Shutdown m else m))"

text \<open>The release after \<open>Serve\<close>: the registry it leaves, when there is one.\<close>

definition stop_server ::
    "('db, 'p, 'c, 'w, 'k) process_lib \<Rightarrow> ('db, 'p, 'c) any_server \<Rightarrow> statics \<Rightarrow> 'k registry option \<times> statics" where
  "stop_server P sv g =
     (case sv of DuckServer s \<Rightarrow> Some (release_server (pl_order P sv) (sd_instance s) (pl_registry P sv)) | LiteServer im \<Rightarrow> None,
      g\<lparr>g_plaintext := None,
        g_health := map_option (\<lambda>h. health_Shutdown (pl_last_check P) (fold health_do (pl_health_events P sv) h)) (g_health g),
        g_manager := False, g_oauth := None, g_telemetry := ShutdownTelemetry (g_telemetry g)\<rparr>)"

text \<open>The exit code, with the registry and the static variables it leaves.\<close>

definition run_process ::
    "('db, 'p, 'c, 'w, 'k) process_lib \<Rightarrow> host \<Rightarrow> string \<Rightarrow> unit result \<Rightarrow> bool \<Rightarrow> run_arguments \<Rightarrow> otel_arguments
     \<Rightarrow> statics \<Rightarrow> 'w \<Rightarrow> (int \<times> 'k registry option \<times> statics) course" where
  "run_process P h version license_status instr_licensed a ot g w =
     (let o0 = run_options h a
      in case license_status of
           Inl e \<Rightarrow> Back (1, None, g)
         | Inr _ \<Rightarrow>
             (if no_enabled (so_instr o0) \<and> \<not> instr_licensed then Back (1, None, g)
              else case run_telemetry h version a ot (g_telemetry g) of
                     (on, t) \<Rightarrow>
                       course_then (CreateFlightSQLServer P h (o0\<lparr>so_telemetry := on\<rparr>) (g\<lparr>g_telemetry := t\<rparr>) w) (\<lambda>(r, g1, w1).
                         case r of
                           Inl e \<Rightarrow> Back (1, None, g1)
                         | Inr sv \<Rightarrow>
                             course_then (CHECK_OK (pl_serve P sv)) (\<lambda>_.
                               case stop_server P sv g1 of (reg, g2) \<Rightarrow> Back (0, reg, g2)))))"

section \<open>How the process ends\<close>

lemma run_process_cases:
  assumes "run_process P h version license_status instr_licensed a ot g w = Back (n, reg, g')"
  obtains "n = 1" "reg = None" "g' = g"
  | g1 r w1 where "CreateFlightSQLServer P h ((run_options h a)\<lparr>so_telemetry := fst (run_telemetry h version a ot (g_telemetry g))\<rparr>)
        (g\<lparr>g_telemetry := snd (run_telemetry h version a ot (g_telemetry g))\<rparr>) w = Back (Inl r, g1, w1)" "n = 1" "reg = None" "g' = g1"
  | g1 sv w1 where "CreateFlightSQLServer P h ((run_options h a)\<lparr>so_telemetry := fst (run_telemetry h version a ot (g_telemetry g))\<rparr>)
        (g\<lparr>g_telemetry := snd (run_telemetry h version a ot (g_telemetry g))\<rparr>) w = Back (Inr sv, g1, w1)" "n = 0" "stop_server P sv g1 = (reg, g')"
proof -
  obtain on t where t: "run_telemetry h version a ot (g_telemetry g) = (on, t)" by (metis surj_pair)
  show ?thesis
    using assms that t
    by (auto simp: run_process_def Let_def elim!: course_thenE split: sum.split_asm if_split_asm prod.split_asm)
qed

lemma open_duckdb_statics:
  "open_duckdb h A o1 f g = Back (r, g1) \<Longrightarrow>
     g_health g1 = g_health g \<and> g_plaintext g1 = g_plaintext g \<and> g_telemetry g1 = g_telemetry g
     \<and> (is_ok r \<or> g_manager g1 = g_manager g)"
  by (auto simp: open_duckdb_def Let_def rbind_ok_iff is_ok_def split: sum.splits option.splits prod.splits)

lemma open_backend_statics:
  "open_backend P h o1 f g w = Back (r, g1, w1) \<Longrightarrow>
     g_health g1 = g_health g \<and> g_plaintext g1 = g_plaintext g \<and> (is_ok r \<or> g_manager g1 = g_manager g)"
  by (auto simp: open_backend_def is_ok_iff elim!: course_thenE split: backend.split_asm prod.split_asm dest!: open_duckdb_statics)

lemma builder_statics:
  assumes "FlightSQLServerBuilder P h o1 g w = Back (r, g1, w1)"
  shows "if is_ok r then g_health g1 \<noteq> None
         else g_health g1 = g_health g \<and> g_plaintext g1 = g_plaintext g \<and> g_manager g1 = g_manager g"
  using assms
  by (auto simp: FlightSQLServerBuilder_def Let_def announce_def elim!: course_thenE
      split: sum.split_asm prod.split_asm option.split_asm dest!: open_backend_statics)

lemma create_statics:
  assumes "CreateFlightSQLServer P h o0 g w = Back (r, g1, w1)"
  shows "if is_ok r then g_health g1 \<noteq> None
         else g_health g1 = g_health g \<and> g_plaintext g1 = g_plaintext g \<and> g_manager g1 = g_manager g"
  using assms by (auto simp: CreateFlightSQLServer_def split: sum.split_asm dest!: builder_statics)

text \<open>The thread of the health service has ended when its \<open>Shutdown\<close> returns.\<close>

lemma health_Shutdown_done: "hs_poller (health_Shutdown r h) = P_done"
  unfolding health_Shutdown_def by (rule shutdown_stops_poller) (simp add: request_shutdown_def)

lemma telemetry_off: "\<not> tm_enabled t \<or> tm_initialized t \<Longrightarrow> \<not> tm_enabled (ShutdownTelemetry t)"
  by (auto simp: ShutdownTelemetry_def shutdown_disable_def shutdown_reset_def)

lemma backend_telemetry: "open_backend P h o1 f g w = Back (r, g1, w1) \<Longrightarrow> g_telemetry g1 = g_telemetry g"
  by (auto simp: open_backend_def elim!: course_thenE split: backend.split_asm prod.split_asm dest!: open_duckdb_statics)

lemma create_telemetry: "CreateFlightSQLServer P h o0 g w = Back (r, g1, w1) \<Longrightarrow> g_telemetry g1 = g_telemetry g"
  by (auto simp: CreateFlightSQLServer_def FlightSQLServerBuilder_def Let_def announce_def elim!: course_thenE
      split: sum.split_asm prod.split_asm option.split_asm dest!: backend_telemetry)

lemma run_telemetry_state:
  "\<not> tm_enabled (snd (run_telemetry h version a ot no_telemetry)) \<or> tm_initialized (snd (run_telemetry h version a ot no_telemetry))"
  by (auto simp: run_telemetry_def InitTelemetry_def no_telemetry_def Let_def split: if_splits)

text \<open>
  C19: A process that ends with an exit code ends with 0 or 1. With 0 nothing it started is left: the health thread is
  done, the plaintext port is closed, the instrumentation manager and the OAuth server are gone, telemetry is off. With
  1 no health service was ever started, and no instrumentation manager kept.
\<close>

theorem process_leaves_nothing_running:
  assumes "run_process P h version license_status instr_licensed a ot no_statics w = Back (n, reg, g)"
  shows "(n = 0 \<or> n = 1) \<and> g_plaintext g = None \<and> \<not> g_manager g
    \<and> (if n = 0
       then (\<exists>hs. g_health g = Some hs \<and> hs_poller hs = P_done) \<and> g_oauth g = None \<and> \<not> tm_enabled (g_telemetry g)
       else g_health g = None \<and> reg = None)"
proof -
  show ?thesis using assms
  proof (cases rule: run_process_cases)
    case 1
    then show ?thesis by (simp add: no_statics_def)
  next
    case (2 g1 r w1)
    then show ?thesis using create_statics [OF 2(1)] by (simp add: no_statics_def)
  next
    case (3 g1 sv w1)
    have "g_telemetry g1 = snd (run_telemetry h version a ot no_telemetry)"
      using create_telemetry [OF 3(1)] by (simp add: no_statics_def)
    then have "\<not> tm_enabled (ShutdownTelemetry (g_telemetry g1))" using run_telemetry_state telemetry_off by metis
    then show ?thesis using 3 create_statics [OF 3(1)]
      by (auto simp: stop_server_def health_Shutdown_done)
  qed
qed


text \<open>The exit code as \<open>Startup\<close> has it, where nothing aborts.\<close>

fun exit_of :: "(int \<times> 'r \<times> statics) course \<Rightarrow> (string + int) option" where
  "exit_of (Back (n, r, g)) = Some (Inr n)"
| "exit_of (Raised e) = Some (Inl e)"
| "exit_of (Aborted e) = Some (Inl e)"
| "exit_of Forever = None"

lemma open_duckdb_result:
  "(case open_duckdb h A o1 f g of Back (r, g1) \<Rightarrow> Some r | _ \<Rightarrow> None) = start_duckdb h A o1 f"
  by (auto simp: open_duckdb_def start_duckdb_def Let_def rbind_def split: sum.split option.split prod.split)

text \<open>Nothing outside the program goes wrong: every file is readable, and Flight accepts what it is given.\<close>

definition undisturbed :: "('db, 'p, 'c, 'w, 'k) process_lib \<Rightarrow> bool" where
  "undisturbed P \<longleftrightarrow> (\<forall>p. fl_read_file (pl_front P) p \<noteq> None) \<and> (\<forall>s n i. is_ok (pl_location P s n i))
     \<and> (\<forall>fo. is_ok (pl_init P fo)) \<and> (\<forall>ss. is_ok (pl_signals P ss)) \<and> (\<forall>sv. is_ok (pl_serve P sv))"

lemma undisturbedD:
  assumes "undisturbed P"
  obtains location where "pl_location P s n i = ok location"
proof -
  have "is_ok (pl_location P s n i)" using assms by (simp add: undisturbed_def)
  then show thesis using that by (auto simp: is_ok_iff)
qed

lemma undisturbed_checks:
  assumes "undisturbed P"
  shows "\<exists>x. CHECK_OK (pl_init P fo) = Back x" "\<exists>x. CHECK_OK (pl_signals P ss) = Back x"
    "\<exists>x. CHECK_OK (pl_serve P sv) = Back x"
    "\<exists>x. CHECK_OK (FlightServerTlsCertificates (fl_read_file (pl_front P)) c k) = Back x"
    "\<exists>x. CHECK_OK (FlightServerMtlsCACertificate (fl_read_file (pl_front P)) c) = Back x"
proof -
  have readable: "\<exists>s. fl_read_file (pl_front P) p = Some s" for p using assms by (simp add: undisturbed_def)
  show "\<exists>x. CHECK_OK (FlightServerTlsCertificates (fl_read_file (pl_front P)) c k) = Back x"
    using readable [of c] readable [of k] by (auto simp: FlightServerTlsCertificates_def)
  show "\<exists>x. CHECK_OK (FlightServerMtlsCACertificate (fl_read_file (pl_front P)) c) = Back x"
    using readable [of c] by (auto simp: FlightServerMtlsCACertificate_def)
qed (use assms in \<open>simp_all add: undisturbed_def is_ok_iff\<close>)

text \<open>How the builder ends, up to what it builds.\<close>

fun end_of :: "('db, 'p, 'c, 'w) opened course \<Rightarrow> (string + bool) option" where
  "end_of (Back (r, g, w)) = Some (Inr (is_ok r))"
| "end_of (Raised e) = Some (Inl e)"
| "end_of (Aborted e) = Some (Inl e)"
| "end_of Forever = None"

lemma announce_ends:
  assumes "undisturbed P"
  shows "end_of (announce P o1 fo sv g w) = Some (Inr True)"
proof -
  obtain x where "CHECK_OK (pl_init P (fo\<lparr>fo_health_registered := True\<rparr>)) = Back x"
    using undisturbed_checks(1) [OF assms] by blast
  moreover obtain y where "CHECK_OK (pl_signals P [''SIGTERM'', ''SIGINT'']) = Back y"
    using undisturbed_checks(2) [OF assms] by blast
  ultimately show ?thesis by (simp add: announce_def split: prod.split)
qed

lemma builder_ends:
  assumes "undisturbed P" and "so_backend o1 = Duckdb"
  shows "end_of (FlightSQLServerBuilder P h o1 g w) =
    (case build_front (pl_front P) o1 of
       Inl e \<Rightarrow> Some (Inl e)
     | Inr (Inl e) \<Rightarrow> Some (Inr False)
     | Inr (Inr f) \<Rightarrow> map_option (\<lambda>r. Inr (is_ok r)) (start_duckdb h (pl_duck P) o1 f))"
proof -
  let ?t = "so_tls o1"
  obtain l where l: "pl_location P (if to_cert ?t \<noteq> [] then ''grpc+tls'' else ''grpc+tcp'') (bo_hostname (so_base o1))
      (bo_port (so_base o1)) = ok l" using undisturbedD [OF assms(1)] .
  obtain cs where cs: "(if to_cert ?t \<noteq> [] \<and> to_key ?t \<noteq> []
      then CHECK_OK (FlightServerTlsCertificates (fl_read_file (pl_front P)) (to_cert ?t) (to_key ?t)) else Back []) = Back cs"
    using undisturbed_checks(4) [OF assms(1)] by metis
  obtain ca where ca: "(if to_mtls_ca ?t \<noteq> []
      then CHECK_OK (FlightServerMtlsCACertificate (fl_read_file (pl_front P)) (to_mtls_ca ?t)) else Back []) = Back ca"
    using undisturbed_checks(5) [OF assms(1)] by metis
  have opens: "end_of (course_then (open_backend P h o1 f g w) (\<lambda>(r, g2, w1). case r of
        Inl e \<Rightarrow> Back (Inl e, g2, w1) | Inr sv \<Rightarrow> announce P o1 fo sv g2 w1))
      = map_option (\<lambda>r. Inr (is_ok r)) (start_duckdb h (pl_duck P) o1 f)" for f g fo
  proof -
    have "start_duckdb h (pl_duck P) o1 f = (case open_duckdb h (pl_duck P) o1 f g of Back (r, g1) \<Rightarrow> Some r | _ \<Rightarrow> None)"
      by (rule open_duckdb_result [symmetric])
    moreover have "\<forall>e. open_duckdb h (pl_duck P) o1 f g \<noteq> Aborted e \<and> open_duckdb h (pl_duck P) o1 f g \<noteq> Raised e"
      by (auto simp: open_duckdb_def Let_def split: sum.split option.split prod.split)
    ultimately show ?thesis
      by (cases "open_duckdb h (pl_duck P) o1 f g")
        (auto simp: open_backend_def assms(2) announce_ends [OF assms(1)] is_ok_def split: sum.split)
  qed
  show ?thesis
    unfolding FlightSQLServerBuilder_def Let_def l cs ca
    by (auto simp: build_front_def rbind_def opens split: sum.split)
qed

lemma resolve_options_backend: "resolve_options h o0 = ok o1 \<Longrightarrow> so_backend o1 = so_backend o0"
  by (auto simp: resolve_options_def rbind_ok_iff Let_def)

lemma run_process_alt:
  "run_process P h version license_status instr_licensed a ot g w = (case license_status of
        Inl e \<Rightarrow> Back (1, None, g)
      | Inr _ \<Rightarrow> if no_enabled (so_instr (run_options h a)) \<and> \<not> instr_licensed then Back (1, None, g)
               else course_then (CreateFlightSQLServer P h
                   ((run_options h a)\<lparr>so_telemetry := fst (run_telemetry h version a ot (g_telemetry g))\<rparr>)
                   (g\<lparr>g_telemetry := snd (run_telemetry h version a ot (g_telemetry g))\<rparr>) w) (\<lambda>(r, g1, w1). case r of
                 Inl e \<Rightarrow> Back (1, None, g1)
               | Inr sv \<Rightarrow> course_then (CHECK_OK (pl_serve P sv)) (\<lambda>_. case stop_server P sv g1 of (reg, g2) \<Rightarrow> Back (0, reg, g2))))"
  by (cases "run_telemetry h version a ot (g_telemetry g)"; cases license_status) (simp_all add: run_process_def Let_def)

text \<open>
  The detailed process implements the simple one: with the DuckDB backend, when nothing outside goes wrong, it has the
  exit code, the exception or the endless start that \<open>RunFlightSQLServer\<close> of \<open>Startup\<close> has, which knows no static
  variables, certificates, health service or telemetry.
\<close>

theorem process_refines_start:
  assumes "undisturbed P" and "so_backend (ra_options a) = Duckdb"
    and "fst (run_telemetry h version a ot (g_telemetry g)) = so_telemetry (run_options h a)"
  shows "exit_of (run_process P h version license_status instr_licensed a ot g w)
    = RunFlightSQLServer h (pl_front P) (pl_duck P) license_status instr_licensed a"
proof -
  let ?g = "g\<lparr>g_telemetry := snd (run_telemetry h version a ot (g_telemetry g))\<rparr>"
  have o0: "(run_options h a)\<lparr>so_telemetry := fst (run_telemetry h version a ot (g_telemetry g))\<rparr> = run_options h a"
    using assms(3) by simp
  have duck: "so_backend (run_options h a) = Duckdb" using assms(2) by (simp add: run_options_def Let_def)
  have stop: "exit_of (course_then c (\<lambda>(r, g1, w1). case r of Inl e \<Rightarrow> Back (1, None, g1)
        | Inr sv \<Rightarrow> course_then (CHECK_OK (pl_serve P sv)) (\<lambda>_. case stop_server P sv g1 of (reg, g2) \<Rightarrow> Back (0, reg, g2))))
      = map_option (map_sum id (\<lambda>b. if b then 0 else 1)) (end_of c)" for c
  proof (cases c)
    case (Back x)
    obtain r g1 w1 where x: "x = (r, g1, w1)" by (metis prod_cases3)
    show ?thesis
    proof (cases r)
      case (Inr sv)
      obtain u where "CHECK_OK (pl_serve P sv) = Back u" using undisturbed_checks(3) [OF assms(1)] by metis
      then show ?thesis using Back x Inr by (cases "stop_server P sv g1") simp
    qed (simp add: Back x)
  qed simp_all
  note run = run_process_alt [of P h version license_status instr_licensed a ot g w, unfolded o0]
  show ?thesis
  proof (cases "resolve_options h (run_options h a)")
    case (Inl e)
    then show ?thesis
      by (simp add: run RunFlightSQLServer_def Let_def CreateFlightSQLServer_def split: sum.split)
  next
    case (Inr o1)
    have "so_backend o1 = Duckdb" using resolve_options_backend [OF Inr] duck by simp
    from builder_ends [OF assms(1) this, of h ?g w] Inr show ?thesis
      unfolding run RunFlightSQLServer_def Let_def CreateFlightSQLServer_def
      by (cases license_status)
        (auto simp: stop is_ok_def option.map_comp comp_def intro!: option.map_cong0 split: sum.split)
  qed
qed

section \<open>The OAuth server\<close>

text \<open>
  With the SQLite backend the OAuth server is configured and its address announced to clients, but it is never started.
\<close>

lemma builder_ok:
  assumes "FlightSQLServerBuilder P h o1 g w = Back (Inr sv, g1, w1)"
  obtains f fo sv0 g2 w2 where "build_middleware (pl_front P) o1 = Inr (Inr f)"
    "open_backend P h o1 f (case fr_oauth f of None \<Rightarrow> g | Some c \<Rightarrow> g\<lparr>g_oauth := Some (c, False)\<rparr>) w = Back (Inr sv0, g2, w2)"
    "announce P o1 fo sv0 g2 w2 = Back (Inr sv, g1, w1)"
  using assms
  by (auto simp: FlightSQLServerBuilder_def Let_def elim!: course_thenE split: sum.split_asm prod.split_asm)

lemma announce_oauth: "announce P o1 fo sv g w = Back (r, g1, w1) \<Longrightarrow> g_oauth g1 = g_oauth g"
  by (auto simp: announce_def elim!: course_thenE split: prod.split_asm)

lemma sqlite_never_starts_oauth:
  assumes "so_backend o1 = Sqlite" and "FlightSQLServerBuilder P h o1 g w = Back (Inr sv, g1, w1)"
    and "uo_client_id (so_oauth o1) \<noteq> []"
  shows "\<exists>c f. build_middleware (pl_front P) o1 = Inr (Inr f) \<and> bf_oauth_url (fr_basic f) = effective_base_url o1
    \<and> g_oauth g1 = Some (c, False)"
  using assms(2)
proof (rule builder_ok)
  fix f fo sv0 g2 w2
  assume f: "build_middleware (pl_front P) o1 = Inr (Inr f)"
    and opened: "open_backend P h o1 f (case fr_oauth f of None \<Rightarrow> g | Some c \<Rightarrow> g\<lparr>g_oauth := Some (c, False)\<rparr>) w = Back (Inr sv0, g2, w2)"
    and announced: "announce P o1 fo sv0 g2 w2 = Back (Inr sv, g1, w1)"
  obtain bf oc where oc: "setup_oauth (pl_front P) o1 (setup_jwks (pl_front P) (so_token o1)) = ok oc" "fr_oauth f = oc"
    "fr_basic f = configure_basic (pl_front P) o1 (fst (setup_jwks (pl_front P) (so_token o1))) oc bf"
    using f by (auto simp: build_middleware_def xbind_def Let_def rbind_ok_iff split: sum.split_asm)
  from oc(1) have "oc \<noteq> None"
    using assms(3) by (auto simp: setup_oauth_def split: prod.split_asm if_split_asm)
  then obtain c where c: "oc = Some c" by blast
  have "g_oauth g2 = Some (c, False)"
    using opened oc(2) c by (auto simp: open_backend_def assms(1) elim!: course_thenE split: prod.split_asm)
  then show ?thesis
    using f announce_oauth [OF announced] oc(3) c by (simp add: configure_basic_def Let_def)
qed

text \<open>With DuckDB it listens whenever it is configured, even if the start fails afterwards.\<close>

lemma duckdb_starts_oauth:
  assumes "open_duckdb h A o1 f g = Back (Inr s, g1)" and "fr_oauth f = Some c"
  shows "\<exists>c1 tls. oauth_Start c = ok (c1, tls) \<and> g_oauth g1 = Some (c1, True)"
  using assms
  by (auto simp: open_duckdb_def Let_def set_instance_def rbind_ok_iff split: sum.split_asm option.split_asm prod.split_asm)

lemma failed_start_leaves_oauth:
  assumes "sa_create A o1 = ok d" and "fr_oauth f = Some c" and "oauth_Start c = ok (c1, tls)"
    and "open_duckdb h A o1 f g = Back (Inl e, g1)"
  shows "g_oauth g1 = Some (c1, True)"
  using assms
  by (auto simp: open_duckdb_def Let_def set_instance_def split: sum.split_asm option.split_asm prod.split_asm)

section \<open>Samples\<close>

definition sample_process ::
    "'db start_api \<Rightarrow> ('p, 'c, 'w) sqlite_server_lib \<Rightarrow> 'k registry \<Rightarrow> ('db, 'p, 'c, 'w, 'k) process_lib" where
  "sample_process A S reg =
     \<lparr>pl_front = sample_front_lib\<lparr>fl_read_file := (\<lambda>p. Some ''pem'')\<rparr>, pl_duck = A, pl_sqlite = S,
      pl_location = (\<lambda>s n i. ok (s @ ''://'' @ n)), pl_init = (\<lambda>fo. ok ()), pl_signals = (\<lambda>ss. ok ()),
      pl_listens = (\<lambda>a. True), pl_serve = (\<lambda>sv. ok ()), pl_registry = (\<lambda>sv. reg), pl_order = (\<lambda>sv. []),
      pl_health_events = (\<lambda>sv. [Poll (Some False)]), pl_last_check = Some True\<rparr>"

definition sample_database :: "string list start_api \<Rightarrow> string list start_api" where
  "sample_database A = A\<lparr>sa_create := (\<lambda>x. ok []), sa_query := (\<lambda>sql d. (None, d @ [sql]))\<rparr>"

definition sample_run :: run_arguments where
  "sample_run =
     \<lparr>ra_options = sample_options\<lparr>so_tls := \<lparr>to_cert = [], to_key = [], to_mtls_ca = []\<rparr>,
        so_token := \<lparr>ko_issuer = [], ko_audience = [], ko_cert = [], ko_jwks_uri = [], ko_default_role = [], ko_emails = []\<rparr>,
        so_oauth := \<lparr>uo_client_id = [], uo_client_secret = [], uo_scopes = [], uo_port = 0, uo_base_url = [],
                     uo_disable_tls = False\<rparr>\<rparr>,
      ra_log_level = [], ra_log_format = [], ra_access_log = [], ra_log_file = [], ra_query_log_level = [],
      ra_auth_log_level = [], ra_instrumentation = Some False, ra_allow_cross = Some False,
      ra_oauth_disable_tls = Some False, ra_otel_enabled = Some False, ra_license_file = []\<rparr>"

definition sample_otel :: otel_arguments where
  "sample_otel = \<lparr>oa_exporter = [], oa_endpoint = [], oa_service_name = [], oa_headers = []\<rparr>"

lemma sample_undisturbed: "undisturbed (sample_process A S reg)"
  by (simp add: undisturbed_def sample_process_def)

lemma sample_no_telemetry: "run_telemetry sample_host v sample_run sample_otel t = (False, t)"
  by (simp add: run_telemetry_def sample_run_def resolve_bool_env_def)

theorem process_refines_start_witness:
  "\<forall>A S reg w. exit_of (run_process (sample_process A S reg) sample_host ''1'' (ok ()) True sample_run sample_otel no_statics w)
     = RunFlightSQLServer sample_host (pl_front (sample_process A S reg)) (pl_duck (sample_process A S reg)) (ok ()) True sample_run"
proof (intro allI)
  fix A S reg w
  have "so_backend (ra_options sample_run) = Duckdb" by (simp add: sample_run_def sample_options_def)
  moreover have "\<not> so_telemetry (run_options sample_host sample_run)"
    by (simp add: sample_run_def run_options_def resolve_bool_env_def Let_def)
  ultimately show "exit_of (run_process (sample_process A S reg) sample_host ''1'' (ok ()) True sample_run sample_otel no_statics w)
     = RunFlightSQLServer sample_host (pl_front (sample_process A S reg)) (pl_duck (sample_process A S reg)) (ok ()) True sample_run"
    by (intro process_refines_start sample_undisturbed) (simp_all add: sample_no_telemetry)
qed

lemma sample_run_options:
  "\<exists>o1. resolve_options sample_host (run_options sample_host sample_run) = ok o1 \<and> so_backend o1 = Duckdb
     \<and> \<not> no_enabled (so_instr o1) \<and> so_tls o1 = \<lparr>to_cert = [], to_key = [], to_mtls_ca = []\<rparr>
     \<and> uo_client_id (so_oauth o1) = [] \<and> io_commands (so_init o1) = []
     \<and> bo_username (so_base o1) = ''ann'' \<and> ko_issuer (so_token o1) = [] \<and> ko_cert (so_token o1) = []
     \<and> ko_jwks_uri (so_token o1) = []"
proof -
  obtain b where b: "resolve_base sample_host sample_base = ok b" using sample_base_resolved by blast
  then have "bo_username b = ''ann''"
    by (auto simp: resolve_base_def sample_base_def rbind_ok_iff Let_def or_env_def or_default_def split: if_splits)
  with b show ?thesis
    by (simp add: resolve_options_def run_options_def sample_run_def sample_options_def resolve_tls_def resolve_init_def
        resolve_mtls_def resolve_token_def resolve_token_cert_def resolve_oauth_def check_oauth_def resolve_instr_def
        resolve_bool_env_def or_env_def or_default_def sample_host_def Let_def)
qed

lemma default_init_pieces: "list_all (\<lambda>c. c \<noteq> []) (split_init default_init_commands [])"
  by code_simp

lemma exec_seq_ok: "(\<And>c d. exec c d = (ok (), d @ [c])) \<Longrightarrow> exec_seq exec cs d = (ok (), d @ cs)"
  by (induction cs arbitrary: d) simp_all

theorem process_leaves_nothing_running_witness:
  "\<forall>A S reg w. \<exists>r g. run_process (sample_process (sample_database A) S reg) sample_host ''1'' (ok ()) True
       sample_run sample_otel no_statics w = Back (0, r, g) \<and> g_plaintext g = None \<and> \<not> tm_enabled (g_telemetry g)"
proof (intro allI)
  fix A S reg w
  let ?P = "sample_process (sample_database A) S reg"
  let ?run = "run_process ?P sample_host ''1'' (ok ()) True sample_run sample_otel no_statics w"
  obtain o1 where o1: "resolve_options sample_host (run_options sample_host sample_run) = ok o1" "so_backend o1 = Duckdb"
    "\<not> no_enabled (so_instr o1)" "so_tls o1 = \<lparr>to_cert = [], to_key = [], to_mtls_ca = []\<rparr>"
    "uo_client_id (so_oauth o1) = []" "io_commands (so_init o1) = []" "bo_username (so_base o1) = ''ann''"
    "ko_issuer (so_token o1) = []" "ko_cert (so_token o1) = []" "ko_jwks_uri (so_token o1) = []"
    using sample_run_options by blast
  obtain f where f: "build_middleware (pl_front ?P) o1 = Inr (Inr f)" "fr_oauth f = None"
    using o1 by (simp add: build_middleware_def xbind_def rbind_def BasicAuthServerMiddlewareFactory_def basic_config_of_def
        setup_jwks_def setup_oauth_def Let_def)
  have "exec_seq (server_ExecuteSql (sample_database A)) cs d = (ok (), d @ cs)" for cs d
    by (rule exec_seq_ok) (simp add: server_ExecuteSql_def sample_database_def)
  then obtain d where d: "run_init (server_ExecuteSql (sample_database A)) (split_init default_init_commands []) [] = Some (ok (), d)"
    using default_init_pieces by (simp add: run_init_upto)
  have "default_init_commands \<noteq> []" by (simp add: default_init_commands_def)
  with d have "RUN_INIT_COMMANDS (server_ExecuteSql (sample_database A)) default_init_commands [] = Some (ok (), d)"
    by (simp add: RUN_INIT_COMMANDS_def)
  then have "\<exists>s. start_duckdb sample_host (sample_database A) o1 f = Some (Inr s)"
    using o1 f(2) by (simp add: start_duckdb_def sample_database_def Let_def set_instance_def duckdb_init_commands_def
        start_instrumentation_def)
  moreover have duck: "pl_duck ?P = sample_database A" by (simp add: sample_process_def)
  ultimately have "end_of (FlightSQLServerBuilder ?P sample_host o1 no_statics w) = Some (Inr True)"
    by (auto simp: builder_ends [OF sample_undisturbed o1(2)] build_front_def rbind_def backend_check_def f o1 duck)
  then obtain sv g1 w1 where "FlightSQLServerBuilder ?P sample_host o1 no_statics w = Back (Inr sv, g1, w1)"
    by (cases "FlightSQLServerBuilder ?P sample_host o1 no_statics w") (auto simp: is_ok_iff)
  moreover have "(run_options sample_host sample_run)
      \<lparr>so_telemetry := fst (run_telemetry sample_host ''1'' sample_run sample_otel (g_telemetry no_statics))\<rparr>
      = run_options sample_host sample_run"
    unfolding sample_no_telemetry by (simp add: sample_run_def run_options_def resolve_bool_env_def Let_def)
  moreover have "no_statics
      \<lparr>g_telemetry := snd (run_telemetry sample_host ''1'' sample_run sample_otel (g_telemetry no_statics))\<rparr> = no_statics"
    unfolding sample_no_telemetry by simp
  moreover have "pl_serve ?P sv = ok ()" by (simp add: sample_process_def)
  moreover obtain r g where "stop_server ?P sv g1 = (r, g)" by (metis surj_pair)
  ultimately have run: "?run = Back (0, r, g)" by (simp add: run_process_alt CreateFlightSQLServer_def o1(1))
  from process_leaves_nothing_running [OF run] run show "\<exists>r g. ?run = Back (0, r, g) \<and> g_plaintext g = None
      \<and> \<not> tm_enabled (g_telemetry g)" by auto
qed

end
