(* ===== verification/SqlInput.thy ===== *)
theory SqlInput
  imports Prelude
begin

text \<open>
  How the client cuts what it reads into statements (\<open>src/src/client/sql_processor.cpp\<close>): the state of
  \<open>SqlProcessor\<close>, the scan of a new line with its look-ahead, the statement and the rest of the line
  behind its semicolon, and the two classifications by first word. The reference is a lexer that reads a
  whole text from left to right; the lemmas show that the line-wise scan is this lexer.
\<close>

section \<open>The processor\<close>

record sql_processor =
  sp_buffer :: string
  semicolon_pos :: "nat option"
  in_single_quote :: bool
  in_double_quote :: bool
  in_block_comment :: bool

definition new_processor :: sql_processor where
  "new_processor = \<lparr>sp_buffer = [], semicolon_pos = None, in_single_quote = False, in_double_quote = False,
     in_block_comment = False\<rparr>"

text \<open>
  The loop of \<open>AccumulateLine\<close> at index \<open>i\<close>, where the buffer continues with the given text; \<open>True\<close>: a
  statement is complete. A step over two characters ends the loop when the second is not there.
\<close>

function scan :: "nat \<Rightarrow> string \<Rightarrow> sql_processor \<Rightarrow> bool \<times> sql_processor" where
  "scan i [] sp = (False, sp)"
| "scan i (c # cs) sp =
     (let nxt = (case cs of [] \<Rightarrow> CHR 0x00 | d # ds \<Rightarrow> d)
      in if in_block_comment sp
         then (if c = CHR ''*'' \<and> nxt = CHR ''/''
               then scan (i + 2) (drop 1 cs) (sp\<lparr>in_block_comment := False\<rparr>)
               else scan (i + 1) cs sp)
         else if in_single_quote sp
         then (if c = squote \<and> nxt = squote then scan (i + 2) (drop 1 cs) sp
               else if c = squote then scan (i + 1) cs (sp\<lparr>in_single_quote := False\<rparr>)
               else scan (i + 1) cs sp)
         else if in_double_quote sp
         then (if c = dquote \<and> nxt = dquote then scan (i + 2) (drop 1 cs) sp
               else if c = dquote then scan (i + 1) cs (sp\<lparr>in_double_quote := False\<rparr>)
               else scan (i + 1) cs sp)
         else if c = squote then scan (i + 1) cs (sp\<lparr>in_single_quote := True\<rparr>)
         else if c = dquote then scan (i + 1) cs (sp\<lparr>in_double_quote := True\<rparr>)
         else if c = CHR ''-'' \<and> nxt = CHR ''-'' then (False, sp)
         else if c = CHR ''/'' \<and> nxt = CHR ''*''
         then scan (i + 2) (drop 1 cs) (sp\<lparr>in_block_comment := True\<rparr>)
         else if c = CHR '';'' then (True, sp\<lparr>semicolon_pos := Some i\<rparr>)
         else scan (i + 1) cs sp)"
  by pat_completeness auto
termination by (relation "measure (\<lambda>(i, s, sp). length s)") auto

definition AccumulateLine :: "string \<Rightarrow> sql_processor \<Rightarrow> bool \<times> sql_processor" where
  "AccumulateLine line sp =
     (let b = (if sp_buffer sp \<noteq> [] then sp_buffer sp @ [newline] else []) @ line
      in scan (length b - length line) line (sp\<lparr>sp_buffer := b\<rparr>))"

definition GetStatement :: "sql_processor \<Rightarrow> string" where
  "GetStatement sp =
     trim_right (case semicolon_pos sp of Some p \<Rightarrow> take p (sp_buffer sp) | None \<Rightarrow> sp_buffer sp)"

definition line_blank :: "char \<Rightarrow> bool" where
  "line_blank c \<longleftrightarrow> c \<in> {CHR '' '', tabchar, newline, creturn}"

definition GetRemainder :: "sql_processor \<Rightarrow> string" where
  "GetRemainder sp =
     (case semicolon_pos sp of
        None \<Rightarrow> []
      | Some p \<Rightarrow> if p + 1 < length (sp_buffer sp) then dropWhile line_blank (drop (p + 1) (sp_buffer sp)) else [])"

definition Reset :: "sql_processor \<Rightarrow> sql_processor" where
  "Reset sp = sp\<lparr>sp_buffer := [], semicolon_pos := None, in_single_quote := False, in_double_quote := False,
     in_block_comment := False\<rparr>"

definition IsAccumulating :: "sql_processor \<Rightarrow> bool" where
  "IsAccumulating sp \<longleftrightarrow> sp_buffer sp \<noteq> []"

section \<open>Classification by first word\<close>

definition first_word_in :: "string list \<Rightarrow> string \<Rightarrow> bool" where
  "first_word_in ws sql =
     (let t = dropWhile line_blank sql
      in t \<noteq> [] \<and> list_ex (\<lambda>w. prefix w (to_upper (take 10 t))) ws)"

definition IsUpdateStatement :: "string \<Rightarrow> bool" where
  "IsUpdateStatement =
     first_word_in [''INSERT'', ''UPDATE'', ''DELETE'', ''CREATE'', ''DROP'', ''ALTER'', ''BEGIN'', ''COMMIT'',
       ''ROLLBACK'', ''SET'', ''LOAD'', ''INSTALL'', ''COPY'', ''ATTACH'', ''DETACH'', ''USE'']"

definition IsDdlStatement :: "string \<Rightarrow> bool" where
  "IsDdlStatement = first_word_in [''CREATE'', ''DROP'', ''ALTER'', ''ATTACH'', ''DETACH'', ''USE'']"

section \<open>The reference lexer\<close>

datatype lex = Plain | Single | Double | Block | Line_comment

text \<open>
  One character and the next one: the new state, and whether the next one is consumed as well. A semicolon
  in state \<open>Plain\<close> ends a statement.
\<close>

definition lex_step :: "lex \<Rightarrow> char \<Rightarrow> char option \<Rightarrow> lex \<times> bool" where
  "lex_step l c d =
     (case l of
        Block \<Rightarrow> if c = CHR ''*'' \<and> d = Some (CHR ''/'') then (Plain, True) else (Block, False)
      | Single \<Rightarrow> if c \<noteq> squote then (Single, False) else if d = Some squote then (Single, True) else (Plain, False)
      | Double \<Rightarrow> if c \<noteq> dquote then (Double, False) else if d = Some dquote then (Double, True) else (Plain, False)
      | Line_comment \<Rightarrow> if c = newline then (Plain, False) else (Line_comment, False)
      | Plain \<Rightarrow> if c = squote then (Single, False) else if c = dquote then (Double, False)
                 else if c = CHR ''-'' \<and> d = Some (CHR ''-'') then (Line_comment, True)
                 else if c = CHR ''/'' \<and> d = Some (CHR ''*'') then (Block, True) else (Plain, False))"

definition head :: "string \<Rightarrow> char option" where
  "head s = (case s of [] \<Rightarrow> None | c # cs \<Rightarrow> Some c)"

text \<open>The statements of a text that starts in a state; \<open>acc\<close> is the current one so far, reversed.\<close>

function lex_split :: "lex \<Rightarrow> string \<Rightarrow> string \<Rightarrow> string list" where
  "lex_split l [] acc = [rev acc]"
| "lex_split l (c # cs) acc =
     (if l = Plain \<and> c = CHR '';'' then rev acc # lex_split Plain cs []
      else case lex_step l c (head cs) of
             (l', False) \<Rightarrow> lex_split l' cs (c # acc)
           | (l', True) \<Rightarrow> lex_split l' (drop 1 cs) (rev (take 1 cs) @ c # acc))"
  by pat_completeness auto
termination by (relation "measure (\<lambda>(l, s, acc). length s)") auto

section \<open>The scan is the lexer\<close>

definition lex_of :: "sql_processor \<Rightarrow> lex" where
  "lex_of sp = (if in_block_comment sp then Block else if in_single_quote sp then Single
     else if in_double_quote sp then Double else Plain)"

text \<open>At most one of the flags is set, and no semicolon has been found.\<close>

definition scanning :: "sql_processor \<Rightarrow> bool" where
  "scanning sp \<longleftrightarrow> semicolon_pos sp = None
     \<and> \<not> (in_block_comment sp \<and> in_single_quote sp) \<and> \<not> (in_block_comment sp \<and> in_double_quote sp)
     \<and> \<not> (in_single_quote sp \<and> in_double_quote sp)"

text \<open>What follows a line: nothing, or the next line.\<close>

definition line_end :: "string \<Rightarrow> bool" where
  "line_end r \<longleftrightarrow> r = [] \<or> hd r = newline"

lemma head_simps [simp]: "head [] = None" "head (c # cs) = Some c"
  by (simp_all add: head_def)

lemma lex_comment_line: "newline \<notin> set s \<Longrightarrow> lex_split Line_comment (s @ r) acc = lex_split Line_comment r (rev s @ acc)"
  by (induction s arbitrary: acc) (auto simp: lex_step_def)

lemma lex_comment_end: "line_end r \<Longrightarrow> lex_split Line_comment r acc = lex_split Plain r acc"
  by (cases r) (auto simp: line_end_def lex_step_def)

lemma lex_newline:
  assumes "scanning sp"
  shows "lex_split (lex_of sp) (newline # r) acc = lex_split (lex_of sp) r (newline # acc)"
  using assms by (auto simp: lex_of_def lex_step_def scanning_def)

definition set_lex :: "lex \<Rightarrow> sql_processor \<Rightarrow> sql_processor" where
  "set_lex l sp = sp\<lparr>in_block_comment := (l = Block), in_single_quote := (l = Single), in_double_quote := (l = Double)\<rparr>"

lemma set_lex_simps [simp]:
  "sp_buffer (set_lex l sp) = sp_buffer sp" "semicolon_pos (set_lex l sp) = semicolon_pos sp"
  "scanning sp \<Longrightarrow> scanning (set_lex l sp)" "l \<noteq> Line_comment \<Longrightarrow> lex_of (set_lex l sp) = l"
  by (cases l; simp add: set_lex_def scanning_def lex_of_def)+

lemma set_lex_same: "scanning sp \<Longrightarrow> set_lex (lex_of sp) sp = sp"
  by (cases sp) (auto simp: set_lex_def lex_of_def scanning_def)

lemma set_lex_flags:
  assumes "scanning sp"
  shows "lex_of sp = Plain \<Longrightarrow> set_lex Single sp = sp\<lparr>in_single_quote := True\<rparr>"
    and "lex_of sp = Plain \<Longrightarrow> set_lex Double sp = sp\<lparr>in_double_quote := True\<rparr>"
    and "lex_of sp = Plain \<Longrightarrow> set_lex Block sp = sp\<lparr>in_block_comment := True\<rparr>"
    and "lex_of sp = Single \<Longrightarrow> set_lex Plain sp = sp\<lparr>in_single_quote := False\<rparr>"
    and "lex_of sp = Double \<Longrightarrow> set_lex Plain sp = sp\<lparr>in_double_quote := False\<rparr>"
    and "lex_of sp = Block \<Longrightarrow> set_lex Plain sp = sp\<lparr>in_block_comment := False\<rparr>"
  using assms by (cases sp; auto simp: set_lex_def lex_of_def scanning_def split: if_splits)+

lemma lex_of_flags:
  assumes "scanning sp"
  shows "in_block_comment sp \<longleftrightarrow> lex_of sp = Block" "in_single_quote sp \<longleftrightarrow> lex_of sp = Single"
    "in_double_quote sp \<longleftrightarrow> lex_of sp = Double"
  using assms by (auto simp: lex_of_def scanning_def)

lemma lex_of_no_comment [simp]: "lex_of sp \<noteq> Line_comment"
  by (simp add: lex_of_def)

lemma next_char: "e \<noteq> CHR 0x00 \<Longrightarrow> head cs = Some e \<longleftrightarrow> (case cs of [] \<Rightarrow> CHR 0x00 | d # ds \<Rightarrow> d) = e"
  by (cases cs) auto

text \<open>One step of the scan is one step of the lexer; the rest of a line behind \<open>--\<close> is skipped.\<close>

lemma scan_step:
  assumes "scanning sp"
  shows "scan i (c # cs) sp =
    (if lex_of sp = Plain \<and> c = CHR '';'' then (True, sp\<lparr>semicolon_pos := Some i\<rparr>)
     else case lex_step (lex_of sp) c (head cs) of
            (l, skip) \<Rightarrow> if l = Line_comment then (False, sp)
              else if skip then scan (i + 2) (drop 1 cs) (set_lex l sp) else scan (i + 1) cs (set_lex l sp))"
  using set_lex_same [OF assms] lex_of_no_comment [of sp]
  by (cases "lex_of sp")
    (simp_all del: scan.simps lex_of_no_comment add: scan.simps(2) Let_def lex_of_flags [OF assms] set_lex_flags [OF assms] lex_step_def next_char)

text \<open>The look-ahead sees what the lexer sees, although it ends with the line.\<close>

lemma look_ahead: "line_end r \<Longrightarrow> lex_step l c (head (cs @ r)) = lex_step l c (head cs)"
  by (cases cs; cases r; cases l) (auto simp: line_end_def lex_step_def)

lemma lex_step_skips: "lex_step l c d = (l', True) \<Longrightarrow> \<exists>e. d = Some e"
  by (cases l) (auto simp: lex_step_def split: if_splits)

lemma lex_step_comment: "lex_step l c d = (Line_comment, b) \<Longrightarrow> l \<noteq> Line_comment \<Longrightarrow> b \<and> l = Plain"
  by (cases l) (auto simp: lex_step_def split: if_splits)

lemma scan_keeps_buffer [simp]: "sp_buffer (snd (scan i s sp)) = sp_buffer sp"
  by (induction i s sp rule: scan.induct) (simp_all add: Let_def)

lemma scan_cases:
  assumes "scan i (c # cs) sp = (True, sp')"
  shows "semicolon_pos sp' = Some i \<or> (\<exists>sp1. scan (i + 1) cs sp1 = (True, sp')) \<or> (\<exists>sp1. scan (i + 2) (drop 1 cs) sp1 = (True, sp'))"
  using assms unfolding scan.simps(2) Let_def by (simp only: split: if_splits) auto

lemma scan_position: "scan i s sp = (True, sp') \<Longrightarrow> \<exists>q. semicolon_pos sp' = Some q \<and> i \<le> q \<and> q < i + length s"
proof (induction "length s" arbitrary: i s sp rule: less_induct)
  case less
  then obtain c cs where s: "s = c # cs" by (cases s) auto
  consider "semicolon_pos sp' = Some i" | sp1 where "scan (i + 1) cs sp1 = (True, sp')"
    | sp1 where "scan (i + 2) (drop 1 cs) sp1 = (True, sp')"
    using scan_cases [OF less.prems [unfolded s]] by blast
  then show ?case
  proof cases
    case 1
    then show ?thesis using s by simp
  next
    case 2
    then show ?thesis using less.hyps [of cs] s by fastforce
  next
    case 3
    then have "cs \<noteq> []" by auto
    then show ?thesis using less.hyps [of "drop 1 cs"] 3 s by (cases cs) fastforce+
  qed
qed

theorem scan_lex:
  assumes "newline \<notin> set s" and "line_end r" and "scanning sp"
  shows "case scan i s sp of
      (False, sp') \<Rightarrow> scanning sp' \<and> lex_split (lex_of sp) (s @ r) acc = lex_split (lex_of sp') r (rev s @ acc)
    | (True, sp') \<Rightarrow> (\<exists>p < length s. semicolon_pos sp' = Some (i + p)
        \<and> lex_split (lex_of sp) (s @ r) acc = (rev acc @ take p s) # lex_split Plain (drop (p + 1) s @ r) [])"
  using assms(1,3)
proof (induction "length s" arbitrary: i s sp acc rule: less_induct)
  case less
  show ?case
  proof (cases s)
    case Nil
    then show ?thesis using less.prems by simp
  next
    case (Cons c cs)
    obtain l skip where step: "lex_step (lex_of sp) c (head cs) = (l, skip)" by (rule prod.exhaust)
    have ref: "lex_split (lex_of sp) (s @ r) acc = (case lex_step (lex_of sp) c (head cs) of
        (l', False) \<Rightarrow> lex_split l' (cs @ r) (c # acc)
      | (l', True) \<Rightarrow> lex_split l' (drop 1 (cs @ r)) (rev (take 1 (cs @ r)) @ c # acc))"
      if "\<not> (lex_of sp = Plain \<and> c = CHR '';'')"
      using that Cons by (simp only: append_Cons lex_split.simps look_ahead [OF assms(2)] if_False)
    have sc: "scan i s sp = (case lex_step (lex_of sp) c (head cs) of
        (l, skip) \<Rightarrow> if l = Line_comment then (False, sp)
          else if skip then scan (i + 2) (drop 1 cs) (set_lex l sp) else scan (i + 1) cs (set_lex l sp))"
      if "\<not> (lex_of sp = Plain \<and> c = CHR '';'')"
      using that Cons scan_step [OF less.prems(2), of i c cs] by (simp only: if_False)
    consider (semi) "lex_of sp = Plain" "c = CHR '';''"
      | (comment) "\<not> (lex_of sp = Plain \<and> c = CHR '';'')" "l = Line_comment"
      | (two) "\<not> (lex_of sp = Plain \<and> c = CHR '';'')" "l \<noteq> Line_comment" skip
      | (one) "\<not> (lex_of sp = Plain \<and> c = CHR '';'')" "l \<noteq> Line_comment" "\<not> skip"
      by blast
    then show ?thesis
    proof cases
      case semi
      then show ?thesis using Cons scan_step [OF less.prems(2), of i c cs] by simp
    next
      case comment
      then have l: "skip" "lex_of sp = Plain"
        using lex_step_comment [of "lex_of sp" c "head cs" skip] step by auto
      then obtain e es where "cs = e # es" using lex_step_skips step by (cases cs) force+
      then show ?thesis
        using comment(2) l less.prems Cons step ref [OF comment(1)] sc [OF comment(1)]
        by (simp add: lex_comment_line lex_comment_end [OF assms(2)])
    next
      case two
      then obtain e es where cs: "cs = e # es" using lex_step_skips step by (cases cs) force+
      obtain b sp' where s': "scan (i + 2) es (set_lex l sp) = (b, sp')" by (rule prod.exhaust)
      have IH: "case scan (i + 2) es (set_lex l sp) of
          (False, sp') \<Rightarrow> scanning sp' \<and> lex_split (lex_of (set_lex l sp)) (es @ r) (e # c # acc)
             = lex_split (lex_of sp') r (rev es @ e # c # acc)
        | (True, sp') \<Rightarrow> (\<exists>p < length es. semicolon_pos sp' = Some (i + 2 + p)
            \<and> lex_split (lex_of (set_lex l sp)) (es @ r) (e # c # acc)
              = (rev (e # c # acc) @ take p es) # lex_split Plain (drop (p + 1) es @ r) [])"
        by (rule less.hyps) (use less.prems Cons cs in auto)
      have eqs: "scan i s sp = (b, sp')" "lex_split (lex_of sp) (s @ r) acc = lex_split l (es @ r) (e # c # acc)"
        using two(2,3) cs step ref [OF two(1)] sc [OF two(1)] s' by simp_all
      show ?thesis
      proof (cases b)
        case True
        obtain p where "p < length es" "semicolon_pos sp' = Some (i + 2 + p)"
          "lex_split l (es @ r) (e # c # acc) = (rev (e # c # acc) @ take p es) # lex_split Plain (drop (p + 1) es @ r) []"
          using IH s' True two(2) less.prems(2) by auto
        then show ?thesis
          unfolding eqs using True Cons cs by (auto intro!: exI [of _ "Suc (Suc p)"])
      next
        case False
        then show ?thesis
          unfolding eqs using IH s' Cons cs less.prems(2) two(2) by simp
      qed
    next
      case one
      obtain b sp' where s': "scan (i + 1) cs (set_lex l sp) = (b, sp')" by (rule prod.exhaust)
      have IH: "case scan (i + 1) cs (set_lex l sp) of
          (False, sp') \<Rightarrow> scanning sp' \<and> lex_split (lex_of (set_lex l sp)) (cs @ r) (c # acc)
             = lex_split (lex_of sp') r (rev cs @ c # acc)
        | (True, sp') \<Rightarrow> (\<exists>p < length cs. semicolon_pos sp' = Some (i + 1 + p)
            \<and> lex_split (lex_of (set_lex l sp)) (cs @ r) (c # acc)
              = (rev (c # acc) @ take p cs) # lex_split Plain (drop (p + 1) cs @ r) [])"
        by (rule less.hyps) (use less.prems Cons in auto)
      have eqs: "scan i s sp = (b, sp')" "lex_split (lex_of sp) (s @ r) acc = lex_split l (cs @ r) (c # acc)"
        using one(2,3) step ref [OF one(1)] sc [OF one(1)] s' by simp_all
      show ?thesis
      proof (cases b)
        case True
        obtain p where "p < length cs" "semicolon_pos sp' = Some (i + 1 + p)"
          "lex_split l (cs @ r) (c # acc) = (rev (c # acc) @ take p cs) # lex_split Plain (drop (p + 1) cs @ r) []"
          using IH s' True one(2) less.prems(2) by auto
        then show ?thesis
          unfolding eqs using True Cons by (auto intro!: exI [of _ "Suc p"])
      next
        case False
        then show ?thesis
          unfolding eqs using IH s' Cons less.prems(2) one(2) by simp
      qed
    qed
  qed
qed

section \<open>Lines and statements\<close>

definition separator :: "sql_processor \<Rightarrow> string" where
  "separator sp = (if sp_buffer sp \<noteq> [] then [newline] else [])"

lemma AccumulateLine_eq:
  "AccumulateLine line sp = scan (length (sp_buffer sp @ separator sp)) line
     (sp\<lparr>sp_buffer := sp_buffer sp @ separator sp @ line\<rparr>)"
  by (simp add: AccumulateLine_def separator_def Let_def)

lemma scanning_buffer [simp]: "scanning (sp\<lparr>sp_buffer := b\<rparr>) = scanning sp" "lex_of (sp\<lparr>sp_buffer := b\<rparr>) = lex_of sp"
  by (simp_all add: scanning_def lex_of_def)

lemma AccumulateLine_buffer: "AccumulateLine line sp = (b, sp') \<Longrightarrow> sp_buffer sp' = sp_buffer sp @ separator sp @ line"
  using scan_keeps_buffer by (metis AccumulateLine_eq snd_conv sql_processor.select_convs(1) sql_processor.surjective
      sql_processor.update_convs(1))

lemma AccumulateLine_lex:
  assumes "newline \<notin> set line" and "line_end r" and "scanning sp" and "AccumulateLine line sp = (b, sp')"
  shows "if b
    then \<exists>p < length line. GetStatement sp' = trim_right (sp_buffer sp @ separator sp @ take p line)
      \<and> GetRemainder sp' = dropWhile line_blank (drop (p + 1) line)
      \<and> lex_split (lex_of sp) (separator sp @ line @ r) (rev (sp_buffer sp))
        = (sp_buffer sp @ separator sp @ take p line) # lex_split Plain (drop (p + 1) line @ r) []
    else scanning sp'
      \<and> lex_split (lex_of sp) (separator sp @ line @ r) (rev (sp_buffer sp)) = lex_split (lex_of sp') r (rev (sp_buffer sp'))"
proof -
  let ?i = "length (sp_buffer sp @ separator sp)"
  let ?sp = "sp\<lparr>sp_buffer := sp_buffer sp @ separator sp @ line\<rparr>"
  have buffer: "sp_buffer sp' = sp_buffer sp @ separator sp @ line" by (rule AccumulateLine_buffer [OF assms(4)])
  have start: "lex_split (lex_of sp) (separator sp @ line @ r) (rev (sp_buffer sp))
      = lex_split (lex_of sp) (line @ r) (rev (sp_buffer sp @ separator sp))"
    using lex_newline [OF assms(3)] by (simp add: separator_def del: lex_split.simps)
  have spec: "case scan ?i line ?sp of
      (False, sp') \<Rightarrow> scanning sp' \<and> lex_split (lex_of ?sp) (line @ r) (rev (sp_buffer sp @ separator sp))
        = lex_split (lex_of sp') r (rev line @ rev (sp_buffer sp @ separator sp))
    | (True, sp') \<Rightarrow> (\<exists>p < length line. semicolon_pos sp' = Some (?i + p)
        \<and> lex_split (lex_of ?sp) (line @ r) (rev (sp_buffer sp @ separator sp))
          = (rev (rev (sp_buffer sp @ separator sp)) @ take p line) # lex_split Plain (drop (p + 1) line @ r) [])"
    by (rule scan_lex) (use assms in auto)
  show ?thesis
  proof (cases b)
    case True
    then obtain p where p: "p < length line" "semicolon_pos sp' = Some (?i + p)"
      "lex_split (lex_of sp) (line @ r) (rev (sp_buffer sp @ separator sp))
        = (sp_buffer sp @ separator sp @ take p line) # lex_split Plain (drop (p + 1) line @ r) []"
      using spec assms(4) unfolding AccumulateLine_eq [symmetric] by auto
    then have "GetRemainder sp' = dropWhile line_blank (drop (p + 1) line)"
      by (cases "p + 1 < length line") (simp_all add: GetRemainder_def buffer)
    then show ?thesis
      using p True unfolding start by (auto simp: buffer GetStatement_def intro!: exI [of _ p])
  next
    case False
    then show ?thesis
      using spec assms(4) unfolding AccumulateLine_eq [symmetric] start by (simp add: buffer)
  qed
qed

lemma lex_split_acc: "lex_split l s acc = (rev acc @ hd (lex_split l s [])) # tl (lex_split l s [])"
proof (induction "length s" arbitrary: l s acc rule: less_induct)
  case less
  show ?case
  proof (cases s)
    case (Cons c cs)
    obtain l' b where step: "lex_step l c (head cs) = (l', b)" by (rule prod.exhaust)
    show ?thesis
    proof (cases b)
      case True
      then show ?thesis
        using less [of "drop 1 cs" l' "rev (take 1 cs) @ c # acc"] less [of "drop 1 cs" l' "rev (take 1 cs) @ [c]"]
          Cons step by simp
    next
      case False
      then show ?thesis
        using less [of cs l' "c # acc"] less [of cs l' "[c]"] Cons step by simp
    qed
  qed simp
qed

text \<open>The text behind a semicolon is shorter than the line.\<close>

lemma GetRemainder_shorter:
  assumes "AccumulateLine line sp = (True, sp')"
  shows "length (GetRemainder sp') < length line"
proof -
  have buffer: "sp_buffer sp' = sp_buffer sp @ separator sp @ line" by (rule AccumulateLine_buffer [OF assms])
  obtain q where "semicolon_pos sp' = Some q" "length (sp_buffer sp @ separator sp) \<le> q"
    "q < length (sp_buffer sp @ separator sp) + length line"
    using scan_position assms unfolding AccumulateLine_eq by blast
  moreover have "length (dropWhile line_blank (drop (q + 1) (sp_buffer sp'))) \<le> length (drop (q + 1) (sp_buffer sp'))"
    by (rule length_dropWhile_le)
  ultimately show ?thesis by (auto simp: GetRemainder_def buffer)
qed

end
