(* ===== verification/ClientConfig.thy ===== *)
theory ClientConfig
  imports Prelude
begin

text \<open>
  The configuration of the client (\<open>src/src/client/client_config.hpp\<close>, \<open>client_config.cpp\<close>) and how
  \<open>main.cpp\<close> makes it from the parsed command line, the environment and the terminal. Boost's parser is
  not part of the model: its result is the record of the given options.
\<close>

section \<open>The configuration\<close>

datatype output_mode =
    TABLE | BOX | CSV | TABS | JSON | JSONLINES | MARKDOWN | LINE | LIST | HTML | LATEX | INSERT | QUOTE | ASCII | TRASH

definition OutputModeToString :: "output_mode \<Rightarrow> string" where
  "OutputModeToString m =
     (case m of TABLE \<Rightarrow> ''table'' | BOX \<Rightarrow> ''box'' | CSV \<Rightarrow> ''csv'' | TABS \<Rightarrow> ''tabs'' | JSON \<Rightarrow> ''json''
      | JSONLINES \<Rightarrow> ''jsonlines'' | MARKDOWN \<Rightarrow> ''markdown'' | LINE \<Rightarrow> ''line'' | LIST \<Rightarrow> ''list'' | HTML \<Rightarrow> ''html''
      | LATEX \<Rightarrow> ''latex'' | INSERT \<Rightarrow> ''insert'' | QUOTE \<Rightarrow> ''quote'' | ASCII \<Rightarrow> ''ascii'' | TRASH \<Rightarrow> ''trash'')"

definition output_modes :: "output_mode list" where
  "output_modes = [TABLE, BOX, CSV, TABS, JSON, JSONLINES, MARKDOWN, LINE, LIST, HTML, LATEX, INSERT, QUOTE, ASCII, TRASH]"

definition OutputModeFromString :: "string \<Rightarrow> output_mode option" where
  "OutputModeFromString name = find (\<lambda>m. OutputModeToString m = to_lower name) output_modes"

text \<open>Where output goes: the standard output, the file of \<open>--output\<close>, or the \<open>n\<close>-th file a command opened.\<close>

datatype out_stream = Stdout | OptionFile | CommandFile nat

record connection_config =
  cn_host :: string
  cn_port :: int
  cn_username :: string
  cn_password :: string
  cn_password_provided :: bool
  cn_use_tls :: bool
  cn_tls_roots :: string
  cn_tls_skip_verify :: bool
  cn_mtls_cert :: string
  cn_mtls_key :: string
  cn_external :: bool
  cn_oauth_port :: int

record script_config =
  sc_command :: "string option"
  sc_input_file :: "string option"
  sc_output_file :: "string option"
  sc_init_file :: "string option"
  sc_no_init :: bool

record display_config =
  dc_mode :: output_mode
  dc_headers :: bool
  dc_null :: string
  dc_separator_col :: string
  dc_separator_row :: string
  dc_insert_table :: string
  dc_max_rows :: int
  dc_max_width :: int
  dc_auto_width :: bool

record client_config =
  cc_conn :: connection_config
  cc_script :: script_config
  cc_display :: display_config
  cc_timer :: bool
  cc_quiet :: bool
  cc_echo :: bool
  cc_bail :: bool
  cc_interactive :: bool
  cc_main_prompt :: string
  cc_continuation_prompt :: string
  cc_output :: out_stream

definition default_connection :: connection_config where
  "default_connection =
     \<lparr>cn_host = ''localhost'', cn_port = 31337, cn_username = [], cn_password = [], cn_password_provided = False,
      cn_use_tls = False, cn_tls_roots = [], cn_tls_skip_verify = False, cn_mtls_cert = [], cn_mtls_key = [],
      cn_external = False, cn_oauth_port = 31339\<rparr>"

definition default_config :: client_config where
  "default_config =
     \<lparr>cc_conn = default_connection,
      cc_script = \<lparr>sc_command = None, sc_input_file = None, sc_output_file = None, sc_init_file = None, sc_no_init = False\<rparr>,
      cc_display = \<lparr>dc_mode = BOX, dc_headers = True, dc_null = ''NULL'', dc_separator_col = ''|'',
        dc_separator_row = [newline], dc_insert_table = ''table'', dc_max_rows = 0, dc_max_width = 0, dc_auto_width = False\<rparr>,
      cc_timer = False, cc_quiet = False, cc_echo = False, cc_bail = False, cc_interactive = False,
      cc_main_prompt = ''gizmosql> '', cc_continuation_prompt = ''       -> '', cc_output = Stdout\<rparr>"

section \<open>Environment variables\<close>

text \<open>\<open>env\<close> gives the empty string for a variable that is not set, which \<open>get_env\<close> treats alike.\<close>

type_synonym environment = "string \<Rightarrow> string"

definition port_from_env :: "environment \<Rightarrow> string \<Rightarrow> int \<Rightarrow> int \<Rightarrow> int" where
  "port_from_env env name d p =
     (if p = d \<and> env name \<noteq> [] then (case stoi (env name) of None \<Rightarrow> p | Some q \<Rightarrow> q) else p)"

definition ResolveEnvironmentVariables :: "environment \<Rightarrow> connection_config \<Rightarrow> connection_config" where
  "ResolveEnvironmentVariables env c =
     (let password = (if \<not> cn_password_provided c \<and> env ''GIZMOSQL_PASSWORD'' \<noteq> []
                      then Some (env ''GIZMOSQL_PASSWORD'') else None)
      in c\<lparr>cn_host := (if cn_host c = ''localhost'' \<and> env ''GIZMOSQL_HOST'' \<noteq> [] then env ''GIZMOSQL_HOST'' else cn_host c),
           cn_port := port_from_env env ''GIZMOSQL_PORT'' 31337 (cn_port c),
           cn_username := (if cn_username c = [] then env ''GIZMOSQL_USER'' else cn_username c),
           cn_password := (case password of None \<Rightarrow> cn_password c | Some p \<Rightarrow> p),
           cn_password_provided := (cn_password_provided c \<or> password \<noteq> None),
           cn_use_tls := (cn_use_tls c \<or> env ''GIZMOSQL_TLS'' \<in> {''1'', ''true'', ''TRUE'', ''True''}),
           cn_tls_roots := (if cn_tls_roots c = [] then env ''GIZMOSQL_TLS_ROOTS'' else cn_tls_roots c),
           cn_oauth_port := port_from_env env ''GIZMOSQL_OAUTH_PORT'' 31339 (cn_oauth_port c)\<rparr>)"

section \<open>Connection URIs\<close>

definition ParseBoolValue :: "string \<Rightarrow> bool" where
  "ParseBoolValue v \<longleftrightarrow> to_lower v = ''true'' \<or> to_lower v = ''1''"

fun set_params :: "string list \<Rightarrow> (string \<Rightarrow> string option) \<Rightarrow> (string \<Rightarrow> string option)" where
  "set_params [] m = m"
| "set_params (p # ps) m =
     set_params ps (case find_char (CHR ''='') p of None \<Rightarrow> m | Some i \<Rightarrow> m(take i p \<mapsto> drop (i + 1) p))"

definition ParseQueryString :: "string \<Rightarrow> (string \<Rightarrow> string option)" where
  "ParseQueryString qs = set_params (getlines (CHR ''&'') qs) Map.empty"

definition apply_params :: "(string \<Rightarrow> string option) \<Rightarrow> connection_config \<Rightarrow> connection_config" where
  "apply_params m c =
     c\<lparr>cn_username := (case m ''username'' of None \<Rightarrow> cn_username c | Some v \<Rightarrow> v),
       cn_use_tls := (case m ''useEncryption'' of None \<Rightarrow> cn_use_tls c | Some v \<Rightarrow> ParseBoolValue v),
       cn_tls_skip_verify := (case m ''disableCertificateVerification'' of None \<Rightarrow> cn_tls_skip_verify c
                              | Some v \<Rightarrow> ParseBoolValue v),
       cn_tls_roots := (case m ''tlsRoots'' of None \<Rightarrow> cn_tls_roots c | Some v \<Rightarrow> v),
       cn_external := (case m ''authType'' of None \<Rightarrow> cn_external c | Some v \<Rightarrow> v = ''external'')\<rparr>"

text \<open>The second component is the configuration as it has been changed, also when the port is invalid.\<close>

definition ParseConnectionURI :: "string \<Rightarrow> connection_config \<Rightarrow> bool \<times> connection_config" where
  "ParseConnectionURI uri c =
     (let rest = (case find_sub ''://'' uri of None \<Rightarrow> uri | Some i \<Rightarrow> drop (i + 3) uri);
          (host_port, query) = (case find_char (CHR ''?'') rest of
             None \<Rightarrow> (rest, []) | Some q \<Rightarrow> (take q rest, drop (q + 1) rest));
          parsed = (case rfind_char (CHR '':'') host_port of
             Some k \<Rightarrow> (case stoi (drop (k + 1) host_port) of
                         None \<Rightarrow> (False, c\<lparr>cn_host := take k host_port\<rparr>)
                       | Some p \<Rightarrow> (True, c\<lparr>cn_host := take k host_port, cn_port := p\<rparr>))
           | None \<Rightarrow> (True, if host_port = [] then c else c\<lparr>cn_host := host_port\<rparr>))
      in if fst parsed \<and> query \<noteq> [] then (True, apply_params (ParseQueryString query) (snd parsed)) else parsed)"

text \<open>\<open>addParam\<close>, with the separator that changes after the first parameter.\<close>

fun add_params :: "char \<Rightarrow> (bool \<times> string \<times> string) list \<Rightarrow> string" where
  "add_params sep [] = []"
| "add_params sep ((given, key, v) # ps) =
     (if given then sep # key @ CHR ''='' # v @ add_params (CHR ''&'') ps else add_params sep ps)"

definition uri_params :: "connection_config \<Rightarrow> (bool \<times> string \<times> string) list" where
  "uri_params c =
     [(cn_username c \<noteq> [], ''username'', cn_username c), (cn_use_tls c, ''useEncryption'', ''true''),
      (cn_tls_skip_verify c, ''disableCertificateVerification'', ''true''),
      (cn_tls_roots c \<noteq> [], ''tlsRoots'', cn_tls_roots c), (cn_external c, ''authType'', ''external'')]"

definition BuildConnectionURI :: "connection_config \<Rightarrow> string" where
  "BuildConnectionURI c = ''gizmosql://'' @ cn_host c @ '':'' @ show_int (cn_port c) @ add_params (CHR ''?'') (uri_params c)"

section \<open>The command line\<close>

text \<open>\<open>None\<close> for an option that was not given; \<open>--host\<close>, \<open>--port\<close>, \<open>--auth-type\<close> and others then have a default.\<close>

record client_options =
  co_help :: bool
  co_version :: bool
  co_host :: "string option"
  co_port :: "int option"
  co_username :: "string option"
  co_password :: bool
  co_tls :: bool
  co_tls_roots :: "string option"
  co_tls_skip_verify :: bool
  co_mtls :: "string option \<times> string option"
  co_auth_type :: "string option"
  co_oauth_port :: "int option"
  co_uri :: "string option"
  co_script :: script_config
  co_mode_flags :: "output_mode list"
  co_no_header :: bool
  co_quiet :: bool
  co_echo :: bool
  co_bail :: bool
  co_null :: "string option"

text \<open>Is the standard input a terminal, what is typed at the password prompt, its width, can a file be opened.\<close>

record terminal =
  tm_is_terminal :: bool
  tm_typed_password :: string
  tm_width :: int
  tm_can_open :: "string \<Rightarrow> bool"

datatype start = Exit int | Start client_config bool

definition given :: "'a \<Rightarrow> 'a option \<Rightarrow> 'a" where
  "given d v = (case v of None \<Rightarrow> d | Some x \<Rightarrow> x)"

text \<open>What \<open>po::notify\<close> has stored, and the result of the choice of the authentication.\<close>

definition options_connection :: "client_options \<Rightarrow> connection_config" where
  "options_connection o1 =
     default_connection\<lparr>cn_host := given ''localhost'' (co_host o1), cn_port := given 31337 (co_port o1),
       cn_username := given [] (co_username o1), cn_use_tls := co_tls o1, cn_tls_roots := given [] (co_tls_roots o1),
       cn_tls_skip_verify := co_tls_skip_verify o1, cn_mtls_cert := given [] (fst (co_mtls o1)),
       cn_mtls_key := given [] (snd (co_mtls o1)), cn_oauth_port := given 31339 (co_oauth_port o1),
       cn_external := (co_auth_type o1 = Some ''external'')\<rparr>"

definition uri_conflicts :: "client_options \<Rightarrow> string list" where
  "uri_conflicts o1 =
     (if co_host o1 \<noteq> None then [''--host''] else []) @ (if co_port o1 \<noteq> None then [''--port''] else [])
     @ (if co_username o1 \<noteq> None then [''--username''] else []) @ (if co_password o1 then [''--password''] else [])
     @ (if co_tls o1 then [''--tls''] else []) @ (if co_tls_roots o1 \<noteq> None then [''--tls-roots''] else [])
     @ (if co_tls_skip_verify o1 then [''--tls-skip-verify''] else [])
     @ (if co_auth_type o1 \<noteq> None then [''--auth-type''] else [])"

text \<open>The output mode: the last of \<open>csv\<close>, \<open>json\<close>, \<open>table\<close>, \<open>box\<close>, \<open>markdown\<close> in this order that is given.\<close>

definition shortcut_mode :: "output_mode list \<Rightarrow> output_mode \<Rightarrow> output_mode" where
  "shortcut_mode flags m =
     (case filter (List.member flags) [CSV, JSON, TABLE, BOX, MARKDOWN] of [] \<Rightarrow> m | ms \<Rightarrow> last ms)"

definition typed_password :: "terminal \<Rightarrow> connection_config \<Rightarrow> connection_config" where
  "typed_password T c = c\<lparr>cn_password := tm_typed_password T, cn_password_provided := True\<rparr>"

text \<open>\<open>None\<close>: the prompt was forced without a terminal.\<close>

definition main_password :: "terminal \<Rightarrow> client_options \<Rightarrow> connection_config \<Rightarrow> connection_config option" where
  "main_password T o1 c =
     (if cn_external c then Some c
      else if co_password o1 \<and> \<not> tm_is_terminal T then None
      else let c1 = (if co_password o1 then typed_password T c else c)
           in Some (if \<not> cn_password_provided c1 \<and> cn_username c1 \<noteq> [] \<and> tm_is_terminal T
                    then typed_password T c1 else c1))"

definition main_connection :: "environment \<Rightarrow> client_options \<Rightarrow> connection_config option" where
  "main_connection env o1 =
     (case co_uri o1 of
        None \<Rightarrow> Some (ResolveEnvironmentVariables env (options_connection o1))
      | Some u \<Rightarrow> (if uri_conflicts o1 \<noteq> [] then None
                   else case ParseConnectionURI u (options_connection o1) of
                          (False, c) \<Rightarrow> None | (True, c) \<Rightarrow> Some (ResolveEnvironmentVariables env c)))"

definition main_config :: "terminal \<Rightarrow> client_options \<Rightarrow> connection_config \<Rightarrow> client_config" where
  "main_config T o1 c =
     (let s = co_script o1;
          interactive = (sc_command s = None \<and> sc_input_file s = None \<and> tm_is_terminal T);
          trunc = (interactive \<and> sc_output_file s = None)
      in default_config\<lparr>cc_conn := c, cc_script := s,
           cc_display := (cc_display default_config)\<lparr>
             dc_mode := shortcut_mode (co_mode_flags o1) BOX, dc_headers := \<not> co_no_header o1,
             dc_null := given ''NULL'' (co_null o1), dc_max_rows := (if trunc then 40 else 0),
             dc_max_width := (if trunc then tm_width T else 0), dc_auto_width := trunc\<rparr>,
           cc_quiet := co_quiet o1, cc_echo := co_echo o1, cc_bail := co_bail o1, cc_interactive := interactive,
           cc_output := (if sc_output_file s = None then Stdout else OptionFile)\<rparr>)"

definition client_main :: "environment \<Rightarrow> terminal \<Rightarrow> client_options \<Rightarrow> start" where
  "client_main env T o1 =
     (if co_help o1 \<or> co_version o1 then Exit 0
      else if co_auth_type o1 \<noteq> None \<and> co_auth_type o1 \<noteq> Some ''external'' \<and> co_auth_type o1 \<noteq> Some ''password''
      then Exit 1
      else case main_connection env o1 of
        None \<Rightarrow> Exit 1
      | Some c \<Rightarrow>
          (case main_password T o1 c of
             None \<Rightarrow> Exit 1
           | Some c1 \<Rightarrow>
               (if sc_output_file (co_script o1) \<noteq> None \<and> \<not> tm_can_open T (the (sc_output_file (co_script o1)))
                then Exit 1
                else Start (main_config T o1 c1)
                       (co_host o1 \<noteq> None \<or> env ''GIZMOSQL_HOST'' \<noteq> [] \<or> co_username o1 \<noteq> None
                        \<or> env ''GIZMOSQL_USER'' \<noteq> [] \<or> cn_external c1 \<or> co_uri o1 \<noteq> None))))"

section \<open>Properties\<close>

lemma mode_reads_back: "OutputModeFromString (OutputModeToString m) = Some m"
proof -
  have "list_all (\<lambda>m. OutputModeFromString (OutputModeToString m) = Some m) output_modes" by code_simp
  moreover have "m \<in> set output_modes" by (cases m) (simp_all add: output_modes_def)
  ultimately show ?thesis by (auto simp: list_all_iff)
qed

text \<open>The map that the query string of \<open>BuildConnectionURI\<close> is read as.\<close>

fun param_map :: "(bool \<times> string \<times> string) list \<Rightarrow> (string \<Rightarrow> string option) \<Rightarrow> (string \<Rightarrow> string option)" where
  "param_map [] m = m"
| "param_map ((g, key, v) # ps) m = param_map ps (if g then m(key \<mapsto> v) else m)"

lemma add_params_head: "add_params sep ps = [] \<or> (\<exists>r. add_params sep ps = sep # r)"
  by (induction sep ps rule: add_params.induct) auto

lemma getlines_params:
  assumes "CHR ''&'' \<notin> set s" and "s \<noteq> []"
  shows "getlines (CHR ''&'') (s @ add_params (CHR ''&'') ps) = s # getlines (CHR ''&'') (tl (add_params (CHR ''&'') ps))"
  using add_params_head [of "CHR ''&''" ps] assms by (auto simp: getlines_no_delim getlines_cons)

lemma set_params_add_params:
  assumes "list_all (\<lambda>(g, key, v). CHR ''&'' \<notin> set key \<and> CHR ''='' \<notin> set key \<and> CHR ''&'' \<notin> set v) ps"
  shows "set_params (getlines (CHR ''&'') (tl (add_params sep ps))) m = param_map ps m"
  using assms
proof (induction sep ps arbitrary: m rule: add_params.induct)
  case (2 sep g key v ps)
  have "getlines (CHR ''&'') ((key @ CHR ''='' # v) @ add_params (CHR ''&'') ps)
      = (key @ CHR ''='' # v) # getlines (CHR ''&'') (tl (add_params (CHR ''&'') ps))"
    by (rule getlines_params) (use 2(3) in auto)
  then show ?case using 2 by (cases g) (auto simp: find_char_append)
qed simp

text \<open>
  C10: When the host has no question mark, the user name and the path of the roots have no ampersand and the port
  is a 32-bit number, the URI that the client shows is read back as the connection it stands for: the address,
  and the parameters that are set; the others keep the values of the configuration it is read into. Nothing is
  escaped, so the conditions are needed (\<open>username_becomes_a_setting\<close> below).
\<close>

theorem uri_reads_back:
  assumes "CHR ''?'' \<notin> set (cn_host c)" and "CHR ''&'' \<notin> set (cn_username c)" and "CHR ''&'' \<notin> set (cn_tls_roots c)"
    and "- (2 ^ 31) \<le> cn_port c" and "cn_port c < 2 ^ 31"
  shows "ParseConnectionURI (BuildConnectionURI c) d = (True,
    d\<lparr>cn_host := cn_host c, cn_port := cn_port c,
      cn_username := (if cn_username c = [] then cn_username d else cn_username c),
      cn_use_tls := (cn_use_tls c \<or> cn_use_tls d), cn_tls_skip_verify := (cn_tls_skip_verify c \<or> cn_tls_skip_verify d),
      cn_tls_roots := (if cn_tls_roots c = [] then cn_tls_roots d else cn_tls_roots c),
      cn_external := (cn_external c \<or> cn_external d)\<rparr>)"
proof -
  define hp where "hp = cn_host c @ CHR '':'' # show_int (cn_port c)"
  define ps where "ps = add_params (CHR ''?'') (uri_params c)"
  have uri: "BuildConnectionURI c = ''gizmosql'' @ ''://'' @ (hp @ ps)"
    by (simp add: BuildConnectionURI_def hp_def ps_def)
  have digits: "set (show_int i) \<subseteq> insert (CHR ''-'') {c. is_digit c}" for i
    using show_nat_digits by (auto simp: show_int_def)
  have "\<not> is_digit (CHR ''?'')" "\<not> is_digit (CHR '':'')" by (simp_all add: is_digit_def)
  then have port: "CHR ''?'' \<notin> set (show_int (cn_port c))" "CHR '':'' \<notin> set (show_int (cn_port c))"
    using digits [of "cn_port c"] by auto
  have no_q: "CHR ''?'' \<notin> set hp" using assms(1) port(1) by (simp add: hp_def)
  have scheme: "find_sub ''://'' (BuildConnectionURI c) = Some 8" "drop (8 + 3) (BuildConnectionURI c) = hp @ ps"
    unfolding uri by (subst find_sub_append [where c = "CHR '':''" and p' = "''//''"]) simp_all
  have "find_char (CHR ''?'') hp = None" "find_char (CHR ''?'') (hp @ CHR ''?'' # r) = Some (length hp)" for r
    using no_q by (rule find_char_None [THEN iffD2], rule find_char_append)
  then have split: "(case find_char (CHR ''?'') (hp @ ps) of None \<Rightarrow> (hp @ ps, [])
      | Some q \<Rightarrow> (take q (hp @ ps), drop (q + 1) (hp @ ps))) = (hp, tl ps)"
    using add_params_head [of "CHR ''?''" "uri_params c"] by (auto simp: ps_def)
  have colon: "rfind_char (CHR '':'') hp = Some (length (cn_host c))"
    unfolding hp_def using port(2) by (rule rfind_char_append)
  have parts: "take (length (cn_host c)) hp = cn_host c" "stoi (drop (length (cn_host c) + 1) hp) = Some (cn_port c)"
    using assms(4,5) by (auto simp: hp_def intro: stoi_show_int)
  have params: "ParseQueryString (tl ps) = param_map (uri_params c) Map.empty"
    unfolding ParseQueryString_def ps_def using assms(2,3)
    by (intro set_params_add_params) (simp add: uri_params_def)
  have none: "apply_params (ParseQueryString []) e = e" for e
    by (simp add: ParseQueryString_def apply_params_def)
  have "ParseConnectionURI (BuildConnectionURI c) d
      = (True, apply_params (ParseQueryString (tl ps)) (d\<lparr>cn_host := cn_host c, cn_port := cn_port c\<rparr>))"
    unfolding ParseConnectionURI_def
    by (cases "tl ps = []") (simp_all only: scheme split colon parts none option.case Let_def prod.case fst_conv snd_conv, simp_all)
  also have "\<dots> = (True,
    d\<lparr>cn_host := cn_host c, cn_port := cn_port c,
      cn_username := (if cn_username c = [] then cn_username d else cn_username c),
      cn_use_tls := (cn_use_tls c \<or> cn_use_tls d), cn_tls_skip_verify := (cn_tls_skip_verify c \<or> cn_tls_skip_verify d),
      cn_tls_roots := (if cn_tls_roots c = [] then cn_tls_roots d else cn_tls_roots c),
      cn_external := (cn_external c \<or> cn_external d)\<rparr>)"
    unfolding params by (simp add: apply_params_def uri_params_def ParseBoolValue_def to_lower_def tolower_def is_upper_def)
  finally show ?thesis .
qed

theorem uri_reads_back_witness:
  "ParseConnectionURI (BuildConnectionURI (default_connection\<lparr>cn_username := ''ann=x'', cn_use_tls := True\<rparr>)) default_connection
    = (True, default_connection\<lparr>cn_username := ''ann=x'', cn_use_tls := True\<rparr>)"
  by (subst uri_reads_back) (simp_all add: default_connection_def)

text \<open>
  An ampersand in the user name adds a setting: a connection that checks certificates and one that does not are
  shown as the same URI.
\<close>

lemma username_becomes_a_setting:
  assumes "u \<noteq> []" and "\<not> cn_use_tls c" and "\<not> cn_tls_skip_verify c"
  shows "BuildConnectionURI (c\<lparr>cn_username := u @ ''&disableCertificateVerification=true''\<rparr>)
    = BuildConnectionURI (c\<lparr>cn_username := u, cn_tls_skip_verify := True\<rparr>)"
  using assms by (simp add: BuildConnectionURI_def uri_params_def)

text \<open>
  The environment wins over a URI that names the default host or port, although a URI excludes the flags.
\<close>

lemma environment_overrides_uri:
  assumes "co_uri o1 = Some u" and "main_connection env o1 = Some c"
    and "snd (ParseConnectionURI u (options_connection o1)) = c0" and "cn_host c0 = ''localhost''" and "env ''GIZMOSQL_HOST'' \<noteq> []"
  shows "cn_host c = env ''GIZMOSQL_HOST''"
  using assms by (auto simp: main_connection_def ResolveEnvironmentVariables_def Let_def split: if_splits prod.splits bool.splits)

text \<open>An IPv6 address without a port is cut at its last colon.\<close>

lemma ipv6_host_is_cut: "ParseConnectionURI ''gizmosql://[::1]'' d = (True, d\<lparr>cn_host := ''[:'', cn_port := 1\<rparr>)"
proof -
  have "stoi ''1]'' = Some 1" by code_simp
  moreover have "rfind_char (CHR '':'') ''[::1]'' = Some 2" by code_simp
  moreover have "find_sub ''://'' ''gizmosql://[::1]'' = Some 8" by code_simp
  ultimately show ?thesis by (simp add: ParseConnectionURI_def)
qed

end
