(* ===== verification/Renderer.thy ===== *)
theory Renderer
  imports Quoting ArrowTypes ClientConfig
begin

text \<open>
  The client's output modes (\<open>src/src/client/output_renderer.cpp\<close>): how a table of Arrow columns is written
  as a box, as CSV, JSON, Markdown, HTML, LaTeX, SQL and the rest. What is written to the stream is the
  returned string. The texts Arrow gives to a value and to a type are the parameter \<open>arrow_text\<close>. The interface
  \<open>field_format\<close> says what a mode of separated fields promises; CSV, the quoted SQL mode, the tab-separated
  mode and the ASCII mode are interpreted on it.
\<close>

section \<open>Tables\<close>

text \<open>What a renderer reports: rows and columns rendered, and whether it wrote a footer of its own.\<close>

record render_result =
  rr_rows :: int
  rr_columns :: int
  rr_footer :: bool

record arrow_column =
  col_name :: string
  col_type :: arrow_type
  col_chunks :: "arrow_value list list"

record arrow_table =
  at_columns :: "arrow_column list"
  at_rows :: nat

text \<open>\<open>Scalar::ToString\<close> (with the failure of \<open>GetScalar\<close>) and \<open>DataType::ToString\<close>.\<close>

record arrow_text =
  tx_value :: "arrow_type \<Rightarrow> arrow_value \<Rightarrow> string option"
  tx_type :: "arrow_type \<Rightarrow> string"

text \<open>The chunk that holds a row, and the cell in it; past the last chunk there is none.\<close>

fun find_cell :: "'a list list \<Rightarrow> nat \<Rightarrow> 'a option" where
  "find_cell [] offset = None"
| "find_cell (chunk # chunks) offset =
     (if offset < length chunk then Some (chunk ! offset) else find_cell chunks (offset - length chunk))"

definition GetCellValue :: "arrow_text \<Rightarrow> arrow_column \<Rightarrow> nat \<Rightarrow> string \<Rightarrow> string" where
  "GetCellValue T column row_index null_value =
     (case find_cell (col_chunks column) row_index of
        None \<Rightarrow> null_value
      | Some v \<Rightarrow>
          if v = VNull then null_value
          else (case tx_value T (col_type column) v of Some s \<Rightarrow> s | None \<Rightarrow> null_value))"

definition IsCellNull :: "arrow_column \<Rightarrow> nat \<Rightarrow> bool" where
  "IsCellNull col row = (case find_cell (col_chunks col) row of None \<Rightarrow> True | Some v \<Rightarrow> v = VNull)"

text \<open>A half-precision float is one of the \<open>OTHER_ARROW\<close> types, by the name Arrow gives to it.\<close>

definition FriendlyTypeName :: "arrow_text \<Rightarrow> arrow_type \<Rightarrow> string" where
  "FriendlyTypeName T type =
     (case type of
        NA \<Rightarrow> ''null'' | BOOL \<Rightarrow> ''boolean'' | INT8 \<Rightarrow> ''tinyint'' | INT16 \<Rightarrow> ''smallint'' | INT32 \<Rightarrow> ''integer''
      | INT64 \<Rightarrow> ''bigint'' | UINT8 \<Rightarrow> ''utinyint'' | UINT16 \<Rightarrow> ''usmallint'' | UINT32 \<Rightarrow> ''uinteger''
      | UINT64 \<Rightarrow> ''ubigint'' | FLOAT \<Rightarrow> ''float'' | DOUBLE \<Rightarrow> ''double'' | STRING \<Rightarrow> ''varchar''
      | LARGE_STRING \<Rightarrow> ''varchar'' | BINARY \<Rightarrow> ''blob'' | LARGE_BINARY \<Rightarrow> ''blob'' | DATE32 \<Rightarrow> ''date''
      | DATE64 \<Rightarrow> ''date'' | TIME32 u \<Rightarrow> ''time'' | TIME64 u \<Rightarrow> ''time''
      | TIMESTAMP u timezone \<Rightarrow> if timezone \<noteq> [] then ''timestamptz'' else ''timestamp''
      | DURATION u \<Rightarrow> ''interval''
      | DECIMAL128 p s \<Rightarrow> ''decimal('' @ show_int p @ '','' @ show_int s @ '')''
      | DECIMAL256 p s \<Rightarrow> ''decimal('' @ show_int p @ '','' @ show_int s @ '')''
      | OTHER_ARROW n \<Rightarrow> if n = ''halffloat'' then ''float'' else tx_type T type
      | _ \<Rightarrow> tx_type T type)"

definition IsNumericType :: "arrow_type \<Rightarrow> bool" where
  "IsNumericType type =
     (case type of
        INT8 \<Rightarrow> True | INT16 \<Rightarrow> True | INT32 \<Rightarrow> True | INT64 \<Rightarrow> True | UINT8 \<Rightarrow> True | UINT16 \<Rightarrow> True
      | UINT32 \<Rightarrow> True | UINT64 \<Rightarrow> True | FLOAT \<Rightarrow> True | DOUBLE \<Rightarrow> True | DECIMAL128 p s \<Rightarrow> True
      | DECIMAL256 p s \<Rightarrow> True | OTHER_ARROW n \<Rightarrow> n = ''halffloat'' | _ \<Rightarrow> False)"

definition IsBooleanType :: "arrow_type \<Rightarrow> bool" where
  "IsBooleanType type \<longleftrightarrow> type = BOOL"

section \<open>Column widths\<close>

text \<open>Widths are counted in bytes.\<close>

definition size_of :: "string \<Rightarrow> int" where
  "size_of s = int (length s)"

text \<open>\<open>UpdateWidthsForRows\<close> on the rows from \<open>start\<close> to \<open>end\<close>.\<close>

definition UpdateWidthsForRows ::
    "arrow_text \<Rightarrow> arrow_table \<Rightarrow> string \<Rightarrow> int list \<Rightarrow> nat \<Rightarrow> nat \<Rightarrow> int list" where
  "UpdateWidthsForRows T t null_value widths start end_row =
     foldl (\<lambda>ws r. map2 (\<lambda>w col. max w (size_of (GetCellValue T col r null_value))) ws (at_columns t))
           widths [start..<end_row]"

definition ComputeColumnWidths ::
    "arrow_text \<Rightarrow> arrow_table \<Rightarrow> bool \<Rightarrow> string \<Rightarrow> bool \<Rightarrow> int \<Rightarrow> int list" where
  "ComputeColumnWidths T t show_headers null_value show_types row_limit =
     (let names = map (\<lambda>col. if show_headers then size_of (col_name col) else 0) (at_columns t);
          types = (if show_types
                   then map2 (\<lambda>w col. max w (size_of (FriendlyTypeName T (col_type col)))) names (at_columns t)
                   else names);
          rows_to_scan = (if row_limit > 0 \<and> row_limit < int (at_rows t) then nat row_limit else at_rows t)
      in map (\<lambda>w. if w < 1 then 1 else w) (UpdateWidthsForRows T t null_value types 0 rows_to_scan))"

definition kMinColWidth :: int where "kMinColWidth = 4"
definition kBorderOverhead :: int where "kBorderOverhead = 3"

definition calc_total :: "int list \<Rightarrow> nat \<Rightarrow> int" where
  "calc_total widths ncols = 1 + sum_list (map (\<lambda>w. w + kBorderOverhead) (take ncols widths))"

text \<open>
  One pass of the water-level loop: the columns not yet fixed whose width is within the fair share are fixed,
  and what they take is subtracted from what remains.
\<close>

fun fix_columns :: "int \<Rightarrow> int list \<Rightarrow> bool list \<Rightarrow> int \<Rightarrow> int \<Rightarrow> bool list \<times> int \<times> int \<times> bool" where
  "fix_columns fair_share (w # ws) (f # fs) remaining unfixed =
     (if \<not> f \<and> w \<le> fair_share
      then (case fix_columns fair_share ws fs (remaining - w) (unfixed - 1) of
              (fs', r, u, any) \<Rightarrow> (True # fs', r, u, True))
      else (case fix_columns fair_share ws fs remaining unfixed of
              (fs', r, u, any) \<Rightarrow> (f # fs', r, u, any)))"
| "fix_columns fair_share _ fs remaining unfixed = (fs, remaining, unfixed, False)"

fun water_level :: "nat \<Rightarrow> int list \<Rightarrow> bool list \<Rightarrow> int \<Rightarrow> int \<Rightarrow> bool list \<times> int \<times> int" where
  "water_level 0 widths fixed remaining unfixed = (fixed, remaining, unfixed)"
| "water_level (Suc iters) widths fixed remaining unfixed =
     (case fix_columns (cdiv remaining (max 1 unfixed)) widths fixed remaining unfixed of
        (fixed', remaining', unfixed', any_fixed) \<Rightarrow>
          if \<not> any_fixed then (fixed', remaining', unfixed')
          else water_level iters widths fixed' remaining' unfixed')"

fun drop_columns :: "int list \<Rightarrow> int \<Rightarrow> nat \<Rightarrow> nat" where
  "drop_columns widths max_width 0 = 0"
| "drop_columns widths max_width (Suc n) =
     (if Suc n > 1 \<and> calc_total widths (Suc n) > max_width then drop_columns widths max_width n else Suc n)"

definition CapColumnWidths :: "int list \<Rightarrow> int \<Rightarrow> int list \<times> nat" where
  "CapColumnWidths widths max_width =
     (let num_cols = length widths in
      if num_cols = 0 then (widths, 0)
      else if calc_total widths num_cols \<le> max_width then (widths, num_cols)
      else
        let available = max_width - 1 - int num_cols * kBorderOverhead;
            (fixed, remaining, unfixed) =
              water_level num_cols widths (replicate num_cols False) available (int num_cols);
            capped = (if unfixed > 0
                      then let cap = max kMinColWidth (cdiv remaining unfixed)
                           in map2 (\<lambda>w f. if f then w else cap) widths fixed
                      else widths);
            cols_shown = drop_columns capped max_width num_cols
        in (take cols_shown capped, cols_shown))"

section \<open>Cells\<close>

definition ellipsis :: string where
  "ellipsis = [CHR 0xE2, CHR 0x80, CHR 0xA6]"

definition TruncateValue :: "string \<Rightarrow> int \<Rightarrow> string \<times> int" where
  "TruncateValue val max_col_width =
     (if size_of val \<le> max_col_width then (val, size_of val)
      else if max_col_width \<le> 1 then (ellipsis, 1)
      else (take (nat (max_col_width - 1)) val @ ellipsis, max_col_width))"

definition pad :: "int \<Rightarrow> string" where
  "pad n = replicate (nat n) (CHR '' '')"

definition RenderCell :: "string \<Rightarrow> int \<Rightarrow> bool \<Rightarrow> string \<Rightarrow> string" where
  "RenderCell val col_width right_align border =
     (let (dval, dwidth) = TruncateValue val col_width; padding = col_width - dwidth
      in if right_align then '' '' @ pad padding @ dval @ '' '' @ border
         else '' '' @ dval @ pad padding @ '' '' @ border)"

definition RenderCellCentered :: "string \<Rightarrow> int \<Rightarrow> string \<Rightarrow> string" where
  "RenderCellCentered val col_width border =
     (let (dval, dwidth) = TruncateValue val col_width; padding = col_width - dwidth;
          left_pad = cdiv padding 2; right_pad = padding - left_pad
      in '' '' @ pad left_pad @ dval @ pad right_pad @ '' '' @ border)"

section \<open>Escaping\<close>

definition CsvEscape :: "string \<Rightarrow> string" where
  "CsvEscape val =
     (if \<exists>c \<in> set val. c = dquote \<or> c = CHR '','' \<or> c = newline \<or> c = creturn
      then dquote # concat (map (\<lambda>c. if c = dquote then [dquote, dquote] else [c]) val) @ [dquote]
      else val)"

definition hex_digit :: "nat \<Rightarrow> char" where
  "hex_digit n = (if n < 10 then char_of (48 + n) else char_of (87 + n))"

definition json_char :: "char \<Rightarrow> string" where
  "json_char c =
     (if c = dquote then [bslash, dquote] else if c = bslash then [bslash, bslash]
      else if c = CHR 0x08 then [bslash, CHR ''b''] else if c = CHR 0x0C then [bslash, CHR ''f'']
      else if c = newline then [bslash, CHR ''n''] else if c = creturn then [bslash, CHR ''r'']
      else if c = tabchar then [bslash, CHR ''t'']
      else if of_char c < (32::nat)
      then [bslash] @ ''u00'' @ [hex_digit (of_char c div 16), hex_digit (of_char c mod 16)]
      else [c])"

definition JsonEscape :: "string \<Rightarrow> string" where
  "JsonEscape val = concat (map json_char val)"

definition html_char :: "char \<Rightarrow> string" where
  "html_char c =
     (if c = CHR 0x26 then ''&amp;'' else if c = CHR ''<'' then ''&lt;'' else if c = CHR ''>'' then ''&gt;''
      else if c = dquote then ''&quot;'' else [c])"

definition HtmlEscape :: "string \<Rightarrow> string" where
  "HtmlEscape val = concat (map html_char val)"

definition latex_char :: "char \<Rightarrow> string" where
  "latex_char c =
     (if c \<in> set ''&%$#_{}'' then [bslash, c]
      else if c = CHR ''~'' then [bslash] @ ''textasciitilde{}''
      else if c = CHR ''^'' then [bslash] @ ''textasciicircum{}''
      else if c = bslash then [bslash] @ ''textbackslash{}''
      else [c])"

definition LatexEscape :: "string \<Rightarrow> string" where
  "LatexEscape val = concat (map latex_char val)"

section \<open>Boxes\<close>

record border_style =
  bs_tl :: string  bs_tr :: string  bs_bl :: string  bs_br :: string
  bs_h :: string  bs_v :: string  bs_tt :: string  bs_bt :: string
  bs_lt :: string  bs_rt :: string  bs_cx :: string

text \<open>A character of the box drawing block, in UTF-8.\<close>

definition box_char :: "nat \<Rightarrow> string" where
  "box_char low = [CHR 0xE2, char_of (148 + low div 64), char_of (128 + low mod 64)]"

definition kBoxBorder :: border_style where
  "kBoxBorder =
     \<lparr>bs_tl = box_char 0x0C, bs_tr = box_char 0x10, bs_bl = box_char 0x14, bs_br = box_char 0x18,
      bs_h = box_char 0x00, bs_v = box_char 0x02, bs_tt = box_char 0x2C, bs_bt = box_char 0x34,
      bs_lt = box_char 0x1C, bs_rt = box_char 0x24, bs_cx = box_char 0x3C\<rparr>"

definition kTableBorder :: border_style where
  "kTableBorder =
     \<lparr>bs_tl = ''+'', bs_tr = ''+'', bs_bl = ''+'', bs_br = ''+'', bs_h = ''-'', bs_v = ''|'',
      bs_tt = ''+'', bs_bt = ''+'', bs_lt = ''+'', bs_rt = ''+'', bs_cx = ''+''\<rparr>"

text \<open>
  Which rows are shown: whether the table was limited before, whether rows are left out, how many are shown,
  whether the first and the last ones are shown, how many first ones, and where the last ones start.
\<close>

record row_plan =
  rp_limited :: bool
  rp_truncating :: bool
  rp_show :: int
  rp_split :: bool
  rp_top :: int
  rp_bottom_start :: int

definition plan_rows :: "int \<Rightarrow> int \<Rightarrow> int \<Rightarrow> row_plan" where
  "plan_rows max_rows footer_total_rows table_rows =
     (let pre_limited = ((footer_total_rows \<ge> 0 \<and> footer_total_rows > table_rows) \<or> footer_total_rows = -1);
          truncating = (if pre_limited then True else max_rows > 0 \<and> max_rows < table_rows);
          to_show = (if pre_limited then table_rows else if truncating then max_rows else table_rows);
          split = (\<not> pre_limited \<and> truncating \<and> to_show \<ge> 4);
          top = (if split then cdiv to_show 2 else to_show);
          bottom = (if split then to_show - top else 0)
      in \<lparr>rp_limited = pre_limited, rp_truncating = truncating, rp_show = to_show, rp_split = split,
          rp_top = top, rp_bottom_start = (if split then table_rows - bottom else 0)\<rparr>)"

definition plural_ending :: "int \<Rightarrow> string" where
  "plural_ending n = (if n \<noteq> 1 then ''s'' else [])"

definition footer_parts :: "row_plan \<Rightarrow> int \<Rightarrow> int \<Rightarrow> int \<Rightarrow> string list" where
  "footer_parts p total_rows_for_footer total_cols cols_shown =
     (let cols_truncated = (cols_shown < total_cols) in
      [if total_rows_for_footer \<ge> 0 then show_int total_rows_for_footer @ '' row'' @ plural_ending total_rows_for_footer
       else show_int (rp_show p) @ ''+ row'' @ plural_ending (rp_show p)]
      @ (if rp_truncating p \<and> total_rows_for_footer \<noteq> rp_show p
         then [''('' @ show_int (rp_show p) @ '' shown)''] else [])
      @ (if total_cols > 1 \<or> cols_truncated
         then [show_int total_cols @ '' column'' @ plural_ending total_cols]
              @ (if cols_truncated then [''('' @ show_int cols_shown @ '' shown)''] else [])
         else []))"

text \<open>The last column is widened when a part of the footer would not fit.\<close>

definition inner_width :: "int list \<Rightarrow> int" where
  "inner_width widths = sum_list (map (\<lambda>w. w + 2) widths) + (int (length widths) - 1)"

definition widen_last :: "string list \<Rightarrow> int list \<Rightarrow> int list \<times> int" where
  "widen_last parts widths =
     (let min_footer_inner = foldl (\<lambda>m p. max m (size_of p)) 0 parts + 2; inner = inner_width widths; n = length widths
      in if min_footer_inner > inner \<and> n > 0
         then (widths[n - 1 := widths ! (n - 1) + (min_footer_inner - inner)], min_footer_inner)
         else (widths, inner))"

definition render_border :: "border_style \<Rightarrow> int list \<Rightarrow> string \<Rightarrow> string \<Rightarrow> string \<Rightarrow> string" where
  "render_border bs widths left mid right =
     left @ concat (map (\<lambda>c. concat (replicate (nat (widths ! c + 2)) (bs_h bs))
                             @ (if c + 1 < length widths then mid else right)) [0..<length widths])
     @ [newline]"

definition render_data_row ::
    "arrow_text \<Rightarrow> border_style \<Rightarrow> arrow_column list \<Rightarrow> int list \<Rightarrow> string \<Rightarrow> nat \<Rightarrow> string" where
  "render_data_row T bs cols widths null_value row_idx =
     bs_v bs
     @ concat (map2 (\<lambda>col w. RenderCell (GetCellValue T col row_idx null_value) w (IsNumericType (col_type col)) (bs_v bs))
                    cols widths)
     @ [newline]"

definition render_dot_row :: "border_style \<Rightarrow> int list \<Rightarrow> string" where
  "render_dot_row bs widths =
     bs_v bs
     @ concat (map (\<lambda>w. let left_pad = cdiv w 2; right_pad = w - left_pad - 1
                        in '' '' @ pad left_pad @ [CHR 0xC2, CHR 0xB7] @ pad right_pad @ '' '' @ bs_v bs) widths)
     @ [newline]"

definition render_head_row :: "border_style \<Rightarrow> string list \<Rightarrow> int list \<Rightarrow> string" where
  "render_head_row bs texts widths =
     bs_v bs @ concat (map2 (\<lambda>s w. RenderCellCentered s w (bs_v bs)) texts widths) @ [newline]"

text \<open>The parts of the footer, packed into lines.\<close>

fun pack_footer :: "int \<Rightarrow> string \<Rightarrow> string list \<Rightarrow> string list" where
  "pack_footer avail current [] = (if current \<noteq> [] then [current] else [])"
| "pack_footer avail current (part # parts) =
     (if current = [] then pack_footer avail part parts
      else let trial = current @ ''  '' @ part
           in if size_of trial \<le> avail then pack_footer avail trial parts
              else current # pack_footer avail part parts)"

definition render_footer_line :: "border_style \<Rightarrow> int \<Rightarrow> string \<Rightarrow> string" where
  "render_footer_line bs avail fl =
     bs_v bs @ '' '' @ fl @ pad (max 0 (avail - size_of fl)) @ '' '' @ bs_v bs @ [newline]"

definition bottom_border :: "border_style \<Rightarrow> int \<Rightarrow> string" where
  "bottom_border bs inner = bs_bl bs @ concat (replicate (nat inner) (bs_h bs)) @ bs_br bs @ [newline]"

text \<open>The columns shown with their widths, the parts of the footer and the inner width.\<close>

definition shown_widths ::
    "arrow_text \<Rightarrow> arrow_table \<Rightarrow> bool \<Rightarrow> string \<Rightarrow> row_plan \<Rightarrow> int \<Rightarrow> int list \<times> nat" where
  "shown_widths T t show_headers null_value p max_width =
     (let widths = ComputeColumnWidths T t show_headers null_value show_headers (rp_top p);
          widths' = (if rp_split p
                     then UpdateWidthsForRows T t null_value widths (nat (rp_bottom_start p)) (at_rows t)
                     else widths)
      in if max_width > 0 then CapColumnWidths widths' max_width else (widths', length (at_columns t)))"

definition tabular_rows ::
    "arrow_text \<Rightarrow> border_style \<Rightarrow> arrow_column list \<Rightarrow> int list \<Rightarrow> string \<Rightarrow> row_plan \<Rightarrow> nat \<Rightarrow> string list" where
  "tabular_rows T bs cols widths null_value p table_rows =
     (let data_row = render_data_row T bs cols widths null_value; dots = replicate 3 (render_dot_row bs widths)
      in if rp_split p
         then map data_row [0..<nat (rp_top p)] @ dots @ map data_row [nat (rp_bottom_start p)..<table_rows]
         else map data_row [0..<nat (rp_show p)] @ (if rp_limited p then dots else []))"

definition RenderTabular ::
    "arrow_text \<Rightarrow> border_style \<Rightarrow> bool \<Rightarrow> string \<Rightarrow> int \<Rightarrow> int \<Rightarrow> int \<Rightarrow> arrow_table \<Rightarrow> string \<times> render_result" where
  "RenderTabular T bs show_headers null_value max_rows max_width footer_total_rows t =
     (if at_columns t = [] then ([], \<lparr>rr_rows = 0, rr_columns = 0, rr_footer = False\<rparr>)
      else
        let table_rows = int (at_rows t);
            p = plan_rows max_rows footer_total_rows table_rows;
            total_for_footer = (if footer_total_rows = -2 then table_rows else footer_total_rows);
            (widths0, cols_shown) = shown_widths T t show_headers null_value p max_width;
            parts = footer_parts p total_for_footer (int (length (at_columns t))) (int cols_shown);
            (widths, inner) = widen_last parts widths0;
            cols = take cols_shown (at_columns t);
            avail = inner - 2
        in (concat
              ([render_border bs widths (bs_tl bs) (bs_tt bs) (bs_tr bs)]
               @ (if show_headers
                  then [render_head_row bs (map col_name cols) widths,
                        render_head_row bs (map (\<lambda>col. FriendlyTypeName T (col_type col)) cols) widths,
                        render_border bs widths (bs_lt bs) (bs_cx bs) (bs_rt bs)]
                  else [])
               @ tabular_rows T bs cols widths null_value p (at_rows t)
               @ [render_border bs widths (bs_lt bs) (bs_bt bs) (bs_rt bs)]
               @ map (render_footer_line bs avail) (pack_footer avail [] parts)
               @ [bottom_border bs inner]),
            \<lparr>rr_rows = rp_show p, rr_columns = int cols_shown, rr_footer = True\<rparr>))"

section \<open>The other modes\<close>

text \<open>Texts with a separator between them.\<close>

fun separated :: "string \<Rightarrow> string list \<Rightarrow> string" where
  "separated sep [] = []"
| "separated sep [x] = x"
| "separated sep (x # y # xs) = x @ sep @ separated sep (y # xs)"

definition whole :: "arrow_table \<Rightarrow> render_result" where
  "whole t = \<lparr>rr_rows = int (at_rows t), rr_columns = int (length (at_columns t)), rr_footer = False\<rparr>"

definition row_texts :: "(arrow_column \<Rightarrow> nat \<Rightarrow> 'a) \<Rightarrow> arrow_table \<Rightarrow> nat \<Rightarrow> 'a list" where
  "row_texts cell t r = map (\<lambda>col. cell col r) (at_columns t)"

definition rows_text :: "(nat \<Rightarrow> string) \<Rightarrow> arrow_table \<Rightarrow> string" where
  "rows_text row t = concat (map row [0..<at_rows t])"

definition RenderCsv :: "arrow_text \<Rightarrow> bool \<Rightarrow> string \<Rightarrow> arrow_table \<Rightarrow> string" where
  "RenderCsv T show_headers null_value t =
     (if show_headers then separated '','' (map (\<lambda>col. CsvEscape (col_name col)) (at_columns t)) @ [newline] else [])
     @ rows_text (\<lambda>r. separated '',''
                        (row_texts (\<lambda>col r. CsvEscape (GetCellValue T col r null_value)) t r) @ [newline]) t"

definition RenderTabs :: "arrow_text \<Rightarrow> bool \<Rightarrow> string \<Rightarrow> arrow_table \<Rightarrow> string" where
  "RenderTabs T show_headers null_value t =
     (if show_headers then separated [tabchar] (map col_name (at_columns t)) @ [newline] else [])
     @ rows_text (\<lambda>r. separated [tabchar] (row_texts (\<lambda>col r. GetCellValue T col r null_value) t r) @ [newline]) t"

definition json_cell :: "arrow_text \<Rightarrow> string \<Rightarrow> arrow_column \<Rightarrow> nat \<Rightarrow> string" where
  "json_cell T null_value col r =
     (if IsCellNull col r then ''null''
      else let val = GetCellValue T col r null_value in
           if IsNumericType (col_type col) then val
           else if IsBooleanType (col_type col) then (if val = ''true'' then ''true'' else ''false'')
           else dquote # JsonEscape val @ [dquote])"

definition json_member :: "arrow_text \<Rightarrow> string \<Rightarrow> arrow_column \<Rightarrow> nat \<Rightarrow> string" where
  "json_member T null_value col r =
     dquote # JsonEscape (col_name col) @ [dquote] @ '': '' @ json_cell T null_value col r"

definition RenderJson :: "arrow_text \<Rightarrow> string \<Rightarrow> arrow_table \<Rightarrow> string" where
  "RenderJson T null_value t =
     ''['' @ [newline]
     @ separated (CHR '','' # [newline])
         (map (\<lambda>r. ''  {'' @ separated '', '' (row_texts (json_member T null_value) t r) @ ''}'') [0..<at_rows t])
     @ [newline] @ '']'' @ [newline]"

definition RenderJsonLines :: "arrow_text \<Rightarrow> string \<Rightarrow> arrow_table \<Rightarrow> string" where
  "RenderJsonLines T null_value t =
     rows_text (\<lambda>r. ''{'' @ separated '', '' (row_texts (json_member T null_value) t r) @ ''}'' @ [newline]) t"

definition RenderMarkdown :: "arrow_text \<Rightarrow> bool \<Rightarrow> string \<Rightarrow> arrow_table \<Rightarrow> string \<times> render_result" where
  "RenderMarkdown T show_headers null_value t =
     (if at_columns t = [] then ([], \<lparr>rr_rows = 0, rr_columns = 0, rr_footer = False\<rparr>)
      else
        let widths = ComputeColumnWidths T t True null_value False 0;
            cells = (\<lambda>texts. ''|'' @ concat (map2 (\<lambda>s w. '' '' @ s @ pad (w - size_of s) @ '' |'') texts widths) @ [newline])
        in ((if show_headers then cells (map col_name (at_columns t)) else [])
            @ ''|'' @ concat (map (\<lambda>w. '' '' @ replicate (nat w) (CHR ''-'') @ '' |'') widths) @ [newline]
            @ rows_text (\<lambda>r. cells (row_texts (\<lambda>col r. GetCellValue T col r null_value) t r)) t,
            whole t))"

definition RenderLine :: "arrow_text \<Rightarrow> string \<Rightarrow> arrow_table \<Rightarrow> string" where
  "RenderLine T null_value t =
     (let max_name_len = foldl (\<lambda>m col. max m (size_of (col_name col))) 0 (at_columns t)
      in rows_text (\<lambda>r.
           concat (row_texts (\<lambda>col r. pad (max_name_len - size_of (col_name col)) @ col_name col @ '' = ''
                                      @ GetCellValue T col r null_value @ [newline]) t r)
           @ (if r + 1 < at_rows t then [newline] else [])) t)"

definition RenderList :: "arrow_text \<Rightarrow> string \<Rightarrow> string \<Rightarrow> bool \<Rightarrow> string \<Rightarrow> arrow_table \<Rightarrow> string" where
  "RenderList T separator row_separator show_headers null_value t =
     (if show_headers then separated separator (map col_name (at_columns t)) @ [newline] else [])
     @ rows_text (\<lambda>r. separated separator (row_texts (\<lambda>col r. GetCellValue T col r null_value) t r) @ row_separator) t"

definition html_row :: "string \<Rightarrow> string list \<Rightarrow> string" where
  "html_row tag texts =
     ''<tr>'' @ concat (map (\<lambda>s. ''<'' @ tag @ ''>'' @ HtmlEscape s @ ''</'' @ tag @ ''>'') texts) @ ''</tr>'' @ [newline]"

definition RenderHtml :: "arrow_text \<Rightarrow> bool \<Rightarrow> string \<Rightarrow> arrow_table \<Rightarrow> string" where
  "RenderHtml T show_headers null_value t =
     ''<table>'' @ [newline]
     @ (if show_headers then html_row ''th'' (map col_name (at_columns t)) else [])
     @ rows_text (\<lambda>r. html_row ''td'' (row_texts (\<lambda>col r. GetCellValue T col r null_value) t r)) t
     @ ''</table>'' @ [newline]"

definition latex_row :: "string list \<Rightarrow> string" where
  "latex_row texts = separated '' & '' (map LatexEscape texts) @ '' '' @ [bslash, bslash, newline]"

definition RenderLatex :: "arrow_text \<Rightarrow> bool \<Rightarrow> string \<Rightarrow> arrow_table \<Rightarrow> string \<times> render_result" where
  "RenderLatex T show_headers null_value t =
     (if at_columns t = [] then ([], \<lparr>rr_rows = 0, rr_columns = 0, rr_footer = False\<rparr>)
      else
        ([bslash] @ ''begin{tabular}{'' @ replicate (length (at_columns t)) (CHR ''l'') @ ''}'' @ [newline]
         @ (if show_headers then latex_row (map col_name (at_columns t)) @ [bslash] @ ''hline'' @ [newline] else [])
         @ rows_text (\<lambda>r. latex_row (row_texts (\<lambda>col r. GetCellValue T col r null_value) t r)) t
         @ [bslash] @ ''end{tabular}'' @ [newline],
         whole t))"

definition insert_value :: "arrow_text \<Rightarrow> string \<Rightarrow> arrow_column \<Rightarrow> nat \<Rightarrow> string" where
  "insert_value T null_value col r =
     (if IsCellNull col r then ''NULL''
      else let val = GetCellValue T col r null_value in
           if IsNumericType (col_type col) then val else SqlEscape val)"

definition RenderInsert :: "arrow_text \<Rightarrow> string \<Rightarrow> string \<Rightarrow> arrow_table \<Rightarrow> string" where
  "RenderInsert T table_name null_value t =
     rows_text (\<lambda>r. ''INSERT INTO '' @ table_name @ '' VALUES(''
                    @ separated '','' (row_texts (insert_value T null_value) t r) @ '');'' @ [newline]) t"

definition quote_value :: "arrow_text \<Rightarrow> string \<Rightarrow> arrow_column \<Rightarrow> nat \<Rightarrow> string" where
  "quote_value T null_value col r =
     (if IsCellNull col r then ''NULL'' else SqlEscape (GetCellValue T col r null_value))"

definition RenderQuote :: "arrow_text \<Rightarrow> bool \<Rightarrow> string \<Rightarrow> arrow_table \<Rightarrow> string" where
  "RenderQuote T show_headers null_value t =
     (if show_headers then separated '','' (map (\<lambda>col. SqlEscape (col_name col)) (at_columns t)) @ [newline] else [])
     @ rows_text (\<lambda>r. separated '','' (row_texts (quote_value T null_value) t r) @ [newline]) t"

text \<open>The unit and record separators of ASCII.\<close>

abbreviation unit_sep :: char where "unit_sep \<equiv> CHR 0x1F"
abbreviation record_sep :: char where "record_sep \<equiv> CHR 0x1E"

definition RenderAscii :: "arrow_text \<Rightarrow> bool \<Rightarrow> string \<Rightarrow> arrow_table \<Rightarrow> string" where
  "RenderAscii T show_headers null_value t =
     (if show_headers then separated [unit_sep] (map col_name (at_columns t)) @ [record_sep] else [])
     @ rows_text (\<lambda>r. separated [unit_sep] (row_texts (\<lambda>col r. GetCellValue T col r null_value) t r) @ [record_sep]) t"

text \<open>\<open>CreateRenderer\<close> and the call of the renderer's \<open>Render\<close>; \<open>total_rows\<close> is -2 unless the caller sets it.\<close>

definition render_table :: "arrow_text \<Rightarrow> display_config \<Rightarrow> arrow_table \<Rightarrow> int \<Rightarrow> string \<times> render_result" where
  "render_table T config t total_rows =
     (let headers = dc_headers config; null_value = dc_null config in
      case dc_mode config of
        BOX \<Rightarrow> RenderTabular T kBoxBorder headers null_value (dc_max_rows config) (dc_max_width config) total_rows t
      | TABLE \<Rightarrow> RenderTabular T kTableBorder headers null_value (dc_max_rows config) (dc_max_width config) total_rows t
      | CSV \<Rightarrow> (RenderCsv T headers null_value t, whole t)
      | TABS \<Rightarrow> (RenderTabs T headers null_value t, whole t)
      | JSON \<Rightarrow> (RenderJson T null_value t, whole t)
      | JSONLINES \<Rightarrow> (RenderJsonLines T null_value t, whole t)
      | MARKDOWN \<Rightarrow> RenderMarkdown T headers null_value t
      | LINE \<Rightarrow> (RenderLine T null_value t, whole t)
      | ClientConfig.LIST \<Rightarrow>
          (RenderList T (dc_separator_col config) (dc_separator_row config) headers null_value t, whole t)
      | HTML \<Rightarrow> (RenderHtml T headers null_value t, whole t)
      | LATEX \<Rightarrow> RenderLatex T headers null_value t
      | INSERT \<Rightarrow> (RenderInsert T (dc_insert_table config) null_value t, whole t)
      | QUOTE \<Rightarrow> (RenderQuote T headers null_value t, whole t)
      | ASCII \<Rightarrow> (RenderAscii T headers null_value t, whole t)
      | TRASH \<Rightarrow> ([], whole t))"

section \<open>Separated fields\<close>

text \<open>
  A reader of lines of separated fields, given a reader of one field: it is told nothing of the number of fields
  or lines. Every line takes at least its end, so the length of the text is fuel enough.
\<close>

fun read_line :: "(string \<Rightarrow> ('a \<times> string) option) \<Rightarrow> char \<Rightarrow> char \<Rightarrow> nat \<Rightarrow> string \<Rightarrow> ('a list \<times> string) option" where
  "read_line rd sep eol 0 s = None"
| "read_line rd sep eol (Suc n) s =
     (case rd s of
        Some (a, c # rest) \<Rightarrow>
          if c = eol then Some ([a], rest)
          else if c = sep then map_option (\<lambda>(as, r). (a # as, r)) (read_line rd sep eol n rest)
          else None
      | _ \<Rightarrow> None)"

fun read_lines :: "(string \<Rightarrow> ('a \<times> string) option) \<Rightarrow> char \<Rightarrow> char \<Rightarrow> nat \<Rightarrow> string \<Rightarrow> 'a list list option" where
  "read_lines rd sep eol 0 s = (if s = [] then Some [] else None)"
| "read_lines rd sep eol (Suc n) s =
     (if s = [] then Some []
      else case read_line rd sep eol (length s) s of
             None \<Rightarrow> None
           | Some (as, rest) \<Rightarrow> map_option (\<lambda>ls. as # ls) (read_lines rd sep eol n rest))"

definition read_text :: "(string \<Rightarrow> ('a \<times> string) option) \<Rightarrow> char \<Rightarrow> char \<Rightarrow> string \<Rightarrow> 'a list list option" where
  "read_text rd sep eol s = read_lines rd sep eol (length s) s"

text \<open>
  What a mode of separated fields promises: a field of the right kind, whatever it holds, is read back when a
  separator or the end of the line follows.
\<close>

locale field_format =
  fixes enc :: "'a \<Rightarrow> string"
    and rd :: "string \<Rightarrow> ('a \<times> string) option"
    and valid :: "'a \<Rightarrow> bool"
    and sep eol :: char
  assumes sep_eol: "sep \<noteq> eol"
    and rd_enc: "valid a \<Longrightarrow> c = sep \<or> c = eol \<Longrightarrow> rd (enc a @ c # rest) = Some (a, c # rest)"
begin

lemma line_reads_back:
  assumes "as \<noteq> []" and "list_all valid as" and "length as \<le> n"
  shows "read_line rd sep eol n (separated [sep] (map enc as) @ eol # rest) = Some (as, rest)"
  using assms
proof (induction as arbitrary: n)
  case Nil
  then show ?case by simp
next
  case (Cons a as)
  obtain k where n: "n = Suc k" using Cons.prems(3) by (cases n) auto
  show ?case
  proof (cases as)
    case Nil
    then show ?thesis using Cons.prems n by (simp add: rd_enc)
  next
    case (Cons b bs)
    have "separated [sep] (map enc (a # as)) @ eol # rest
        = enc a @ sep # (separated [sep] (map enc as) @ eol # rest)"
      using Cons by simp
    moreover have "read_line rd sep eol k (separated [sep] (map enc as) @ eol # rest) = Some (as, rest)"
      using Cons.IH [of k] Cons Cons.prems n by simp
    ultimately show ?thesis using Cons.prems n sep_eol by (simp add: rd_enc)
  qed
qed

lemma length_separated: "length as \<le> Suc (length (separated [sep] (map enc as)))"
proof (induction as)
  case (Cons a as)
  then show ?case by (cases as) auto
qed simp

lemma lines_read_back:
  assumes "\<forall>as \<in> set rows. as \<noteq> [] \<and> list_all valid as" and "length rows \<le> n"
  shows "read_lines rd sep eol n (concat (map (\<lambda>as. separated [sep] (map enc as) @ [eol]) rows)) = Some rows"
  using assms
proof (induction rows arbitrary: n)
  case Nil
  then show ?case by (cases n) auto
next
  case (Cons as rows)
  obtain k where n: "n = Suc k" using Cons.prems(2) by (cases n) auto
  let ?rest = "concat (map (\<lambda>as. separated [sep] (map enc as) @ [eol]) rows)"
  let ?s = "separated [sep] (map enc as) @ eol # ?rest"
  have "length as \<le> length ?s" using length_separated [of as] by simp
  then have "read_line rd sep eol (length ?s) ?s = Some (as, ?rest)"
    using Cons.prems by (intro line_reads_back) auto
  then show ?case using Cons.IH [of k] Cons.prems n by simp
qed

text \<open>The text of a table, read line by line.\<close>

lemma text_reads_back:
  assumes "\<forall>as \<in> set rows. as \<noteq> [] \<and> list_all valid as"
  shows "read_text rd sep eol (concat (map (\<lambda>as. separated [sep] (map enc as) @ [eol]) rows)) = Some rows"
proof -
  have "length rows \<le> length (concat (map (\<lambda>as. separated [sep] (map enc as) @ [eol]) rows))"
    by (induction rows) auto
  then show ?thesis unfolding read_text_def using assms by (intro lines_read_back) auto
qed

end

text \<open>
  A field of CSV after RFC 4180: quoted, with doubled quotes inside, or bare up to a separator or line end; and a
  field of the quoted mode: a SQL string literal, or \<open>NULL\<close>.
\<close>

definition csv_bare :: "char \<Rightarrow> bool" where
  "csv_bare c \<longleftrightarrow> c \<noteq> CHR '','' \<and> c \<noteq> newline \<and> c \<noteq> creturn \<and> c \<noteq> dquote"

definition csv_field :: "string \<Rightarrow> (string \<times> string) option" where
  "csv_field s =
     (case s of c # cs \<Rightarrow> if c = dquote then read_token dquote s else Some (takeWhile csv_bare s, dropWhile csv_bare s)
      | [] \<Rightarrow> Some ([], []))"

definition quoted_field :: "string \<Rightarrow> (string option \<times> string) option" where
  "quoted_field s =
     (if take 4 s = ''NULL'' then Some (None, drop 4 s)
      else map_option (\<lambda>(v, r). (Some v, r)) (read_token squote s))"

definition write_quoted :: "string option \<Rightarrow> string" where
  "write_quoted v = (case v of None \<Rightarrow> ''NULL'' | Some s \<Rightarrow> SqlEscape s)"

text \<open>A field written as it is ends at a separator; it must not hold one.\<close>

definition plain_field :: "char \<Rightarrow> char \<Rightarrow> string \<Rightarrow> (string \<times> string) option" where
  "plain_field sep eol s = Some (takeWhile (\<lambda>c. c \<noteq> sep \<and> c \<noteq> eol) s, dropWhile (\<lambda>c. c \<noteq> sep \<and> c \<noteq> eol) s)"

definition no_separator :: "char \<Rightarrow> char \<Rightarrow> string \<Rightarrow> bool" where
  "no_separator sep eol s \<longleftrightarrow> sep \<notin> set s \<and> eol \<notin> set s"

lemma double_quotes: "concat (map (\<lambda>c. if c = q then [q, q] else [c]) s) = double_char q s"
  by (induction s) auto

lemma CsvEscape_bare: "(\<forall>c \<in> set s. csv_bare c) \<Longrightarrow> CsvEscape s = s"
  by (auto simp: CsvEscape_def csv_bare_def)

lemma CsvEscape_quoted: "\<not> (\<forall>c \<in> set s. csv_bare c) \<Longrightarrow> CsvEscape s = dquote # double_char dquote s @ [dquote]"
  unfolding CsvEscape_def double_quotes csv_bare_def by auto

lemma field_end:
  assumes "\<forall>x \<in> set s. P x" and "\<not> P c"
  shows "takeWhile P (s @ c # rest) = s \<and> dropWhile P (s @ c # rest) = c # rest"
  using assms by (simp add: takeWhile_append2 dropWhile_append2)

lemma csv_field_reads:
  assumes "c = CHR '','' \<or> c = newline"
  shows "csv_field (CsvEscape s @ c # rest) = Some (s, c # rest)"
proof (cases "\<forall>x \<in> set s. csv_bare x")
  case True
  have c: "\<not> csv_bare c" "c \<noteq> dquote" using assms by (auto simp: csv_bare_def)
  have "takeWhile csv_bare (s @ c # rest) = s" "dropWhile csv_bare (s @ c # rest) = c # rest"
    using field_end [of s csv_bare c rest] True c by simp_all
  moreover have "hd (s @ c # rest) \<noteq> dquote"
    using True c by (cases s) (auto simp: csv_bare_def)
  ultimately show ?thesis
    unfolding CsvEscape_bare [OF True] csv_field_def by (cases "s @ c # rest") (auto simp: Cons_eq_append_conv)
next
  case False
  have eq: "CsvEscape s = QuoteIdent s"
    unfolding CsvEscape_quoted [OF False] ident.quote_eq ..
  have "csv_field (QuoteIdent s @ c # rest) = read_token dquote (QuoteIdent s @ c # rest)"
    unfolding ident.quote_eq by (simp add: csv_field_def)
  also have "\<dots> = Some (s, c # rest)" using assms by (intro ident.read_quote) auto
  finally show ?thesis unfolding eq .
qed

interpretation csv: field_format CsvEscape csv_field "\<lambda>s. True" "CHR '',''" newline
  by unfold_locales (auto intro: csv_field_reads)

lemma quoted_field_literal:
  "quoted_field (SqlEscape s @ r) = map_option (\<lambda>(v, r). (Some v, r)) (read_token squote (SqlEscape s @ r))"
proof -
  have "take 4 (SqlEscape s @ r) \<noteq> ''NULL''" by (simp add: literal.quote_eq)
  then show ?thesis by (simp only: quoted_field_def if_False)
qed

lemma quoted_null: "quoted_field (CHR ''N'' # CHR ''U'' # CHR ''L'' # CHR ''L'' # r) = Some (None, r)"
  by (simp add: quoted_field_def)

interpretation quoted: field_format write_quoted quoted_field "\<lambda>v. True" "CHR '',''" newline
proof (unfold_locales, simp)
  fix v c rest assume "c = CHR '','' \<or> c = newline"
  then have "read_token squote (SqlEscape s @ c # rest) = Some (s, c # rest)" for s
    by (intro literal.read_quote) auto
  then show "quoted_field (write_quoted v @ c # rest) = Some (v, c # rest)"
    by (cases v) (simp_all add: write_quoted_def quoted_field_literal quoted_null)
qed

lemma plain_field_reads:
  assumes "no_separator sep eol s" and "c = sep \<or> c = eol"
  shows "plain_field sep eol (s @ c # rest) = Some (s, c # rest)"
proof -
  have "\<forall>x \<in> set s. x \<noteq> sep \<and> x \<noteq> eol" using assms(1) by (auto simp: no_separator_def)
  then show ?thesis
    using field_end [of s "\<lambda>c. c \<noteq> sep \<and> c \<noteq> eol" c rest] assms(2) by (auto simp: plain_field_def)
qed

interpretation tabs: field_format "\<lambda>s. s" "plain_field tabchar newline" "no_separator tabchar newline" tabchar newline
  by unfold_locales (auto intro: plain_field_reads)

interpretation ascii: field_format "\<lambda>s. s" "plain_field unit_sep record_sep" "no_separator unit_sep record_sep"
    unit_sep record_sep
  by unfold_locales (auto intro: plain_field_reads)

section \<open>Modes that read back\<close>

lemma row_texts_map: "row_texts (\<lambda>col r. f (g col r)) t r = map f (row_texts g t r)"
  by (simp add: row_texts_def)

lemma row_texts_nonempty [simp]:
  "row_texts g t r = [] \<longleftrightarrow> at_columns t = []" "[] = row_texts g t r \<longleftrightarrow> at_columns t = []"
  by (auto simp: row_texts_def)

lemma header_and_rows:
  "(if h then separated sep (map enc names) @ eol else []) @ rows_text (\<lambda>r. separated sep (map enc (cells r)) @ eol) t
    = concat (map (\<lambda>as. separated sep (map enc as) @ eol) ((if h then [names] else []) @ map cells [0..<at_rows t]))"
  by (simp add: rows_text_def comp_def)

text \<open>
  What CSV mode writes is a CSV file in which every field can be found again: a reader after RFC 4180 that knows
  neither the number of columns nor of rows gets the header and the text of every cell, whatever quotes, commas
  and line ends the names and texts hold.
\<close>

theorem csv_reads_back:
  assumes "at_columns t \<noteq> []"
  shows "read_text csv_field (CHR '','') newline (RenderCsv T show_headers null_value t)
    = Some ((if show_headers then [map col_name (at_columns t)] else [])
            @ map (row_texts (\<lambda>col r. GetCellValue T col r null_value) t) [0..<at_rows t])"
proof -
  let ?cells = "row_texts (\<lambda>col r. GetCellValue T col r null_value) t"
  let ?rows = "(if show_headers then [map col_name (at_columns t)] else []) @ map ?cells [0..<at_rows t]"
  have "RenderCsv T show_headers null_value t
      = concat (map (\<lambda>as. separated '','' (map CsvEscape as) @ [newline]) ?rows)"
    unfolding RenderCsv_def row_texts_map [where f = CsvEscape]
    using header_and_rows [of show_headers "'',''" CsvEscape "map col_name (at_columns t)" "[newline]" ?cells t]
    by (simp add: comp_def)
  moreover have "\<forall>as \<in> set ?rows. as \<noteq> [] \<and> list_all (\<lambda>s. True) as"
    using assms by (auto simp: list_all_iff)
  ultimately show ?thesis using csv.text_reads_back [of ?rows] by simp
qed

definition sample_text :: arrow_text where
  "sample_text =
     \<lparr>tx_value = (\<lambda>ty v. case v of VString s \<Rightarrow> Some s | VInt i \<Rightarrow> Some (show_int i) | _ \<Rightarrow> None), tx_type = (\<lambda>ty. ''list'')\<rparr>"

definition sample_table :: arrow_table where
  "sample_table =
     \<lparr>at_columns = [\<lparr>col_name = ''name'', col_type = STRING, col_chunks = [[VString ''a,b''], [VNull]]\<rparr>,
                    \<lparr>col_name = ''n'', col_type = INT32, col_chunks = [[VInt 7, VInt 10]]\<rparr>],
      at_rows = 2\<rparr>"

lemma sample_table_columns: "at_columns sample_table \<noteq> []"
  by (simp add: sample_table_def)

theorem csv_reads_back_witness:
  "read_text csv_field (CHR '','') newline (RenderCsv sample_text True ''NULL'' sample_table)
     = Some ([map col_name (at_columns sample_table)]
             @ map (row_texts (\<lambda>col r. GetCellValue sample_text col r ''NULL'') sample_table) [0..<at_rows sample_table])"
  using csv_reads_back [OF sample_table_columns, of sample_text True "''NULL''"] by simp

text \<open>
  The quoted mode keeps nulls and texts apart: read as SQL literals separated by commas, its lines give the
  header and every cell back, \<open>NULL\<close> exactly for the cells that are null; a text that says NULL comes back as
  that text.
\<close>

theorem quoted_mode_reads_back:
  assumes "at_columns t \<noteq> []"
  shows "read_text quoted_field (CHR '','') newline (RenderQuote T show_headers null_value t)
    = Some ((if show_headers then [map (\<lambda>col. Some (col_name col)) (at_columns t)] else [])
            @ map (row_texts (\<lambda>col r. if IsCellNull col r then None else Some (GetCellValue T col r null_value)) t)
                  [0..<at_rows t])"
proof -
  let ?cell = "\<lambda>col r. if IsCellNull col r then None else Some (GetCellValue T col r null_value)"
  let ?names = "map (\<lambda>col. Some (col_name col)) (at_columns t)"
  let ?rows = "(if show_headers then [?names] else []) @ map (row_texts ?cell t) [0..<at_rows t]"
  have cell: "quote_value T null_value = (\<lambda>col r. write_quoted (?cell col r))"
    by (intro ext) (simp add: quote_value_def write_quoted_def)
  have "RenderQuote T show_headers null_value t
      = concat (map (\<lambda>as. separated '','' (map write_quoted as) @ [newline]) ?rows)"
    unfolding RenderQuote_def cell row_texts_map [where f = write_quoted]
    using header_and_rows [of show_headers "'',''" write_quoted ?names "[newline]" "row_texts ?cell t" t]
    by (simp add: comp_def write_quoted_def)
  moreover have "\<forall>as \<in> set ?rows. as \<noteq> [] \<and> list_all (\<lambda>s. True) as"
    using assms by (auto simp: list_all_iff)
  ultimately show ?thesis using quoted.text_reads_back [of ?rows] by simp
qed

theorem quoted_mode_reads_back_witness:
  "read_text quoted_field (CHR '','') newline (RenderQuote sample_text True ''NULL'' sample_table)
     = Some ([map (\<lambda>col. Some (col_name col)) (at_columns sample_table)]
             @ map (row_texts (\<lambda>col r. if IsCellNull col r then None else Some (GetCellValue sample_text col r ''NULL''))
                     sample_table) [0..<at_rows sample_table])"
  using quoted_mode_reads_back [OF sample_table_columns, of sample_text True "''NULL''"] by simp

text \<open>
  Tab-separated and ASCII output are written as they are: they read back when no text holds a separator.
\<close>

lemma tabs_read_back:
  assumes "at_columns t \<noteq> []"
    and "\<forall>r < at_rows t. list_all (no_separator tabchar newline) (row_texts (\<lambda>col r. GetCellValue T col r nv) t r)"
  shows "read_text (plain_field tabchar newline) tabchar newline (RenderTabs T False nv t)
    = Some (map (row_texts (\<lambda>col r. GetCellValue T col r nv) t) [0..<at_rows t])"
proof -
  let ?rows = "map (row_texts (\<lambda>col r. GetCellValue T col r nv) t) [0..<at_rows t]"
  have "RenderTabs T False nv t = concat (map (\<lambda>as. separated [tabchar] (map (\<lambda>s. s) as) @ [newline]) ?rows)"
    by (simp add: RenderTabs_def rows_text_def comp_def)
  then show ?thesis using tabs.text_reads_back [of ?rows] assms by auto
qed

lemma ascii_reads_back:
  assumes "at_columns t \<noteq> []"
    and "\<forall>r < at_rows t. list_all (no_separator unit_sep record_sep) (row_texts (\<lambda>col r. GetCellValue T col r nv) t r)"
  shows "read_text (plain_field unit_sep record_sep) unit_sep record_sep (RenderAscii T False nv t)
    = Some (map (row_texts (\<lambda>col r. GetCellValue T col r nv) t) [0..<at_rows t])"
proof -
  let ?rows = "map (row_texts (\<lambda>col r. GetCellValue T col r nv) t) [0..<at_rows t]"
  have "RenderAscii T False nv t = concat (map (\<lambda>as. separated [unit_sep] (map (\<lambda>s. s) as) @ [record_sep]) ?rows)"
    by (simp add: RenderAscii_def rows_text_def comp_def)
  then show ?thesis using ascii.text_reads_back [of ?rows] assms by auto
qed

section \<open>JSON strings\<close>

definition hex_val :: "char \<Rightarrow> nat option" where
  "hex_val c =
     (if is_digit c then Some (of_char c - 48)
      else if 97 \<le> (of_char c :: nat) \<and> of_char c \<le> (102 :: nat) then Some (of_char c - 87) else None)"

text \<open>The inside of a JSON string up to its closing quote; a control character in it is an error.\<close>

fun read_json :: "string \<Rightarrow> (string \<times> string) option" where
  "read_json (c # cs) =
     (if c = dquote then Some ([], cs)
      else if c = bslash
      then (case cs of
              e # ds \<Rightarrow>
                if e = dquote \<or> e = bslash \<or> e = CHR ''/'' then map_option (apfst ((#) e)) (read_json ds)
                else if e = CHR ''b'' then map_option (apfst ((#) (CHR 0x08))) (read_json ds)
                else if e = CHR ''f'' then map_option (apfst ((#) (CHR 0x0C))) (read_json ds)
                else if e = CHR ''n'' then map_option (apfst ((#) newline)) (read_json ds)
                else if e = CHR ''r'' then map_option (apfst ((#) creturn)) (read_json ds)
                else if e = CHR ''t'' then map_option (apfst ((#) tabchar)) (read_json ds)
                else if e = CHR ''u''
                then (case ds of
                        h1 # h2 # h3 # h4 # es \<Rightarrow>
                          (case (hex_val h1, hex_val h2, hex_val h3, hex_val h4) of
                             (Some 0, Some 0, Some a, Some b) \<Rightarrow>
                               if a < 8 then map_option (apfst ((#) (char_of (16 * a + b)))) (read_json es) else None
                           | _ \<Rightarrow> None)
                      | _ \<Rightarrow> None)
                else None
            | [] \<Rightarrow> None)
      else if of_char c < (32 :: nat) then None
      else map_option (apfst ((#) c)) (read_json cs))"
| "read_json [] = None"

lemma hex_val_digit: "n < 16 \<Longrightarrow> hex_val (hex_digit n) = Some n"
  by (auto simp: hex_val_def hex_digit_def is_digit_def)

lemma read_json_char: "read_json (json_char c @ cs) = map_option (apfst ((#) c)) (read_json cs)"
proof (cases "of_char c < (32 :: nat) \<and> c \<notin> {CHR 0x08, CHR 0x0C, newline, creturn, tabchar}")
  case True
  have zero: "hex_val (CHR ''0'') = Some 0" by (simp add: hex_val_def is_digit_def)
  have small: "of_char c < (32 :: nat)" using True by blast
  have "\<not> of_char dquote < (32 :: nat)" "\<not> of_char bslash < (32 :: nat)" by simp_all
  then have "c \<noteq> dquote" "c \<noteq> bslash" using small by metis+
  then have "json_char c = [bslash, CHR ''u'', CHR ''0'', CHR ''0'', hex_digit (of_char c div 16), hex_digit (of_char c mod 16)]"
    using True by (simp add: json_char_def)
  moreover have "of_char c div 16 < (2 :: nat)" using small by simp
  ultimately show ?thesis by (simp add: zero hex_val_digit)
next
  case False
  then consider "c = dquote" | "c = bslash" | "c = CHR 0x08" | "c = CHR 0x0C" | "c = newline" | "c = creturn"
    | "c = tabchar" | "\<not> of_char c < (32 :: nat)" "c \<noteq> dquote" "c \<noteq> bslash" by auto
  then show ?thesis
  proof cases
    case 8
    then have "json_char c = [c]" by (auto simp: json_char_def)
    then show ?thesis using 8 by simp
  qed (simp_all add: json_char_def)
qed

text \<open>
  Every text is written as a valid JSON string: a JSON reader gets the same bytes back and goes on right after
  the closing quote. No control character is left in what is written, so an object of the JSON Lines mode stays
  on its line and the key or text cannot leave its quotes.
\<close>

theorem json_string_reads_back:
  "read_json (JsonEscape s @ dquote # rest) = Some (s, rest)
   \<and> list_all (\<lambda>c. (32 :: nat) \<le> of_char c) (JsonEscape s)"
proof
  show "read_json (JsonEscape s @ dquote # rest) = Some (s, rest)"
    unfolding JsonEscape_def by (induction s) (simp_all add: read_json_char del: read_json.simps(1), simp)
  have hex: "(32 :: nat) \<le> of_char (hex_digit n)" if "n < 16" for n
    using that by (simp add: hex_digit_def)
  have "\<forall>c \<in> set (json_char x). (32 :: nat) \<le> of_char c" for x
  proof (cases "of_char x < (32 :: nat)")
    case True
    then have "of_char x div 16 < (16 :: nat)" "of_char x mod 16 < (16 :: nat)" by auto
    then show ?thesis using True by (auto simp: json_char_def hex)
  next
    case False
    then show ?thesis by (auto simp: json_char_def)
  qed
  then show "list_all (\<lambda>c. (32 :: nat) \<le> of_char c) (JsonEscape s)"
    unfolding JsonEscape_def by (auto simp: list_all_iff)
qed

section \<open>Widths that fit\<close>

text \<open>
  The columns no wider than a level, with the sum of their widths, and the number of the others: the state of the
  water-level loop is always that of a level.
\<close>

fun low :: "int \<Rightarrow> int list \<Rightarrow> int" where
  "low L [] = 0"
| "low L (w # ws) = (if w \<le> L then w else 0) + low L ws"

fun high :: "int \<Rightarrow> int list \<Rightarrow> int" where
  "high L [] = 0"
| "high L (w # ws) = (if w \<le> L then 0 else 1) + high L ws"

lemma high_nonneg: "0 \<le> high L ws"
  by (induction ws) auto

lemma high_mono: "L \<le> F \<Longrightarrow> high F ws \<le> high L ws"
  by (induction ws) auto

lemma high_length: "high L ws \<le> int (length ws)"
  by (induction ws) auto

lemma same_level: "L \<le> F \<Longrightarrow> high F ws = high L ws \<Longrightarrow> low F ws = low L ws"
proof (induction ws)
  case (Cons w ws)
  then show ?case using high_mono [of L F ws] by (auto split: if_splits)
qed simp

lemma fix_columns_level:
  "L \<le> F \<Longrightarrow> fix_columns F ws (map (\<lambda>w. w \<le> L) ws) r u
     = (map (\<lambda>w. w \<le> F) ws, r + low L ws - low F ws, u + high F ws - high L ws, high F ws < high L ws)"
proof (induction ws arbitrary: r u)
  case (Cons w ws)
  then show ?case using high_mono [of L F ws] by auto
qed simp

lemma new_columns: "L \<le> F \<Longrightarrow> low F ws - low L ws \<le> F * (high L ws - high F ws)"
  by (induction ws) (auto simp: algebra_simps)

lemma high_zero: "high L ws = 0 \<Longrightarrow> low L ws = sum_list ws"
proof (induction ws)
  case (Cons w ws)
  then show ?case using high_nonneg [of L ws] by (auto split: if_splits)
qed simp

lemma new_level_positive: "\<forall>w \<in> set ws. 1 \<le> w \<Longrightarrow> high F ws < high L ws \<Longrightarrow> 1 \<le> F"
  by (induction ws) (auto split: if_splits)

lemma le_cdiv: "0 < b \<Longrightarrow> F * b \<le> a \<Longrightarrow> 0 \<le> a \<Longrightarrow> F \<le> cdiv a b"
  by (simp add: cdiv_nonneg zdiv_mono1 pos_imp_zdiv_nonneg_iff) (metis nonzero_mult_div_cancel_right order_less_irrefl zdiv_mono1)

lemma cdiv_pos: "0 < b \<Longrightarrow> 1 \<le> cdiv a b \<Longrightarrow> 0 \<le> a \<and> cdiv a b * b \<le> a"
proof -
  assume b: "0 < b" and c: "1 \<le> cdiv a b"
  have "0 \<le> a"
  proof (rule ccontr)
    assume "\<not> 0 \<le> a"
    then have "cdiv a b = - (- a div b)" "0 \<le> - a div b"
      using b by (simp_all add: cdiv_def sgn_if pos_imp_zdiv_nonneg_iff)
    then show False using c by simp
  qed
  then show ?thesis using b by (simp add: minus_mod_eq_div_mult [symmetric])
qed

definition level_share :: "int \<Rightarrow> int list \<Rightarrow> int \<Rightarrow> int" where
  "level_share A ws L = cdiv (A - low L ws) (max 1 (high L ws))"

lemma water_level_result:
  assumes "\<forall>w \<in> set ws. 1 \<le> w" and "A < sum_list ws"
    and "0 < high L ws" and "L \<le> level_share A ws L" and "nat (high L ws) \<le> n"
  shows "\<exists>F. level_share A ws L \<le> F
    \<and> water_level n ws (map (\<lambda>w. w \<le> L) ws) (A - low L ws) (high L ws) = (map (\<lambda>w. w \<le> F) ws, A - low F ws, high F ws)
    \<and> 0 < high F ws \<and> F = cdiv (A - low F ws) (high F ws)"
  using assms(3-5)
proof (induction n arbitrary: L)
  case 0
  then show ?case by simp
next
  case (Suc n)
  define F where "F = level_share A ws L"
  have LF: "L \<le> F" using Suc.prems F_def by simp
  note pass = fix_columns_level [OF LF, of ws "A - low L ws" "high L ws"]
  have share: "cdiv (A - low L ws) (max 1 (high L ws)) = F" by (simp add: F_def level_share_def)
  show ?case
  proof (cases "high F ws < high L ws")
    case False
    then have same: "high F ws = high L ws" using high_mono [OF LF, of ws] by simp
    have "water_level (Suc n) ws (map (\<lambda>w. w \<le> L) ws) (A - low L ws) (high L ws)
        = (map (\<lambda>w. w \<le> F) ws, A - low F ws, high F ws)"
      using False by (simp add: share pass)
    moreover have "F = cdiv (A - low F ws) (high F ws)"
      using share same_level [OF LF same] same Suc.prems(1) by (simp add: max_def split: if_splits)
    ultimately show ?thesis using same Suc.prems(1) F_def by auto
  next
    case True
    have F1: "1 \<le> F" by (rule new_level_positive [OF assms(1) True])
    have "0 \<le> A - low L ws \<and> F * high L ws \<le> A - low L ws"
      using cdiv_pos [of "max 1 (high L ws)" "A - low L ws"] share F1 Suc.prems(1) by (simp add: max_def split: if_splits)
    then have room: "F * high F ws \<le> A - low F ws"
      using new_columns [OF LF, of ws] by (simp add: algebra_simps)
    have nonneg: "0 \<le> F * high F ws" using F1 high_nonneg [of F ws] by simp
    have high: "0 < high F ws"
      using high_zero [of F ws] room nonneg assms(2) high_nonneg [of F ws] by (cases "high F ws = 0") auto
    then have share_grows: "F \<le> level_share A ws F"
      unfolding level_share_def using room nonneg by (intro le_cdiv) (auto simp: max_def)
    have iters: "nat (high F ws) \<le> n" using True Suc.prems(3) high by linarith
    obtain G where G: "level_share A ws F \<le> G"
        "water_level n ws (map (\<lambda>w. w \<le> F) ws) (A - low F ws) (high F ws) = (map (\<lambda>w. w \<le> G) ws, A - low G ws, high G ws)"
        "0 < high G ws" "G = cdiv (A - low G ws) (high G ws)"
      using Suc.IH [OF high share_grows iters] by blast
    have "water_level (Suc n) ws (map (\<lambda>w. w \<le> L) ws) (A - low L ws) (high L ws)
        = water_level n ws (map (\<lambda>w. w \<le> F) ws) (A - low F ws) (high F ws)"
      using True by (simp add: share pass)
    moreover have "level_share A ws L \<le> G" using G(1) share_grows F_def by simp
    ultimately show ?thesis using G by auto
  qed
qed

lemma high_all: "\<forall>w \<in> set ws. L < w \<Longrightarrow> low L ws = 0 \<and> high L ws = int (length ws) \<and> map (\<lambda>w. w \<le> L) ws = replicate (length ws) False"
  by (induction ws) auto

lemma calc_total_sum: "calc_total ws (length ws) = 1 + sum_list ws + int (length ws) * kBorderOverhead"
proof -
  have "sum_list (map (\<lambda>w. w + k) ws) = sum_list ws + int (length ws) * k" for k :: int
    by (induction ws) (auto simp: algebra_simps)
  then show ?thesis by (simp add: calc_total_def)
qed

lemma capped_sum: "sum_list (map (\<lambda>w. if w \<le> F then w else C) ws) = low F ws + C * high F ws"
  by (induction ws) (auto simp: algebra_simps)

lemma drop_columns_result:
  assumes "0 < n"
  shows "1 \<le> drop_columns ws m n \<and> drop_columns ws m n \<le> n
    \<and> (calc_total ws (drop_columns ws m n) \<le> m \<or> drop_columns ws m n = 1)
    \<and> (drop_columns ws m n < n \<longrightarrow> m < calc_total ws (Suc (drop_columns ws m n)))"
  using assms
proof (induction n)
  case (Suc n)
  show ?case
  proof (cases "Suc n > 1 \<and> calc_total ws (Suc n) > m")
    case True
    then have "drop_columns ws m (Suc n) = drop_columns ws m n" by simp
    moreover have "drop_columns ws m n < n \<or> drop_columns ws m n = n" using Suc.IH True by auto
    ultimately show ?thesis using Suc.IH True by auto
  qed auto
qed simp

lemma drop_columns_fits: "calc_total ws n \<le> m \<Longrightarrow> drop_columns ws m n = n"
  by (cases n) auto

text \<open>The widths of a table that is too wide: one level, for all columns.\<close>

definition level_cap :: "int \<Rightarrow> int \<Rightarrow> int" where
  "level_cap F w = (if w \<le> F then w else max kMinColWidth F)"

lemma capped_level:
  assumes "widths \<noteq> []" and "\<forall>w \<in> set widths. 1 \<le> w" and "max_width < calc_total widths (length widths)"
  defines "N \<equiv> int (length widths)"
  shows "\<exists>F. cdiv (max_width - 1 - N * kBorderOverhead) N \<le> F
    \<and> (let capped = map (level_cap F) widths; n = drop_columns capped max_width (length widths)
       in CapColumnWidths widths max_width = (take n capped, n))
    \<and> (kMinColWidth \<le> F \<longrightarrow> calc_total (map (level_cap F) widths) (length widths) \<le> max_width)"
proof -
  define A where "A = max_width - 1 - N * kBorderOverhead"
  define L where "L = min 0 (cdiv A N)"
  have N: "0 < N" using assms(1) by (simp add: N_def)
  have A: "A < sum_list widths" using assms(3) by (simp add: A_def N_def calc_total_sum)
  have start: "low L widths = 0" "high L widths = N" "map (\<lambda>w. w \<le> L) widths = replicate (length widths) False"
    using high_all [of widths L] assms(2) unfolding L_def N_def by force+
  have share: "level_share A widths L = cdiv A N" using N by (simp add: level_share_def start max_def)
  obtain F where F: "cdiv A N \<le> F"
      "water_level (length widths) widths (replicate (length widths) False) A N
         = (map (\<lambda>w. w \<le> F) widths, A - low F widths, high F widths)"
      "0 < high F widths" "F = cdiv (A - low F widths) (high F widths)"
    using water_level_result [OF assms(2) A, of L "length widths"] N share start unfolding N_def L_def by force
  have zipped: "map2 (\<lambda>w f. if f then w else C) widths (map (\<lambda>w. w \<le> F) widths) = map (\<lambda>w. if w \<le> F then w else C) widths" for C
    by (induction widths) auto
  have capped: "map2 (\<lambda>w f. if f then w else max kMinColWidth (cdiv (A - low F widths) (high F widths))) widths
      (map (\<lambda>w. w \<le> F) widths) = map (level_cap F) widths"
    unfolding zipped F(4) [symmetric] level_cap_def ..
  have cap: "CapColumnWidths widths max_width
      = (let capped = map (level_cap F) widths; n = drop_columns capped max_width (length widths) in (take n capped, n))"
    using assms(1,3) F(2,3) unfolding CapColumnWidths_def Let_def
    by (simp add: A_def [symmetric] N_def [symmetric] capped)
  have "calc_total (map (level_cap F) widths) (length widths) \<le> max_width" if "kMinColWidth \<le> F"
  proof -
    have "F * high F widths \<le> A - low F widths"
      using cdiv_pos [OF F(3), of "A - low F widths"] F(4) that by (simp add: kMinColWidth_def)
    moreover have "max kMinColWidth F = F" using that by simp
    ultimately show ?thesis
      using calc_total_sum [of "map (level_cap F) widths"] capped_sum [of F F widths]
      unfolding level_cap_def by (simp add: A_def N_def)
  qed
  then show ?thesis using F(1) cap A_def by (auto simp: Let_def)
qed

text \<open>
  Fitting a table to a width leaves at least one column, and it fits or only that column is left; a column is
  dropped only when it would not fit. There is one level: columns up to it keep their width, wider ones get it (at
  least four), it is never below an equal share of the room, and no column is dropped unless the level is below
  four.
\<close>

theorem capped_columns_fit:
  assumes "widths \<noteq> []" and "\<forall>w \<in> set widths. 1 \<le> w" and "CapColumnWidths widths max_width = (ws, n)"
  shows "1 \<le> n \<and> n \<le> length widths \<and> length ws = n \<and> (calc_total ws n \<le> max_width \<or> n = 1)
    \<and> (\<exists>F. ws = take n (map (level_cap F) widths)
         \<and> (n < length widths \<longrightarrow> F < 4 \<and> max_width < calc_total (map (level_cap F) widths) (Suc n))
         \<and> cdiv (max_width - 1 - int (length widths) * kBorderOverhead) (int (length widths)) \<le> F)"
proof (cases "calc_total widths (length widths) \<le> max_width")
  case True
  let ?F = "max (Max (set widths)) (cdiv (max_width - 1 - int (length widths) * kBorderOverhead) (int (length widths)))"
  have "CapColumnWidths widths max_width = (widths, length widths)"
    using True by (simp add: CapColumnWidths_def Let_def)
  then have eq: "ws = widths" "n = length widths" using assms(3) by auto
  have "\<forall>w \<in> set widths. w \<le> ?F" by (simp add: le_max_iff_disj)
  then have "map (level_cap ?F) widths = widths" by (simp add: level_cap_def map_idI)
  then show ?thesis using eq assms(1) True by (auto intro!: exI [of _ ?F] simp: Suc_le_eq)
next
  case False
  then have wide: "max_width < calc_total widths (length widths)" by simp
  obtain F where F: "cdiv (max_width - 1 - int (length widths) * kBorderOverhead) (int (length widths)) \<le> F"
      "CapColumnWidths widths max_width
         = (take (drop_columns (map (level_cap F) widths) max_width (length widths)) (map (level_cap F) widths),
            drop_columns (map (level_cap F) widths) max_width (length widths))"
      "kMinColWidth \<le> F \<longrightarrow> calc_total (map (level_cap F) widths) (length widths) \<le> max_width"
    using capped_level [OF assms(1,2) wide] by (auto simp: Let_def)
  let ?capped = "map (level_cap F) widths"
  have eq: "n = drop_columns ?capped max_width (length widths)" "ws = take n ?capped" using F(2) assms(3) by auto
  have total: "calc_total ws n = calc_total ?capped n" by (simp add: eq(2) calc_total_def)
  have "0 < length widths" using assms(1) by simp
  note drop = drop_columns_result [OF this, of ?capped max_width, folded eq(1)]
  have "n = length widths" if "4 \<le> F"
    using F(3) that drop_columns_fits [of ?capped "length widths" max_width] eq(1) by (simp add: kMinColWidth_def)
  then have small: "n < length widths \<Longrightarrow> F < 4" by force
  show ?thesis using drop small F(1) total eq(2) by auto
qed

lemma sample_cap: "CapColumnWidths [3, 40, 25] 60 = ([3, 23, 23], 3)"
  by code_simp

theorem capped_columns_fit_witness:
  "calc_total [3, 23, 23] 3 \<le> 60
   \<and> (\<exists>F. [3, 23, 23] = take 3 (map (level_cap F) [3, 40, 25]) \<and> cdiv (60 - 1 - 3 * kBorderOverhead) 3 \<le> F)"
proof -
  have "(\<forall>w \<in> set [3, 40, 25 :: int]. 1 \<le> w)" "[3, 40, 25 :: int] \<noteq> []" by simp_all
  then show ?thesis using capped_columns_fit [of "[3, 40, 25]" 60 "[3, 23, 23]" 3] sample_cap by auto
qed

section \<open>The box is rectangular\<close>

text \<open>The places a UTF-8 text takes on a line of plain characters: its bytes without the continuation bytes.\<close>

definition continuation :: "char \<Rightarrow> bool" where
  "continuation c \<longleftrightarrow> (128 :: nat) \<le> of_char c \<and> of_char c < (192 :: nat)"

definition points :: "string \<Rightarrow> int" where
  "points s = size_of (filter (\<lambda>c. \<not> continuation c) s)"

definition plain :: "string \<Rightarrow> bool" where
  "plain s \<longleftrightarrow> (\<forall>c \<in> set s. of_char c < (128 :: nat) \<and> c \<noteq> newline)"

definition plain_table :: "arrow_text \<Rightarrow> string \<Rightarrow> arrow_table \<Rightarrow> bool" where
  "plain_table T null_value t \<longleftrightarrow>
     (\<forall>col \<in> set (at_columns t).
        plain (col_name col) \<and> plain (FriendlyTypeName T (col_type col))
        \<and> (\<forall>r < at_rows t. plain (GetCellValue T col r null_value)))"

text \<open>A line of the given width, with its end.\<close>

definition line_of :: "int \<Rightarrow> string \<Rightarrow> bool" where
  "line_of w s \<longleftrightarrow> s \<noteq> [] \<and> last s = newline \<and> newline \<notin> set (butlast s) \<and> points (butlast s) = w"

definition mark :: "string \<Rightarrow> bool" where
  "mark s \<longleftrightarrow> points s = 1 \<and> newline \<notin> set s"

definition style_ok :: "border_style \<Rightarrow> bool" where
  "style_ok bs \<longleftrightarrow>
     list_all mark [bs_tl bs, bs_tr bs, bs_bl bs, bs_br bs, bs_h bs, bs_v bs, bs_tt bs, bs_bt bs, bs_lt bs, bs_rt bs, bs_cx bs]"

lemma styles_ok: "style_ok kBoxBorder" "style_ok kTableBorder"
  by code_simp+

lemma style_marks:
  assumes "style_ok bs"
  shows "mark (bs_tl bs)" "mark (bs_tr bs)" "mark (bs_bl bs)" "mark (bs_br bs)" "mark (bs_h bs)" "mark (bs_v bs)"
    "mark (bs_tt bs)" "mark (bs_bt bs)" "mark (bs_lt bs)" "mark (bs_rt bs)" "mark (bs_cx bs)"
  using assms by (simp_all add: style_ok_def)

named_theorems point_simps \<open>the places texts take\<close>

lemma points_simps [point_simps]:
  "points [] = 0" "points (s @ r) = points s + points r"
  "points (c # s) = (if continuation c then 0 else 1) + points s"
  by (simp_all add: points_def size_of_def)

lemma points_pad [point_simps]: "points (pad n) = max 0 n" "newline \<notin> set (pad n)"
  by (auto simp: points_def pad_def size_of_def continuation_def filter_replicate)

lemma points_concat: "points (concat ss) = sum_list (map points ss)"
  by (induction ss) (simp_all add: point_simps)

lemma mark_points [point_simps]: "mark s \<Longrightarrow> points s = 1" "mark s \<Longrightarrow> newline \<notin> set s"
  by (simp_all add: mark_def)

lemma points_marks: "mark s \<Longrightarrow> points (concat (replicate n s)) = int n \<and> newline \<notin> set (concat (replicate n s))"
  by (induction n) (auto simp: point_simps)

lemma plain_points: "plain s \<Longrightarrow> points s = size_of s \<and> newline \<notin> set s"
  by (induction s) (auto simp: plain_def points_def size_of_def continuation_def)

lemma plain_append [simp]: "plain (s @ r) \<longleftrightarrow> plain s \<and> plain r"
  by (auto simp: plain_def)

lemma plain_take: "plain s \<Longrightarrow> plain (take n s)"
  by (auto simp: plain_def dest: in_set_takeD)

lemma line_of_append [simp]: "line_of w (s @ [newline]) \<longleftrightarrow> newline \<notin> set s \<and> points s = w"
  by (simp add: line_of_def)

lemma line_ofI: "s = l @ [newline] \<Longrightarrow> newline \<notin> set l \<Longrightarrow> points l = w \<Longrightarrow> line_of w s"
  by simp

lemma blank_point [point_simps]: "\<not> continuation (CHR '' '')"
  by (simp add: continuation_def)

lemma ellipsis_points: "points ellipsis = 1" "newline \<notin> set ellipsis"
  by code_simp+

lemma TruncateValue_points:
  assumes "plain s" and "1 \<le> w" and "TruncateValue s w = (d, k)"
  shows "points d = k \<and> newline \<notin> set d \<and> 0 \<le> k \<and> k \<le> w"
proof -
  consider "size_of s \<le> w" | "w < size_of s" "w = 1" | "w < size_of s" "1 < w" using assms(2) by linarith
  then show ?thesis
  proof cases
    case 1
    then show ?thesis using assms plain_points [of s] by (auto simp: TruncateValue_def size_of_def)
  next
    case 2
    then show ?thesis using assms by (auto simp: TruncateValue_def ellipsis_points)
  next
    case 3
    have "points (take (nat (w - 1)) s) = w - 1 \<and> newline \<notin> set (take (nat (w - 1)) s)"
      using plain_points [OF plain_take [OF assms(1)], of "nat (w - 1)"] 3 by (auto simp: size_of_def)
    then show ?thesis using assms 3 by (auto simp: TruncateValue_def point_simps ellipsis_points)
  qed
qed

lemma RenderCell_points:
  assumes "plain s" and "1 \<le> w" and "mark border"
  shows "points (RenderCell s w right border) = w + 3 \<and> newline \<notin> set (RenderCell s w right border)"
proof -
  obtain d k where dk: "TruncateValue s w = (d, k)" by fastforce
  then show ?thesis
    using TruncateValue_points [OF assms(1,2) dk] assms(3) by (simp add: RenderCell_def Let_def point_simps)
qed

lemma RenderCellCentered_points:
  assumes "plain s" and "1 \<le> w" and "mark border"
  shows "points (RenderCellCentered s w border) = w + 3 \<and> newline \<notin> set (RenderCellCentered s w border)"
proof -
  obtain d k where dk: "TruncateValue s w = (d, k)" by fastforce
  note d = TruncateValue_points [OF assms(1,2) dk]
  have "0 \<le> (w - k) div 2" "(w - k) div 2 \<le> w - k" using d by auto
  then show ?thesis
    using d dk assms(3) by (simp add: RenderCellCentered_def Let_def point_simps)
qed

text \<open>A line is its cells: each takes its width and three places more.\<close>

lemma cells_points:
  assumes "\<forall>(x, w) \<in> set (zip xs ws). points (f x w) = w + 3 \<and> newline \<notin> set (f x w)" and "length xs = length ws"
  shows "points (concat (map2 f xs ws)) = sum_list (map (\<lambda>w. w + 3) ws) \<and> newline \<notin> set (concat (map2 f xs ws))"
  using assms(2,1)
  by (induction xs ws rule: list_induct2) (auto simp: point_simps)

lemma inner_width_sum: "inner_width ws = sum_list (map (\<lambda>w. w + 3) ws) - 1"
proof -
  have "sum_list (map (\<lambda>w. w + 2) ws) + int (length ws) = sum_list (map (\<lambda>w. w + 3) ws)"
    by (induction ws) auto
  then show ?thesis by (simp add: inner_width_def)
qed

lemma row_line:
  assumes "\<forall>(x, w) \<in> set (zip xs ws). points (f x w) = w + 3 \<and> newline \<notin> set (f x w)" and "length xs = length ws"
    and "mark border"
  shows "line_of (inner_width ws + 2) (border @ concat (map2 f xs ws) @ [newline])"
  using cells_points [OF assms(1,2)] assms(3) line_of_append [of _ "border @ concat (map2 f xs ws)"]
  by (simp add: point_simps inner_width_sum del: line_of_append)

lemma border_line:
  assumes "style_ok bs" and "mark left" and "mark mid" and "mark right" and "\<forall>w \<in> set ws. 1 \<le> w"
  shows "line_of (inner_width ws + 2) (render_border bs ws left mid right)"
proof -
  let ?f = "\<lambda>c. concat (replicate (nat (ws ! c + 2)) (bs_h bs)) @ (if c + 1 < length ws then mid else right)"
  have piece: "points (?f c) = ws ! c + 3 \<and> newline \<notin> set (?f c)" if "c < length ws" for c
  proof -
    have "1 \<le> ws ! c" using assms(5) that by simp
    then show ?thesis
      using points_marks [OF style_marks(5) [OF assms(1)], of "nat (ws ! c + 2)"] assms(3,4)
      by (auto simp: point_simps simp del: concat_replicate_trivial set_concat)
  qed
  have "points (concat (map ?f [0..<length ws])) = sum_list (map (\<lambda>c. ws ! c + 3) [0..<length ws])"
    unfolding points_concat map_map by (intro arg_cong [where f = sum_list] map_cong) (use piece in auto)
  also have "map (\<lambda>c. ws ! c + 3) [0..<length ws] = map (\<lambda>w. w + 3) ws"
    by (rule nth_equalityI) simp_all
  finally have "points (concat (map ?f [0..<length ws])) = sum_list (map (\<lambda>w. w + 3) ws)" .
  moreover have "newline \<notin> set (concat (map ?f [0..<length ws]))"
    using piece by (fastforce simp del: set_append)
  ultimately show ?thesis
    unfolding render_border_def using assms(2) line_of_append [of _ "left @ concat (map ?f [0..<length ws])"]
    by (simp add: point_simps inner_width_sum del: line_of_append)
qed

lemma dot_line:
  assumes "style_ok bs" and "\<forall>w \<in> set ws. 1 \<le> w"
  shows "line_of (inner_width ws + 2) (render_dot_row bs ws)"
proof -
  let ?f = "\<lambda>w. let left_pad = cdiv w 2; right_pad = w - left_pad - 1
               in '' '' @ pad left_pad @ [CHR 0xC2, CHR 0xB7] @ pad right_pad @ '' '' @ bs_v bs"
  have dot: "points [CHR 0xC2, CHR 0xB7] = 1" by code_simp
  have piece: "points (?f w) = w + 3 \<and> newline \<notin> set (?f w)" if "1 \<le> w" for w
  proof -
    have "1 + w div 2 \<le> w" using that by linarith
    then show ?thesis
      using that style_marks(6) [OF assms(1)] dot by (simp add: Let_def point_simps)
  qed
  have "\<forall>(x, w) \<in> set (zip ws ws). points (?f w) = w + 3 \<and> newline \<notin> set (?f w)"
  proof clarify
    fix x w assume "(x, w) \<in> set (zip ws ws)"
    then have "1 \<le> w" using assms(2) by (auto dest: set_zip_rightD)
    then show "points (?f w) = w + 3 \<and> newline \<notin> set (?f w)" by (rule piece)
  qed
  note row = row_line [OF this refl style_marks(6) [OF assms(1)]]
  have "map2 (\<lambda>x w. ?f w) ws ws = map ?f ws" by (rule nth_equalityI) simp_all
  then show ?thesis using row unfolding render_dot_row_def by simp
qed

lemma data_line:
  assumes "style_ok bs" and "\<forall>w \<in> set ws. 1 \<le> w" and "length cols = length ws"
    and "\<forall>col \<in> set cols. plain (GetCellValue T col r nv)"
  shows "line_of (inner_width ws + 2) (render_data_row T bs cols ws nv r)"
  unfolding render_data_row_def
proof (rule row_line [OF _ assms(3) style_marks(6) [OF assms(1)]], clarify)
  fix col w assume "(col, w) \<in> set (zip cols ws)"
  then have "col \<in> set cols" "w \<in> set ws" by (auto dest: set_zip_leftD set_zip_rightD)
  then show "points (RenderCell (GetCellValue T col r nv) w (IsNumericType (col_type col)) (bs_v bs)) = w + 3
      \<and> newline \<notin> set (RenderCell (GetCellValue T col r nv) w (IsNumericType (col_type col)) (bs_v bs))"
    using assms RenderCell_points style_marks(6) by blast
qed

lemma head_line:
  assumes "style_ok bs" and "\<forall>w \<in> set ws. 1 \<le> w" and "length texts = length ws" and "\<forall>s \<in> set texts. plain s"
  shows "line_of (inner_width ws + 2) (render_head_row bs texts ws)"
  unfolding render_head_row_def
proof (rule row_line [OF _ assms(3) style_marks(6) [OF assms(1)]], clarify)
  fix s w assume "(s, w) \<in> set (zip texts ws)"
  then have "s \<in> set texts" "w \<in> set ws" by (auto dest: set_zip_leftD set_zip_rightD)
  then show "points (RenderCellCentered s w (bs_v bs)) = w + 3 \<and> newline \<notin> set (RenderCellCentered s w (bs_v bs))"
    using assms RenderCellCentered_points style_marks(6) by blast
qed

lemma footer_line:
  assumes "style_ok bs" and "plain fl" and "size_of fl \<le> avail"
  shows "line_of (avail + 4) (render_footer_line bs avail fl)"
proof (rule line_ofI)
  show "render_footer_line bs avail fl = (bs_v bs @ '' '' @ fl @ pad (max 0 (avail - size_of fl)) @ '' '' @ bs_v bs) @ [newline]"
    by (simp add: render_footer_line_def)
  have fl: "points fl = size_of fl" "newline \<notin> set fl" using plain_points [OF assms(2)] by auto
  have v: "points (bs_v bs) = 1" "newline \<notin> set (bs_v bs)" using style_marks(6) [OF assms(1)] by (simp_all add: mark_def)
  show "newline \<notin> set (bs_v bs @ '' '' @ fl @ pad (max 0 (avail - size_of fl)) @ '' '' @ bs_v bs)"
    using fl(2) v(2) points_pad(2) by simp
  have "max 0 (max 0 (avail - size_of fl)) = avail - size_of fl" using assms(3) by simp
  then show "points (bs_v bs @ '' '' @ fl @ pad (max 0 (avail - size_of fl)) @ '' '' @ bs_v bs) = avail + 4"
    unfolding points_simps points_pad(1) fl(1) v(1) by (simp add: blank_point)
qed

lemma bottom_line:
  assumes "style_ok bs" and "0 \<le> inner"
  shows "line_of (inner + 2) (bottom_border bs inner)"
  unfolding bottom_border_def
  using style_marks(3,4) [OF assms(1)] points_marks [OF style_marks(5) [OF assms(1)], of "nat inner"] assms(2)
    line_of_append [of _ "bs_bl bs @ concat (replicate (nat inner) (bs_h bs)) @ bs_br bs"]
  by (simp add: point_simps del: line_of_append set_concat concat_replicate_trivial)

lemma pack_footer_ok:
  assumes "size_of current \<le> avail" and "plain current" and "\<forall>p \<in> set parts. size_of p \<le> avail \<and> plain p"
  shows "\<forall>fl \<in> set (pack_footer avail current parts). size_of fl \<le> avail \<and> plain fl"
  using assms
proof (induction parts arbitrary: current)
  case (Cons part parts)
  define trial where "trial = current @ ''  '' @ part"
  have part: "size_of part \<le> avail" "plain part" "\<forall>p \<in> set parts. size_of p \<le> avail \<and> plain p"
    using Cons.prems(3) by simp_all
  have "plain ''  ''" by (simp add: plain_def)
  then have trial: "plain trial" using Cons.prems(2) part(2) unfolding trial_def plain_append by blast
  consider "current = []" | "current \<noteq> []" "size_of trial \<le> avail" | "current \<noteq> []" "\<not> size_of trial \<le> avail" by blast
  then show ?case
  proof cases
    case 1
    then show ?thesis using Cons.IH [OF part] by simp
  next
    case 2
    then have "pack_footer avail current (part # parts) = pack_footer avail trial parts"
      by (simp add: trial_def Let_def)
    then show ?thesis using Cons.IH [OF 2(2) trial part(3)] by simp
  next
    case 3
    then have "pack_footer avail current (part # parts) = current # pack_footer avail part parts"
      by (simp add: trial_def Let_def)
    then show ?thesis using Cons.IH [OF part] Cons.prems(1,2) by simp
  qed
qed simp

lemma plain_nat: "plain (show_nat n)"
proof -
  have "of_char c < (128 :: nat) \<and> c \<noteq> newline" if "is_digit c" for c
    using that by (auto simp: is_digit_def)
  then show ?thesis using show_nat_digits [of n] by (auto simp: plain_def)
qed

lemma plain_int: "plain (show_int i)"
  using plain_nat by (simp add: show_int_def) (simp add: plain_def)

lemma footer_parts_plain: "\<forall>p \<in> set (footer_parts rp n_total n_cols n_shown). plain p"
proof -
  have "plain '' row''" "plain ''+ row''" "plain ''(''" "plain '' shown)''" "plain '' column''" "plain ''s''" "plain []"
    by (simp_all add: plain_def)
  then have "plain (plural_ending n)" for n by (simp add: plural_ending_def)
  with \<open>plain '' row''\<close> \<open>plain ''+ row''\<close> \<open>plain ''(''\<close> \<open>plain '' shown)''\<close> \<open>plain '' column''\<close>
  show ?thesis unfolding footer_parts_def Let_def by (auto simp add: plain_int simp del: append_Cons)
qed

lemma longest_part: "p \<in> set parts \<Longrightarrow> size_of p \<le> foldl (\<lambda>m p. max m (size_of p)) m0 parts"
proof (induction parts arbitrary: m0)
  case (Cons a parts)
  have "m \<le> foldl (\<lambda>m p. max m (size_of p)) m ps" for m ps
    by (induction ps arbitrary: m) (auto intro: order_trans [OF max.cobounded1])
  then show ?case using Cons by (auto intro: order_trans [OF max.cobounded2])
qed simp

lemma sum_list_update: "i < length ws \<Longrightarrow> sum_list (map f (ws[i := v])) = sum_list (map f ws) + f v - (f (ws ! i) :: int)"
proof (induction ws arbitrary: i)
  case (Cons w ws)
  then show ?case by (cases i) auto
qed simp

text \<open>After widening, the inner width is that of the columns, and every part of the footer fits.\<close>

lemma widen_last_result:
  assumes "ws \<noteq> []" and "\<forall>w \<in> set ws. 1 \<le> w" and "widen_last parts ws = (ws', inner)"
  shows "inner_width ws' = inner \<and> length ws' = length ws \<and> (\<forall>w \<in> set ws'. 1 \<le> w)
    \<and> inner = max (inner_width ws) (foldl (\<lambda>m p. max m (size_of p)) 0 parts + 2)"
proof -
  let ?need = "foldl (\<lambda>m p. max m (size_of p)) 0 parts + 2" and ?n = "length ws - 1"
  have n: "?n < length ws" using assms(1) by simp
  show ?thesis
  proof (cases "?need > inner_width ws")
    case True
    then have eq: "ws' = ws[?n := ws ! ?n + (?need - inner_width ws)]" "inner = ?need"
      using assms(1,3) by (auto simp: widen_last_def Let_def)
    have "1 \<le> ws ! ?n" using assms(2) n by simp
    then have "\<forall>w \<in> set ws'. 1 \<le> w"
      using assms(2) True unfolding eq by (auto dest!: set_update_subset_insert [THEN subsetD])
    moreover have "inner_width ws' = inner"
      unfolding eq inner_width_sum sum_list_update [OF n] by simp
    ultimately show ?thesis using True eq by simp
  next
    case False
    then show ?thesis using assms by (auto simp: widen_last_def Let_def)
  qed
qed

lemma foldl_keeps: "(\<And>s x. I s \<Longrightarrow> I (f s x)) \<Longrightarrow> I s \<Longrightarrow> I (foldl f s xs)"
  by (induction xs arbitrary: s) auto

lemma update_widths_length:
  "length ws = length (at_columns t) \<Longrightarrow> length (UpdateWidthsForRows T t nv ws a b) = length (at_columns t)"
  unfolding UpdateWidthsForRows_def by (rule foldl_keeps [where I = "\<lambda>ws. length ws = length (at_columns t)"]) simp_all

lemma update_widths_positive:
  "\<forall>w \<in> set ws. 1 \<le> w \<Longrightarrow> \<forall>w \<in> set (UpdateWidthsForRows T t nv ws a b). 1 \<le> w"
  unfolding UpdateWidthsForRows_def
  by (rule foldl_keeps [where I = "\<lambda>ws. \<forall>w \<in> set ws. 1 \<le> w"]) (auto dest!: set_zip_leftD simp: le_max_iff_disj)

lemma compute_widths:
  "length (ComputeColumnWidths T t h nv ty n) = length (at_columns t) \<and> (\<forall>w \<in> set (ComputeColumnWidths T t h nv ty n). 1 \<le> w)"
  by (auto simp: ComputeColumnWidths_def Let_def update_widths_length)

lemma level_cap_positive: "1 \<le> w \<Longrightarrow> 1 \<le> level_cap F w"
  by (simp add: level_cap_def kMinColWidth_def le_max_iff_disj)

lemma cap_widths:
  assumes "widths \<noteq> []" and "\<forall>w \<in> set widths. 1 \<le> w" and "CapColumnWidths widths m = (ws, n)"
  shows "length ws = n \<and> 1 \<le> n \<and> n \<le> length widths \<and> (\<forall>w \<in> set ws. 1 \<le> w)"
proof (cases "m < calc_total widths (length widths)")
  case True
  obtain F where F: "CapColumnWidths widths m
      = (take (drop_columns (map (level_cap F) widths) m (length widths)) (map (level_cap F) widths),
         drop_columns (map (level_cap F) widths) m (length widths))"
    using capped_level [OF assms(1,2) True] by (auto simp: Let_def)
  have "0 < length widths" using assms(1) by simp
  note drop = drop_columns_result [OF this, of "map (level_cap F) widths" m]
  have "\<forall>w \<in> set ws. 1 \<le> w"
    using F assms(2,3) by (auto dest!: in_set_takeD intro!: level_cap_positive)
  then show ?thesis using F assms(3) drop by auto
next
  case False
  then have "CapColumnWidths widths m = (widths, length widths)" using assms(1) by (simp add: CapColumnWidths_def Let_def)
  then show ?thesis using assms by (auto simp: Suc_le_eq)
qed

lemma shown_widths_ok:
  assumes "at_columns t \<noteq> []" and "shown_widths T t h nv p m = (ws, n)"
  shows "length ws = n \<and> 1 \<le> n \<and> n \<le> length (at_columns t) \<and> (\<forall>w \<in> set ws. 1 \<le> w)"
proof -
  define widths where "widths = (let ws = ComputeColumnWidths T t h nv h (rp_top p)
    in if rp_split p then UpdateWidthsForRows T t nv ws (nat (rp_bottom_start p)) (at_rows t) else ws)"
  have widths: "length widths = length (at_columns t)" "\<forall>w \<in> set widths. 1 \<le> w"
    using compute_widths [of T t h nv h "rp_top p"]
      update_widths_length [of "ComputeColumnWidths T t h nv h (rp_top p)" t T nv "nat (rp_bottom_start p)" "at_rows t"]
      update_widths_positive [of "ComputeColumnWidths T t h nv h (rp_top p)" T t nv "nat (rp_bottom_start p)" "at_rows t"]
    by (simp_all add: widths_def Let_def)
  have eq: "shown_widths T t h nv p m = (if m > 0 then CapColumnWidths widths m else (widths, length (at_columns t)))"
    by (simp add: shown_widths_def widths_def Let_def)
  have "widths \<noteq> []" using widths(1) assms(1) by auto
  then show ?thesis
    using cap_widths [of widths m ws n] widths assms eq by (auto split: if_splits simp: Suc_le_eq)
qed

lemma plan_in_range:
  assumes "p = plan_rows m footer_total (int k)"
  shows "nat (rp_top p) \<le> k \<and> nat (rp_show p) \<le> k"
proof -
  have "cdiv m 2 \<le> m" if "0 \<le> m" using that by simp
  then show ?thesis using assms by (auto simp: plan_rows_def Let_def)
qed

text \<open>
  C30: A box of plain texts is rectangular: every line of it, borders, headers, cells cut short or not, the dots for
  rows left out and the footer, is as wide as every other, in both styles. The width is that of the columns shown
  or of the longest part of the footer.
\<close>

theorem box_is_rectangular:
  assumes "at_columns t \<noteq> []" and "plain_table T null_value t" and "bs = kBoxBorder \<or> bs = kTableBorder"
    and "p = plan_rows max_rows footer_total (int (at_rows t))"
    and "shown_widths T t show_headers null_value p max_width = (ws, n)"
    and "parts = footer_parts p (if footer_total = -2 then int (at_rows t) else footer_total) (int (length (at_columns t))) (int n)"
  shows "\<exists>lines. fst (RenderTabular T bs show_headers null_value max_rows max_width footer_total t) = concat lines
    \<and> (\<forall>l \<in> set lines. line_of (max (calc_total ws n) (foldl (\<lambda>m part. max m (size_of part)) 0 parts + 4)) l)"
proof -
  have bs: "style_ok bs" using assms(3) styles_ok by blast
  have ws: "length ws = n" "1 \<le> n" "n \<le> length (at_columns t)" "\<forall>w \<in> set ws. 1 \<le> w" "ws \<noteq> []"
    using shown_widths_ok [OF assms(1,5)] by auto
  obtain widths inner where wide: "widen_last parts ws = (widths, inner)" by fastforce
  note wd = widen_last_result [OF ws(5,4) wide]
  define cols where "cols = take n (at_columns t)"
  have cols: "length cols = length widths" "set cols \<subseteq> set (at_columns t)"
    using ws wd by (auto simp: cols_def dest: in_set_takeD)
  have inner: "inner_width widths + 2 = inner + 2" using wd by simp
  have "0 \<le> inner_width ws"
  proof -
    obtain w vs where vs: "ws = w # vs" using ws(5) by (cases ws) auto
    have "0 \<le> sum_list (map (\<lambda>w. w + 3) vs)"
      using ws(4) vs by (intro sum_list_nonneg) auto
    then show ?thesis using ws(4) vs by (simp add: inner_width_sum)
  qed
  then have nonneg: "0 \<le> inner" using wd by simp
  have fits: "\<forall>fl \<in> set (pack_footer (inner - 2) [] parts). size_of fl \<le> inner - 2 \<and> plain fl"
  proof (rule pack_footer_ok)
    have "\<forall>x \<in> set parts. size_of x \<le> inner - 2"
      using wd longest_part [of _ parts 0] by fastforce
    then show "\<forall>x \<in> set parts. size_of x \<le> inner - 2 \<and> plain x" using footer_parts_plain assms(6) by blast
    have "0 \<le> foldl (\<lambda>m part. max m (size_of part)) 0 parts" 
      using assms(6) longest_part [of "hd parts" parts 0] by (auto simp: footer_parts_def Let_def size_of_def)
    then show "size_of [] \<le> inner - 2" using wd by (simp add: size_of_def)
  qed (simp add: plain_def)
  have cells: "\<forall>col \<in> set cols. plain (GetCellValue T col r null_value)" if "r < at_rows t" for r
    using assms(2) cols(2) that by (auto simp: plain_table_def)
  have heads: "\<forall>s \<in> set (map col_name cols). plain s" "\<forall>s \<in> set (map (\<lambda>col. FriendlyTypeName T (col_type col)) cols). plain s"
    using assms(2) cols(2) by (auto simp: plain_table_def)
  have all1: "\<forall>w \<in> set widths. 1 \<le> w" using wd by blast
  note marks = style_marks [OF bs]
  have rows: "\<forall>l \<in> set (tabular_rows T bs cols widths null_value p (at_rows t)). line_of (inner + 2) l"
  proof -
    have "line_of (inner + 2) (render_data_row T bs cols widths null_value r)" if "r < at_rows t" for r
      using data_line [OF bs all1 cols(1) cells [OF that]] inner by simp
    moreover have "line_of (inner + 2) (render_dot_row bs widths)" using dot_line [OF bs all1] inner by simp
    ultimately show ?thesis
      using plan_in_range [OF assms(4)] by (auto simp: tabular_rows_def Let_def)
  qed
  let ?lines = "[render_border bs widths (bs_tl bs) (bs_tt bs) (bs_tr bs)]
    @ (if show_headers
       then [render_head_row bs (map col_name cols) widths,
             render_head_row bs (map (\<lambda>col. FriendlyTypeName T (col_type col)) cols) widths,
             render_border bs widths (bs_lt bs) (bs_cx bs) (bs_rt bs)]
       else [])
    @ tabular_rows T bs cols widths null_value p (at_rows t)
    @ [render_border bs widths (bs_lt bs) (bs_bt bs) (bs_rt bs)]
    @ map (render_footer_line bs (inner - 2)) (pack_footer (inner - 2) [] parts)
    @ [bottom_border bs inner]"
  have borders: "line_of (inner + 2) (render_border bs widths (bs_tl bs) (bs_tt bs) (bs_tr bs))"
      "line_of (inner + 2) (render_border bs widths (bs_lt bs) (bs_cx bs) (bs_rt bs))"
      "line_of (inner + 2) (render_border bs widths (bs_lt bs) (bs_bt bs) (bs_rt bs))"
    using border_line [OF bs marks(1,7,2) all1] border_line [OF bs marks(9,11,10) all1] border_line [OF bs marks(9,8,10) all1]
    by (simp_all add: inner)
  have heads_ok: "line_of (inner + 2) (render_head_row bs (map col_name cols) widths)"
      "line_of (inner + 2) (render_head_row bs (map (\<lambda>col. FriendlyTypeName T (col_type col)) cols) widths)"
    using head_line [OF bs all1 _ heads(1)] head_line [OF bs all1 _ heads(2)] cols(1) by (simp_all add: inner)
  have foot: "line_of (inner + 2) (render_footer_line bs (inner - 2) fl)" if "fl \<in> set (pack_footer (inner - 2) [] parts)" for fl
    using footer_line [OF bs, of fl "inner - 2"] fits that by (simp add: add.commute)
  have bottom: "line_of (inner + 2) (bottom_border bs inner)" by (rule bottom_line [OF bs nonneg])
  have "\<forall>l \<in> set ?lines. line_of (inner + 2) l"
    using borders heads_ok rows foot bottom by auto
  moreover have "inner + 2 = max (calc_total ws n) (foldl (\<lambda>m part. max m (size_of part)) 0 parts + 4)"
    using wd ws(1) by (simp add: calc_total_def kBorderOverhead_def inner_width_sum)
  moreover have "fst (RenderTabular T bs show_headers null_value max_rows max_width footer_total t) = concat ?lines"
    using assms(1,5) wide
    by (simp add: RenderTabular_def Let_def assms(4) [symmetric] assms(6) [symmetric] cols_def)
  ultimately show ?thesis by metis
qed

lemma sample_shown:
  "shown_widths sample_text sample_table True ''NULL'' (plan_rows 0 (-2) 2) 12 = ([4], 1)" "at_rows sample_table = 2"
  "footer_parts (plan_rows 0 (-2) 2) 2 2 1 = [''2 rows'', ''2 columns'', ''(1 shown)'']" "length (at_columns sample_table) = 2"
  by code_simp+

lemma sample_plain: "plain_table sample_text ''NULL'' sample_table"
proof -
  have two: "r < 2 \<Longrightarrow> r = 0 \<or> r = 1" for r :: nat by auto
  have "plain ''a,b''" "plain ''NULL''" "plain ''name''" "plain ''n''" "plain ''varchar''" "plain ''integer''"
    by code_simp+
  then show ?thesis
    by (auto simp: plain_table_def sample_table_def GetCellValue_def sample_text_def FriendlyTypeName_def plain_int dest!: two)
qed

theorem box_is_rectangular_witness:
  "\<exists>lines. fst (RenderTabular sample_text kBoxBorder True ''NULL'' 0 12 (-2) sample_table) = concat lines
     \<and> list_all (line_of 13) lines"
proof -
  have "max (calc_total [4] 1) (foldl (\<lambda>m part. max m (size_of part)) 0 [''2 rows'', ''2 columns'', ''(1 shown)''] + 4) = 13"
    by code_simp
  then show ?thesis
    using box_is_rectangular [OF sample_table_columns sample_plain, of kBoxBorder "plan_rows 0 (-2) 2" 0 "-2" True 12 "[4]" 1
        "[''2 rows'', ''2 columns'', ''(1 shown)'']"]
    by (simp add: sample_shown list_all_iff)
qed

section \<open>Markup\<close>

text \<open>No text of the table can open a tag, close one or leave an attribute in the HTML mode.\<close>

lemma html_text_has_no_markup:
  "CHR ''<'' \<notin> set (HtmlEscape s) \<and> CHR ''>'' \<notin> set (HtmlEscape s) \<and> dquote \<notin> set (HtmlEscape s)"
  by (induction s) (auto simp: HtmlEscape_def html_char_def)

end
