(* ===== verification/Shell.thy ===== *)
theory Shell
  imports SqlInput Renderer
begin

text \<open>
  The client's shell: dot commands (\<open>src/src/client/command_processor.cpp\<close>), the execution of a
  statement with its footer, the loop over the lines of a script and the interactive loop
  (\<open>src/src/client/shell_loop.cpp\<close>). The connection and the operating system are the
  parameter \<open>shell_lib\<close>; what is written is kept as a list of texts with the stream they go to.
\<close>

section \<open>What the shell uses\<close>

text \<open>A row of the answer to \<open>GetSqlInfo\<close>: its number, the type code of its value and the text of that.\<close>

type_synonym info_row = "int \<times> int \<times> string"

text \<open>
  Queries and updates also give the elapsed milliseconds; \<open>li_open\<close> and \<open>li_chdir\<close> say whether the file can
  be opened for writing and the directory entered, \<open>li_read\<close> gives the contents of a file.
\<close>

record 'c shell_lib =
  li_connected :: "'c \<Rightarrow> bool"
  li_connect :: "connection_config \<Rightarrow> 'c \<Rightarrow> unit result \<times> 'c"
  li_query :: "string \<Rightarrow> int \<Rightarrow> 'c \<Rightarrow> (arrow_table \<times> int) result \<times> int \<times> 'c"
  li_update :: "string \<Rightarrow> 'c \<Rightarrow> int result \<times> int \<times> 'c"
  li_tables :: "string \<Rightarrow> 'c \<Rightarrow> arrow_table result \<times> 'c"
  li_schemas :: "string \<Rightarrow> 'c \<Rightarrow> arrow_table result \<times> 'c"
  li_catalogs :: "'c \<Rightarrow> arrow_table result \<times> 'c"
  li_sql_info :: "'c \<Rightarrow> info_row list result \<times> 'c"
  li_text :: arrow_text
  li_status :: "status \<Rightarrow> string"
  li_seconds :: "int \<Rightarrow> string"
  li_terminal :: terminal
  li_home :: "string option"
  li_open :: "string \<Rightarrow> bool"
  li_read :: "string \<Rightarrow> string option"
  li_chdir :: "string \<Rightarrow> bool"

text \<open>What the process does outside: a directory change or a shell command.\<close>

datatype system_call = Chdir string | Run string

text \<open>
  The state: the shared configuration, the connection, the members of \<open>CommandProcessor\<close> (the opened file,
  if any, and the flag of \<open>.once\<close>), how many files were opened, which were deleted, what was written where
  (\<open>None\<close>: the error stream), the system calls, whether there is a completion cache and its refreshes.
\<close>

record 'c client =
  cl_config :: client_config
  cl_conn :: 'c
  cl_file :: "nat option"
  cl_once :: bool
  cl_opened :: nat
  cl_deleted :: "nat set"
  cl_written :: "(out_stream option \<times> string) list"
  cl_system :: "system_call list"
  cl_callback :: bool
  cl_refreshes :: nat

datatype command_result = CmdOk | CmdExit | CmdError

definition put :: "string \<Rightarrow> 'c client \<Rightarrow> 'c client" where
  "put s w = w\<lparr>cl_written := cl_written w @ [(Some (cc_output (cl_config w)), s)]\<rparr>"

definition put_out :: "string \<Rightarrow> 'c client \<Rightarrow> 'c client" where
  "put_out s w = w\<lparr>cl_written := cl_written w @ [(Some Stdout, s)]\<rparr>"

definition put_err :: "string \<Rightarrow> 'c client \<Rightarrow> 'c client" where
  "put_err s w = w\<lparr>cl_written := cl_written w @ [(None, s)]\<rparr>"

definition set_display :: "(display_config \<Rightarrow> display_config) \<Rightarrow> 'c client \<Rightarrow> 'c client" where
  "set_display f w = w\<lparr>cl_config := (cl_config w)\<lparr>cc_display := f (cc_display (cl_config w))\<rparr>\<rparr>"

definition set_config :: "(client_config \<Rightarrow> client_config) \<Rightarrow> 'c client \<Rightarrow> 'c client" where
  "set_config f w = w\<lparr>cl_config := f (cl_config w)\<rparr>"

section \<open>Dot commands\<close>

definition IsDotCommand :: "string \<Rightarrow> bool" where
  "IsDotCommand line \<longleftrightarrow> head (dropWhile (\<lambda>c. c = CHR '' '' \<or> c = tabchar) line) = Some (CHR ''.'')"

text \<open>\<open>operator>>\<close> on a string: words between white space.\<close>

function SplitArgs :: "string \<Rightarrow> string list" where
  "SplitArgs line =
     (case dropWhile is_space line of
        [] \<Rightarrow> []
      | c # cs \<Rightarrow> takeWhile (\<lambda>x. \<not> is_space x) (c # cs) # SplitArgs (dropWhile (\<lambda>x. \<not> is_space x) cs))"
  by pat_completeness auto
termination
proof (relation "measure length")
  fix line c cs assume "dropWhile is_space line = c # cs"
  then have "length (c # cs) \<le> length line" by (metis length_dropWhile_le)
  then have "length cs < length line" by simp
  then show "(dropWhile (\<lambda>x. \<not> is_space x) cs, line) \<in> measure length"
    using length_dropWhile_le [of "\<lambda>x. \<not> is_space x" cs] by simp
qed simp

declare SplitArgs.simps [simp del]

definition not_connected_msg :: string where
  "not_connected_msg =
     ''Error: not connected to a server. Use '' @ [squote] @ ''.connect HOST PORT USERNAME'' @ [squote] @ '' to connect.''"

definition on_off :: "bool \<Rightarrow> string" where
  "on_off b = (if b then ''on'' else ''off'')"

definition quoted_text :: "string \<Rightarrow> string" where
  "quoted_text s = dquote # s @ [dquote]"

text \<open>\<open>.tables\<close>, \<open>.schema\<close> and \<open>.catalogs\<close>: a failure is reported but is no failure of the command.\<close>

definition list_command ::
    "'c shell_lib \<Rightarrow> ('c \<Rightarrow> arrow_table result \<times> 'c) \<Rightarrow> 'c client \<Rightarrow> command_result \<times> 'c client" where
  "list_command L get w =
     (if \<not> li_connected L (cl_conn w) then (CmdError, put_err not_connected_msg w)
      else case get (cl_conn w) of
             (Inr t, c) \<Rightarrow> (CmdOk, put (fst (render_table (li_text L) (cc_display (cl_config w)) t (- 2))) (w\<lparr>cl_conn := c\<rparr>))
           | (Inl e, c) \<Rightarrow> (CmdOk, put_err (''Error: '' @ li_status L e) (w\<lparr>cl_conn := c\<rparr>)))"

definition like_pattern :: "string list \<Rightarrow> string" where
  "like_pattern args = (case args of [] \<Rightarrow> [] | p # ps \<Rightarrow> if p = [] then [] else ''%'' @ p @ ''%'')"

definition mode_command :: "string list \<Rightarrow> 'c client \<Rightarrow> 'c client" where
  "mode_command args w =
     (case args of
        [] \<Rightarrow> put (''current mode: '' @ OutputModeToString (dc_mode (cc_display (cl_config w)))) w
      | m # ms \<Rightarrow>
          (case OutputModeFromString m of
             Some x \<Rightarrow> set_display (\<lambda>d. d\<lparr>dc_mode := x\<rparr>) w
           | None \<Rightarrow> put_err (''Error: unknown mode '' @ [squote] @ m @ [squote] @ ''. Available modes:'' @ [newline]
                      @ ''  table box csv tabs json jsonlines markdown line list'' @ [newline]
                      @ ''  html latex insert quote ascii trash'') w))"

text \<open>A command that shows a switch or sets it to \<open>on\<close>.\<close>

definition switch_command ::
    "string \<Rightarrow> (client_config \<Rightarrow> bool) \<Rightarrow> (bool \<Rightarrow> client_config \<Rightarrow> client_config) \<Rightarrow> string list \<Rightarrow> 'c client \<Rightarrow> 'c client" where
  "switch_command name get set_to args w =
     (case args of
        [] \<Rightarrow> put (name @ '': '' @ on_off (get (cl_config w))) w
      | a # as \<Rightarrow> set_config (set_to (to_lower a = ''on'')) w)"

text \<open>
  Opening a file for output: the file of the previous command is deleted first; when the new one can not
  be opened, the configuration keeps the stream it has.
\<close>

definition delete_file :: "'c client \<Rightarrow> 'c client" where
  "delete_file w = (case cl_file w of None \<Rightarrow> w
     | Some n \<Rightarrow> w\<lparr>cl_deleted := insert n (cl_deleted w), cl_file := None\<rparr>)"

definition open_output :: "'c shell_lib \<Rightarrow> string \<Rightarrow> bool \<Rightarrow> 'c client \<Rightarrow> 'c client" where
  "open_output L f once w =
     (let w1 = delete_file w
      in if li_open L f
         then set_config (\<lambda>c. c\<lparr>cc_output := CommandFile (cl_opened w1)\<rparr>)
                (w1\<lparr>cl_file := Some (cl_opened w1), cl_opened := cl_opened w1 + 1, cl_once := (once \<or> cl_once w1)\<rparr>)
         else put_err (''Error: cannot open file '' @ [squote] @ f @ [squote]) w1)"

definition output_command :: "'c shell_lib \<Rightarrow> string list \<Rightarrow> 'c client \<Rightarrow> 'c client" where
  "output_command L args w =
     (case args of
        [] \<Rightarrow> set_config (\<lambda>c. c\<lparr>cc_output := Stdout\<rparr>) (delete_file w)
      | f # fs \<Rightarrow> (if f = ''stdout'' then set_config (\<lambda>c. c\<lparr>cc_output := Stdout\<rparr>) (delete_file w)
                   else open_output L f False w))"

definition once_command :: "'c shell_lib \<Rightarrow> string list \<Rightarrow> 'c client \<Rightarrow> 'c client" where
  "once_command L args w =
     (case args of [] \<Rightarrow> put_err ''Usage: .once FILE'' w | f # fs \<Rightarrow> open_output L f True w)"

definition null_command :: "string list \<Rightarrow> 'c client \<Rightarrow> 'c client" where
  "null_command args w =
     (case args of
        [] \<Rightarrow> put (''nullvalue: '' @ quoted_text (dc_null (cc_display (cl_config w)))) w
      | a # as \<Rightarrow> set_display (\<lambda>d. d\<lparr>dc_null := a\<rparr>) w)"

definition separator_command :: "string list \<Rightarrow> 'c client \<Rightarrow> 'c client" where
  "separator_command args w =
     (let d = cc_display (cl_config w)
      in case args of
           [] \<Rightarrow> put (''separator: '' @ quoted_text (dc_separator_col d) @ '' '' @ quoted_text (dc_separator_row d)) w
         | [c] \<Rightarrow> set_display (\<lambda>d. d\<lparr>dc_separator_col := c\<rparr>) w
         | c # r # rs \<Rightarrow> set_display (\<lambda>d. d\<lparr>dc_separator_col := c, dc_separator_row := r\<rparr>) w)"

definition invalid_number :: "string \<Rightarrow> string" where
  "invalid_number a = ''Error: invalid number '' @ [squote] @ a @ [squote]"

definition maxrows_command :: "string list \<Rightarrow> 'c client \<Rightarrow> 'c client" where
  "maxrows_command args w =
     (case args of
        [] \<Rightarrow> put (''maxrows: '' @ show_int (dc_max_rows (cc_display (cl_config w)))) w
      | a # as \<Rightarrow> (case stoi a of
                     None \<Rightarrow> put_err (invalid_number a) w
                   | Some n \<Rightarrow> set_display (\<lambda>d. d\<lparr>dc_max_rows := n\<rparr>) w))"

definition maxwidth_command :: "'c shell_lib \<Rightarrow> string list \<Rightarrow> 'c client \<Rightarrow> 'c client" where
  "maxwidth_command L args w =
     (case args of
        [] \<Rightarrow> put (''maxwidth: '' @ show_int (dc_max_width (cc_display (cl_config w)))) w
      | a # as \<Rightarrow> (case stoi a of
                     None \<Rightarrow> put_err (invalid_number a) w
                   | Some n \<Rightarrow> set_display (\<lambda>d. if n = 0 then d\<lparr>dc_max_width := tm_width (li_terminal L), dc_auto_width := True\<rparr>
                                                else d\<lparr>dc_max_width := n, dc_auto_width := False\<rparr>) w))"

definition call :: "system_call \<Rightarrow> 'c client \<Rightarrow> 'c client" where
  "call s w = w\<lparr>cl_system := cl_system w @ [s]\<rparr>"

fun join_words :: "string list \<Rightarrow> string" where
  "join_words [] = []"
| "join_words [a] = a"
| "join_words (a # b # as) = a @ '' '' @ join_words (b # as)"

definition shell_command :: "string list \<Rightarrow> 'c client \<Rightarrow> 'c client" where
  "shell_command args w = (if args = [] then put_err ''Usage: .shell CMD...'' w else call (Run (join_words args)) w)"

definition cd_command :: "'c shell_lib \<Rightarrow> string list \<Rightarrow> 'c client \<Rightarrow> 'c client" where
  "cd_command L args w =
     (case args of
        [] \<Rightarrow> (case li_home L of None \<Rightarrow> w | Some h \<Rightarrow> call (Chdir h) w)
      | d # ds \<Rightarrow> (let w1 = call (Chdir d) w
                   in if li_chdir L d then w1
                      else put_err (''Error: cannot change to directory '' @ [squote] @ d @ [squote]) w1))"

definition prompt_command :: "string list \<Rightarrow> 'c client \<Rightarrow> 'c client" where
  "prompt_command args w =
     (case args of
        [] \<Rightarrow> w
      | [m] \<Rightarrow> set_config (\<lambda>c. c\<lparr>cc_main_prompt := m @ '' ''\<rparr>) w
      | m # k # ks \<Rightarrow> set_config (\<lambda>c. c\<lparr>cc_main_prompt := m @ '' '', cc_continuation_prompt := k @ '' ''\<rparr>) w)"

definition refresh :: "'c client \<Rightarrow> 'c client" where
  "refresh w = (if cl_callback w then w\<lparr>cl_refreshes := cl_refreshes w + 1\<rparr> else w)"

subsection \<open>Help and settings\<close>

definition help_entries :: "(string \<times> string) list" where
  "help_entries =
     [(''.bail on|off'', ''Stop on error. Default: off''),
      (''.catalogs'', ''List all catalogs''),
      (''.cd DIR'', ''Change working directory''),
      (''.connect URI | HOST PORT USER'', ''Connect to a GizmoSQL server''),
      (''.echo on|off'', ''Echo input commands. Default: off''),
      (''.exit'', ''Exit this program (same as .quit)''),
      (''.headers on|off'', ''Toggle column headers. Default: on''),
      (''.help [PATTERN]'', ''Show this help or commands matching PATTERN''),
      (''.maxrows [N]'', ''Show or set max rows displayed (0=unlimited)''),
      (''.maxwidth [N]'', ''Show or set max width (0=auto from terminal)''),
      (''.mode MODE'', ''Set output mode (box table csv json markdown ...)''),
      (''.nullvalue STRING'', ''Set string for NULL values. Default: '' @ quoted_text ''NULL''),
      (''.once FILE'', ''Redirect next query output to FILE''),
      (''.output [FILE]'', ''Redirect output to FILE or stdout''),
      (''.prompt MAIN [CONT]'', ''Set prompt strings''),
      (''.quit'', ''Exit this program''),
      (''.read FILE'', ''Execute SQL from FILE''),
      (''.refresh'', ''Refresh tab-completion schema cache''),
      (''.schema [PATTERN]'', ''Show database schemas''),
      (''.separator COL [ROW]'', ''Set separators for list/csv mode''),
      (''.shell CMD...'', ''Execute CMD in system shell''),
      (''.show'', ''Show current settings''),
      (''.tables [PATTERN]'', ''List tables''),
      (''.timer on|off'', ''Show query execution time. Default: off'')]"

text \<open>\<open>std::left << std::setw(25)\<close>.\<close>

definition pad25 :: "string \<Rightarrow> string" where
  "pad25 s = s @ replicate (25 - length s) (CHR '' '')"

fun help_lines :: "string \<Rightarrow> (string \<times> string) list \<Rightarrow> string" where
  "help_lines filt [] = []"
| "help_lines filt ((command, description) # es) =
     (if filt = [] \<or> contains command filt \<or> contains description filt
      then pad25 command @ description @ [newline] else []) @ help_lines filt es"

definition ShowHelp :: "string \<Rightarrow> 'c client \<Rightarrow> 'c client" where
  "ShowHelp pattern w = put (help_lines (to_lower pattern) help_entries) w"

text \<open>The value of the first row with a number, if it is a string.\<close>

definition ExtractSqlInfoString :: "info_row list \<Rightarrow> int \<Rightarrow> string" where
  "ExtractSqlInfoString rows n =
     (case find (\<lambda>(k, tc, v). k = n) rows of
        None \<Rightarrow> [] | Some (k, tc, v) \<Rightarrow> if tc = 0 then v else [])"

definition setting :: "string \<Rightarrow> string \<Rightarrow> string" where
  "setting label v = label @ '': '' @ v @ [newline]"

text \<open>The rows of a one-row table, in the order they are shown; none when it is empty.\<close>

definition cell_settings :: "'c shell_lib \<Rightarrow> arrow_table \<Rightarrow> (string \<times> nat) list \<Rightarrow> string" where
  "cell_settings L t ls = (if at_rows t > 0
      then concat (map (\<lambda>(label, i). setting label (GetCellValue (li_text L) (at_columns t ! i) 0 [])) ls) else [])"

definition server_settings :: "'c shell_lib \<Rightarrow> 'c \<Rightarrow> string \<times> 'c" where
  "server_settings L c0 =
     (case li_sql_info L c0 of (info, c1) \<Rightarrow>
      case li_query L ''SELECT GIZMOSQL_VERSION(), GIZMOSQL_EDITION(), GIZMOSQL_CURRENT_INSTANCE()'' 0 c1 of (q, ms, c2) \<Rightarrow>
        (''--- Server ---'' @ [newline]
         @ (case q of Inl e \<Rightarrow> []
            | Inr (t, n) \<Rightarrow> cell_settings L t [(''     version'', 0), (''     edition'', 1), ('' instance_id'', 2)])
         @ (case info of Inl e \<Rightarrow> []
            | Inr rows \<Rightarrow> (let engine = ExtractSqlInfoString rows 1; arrow = ExtractSqlInfoString rows 2
                          in (if engine \<noteq> [] then setting ''      engine'' engine else [])
                             @ (if arrow \<noteq> [] then setting ''       arrow'' arrow else []))), c2))"

definition session_settings :: "'c shell_lib \<Rightarrow> connection_config \<Rightarrow> 'c \<Rightarrow> string \<times> 'c" where
  "session_settings L cn c0 =
     (let top = ''--- Session ---'' @ [newline] @ setting ''   connected'' (if li_connected L c0 then ''yes'' else ''no'')
            @ setting ''         uri'' (BuildConnectionURI cn) @ setting ''        host'' (cn_host cn)
            @ setting ''        port'' (show_int (cn_port cn)) @ setting ''         tls'' (on_off (cn_use_tls cn))
      in if li_connected L c0
         then case li_query L (''SELECT GIZMOSQL_CURRENT_SESSION(), GIZMOSQL_ROLE(), ''
                @ ''CURRENT_CATALOG(), CURRENT_SCHEMA(), GIZMOSQL_USER()'') 0 c0 of (q, ms, c1) \<Rightarrow>
                (top @ (case q of Inl e \<Rightarrow> []
                   | Inr (t, n) \<Rightarrow> cell_settings L t [(''    username'', 4), (''  session_id'', 0), (''        role'', 1),
                                                    (''     catalog'', 2), (''      schema'', 3)]), c1)
         else (top @ setting ''    username'' (cn_username cn), c0))"

definition shell_settings :: "client_config \<Rightarrow> string" where
  "shell_settings c =
     (let d = cc_display c
      in ''--- Settings ---'' @ [newline] @ setting ''        mode'' (OutputModeToString (dc_mode d))
         @ setting ''     headers'' (on_off (dc_headers d)) @ setting ''   nullvalue'' (quoted_text (dc_null d))
         @ setting ''   separator'' (quoted_text (dc_separator_col d) @ '' '' @ quoted_text (dc_separator_row d))
         @ setting ''       timer'' (on_off (cc_timer c)) @ setting ''        echo'' (on_off (cc_echo c))
         @ setting ''        bail'' (on_off (cc_bail c)) @ setting ''     maxrows'' (show_int (dc_max_rows d))
         @ setting ''    maxwidth'' (show_int (dc_max_width d)))"

definition ShowSettings :: "'c shell_lib \<Rightarrow> 'c client \<Rightarrow> 'c client" where
  "ShowSettings L w =
     (case (if li_connected L (cl_conn w) then server_settings L (cl_conn w) else ([], cl_conn w)) of (s1, c1) \<Rightarrow>
      case session_settings L (cc_conn (cl_config w)) c1 of (s2, c2) \<Rightarrow>
        put (s1 @ s2 @ shell_settings (cl_config w)) (w\<lparr>cl_conn := c2\<rparr>))"

subsection \<open>Connecting\<close>

definition connect_usage :: string where
  "connect_usage =
     ''Usage: .connect gizmosql://HOST:PORT[?params...]'' @ [newline]
     @ ''       .connect HOST PORT USERNAME [PASSWORD]'' @ [newline, newline]
     @ ''URI parameters:'' @ [newline]
     @ ''  username=USER              Username for authentication'' @ [newline]
     @ ''  useEncryption=true|false   Enable TLS (default: false)'' @ [newline]
     @ ''  disableCertificateVerification=true|false'' @ [newline]
     @ ''                             Skip TLS cert verification'' @ [newline]
     @ ''  tlsRoots=PATH              Path to CA certificate (PEM)'' @ [newline]
     @ ''  authType=password|external Auth type (default: password)'' @ [newline]"

text \<open>The configuration to connect with, or the message of the refusal (empty when it is written elsewhere).\<close>

definition connect_target :: "terminal \<Rightarrow> string list \<Rightarrow> connection_config \<Rightarrow> string + connection_config" where
  "connect_target T args c =
     (case args of
        [] \<Rightarrow> Inl connect_usage
      | a # as \<Rightarrow>
          (if contains a ''://''
           then case ParseConnectionURI a c of
                  (False, c1) \<Rightarrow> Inl ''Error: invalid port in URI''
                | (True, c1) \<Rightarrow> Inr (if \<not> cn_external c1 \<and> cn_username c1 \<noteq> [] \<and> tm_is_terminal T
                                    then typed_password T c1 else c1)
           else case as of
                  p # u # rest \<Rightarrow>
                    (case stoi p of
                       None \<Rightarrow> Inl (''Error: invalid port '' @ [squote] @ p @ [squote])
                     | Some port \<Rightarrow>
                         (let c1 = c\<lparr>cn_host := a, cn_port := port, cn_username := u\<rparr>
                          in Inr (case rest of
                                    pw # pws \<Rightarrow> c1\<lparr>cn_password := pw, cn_password_provided := True\<rparr>
                                  | [] \<Rightarrow> if tm_is_terminal T then typed_password T c1 else c1)))
                | _ \<Rightarrow> Inl ''Usage: .connect HOST PORT USERNAME [PASSWORD]''))"

text \<open>The members that are copied back after the connection succeeded.\<close>

definition adopt :: "connection_config \<Rightarrow> connection_config \<Rightarrow> connection_config" where
  "adopt n c =
     c\<lparr>cn_host := cn_host n, cn_port := cn_port n, cn_username := cn_username n, cn_password := cn_password n,
       cn_password_provided := cn_password_provided n, cn_use_tls := cn_use_tls n,
       cn_tls_skip_verify := cn_tls_skip_verify n, cn_tls_roots := cn_tls_roots n, cn_external := cn_external n\<rparr>"

definition HandleConnect :: "'c shell_lib \<Rightarrow> string list \<Rightarrow> 'c client \<Rightarrow> command_result \<times> 'c client" where
  "HandleConnect L args w =
     (case connect_target (li_terminal L) args (cc_conn (cl_config w)) of
        Inl m \<Rightarrow> (CmdError, put_err m w)
      | Inr n \<Rightarrow>
          (case li_connect L n (cl_conn w) of
             (Inl e, c) \<Rightarrow> (CmdError, put_err (''Error: '' @ li_status L e) (w\<lparr>cl_conn := c\<rparr>))
           | (Inr _, c) \<Rightarrow>
               (CmdOk, refresh (put_out (''Connected to '' @ cn_host n @ '':'' @ show_int (cn_port n))
                 (set_config (\<lambda>cc. cc\<lparr>cc_conn := adopt n (cc_conn cc)\<rparr>) (w\<lparr>cl_conn := c\<rparr>))))))"

subsection \<open>The dispatch\<close>

text \<open>\<open>CommandProcessor::Process\<close>.\<close>

definition Process :: "'c shell_lib \<Rightarrow> string \<Rightarrow> 'c client \<Rightarrow> command_result \<times> 'c client" where
  "Process L line w =
     (case SplitArgs line of
        [] \<Rightarrow> (CmdOk, w)
      | a # args \<Rightarrow>
          (let cmd = to_lower a
           in if cmd = ''.quit'' \<or> cmd = ''.exit'' then (CmdExit, w)
              else if cmd = ''.connect'' then HandleConnect L args w
              else if cmd = ''.help'' then (CmdOk, ShowHelp (case args of [] \<Rightarrow> [] | p # ps \<Rightarrow> p) w)
              else if cmd = ''.tables'' then list_command L (li_tables L (like_pattern args)) w
              else if cmd = ''.schema'' then list_command L (li_schemas L (like_pattern args)) w
              else if cmd = ''.catalogs'' then list_command L (li_catalogs L) w
              else if cmd = ''.mode'' then (CmdOk, mode_command args w)
              else if cmd = ''.headers''
              then (CmdOk, switch_command ''headers'' (\<lambda>c. dc_headers (cc_display c))
                             (\<lambda>b c. c\<lparr>cc_display := (cc_display c)\<lparr>dc_headers := b\<rparr>\<rparr>) args w)
              else if cmd = ''.timer'' then (CmdOk, switch_command ''timer'' cc_timer (\<lambda>b c. c\<lparr>cc_timer := b\<rparr>) args w)
              else if cmd = ''.output'' then (CmdOk, output_command L args w)
              else if cmd = ''.once'' then (CmdOk, once_command L args w)
              else if cmd = ''.nullvalue'' then (CmdOk, null_command args w)
              else if cmd = ''.separator'' then (CmdOk, separator_command args w)
              else if cmd = ''.show'' then (CmdOk, ShowSettings L w)
              else if cmd = ''.echo'' then (CmdOk, switch_command ''echo'' cc_echo (\<lambda>b c. c\<lparr>cc_echo := b\<rparr>) args w)
              else if cmd = ''.bail'' then (CmdOk, switch_command ''bail'' cc_bail (\<lambda>b c. c\<lparr>cc_bail := b\<rparr>) args w)
              else if cmd = ''.maxrows'' then (CmdOk, maxrows_command args w)
              else if cmd = ''.maxwidth'' then (CmdOk, maxwidth_command L args w)
              else if cmd = ''.read''
              then (CmdOk, put_err (if args = [] then ''Usage: .read FILE'' else ''Error: .read is handled by the shell loop'') w)
              else if cmd = ''.shell'' then (CmdOk, shell_command args w)
              else if cmd = ''.cd'' then (CmdOk, cd_command L args w)
              else if cmd = ''.prompt'' then (CmdOk, prompt_command args w)
              else if cmd = ''.refresh'' then (CmdOk, put ''Schema cache refreshed.'' (refresh w))
              else (CmdError, put_err (''Error: unknown command '' @ [squote] @ cmd @ [squote]
                                @ ''. Type '' @ [squote] @ ''.help'' @ [squote] @ '' for available commands.'') w)))"

section \<open>Executing a statement\<close>

definition plural :: "int \<Rightarrow> string" where
  "plural n = (if n = 1 then [] else ''s'')"

text \<open>
  The footer for a table of \<open>rows\<close> fetched rows and \<open>cols\<close> columns; \<open>n_total\<close> is the number of rows of the
  answer, negative when it is not known.
\<close>

definition footer :: "int \<Rightarrow> int \<Rightarrow> int \<Rightarrow> int \<Rightarrow> render_result \<Rightarrow> string" where
  "footer limit rows cols n_total r =
     (let total_rows = (if n_total \<ge> 0 then n_total else rows);
          rows_truncated = (rr_rows r < total_rows \<or> n_total = - 1 \<and> rr_rows r < rows);
          cols_truncated = (rr_columns r < cols)
      in if n_total = - 1 \<and> rows = limit \<and> limit > 0
         then show_int rows @ ''+ row'' @ plural rows
         else if \<not> rows_truncated \<and> \<not> cols_truncated
         then show_int total_rows @ '' row'' @ plural total_rows @ '' ('' @ show_int cols @ '' column'' @ plural cols @ '')''
         else show_int total_rows @ '' row'' @ plural total_rows
              @ (if rows_truncated then '' ('' @ show_int (rr_rows r) @ '' shown)'' else [])
              @ ''  '' @ show_int cols @ '' column'' @ plural cols
              @ (if cols_truncated then '' ('' @ show_int (rr_columns r) @ '' shown)'' else []))"

definition put_timer :: "'c shell_lib \<Rightarrow> int \<Rightarrow> 'c client \<Rightarrow> 'c client" where
  "put_timer L ms w =
     (if cc_timer (cl_config w) then put_err (''Run Time: '' @ li_seconds L ms @ ''s'') w else w)"

definition put_failure :: "'c shell_lib \<Rightarrow> status \<Rightarrow> 'c client \<Rightarrow> 'c client" where
  "put_failure L e w =
     put_err (if code e = Cancelled then ''Query cancelled'' else ''Error: '' @ li_status L e) w"

definition run_update :: "'c shell_lib \<Rightarrow> string \<Rightarrow> 'c client \<Rightarrow> bool \<times> 'c client" where
  "run_update L sql w =
     (case li_update L sql (cl_conn w) of (r, ms, c) \<Rightarrow>
        let w1 = w\<lparr>cl_conn := c\<rparr>
        in case r of
             Inr n \<Rightarrow> (True, put_timer L ms (put (''OK'' @ (if n > 0 then '', '' @ show_int n @ '' rows affected'' else [])) w1))
           | Inl e \<Rightarrow> (False, put_failure L e w1))"

definition run_query :: "'c shell_lib \<Rightarrow> string \<Rightarrow> 'c client \<Rightarrow> bool \<times> 'c client" where
  "run_query L sql w =
     (let m = dc_max_rows (cc_display (cl_config w)); limit = (if m > 0 then m else 0)
      in case li_query L sql limit (cl_conn w) of (r, ms, c) \<Rightarrow>
        let w1 = w\<lparr>cl_conn := c\<rparr>
        in case r of
             Inl e \<Rightarrow> (False, put_failure L e w1)
           | Inr (t, n_total) \<Rightarrow>
               (let w2 = (if dc_auto_width (cc_display (cl_config w1))
                          then set_display (\<lambda>d. d\<lparr>dc_max_width := tm_width (li_terminal L)\<rparr>) w1 else w1);
                    (s, rr) = render_table (li_text L) (cc_display (cl_config w2)) t n_total;
                    w3 = put s w2;
                    w4 = (if rr_footer rr then w3 else put (footer limit (int (at_rows t)) (int (length (at_columns t))) n_total rr) w3)
                in (True, put_timer L ms w4)))"

definition ExecuteStatement :: "'c shell_lib \<Rightarrow> string \<Rightarrow> 'c client \<Rightarrow> bool \<times> 'c client" where
  "ExecuteStatement L sql w =
     (if \<not> li_connected L (cl_conn w) then (False, put_err not_connected_msg w)
      else let w1 = (if cc_echo (cl_config w) then put (sql @ '';'') w else w)
           in if IsUpdateStatement sql then run_update L sql w1 else run_query L sql w1)"

section \<open>Scripts\<close>

text \<open>What the loop over the lines of a script calls.\<close>

record 'w line_ops =
  op_exec :: "string \<Rightarrow> 'w \<Rightarrow> bool \<times> 'w"
  op_dot :: "string \<Rightarrow> 'w \<Rightarrow> command_result \<times> 'w"
  op_bail :: "'w \<Rightarrow> bool"

definition client_ops :: "'c shell_lib \<Rightarrow> 'c client line_ops" where
  "client_ops L = \<lparr>op_exec = ExecuteStatement L, op_dot = Process L, op_bail = (\<lambda>w. cc_bail (cl_config w))\<rparr>"

text \<open>A statement, if there is one: whether the script stops, its exit code so far, the state.\<close>

definition run_statement :: "'w line_ops \<Rightarrow> string \<Rightarrow> int \<Rightarrow> 'w \<Rightarrow> bool \<times> int \<times> 'w" where
  "run_statement ops stmt ec w =
     (if stmt = [] then (False, ec, w)
      else case op_exec ops stmt w of
             (True, w1) \<Rightarrow> (False, ec, w1)
           | (False, w1) \<Rightarrow> (op_bail ops w1, 1, w1))"

text \<open>The text behind a semicolon on the same line; \<open>Some c\<close>: the script returns \<open>c\<close>.\<close>

function process_remainder ::
    "'w line_ops \<Rightarrow> string \<Rightarrow> sql_processor \<Rightarrow> int \<Rightarrow> 'w \<Rightarrow> int option \<times> int \<times> sql_processor \<times> 'w" where
  "process_remainder ops rem sp ec w =
     (if rem = [] then (None, ec, sp, w)
      else if IsDotCommand rem
      then (case op_dot ops rem w of (r, w1) \<Rightarrow> (if r = CmdExit then Some 0 else None, ec, sp, w1))
      else case AccumulateLine rem sp of
             (False, sp1) \<Rightarrow> (None, ec, sp1, w)
           | (True, sp1) \<Rightarrow>
               (case run_statement ops (GetStatement sp1) ec w of
                  (True, ec1, w1) \<Rightarrow> (Some ec1, ec1, Reset sp1, w1)
                | (False, ec1, w1) \<Rightarrow> process_remainder ops (GetRemainder sp1) (Reset sp1) ec1 w1))"
  by pat_completeness auto
termination
  by (relation "measure (\<lambda>(ops, rem, sp, ec, w). length rem)") (simp_all add: GetRemainder_shorter)

declare process_remainder.simps [simp del]

text \<open>The end of the input: what has been read without a semicolon is executed too.\<close>

definition finish_input :: "'w line_ops \<Rightarrow> sql_processor \<Rightarrow> int \<Rightarrow> 'w \<Rightarrow> int \<times> sql_processor \<times> 'w" where
  "finish_input ops sp ec w =
     (if IsAccumulating sp
      then (case run_statement ops (GetStatement sp) ec w of (stop, ec1, w1) \<Rightarrow> (ec1, Reset sp, w1))
      else (ec, sp, w))"

fun process_lines :: "'w line_ops \<Rightarrow> string list \<Rightarrow> sql_processor \<Rightarrow> int \<Rightarrow> 'w \<Rightarrow> int \<times> sql_processor \<times> 'w" where
  "process_lines ops [] sp ec w = finish_input ops sp ec w"
| "process_lines ops (line # lines) sp ec w =
     (if line = [] \<and> \<not> IsAccumulating sp then process_lines ops lines sp ec w
      else if \<not> IsAccumulating sp \<and> IsDotCommand line
      then (case op_dot ops line w of (r, w1) \<Rightarrow>
              if r = CmdExit then (0, sp, w1)
              else if r = CmdError \<and> op_bail ops w1 then (1, sp, w1)
              else process_lines ops lines sp ec w1)
      else case AccumulateLine line sp of
             (False, sp1) \<Rightarrow> process_lines ops lines sp1 ec w
           | (True, sp1) \<Rightarrow>
               (case run_statement ops (GetStatement sp1) ec w of
                  (True, ec1, w1) \<Rightarrow> (ec1, Reset sp1, w1)
                | (False, ec1, w1) \<Rightarrow>
                    (case process_remainder ops (GetRemainder sp1) (Reset sp1) ec1 w1 of
                       (Some c, ec2, sp2, w2) \<Rightarrow> (c, sp2, w2)
                     | (None, ec2, sp2, w2) \<Rightarrow> process_lines ops lines sp2 ec2 w2)))"

text \<open>\<open>std::getline\<close> gives the lines of a stream.\<close>

definition ProcessLines :: "'w line_ops \<Rightarrow> string \<Rightarrow> sql_processor \<Rightarrow> 'w \<Rightarrow> int \<times> sql_processor \<times> 'w" where
  "ProcessLines ops input sp w = process_lines ops (getlines newline input) sp 0 w"

definition RunNonInteractive ::
    "'c shell_lib \<Rightarrow> string \<Rightarrow> sql_processor \<Rightarrow> 'c client \<Rightarrow> int \<times> sql_processor \<times> 'c client" where
  "RunNonInteractive L stdin sp w =
     (let s = cc_script (cl_config w)
      in case sc_command s of
           Some c \<Rightarrow> ProcessLines (client_ops L) c sp w
         | None \<Rightarrow>
             (case sc_input_file s of
                None \<Rightarrow> ProcessLines (client_ops L) stdin sp w
              | Some f \<Rightarrow>
                  (case li_read L f of
                     None \<Rightarrow> (1, sp, put_err (''Error: cannot open file '' @ [squote] @ f @ [squote]) w)
                   | Some c \<Rightarrow> ProcessLines (client_ops L) c sp w)))"

section \<open>The interactive loop\<close>

text \<open>A statement of the interactive loop: its result only matters for the cache of the completion.\<close>

definition interactive_statement :: "'c shell_lib \<Rightarrow> string \<Rightarrow> 'c client \<Rightarrow> 'c client" where
  "interactive_statement L stmt w =
     (if stmt = [] then w
      else let w1 = snd (ExecuteStatement L stmt w) in if IsDdlStatement stmt then refresh w1 else w1)"

function interactive_remainder :: "'c shell_lib \<Rightarrow> string \<Rightarrow> sql_processor \<Rightarrow> 'c client \<Rightarrow> sql_processor \<times> 'c client" where
  "interactive_remainder L rem sp w =
     (if rem = [] then (sp, w)
      else case AccumulateLine rem sp of
             (False, sp1) \<Rightarrow> (sp1, w)
           | (True, sp1) \<Rightarrow>
               interactive_remainder L (GetRemainder sp1) (Reset sp1) (interactive_statement L (GetStatement sp1) w))"
  by pat_completeness auto
termination
  by (relation "measure (\<lambda>(L, rem, sp, w). length rem)") (simp_all add: GetRemainder_shorter)

declare interactive_remainder.simps [simp del]

text \<open>The lines that are typed up to the end of input; the history in the order of entry.\<close>

fun interactive_lines ::
    "'c shell_lib \<Rightarrow> string list \<Rightarrow> string list \<Rightarrow> sql_processor \<Rightarrow> 'c client \<Rightarrow> string list \<times> sql_processor \<times> 'c client" where
  "interactive_lines L [] hist sp w = (hist, sp, if cc_quiet (cl_config w) then w else put_out [] w)"
| "interactive_lines L (line # lines) hist sp w =
     (if line = [] \<and> \<not> IsAccumulating sp then interactive_lines L lines hist sp w
      else if \<not> IsAccumulating sp \<and> IsDotCommand line
      then (case Process L line w of (r, w1) \<Rightarrow>
              if r = CmdExit then (hist @ [line], sp, w1) else interactive_lines L lines (hist @ [line]) sp w1)
      else case AccumulateLine line sp of
             (False, sp1) \<Rightarrow> interactive_lines L lines hist sp1 w
           | (True, sp1) \<Rightarrow>
               (case interactive_remainder L (GetRemainder sp1) (Reset sp1) (interactive_statement L (GetStatement sp1) w) of
                  (sp2, w2) \<Rightarrow> interactive_lines L lines (hist @ [GetStatement sp1 @ '';'']) sp2 w2))"

definition GetHistoryPath :: "string option \<Rightarrow> string" where
  "GetHistoryPath home = (case home of None \<Rightarrow> ''.gizmosql_history'' | Some h \<Rightarrow> h @ ''/.gizmosql_history'')"

definition default_init_path :: "string option \<Rightarrow> string" where
  "default_init_path home =
     (case rfind_char (CHR ''/'') (GetHistoryPath home) of
        None \<Rightarrow> ''.gizmosqlrc'' | Some p \<Rightarrow> take p (GetHistoryPath home) @ ''/.gizmosqlrc'')"

text \<open>The init file runs like a script, but neither its exit code nor an exit command in it counts.\<close>

definition run_init_file :: "'c shell_lib \<Rightarrow> sql_processor \<Rightarrow> 'c client \<Rightarrow> sql_processor \<times> 'c client" where
  "run_init_file L sp w =
     (let s = cc_script (cl_config w)
      in case sc_init_file s of
           Some f \<Rightarrow>
             (case li_read L f of
                Some c \<Rightarrow> snd (ProcessLines (client_ops L) c sp w)
              | None \<Rightarrow> (sp, put_err (''Warning: could not open init file '' @ [squote] @ f @ [squote]) w))
         | None \<Rightarrow>
             (if sc_no_init s then (sp, w)
              else case li_read L (default_init_path (li_home L)) of
                     Some c \<Rightarrow> snd (ProcessLines (client_ops L) c sp w)
                   | None \<Rightarrow> (sp, w)))"

definition banner :: "'c shell_lib \<Rightarrow> string \<Rightarrow> 'c client \<Rightarrow> string" where
  "banner L version w =
     ''GizmoSQL Client '' @ version @ [newline]
     @ (if li_connected L (cl_conn w)
        then ''Connected to '' @ cn_host (cc_conn (cl_config w)) @ '':'' @ show_int (cn_port (cc_conn (cl_config w)))
        else ''Not connected. Use '' @ [squote] @ ''.connect HOST PORT USERNAME'' @ [squote] @ '' to connect.'')
     @ [newline] @ ''Type '' @ [squote] @ ''.help'' @ [squote] @ '' for help, '' @ [squote] @ ''.quit'' @ [squote]
     @ '' to exit.'' @ [newline]"

definition RunShellLoop ::
    "'c shell_lib \<Rightarrow> string \<Rightarrow> string list \<Rightarrow> string list \<Rightarrow> sql_processor \<Rightarrow> 'c client
      \<Rightarrow> int \<times> string list \<times> sql_processor \<times> 'c client" where
  "RunShellLoop L version hist lines sp w =
     (let w1 = w\<lparr>cl_callback := True\<rparr>;
          w2 = (if cc_quiet (cl_config w1) then w1 else put_out (banner L version w1) w1)
      in case run_init_file L sp w2 of (sp3, w3) \<Rightarrow> (0, interactive_lines L lines hist sp3 w3))"

text \<open>The end of \<open>main\<close>: connect, if there is something to connect to, and run.\<close>

definition new_client :: "client_config \<Rightarrow> 'c \<Rightarrow> 'c client" where
  "new_client cfg c =
     \<lparr>cl_config = cfg, cl_conn = c, cl_file = None, cl_once = False, cl_opened = 0, cl_deleted = {}, cl_written = [],
      cl_system = [], cl_callback = False, cl_refreshes = 0\<rparr>"

definition run_client ::
    "'c shell_lib \<Rightarrow> string \<Rightarrow> string list \<Rightarrow> string \<Rightarrow> client_config \<Rightarrow> bool \<Rightarrow> 'c \<Rightarrow> int \<times> 'c client" where
  "run_client L version typed stdin cfg connect c0 =
     (case (if connect then li_connect L (cc_conn cfg) c0 else (ok (), c0)) of
        (Inl e, c) \<Rightarrow> (1, put_err (''Error: '' @ li_status L e) (new_client cfg c))
      | (Inr _, c) \<Rightarrow>
          (if cc_interactive cfg
           then (case RunShellLoop L version [] typed new_processor (new_client cfg c) of (r, hist, sp, w) \<Rightarrow> (r, w))
           else (case RunNonInteractive L stdin new_processor (new_client cfg c) of (r, sp, w) \<Rightarrow> (r, w))))"

section \<open>Scripts are split like a lexer splits them\<close>

text \<open>The statements one after the other, up to the first failure if that stops the script.\<close>

fun run_all :: "'w line_ops \<Rightarrow> string list \<Rightarrow> int \<Rightarrow> 'w \<Rightarrow> int \<times> 'w" where
  "run_all ops [] ec w = (ec, w)"
| "run_all ops (s # ss) ec w =
     (case run_statement ops s ec w of
        (True, ec1, w1) \<Rightarrow> (ec1, w1) | (False, ec1, w1) \<Rightarrow> run_all ops ss ec1 w1)"

text \<open>A piece of the text without the white space around it.\<close>

definition clean :: "string \<Rightarrow> string" where
  "clean p = trim_right (dropWhile line_blank p)"

definition cleaned :: "string list \<Rightarrow> string list" where
  "cleaned ps = filter (\<lambda>s. s \<noteq> []) (map clean ps)"

definition no_dots :: "string list \<Rightarrow> bool" where
  "no_dots ps \<longleftrightarrow> list_all (\<lambda>p. head (dropWhile line_blank p) \<noteq> Some (CHR ''.'')) ps"

fun line_text :: "string list \<Rightarrow> string" where
  "line_text [] = []"
| "line_text (l # ls) = newline # l @ line_text ls"

lemma line_text_end [simp]: "line_end (line_text ls)"
  by (cases ls) (simp_all add: line_end_def)

lemma line_blank_space: "line_blank c \<Longrightarrow> is_space c"
  by (auto simp: line_blank_def is_space_def)

lemma trim_right_append: "trim_right s \<noteq> [] \<Longrightarrow> trim_right (p @ s) = p @ trim_right s"
  by (auto simp: trim_right_def dropWhile_append dropWhile_eq_Nil_conv)

lemma trim_right_blank: "trim_right s = [] \<longleftrightarrow> (\<forall>c \<in> set s. is_space c)"
  by (simp add: trim_right_def dropWhile_eq_Nil_conv)

lemma clean_trim: "clean p = dropWhile line_blank (trim_right p)"
proof (induction p)
  case (Cons c p)
  show ?case
  proof (cases "trim_right p = []")
    case True
    then show ?thesis
      using Cons line_blank_space [of c]
      by (auto simp: clean_def trim_right_def dropWhile_append dropWhile_eq_Nil_conv dest: set_dropWhileD)
  next
    case False
    then have "trim_right (c # p) = c # trim_right p" using trim_right_append [of p "[c]"] by simp
    then show ?thesis using Cons by (auto simp: clean_def)
  qed
qed (simp add: clean_def trim_right_def)

lemma clean_empty: "clean p = [] \<longleftrightarrow> trim_right p = []"
proof -
  have "clean p = [] \<Longrightarrow> \<forall>c \<in> set p. is_space c"
    unfolding clean_def trim_right_blank
    using line_blank_space by (metis dropWhile_append1 in_set_conv_decomp set_dropWhileD dropWhile_eq_self_iff
        hd_in_set set_takeWhileD takeWhile_dropWhile_id Un_iff set_append)
  moreover have "trim_right p = [] \<Longrightarrow> clean p = []" by (simp add: clean_trim)
  ultimately show ?thesis by (auto simp: trim_right_blank)
qed

lemma clean_blank [simp]: "line_blank c \<Longrightarrow> clean (c # p) = clean p"
  by (simp add: clean_def)

lemma split_ignores_blanks:
  assumes "\<forall>c \<in> set b. line_blank c"
  shows "cleaned (lex_split Plain (b @ s) []) = cleaned (lex_split Plain s [])
    \<and> no_dots (lex_split Plain (b @ s) []) = no_dots (lex_split Plain s [])"
  using assms
proof (induction b)
  case (Cons c b)
  obtain q qs where q: "lex_split Plain (b @ s) [] = q # qs"
    using lex_split_acc [of Plain "b @ s" "[]"] by blast
  have "lex_split Plain (c # b @ s) [] = lex_split Plain (b @ s) [c]"
    using Cons(2) by (auto simp: line_blank_def lex_step_def)
  also have "\<dots> = (c # q) # qs"
    by (subst lex_split_acc) (simp add: q)
  finally have eq: "lex_split Plain ((c # b) @ s) [] = (c # q) # qs" by simp
  have "line_blank c" using Cons(2) by simp
  then show ?case
    using Cons unfolding eq q by (simp add: cleaned_def no_dots_def)
qed simp

definition runs :: "'w line_ops \<Rightarrow> (int \<Rightarrow> 'w \<Rightarrow> int \<times> sql_processor \<times> 'w) \<Rightarrow> string list \<Rightarrow> bool" where
  "runs ops f stmts \<longleftrightarrow> (\<forall>ec w. \<exists>sp. f ec w = (fst (run_all ops stmts ec w), sp, snd (run_all ops stmts ec w)))"

text \<open>A loop runs the pieces if it runs statements that are the pieces up to the blanks before them.\<close>

definition runs_pieces :: "'w line_ops \<Rightarrow> (int \<Rightarrow> 'w \<Rightarrow> int \<times> sql_processor \<times> 'w) \<Rightarrow> string list \<Rightarrow> bool" where
  "runs_pieces ops f ps \<longleftrightarrow> (\<exists>stmts. map (dropWhile line_blank) stmts = cleaned ps \<and> runs ops f stmts)"

lemma runs_pieces_cong: "cleaned ps = cleaned qs \<Longrightarrow> runs_pieces ops f ps = runs_pieces ops f qs"
  by (simp add: runs_pieces_def)

lemma runs_pieces_Nil: "runs_pieces ops (\<lambda>ec w. (ec, sp, w)) []"
  by (simp add: runs_pieces_def runs_def cleaned_def)

lemma runs_pieces_Cons:
  assumes "runs_pieces ops g ps"
    and "\<And>ec w. f ec w = (case run_statement ops (trim_right p) ec w of
      (True, ec1, w1) \<Rightarrow> (ec1, spr, w1) | (False, ec1, w1) \<Rightarrow> g ec1 w1)"
  shows "runs_pieces ops f (p # ps)"
proof -
  obtain stmts where stmts: "map (dropWhile line_blank) stmts = cleaned ps" "runs ops g stmts"
    using assms(1) by (auto simp: runs_pieces_def)
  let ?all = "if trim_right p = [] then stmts else trim_right p # stmts"
  have "map (dropWhile line_blank) ?all = cleaned (p # ps)"
    using stmts(1) by (simp add: cleaned_def clean_empty clean_trim [symmetric])
  moreover have "runs ops f ?all"
    using stmts(2) unfolding runs_def assms(2)
    by (auto simp: run_statement_def split: prod.split bool.split)
  ultimately show ?thesis unfolding runs_pieces_def by blast
qed

lemma dot_piece:
  assumes "IsDotCommand s"
  shows "\<not> no_dots (lex_split Plain (s @ r) [])"
proof -
  let ?bl = "\<lambda>c. c = CHR '' '' \<or> c = tabchar"
  obtain x where x: "dropWhile ?bl s = CHR ''.'' # x"
    using assms by (cases "dropWhile ?bl s") (auto simp: IsDotCommand_def)
  then have s: "s = takeWhile ?bl s @ CHR ''.'' # x" by (metis takeWhile_dropWhile_id)
  have "\<forall>c \<in> set (takeWhile ?bl s). line_blank c"
    by (auto simp: line_blank_def dest: set_takeWhileD)
  then have "no_dots (lex_split Plain (s @ r) []) = no_dots (lex_split Plain ((CHR ''.'' # x) @ r) [])"
    using split_ignores_blanks by (subst s) (simp only: append_assoc)
  moreover have "lex_split Plain ((CHR ''.'' # x) @ r) [] = lex_split Plain (x @ r) [CHR ''.'']"
    by (simp add: lex_step_def)
  moreover have "\<dots> = (CHR ''.'' # hd (lex_split Plain (x @ r) [])) # tl (lex_split Plain (x @ r) [])"
    by (subst lex_split_acc) simp
  ultimately show ?thesis by (simp add: no_dots_def line_blank_def)
qed

definition pieces :: "sql_processor \<Rightarrow> string list \<Rightarrow> string list" where
  "pieces sp lines = lex_split (lex_of sp) (line_text lines) (rev (sp_buffer sp))"

definition ready :: "sql_processor \<Rightarrow> bool" where
  "ready sp \<longleftrightarrow> scanning sp \<and> (sp_buffer sp = [] \<longrightarrow> lex_of sp = Plain)"

definition fresh :: "sql_processor \<Rightarrow> bool" where
  "fresh sp \<longleftrightarrow> scanning sp \<and> sp_buffer sp = [] \<and> lex_of sp = Plain"

lemma fresh_Reset [simp]: "fresh (Reset sp)" "fresh new_processor"
  by (simp_all add: fresh_def Reset_def scanning_def lex_of_def new_processor_def)

lemma fresh_ready: "fresh sp \<Longrightarrow> ready sp"
  by (simp add: fresh_def ready_def)

text \<open>The rest of a line, then the other lines.\<close>

definition after_remainder ::
    "'w line_ops \<Rightarrow> string list \<Rightarrow> string \<Rightarrow> sql_processor \<Rightarrow> int \<Rightarrow> 'w \<Rightarrow> int \<times> sql_processor \<times> 'w" where
  "after_remainder ops lines rem sp ec w =
     (case process_remainder ops rem sp ec w of
        (Some c, ec2, sp2, w2) \<Rightarrow> (c, sp2, w2)
      | (None, ec2, sp2, w2) \<Rightarrow> process_lines ops lines sp2 ec2 w2)"

lemma remainder_runs:
  assumes lines: "\<And>sp. ready sp \<Longrightarrow> no_dots (pieces sp lines) \<Longrightarrow> runs_pieces ops (process_lines ops lines sp) (pieces sp lines)"
    and "newline \<notin> set rem" and "fresh sp" and "no_dots (lex_split Plain (rem @ line_text lines) [])"
  shows "runs_pieces ops (after_remainder ops lines rem sp) (lex_split Plain (rem @ line_text lines) [])"
  using assms(2-)
proof (induction "length rem" arbitrary: rem sp rule: less_induct)
  case less
  show ?case
  proof (cases "rem = []")
    case True
    then have "pieces sp lines = lex_split Plain (rem @ line_text lines) []"
      using less.prems(2) by (simp add: pieces_def fresh_def)
    moreover have "after_remainder ops lines rem sp = process_lines ops lines sp"
      using True by (intro ext) (simp add: after_remainder_def process_remainder.simps)
    ultimately show ?thesis using lines [OF fresh_ready] less.prems by metis
  next
    case False
    have dot: "\<not> IsDotCommand rem" using dot_piece less.prems(3) by blast
    obtain b sp1 where acc: "AccumulateLine rem sp = (b, sp1)" by (rule prod.exhaust)
    have sep: "separator sp = []" "sp_buffer sp = []" "lex_of sp = Plain" "scanning sp"
      using less.prems(2) by (simp_all add: separator_def fresh_def)
    note lex = AccumulateLine_lex [OF less.prems(1) line_text_end sep(4) acc, of lines, unfolded sep]
    show ?thesis
    proof (cases b)
      case False
      then have "scanning sp1" "lex_split Plain (rem @ line_text lines) [] = pieces sp1 lines"
        using lex by (simp_all add: pieces_def)
      moreover have "ready sp1"
        using AccumulateLine_buffer [OF acc] \<open>scanning sp1\<close> \<open>rem \<noteq> []\<close> by (simp add: ready_def)
      moreover have "after_remainder ops lines rem sp = process_lines ops lines sp1"
        using acc False dot \<open>rem \<noteq> []\<close> by (intro ext) (simp add: after_remainder_def process_remainder.simps)
      ultimately show ?thesis using lines less.prems(3) by metis
    next
      case True
      then obtain p where p: "p < length rem" "GetStatement sp1 = trim_right (take p rem)"
        "GetRemainder sp1 = dropWhile line_blank (drop (p + 1) rem)"
        "lex_split Plain (rem @ line_text lines) [] = take p rem # lex_split Plain (drop (p + 1) rem @ line_text lines) []"
        using lex by auto
      let ?d = "drop (p + 1) rem"
      have d: "?d @ line_text lines = takeWhile line_blank ?d @ (GetRemainder sp1 @ line_text lines)"
        unfolding p(3) by simp
      have blanks: "\<forall>c \<in> set (takeWhile line_blank ?d). line_blank c" by (auto dest: set_takeWhileD)
      have same: "cleaned (lex_split Plain (?d @ line_text lines) []) = cleaned (lex_split Plain (GetRemainder sp1 @ line_text lines) [])"
        "no_dots (lex_split Plain (?d @ line_text lines) []) = no_dots (lex_split Plain (GetRemainder sp1 @ line_text lines) [])"
        unfolding d using split_ignores_blanks [OF blanks] by blast+
      have "newline \<notin> set (GetRemainder sp1)"
        unfolding p(3) using less.prems(1) by (auto dest!: set_dropWhileD in_set_dropD)
      moreover have "no_dots (lex_split Plain (?d @ line_text lines) [])"
        using less.prems(3) unfolding p(4) by (simp add: no_dots_def)
      ultimately have "runs_pieces ops (after_remainder ops lines (GetRemainder sp1) (Reset sp1))
          (lex_split Plain (GetRemainder sp1 @ line_text lines) [])"
        using less.hyps [of "GetRemainder sp1" "Reset sp1"] GetRemainder_shorter acc True same(2) by simp
      then have rest: "runs_pieces ops (after_remainder ops lines (GetRemainder sp1) (Reset sp1))
          (lex_split Plain (?d @ line_text lines) [])"
        using runs_pieces_cong [OF same(1)] by blast
      show ?thesis
        unfolding p(4)
      proof (rule runs_pieces_Cons [OF rest, where spr = "Reset sp1"])
        fix ec w
        show "after_remainder ops lines rem sp ec w = (case run_statement ops (trim_right (take p rem)) ec w of
            (True, ec1, w1) \<Rightarrow> (ec1, Reset sp1, w1)
          | (False, ec1, w1) \<Rightarrow> after_remainder ops lines (GetRemainder sp1) (Reset sp1) ec1 w1)"
          using acc True dot \<open>rem \<noteq> []\<close> p(2)
          by (simp add: after_remainder_def process_remainder.simps [of ops rem] split: prod.split bool.split)
      qed
    qed
  qed
qed

lemma process_lines_pieces:
  assumes "ready sp" and "\<forall>l \<in> set lines. newline \<notin> set l" and "no_dots (pieces sp lines)"
  shows "runs_pieces ops (process_lines ops lines sp) (pieces sp lines)"
  using assms
proof (induction lines arbitrary: sp)
  case Nil
  have eq: "process_lines ops [] sp ec w = (case run_statement ops (trim_right (sp_buffer sp)) ec w of
      (True, ec1, w1) \<Rightarrow> (ec1, if IsAccumulating sp then Reset sp else sp, w1)
    | (False, ec1, w1) \<Rightarrow> (ec1, if IsAccumulating sp then Reset sp else sp, w1))" for ec and w :: 'a
    using Nil(1)
    by (auto simp: finish_input_def IsAccumulating_def GetStatement_def ready_def scanning_def run_statement_def
        trim_right_def split: prod.split bool.split)
  have "pieces sp [] = [sp_buffer sp]" by (simp add: pieces_def)
  then show ?case
    by (simp only:) (rule runs_pieces_Cons [OF runs_pieces_Nil], rule eq)
next
  case (Cons line lines)
  let ?r = "line_text lines"
  let ?X = "lex_split (lex_of sp) (separator sp @ line @ ?r) (rev (sp_buffer sp))"
  have scan: "scanning sp" using Cons.prems(1) by (simp add: ready_def)
  have same: "cleaned (pieces sp (line # lines)) = cleaned ?X \<and> no_dots (pieces sp (line # lines)) = no_dots ?X"
  proof (cases "sp_buffer sp = []")
    case True
    then show ?thesis
      using Cons.prems(1) split_ignores_blanks [of "[newline]" "line @ ?r"]
      by (simp add: pieces_def ready_def separator_def line_blank_def del: lex_split.simps)
  next
    case False
    then show ?thesis by (simp add: pieces_def separator_def)
  qed
  have "runs_pieces ops (process_lines ops (line # lines) sp) ?X"
  proof (cases "sp_buffer sp = [] \<and> line = []")
    case True
    then have "?X = pieces sp lines" by (simp add: pieces_def separator_def)
    moreover have "process_lines ops (line # lines) sp = process_lines ops lines sp"
      using True by (intro ext) (simp add: IsAccumulating_def)
    ultimately show ?thesis
      using Cons.IH [OF Cons.prems(1)] Cons.prems(2,3) same by simp
  next
    case False
    have dot: "\<not> (\<not> IsAccumulating sp \<and> IsDotCommand line)"
      using dot_piece [of line ?r] Cons.prems(1,3) same by (auto simp: IsAccumulating_def ready_def separator_def)
    have unskipped: "\<not> (line = [] \<and> \<not> IsAccumulating sp)" using False by (auto simp: IsAccumulating_def)
    obtain b sp1 where acc: "AccumulateLine line sp = (b, sp1)" by (rule prod.exhaust)
    have no_nl: "newline \<notin> set line" using Cons.prems(2) by simp
    note lex = AccumulateLine_lex [OF no_nl line_text_end scan acc, of lines]
    show ?thesis
    proof (cases b)
      case False
      then have X: "scanning sp1" "?X = pieces sp1 lines" using lex by (simp_all add: pieces_def)
      have "sp_buffer sp1 \<noteq> []"
        using AccumulateLine_buffer [OF acc] \<open>\<not> (sp_buffer sp = [] \<and> line = [])\<close> by auto
      then have "ready sp1" using X(1) by (simp add: ready_def)
      then have "runs_pieces ops (process_lines ops lines sp1) (pieces sp1 lines)"
        using Cons.IH Cons.prems(2,3) same X(2) by simp
      moreover have "process_lines ops (line # lines) sp = process_lines ops lines sp1"
        using acc False dot unskipped by (intro ext) (simp add: if_not_P)
      ultimately show ?thesis using X(2) by simp
    next
      case True
      then obtain p where p: "p < length line"
        "GetStatement sp1 = trim_right (sp_buffer sp @ separator sp @ take p line)"
        "GetRemainder sp1 = dropWhile line_blank (drop (p + 1) line)"
        "?X = (sp_buffer sp @ separator sp @ take p line) # lex_split Plain (drop (p + 1) line @ ?r) []"
        using lex by auto
      let ?d = "drop (p + 1) line"
      have blanks: "\<forall>c \<in> set (takeWhile line_blank ?d). line_blank c" by (auto dest: set_takeWhileD)
      have d: "?d @ ?r = takeWhile line_blank ?d @ (GetRemainder sp1 @ ?r)" unfolding p(3) by simp
      have eq: "cleaned (lex_split Plain (?d @ ?r) []) = cleaned (lex_split Plain (GetRemainder sp1 @ ?r) [])"
        "no_dots (lex_split Plain (?d @ ?r) []) = no_dots (lex_split Plain (GetRemainder sp1 @ ?r) [])"
        unfolding d using split_ignores_blanks [OF blanks] by blast+
      have "no_dots (lex_split Plain (?d @ ?r) [])"
        using Cons.prems(3) same unfolding p(4) by (simp add: no_dots_def)
      moreover have "newline \<notin> set (GetRemainder sp1)"
        unfolding p(3) using no_nl by (auto dest!: set_dropWhileD in_set_dropD)
      moreover have "runs_pieces ops (process_lines ops lines sp) (pieces sp lines)"
        if "ready sp" "no_dots (pieces sp lines)" for sp
        using Cons.IH [OF that(1) _ that(2)] Cons.prems(2) by simp
      ultimately have "runs_pieces ops (after_remainder ops lines (GetRemainder sp1) (Reset sp1))
          (lex_split Plain (GetRemainder sp1 @ ?r) [])"
        using remainder_runs [of lines ops "GetRemainder sp1" "Reset sp1"] eq(2) by simp
      then have rest: "runs_pieces ops (after_remainder ops lines (GetRemainder sp1) (Reset sp1))
          (lex_split Plain (?d @ ?r) [])"
        using runs_pieces_cong [OF eq(1)] by blast
      show ?thesis
        unfolding p(4)
      proof (rule runs_pieces_Cons [OF rest, where spr = "Reset sp1"])
        fix ec w
        show "process_lines ops (line # lines) sp ec w =
          (case run_statement ops (trim_right (sp_buffer sp @ separator sp @ take p line)) ec w of
            (True, ec1, w1) \<Rightarrow> (ec1, Reset sp1, w1)
          | (False, ec1, w1) \<Rightarrow> after_remainder ops lines (GetRemainder sp1) (Reset sp1) ec1 w1)"
          using acc True dot unskipped p(2)
          by (simp add: if_not_P after_remainder_def split: prod.split bool.split)
      qed
    qed
  qed
  then show ?case using runs_pieces_cong same by blast
qed

text \<open>The text of a script, up to the newlines that \<open>std::getline\<close> removes.\<close>

lemma getlines_no_newline: "\<forall>l \<in> set (getlines d s). d \<notin> set l"
  by (induction d s rule: getlines.induct) (auto dest: set_takeWhileD)

lemma getlines_text:
  assumes "s \<noteq> []"
  shows "line_text (getlines newline s) = newline # (if last s = newline then butlast s else s)"
  using assms
proof (induction "length s" arbitrary: s rule: less_induct)
  case less
  let ?tw = "takeWhile (\<lambda>x. x \<noteq> newline) s" and ?dw = "dropWhile (\<lambda>x. x \<noteq> newline) s"
  have lines: "getlines newline s = ?tw # getlines newline (drop 1 ?dw)"
    using less.prems by (cases s) simp_all
  have s: "s = ?tw @ ?dw" by simp
  show ?case
  proof (cases ?dw)
    case Nil
    then have tw: "?tw = s" using s by simp
    then have "newline \<notin> set s" by (metis set_takeWhileD)
    then have "last s \<noteq> newline" using less.prems last_in_set by metis
    then show ?thesis using lines Nil tw by simp
  next
    case (Cons c t)
    have "c = newline" using Cons by (metis (mono_tags) dropWhile_eq_Cons_conv)
    show ?thesis
    proof (cases "t = []")
      case True
      have "s = ?tw @ [newline]" using s Cons \<open>c = newline\<close> True by simp
      then have "last s = newline" "butlast s = ?tw" by (metis last_snoc, metis butlast_snoc)
      then show ?thesis using lines Cons True by simp
    next
      case False
      have split: "s = ?tw @ newline # t" using s Cons \<open>c = newline\<close> by simp
      then have "length t < length s" by (metis add_Suc_right length_Cons length_append less_add_Suc2)
      then have IH: "line_text (getlines newline t) = newline # (if last t = newline then butlast t else t)"
        using less.hyps False by blast
      have last: "last (?tw @ newline # t) = last t" "butlast (?tw @ newline # t) = ?tw @ newline # butlast t"
        using False by (simp_all add: butlast_append)
      have "line_text (getlines newline s) = newline # ?tw @ line_text (getlines newline t)"
        using lines Cons by simp
      also have "\<dots> = newline # (if last t = newline then ?tw @ newline # butlast t else ?tw @ newline # t)"
        using IH by simp
      also have "\<dots> = newline # (if last s = newline then butlast s else s)"
        using last split by (metis (no_types))
      finally show ?thesis .
    qed
  qed
qed

text \<open>A newline at the end of the text only lengthens the last piece by a blank.\<close>

lemma clean_final_newline [simp]: "clean (p @ [newline]) = clean p"
  by (simp add: clean_trim trim_right_def is_space_def)

lemma head_final_newline: "head (dropWhile line_blank (p @ [newline])) = Some (CHR ''.'') \<longleftrightarrow> head (dropWhile line_blank p) = Some (CHR ''.'')"
proof (cases "\<forall>c \<in> set p. line_blank c")
  case True
  then have "dropWhile line_blank p = []" "dropWhile line_blank (p @ [newline]) = []"
    by (auto simp: dropWhile_eq_Nil_conv line_blank_def)
  then show ?thesis by (simp only: head_simps)
next
  case False
  then have "dropWhile line_blank (p @ [newline]) = dropWhile line_blank p @ [newline]" "dropWhile line_blank p \<noteq> []"
    by (auto simp: dropWhile_append1 dropWhile_eq_Nil_conv)
  then show ?thesis by (cases "dropWhile line_blank p") auto
qed

lemma lex_split_final_newline:
  "cleaned (lex_split l (s @ [newline]) acc) = cleaned (lex_split l s acc)
    \<and> no_dots (lex_split l (s @ [newline]) acc) = no_dots (lex_split l s acc)"
proof (induction "length s" arbitrary: l s acc rule: less_induct)
  case less
  show ?case
  proof (cases s)
    case Nil
    have "lex_split l [newline] acc = [rev acc @ [newline]]" by (cases l) (simp_all add: lex_step_def)
    then show ?thesis using Nil head_final_newline by (simp add: cleaned_def no_dots_def)
  next
    case (Cons c cs)
    have look: "lex_step l c (head (cs @ [newline])) = lex_step l c (head cs)"
      by (rule look_ahead) (simp add: line_end_def)
    obtain l' b where step: "lex_step l c (head cs) = (l', b)" by (rule prod.exhaust)
    show ?thesis
    proof (cases "l = Plain \<and> c = CHR '';''")
      case True
      then show ?thesis using less [of cs Plain "[]"] Cons by (simp add: cleaned_def no_dots_def)
    next
      case False
      show ?thesis
      proof (cases b)
        case True
        then obtain e es where "cs = e # es" using lex_step_skips step by (cases cs) force+
        then show ?thesis
          using False True Cons step look less [of es l' "e # c # acc"] by (simp add: if_not_P)
      next
        case b: False
        then show ?thesis
          using False Cons step look less [of cs l' "c # acc"] by (simp add: if_not_P)
      qed
    qed
  qed
qed

text \<open>
  C22: A script is executed statement by statement as a lexer cuts its text: if no statement begins with a
  dot, the script runs exactly the pieces of the text between the semicolons that stand outside of quoted
  texts and comments, in order and without the white space around them, leaving out the empty ones, and
  stops early exactly when one fails and the shell is to stop on errors. The line-wise scan with its
  look-ahead, the skipped empty lines and the statements behind a semicolon on the same line do not show.
\<close>

theorem script_runs_its_statements:
  assumes "no_dots (lex_split Plain script [])"
  shows "\<exists>stmts. map (dropWhile line_blank) stmts = cleaned (lex_split Plain script [])
    \<and> (\<forall>w. \<exists>sp. ProcessLines ops script new_processor w = (fst (run_all ops stmts 0 w), sp, snd (run_all ops stmts 0 w)))"
proof -
  let ?ls = "getlines newline script"
  have nl: "\<forall>c \<in> set [newline]. line_blank c" by (simp add: line_blank_def)
  have "cleaned (pieces new_processor ?ls) = cleaned (lex_split Plain script [])
      \<and> no_dots (pieces new_processor ?ls) = no_dots (lex_split Plain script [])"
  proof (cases "script = []")
    case False
    have start: "pieces new_processor ?ls = lex_split Plain (line_text ?ls) []"
      by (simp add: pieces_def new_processor_def lex_of_def)
    show ?thesis
    proof (cases "last script = newline")
      case True
      have "cleaned (lex_split Plain (butlast script) []) = cleaned (lex_split Plain script [])
          \<and> no_dots (lex_split Plain (butlast script) []) = no_dots (lex_split Plain script [])"
        using lex_split_final_newline [of Plain "butlast script" "[]"] append_butlast_last_id [OF False] True
        by (simp only:)
      then show ?thesis
        using split_ignores_blanks [OF nl, of "butlast script"] True
        by (simp only: start getlines_text [OF False] append_Cons append_Nil if_True refl simp_thms)
    next
      case last: False
      then show ?thesis
        using split_ignores_blanks [OF nl, of script]
        by (simp only: start getlines_text [OF False] append_Cons append_Nil if_False refl simp_thms)
    qed
  qed (simp add: pieces_def new_processor_def lex_of_def)
  moreover have "runs_pieces ops (process_lines ops ?ls new_processor) (pieces new_processor ?ls)"
    if "no_dots (pieces new_processor ?ls)"
    using that getlines_no_newline by (intro process_lines_pieces) (auto intro: fresh_ready)
  ultimately have "runs_pieces ops (process_lines ops ?ls new_processor) (lex_split Plain script [])"
    using assms runs_pieces_cong by metis
  then show ?thesis
    unfolding runs_pieces_def runs_def ProcessLines_def by blast
qed

definition sample_ops :: "string list line_ops" where
  "sample_ops = \<lparr>op_exec = (\<lambda>s w. (True, w @ [s])), op_dot = (\<lambda>s w. (CmdOk, w)), op_bail = (\<lambda>w. False)\<rparr>"

text \<open>A comment after the last semicolon is a statement of its own: it is sent to the server.\<close>

theorem script_runs_its_statements_witness:
  "\<exists>stmts sp. map (dropWhile line_blank) stmts = [''SELECT 1'', ''-- done'']
    \<and> ProcessLines sample_ops ''SELECT 1; -- done'' new_processor [] = (0, sp, stmts)"
proof -
  have pieces: "cleaned (lex_split Plain ''SELECT 1; -- done'' []) = [''SELECT 1'', ''-- done'']"
    "no_dots (lex_split Plain ''SELECT 1; -- done'' [])" by code_simp+
  have run: "run_all sample_ops ss 0 w = (0, w @ filter (\<lambda>s. s \<noteq> []) ss)" for ss w
    by (induction ss arbitrary: w) (auto simp: sample_ops_def run_statement_def)
  from script_runs_its_statements [OF pieces(2), of sample_ops] pieces(1)
  obtain stmts sp where s: "map (dropWhile line_blank) stmts = [''SELECT 1'', ''-- done'']"
    "ProcessLines sample_ops ''SELECT 1; -- done'' new_processor []
      = (fst (run_all sample_ops stmts 0 []), sp, snd (run_all sample_ops stmts 0 []))" by metis
  have "[] \<notin> set stmts"
  proof
    assume "[] \<in> set stmts"
    then have "dropWhile line_blank [] \<in> set (map (dropWhile line_blank) stmts)" by (metis image_eqI set_map)
    then show False unfolding s(1) by simp
  qed
  then have "filter (\<lambda>s. s \<noteq> []) stmts = stmts" by (auto simp: filter_id_conv)
  then show ?thesis using s by (auto simp: run)
qed

text \<open>An exit command makes the script succeed, whatever failed before it.\<close>

lemma exit_forgets_failures:
  assumes "op_dot ops ''.quit'' w = (CmdExit, w1)"
  shows "process_lines ops (''.quit'' # lines) new_processor 1 w = (0, new_processor, w1)"
  using assms by (simp add: IsAccumulating_def IsDotCommand_def new_processor_def)

section \<open>Where the output goes\<close>

text \<open>
  The stream of the configuration is not a deleted file; the open file is not deleted and is the newest.
\<close>

definition output_ok :: "'c client \<Rightarrow> bool" where
  "output_ok w \<longleftrightarrow>
     (\<forall>n. cc_output (cl_config w) = CommandFile n \<longrightarrow> cl_file w = Some n)
     \<and> (\<forall>n. cl_file w = Some n \<longrightarrow> n < cl_opened w \<and> n \<notin> cl_deleted w) \<and> (\<forall>n \<in> cl_deleted w. n < cl_opened w)"

definition dangling :: "'c client \<Rightarrow> bool" where
  "dangling w \<longleftrightarrow> (\<exists>n \<in> cl_deleted w. cc_output (cl_config w) = CommandFile n)"

lemma output_ok_not_dangling: "output_ok w \<Longrightarrow> \<not> dangling w"
  by (auto simp: output_ok_def dangling_def)

text \<open>What the output depends on.\<close>

definition same_output :: "'c client \<Rightarrow> 'c client \<Rightarrow> bool" where
  "same_output w w1 \<longleftrightarrow> cc_output (cl_config w1) = cc_output (cl_config w) \<and> cl_file w1 = cl_file w
     \<and> cl_opened w1 = cl_opened w \<and> cl_deleted w1 = cl_deleted w"

lemma same_output_ok: "same_output w w1 \<Longrightarrow> output_ok w1 = output_ok w"
  by (simp add: same_output_def output_ok_def)

lemma same_output_refl [simp]: "same_output w w"
  by (simp add: same_output_def)

lemma same_output_simps [simp]:
  "same_output w (put s w1) = same_output w w1" "same_output w (put_out s w1) = same_output w w1"
  "same_output w (put_err s w1) = same_output w w1" "same_output w (set_display f w1) = same_output w w1"
  "same_output w (call c w1) = same_output w w1" "same_output w (refresh w1) = same_output w w1"
  "same_output w (w1\<lparr>cl_conn := cn\<rparr>) = same_output w w1"
  by (simp_all add: same_output_def put_def put_out_def put_err_def set_display_def call_def refresh_def)

lemma same_output_set_config [simp]:
  "(\<And>c. cc_output (f c) = cc_output c) \<Longrightarrow> same_output w (set_config f w1) = same_output w w1"
  by (simp add: same_output_def set_config_def)

lemma same_output_commands [simp]:
  "same_output w (mode_command args w)" "same_output w (null_command args w)"
  "same_output w (separator_command args w)" "same_output w (maxrows_command args w)"
  "same_output w (maxwidth_command L args w)" "same_output w (shell_command args w)"
  "same_output w (cd_command L args w)" "same_output w (ShowHelp p w)" "same_output w (ShowSettings L w)"
  "same_output w (snd (list_command L get w))" "same_output w (snd (HandleConnect L args w))"
  "(\<And>b c. cc_output (g b c) = cc_output c) \<Longrightarrow> same_output w (switch_command nm h g args w)"
  by (auto simp: mode_command_def null_command_def separator_command_def maxrows_command_def maxwidth_command_def
      shell_command_def cd_command_def ShowHelp_def ShowSettings_def list_command_def HandleConnect_def
      switch_command_def Let_def split: list.split option.split prod.split sum.split)

lemma same_output_prompt [simp]: "same_output w (prompt_command args w)"
  by (simp add: prompt_command_def split: list.split)

lemma same_output_puts [simp]:
  "same_output w (put_timer L ms w1) = same_output w w1" "same_output w (put_failure L e w1) = same_output w w1"
  by (simp_all add: put_timer_def put_failure_def)

lemma same_output_update: "same_output w w1 \<Longrightarrow> same_output w (snd (run_update L sql w1))"
  by (simp add: run_update_def Let_def split: prod.split sum.split)

lemma same_output_query:
  assumes "same_output w w1"
  shows "same_output w (snd (run_query L sql w1))"
proof -
  obtain r ms c where "li_query L sql (if dc_max_rows (cc_display (cl_config w1)) > 0
      then dc_max_rows (cc_display (cl_config w1)) else 0) (cl_conn w1) = (r, ms, c)" by (rule prod_cases3)
  then show ?thesis
    using assms by (cases r) (simp_all add: run_query_def Let_def case_prod_unfold)
qed

lemma same_output_execute [simp]: "same_output w (snd (ExecuteStatement L sql w))"
  by (simp add: ExecuteStatement_def Let_def same_output_update same_output_query)

text \<open>
  As long as every file that is named can be opened, no output is lost: no command and no statement ever
  leaves the shell with an output stream that has been deleted, and the open file is the one it writes to.
\<close>

theorem output_stays_open:
  assumes "output_ok w" and "\<forall>f. li_open L f"
  shows "output_ok (snd (Process L line w)) \<and> output_ok (snd (ExecuteStatement L sql w))
    \<and> \<not> dangling (snd (Process L line w)) \<and> \<not> dangling (snd (ExecuteStatement L sql w))"
proof -
  have opened: "output_ok (open_output L f b w)" for f b
    using assms by (auto simp: open_output_def output_ok_def delete_file_def set_config_def Let_def split: option.split)
  have closed: "output_ok (set_config (\<lambda>c. c\<lparr>cc_output := Stdout\<rparr>) (delete_file w))"
    using assms(1) by (auto simp: output_ok_def delete_file_def set_config_def split: option.split)
  have "output_ok (output_command L args w)" "output_ok (once_command L args w)" for args
    using opened closed assms(1) same_output_ok [of w "put_err ''Usage: .once FILE'' w"]
    by (auto simp: output_command_def once_command_def split: list.split)
  moreover have "output_ok (snd (ExecuteStatement L sql w))"
    using same_output_ok [OF same_output_execute] assms(1) by blast
  moreover have "same_output w w1 \<Longrightarrow> output_ok w1" for w1 using same_output_ok assms(1) by blast
  ultimately have "output_ok (snd (Process L line w))" "output_ok (snd (ExecuteStatement L sql w))"
    by (auto simp: Process_def Let_def split: list.split)
  then show ?thesis using output_ok_not_dangling by blast
qed

lemma same_output_dangling: "same_output w w1 \<Longrightarrow> dangling w1 = dangling w"
  by (simp add: same_output_def dangling_def)

text \<open>
  When a file is open for output and the next one can not be opened, the open one is deleted although
  the configuration still points to it: from then on every statement writes to a deleted stream.
\<close>

theorem failed_output_dangles:
  assumes "cl_file w = Some n" and "cc_output (cl_config w) = CommandFile n"
    and "SplitArgs line = [''.output'', f]" and "f \<noteq> ''stdout''" and "\<not> li_open L f"
  shows "dangling (snd (Process L line w)) \<and> dangling (snd (ExecuteStatement L sql (snd (Process L line w))))"
proof -
  have lower: "to_lower ''.output'' = ''.output''" by (simp add: to_lower_def tolower_def is_upper_def)
  have "dangling (output_command L [f] w)"
    using assms by (simp add: output_command_def open_output_def delete_file_def dangling_def put_err_def Let_def)
  then have "dangling (snd (Process L line w))"
    using assms(3) lower by (simp add: Process_def)
  then show ?thesis using same_output_dangling [OF same_output_execute] by blast
qed

text \<open>\<open>.once\<close> is \<open>.output\<close>: nothing reads the flag it sets, so no statement ends the redirection.\<close>

lemma once_is_output:
  assumes "f \<noteq> ''stdout''"
  shows "once_command L [f] w = (output_command L [f] w)\<lparr>cl_once := cl_once (once_command L [f] w)\<rparr>"
    and "cc_output (cl_config (snd (ExecuteStatement L sql w))) = cc_output (cl_config w)"
proof -
  show "once_command L [f] w = (output_command L [f] w)\<lparr>cl_once := cl_once (once_command L [f] w)\<rparr>"
    using assms by (auto simp: once_command_def output_command_def open_output_def Let_def set_config_def put_err_def)
  show "cc_output (cl_config (snd (ExecuteStatement L sql w))) = cc_output (cl_config w)"
    using same_output_execute [of w L sql] by (simp add: same_output_def)
qed

section \<open>Samples\<close>

definition sample_terminal :: terminal where
  "sample_terminal = \<lparr>tm_is_terminal = False, tm_typed_password = [], tm_width = 80, tm_can_open = (\<lambda>f. True)\<rparr>"

definition sample_shell :: "(string \<Rightarrow> bool) \<Rightarrow> bool shell_lib" where
  "sample_shell opens =
     \<lparr>li_connected = (\<lambda>c. c), li_connect = (\<lambda>n c. (ok (), True)), li_query = (\<lambda>s n c. (ok (sample_table, 1), 3, c)),
      li_update = (\<lambda>s c. (ok 1, 2, c)), li_tables = (\<lambda>p c. (ok sample_table, c)), li_schemas = (\<lambda>p c. (ok sample_table, c)),
      li_catalogs = (\<lambda>c. (ok sample_table, c)), li_sql_info = (\<lambda>c. (ok [], c)), li_text = sample_text,
      li_status = message, li_seconds = show_int, li_terminal = sample_terminal, li_home = None, li_open = opens,
      li_read = (\<lambda>f. None), li_chdir = (\<lambda>d. True)\<rparr>"

definition one_file :: "bool client" where
  "one_file = (new_client default_config True)\<lparr>cl_config := default_config\<lparr>cc_output := CommandFile 0\<rparr>,
     cl_file := Some 0, cl_opened := 1\<rparr>"

theorem output_stays_open_witness:
  "\<not> dangling (snd (Process (sample_shell (\<lambda>f. True)) ''.output b'' one_file))"
proof -
  have "output_ok one_file" by (simp add: output_ok_def one_file_def new_client_def)
  then show ?thesis using output_stays_open [of one_file "sample_shell (\<lambda>f. True)"] by (simp add: sample_shell_def)
qed

theorem failed_output_dangles_witness:
  "dangling (snd (ExecuteStatement (sample_shell (\<lambda>f. f = ''a'')) ''SELECT 1''
     (snd (Process (sample_shell (\<lambda>f. f = ''a'')) ''.output /b'' one_file))))"
proof -
  have "SplitArgs ''.output /b'' = [''.output'', ''/b'']"
    by (simp add: SplitArgs.simps is_space_def)
  then show ?thesis
    using failed_output_dangles [of one_file 0 "''.output /b''" "''/b''" "sample_shell (\<lambda>f. f = ''a'')"]
    by (simp add: one_file_def sample_shell_def)
qed

end
