(* ===== verification/Connection.thy ===== *)
theory Connection
  imports OAuth Shell
begin

text \<open>
  The client's connection to a server (\<open>src/src/client/flight_connection.cpp\<close>, and \<open>OpenBrowser\<close> of
  \<open>oauth_flow.cpp\<close>): connecting and authenticating, queries with a row limit, updates, metadata, and
  cancellation. The Flight client, Arrow's tables, the file system and the HTTP answers of the browser login are
  the parameter \<open>flight_lib\<close>. Ctrl-C sets a flag from another thread while a call of the client is under way:
  every such call also tells whether that happened.
\<close>

section \<open>What the connection uses\<close>

text \<open>A batch: the types of its columns and its rows.\<close>

record flight_batch =
  fb_types :: "arrow_type list"
  fb_rows :: "arrow_value list list"

text \<open>A stream: its schema, then what each \<open>Next\<close> gives until the stream ends.\<close>

type_synonym 'a interruptible = "'a result \<times> bool"

type_synonym flight_schema = "(string \<times> arrow_type) list"

record flight_stream =
  fs_schema :: "flight_schema interruptible"
  fs_chunks :: "flight_batch interruptible list"

record flight_info =
  fi_total_records :: int
  fi_tickets :: "string list"

record flight_options =
  fo_root_certs :: string
  fo_disable_verification :: bool
  fo_cert_chain :: string
  fo_private_key :: string

datatype metadata_request =
    AskTables "string option" "string option" "string option"
  | AskDbSchemas "string option" "string option"
  | AskCatalogs
  | AskSqlInfo "int list"

type_synonym headers = "(string \<times> string) list"

text \<open>
  The Flight client: a connected client is a number. \<open>fl_assemble\<close> is \<open>Table::MakeEmpty\<close> and
  \<open>Table::FromRecordBatches\<close>; \<open>fl_initiate\<close>, \<open>fl_clock\<close> and \<open>fl_replies\<close> are the HTTP side of a browser login.
\<close>

record 'w flight_lib =
  fl_ForGrpcTls :: "string \<Rightarrow> int \<Rightarrow> string result"
  fl_ForGrpcTcp :: "string \<Rightarrow> int \<Rightarrow> string result"
  fl_connect :: "string \<Rightarrow> flight_options \<Rightarrow> 'w \<Rightarrow> nat result \<times> 'w"
  fl_basic_token :: "nat \<Rightarrow> headers \<Rightarrow> string \<Rightarrow> string \<Rightarrow> 'w \<Rightarrow> (string \<times> string) result \<times> 'w"
  fl_execute :: "nat \<Rightarrow> headers \<Rightarrow> string \<Rightarrow> 'w \<Rightarrow> flight_info interruptible \<times> 'w"
  fl_update :: "nat \<Rightarrow> headers \<Rightarrow> string \<Rightarrow> 'w \<Rightarrow> int interruptible \<times> 'w"
  fl_metadata :: "nat \<Rightarrow> headers \<Rightarrow> metadata_request \<Rightarrow> 'w \<Rightarrow> flight_info result \<times> 'w"
  fl_get :: "nat \<Rightarrow> headers \<Rightarrow> string \<Rightarrow> 'w \<Rightarrow> flight_stream interruptible \<times> 'w"
  fl_cancel :: "nat \<Rightarrow> headers \<Rightarrow> 'w \<Rightarrow> 'w"
  fl_close_session :: "nat \<Rightarrow> headers \<Rightarrow> 'w \<Rightarrow> 'w"
  fl_close :: "nat \<Rightarrow> 'w \<Rightarrow> 'w"
  fl_assemble :: "flight_schema \<Rightarrow> flight_batch list \<Rightarrow> arrow_table result"
  fl_read_file :: "string \<Rightarrow> string option"
  fl_status_text :: "status \<Rightarrow> string"
  fl_oauth :: oauth_lib
  fl_initiate :: "string \<Rightarrow> string \<times> http_reply"
  fl_clock :: "nat \<Rightarrow> int"
  fl_replies :: "string \<Rightarrow> string \<Rightarrow> nat \<Rightarrow> http_reply"

text \<open>The members of \<open>FlightConnection\<close>.\<close>

record flight_connection =
  fc_client :: "nat option"
  fc_options :: headers
  fc_cancel_client :: "nat option"
  fc_cancel_options :: headers
  fc_cancel_requested :: bool

definition new_connection :: flight_connection where
  "new_connection =
     \<lparr>fc_client = None, fc_options = [], fc_cancel_client = None, fc_cancel_options = [], fc_cancel_requested = False\<rparr>"

definition IsConnected :: "flight_connection \<Rightarrow> bool" where
  "IsConnected c \<longleftrightarrow> fc_client c \<noteq> None"

definition RequestCancel :: "flight_connection \<Rightarrow> flight_connection" where
  "RequestCancel c = c\<lparr>fc_cancel_requested := True\<rparr>"

section \<open>Connecting\<close>

definition ReadPEMFile :: "'w flight_lib \<Rightarrow> string \<Rightarrow> string result" where
  "ReadPEMFile F path =
     (case fl_read_file F path of
        None \<Rightarrow> fail IOError (''Could not open file: '' @ path)
      | Some contents \<Rightarrow> ok contents)"

definition ca_paths :: "string list" where
  "ca_paths =
     [''/etc/ssl/cert.pem'', ''/etc/ssl/certs/ca-certificates.crt'', ''/etc/pki/tls/certs/ca-bundle.crt'',
      ''/etc/ssl/ca-bundle.pem'']"

text \<open>The first bundle that can be opened.\<close>

definition LoadSystemCACerts :: "'w flight_lib \<Rightarrow> string" where
  "LoadSystemCACerts F =
     (case List.find (\<lambda>p. fl_read_file F p \<noteq> None) ca_paths of
        None \<Rightarrow> []
      | Some p \<Rightarrow> (case fl_read_file F p of Some s \<Rightarrow> s | None \<Rightarrow> []))"

definition Disconnect :: "'w flight_lib \<Rightarrow> flight_connection \<Rightarrow> 'w \<Rightarrow> flight_connection \<times> 'w" where
  "Disconnect F c w =
     (let w1 = (case fc_client c of None \<Rightarrow> w | Some h \<Rightarrow> fl_close F h (fl_close_session F h (fc_options c) w));
          w2 = (case fc_cancel_client c of None \<Rightarrow> w1 | Some h \<Rightarrow> fl_close F h w1)
      in (c\<lparr>fc_client := None, fc_options := [], fc_cancel_client := None, fc_cancel_options := []\<rparr>, w2))"

definition SendCancelToServer :: "'w flight_lib \<Rightarrow> flight_connection \<Rightarrow> 'w \<Rightarrow> 'w" where
  "SendCancelToServer F c w =
     (case fc_cancel_client c of None \<Rightarrow> w | Some h \<Rightarrow> fl_cancel F h (fc_cancel_options c) w)"

definition root_certs :: "'w flight_lib \<Rightarrow> connection_config \<Rightarrow> string result" where
  "root_certs F config =
     (if cn_tls_roots config \<noteq> [] then ReadPEMFile F (cn_tls_roots config)
      else if cn_use_tls config \<and> \<not> cn_tls_skip_verify config
      then (let certs = LoadSystemCACerts F in
            if certs = []
            then fail IOError (''TLS enabled but no root certificates found. '' @ ''Use --tls-roots to provide a CA bundle.'')
            else ok certs)
      else ok [])"

definition client_options_of :: "'w flight_lib \<Rightarrow> connection_config \<Rightarrow> flight_options result" where
  "client_options_of F config =
     rbind (root_certs F config) (\<lambda>roots.
       if cn_mtls_cert config \<noteq> []
       then rbind (ReadPEMFile F (cn_mtls_cert config)) (\<lambda>chain.
              if cn_mtls_key config \<noteq> []
              then rbind (ReadPEMFile F (cn_mtls_key config)) (\<lambda>key.
                     ok \<lparr>fo_root_certs = roots, fo_disable_verification = cn_tls_skip_verify config,
                         fo_cert_chain = chain, fo_private_key = key\<rparr>)
              else fail Invalid ''mTLS private key must be provided with mTLS certificate'')
       else ok \<lparr>fo_root_certs = roots, fo_disable_verification = cn_tls_skip_verify config,
               fo_cert_chain = [], fo_private_key = []\<rparr>)"

definition server_addr :: "connection_config \<Rightarrow> string" where
  "server_addr config =
     (if cn_use_tls config then ''grpc+tls'' else ''grpc'') @ ''://'' @ cn_host config @ '':'' @ show_int (cn_port config)"

text \<open>The dash of the messages, in UTF-8.\<close>

definition em_dash :: string where
  "em_dash = [CHR 0xE2, CHR 0x80, CHR 0x94]"

definition friendly_error :: "'w flight_lib \<Rightarrow> connection_config \<Rightarrow> status \<Rightarrow> status" where
  "friendly_error F config s =
     (let msg = fl_status_text F s in
      if contains msg ''Could not finish writing'' \<or> contains msg ''failed to connect to all addresses''
         \<or> contains msg ''Connection refused'' \<or> contains msg ''Unavailable''
      then Status IOError (''Could not connect to '' @ server_addr config @ '' '' @ em_dash @ '' is the server running?'')
      else if contains msg ''DNS resolution failed''
      then Status IOError (''Could not resolve host '' @ [squote] @ cn_host config @ [squote])
      else if contains msg ''Invalid credentials'' \<or> contains msg ''Unauthenticated''
      then Status IOError (''Authentication failed for '' @ server_addr config @ '' '' @ em_dash
                           @ '' check username and password'')
      else s)"

text \<open>
  Where the browser login is: the answer to the discovery handshake names it, else it is the server's host and
  the configured port. An \<open>oauth_url\<close> that is no string is an exception.
\<close>

definition bearer_scheme_text :: string where
  "bearer_scheme_text = ''Bearer ''"

definition discovered_url :: "'w flight_lib \<Rightarrow> (string \<times> string) result \<Rightarrow> string + string" where
  "discovered_url F r =
     (case r of
        Inl e \<Rightarrow> Inr []
      | Inr (name, bearer_value) \<Rightarrow>
          if prefix bearer_scheme_text bearer_value \<and> length bearer_value > length bearer_scheme_text
          then (case nl_parse (fl_oauth F) (drop (length bearer_scheme_text) bearer_value) of
                  Inl e \<Rightarrow> Inr []
                | Inr j \<Rightarrow> (case member ''oauth_url'' j of
                             None \<Rightarrow> Inr [] | Some v \<Rightarrow> get_string (fl_oauth F) v))
          else Inr [])"

definition fallback_url :: "connection_config \<Rightarrow> string" where
  "fallback_url config =
     (if cn_use_tls config then ''https'' else ''http'') @ ''://'' @ cn_host config @ '':'' @ show_int (cn_oauth_port config)"

text \<open>The command \<open>OpenBrowser\<close> gives to the shell of a Linux system.\<close>

definition OpenBrowser :: "string \<Rightarrow> system_call" where
  "OpenBrowser url = Run (''xdg-open '' @ [dquote] @ url @ [dquote])"

definition browser_login :: "'w flight_lib \<Rightarrow> string \<Rightarrow> (string + string result) option" where
  "browser_login F base_url =
     (case fl_initiate F base_url of (body, r) \<Rightarrow>
        Authenticate (fl_oauth F) base_url body r (fl_clock F) (fl_replies F base_url))"

text \<open>
  The header the session is opened with, if any. A login that never ends is \<open>None\<close>, an exception \<open>Some (Inl e)\<close>.
\<close>

definition login_header ::
    "'w flight_lib \<Rightarrow> connection_config \<Rightarrow> nat \<Rightarrow> headers \<Rightarrow> 'w \<Rightarrow> (string + headers result) option \<times> 'w" where
  "login_header F config h options w =
     (if cn_external config
      then (case fl_basic_token F h options ''__discover__'' [] w of (d, w1) \<Rightarrow>
              case discovered_url F d of
                Inl e \<Rightarrow> (Some (Inl e), w1)
              | Inr url \<Rightarrow>
                  (case browser_login F (if url = [] then fallback_url config else url) of
                     None \<Rightarrow> (None, w1)
                   | Some (Inl e) \<Rightarrow> (Some (Inl e), w1)
                   | Some (Inr (Inl e)) \<Rightarrow> (Some (Inr (Inl (friendly_error F config e))), w1)
                   | Some (Inr (Inr id_token)) \<Rightarrow>
                       (case fl_basic_token F h options ''token'' id_token w1 of
                          (Inl e, w2) \<Rightarrow> (Some (Inr (Inl (friendly_error F config e))), w2)
                        | (Inr bearer, w2) \<Rightarrow> (Some (Inr (ok [bearer])), w2))))
      else if cn_username config \<noteq> []
      then (case fl_basic_token F h options (cn_username config) (cn_password config) w of
              (Inl e, w1) \<Rightarrow> (Some (Inr (Inl (friendly_error F config e))), w1)
            | (Inr bearer, w1) \<Rightarrow> (Some (Inr (ok [bearer])), w1))
      else (Some (Inr (ok [])), w))"

definition Connect ::
    "'w flight_lib \<Rightarrow> connection_config \<Rightarrow> flight_connection \<Rightarrow> 'w
     \<Rightarrow> (string + unit result) option \<times> flight_connection \<times> 'w" where
  "Connect F config c w =
     (case Disconnect F c w of (c0, w0) \<Rightarrow>
      case rbind (if cn_use_tls config then fl_ForGrpcTls F (cn_host config) (cn_port config)
                  else fl_ForGrpcTcp F (cn_host config) (cn_port config))
                 (\<lambda>location. rbind (client_options_of F config) (\<lambda>options. ok (location, options))) of
        Inl e \<Rightarrow> (Some (Inr (Inl e)), c0, w0)
      | Inr (location, options) \<Rightarrow>
          (case fl_connect F location options w0 of
             (Inl e, w1) \<Rightarrow> (Some (Inr (Inl e)), c0, w1)
           | (Inr h, w1) \<Rightarrow>
               (case login_header F config h (fc_options c0) w1 of
                  (None, w2) \<Rightarrow> (None, c0, w2)
                | (Some (Inl e), w2) \<Rightarrow> (Some (Inl e), c0, w2)
                | (Some (Inr (Inl e)), w2) \<Rightarrow> (Some (Inr (Inl e)), c0, w2)
                | (Some (Inr (Inr header)), w2) \<Rightarrow>
                    (let c1 = c0\<lparr>fc_client := Some h, fc_options := fc_options c0 @ header\<rparr> in
                     case fl_connect F location options w2 of
                       (Inl e, w3) \<Rightarrow> (Some (Inr (Inl e)), c1, w3)
                     | (Inr h', w3) \<Rightarrow>
                         (Some (Inr (ok ())),
                          c1\<lparr>fc_cancel_client := Some h', fc_cancel_options := fc_options c1\<rparr>, w3)))))"

section \<open>Queries\<close>

text \<open>The chunks of a stream, up to the limit: what has been read so far, or the error; and the flag.\<close>

fun read_chunks ::
    "int \<Rightarrow> flight_batch interruptible list \<Rightarrow> flight_batch list \<Rightarrow> int \<Rightarrow> bool
     \<Rightarrow> (flight_batch list \<times> int \<times> bool) result \<times> bool" where
  "read_chunks row_limit [] batches fetched cancel = (ok (batches, fetched, False), cancel)"
| "read_chunks row_limit ((chunk, pressed) # chunks) batches fetched cancel =
     (case chunk of
        Inl e \<Rightarrow> (Inl e, cancel \<or> pressed)
      | Inr batch \<Rightarrow>
          (let n = int (length (fb_rows batch)) in
           if row_limit > 0 \<and> fetched + n > row_limit
           then let needed = row_limit - fetched
                in (ok (batches @ [batch\<lparr>fb_rows := take (nat needed) (fb_rows batch)\<rparr>], fetched + needed, True),
                    cancel \<or> pressed)
           else if row_limit > 0 \<and> fetched + n \<ge> row_limit
           then (ok (batches @ [batch], fetched + n, True), cancel \<or> pressed)
           else read_chunks row_limit chunks (batches @ [batch]) (fetched + n) (cancel \<or> pressed)))"

text \<open>The endpoints in turn; the schema is that of the first.\<close>

fun read_endpoints ::
    "'w flight_lib \<Rightarrow> nat \<Rightarrow> headers \<Rightarrow> int \<Rightarrow> string list \<Rightarrow> flight_schema option \<Rightarrow> flight_batch list \<Rightarrow> int \<Rightarrow> bool \<Rightarrow> 'w
     \<Rightarrow> (flight_schema option \<times> flight_batch list \<times> bool) result \<times> bool \<times> 'w" where
  "read_endpoints F h options row_limit [] schema batches fetched cancel w = (ok (schema, batches, False), cancel, w)"
| "read_endpoints F h options row_limit (ticket # tickets) schema batches fetched cancel w =
     (case fl_get F h options ticket w of
        ((Inl e, pressed), w1) \<Rightarrow> (Inl e, cancel \<or> pressed, w1)
      | ((Inr stream, pressed), w1) \<Rightarrow>
          (case fs_schema stream of
             (Inl e, pressed') \<Rightarrow> (Inl e, cancel \<or> pressed \<or> pressed', w1)
           | (Inr stream_schema, pressed') \<Rightarrow>
               (let schema' = (case schema of None \<Rightarrow> Some stream_schema | Some s \<Rightarrow> Some s) in
                case read_chunks row_limit (fs_chunks stream) batches fetched (cancel \<or> pressed \<or> pressed') of
                  (Inl e, cancel') \<Rightarrow> (Inl e, cancel', w1)
                | (Inr (batches', fetched', hit_limit), cancel') \<Rightarrow>
                    if hit_limit then (ok (schema', batches', True), cancel', w1)
                    else read_endpoints F h options row_limit tickets schema' batches' fetched' cancel' w1)))"

definition IsCancelledStatus :: "'w flight_lib \<Rightarrow> status \<Rightarrow> bool" where
  "IsCancelledStatus F st \<longleftrightarrow> code st = status_code.Cancelled \<or> contains (fl_status_text F st) ''INTERRUPT''"

definition cancelled :: "'a result" where
  "cancelled = fail status_code.Cancelled ''Query cancelled''"

definition check_cancel ::
    "'w flight_lib \<Rightarrow> status \<Rightarrow> flight_connection \<Rightarrow> 'w \<Rightarrow> 'a result \<times> flight_connection \<times> 'w" where
  "check_cancel F st c w =
     (if fc_cancel_requested c \<or> IsCancelledStatus F st then (cancelled, c, SendCancelToServer F c w)
      else (Inl st, c, w))"

definition count_sql :: "string \<Rightarrow> string" where
  "count_sql sql = ''SELECT COUNT(*) FROM ('' @ sql @ '') AS __count__''"

text \<open>The count in a stream: that of the last batch whose first cell is a 64-bit number; an error ends the stream.\<close>

fun last_count :: "flight_batch interruptible list \<Rightarrow> int option \<Rightarrow> int option" where
  "last_count [] found = found"
| "last_count ((chunk, pressed) # chunks) found =
     (case chunk of
        Inl e \<Rightarrow> found
      | Inr batch \<Rightarrow>
          last_count chunks
            (case (fb_types batch, fb_rows batch) of
               (INT64 # ts, (VInt i # vs) # rows) \<Rightarrow> Some i
             | _ \<Rightarrow> found))"

fun find_count :: "'w flight_lib \<Rightarrow> nat \<Rightarrow> headers \<Rightarrow> string list \<Rightarrow> 'w \<Rightarrow> int option \<times> 'w" where
  "find_count F h options [] w = (None, w)"
| "find_count F h options (ticket # tickets) w =
     (case fl_get F h options ticket w of
        ((Inl e, pressed), w1) \<Rightarrow> (None, w1)
      | ((Inr stream, pressed), w1) \<Rightarrow>
          (case last_count (fs_chunks stream) None of
             Some n \<Rightarrow> (Some n, w1)
           | None \<Rightarrow> find_count F h options tickets w1))"

text \<open>The number of rows the query would have given without the limit; -1 when nobody can tell.\<close>

definition full_count :: "'w flight_lib \<Rightarrow> nat \<Rightarrow> headers \<Rightarrow> string \<Rightarrow> int \<Rightarrow> 'w \<Rightarrow> int \<times> 'w" where
  "full_count F h options sql server_total w =
     (if server_total \<ge> 0 then (server_total, w)
      else case fl_execute F h options (count_sql sql) w of
             ((Inl e, pressed), w1) \<Rightarrow> (-1, w1)
           | ((Inr info, pressed), w1) \<Rightarrow>
               (case find_count F h options (fi_tickets info) w1 of
                  (None, w2) \<Rightarrow> (-1, w2)
                | (Some n, w2) \<Rightarrow> (n, w2)))"

definition ExecuteQuery ::
    "'w flight_lib \<Rightarrow> string \<Rightarrow> int \<Rightarrow> flight_connection \<Rightarrow> 'w \<Rightarrow> (arrow_table \<times> int) result \<times> flight_connection \<times> 'w" where
  "ExecuteQuery F sql row_limit c w =
     (let h = the (fc_client c); options = fc_options c in
      case fl_execute F h options sql w of
        ((Inl e, pressed), w1) \<Rightarrow> check_cancel F e (c\<lparr>fc_cancel_requested := pressed\<rparr>) w1
      | ((Inr info, pressed), w1) \<Rightarrow>
          (case read_endpoints F h options row_limit (fi_tickets info) None [] 0 pressed w1 of
             (Inl e, cancel, w2) \<Rightarrow> check_cancel F e (c\<lparr>fc_cancel_requested := cancel\<rparr>) w2
           | (Inr (schema, batches, hit_limit), cancel, w2) \<Rightarrow>
               (let c2 = c\<lparr>fc_cancel_requested := cancel\<rparr> in
                case schema of
                  None \<Rightarrow> (fail Invalid ''No schema returned from query'', c2, w2)
                | Some sc \<Rightarrow>
                    (case fl_assemble F sc batches of
                       Inl e \<Rightarrow> (Inl e, c2, w2)
                     | Inr table \<Rightarrow>
                         (if hit_limit
                          then case full_count F h options sql (fi_total_records info) w2 of
                                 (n_total, w3) \<Rightarrow> (ok (table, n_total), c2, w3)
                          else (ok (table, int (at_rows table)), c2, w2))))))"

definition conn_ExecuteUpdate ::
    "'w flight_lib \<Rightarrow> string \<Rightarrow> flight_connection \<Rightarrow> 'w \<Rightarrow> int result \<times> flight_connection \<times> 'w" where
  "conn_ExecuteUpdate F sql c w =
     (case fl_update F (the (fc_client c)) (fc_options c) sql w of
        ((Inl e, pressed), w1) \<Rightarrow> check_cancel F e (c\<lparr>fc_cancel_requested := pressed\<rparr>) w1
      | ((Inr n, pressed), w1) \<Rightarrow> (ok n, c\<lparr>fc_cancel_requested := pressed\<rparr>, w1))"

section \<open>Metadata\<close>

text \<open>\<open>CollectResults\<close>: all the endpoints, without a limit; an error is returned as it is.\<close>

definition CollectResults ::
    "'w flight_lib \<Rightarrow> flight_info \<Rightarrow> flight_connection \<Rightarrow> 'w \<Rightarrow> arrow_table result \<times> 'w" where
  "CollectResults F info c w =
     (case read_endpoints F (the (fc_client c)) (fc_options c) 0 (fi_tickets info) None [] 0 False w of
        (Inl e, cancel, w1) \<Rightarrow> (Inl e, w1)
      | (Inr (None, batches, hit), cancel, w1) \<Rightarrow> (fail Invalid ''No schema returned from query'', w1)
      | (Inr (Some sc, batches, hit), cancel, w1) \<Rightarrow> (fl_assemble F sc batches, w1))"

definition ask :: "'w flight_lib \<Rightarrow> metadata_request \<Rightarrow> flight_connection \<Rightarrow> 'w \<Rightarrow> arrow_table result \<times> 'w" where
  "ask F request c w =
     (case fl_metadata F (the (fc_client c)) (fc_options c) request w of
        (Inl e, w1) \<Rightarrow> (Inl e, w1)
      | (Inr info, w1) \<Rightarrow> CollectResults F info c w1)"

definition unless_empty :: "string \<Rightarrow> string option" where
  "unless_empty s = (if s = [] then None else Some s)"

definition conn_GetTables ::
    "'w flight_lib \<Rightarrow> string \<Rightarrow> string \<Rightarrow> string \<Rightarrow> flight_connection \<Rightarrow> 'w \<Rightarrow> arrow_table result \<times> 'w" where
  "conn_GetTables F cat sch tab c w = ask F (AskTables (unless_empty cat) (unless_empty sch) (unless_empty tab)) c w"

definition conn_GetDbSchemas ::
    "'w flight_lib \<Rightarrow> string \<Rightarrow> string \<Rightarrow> flight_connection \<Rightarrow> 'w \<Rightarrow> arrow_table result \<times> 'w" where
  "conn_GetDbSchemas F cat sch c w = ask F (AskDbSchemas (unless_empty cat) (unless_empty sch)) c w"

definition conn_GetCatalogs :: "'w flight_lib \<Rightarrow> flight_connection \<Rightarrow> 'w \<Rightarrow> arrow_table result \<times> 'w" where
  "conn_GetCatalogs F c w = ask F AskCatalogs c w"

definition conn_GetSqlInfo :: "'w flight_lib \<Rightarrow> int list \<Rightarrow> flight_connection \<Rightarrow> 'w \<Rightarrow> arrow_table result \<times> 'w" where
  "conn_GetSqlInfo F infos c w = ask F (AskSqlInfo infos) c w"

section \<open>What a query returns\<close>

text \<open>The rows a server offers for a query: those of every stream, in the order of the endpoints.\<close>

fun offered_chunks :: "flight_batch interruptible list \<Rightarrow> arrow_value list list" where
  "offered_chunks [] = []"
| "offered_chunks ((chunk, pressed) # chunks) =
     (case chunk of Inl e \<Rightarrow> [] | Inr batch \<Rightarrow> fb_rows batch) @ offered_chunks chunks"

fun offered :: "'w flight_lib \<Rightarrow> nat \<Rightarrow> headers \<Rightarrow> string list \<Rightarrow> 'w \<Rightarrow> arrow_value list list" where
  "offered F h options [] w = []"
| "offered F h options (ticket # tickets) w =
     (case fl_get F h options ticket w of
        ((Inl e, pressed), w1) \<Rightarrow> []
      | ((Inr stream, pressed), w1) \<Rightarrow> offered_chunks (fs_chunks stream) @ offered F h options tickets w1)"

definition rows_of :: "flight_batch list \<Rightarrow> arrow_value list list" where
  "rows_of bs = concat (map fb_rows bs)"

definition limited :: "int \<Rightarrow> 'a list \<Rightarrow> 'a list" where
  "limited row_limit xs = (if row_limit > 0 then take (nat row_limit) xs else xs)"

lemma rows_of_append [simp]: "rows_of (bs @ [b]) = rows_of bs @ fb_rows b"
  by (simp add: rows_of_def)

lemma limited_length: "length (limited row_limit xs) \<le> length xs"
  by (simp add: limited_def)

lemma limited_done: "row_limit > 0 \<Longrightarrow> int (length xs) = row_limit \<Longrightarrow> limited row_limit (xs @ ys) = xs"
  by (auto simp: limited_def)

lemma limited_below: "row_limit > 0 \<Longrightarrow> int (length xs) < row_limit \<Longrightarrow> limited row_limit xs = xs"
  by (simp add: limited_def)

text \<open>
  Reading stops exactly at the limit: what is kept are the first rows, and the flag says whether the limit was
  reached.
\<close>

definition below :: "int \<Rightarrow> flight_batch list \<Rightarrow> int \<Rightarrow> bool" where
  "below row_limit bs fetched \<longleftrightarrow> fetched = int (length (rows_of bs)) \<and> (row_limit > 0 \<longrightarrow> fetched < row_limit)"

lemma read_chunks_rows:
  assumes "read_chunks row_limit chunks bs fetched cancel = (ok (bs', fetched', hit), cancel')" and "below row_limit bs fetched"
  shows "if hit
    then row_limit > 0 \<and> int (length (rows_of bs')) = row_limit
      \<and> (\<forall>ys. rows_of bs' = limited row_limit (rows_of bs @ offered_chunks chunks @ ys))
    else below row_limit bs' fetched' \<and> rows_of bs' = rows_of bs @ offered_chunks chunks"
  using assms
proof (induction chunks arbitrary: bs fetched cancel)
  case (Cons head chunks)
  obtain chunk pressed where head: "head = (chunk, pressed)" by fastforce
  note prems = Cons.prems [unfolded head]
  obtain batch where batch: "chunk = Inr batch" using prems(1) by (cases chunk) auto
  define n where "n = int (length (fb_rows batch))"
  have fetched: "fetched = int (length (rows_of bs))" "row_limit > 0 \<longrightarrow> fetched < row_limit"
    using prems(2) by (auto simp: below_def)
  consider (cut) "row_limit > 0" "fetched + n > row_limit" | (exact) "row_limit > 0" "fetched + n = row_limit"
    | (more) "row_limit > 0 \<longrightarrow> fetched + n < row_limit" by linarith
  then show ?case
  proof cases
    case cut
    then have "hit" "rows_of bs' = rows_of bs @ take (nat (row_limit - fetched)) (fb_rows batch)"
      using prems(1) batch by (auto simp: n_def Let_def)
    moreover have "limited row_limit (rows_of bs @ fb_rows batch @ offered_chunks chunks @ ys)
        = rows_of bs @ take (nat (row_limit - fetched)) (fb_rows batch)" for ys
      using cut fetched by (simp add: limited_def n_def nat_diff_distrib)
    moreover have "length (rows_of bs @ take (nat (row_limit - fetched)) (fb_rows batch)) = nat row_limit"
      using cut fetched by (simp add: n_def nat_diff_distrib)
    ultimately show ?thesis using cut batch head by simp
  next
    case exact
    then have "hit" "rows_of bs' = rows_of bs @ fb_rows batch"
      using prems(1) batch by (auto simp: n_def Let_def)
    moreover have "int (length (rows_of bs @ fb_rows batch)) = row_limit" using exact fetched by (simp add: n_def)
    ultimately show ?thesis
      using exact batch head limited_done [of row_limit "rows_of bs @ fb_rows batch"] by simp
  next
    case more
    have step: "read_chunks row_limit chunks (bs @ [batch]) (fetched + n) (cancel \<or> pressed) = (ok (bs', fetched', hit), cancel')"
      using prems(1) more batch by (auto simp: n_def Let_def split: if_splits)
    have "below row_limit (bs @ [batch]) (fetched + n)" using more fetched by (simp add: below_def n_def)
    then show ?thesis
      using Cons.IH [OF step] batch head by (cases hit) simp_all
  qed
qed (auto simp: below_def)

lemma read_endpoints_rows:
  assumes "read_endpoints F h options row_limit tickets schema bs fetched cancel w = (ok (sc, bs', hit), cancel', w')"
    and "below row_limit bs fetched"
  shows "rows_of bs' = limited row_limit (rows_of bs @ offered F h options tickets w)
    \<and> (hit \<longleftrightarrow> row_limit > 0 \<and> row_limit \<le> int (length (rows_of bs @ offered F h options tickets w)))"
  using assms
proof (induction tickets arbitrary: schema bs fetched cancel w)
  case Nil
  then show ?case by (auto simp: below_def limited_def)
next
  case (Cons ticket tickets)
  obtain stream pressed w1 where get: "fl_get F h options ticket w = ((Inr stream, pressed), w1)"
    using Cons.prems(1) by (auto split: prod.splits sum.splits)
  obtain sc1 pressed' where sch: "fs_schema stream = (Inr sc1, pressed')"
    using Cons.prems(1) get by (auto split: prod.splits sum.splits)
  obtain bs1 f1 hit1 c1 where chunks: "read_chunks row_limit (fs_chunks stream) bs fetched (cancel \<or> pressed \<or> pressed')
      = (Inr (bs1, f1, hit1), c1)"
    using Cons.prems(1) get sch by (auto simp: Let_def split: prod.splits sum.splits)
  note rows = read_chunks_rows [OF chunks Cons.prems(2)]
  show ?case
  proof (cases hit1)
    case True
    then have "bs' = bs1" "hit" using Cons.prems(1) get sch chunks by (auto simp: Let_def)
    moreover have "row_limit \<le> int (length (rows_of bs @ offered_chunks (fs_chunks stream)))"
    proof -
      have "length (limited row_limit (rows_of bs @ offered_chunks (fs_chunks stream) @ []))
          \<le> length (rows_of bs @ offered_chunks (fs_chunks stream))"
        using limited_length [of row_limit "rows_of bs @ offered_chunks (fs_chunks stream)"] by simp
      moreover have all: "\<forall>ys. rows_of bs1 = limited row_limit (rows_of bs @ offered_chunks (fs_chunks stream) @ ys)"
        and len: "int (length (rows_of bs1)) = row_limit" using rows True by simp_all
      ultimately show ?thesis using len all [rule_format, of "[]"] by simp
    qed
    ultimately show ?thesis using rows True get by auto
  next
    case False
    then have "read_endpoints F h options row_limit tickets (Some (case schema of None \<Rightarrow> sc1 | Some s \<Rightarrow> s)) bs1 f1 c1 w1
        = (ok (sc, bs', hit), cancel', w')"
      using Cons.prems(1) get sch chunks by (auto simp: Let_def split: option.splits)
    from Cons.IH [OF this] show ?thesis using rows False get by simp
  qed
qed

text \<open>
  A successful query returns a table assembled of the first rows the server offers, exactly as many as the limit
  allows, over all batches and endpoints; without a limit all of them. When the limit was not reached the reported
  total is the size of the table, otherwise what the server counts, or -1.
\<close>

lemma ExecuteQuery_rows:
  assumes "ExecuteQuery F sql row_limit c w = (ok (t, n), c', w')"
  shows "\<exists>info pressed w1 sc bs.
    fl_execute F (the (fc_client c)) (fc_options c) sql w = ((ok info, pressed), w1) \<and> fl_assemble F sc bs = ok t
    \<and> (let rows = offered F (the (fc_client c)) (fc_options c) (fi_tickets info) w1
       in rows_of bs = limited row_limit rows
          \<and> (if row_limit > 0 \<and> row_limit \<le> int (length rows)
             then \<exists>w2. (n, w') = full_count F (the (fc_client c)) (fc_options c) sql (fi_total_records info) w2
             else n = int (at_rows t)))"
proof -
  let ?h = "the (fc_client c)" and ?o = "fc_options c"
  obtain info pressed w1 where ex: "fl_execute F ?h ?o sql w = ((Inr info, pressed), w1)"
    using assms by (auto simp: ExecuteQuery_def check_cancel_def cancelled_def Let_def split: prod.splits sum.splits if_splits)
  obtain schema bs hit cancel w2 where rd:
      "read_endpoints F ?h ?o row_limit (fi_tickets info) None [] 0 pressed w1 = (Inr (schema, bs, hit), cancel, w2)"
    using assms ex
    by (auto simp: ExecuteQuery_def check_cancel_def cancelled_def Let_def split: prod.splits sum.splits if_splits)
  obtain sc where sc: "schema = Some sc"
    using assms ex rd by (cases schema) (auto simp: ExecuteQuery_def Let_def)
  have t: "fl_assemble F sc bs = Inr t"
    using assms ex rd sc by (auto simp: ExecuteQuery_def Let_def split: sum.splits prod.splits if_splits)
  have "below row_limit [] 0" by (simp add: below_def rows_of_def)
  note rows = read_endpoints_rows [OF rd this]
  have "if hit then (n, w') = full_count F ?h ?o sql (fi_total_records info) w2 else n = int (at_rows t)"
    using assms ex rd sc t by (auto simp: ExecuteQuery_def Let_def split: prod.splits)
  then show ?thesis
    using ex t rows by (intro exI [of _ info] exI [of _ pressed] exI [of _ w1] exI [of _ sc] exI [of _ bs])
      (auto simp: rows_of_def Let_def split: if_splits)
qed

section \<open>What a connection is\<close>

text \<open>A connection that is not open holds no header and no second client.\<close>

definition closed_clean :: "flight_connection \<Rightarrow> bool" where
  "closed_clean c \<longleftrightarrow>
     (\<not> IsConnected c \<longrightarrow> fc_options c = [] \<and> fc_cancel_client c = None \<and> fc_cancel_options c = [])"

lemma Disconnect_clean:
  "\<not> IsConnected (fst (Disconnect F c w)) \<and> fc_options (fst (Disconnect F c w)) = []
   \<and> fc_cancel_client (fst (Disconnect F c w)) = None \<and> fc_cancel_options (fst (Disconnect F c w)) = []"
  by (simp add: Disconnect_def IsConnected_def Let_def)

lemma Connect_clean: "Connect F config c w = (r, c', w') \<Longrightarrow> closed_clean c'"
  using Disconnect_clean [of F c w]
  by (auto simp: Connect_def closed_clean_def IsConnected_def Let_def split: prod.splits sum.splits option.splits)

lemma query_keeps_options:
  "ExecuteQuery F sql n c w = (r, c', w') \<Longrightarrow>
     fc_client c' = fc_client c \<and> fc_options c' = fc_options c \<and> fc_cancel_client c' = fc_cancel_client c
     \<and> fc_cancel_options c' = fc_cancel_options c"
  by (auto simp: ExecuteQuery_def check_cancel_def Let_def split: prod.splits sum.splits option.splits if_splits)

lemma client_options_checked:
  assumes "client_options_of F config = ok options"
  shows "fo_disable_verification options = cn_tls_skip_verify config
    \<and> (cn_use_tls config \<and> \<not> cn_tls_skip_verify config \<and> cn_tls_roots config = [] \<longrightarrow>
         fo_root_certs options \<noteq> [] \<and> fo_root_certs options = LoadSystemCACerts F)
    \<and> (cn_tls_roots config \<noteq> [] \<longrightarrow> fl_read_file F (cn_tls_roots config) = Some (fo_root_certs options))
    \<and> (cn_mtls_cert config \<noteq> [] \<longrightarrow>
         fl_read_file F (cn_mtls_cert config) = Some (fo_cert_chain options)
         \<and> fl_read_file F (cn_mtls_key config) = Some (fo_private_key options))
    \<and> (cn_mtls_cert config = [] \<longrightarrow> fo_cert_chain options = [] \<and> fo_private_key options = [])"
  using assms
  by (auto simp: client_options_of_def root_certs_def ReadPEMFile_def rbind_def Let_def split: sum.splits option.splits if_splits)

lemma login_header_given:
  "login_header F config h options w = (Some (Inr (ok header)), w') \<Longrightarrow>
     (header = [] \<and> \<not> cn_external config \<and> cn_username config = []) \<or> (\<exists>bearer. header = [bearer])"
  by (auto simp: login_header_def split: if_splits prod.splits sum.splits option.splits)

lemma login_header_of_user:
  assumes "login_header F config h options w = (Some (Inr (ok header)), w')"
  shows "\<not> cn_external config \<and> cn_username config \<noteq> [] \<longrightarrow>
    (\<exists>bearer. fl_basic_token F h options (cn_username config) (cn_password config) w = (ok bearer, w')
       \<and> header = [bearer])"
proof (rule impI)
  assume user: "\<not> cn_external config \<and> cn_username config \<noteq> []"
  show "\<exists>bearer. fl_basic_token F h options (cn_username config) (cn_password config) w = (ok bearer, w')
      \<and> header = [bearer]"
    using assms user
    by (cases "fl_basic_token F h options (cn_username config) (cn_password config) w"; cases "fst (fl_basic_token F h options (cn_username config) (cn_password config) w)")
      (auto simp: login_header_def)
qed

text \<open>
  C24: An opened connection is a new one, to the server the user named: over TLS exactly when TLS is asked for, at
  the given host and port. Whatever the connection was before, its only header is the one this login gave, for the
  given user and password when they are the way to log in; the client and the client for cancellation share it and
  were made for the same location with the same options. The server's certificate is checked unless the user said
  otherwise, against the given roots or, when there are none, the system's bundle, which is not empty; a
  certificate of the client is sent only when one is given, with its key. Without a header no user was named.
\<close>

theorem connection_is_fresh_and_checked:
  assumes "Connect F config c w = (Some (Inr (ok ())), c', w')"
  shows "\<exists>location options h h' header w1 w2.
    (if cn_use_tls config then fl_ForGrpcTls F else fl_ForGrpcTcp F) (cn_host config) (cn_port config) = ok location
    \<and> fl_connect F location options (snd (Disconnect F c w)) = (ok h, w1)
    \<and> login_header F config h [] w1 = (Some (Inr (ok header)), w2)
    \<and> fl_connect F location options w2 = (ok h', w')
    \<and> fc_client c' = Some h \<and> fc_cancel_client c' = Some h' \<and> fc_options c' = header \<and> fc_cancel_options c' = header
    \<and> (header = [] \<and> \<not> cn_external config \<and> cn_username config = [] \<or> (\<exists>bearer. header = [bearer]))
    \<and> (\<not> cn_external config \<and> cn_username config \<noteq> [] \<longrightarrow>
         (\<exists>bearer. fl_basic_token F h [] (cn_username config) (cn_password config) w1 = (ok bearer, w2)
            \<and> header = [bearer]))
    \<and> fo_disable_verification options = cn_tls_skip_verify config
    \<and> (cn_use_tls config \<and> \<not> cn_tls_skip_verify config \<and> cn_tls_roots config = [] \<longrightarrow>
         fo_root_certs options \<noteq> [] \<and> fo_root_certs options = LoadSystemCACerts F)
    \<and> (cn_tls_roots config \<noteq> [] \<longrightarrow> fl_read_file F (cn_tls_roots config) = Some (fo_root_certs options))
    \<and> (cn_mtls_cert config \<noteq> [] \<longrightarrow>
         fl_read_file F (cn_mtls_cert config) = Some (fo_cert_chain options)
         \<and> fl_read_file F (cn_mtls_key config) = Some (fo_private_key options))
    \<and> (cn_mtls_cert config = [] \<longrightarrow> fo_cert_chain options = [] \<and> fo_private_key options = [])"
proof -
  obtain c0 w0 where disc: "Disconnect F c w = (c0, w0)" by fastforce
  then have c0: "fc_options c0 = []" using Disconnect_clean [of F c w] by simp
  obtain location options where opts: "rbind (if cn_use_tls config then fl_ForGrpcTls F (cn_host config) (cn_port config)
                  else fl_ForGrpcTcp F (cn_host config) (cn_port config))
      (\<lambda>location. rbind (client_options_of F config) (\<lambda>options. ok (location, options))) = Inr (location, options)"
    using assms disc by (auto simp: Connect_def split: sum.splits)
  then have checked: "client_options_of F config = ok options"
    and place: "(if cn_use_tls config then fl_ForGrpcTls F else fl_ForGrpcTcp F) (cn_host config) (cn_port config) = ok location"
    by (auto simp: rbind_def split: sum.splits if_splits)
  obtain h w1 where open1: "fl_connect F location options w0 = (Inr h, w1)"
    using assms disc opts by (auto simp: Connect_def split: sum.splits prod.splits)
  obtain header w2 where login: "login_header F config h [] w1 = (Some (Inr (Inr header)), w2)"
    using assms disc opts open1 c0 by (auto simp: Connect_def split: sum.splits prod.splits option.splits)
  obtain h' where open2: "fl_connect F location options w2 = (Inr h', w')"
    using assms disc opts open1 login c0 by (auto simp: Connect_def Let_def split: sum.splits prod.splits)
  have c': "c' = c0\<lparr>fc_client := Some h, fc_options := header, fc_cancel_client := Some h', fc_cancel_options := header\<rparr>"
    using assms disc opts open1 login open2 c0 by (auto simp: Connect_def Let_def)
  have parts: "fc_client c' = Some h \<and> fc_cancel_client c' = Some h' \<and> fc_options c' = header \<and> fc_cancel_options c' = header"
    unfolding c' by simp
  show ?thesis
    using disc place open1 login open2 parts client_options_checked [OF checked] login_header_given [OF login]
      login_header_of_user [OF login]
    by (intro exI [of _ location] exI [of _ options] exI [of _ h] exI [of _ h'] exI [of _ header] exI [of _ w1] exI [of _ w2])
      (simp only: snd_conv, blast)
qed

section \<open>The shell on a connection\<close>

text \<open>
  The calls the shell makes are those of its \<open>FlightConnection\<close>; connecting, the server's \<open>GetSqlInfo\<close> rows and
  the time a statement takes (\<open>ms\<close>) stay with the parameter.
\<close>

definition shell_on ::
    "'w flight_lib \<Rightarrow> (string \<Rightarrow> int) \<Rightarrow> (flight_connection \<times> 'w) shell_lib \<Rightarrow> (flight_connection \<times> 'w) shell_lib" where
  "shell_on F ms L =
     L\<lparr>li_connected := (\<lambda>(c, w). IsConnected c),
       li_query := (\<lambda>sql n (c, w). case ExecuteQuery F sql n c w of (r, c', w') \<Rightarrow> (r, ms sql, (c', w'))),
       li_update := (\<lambda>sql (c, w). case conn_ExecuteUpdate F sql c w of (r, c', w') \<Rightarrow> (r, ms sql, (c', w'))),
       li_tables := (\<lambda>p (c, w). case conn_GetTables F [] [] p c w of (r, w') \<Rightarrow> (r, (c, w'))),
       li_schemas := (\<lambda>p (c, w). case conn_GetDbSchemas F [] p c w of (r, w') \<Rightarrow> (r, (c, w'))),
       li_catalogs := (\<lambda>(c, w). case conn_GetCatalogs F c w of (r, w') \<Rightarrow> (r, (c, w')))\<rparr>"

lemma put_timer_appends: "\<exists>more. cl_written (put_timer L n w) = cl_written w @ more"
  by (simp add: put_timer_def put_err_def)

text \<open>
  C23: With a row limit the shell renders, whatever the mode and whatever the server sends, a table assembled of at
  most that many rows, the first ones the server offers for the statement, and writes it to the current output
  before anything else.
\<close>

theorem shell_shows_the_first_rows:
  assumes "cl_conn w = (c, fw)" and "dc_max_rows (cc_display (cl_config w)) = m" and "0 < m"
    and "run_query (shell_on F ms L) sql w = (True, w')"
  shows "\<exists>d t n sc bs info pressed w1 rest.
    cl_written w' = cl_written w @ (Some (cc_output (cl_config w)), fst (render_table (li_text L) d t n)) # rest
    \<and> dc_mode d = dc_mode (cc_display (cl_config w))
    \<and> fl_execute F (the (fc_client c)) (fc_options c) sql fw = ((ok info, pressed), w1)
    \<and> fl_assemble F sc bs = ok t
    \<and> rows_of bs = take (nat m) (offered F (the (fc_client c)) (fc_options c) (fi_tickets info) w1)"
proof -
  obtain r c' fw' where q: "ExecuteQuery F sql m c fw = (r, c', fw')" by (cases "ExecuteQuery F sql m c fw")
  have shell: "li_query (shell_on F ms L) sql m (cl_conn w) = (r, ms sql, (c', fw'))" "li_text (shell_on F ms L) = li_text L"
    using assms(1) q by (simp_all add: shell_on_def)
  obtain t n where r: "r = Inr (t, n)"
    using assms(2-4) shell by (cases r) (auto simp: run_query_def Let_def)
  obtain info pressed w1 sc bs where res: "fl_execute F (the (fc_client c)) (fc_options c) sql fw = ((ok info, pressed), w1)"
      "fl_assemble F sc bs = ok t"
      "rows_of bs = limited m (offered F (the (fc_client c)) (fc_options c) (fi_tickets info) w1)"
    using ExecuteQuery_rows [OF q [unfolded r]] by (auto simp: Let_def)
  define w2 where "w2 = (if dc_auto_width (cc_display (cl_config w))
    then set_display (\<lambda>d. d\<lparr>dc_max_width := tm_width (li_terminal (shell_on F ms L))\<rparr>) (w\<lparr>cl_conn := (c', fw')\<rparr>)
    else w\<lparr>cl_conn := (c', fw')\<rparr>)"
  define d where "d = cc_display (cl_config w2)"
  obtain s rr where rt: "render_table (li_text L) d t n = (s, rr)" by fastforce
  define w4 where "w4 = (if rr_footer rr then put s w2 else put (footer m (int (at_rows t)) (int (length (at_columns t))) n rr) (put s w2))"
  have w': "w' = put_timer (shell_on F ms L) (ms sql) w4"
    using assms(2-4) shell r rt by (auto simp: run_query_def Let_def w4_def w2_def d_def split: if_splits)
  obtain more_written where "cl_written w' = cl_written w4 @ more_written" using put_timer_appends w' by blast
  moreover have "\<exists>more. cl_written w4 = cl_written w @ (Some (cc_output (cl_config w)), s) # more"
    by (simp add: w4_def w2_def put_def set_display_def)
  ultimately obtain rest where "cl_written w' = cl_written w @ (Some (cc_output (cl_config w)), s) # rest" by auto
  moreover have "dc_mode d = dc_mode (cc_display (cl_config w))" by (simp add: d_def w2_def set_display_def)
  ultimately show ?thesis
    using res rt assms(3)
    by (intro exI [of _ d] exI [of _ t] exI [of _ n] exI [of _ sc] exI [of _ bs] exI [of _ info] exI [of _ pressed]
        exI [of _ w1] exI [of _ rest]) (simp add: limited_def)
qed

section \<open>Samples\<close>

definition sample_batch :: "int list \<Rightarrow> flight_batch" where
  "sample_batch is = \<lparr>fb_types = [INT64], fb_rows = map (\<lambda>i. [VInt i]) is\<rparr>"

text \<open>A server that answers every query with five numbers in two batches and counts nothing; ticket names are ignored.\<close>

definition sample_assemble :: "flight_schema \<Rightarrow> flight_batch list \<Rightarrow> arrow_table" where
  "sample_assemble sc bs =
     \<lparr>at_columns = map (\<lambda>(f, i). \<lparr>col_name = fst f, col_type = snd f, col_chunks = map (\<lambda>b. map (\<lambda>r. r ! i) (fb_rows b)) bs\<rparr>)
                      (zip sc [0..<length sc]),
      at_rows = length (concat (map fb_rows bs))\<rparr>"

definition sample_flight :: "unit flight_lib" where
  "sample_flight =
     \<lparr>fl_ForGrpcTls = (\<lambda>host port. ok (''grpc+tls://'' @ host)), fl_ForGrpcTcp = (\<lambda>host port. ok (''grpc://'' @ host)),
      fl_connect = (\<lambda>loc opts w. (ok 1, w)),
      fl_basic_token = (\<lambda>h hs u p w. (ok (''authorization'', ''Bearer x''), w)),
      fl_execute = (\<lambda>h hs sql w. ((ok \<lparr>fi_total_records = -1, fi_tickets = [''t'']\<rparr>, False), w)),
      fl_update = (\<lambda>h hs sql w. ((ok 0, False), w)),
      fl_metadata = (\<lambda>h hs r w. (ok \<lparr>fi_total_records = -1, fi_tickets = []\<rparr>, w)),
      fl_get = (\<lambda>h hs t w. ((ok \<lparr>fs_schema = (ok [(''n'', INT64)], False),
                                fs_chunks = [(ok (sample_batch [1, 2]), False), (ok (sample_batch [3, 4, 5]), False)]\<rparr>, False), w)),
      fl_cancel = (\<lambda>h hs w. w), fl_close_session = (\<lambda>h hs w. w), fl_close = (\<lambda>h w. w),
      fl_assemble = (\<lambda>sc bs. ok (sample_assemble sc bs)), fl_read_file = (\<lambda>f. None), fl_status_text = message,
      fl_oauth = sample_oauth, fl_initiate = (\<lambda>u. ([], NoReply [])), fl_clock = (\<lambda>k. 0), fl_replies = (\<lambda>u s k. NoReply [])\<rparr>"

definition open_connection :: flight_connection where
  "open_connection = new_connection\<lparr>fc_client := Some 1, fc_options := [(''authorization'', ''Bearer x'')]\<rparr>"

lemma sample_query:
  "ExecuteQuery sample_flight ''q'' 3 open_connection ()
     = (ok (sample_assemble [(''n'', INT64)] [sample_batch [1, 2], sample_batch [3]], 3), open_connection, ())"
  by (simp add: ExecuteQuery_def sample_flight_def open_connection_def new_connection_def full_count_def sample_batch_def Let_def)

definition sample_config :: connection_config where
  "sample_config = default_connection\<lparr>cn_username := ''ada'', cn_use_tls := True, cn_tls_skip_verify := True\<rparr>"

lemma sample_connect:
  "Connect sample_flight sample_config open_connection ()
     = (Some (Inr (ok ())), open_connection\<lparr>fc_cancel_client := Some 1, fc_cancel_options := [(''authorization'', ''Bearer x'')]\<rparr>, ())"
  by (simp add: Connect_def Disconnect_def sample_flight_def sample_config_def default_connection_def open_connection_def
      new_connection_def client_options_of_def root_certs_def login_header_def)

theorem connection_is_fresh_and_checked_witness:
  "\<exists>location options h w1. fl_connect sample_flight location options (snd (Disconnect sample_flight open_connection ())) = (ok h, w1)
     \<and> fo_disable_verification options \<and> location = ''grpc+tls://localhost''"
  using connection_is_fresh_and_checked [OF sample_connect]
  by (auto simp: sample_config_def default_connection_def sample_flight_def)

definition sample_client :: "(flight_connection \<times> unit) client" where
  "sample_client = new_client (default_config\<lparr>cc_display := (cc_display default_config)\<lparr>dc_max_rows := 3, dc_mode := CSV\<rparr>\<rparr>) (open_connection, ())"

definition no_shell :: "(flight_connection \<times> unit) shell_lib" where
  "no_shell =
     \<lparr>li_connected = (\<lambda>c. True), li_connect = (\<lambda>n c. (ok (), c)), li_query = (\<lambda>s n c. (ok (sample_table, 1), 3, c)),
      li_update = (\<lambda>s c. (ok 1, 2, c)), li_tables = (\<lambda>p c. (ok sample_table, c)), li_schemas = (\<lambda>p c. (ok sample_table, c)),
      li_catalogs = (\<lambda>c. (ok sample_table, c)), li_sql_info = (\<lambda>c. (ok [], c)), li_text = sample_text,
      li_status = message, li_seconds = show_int, li_terminal = sample_terminal, li_home = None, li_open = (\<lambda>f. True),
      li_read = (\<lambda>f. None), li_chdir = (\<lambda>d. True)\<rparr>"

lemma sample_run: "fst (run_query (shell_on sample_flight (\<lambda>s. 3) no_shell) ''q'' sample_client)"
  by (simp add: run_query_def shell_on_def sample_client_def new_client_def sample_query Let_def split: prod.split)

theorem shell_shows_the_first_rows_witness:
  "\<exists>w' d t n rest. run_query (shell_on sample_flight (\<lambda>s. 3) no_shell) ''q'' sample_client = (True, w')
     \<and> cl_written w' = cl_written sample_client @ (Some Stdout, fst (render_table sample_text d t n)) # rest"
proof -
  obtain w' where w': "run_query (shell_on sample_flight (\<lambda>s. 3) no_shell) ''q'' sample_client = (True, w')"
    using sample_run by (cases "run_query (shell_on sample_flight (\<lambda>s. 3) no_shell) ''q'' sample_client") auto
  have "cl_conn sample_client = (open_connection, ())" "dc_max_rows (cc_display (cl_config sample_client)) = 3"
    "cc_output (cl_config sample_client) = Stdout" "li_text no_shell = sample_text"
    by (simp_all add: sample_client_def new_client_def default_config_def no_shell_def)
  with shell_shows_the_first_rows [OF this(1,2) _ w'] w' show ?thesis by auto
qed

end
