(* ===== verification/SqliteService.thy ===== *)
theory SqliteService
  imports SqliteServer TypeInfo
begin

text \<open>
  The SQLite server as Flight sees it: the methods of \<open>SQLiteFlightSqlServer\<close>
  (\<open>src/src/sqlite/sqlite_server.cc\<close>) over the handlers of \<open>SqliteServer\<close>, as one step over the calls a client can
  make, with the readers it hands out. Calls the class does not override (bulk ingestion, cancellation, session
  options) are answered by Flight and not part of it.
\<close>

section \<open>Flight information\<close>

text \<open>\<open>FlightInfo::Make\<close> with the command as the only ticket; the numbers of rows and bytes are not known.\<close>

record sqlite_flight_info =
  si_schema :: "sq_field list"
  si_command :: string
  si_tickets :: "string list"
  si_records :: int
  si_bytes :: int
  si_ordered :: bool

definition GetFlightInfoForCommand_sqlite :: "string \<Rightarrow> sq_field list \<Rightarrow> sqlite_flight_info result" where
  "GetFlightInfoForCommand_sqlite cmd schema =
     ok \<lparr>si_schema = schema, si_command = cmd, si_tickets = [cmd], si_records = -1, si_bytes = -1, si_ordered = False\<rparr>"

text \<open>The schema announced for a metadata command, by the name the library of schemas has for it.\<close>

fun sqlite_announced :: "metadata_command \<Rightarrow> string" where
  "sqlite_announced GetCatalogs = ''catalogs''"
| "sqlite_announced (GetDbSchemas c) = ''db_schemas''"
| "sqlite_announced GetTableTypes = ''table_types''"
| "sqlite_announced (GetTables c) = (if gt_include_schema c then ''tables_with_schema'' else ''tables'')"
| "sqlite_announced (GetPrimaryKeys r) = ''primary_keys''"
| "sqlite_announced (GetImportedKeys r) = ''imported_keys''"
| "sqlite_announced (GetExportedKeys r) = ''exported_keys''"
| "sqlite_announced (GetCrossReference pk fk) = ''cross_reference''"

section \<open>Readers\<close>

text \<open>
  A reader of a statement of its own, one of a statement a handle shares, one that adds the schemas of tables, rows
  that are there already, and the rows of types. The schema is the one the reader was made with.
\<close>

datatype 'st sqlite_reader =
    OwnReader statement_reader 'st
  | SharedReader statement_reader nat
  | SchemasReader statement_reader 'st string
  | RowsReader string "arrow_value list list"
  | TypesReader "type_info list"

record ('p, 'c) sqlite_service =
  ss_impl :: "('p, 'c) sqlite_impl"
  ss_readers :: "('p, 'c) sqlite_statement sqlite_reader list"

fun reader_of_metadata ::
    "('p, 'c, 'w) sqlite_server_lib \<Rightarrow> ('p, 'c) sqlite_impl \<Rightarrow> metadata_command \<Rightarrow> 'w
     \<Rightarrow> ('p, 'c) sqlite_statement sqlite_reader result" where
  "reader_of_metadata S im GetCatalogs w = ok (RowsReader ''catalogs'' DoGetCatalogs_sqlite)"
| "reader_of_metadata S im (GetDbSchemas c) w =
     ok (RowsReader ''db_schemas'' (DoGetDbSchemas_sqlite (gs_catalog c) (gs_schema_pattern c)))"
| "reader_of_metadata S im GetTableTypes w = map_sum id (\<lambda>(rd, s). OwnReader rd s) (DoGetTableTypes_sqlite S im w)"
| "reader_of_metadata S im (GetTables c) w =
     map_sum id (\<lambda>(rd, s, inner). case inner of None \<Rightarrow> OwnReader rd s | Some query \<Rightarrow> SchemasReader rd s query)
       (DoGetTables_sqlite S im c w)"
| "reader_of_metadata S im (GetPrimaryKeys r) w = map_sum id (\<lambda>(rd, s). OwnReader rd s) (DoGetPrimaryKeys_sqlite S im r w)"
| "reader_of_metadata S im (GetImportedKeys r) w = map_sum id (\<lambda>(rd, s). OwnReader rd s) (DoGetImportedKeys_sqlite S im r w)"
| "reader_of_metadata S im (GetExportedKeys r) w = map_sum id (\<lambda>(rd, s). OwnReader rd s) (DoGetExportedKeys_sqlite S im r w)"
| "reader_of_metadata S im (GetCrossReference pk fk) w =
     map_sum id (\<lambda>(rd, s). OwnReader rd s) (DoGetCrossReference_sqlite S im pk fk w)"

section \<open>The service\<close>

datatype sqlite_request =
    SqInfoStatement string string string
  | SqGetStatement string
  | SqInfoMetadata metadata_command string
  | SqGetMetadata metadata_command
  | SqInfoTypes string
  | SqGetTypes "int option"
  | SqPutUpdate string string
  | SqCreatePrepared string string
  | SqClosePrepared string
  | SqInfoPrepared string string
  | SqGetPrepared string
  | SqPutParameters string "parameter_batch list result"
  | SqPutPreparedUpdate string "parameter_batch result list"
  | SqBegin
  | SqEnd string bool

datatype sqlite_answer =
    SqInfo sqlite_flight_info
  | SqStream nat
  | SqCount int
  | SqPrepared "sq_field list" "(string \<times> arrow_type) list" string
  | SqTransaction string
  | SqDone

type_synonym ('p, 'c, 'w) sqlite_outcome = "sqlite_answer result \<times> ('p, 'c) sqlite_service \<times> 'w"

definition answer_only ::
    "('p, 'c) sqlite_service \<Rightarrow> sqlite_answer result \<Rightarrow> 'w \<Rightarrow> ('p, 'c, 'w) sqlite_outcome option" where
  "answer_only sc r w = Some (r, sc, w)"

definition leave_reader ::
    "('p, 'c) sqlite_service \<Rightarrow> ('p, 'c) sqlite_impl \<Rightarrow> ('p, 'c) sqlite_statement sqlite_reader result \<Rightarrow> 'w
     \<Rightarrow> ('p, 'c, 'w) sqlite_outcome option" where
  "leave_reader sc im r w =
     Some (case r of
             Inl e \<Rightarrow> (Inl e, sc\<lparr>ss_impl := im\<rparr>, w)
           | Inr rd \<Rightarrow> (ok (SqStream (length (ss_readers sc))),
                        sc\<lparr>ss_impl := im, ss_readers := ss_readers sc @ [rd]\<rparr>, w))"

definition serve_sqlite ::
    "('p, 'c, 'w) sqlite_server_lib \<Rightarrow> (string \<Rightarrow> string) \<Rightarrow> sqlite_request \<Rightarrow> ('p, 'c) sqlite_service \<Rightarrow> 'w
     \<Rightarrow> ('p, 'c, 'w) sqlite_outcome option" where
  "serve_sqlite S ticket rq sc w =
     (let im = ss_impl sc in case rq of
        SqInfoStatement query transaction_id cmd \<Rightarrow>
          answer_only sc (map_sum id (\<lambda>(schema, handle). SqInfo \<lparr>si_schema = schema, si_command = cmd,
              si_tickets = [ticket handle], si_records = -1, si_bytes = -1, si_ordered = False\<rparr>)
            (GetFlightInfoStatement_sqlite S im query transaction_id w)) w
      | SqGetStatement handle \<Rightarrow>
          (case DoGetStatement_sqlite S im handle w of
             (r, w1) \<Rightarrow> leave_reader sc im (map_sum id (\<lambda>(rd, s). OwnReader rd s) r) w1)
      | SqInfoMetadata m cmd \<Rightarrow>
          answer_only sc (map_sum id SqInfo (GetFlightInfoForCommand_sqlite cmd (sl_schema S (sqlite_announced m)))) w
      | SqGetMetadata m \<Rightarrow> leave_reader sc im (reader_of_metadata S im m w) w
      | SqInfoTypes cmd \<Rightarrow>
          answer_only sc (map_sum id SqInfo (GetFlightInfoForCommand_sqlite cmd (sl_schema S ''type_info''))) w
      | SqGetTypes t \<Rightarrow> leave_reader sc im (ok (TypesReader (DoGetTypeInfoResult_sqlite t))) w
      | SqPutUpdate sql transaction_id \<Rightarrow>
          map_option (\<lambda>(r, w1). (map_sum id SqCount r, sc, w1)) (DoPutCommandStatementUpdate_sqlite S im sql transaction_id w)
      | SqCreatePrepared query transaction_id \<Rightarrow>
          map_option (\<lambda>(r, im1). (map_sum id (\<lambda>(schema, params, handle). SqPrepared schema params handle) r,
                                  sc\<lparr>ss_impl := im1\<rparr>, w))
            (CreatePreparedStatement_sqlite S im query transaction_id w)
      | SqClosePrepared handle \<Rightarrow>
          (case ClosePreparedStatement_sqlite im handle of
             (r, im1) \<Rightarrow> Some (map_sum id (\<lambda>_. SqDone) r, sc\<lparr>ss_impl := im1\<rparr>, w))
      | SqInfoPrepared handle cmd \<Rightarrow>
          answer_only sc (map_sum id SqInfo
            (rbind (GetFlightInfoPreparedStatement_sqlite S im handle) (GetFlightInfoForCommand_sqlite cmd))) w
      | SqGetPrepared handle \<Rightarrow>
          (case DoGetPreparedStatement_sqlite S im handle w of
             (r, im1, w1) \<Rightarrow> leave_reader sc im1 (map_sum id (\<lambda>(rd, a). SharedReader rd a) r) w1)
      | SqPutParameters handle batches \<Rightarrow>
          (case DoPutPreparedStatementQuery_sqlite S im handle batches of
             (r, im1) \<Rightarrow> Some (map_sum id (\<lambda>_. SqDone) r, sc\<lparr>ss_impl := im1\<rparr>, w))
      | SqPutPreparedUpdate handle chunks \<Rightarrow>
          map_option (\<lambda>(r, im1, w1). (map_sum id SqCount r, sc\<lparr>ss_impl := im1\<rparr>, w1))
            (DoPutPreparedStatementUpdate_sqlite S im handle chunks w)
      | SqBegin \<Rightarrow>
          map_option (\<lambda>(r, im1, w1). (map_sum id SqTransaction r, sc\<lparr>ss_impl := im1\<rparr>, w1)) (BeginTransaction_sqlite S im w)
      | SqEnd transaction_id commit \<Rightarrow>
          (case EndTransaction_sqlite S im transaction_id commit w of
             (r, im1, w1) \<Rightarrow> Some (map_sum id (\<lambda>_. SqDone) r, sc\<lparr>ss_impl := im1\<rparr>, w1)))"

text \<open>A run of calls; it has no result when one of them does not return.\<close>

fun run_sqlite ::
    "('p, 'c, 'w) sqlite_server_lib \<Rightarrow> (string \<Rightarrow> string) \<Rightarrow> sqlite_request list \<Rightarrow> ('p, 'c) sqlite_service \<Rightarrow> 'w
     \<Rightarrow> (sqlite_answer result list \<times> ('p, 'c) sqlite_service \<times> 'w) option" where
  "run_sqlite S ticket [] sc w = Some ([], sc, w)"
| "run_sqlite S ticket (rq # rqs) sc w =
     (case serve_sqlite S ticket rq sc w of
        None \<Rightarrow> None
      | Some (r, sc1, w1) \<Rightarrow> map_option (apfst ((#) r)) (run_sqlite S ticket rqs sc1 w1))"

section \<open>What the calls keep\<close>

lemma leave_reader_impl: "leave_reader sc im r w = Some (x, sc1, w1) \<Longrightarrow> ss_impl sc1 = im"
  by (auto simp: leave_reader_def split: sum.splits)

text \<open>Every call keeps the server in a reachable state, so what holds there holds after any calls.\<close>

lemma serve_sqlite_reachable:
  assumes "sqlite_reachable S (ss_impl sc)" and "serve_sqlite S ticket rq sc w = Some (r, sc1, w1)"
  shows "sqlite_reachable S (ss_impl sc1)"
proof (cases rq)
  case (SqCreatePrepared query t)
  then obtain r1 where "CreatePreparedStatement_sqlite S (ss_impl sc) query t w = Some (r1, ss_impl sc1)"
    using assms(2) by (auto simp: serve_sqlite_def Let_def)
  then show ?thesis by (rule sqlite_reachable.prepared [OF assms(1)])
next
  case (SqClosePrepared h)
  then obtain r1 where "ClosePreparedStatement_sqlite (ss_impl sc) h = (r1, ss_impl sc1)"
    using assms(2) by (auto simp: serve_sqlite_def Let_def split: prod.splits)
  then show ?thesis by (rule sqlite_reachable.closed [OF assms(1)])
next
  case (SqGetPrepared h)
  then obtain r1 w2 where "DoGetPreparedStatement_sqlite S (ss_impl sc) h w = (r1, ss_impl sc1, w2)"
    using assms(2) by (auto simp: serve_sqlite_def Let_def split: prod.splits dest!: leave_reader_impl)
  then show ?thesis by (rule sqlite_reachable.executed [OF assms(1)])
next
  case (SqPutParameters h batches)
  then obtain r1 where "DoPutPreparedStatementQuery_sqlite S (ss_impl sc) h batches = (r1, ss_impl sc1)"
    using assms(2) by (auto simp: serve_sqlite_def Let_def split: prod.splits)
  then show ?thesis by (rule sqlite_reachable.parameters_put [OF assms(1)])
next
  case (SqPutPreparedUpdate h chunks)
  then obtain r1 where "DoPutPreparedStatementUpdate_sqlite S (ss_impl sc) h chunks w = Some (r1, ss_impl sc1, w1)"
    using assms(2) by (auto simp: serve_sqlite_def Let_def)
  then show ?thesis by (rule sqlite_reachable.updated [OF assms(1)])
next
  case SqBegin
  then obtain r1 where "BeginTransaction_sqlite S (ss_impl sc) w = Some (r1, ss_impl sc1, w1)"
    using assms(2) by (auto simp: serve_sqlite_def Let_def)
  then show ?thesis by (rule sqlite_reachable.begun [OF assms(1)])
next
  case (SqEnd t commit)
  then obtain r1 where "EndTransaction_sqlite S (ss_impl sc) t commit w = (r1, ss_impl sc1, w1)"
    using assms(2) by (auto simp: serve_sqlite_def Let_def split: prod.splits)
  then show ?thesis by (rule sqlite_reachable.ended [OF assms(1)])
qed (use assms in \<open>auto simp: serve_sqlite_def Let_def answer_only_def split: prod.splits dest!: leave_reader_impl\<close>)

lemma run_sqlite_reachable:
  "run_sqlite S ticket rqs sc w = Some (rs, sc1, w1) \<Longrightarrow> sqlite_reachable S (ss_impl sc) \<Longrightarrow> sqlite_reachable S (ss_impl sc1)"
proof (induction rqs arbitrary: sc w rs)
  case (Cons rq rqs)
  obtain r sc2 w2 where s: "serve_sqlite S ticket rq sc w = Some (r, sc2, w2)"
    using Cons.prems(1) by (auto split: option.splits)
  show ?case
    using Cons.prems(1) s Cons.IH [OF _ serve_sqlite_reachable [OF Cons.prems(2) s]] by auto
qed simp

text \<open>The schema of a reader.\<close>

fun reader_schema :: "('p, 'c, 'w) sqlite_server_lib \<Rightarrow> 'st sqlite_reader \<Rightarrow> sq_field list" where
  "reader_schema S (OwnReader rd s) = sr_schema rd"
| "reader_schema S (SharedReader rd a) = sr_schema rd"
| "reader_schema S (SchemasReader rd s query) = sl_schema S ''tables_with_schema''"
| "reader_schema S (RowsReader n rows) = sl_schema S n"
| "reader_schema S (TypesReader rows) = sl_schema S ''type_info''"

text \<open>The stream of a metadata command has the schema its flight information announces.\<close>

lemma own_reader_schema:
  "DoGetSQLiteQuery S db query schema w = Inr (rd, s) \<Longrightarrow> sr_schema rd = schema"
  by (auto simp: DoGetSQLiteQuery_def rbind_ok_iff new_reader_def)

lemma own_reader:
  "map_sum id (\<lambda>(rd, s). OwnReader rd s) (DoGetSQLiteQuery S db query schema w) = Inr rd \<Longrightarrow> reader_schema S rd = schema"
  by (cases "DoGetSQLiteQuery S db query schema w") (auto dest: own_reader_schema)

lemma sqlite_metadata_as_announced:
  assumes "reader_of_metadata S im m w = Inr rd"
  shows "reader_schema S rd = sl_schema S (sqlite_announced m)"
proof (cases m)
  case (GetTables c)
  obtain rd1 s inner where g: "DoGetTables_sqlite S im c w = Inr (rd1, s, inner)"
    and rd: "rd = (case inner of None \<Rightarrow> OwnReader rd1 s | Some query \<Rightarrow> SchemasReader rd1 s query)"
    using assms GetTables by (cases "DoGetTables_sqlite S im c w") auto
  have "sr_schema rd1 = sl_schema S ''tables'' \<and> (inner = None \<longleftrightarrow> \<not> gt_include_schema c)"
    using g by (auto simp: DoGetTables_sqlite_def Let_def rbind_ok_iff dest: own_reader_schema)
  then show ?thesis using rd GetTables by (auto split: option.splits)
qed (use assms in \<open>auto simp: DoGetTableTypes_sqlite_def DoGetPrimaryKeys_sqlite_def DoGetImportedKeys_sqlite_def
    DoGetExportedKeys_sqlite_def DoGetCrossReference_sqlite_def dest: own_reader_schema own_reader\<close>)

end
