(* ===== verification/Logging.thy ===== *)
theory Logging
  imports Options
begin

text \<open>
  The logger (\<open>src/src/common/gizmosql_logging.cpp\<close>): fields travel through Arrow's logger as a JSON object in front
  of the message, are peeled off again by a scanner of braces, and are written as a line of JSON or of text. The JSON
  library is the parameter \<open>log_lib\<close>.
\<close>

section \<open>Fields\<close>

text \<open>A value of a field, and any other JSON value a message may bring along.\<close>

datatype log_value = LString string | LInt int | LDouble int | LBool bool | LOther string

type_synonym field_list = "(string \<times> log_value) list"

text \<open>An object of the JSON library keeps its members ordered by their keys, bytewise.\<close>

fun str_less :: "string \<Rightarrow> string \<Rightarrow> bool" where
  "str_less s [] = False"
| "str_less [] (d # ds) = True"
| "str_less (c # cs) (d # ds) =
     ((of_char c :: nat) < of_char d \<or> c = d \<and> str_less cs ds)"

fun json_set :: "string \<Rightarrow> log_value \<Rightarrow> field_list \<Rightarrow> field_list" where
  "json_set k v [] = [(k, v)]"
| "json_set k v ((k', v') # j) =
     (if k = k' then (k, v) # j else if str_less k k' then (k, v) # (k', v') # j else (k', v') # json_set k v j)"

definition json_contains :: "string \<Rightarrow> field_list \<Rightarrow> bool" where
  "json_contains k j \<longleftrightarrow> k \<in> fst ` set j"

text \<open>
  The library: the text of an object and of a value (\<open>None\<close> when it throws, for a string that is not UTF-8), the
  object a text describes (\<open>None\<close> when it throws), the time, the process and thread, and the span of the
  tracing library.
\<close>

record log_lib =
  ll_dump :: "field_list \<Rightarrow> string option"
  ll_dump_value :: "log_value \<Rightarrow> string option"
  ll_parse :: "string \<Rightarrow> field_list option"
  ll_now :: string
  ll_pid :: int
  ll_tid :: string
  ll_otel_span :: "(string \<times> string) option"

definition kKV_PREFIX :: string where "kKV_PREFIX = ''[[KV]]''"

definition fields_object :: "field_list \<Rightarrow> field_list" where
  "fields_object fs = fold (\<lambda>(k, v). json_set k v) fs []"

definition EncodeFieldsForMessage :: "log_lib \<Rightarrow> field_list \<Rightarrow> string option" where
  "EncodeFieldsForMessage L fs =
     (if fs = [] then Some [] else map_option (\<lambda>t. kKV_PREFIX @ t @ '' '') (ll_dump L (fields_object fs)))"

text \<open>The scanner: how far the object reaches, or none when it is not closed.\<close>

fun object_end :: "nat \<Rightarrow> bool \<Rightarrow> bool \<Rightarrow> nat \<Rightarrow> string \<Rightarrow> nat option" where
  "object_end depth in_string escaped i [] = None"
| "object_end depth in_string escaped i (c # cs) =
     (if in_string
      then (if escaped then object_end depth True False (Suc i) cs
            else if c = bslash then object_end depth True True (Suc i) cs
            else if c = dquote then object_end depth False False (Suc i) cs
            else object_end depth True False (Suc i) cs)
      else if c = dquote then object_end depth True escaped (Suc i) cs
      else if c = CHR ''{'' then object_end (Suc depth) False escaped (Suc i) cs
      else if c = CHR ''}''
      then (if depth = 1 then Some (Suc i) else object_end (depth - 1) False escaped (Suc i) cs)
      else object_end depth False escaped (Suc i) cs)"

text \<open>The fields and what is left of the message; a closed object is cut off even when it cannot be parsed.\<close>

definition TryExtractFieldsFromMessage :: "log_lib \<Rightarrow> string \<Rightarrow> field_list option \<times> string" where
  "TryExtractFieldsFromMessage L raw =
     (if prefix kKV_PREFIX raw
      then let rest = drop (length kKV_PREFIX) raw in
           if rest = [] \<or> hd rest \<noteq> CHR ''{'' then (None, raw)
           else case object_end 0 False False 0 rest of
                  None \<Rightarrow> (None, raw)
                | Some n \<Rightarrow>
                    let tail = drop n rest;
                        left = (if tail \<noteq> [] \<and> hd tail = CHR '' '' then tl tail else tail)
                    in (ll_parse L (take n rest), left)
      else (None, raw))"

section \<open>The logger\<close>

record logger_config =
  gl_format :: log_format
  gl_level :: log_level
  gl_file_path :: "string option"
  gl_component :: "string option"
  gl_show_source :: bool
  gl_flush :: bool

text \<open>
  The global state: the configuration, the threshold, the identity of the instance, the sink (standard error or a file),
  the lines it was given and the trace override of the thread.
\<close>

record log_state =
  lo_cfg :: logger_config
  lo_level :: log_level
  lo_instance_id :: string
  lo_sink :: "string option"
  lo_lines :: "(string option \<times> string) list"
  lo_override :: "(string \<times> string) option"

definition level_rank :: "log_level \<Rightarrow> nat" where
  "level_rank l =
     (case l of ARROW_TRACE \<Rightarrow> 0 | ARROW_DEBUG \<Rightarrow> 1 | ARROW_INFO \<Rightarrow> 2 | ARROW_WARNING \<Rightarrow> 3 | ARROW_ERROR \<Rightarrow> 4
      | ARROW_FATAL \<Rightarrow> 5)"

definition LevelName :: "log_level \<Rightarrow> string" where
  "LevelName l =
     (case l of ARROW_DEBUG \<Rightarrow> ''DEBUG'' | ARROW_INFO \<Rightarrow> ''INFO'' | ARROW_WARNING \<Rightarrow> ''WARN'' | ARROW_ERROR \<Rightarrow> ''ERROR''
      | ARROW_FATAL \<Rightarrow> ''FATAL'' | _ \<Rightarrow> ''INFO'')"

text \<open>When the file cannot be opened a warning goes to standard error, which stays the sink.\<close>

definition InitLogging :: "logger_config \<Rightarrow> bool \<Rightarrow> log_state \<Rightarrow> log_state" where
  "InitLogging cfg can_open g =
     (let g1 = g\<lparr>lo_cfg := cfg, lo_level := gl_level cfg\<rparr> in
      case gl_file_path cfg of
        None \<Rightarrow> g1\<lparr>lo_sink := None\<rparr>
      | Some path \<Rightarrow>
          if can_open then g1\<lparr>lo_sink := Some path\<rparr>
          else g1\<lparr>lo_sink := None,
                  lo_lines := lo_lines g1 @ [(None, ''WARN Failed to open log file '' @ [squote] @ path @ [squote]
                                                    @ '', logging to stderr'')]\<rparr>)"

definition SetLogLevel :: "log_level \<Rightarrow> log_state \<Rightarrow> log_state" where
  "SetLogLevel level g = g\<lparr>lo_level := level\<rparr>"

definition SetInstanceId :: "string \<Rightarrow> log_state \<Rightarrow> log_state" where
  "SetInstanceId i g = g\<lparr>lo_instance_id := i\<rparr>"

text \<open>An active span of the tracing library goes before the override of the thread.\<close>

definition GetEffectiveTraceCorrelationIds :: "log_lib \<Rightarrow> log_state \<Rightarrow> (string \<times> string) option" where
  "GetEffectiveTraceCorrelationIds L g =
     (case ll_otel_span L of Some ids \<Rightarrow> Some ids | None \<Rightarrow> lo_override g)"

text \<open>The scope of an override: the state inside, and what the end of the scope restores.\<close>

definition enter_correlation :: "string \<Rightarrow> string \<Rightarrow> log_state \<Rightarrow> log_state \<times> (string \<times> string) option option" where
  "enter_correlation trace_id span_id g =
     (if trace_id = [] \<or> span_id = [] then (g, None)
      else (g\<lparr>lo_override := Some (trace_id, span_id)\<rparr>, Some (lo_override g)))"

definition leave_correlation :: "(string \<times> string) option option \<Rightarrow> log_state \<Rightarrow> log_state" where
  "leave_correlation saved g = (case saved of None \<Rightarrow> g | Some previous \<Rightarrow> g\<lparr>lo_override := previous\<rparr>)"

definition sink_line :: "string \<Rightarrow> log_state \<Rightarrow> log_state" where
  "sink_line line g = g\<lparr>lo_lines := lo_lines g @ [(lo_sink g, line)]\<rparr>"

definition json_set_if :: "bool \<Rightarrow> string \<Rightarrow> log_value \<Rightarrow> field_list \<Rightarrow> field_list" where
  "json_set_if b k v j = (if b then json_set k v j else j)"

text \<open>The members the logger sets itself.\<close>

definition required_members :: "log_lib \<Rightarrow> log_state \<Rightarrow> log_level \<Rightarrow> string \<Rightarrow> int \<Rightarrow> field_list" where
  "required_members L g level source_file line =
     (let j1 = fold (\<lambda>(k, v). json_set k v)
                 [(''ts'', LString (ll_now L)), (''lvl'', LString (LevelName level)), (''pid'', LInt (ll_pid L)),
                  (''tid'', LString (ll_tid L))] [];
          j2 = json_set_if (lo_instance_id g \<noteq> []) ''instance_id'' (LString (lo_instance_id g)) j1;
          j3 = (case GetEffectiveTraceCorrelationIds L g of
                  None \<Rightarrow> j2
                | Some (t, s) \<Rightarrow> json_set ''span_id'' (LString s) (json_set ''trace_id'' (LString t) j2));
          j4 = (if gl_show_source (lo_cfg g)
                then json_set ''line'' (LInt line) (json_set ''file'' (LString source_file) j3) else j3)
      in case gl_component (lo_cfg g) of None \<Rightarrow> j4 | Some c \<Rightarrow> json_set ''component'' (LString c) j4)"

definition merge_member :: "string \<times> log_value \<Rightarrow> field_list \<Rightarrow> field_list" where
  "merge_member kv j = (case kv of (k, v) \<Rightarrow> if json_contains k j then json_set (''extra_'' @ k) v j else json_set k v j)"

text \<open>The tag of the function, taken out of the text with a space that then starts it.\<close>

definition take_func :: "string \<Rightarrow> string \<times> string" where
  "take_func t =
     (case find_sub ''[func='' t of
        None \<Rightarrow> ([], t)
      | Some pos \<Rightarrow>
          (case find_char (CHR '']'') (drop pos t) of
             None \<Rightarrow> ([], t)
           | Some n \<Rightarrow>
               (let func = take (n - 6) (drop (pos + 6) t); rest = take pos t @ drop (pos + n + 1) t
                in (func, if rest \<noteq> [] \<and> hd rest = CHR '' '' then tl rest else rest))))"

definition json_record ::
    "log_lib \<Rightarrow> log_state \<Rightarrow> log_level \<Rightarrow> string \<Rightarrow> int \<Rightarrow> string \<Rightarrow> field_list" where
  "json_record L g level source_file line raw =
     (case TryExtractFieldsFromMessage L raw of (kv, t) \<Rightarrow>
        let j = (case kv of
                   None \<Rightarrow> required_members L g level source_file line
                 | Some ms \<Rightarrow> fold merge_member ms (required_members L g level source_file line))
        in case take_func t of (func, t') \<Rightarrow>
             json_set ''msg'' (LString t') (json_set_if (func \<noteq> []) ''func'' (LString func) j))"

definition WriteJson :: "log_lib \<Rightarrow> log_level \<Rightarrow> string \<Rightarrow> int \<Rightarrow> string \<Rightarrow> log_state \<Rightarrow> log_state option" where
  "WriteJson L level source_file line raw g =
     map_option (\<lambda>t. sink_line t g) (ll_dump L (json_record L g level source_file line raw))"

definition QuoteIfNeeded :: "string \<Rightarrow> string" where
  "QuoteIfNeeded s = (if list_ex is_space s then [dquote] @ s @ [dquote] else s)"

text \<open>The text of the fields; a value that cannot be dumped throws.\<close>

fun AppendFieldsText :: "log_lib \<Rightarrow> field_list \<Rightarrow> string option" where
  "AppendFieldsText L [] = Some []"
| "AppendFieldsText L ((k, v) # kv) =
     (case (case v of LString s \<Rightarrow> Some (QuoteIfNeeded s) | _ \<Rightarrow> ll_dump_value L v) of
        None \<Rightarrow> None
      | Some t \<Rightarrow> map_option (\<lambda>r. '' '' @ k @ ''='' @ t @ r) (AppendFieldsText L kv))"

definition text_head :: "log_lib \<Rightarrow> log_state \<Rightarrow> log_level \<Rightarrow> string \<Rightarrow> int \<Rightarrow> string" where
  "text_head L g level source_file line =
     ll_now L @ '' '' @ LevelName level @ '' pid='' @ show_int (ll_pid L) @ '' tid='' @ ll_tid L
     @ (if lo_instance_id g = [] then [] else '' instance_id='' @ lo_instance_id g)
     @ (case GetEffectiveTraceCorrelationIds L g of
          None \<Rightarrow> [] | Some (t, s) \<Rightarrow> '' trace_id='' @ t @ '' span_id='' @ s)
     @ (case gl_component (lo_cfg g) of None \<Rightarrow> [] | Some c \<Rightarrow> '' component='' @ c)
     @ (if gl_show_source (lo_cfg g) then '' '' @ source_file @ '':'' @ show_int line else [])"

definition WriteText :: "log_lib \<Rightarrow> log_level \<Rightarrow> string \<Rightarrow> int \<Rightarrow> string \<Rightarrow> log_state \<Rightarrow> log_state option" where
  "WriteText L level source_file line raw g =
     (case TryExtractFieldsFromMessage L raw of (kv, t) \<Rightarrow>
        map_option (\<lambda>f. sink_line (text_head L g level source_file line @ f @ '' - '' @ t) g)
          (case kv of None \<Rightarrow> Some [] | Some ms \<Rightarrow> AppendFieldsText L ms))"

definition logger_Log :: "log_lib \<Rightarrow> log_level \<Rightarrow> string \<Rightarrow> int \<Rightarrow> string \<Rightarrow> log_state \<Rightarrow> log_state option" where
  "logger_Log L level source_file line raw g =
     (if gl_format (lo_cfg g) = kJson then WriteJson L level source_file line raw g
      else WriteText L level source_file line raw g)"

text \<open>The state after the call; none when it throws.\<close>

definition LogWithFields ::
    "log_lib \<Rightarrow> log_level \<Rightarrow> string \<Rightarrow> int \<Rightarrow> string \<Rightarrow> field_list \<Rightarrow> log_state \<Rightarrow> log_state option" where
  "LogWithFields L level source_file line msg fs g =
     (if level_rank level < level_rank (lo_level g) then Some g
      else case EncodeFieldsForMessage L fs of
             None \<Rightarrow> None
           | Some enc \<Rightarrow> logger_Log L level source_file line (enc @ msg) g)"

section \<open>Fields reach the record\<close>

text \<open>
  What the scanner needs to know of the text of an object: quotes come in pairs with escapes between them, and braces
  outside of them match.
\<close>

inductive json_chars :: "string \<Rightarrow> bool" where
  no_char: "json_chars []"
| plain_char: "c \<noteq> dquote \<Longrightarrow> c \<noteq> bslash \<Longrightarrow> json_chars s \<Longrightarrow> json_chars (c # s)"
| escaped_char: "json_chars s \<Longrightarrow> json_chars (bslash # c # s)"

inductive json_body :: "string \<Rightarrow> bool" where
  body_end: "json_body []"
| body_plain: "c \<notin> {dquote, CHR ''{'', CHR ''}''} \<Longrightarrow> json_body s \<Longrightarrow> json_body (c # s)"
| body_string: "json_chars q \<Longrightarrow> json_body s \<Longrightarrow> json_body (dquote # q @ dquote # s)"
| body_object: "json_body a \<Longrightarrow> json_body s \<Longrightarrow> json_body (CHR ''{'' # a @ CHR ''}'' # s)"

definition json_object :: "string \<Rightarrow> bool" where
  "json_object t \<longleftrightarrow> (\<exists>b. json_body b \<and> t = CHR ''{'' # b @ ''}'')"

text \<open>The JSON library writes objects.\<close>

definition dumps_objects :: "log_lib \<Rightarrow> bool" where
  "dumps_objects L \<longleftrightarrow> (\<forall>j t. ll_dump L j = Some t \<longrightarrow> json_object t)"

lemma scan_string:
  "json_chars q \<Longrightarrow> object_end d True False i (q @ dquote # r) = object_end d False False (i + length q + 1) r"
  by (induction arbitrary: i rule: json_chars.induct) simp_all

lemma scan_body:
  "json_body b \<Longrightarrow> 0 < d \<Longrightarrow> object_end d False False i (b @ r) = object_end d False False (i + length b) r"
proof (induction arbitrary: d i r rule: json_body.induct)
  case (body_string q s)
  then show ?case using scan_string [of q d "Suc i" "s @ r"] by (simp add: add.assoc)
next
  case (body_object a s)
  have "object_end (Suc d) False False (Suc i) (a @ CHR ''}'' # s @ r)
      = object_end (Suc d) False False (Suc i + length a) (CHR ''}'' # s @ r)"
    by (rule body_object.IH(1)) simp
  then show ?case using body_object by (simp add: add.assoc)
qed simp_all

lemma scan_object:
  assumes "json_object t"
  shows "object_end 0 False False 0 (t @ r) = Some (length t)"
proof -
  obtain b where b: "json_body b" "t = CHR ''{'' # b @ ''}''" using assms by (auto simp: json_object_def)
  show ?thesis using scan_body [OF b(1), of 1 1 "CHR ''}'' # r"] b(2) by simp
qed

lemma extract_encoded:
  assumes "json_object t"
  shows "TryExtractFieldsFromMessage L (kKV_PREFIX @ t @ '' '' @ msg) = (ll_parse L t, msg)"
proof -
  have t: "t \<noteq> []" "hd t = CHR ''{''" using assms by (auto simp: json_object_def)
  then show ?thesis using scan_object [OF assms, of "CHR '' '' # msg"]
    by (simp add: TryExtractFieldsFromMessage_def Let_def)
qed

text \<open>
  C28: The fields of a message reach the logger whatever they hold: the scanner cuts the encoded object exactly where it
  ends, braces and quotes inside of texts included, and the message behind it arrives as it was, even when it looks
  like an encoded object itself.
\<close>

theorem logged_fields_arrive:
  assumes "dumps_objects L" and "fs \<noteq> []" and "EncodeFieldsForMessage L fs = Some enc"
  shows "\<exists>t. ll_dump L (fields_object fs) = Some t \<and> TryExtractFieldsFromMessage L (enc @ msg) = (ll_parse L t, msg)"
  using assms extract_encoded by (auto simp: EncodeFieldsForMessage_def dumps_objects_def)

text \<open>A message of the program, which does not begin like an encoded object, is left alone.\<close>

lemma plain_message: "\<not> prefix kKV_PREFIX msg \<Longrightarrow> TryExtractFieldsFromMessage L msg = (None, msg)"
  by (simp add: TryExtractFieldsFromMessage_def)

section \<open>What a record says\<close>

lemma map_of_json_set: "map_of (json_set k v j) = (map_of j)(k \<mapsto> v)"
  by (induction k v j rule: json_set.induct) (auto simp: fun_eq_iff)

lemma json_contains_dom: "json_contains k j \<longleftrightarrow> k \<in> dom (map_of j)"
  by (simp add: json_contains_def dom_map_of_conv_image_fst)

text \<open>The names the logger sets itself, none of which is message, function or starts with the mark of a collision.\<close>

definition required_names :: "string list" where
  "required_names = [''ts'', ''lvl'', ''pid'', ''tid'', ''instance_id'', ''trace_id'', ''span_id'', ''file'', ''line'',
                     ''component'']"

lemma required_members_names: "dom (map_of (required_members L g level f n)) \<subseteq> set required_names"
  by (auto simp: required_members_def Let_def json_set_if_def map_of_json_set required_names_def
      split: option.splits if_splits)

lemma required_name: "k \<in> set required_names \<Longrightarrow> k \<noteq> ''msg'' \<and> k \<noteq> ''func'' \<and> \<not> prefix ''extra_'' k"
  by (auto simp: required_names_def)

lemma merge_member_keeps:
  "k \<in> dom (map_of j) \<Longrightarrow> \<not> prefix ''extra_'' k \<Longrightarrow> map_of (merge_member kv j) k = map_of j k"
  by (auto simp: merge_member_def json_contains_dom map_of_json_set split: prod.splits)

lemma merge_members_keep:
  "k \<in> dom (map_of j) \<Longrightarrow> \<not> prefix ''extra_'' k \<Longrightarrow> map_of (fold merge_member kvs j) k = map_of j k"
proof (induction kvs arbitrary: j)
  case (Cons kv kvs)
  then have "map_of (merge_member kv j) k = map_of j k" by (intro merge_member_keeps)
  then show ?case using Cons by (simp add: domIff)
qed simp

text \<open>
  No field and no message displaces what the logger records itself: the time, the level, the process, the thread,
  the instance, the span, the source and the component of a JSON record are the logger's.
\<close>

lemma record_keeps_required_members:
  "map_of (required_members L g level f n) \<subseteq>\<^sub>m map_of (json_record L g level f n raw)"
proof (unfold map_le_def, rule ballI)
  fix k assume k: "k \<in> dom (map_of (required_members L g level f n))"
  then have "k \<in> set required_names" using required_members_names by blast
  from required_name [OF this] k
  show "map_of (required_members L g level f n) k = map_of (json_record L g level f n raw) k"
    by (simp add: json_record_def Let_def json_set_if_def map_of_json_set merge_members_keep
        split: prod.split option.split)
qed

text \<open>
  A line of text is not so robust: values are put between quotes without escaping quotes or line ends in them, so a
  user name or a statement can add fields and whole lines.
\<close>

lemma text_fields_can_be_forged:
  "AppendFieldsText L [(''role'', LString ''r''), (''user'', LString (''u'' @ [dquote] @ '' role='' @ [dquote] @ ''admin''))]
   = Some ('' role=r user='' @ [dquote] @ ''u'' @ [dquote] @ '' role='' @ [dquote] @ ''admin'' @ [dquote])"
  by (simp add: QuoteIfNeeded_def is_space_def)

lemma text_lines_can_be_forged:
  assumes "gl_format (lo_cfg g) = kText" and "\<not> prefix kKV_PREFIX (a @ [newline] @ line)"
  shows "logger_Log L level f n (a @ [newline] @ line) g
    = Some (sink_line (text_head L g level f n @ '' - '' @ a @ [newline] @ line) g)"
  using assms by (simp add: logger_Log_def WriteText_def plain_message)

section \<open>Scopes of correlation\<close>

text \<open>Nested scopes with work in between; a scope restores what it found.\<close>

inductive correlated :: "log_state \<Rightarrow> log_state \<Rightarrow> bool" where
  nothing: "correlated g g"
| logged: "LogWithFields L level f n msg fs g = Some g1 \<Longrightarrow> correlated g1 g2 \<Longrightarrow> correlated g g2"
| scope: "enter_correlation t s g = (g1, saved) \<Longrightarrow> correlated g1 g2 \<Longrightarrow> correlated (leave_correlation saved g2) g3
    \<Longrightarrow> correlated g g3"

lemma sink_line_override [simp]: "lo_override (sink_line l g) = lo_override g"
  by (simp add: sink_line_def)

lemma LogWithFields_override: "LogWithFields L level f n msg fs g = Some g1 \<Longrightarrow> lo_override g1 = lo_override g"
  by (auto simp: LogWithFields_def logger_Log_def WriteJson_def WriteText_def split: if_splits option.splits prod.splits)

lemma scopes_restore: "correlated g g' \<Longrightarrow> lo_override g' = lo_override g"
proof (induction rule: correlated.induct)
  case (scope t s g g1 saved g2 g3)
  then show ?case by (auto simp: enter_correlation_def leave_correlation_def split: if_splits option.splits)
qed (simp_all add: LogWithFields_override)

section \<open>A sample library\<close>

definition toy_log :: log_lib where
  "toy_log = \<lparr>ll_dump = (\<lambda>j. Some (''{'' @ [dquote] @ ''}'' @ [bslash, dquote] @ ''{'' @ [dquote] @ ''}'')),
     ll_dump_value = (\<lambda>v. Some ''0''), ll_parse = (\<lambda>t. Some []), ll_now = ''now'', ll_pid = 1, ll_tid = ''2'',
     ll_otel_span = None\<rparr>"

lemma toy_log_dumps: "dumps_objects toy_log"
proof -
  have "json_chars (''}'' @ [bslash, dquote] @ ''{'')"
    by (simp add: json_chars.intros)
  from json_body.body_string [OF this json_body.body_end] show ?thesis
    by (auto simp: dumps_objects_def toy_log_def json_object_def)
qed

theorem logged_fields_arrive_witness:
  "TryExtractFieldsFromMessage toy_log
     (''[[KV]]{'' @ [dquote] @ ''}'' @ [bslash, dquote] @ ''{'' @ [dquote] @ ''} hello'') = (Some [], ''hello'')"
proof -
  have "EncodeFieldsForMessage toy_log [(''k'', LBool True)]
      = Some (''[[KV]]{'' @ [dquote] @ ''}'' @ [bslash, dquote] @ ''{'' @ [dquote] @ ''} '')"
    by (simp add: EncodeFieldsForMessage_def toy_log_def kKV_PREFIX_def)
  from logged_fields_arrive [OF toy_log_dumps _ this, of "''hello''"] show ?thesis by (simp add: toy_log_def)
qed

end
