(* ===== verification/Completer.thy ===== *)
theory Completer
  imports Connection
begin

text \<open>
  Tab completion of the shell (\<open>src/src/client/shell_completer.cpp\<close>): the word at the end of the input, the context it
  stands in, the cache of tables and the completions. The colours of the line editor are left out.
\<close>

section \<open>Words\<close>

definition IsIdentChar :: "char \<Rightarrow> bool" where
  "IsIdentChar c \<longleftrightarrow> is_alpha c \<or> is_digit c \<or> c = CHR ''_'' \<or> c = CHR ''.''"

text \<open>The beginning of a text, ignoring case.\<close>

definition StartsWith :: "string \<Rightarrow> string \<Rightarrow> bool" where
  "StartsWith haystack needle \<longleftrightarrow>
     length needle \<le> length haystack \<and> to_upper (take (length needle) haystack) = to_upper needle"

text \<open>The letters before the white space that ends at a position, in capitals.\<close>

definition FindPrecedingKeyword :: "string \<Rightarrow> nat \<Rightarrow> string" where
  "FindPrecedingKeyword input prefix_start =
     to_upper (rev (takeWhile is_alpha (dropWhile is_space (rev (take prefix_start input)))))"

definition GetSqlKeywords :: "string list" where
  "GetSqlKeywords =
     [''SELECT'', ''FROM'', ''WHERE'', ''INSERT'', ''INTO'', ''UPDATE'', ''DELETE'', ''CREATE'', ''DROP'',
      ''ALTER'', ''TABLE'', ''VIEW'', ''INDEX'', ''JOIN'', ''LEFT'', ''RIGHT'', ''INNER'', ''OUTER'', ''FULL'',
      ''CROSS'', ''ON'', ''USING'', ''GROUP'', ''BY'', ''ORDER'', ''ASC'', ''DESC'', ''LIMIT'', ''OFFSET'',
      ''HAVING'', ''UNION'', ''ALL'', ''DISTINCT'', ''AS'', ''AND'', ''OR'', ''NOT'', ''IN'', ''EXISTS'',
      ''BETWEEN'', ''LIKE'', ''IS'', ''NULL'', ''TRUE'', ''FALSE'', ''CASE'', ''WHEN'', ''THEN'', ''ELSE'',
      ''END'', ''SET'', ''VALUES'', ''WITH'', ''EXCEPT'', ''INTERSECT'', ''COPY'', ''LOAD'', ''INSTALL'',
      ''ATTACH'', ''DETACH'', ''EXPLAIN'', ''ANALYZE'', ''DESCRIBE'', ''SHOW'', ''PRAGMA'', ''PIVOT'',
      ''UNPIVOT'', ''WINDOW'', ''OVER'', ''PARTITION'', ''ROWS'', ''RANGE'', ''FILTER'', ''REPLACE'',
      ''RETURNING'', ''PRIMARY'', ''KEY'', ''FOREIGN'', ''REFERENCES'', ''UNIQUE'', ''CHECK'', ''CONSTRAINT'',
      ''DEFAULT'', ''TEMPORARY'', ''TEMP'', ''IF'', ''CASCADE'', ''RESTRICT'', ''BEGIN'', ''COMMIT'',
      ''ROLLBACK'', ''RECURSIVE'', ''LATERAL'', ''NATURAL'', ''QUALIFY'', ''EXCLUDE'', ''RENAME'', ''COLUMN'',
      ''DATABASE'', ''SCHEMA'', ''GRANT'', ''REVOKE'', ''TRIGGER'', ''SEQUENCE'', ''TYPE'', ''ENUM'', ''ILIKE'',
      ''GLOB'', ''SIMILAR'', ''TABLESAMPLE'', ''POSITIONAL'', ''STRUCT'', ''MAP'', ''LIST'', ''ARRAY'',
      ''GENERATE_SERIES'', ''UNNEST'', ''SUMMARIZE'', ''CALL'', ''EXPORT'', ''IMPORT'', ''USE'']"

definition GetDotCommands :: "string list" where
  "GetDotCommands =
     [''.bail'', ''.catalogs'', ''.cd'', ''.connect'', ''.echo'', ''.exit'', ''.headers'', ''.help'',
      ''.maxrows'', ''.maxwidth'', ''.mode'', ''.nullvalue'', ''.once'', ''.output'', ''.prompt'', ''.quit'',
      ''.read'', ''.refresh'', ''.schema'', ''.separator'', ''.shell'', ''.show'', ''.tables'', ''.timer'']"

section \<open>The cache\<close>

record table_entry =
  te_catalog :: string
  te_schema :: string
  te_table :: string
  te_type :: string

record completer =
  cp_tables :: "table_entry list"
  cp_schemas :: "(string \<times> string) list"
  cp_populated :: bool

definition new_completer :: completer where
  "new_completer = \<lparr>cp_tables = [], cp_schemas = [], cp_populated = False\<rparr>"

definition InvalidateCache :: "completer \<Rightarrow> completer" where
  "InvalidateCache k = \<lparr>cp_tables = [], cp_schemas = [], cp_populated = False\<rparr>"

definition cell_or_empty :: "arrow_text \<Rightarrow> arrow_table \<Rightarrow> nat \<Rightarrow> nat \<Rightarrow> string" where
  "cell_or_empty T t col r = (if col < length (at_columns t) then GetCellValue T (at_columns t ! col) r [] else [])"

definition table_entry_at :: "arrow_text \<Rightarrow> arrow_table \<Rightarrow> nat \<Rightarrow> table_entry" where
  "table_entry_at T t r =
     \<lparr>te_catalog = cell_or_empty T t 0 r, te_schema = cell_or_empty T t 1 r, te_table = cell_or_empty T t 2 r,
      te_type = cell_or_empty T t 3 r\<rparr>"

text \<open>A list that cannot be fetched stays empty, and the cache counts as filled all the same.\<close>

definition EnsureCachePopulated ::
    "arrow_text \<Rightarrow> 'w flight_lib \<Rightarrow> flight_connection \<Rightarrow> completer \<Rightarrow> 'w \<Rightarrow> completer \<times> 'w" where
  "EnsureCachePopulated T F c k w =
     (if cp_populated k \<or> \<not> IsConnected c then (k, w)
      else case conn_GetTables F [] [] [] c w of
             (tables, w1) \<Rightarrow>
               (case conn_GetDbSchemas F [] [] c w1 of
                  (schemas, w2) \<Rightarrow>
                    (\<lparr>cp_tables = cp_tables k @ (case tables of Inl e \<Rightarrow> []
                                                | Inr t \<Rightarrow> map (table_entry_at T t) [0..<at_rows t]),
                      cp_schemas = cp_schemas k @ (case schemas of Inl e \<Rightarrow> []
                                                  | Inr t \<Rightarrow> map (\<lambda>r. (cell_or_empty T t 0 r, cell_or_empty T t 1 r)) [0..<at_rows t]),
                      cp_populated = True\<rparr>, w2)))"

section \<open>Completions\<close>

text \<open>The word at the end and its length; the dot that is looked for behind it cannot be there.\<close>

definition ExtractPrefix :: "string \<Rightarrow> string \<times> nat" where
  "ExtractPrefix input =
     (let word = rev (takeWhile IsIdentChar (rev input)); rest = take (length input - length word) input in
      if word \<noteq> [] then (word, length word)
      else if rest \<noteq> [] \<and> last rest = CHR ''.'' then ([last rest], 1)
      else ([], 0))"

datatype completion_context = DOT_COMMAND | SCHEMA_QUALIFIED | TABLE_NAME | SQL_GENERAL

definition table_keywords :: "string list" where
  "table_keywords = [''FROM'', ''JOIN'', ''INTO'', ''UPDATE'', ''TABLE'', ''DESCRIBE'']"

definition DetermineContext :: "string \<Rightarrow> string \<Rightarrow> completion_context" where
  "DetermineContext input word =
     (let trimmed = dropWhile (\<lambda>c. c = CHR '' '' \<or> c = tabchar) input in
      if trimmed \<noteq> [] \<and> hd trimmed = CHR ''.'' then DOT_COMMAND
      else if CHR ''.'' \<in> set word then SCHEMA_QUALIFIED
      else if FindPrecedingKeyword input (length input - length word) \<in> set table_keywords then TABLE_NAME
      else SQL_GENERAL)"

text \<open>The letters of the word decide: no capital, no small letter, or as it is.\<close>

definition MatchCase :: "string \<Rightarrow> string \<Rightarrow> string" where
  "MatchCase candidate word =
     (if word = [] then candidate
      else if \<not> list_ex is_upper word then to_lower candidate
      else if \<not> list_ex is_lower word then to_upper candidate
      else candidate)"

definition table_completions :: "completer \<Rightarrow> string \<Rightarrow> string list" where
  "table_completions k word = filter (\<lambda>t. StartsWith t word) (map te_table (cp_tables k))"

definition qualified_completions :: "completer \<Rightarrow> string \<Rightarrow> string list" where
  "qualified_completions k word =
     (let dot = (case rfind_char (CHR ''.'') word of Some i \<Rightarrow> i | None \<Rightarrow> 0);
          schema_part = take dot word; table_part = drop (dot + 1) word
      in map (\<lambda>e. te_schema e @ ''.'' @ te_table e)
           (filter (\<lambda>e. StartsWith (te_schema e) schema_part \<and> StartsWith (te_table e) table_part) (cp_tables k)))"

text \<open>The completions, the length of the word they replace, and the cache.\<close>

definition Complete ::
    "arrow_text \<Rightarrow> 'w flight_lib \<Rightarrow> flight_connection \<Rightarrow> string \<Rightarrow> completer \<Rightarrow> 'w
     \<Rightarrow> string list \<times> nat \<times> completer \<times> 'w" where
  "Complete T F c input k w =
     (case ExtractPrefix input of (word, context_len) \<Rightarrow>
        if word = [] \<and> context_len = 0 then ([], context_len, k, w)
        else case DetermineContext input word of
          DOT_COMMAND \<Rightarrow> (filter (\<lambda>cmd. StartsWith cmd word) GetDotCommands, context_len, k, w)
        | SCHEMA_QUALIFIED \<Rightarrow>
            (case EnsureCachePopulated T F c k w of (k1, w1) \<Rightarrow> (qualified_completions k1 word, context_len, k1, w1))
        | TABLE_NAME \<Rightarrow>
            (case EnsureCachePopulated T F c k w of (k1, w1) \<Rightarrow> (table_completions k1 word, context_len, k1, w1))
        | SQL_GENERAL \<Rightarrow>
            (case EnsureCachePopulated T F c k w of (k1, w1) \<Rightarrow>
               (map (\<lambda>kw. MatchCase kw word) (filter (\<lambda>kw. StartsWith kw word) GetSqlKeywords)
                @ table_completions k1 word, context_len, k1, w1)))"

definition Hint ::
    "arrow_text \<Rightarrow> 'w flight_lib \<Rightarrow> flight_connection \<Rightarrow> string \<Rightarrow> completer \<Rightarrow> 'w
     \<Rightarrow> string list \<times> nat \<times> completer \<times> 'w" where
  "Hint T F c input k w =
     (case Complete T F c input k w of (cs, n, k1, w1) \<Rightarrow> (if length cs = 1 then [hd cs] else [], n, k1, w1))"

section \<open>What a completion does to the input\<close>

text \<open>The line after a completion was chosen.\<close>

definition completed :: "string \<Rightarrow> nat \<Rightarrow> string \<Rightarrow> string" where
  "completed input context_len completion = take (length input - context_len) input @ completion"

lemma ExtractPrefix_word:
  "ExtractPrefix input = (word, n) \<Longrightarrow> n = length word \<and> input = take (length input - length word) input @ word"
proof -
  assume ext: "ExtractPrefix input = (word, n)"
  let ?word = "rev (takeWhile IsIdentChar (rev input))"
  let ?rest = "rev (dropWhile IsIdentChar (rev input))"
  have split: "input = ?rest @ ?word"
    by (metis rev_append rev_rev_ident takeWhile_dropWhile_id)
  then have rest: "take (length input - length ?word) input = ?rest"
    by (metis add_diff_cancel_right' append_eq_conv_conj length_append)
  have "\<not> IsIdentChar (last ?rest)" if "?rest \<noteq> []"
    using that hd_dropWhile [of IsIdentChar "rev input"] by (simp only: last_rev rev_is_Nil_conv rev_rev_ident simp_thms)
  then have "?rest \<noteq> [] \<Longrightarrow> last ?rest \<noteq> CHR ''.''" by (auto simp: IsIdentChar_def)
  then have "word = ?word \<and> n = length ?word"
    using ext unfolding ExtractPrefix_def Let_def rest by (auto split: if_splits)
  then show ?thesis using split rest by metis
qed

lemma toupper_toupper: "toupper (toupper c) = toupper c"
proof (cases "is_lower c")
  case True
  then have "\<not> is_lower (toupper c)" by (auto simp: is_lower_def of_char_toupper)
  then show ?thesis by (simp add: toupper_def)
next
  case False
  then show ?thesis by (simp add: toupper_def)
qed

lemma toupper_tolower: "toupper (tolower c) = toupper c"
proof (cases "is_upper c")
  case True
  then have small: "(of_char c :: nat) + 32 < 256" "\<not> is_lower c" by (auto simp: is_upper_def is_lower_def)
  then have "(of_char (tolower c) :: nat) = of_char c + 32" using True by (simp add: tolower_def)
  then have "toupper (tolower c) = char_of (of_char c :: nat)"
    using True by (simp add: toupper_def is_lower_def is_upper_def)
  then show ?thesis using small(2) by (simp add: toupper_def)
next
  case False
  then show ?thesis by (simp add: tolower_def)
qed

lemma to_upper_MatchCase: "to_upper (MatchCase candidate word) = to_upper candidate"
  by (simp add: MatchCase_def to_upper_def to_lower_def toupper_toupper toupper_tolower)

text \<open>A completion that starts with the word extends the line.\<close>

definition extends :: "string \<Rightarrow> nat \<Rightarrow> string \<Rightarrow> bool" where
  "extends input n completion \<longleftrightarrow> prefix (to_upper input) (to_upper (completed input n completion))"

lemma StartsWith_extends:
  assumes "ExtractPrefix input = (word, n)" and "StartsWith candidate word" and "to_upper completion = to_upper candidate"
  shows "extends input n completion"
proof -
  have input: "n = length word" "input = take (length input - n) input @ word"
    using ExtractPrefix_word [OF assms(1)] by auto
  have "to_upper candidate = to_upper (take (length word) candidate) @ to_upper (drop (length word) candidate)"
    by (simp flip: to_upper_append)
  then have "to_upper completion = to_upper word @ to_upper (drop (length word) candidate)"
    using assms(2,3) by (simp add: StartsWith_def)
  then have "to_upper (completed input n completion)
      = to_upper (take (length input - n) input @ word) @ to_upper (drop (length word) candidate)"
    by (simp add: completed_def to_upper_append)
  then show ?thesis unfolding extends_def using input(2) by simp
qed

text \<open>
  Outside of qualified names every completion keeps what was typed: the completed line begins with the old one but for
  the case of its letters, whether a command, a keyword or a table was chosen.
\<close>

theorem completions_extend_the_line:
  assumes "DetermineContext input (fst (ExtractPrefix input)) \<noteq> SCHEMA_QUALIFIED"
    and "Complete T F c input k w = (completions, n, k1, w1)"
  shows "list_all (extends input n) completions"
proof -
  obtain word m where ext: "ExtractPrefix input = (word, m)" by (cases "ExtractPrefix input")
  note starts = StartsWith_extends [OF ext]
  have "list_all (extends input m) (filter (\<lambda>cmd. StartsWith cmd word) l)" for l
    using starts by (auto simp: list_all_iff)
  moreover have "list_all (extends input m) (map (\<lambda>kw. MatchCase kw word) (filter (\<lambda>kw. StartsWith kw word) l))" for l
    using starts to_upper_MatchCase by (auto simp: list_all_iff)
  ultimately show ?thesis
    using assms ext
    by (auto simp: Complete_def table_completions_def split: if_splits completion_context.splits prod.splits)
qed

text \<open>Of a qualified name the schema may change: its part need not be the whole name.\<close>

lemma qualified_completion_replaces_schema:
  "qualified_completions \<lparr>cp_tables = [\<lparr>te_catalog = ''c'', te_schema = ''main'', te_table = ''tab'', te_type = []\<rparr>],
     cp_schemas = [], cp_populated = True\<rparr> ''ma.t'' = [''main.tab'']"
  by (simp add: qualified_completions_def Let_def rfind_char_def StartsWith_def to_upper_def)

text \<open>A failed fetch is remembered: completion stays without tables until the cache is cleared.\<close>

lemma failed_fetch_is_cached:
  assumes "conn_GetTables F [] [] [] c w = (Inl e, w1)" and "IsConnected c" and "\<not> cp_populated k"
  shows "cp_populated (fst (EnsureCachePopulated T F c k w)) \<and> cp_tables (fst (EnsureCachePopulated T F c k w)) = cp_tables k"
  using assms by (simp add: EnsureCachePopulated_def split: prod.split)

theorem completions_extend_the_line_witness:
  "list_all (extends ''  .mo'' 3) [''.mode'']"
proof -
  let ?k = "new_completer"
  have ctx: "DetermineContext ''  .mo'' (fst (ExtractPrefix ''  .mo'')) \<noteq> SCHEMA_QUALIFIED"
    by (simp add: DetermineContext_def)
  have "Complete T F c ''  .mo'' ?k w = ([''.mode''], 3, ?k, w)" for T and F :: "unit flight_lib" and c w
  proof -
    have "ExtractPrefix ''  .mo'' = (''.mo'', 3)" by code_simp
    moreover have "DetermineContext ''  .mo'' ''.mo'' = DOT_COMMAND" by code_simp
    moreover have "filter (\<lambda>cmd. StartsWith cmd ''.mo'') GetDotCommands = [''.mode'']" by code_simp
    ultimately show ?thesis by (simp add: Complete_def)
  qed
  from completions_extend_the_line [OF ctx this] show ?thesis .
qed

end
