(* ===== verification/HostInfo.thy ===== *)
theory HostInfo
  imports Prelude
begin

text \<open>
  What the server tells about its machine (\<open>src/src/common/gizmosql_library.cpp\<close>, on Linux): the address it records for
  its instance, and the names of the system and the processor read from \<open>/etc/os-release\<close> and \<open>/proc/cpuinfo\<close>. The
  calls of the operating system are parameters.
\<close>

section \<open>The address\<close>

definition starts :: "string \<Rightarrow> string \<Rightarrow> bool" where
  "starts p s \<longleftrightarrow> prefix p s"

definition preferred_interface :: "string \<Rightarrow> bool" where
  "preferred_interface name \<longleftrightarrow> name = ''en0'' \<or> name = ''eth0'' \<or> starts ''ens'' name \<or> starts ''enp'' name"

text \<open>The loop over the IPv4 addresses with their interfaces: the preferred address, and the first other one.\<close>

fun scan_interfaces :: "(string \<times> string) list \<Rightarrow> string \<Rightarrow> string \<times> string" where
  "scan_interfaces [] fallback_ip = ([], fallback_ip)"
| "scan_interfaces ((name, ip) # ifs) fallback_ip =
     (if starts ''127.'' ip then scan_interfaces ifs fallback_ip
      else if preferred_interface name then (ip, fallback_ip)
      else scan_interfaces ifs (if fallback_ip = [] then ip else fallback_ip))"

definition GetPrimaryIPAddress :: "(string \<times> string) list option \<Rightarrow> string" where
  "GetPrimaryIPAddress interfaces =
     (case interfaces of
        None \<Rightarrow> []
      | Some ifs \<Rightarrow> (case scan_interfaces ifs [] of (primary_ip, fallback_ip) \<Rightarrow>
                      if primary_ip = [] then fallback_ip else primary_ip))"

lemma scan_interfaces_known:
  assumes "\<And>s. s \<in> {f} - {[]} \<Longrightarrow> s \<in> snd ` set ifs0 \<and> \<not> starts ''127.'' s" and "set ifs \<subseteq> set ifs0"
    and "scan_interfaces ifs f = (p, q)" and "s \<in> {p, q} - {[]}"
  shows "s \<in> snd ` set ifs0 \<and> \<not> starts ''127.'' s"
  using assms
proof (induction ifs f rule: scan_interfaces.induct)
  case (1 f)
  then show ?case by auto
next
  case (2 name ip ifs f)
  have ip: "ip \<in> snd ` set ifs0" using 2(4) by force
  show ?case
  proof (cases "starts ''127.'' ip \<or> preferred_interface name")
    case True
    then show ?thesis using 2 ip by (auto split: if_splits)
  next
    case False
    show ?thesis
      by (rule "2.IH"(2)) (use 2 False ip in \<open>auto split: if_splits\<close>)
  qed
qed

text \<open>The recorded address is that of an interface and never a loopback one; without any it is empty.\<close>

lemma primary_address_of_an_interface:
  assumes "GetPrimaryIPAddress (Some ifs) = ip" and "ip \<noteq> []"
  shows "ip \<in> snd ` set ifs \<and> \<not> starts ''127.'' ip"
proof -
  obtain p q where scan: "scan_interfaces ifs [] = (p, q)" by (cases "scan_interfaces ifs []")
  have "ip \<in> {p, q} - {[]}" using assms scan by (auto simp: GetPrimaryIPAddress_def split: if_splits)
  then show ?thesis using scan_interfaces_known [OF _ _ scan, of ifs] by simp
qed

section \<open>Names\<close>

definition unquoted :: "string \<Rightarrow> string" where
  "unquoted s =
     (let s1 = (if s \<noteq> [] \<and> hd s = dquote then tl s else s)
      in if s1 \<noteq> [] \<and> last s1 = dquote then butlast s1 else s1)"

text \<open>The lines of \<open>os-release\<close>: the name and the version, the last ones found.\<close>

fun read_os_release :: "string list \<Rightarrow> string \<times> string \<Rightarrow> string \<times> string" where
  "read_os_release [] nv = nv"
| "read_os_release (l # ls) (pretty_name, version_id) =
     read_os_release ls
       (if starts ''PRETTY_NAME='' l then (unquoted (drop 12 l), version_id)
        else if starts ''VERSION_ID='' l then (pretty_name, unquoted (drop 11 l))
        else (pretty_name, version_id))"

text \<open>The first line of the model's name, behind its colon and the blanks there.\<close>

definition drop_blanks :: "string \<Rightarrow> string" where
  "drop_blanks s =
     (let t = dropWhile (\<lambda>c. c = CHR '' '' \<or> c = tabchar) s in if t = [] then s else t)"

fun read_cpuinfo :: "string list \<Rightarrow> string" where
  "read_cpuinfo [] = []"
| "read_cpuinfo (l # ls) =
     (if starts ''model name'' l
      then (case find_char (CHR '':'') l of None \<Rightarrow> [] | Some pos \<Rightarrow> drop_blanks (drop (pos + 1) l))
      else read_cpuinfo ls)"

lemma unquoted_quoted: "unquoted ([dquote] @ s @ [dquote]) = s"
  by (simp add: unquoted_def)

lemma os_release_name:
  "\<not> starts ''PRETTY_NAME='' l \<Longrightarrow>
     fst (read_os_release [''PRETTY_NAME='' @ [dquote] @ s @ [dquote], l] nv) = s"
  by (cases nv) (simp add: starts_def unquoted_def)

section \<open>The machine\<close>

text \<open>
  What the operating system gives: \<open>uname\<close>, the number of processors, the lines of the two files when they can be read,
  and the pages of memory with their size.
\<close>

record machine =
  mc_uname :: "(string \<times> string) option"
  mc_processors :: int
  mc_os_release :: "string list option"
  mc_cpuinfo :: "string list option"
  mc_pages :: int
  mc_page_size :: int

record system_info =
  os_platform :: string
  os_name :: string
  os_version :: string
  cpu_arch :: string
  cpu_model :: string
  cpu_count :: int
  memory_total_bytes :: int

text \<open>The size of the memory is not initialised: \<open>left\<close> is what is there when it cannot be found out.\<close>

definition GetSystemInfo :: "machine \<Rightarrow> int \<Rightarrow> system_info" where
  "GetSystemInfo m left =
     (let names = (case mc_os_release m of None \<Rightarrow> ([], []) | Some ls \<Rightarrow> read_os_release ls ([], [])) in
      \<lparr>os_platform = (case mc_uname m of None \<Rightarrow> [] | Some (sysname, arch) \<Rightarrow> to_lower sysname),
       os_name = fst names, os_version = snd names,
       cpu_arch = (case mc_uname m of None \<Rightarrow> [] | Some (sysname, arch) \<Rightarrow> arch),
       cpu_model = (case mc_cpuinfo m of None \<Rightarrow> [] | Some ls \<Rightarrow> read_cpuinfo ls),
       cpu_count = mc_processors m,
       memory_total_bytes = (if mc_pages m > 0 \<and> mc_page_size m > 0 then mc_pages m * mc_page_size m else left)\<rparr>)"

section \<open>Sizes\<close>

text \<open>
  \<open>FormatBytes\<close>: the size is divided by 1024 while it is large and a unit is left, and printed with one decimal,
  rounded to the nearest, on a tie to the even digit. For sizes below \<open>2 ^ 53\<close> the floating point numbers are exact.
\<close>

fun scale_bytes :: "int \<Rightarrow> int \<Rightarrow> string list \<Rightarrow> int \<times> string" where
  "scale_bytes bytes d [] = (d, [])"
| "scale_bytes bytes d [u] = (d, u)"
| "scale_bytes bytes d (u # v # us) =
     (if bytes \<ge> 1024 * d then scale_bytes bytes (1024 * d) (v # us) else (d, u))"

definition round_even :: "int \<Rightarrow> int \<Rightarrow> int" where
  "round_even n d =
     (let q = n div d; r = n mod d
      in if 2 * r < d then q else if 2 * r > d then q + 1 else if even q then q else q + 1)"

definition FormatBytes :: "int \<Rightarrow> string" where
  "FormatBytes bytes =
     (case scale_bytes bytes 1 [''B'', ''KB'', ''MB'', ''GB'', ''TB''] of
        (d, u) \<Rightarrow> (let t = round_even (10 * bytes) d
                   in show_int (t div 10) @ ''.'' @ show_int (t mod 10) @ '' '' @ u))"

lemma scale_bytes_fits:
  assumes "scale_bytes bytes d us = (e, u)" and "us \<noteq> []" and "0 < d" and "d \<le> bytes \<or> d = 1"
  shows "(e \<le> bytes \<or> e = 1) \<and> (bytes < 1024 * e \<or> u = last us) \<and> 0 < e"
  using assms by (induction bytes d us rule: scale_bytes.induct) (auto split: if_splits)

text \<open>What is printed is within half of a tenth of the size in its unit.\<close>

lemma round_even_close:
  assumes "0 < d"
  shows "\<bar>2 * (d * round_even n d - n)\<bar> \<le> d"
proof -
  obtain q r where qr: "n div d = q" "n mod d = r" "n = d * q + r" "0 \<le> r" "r < d"
    using assms by (metis mult_div_mod_eq pos_mod_bound pos_mod_sign)
  have "(round_even n d = q \<and> 2 * r \<le> d) \<or> (round_even n d = q + 1 \<and> d \<le> 2 * r)"
    by (simp add: round_even_def Let_def qr(1,2))
  then consider "round_even n d = q" "2 * r \<le> d" | "round_even n d = q + 1" "d \<le> 2 * r" by blast
  then show ?thesis
  proof cases
    case 1
    then show ?thesis using qr by simp
  next
    case 2
    have "2 * (d * (q + 1) - n) = 2 * (d - r)" using qr(3) by (simp add: algebra_simps)
    then show ?thesis using 2 qr(4,5) by simp
  qed
qed

lemma format_half: "FormatBytes 1536 = ''1.5 KB''"
  by code_simp

lemma format_below_a_unit: "FormatBytes (1024 * 1024 - 1) = ''1024.0 KB''"
  by code_simp

end
