(* ===== verification/Banner.thy ===== *)
theory Banner
  imports License "HOL-Library.List_Lexorder" "HOL-Library.Char_ord"
begin

text \<open>
  What the server prints about its license (\<open>FormatLicenseForDisplay\<close> of
  \<open>src/src/enterprise/license_mgr/license_manager.cpp\<close>), and the start of the enterprise features with their banner
  (\<open>src/src/enterprise/enterprise_features.cpp\<close>). The text of a day is a parameter.
\<close>

section \<open>The display of a license\<close>

definition feature_display_names :: "(string \<times> string) list" where
  "feature_display_names =
     [(''instrumentation'', ''Instrumentation''), (''kill_session'', ''Kill Session''),
      (''catalog_permissions'', ''Catalog Permissions''), (''external_auth'', ''SSO/OAuth (External Auth)'')]"

text \<open>Known features under their names in the order of the table, then the others in the order of the set.\<close>

definition feature_words :: "license_info \<Rightarrow> string list" where
  "feature_words li =
     map snd (filter (\<lambda>(key, name). HasFeature li key) feature_display_names)
     @ filter (\<lambda>f. \<not> list_ex (\<lambda>(key, name). key = f) feature_display_names) (sorted_list_of_set (features li))"

fun comma_list :: "string list \<Rightarrow> string" where
  "comma_list [] = []"
| "comma_list [w] = w"
| "comma_list (w # v # ws) = w @ '', '' @ comma_list (v # ws)"

definition FormatLicenseForDisplay :: "(int \<Rightarrow> string) \<Rightarrow> license_info \<Rightarrow> string" where
  "FormatLicenseForDisplay show_day li =
     (let nl = [CHR 0x0A] in
      ''GizmoSQL Enterprise Edition - Copyright (c) 2026 GizmoData LLC'' @ nl
      @ '' License ID: '' @ license_id li @ nl
      @ '' Licensed to: '' @ audience li @ '' ('' @ subject li @ '')'' @ nl
      @ '' License issued: '' @ show_day (issued_at li) @ nl
      @ '' License expires: '' @ show_day (expires_at li) @ nl
      @ '' Licensed by: '' @ issuer li @ nl
      @ '' Licensed features: ''
      @ (if features li = {} then ''(none)'' else comma_list (feature_words li)))"

section \<open>The enterprise features\<close>

definition IsInstrumentationAvailable :: "int \<Rightarrow> license_info option \<Rightarrow> bool" where
  "IsInstrumentationAvailable now cur = IsFeatureAvailable now cur ''instrumentation''"

text \<open>\<open>Initialize\<close>: without a license file the server is the Core edition.\<close>

definition Initialize_features ::
    "(string \<Rightarrow> verify_error + 'tok) \<Rightarrow> ('tok \<Rightarrow> verify_error option) \<Rightarrow> ('tok \<Rightarrow> license_claims)
     \<Rightarrow> int \<Rightarrow> (string \<Rightarrow> string option) \<Rightarrow> string \<Rightarrow> license_info option \<Rightarrow> unit result \<times> license_info option" where
  "Initialize_features decode verify claims now read_file path cur =
     (if path = [] then (ok (), cur)
      else case LoadLicenseFromFile decode verify claims now path (read_file path) cur of
             (Inl e, cur1) \<Rightarrow> (Inl e, cur1)
           | (Inr li, cur1) \<Rightarrow> (ok (), cur1))"

definition GetCopyrightBanner :: "(int \<Rightarrow> string) \<Rightarrow> int \<Rightarrow> int \<Rightarrow> license_info option \<Rightarrow> string" where
  "GetCopyrightBanner show_day year now cur =
     (if IsEnterpriseEdition now cur
      then (case cur of Some li \<Rightarrow> FormatLicenseForDisplay show_day li | None \<Rightarrow> [])
      else ''GizmoSQL Core - Copyright (c) '' @ show_int year @ '' GizmoData LLC'' @ [CHR 0x0A]
           @ '' Licensed under the Apache License, Version 2.0'' @ [CHR 0x0A]
           @ '' https://www.apache.org/licenses/LICENSE-2.0'')"

section \<open>What is shown\<close>

lemma known_features: "list_ex (\<lambda>(key, name). key = f) feature_display_names \<longleftrightarrow> f \<in> fst ` set feature_display_names"
  by (force simp: list_ex_iff)

text \<open>Every licensed feature is shown once.\<close>

lemma every_feature_is_shown_once:
  assumes "finite (features li)"
  shows "length (feature_words li) = card (features li)"
proof -
  let ?known = "fst ` set feature_display_names"
  have "length (filter (\<lambda>(key, name). HasFeature li key) feature_display_names)
      = length (filter (\<lambda>key. key \<in> features li) (map fst feature_display_names))"
    by (simp add: filter_map comp_def HasFeature_def split_def)
  also have "\<dots> = card (set (filter (\<lambda>key. key \<in> features li) (map fst feature_display_names)))"
    by (rule distinct_card [symmetric]) (simp add: feature_display_names_def)
  also have "set (filter (\<lambda>key. key \<in> features li) (map fst feature_display_names)) = features li \<inter> ?known"
    by auto
  finally have known: "length (filter (\<lambda>(key, name). HasFeature li key) feature_display_names) = card (features li \<inter> ?known)" .
  have "length (filter (\<lambda>f. f \<notin> ?known) (sorted_list_of_set (features li)))
      = card (set (filter (\<lambda>f. f \<notin> ?known) (sorted_list_of_set (features li))))"
    by (rule distinct_card [symmetric]) simp
  also have "set (filter (\<lambda>f. f \<notin> ?known) (sorted_list_of_set (features li))) = features li - ?known"
    using assms by auto
  finally have "length (feature_words li) = card (features li \<inter> ?known) + card (features li - ?known)"
    using known by (simp add: feature_words_def known_features)
  also have "\<dots> = card (features li)" using card_Int_Diff [OF assms] by simp
  finally show ?thesis .
qed

text \<open>A server that starts without a license file is the Core edition and has no enterprise feature.\<close>

lemma no_file_is_core:
  "Initialize_features decode verify claims now read_file [] None = (ok (), None)"
  "GetEditionName now None = ''Core''" "\<not> IsFeatureAvailable now None f"
  by (simp_all add: Initialize_features_def GetEditionName_def IsEnterpriseEdition_def HasValidLicense_def
      IsFeatureAvailable_def)

text \<open>The banner and the name of the edition agree: the enterprise text is printed for a license that has not expired.\<close>

lemma banner_of_the_edition:
  "take 20 (GetCopyrightBanner show_day year now cur)
     = (if GetEditionName now cur = ''Enterprise'' then ''GizmoSQL Enterprise '' else ''GizmoSQL Core - Copy'')"
  by (cases cur)
    (simp_all add: GetCopyrightBanner_def FormatLicenseForDisplay_def Let_def GetEditionName_def IsEnterpriseEdition_def
      HasValidLicense_def)

end
