(* ===== verification/Spec2Isabelle.thy ===== *)
theory Spec2Isabelle
  imports Service SqlInfo Process Connection SqliteService Logging Completer TypeInfo HostInfo Banner
begin

text \<open>
  A verification development for GizmoSQL, an Arrow Flight SQL server over DuckDB or SQLite with its command line
  client. The sources are under \<open>src/src/\<close>; paths below are relative to it. What is modelled is the Enterprise
  build on Linux.

  \<^bold>\<open>The program.\<close> \<open>gizmosql_server.cpp\<close> reads the command line and calls \<open>RunFlightSQLServer\<close> of
  \<open>common/gizmosql_library.cpp\<close>, which completes the options from the environment, checks the license, opens the
  backend, runs the initial commands, sets up authentication, OAuth, health checks and telemetry, and serves until it
  is told to stop. A call of a client passes the middleware of \<open>common/gizmosql_security.cpp\<close>, which turns a password
  or a token into a request context; the handlers of \<open>duckdb/duckdb_server.cpp\<close> find or make the session of that
  context and run statements (\<open>duckdb/duckdb_statement.cpp\<close>), whose text is first analysed for administrative
  commands and then checked against the catalogs the session may use. Sessions, statements and executions are recorded
  by the instrumentation manager in a database of its own, through a queue and a writer thread. The SQLite backend
  (\<open>sqlite/\<close>) answers the same protocol with its own statements. The client (\<open>client/\<close>) cuts its input into
  statements, runs them over a Flight connection and renders the tables that come back.

  \<^bold>\<open>Theories and sources.\<close>
    \<^item> \<^bold>\<open>Shared.\<close> \<open>Prelude\<close>: status and result values, byte strings. \<open>Interfaces\<close>: the locales of what both backends
      provide, tickets and maps of prepared handles; interpreted in \<open>Handlers\<close> and \<open>SqliteServer\<close>.
    \<^item> \<^bold>\<open>Identity and rights.\<close> \<open>SessionContext\<close> (\<open>request_ctx.h\<close>, \<open>session_context.h\<close>), \<open>Auth\<close> (\<open>gizmosql_security\<close>),
      \<open>Jwks\<close> (\<open>enterprise/jwks\<close>), \<open>OAuth\<close> (\<open>enterprise/oauth\<close>, \<open>client/oauth_flow.cpp\<close>), \<open>License\<close> and
      \<open>Banner\<close> (\<open>enterprise/license_mgr\<close>, \<open>enterprise_features\<close>), \<open>CatalogPermissions\<close> (\<open>enterprise/catalog_permissions\<close>).
    \<^item> \<^bold>\<open>The DuckDB server.\<close> \<open>Quoting\<close>, \<open>SqlText\<close> and \<open>Metadata\<close> (the texts of \<open>duckdb_statement.cpp\<close> and
      \<open>duckdb_server.cpp\<close>), \<open>Sessions\<close> (the registry and \<open>enterprise/kill_session\<close>), \<open>ArrowTypes\<close> (types and cells),
      \<open>Statement\<close>, \<open>Handlers\<close> (one definition for each command), \<open>Ingest\<close> (bulk ingestion), \<open>TypeInfo\<close>, \<open>SqlInfo\<close>,
      and \<open>Service\<close>, which puts the handlers together to one step over all calls.
    \<^item> \<^bold>\<open>The SQLite server.\<close> \<open>Sqlite\<close> (statements and readers), \<open>SqliteServer\<close> (connections, handles, transactions) and
      \<open>SqliteService\<close>, one step over all its calls.
    \<^item> \<^bold>\<open>The process.\<close> \<open>ServerMain\<close> (\<open>gizmosql_server.cpp\<close>), \<open>Options\<close>, \<open>Startup\<close>, \<open>Process\<close> (which puts the parts
      together), \<open>HostInfo\<close> (\<open>gizmosql_library.cpp\<close>),
      \<open>Instrumentation\<close> and \<open>InstrManager\<close> (\<open>enterprise/instrumentation\<close>), \<open>Logging\<close>, \<open>Health\<close>, \<open>Telemetry\<close>
      (\<open>common/\<close>).
    \<^item> \<^bold>\<open>The client.\<close> \<open>ClientConfig\<close>, \<open>SqlInput\<close>, \<open>Completer\<close>, \<open>Connection\<close>, \<open>Shell\<close>, \<open>Renderer\<close> (\<open>client/\<close>).

  \<^bold>\<open>State and operations.\<close> A class is a record of its fields, a method a function that takes and returns it. A shared
  pointer is an index into a list of objects (\<open>objs\<close> of the registry, \<open>sv_statements\<close>, \<open>im_store\<close>), so two holders
  see one object. Errors are the left side of \<open>'a result\<close> with Arrow's code and message; exceptions that leave a
  function are values as well. Threads are step relations over the critical sections of the source: the registry with
  any number of requests (\<open>rstep\<close>), OAuth callbacks and polls (\<open>ostep\<close>), the writer thread (\<open>wstep\<close>), the health
  poller and its streams. The versions of the health service's status are \<open>64 word\<close>; other machine integers
  are \<open>int\<close>, with the conversions of the source written out where they matter.

  \<^bold>\<open>What is a parameter.\<close> DuckDB (\<open>engine\<close>, \<open>ingest_api\<close>), SQLite (\<open>sqlite_lib\<close>), the Flight client (\<open>flight_lib\<close>),
  jwt-cpp and OpenSSL (\<open>auth_lib\<close>, \<open>decode\<close>, \<open>verify\<close>), the JSON and HTTP libraries, Boost's command line parser, the
  texts Arrow gives to values, the environment and the files of the host, clocks, random numbers and the order of
  unordered maps. Where a theorem needs more of one of them than its type, a named predicate says what
  (\<open>transactional\<close> for DuckDB's transactions, \<open>duckdb_values\<close> for the constructors of its values, \<open>fits\<close> for
  Boost's values), and a witness has an instance of it. A call of DuckDB has a beginning and an end, so that the
  interrupt of a timeout can fall before, into or behind it.

  \<^bold>\<open>What the lemmas show.\<close>
    \<^item> Who is admitted: a session token is only issued for the password or a valid bootstrap token, a call gets its
      session and identity from one valid token, a verification key is fresh, and a token that OAuth hands out was
      exchanged for that login, in every interleaving. Without a password no server starts, and one that
      stops leaves nothing running.
    \<^item> What a call may do: calls without a session have no effect; prepared statements passed the checks for the text
      that was prepared, on every catalog it touches; a killed session is not handed out again, and what a kill has
      done when it answers is stated in every interleaving. The gaps that remain are theorems too (several
      statements in one text, handles without a session).
    \<^item> What the server keeps: invariants of the registry and of transactions on SQLite; the handles and the table of logins refine abstract specifications; ingestion is all or nothing.
    \<^item> What is recorded: one record for each statement, one update for each execution; a shutdown runs every write that
      was queued when it began (a thread that queues one at that moment can lose it).
    \<^item> What comes back: every row of SQLite once and in order, the first rows in the shell, rectangular boxes, fields of
      a log line, session tokens, and connection addresses without reserved characters, that are read back; the scanners of the source are
      equal to lexers that read their input once.

  \<^bold>\<open>Loops.\<close> Loops over data are structural or have a measure. Those that may run for ever are partial functions into
  \<open>option\<close>: the initial commands (\<open>run_init\<close>), a SQLite update (\<open>step_to_done\<close>) and its reader of columns, the random
  handles (\<open>get_random_char\<close>) and the client waiting for a token (\<open>poll_from\<close>); for them it is proved when they return.
  The reader of separated fields in \<open>Renderer\<close> has the length of its text as fuel, since every line takes at least
  its end.

  \<^bold>\<open>Not modelled.\<close> The programs' terminal (password prompt, colours, line editor), the text of the OAuth pages'
  styles and logo, the schema script of the instrumentation database, log lines other than the logger itself, the
  build files and generated version constants, the Core build, and other operating systems: they decide nothing the
  modelled code depends on. Flight, gRPC and protocol buffers call the handlers and are not part of the sources; the
  scope of telemetry a method opens and the schemas and the serialisation of Arrow are theirs.
\<close>

end
